(* ===== verification/Prelude.thy ===== *)
theory Prelude
  imports Main "HOL-Library.Word"
begin

unbundle bit_operations_syntax

text \<open>
  Shared vocabulary of the development: Rust results, the error monad over an explicit
  world state, fixed-width integers and their big-endian bytes, subslice and array helpers,
  and the string functions of the Rust standard library that the code calls.

  \<^item> \<open>Ok\<close> / \<open>Err\<close> are the two sides of Rust's \<^verbatim>\<open>Result\<close>, a HOL sum with the error on
    the left.
  \<^item> A procedure \<open>('s, 'e, 'a) proc\<close> maps a world to \<open>Some\<close> outcome and world, or to
    \<open>None\<close> when it does not return (a loop that never ends).
  \<^item> \<open>proc_bind\<close> is the \<open>?\<close> operator: the first error ends the procedure.
\<close>

section \<open>Results\<close>

abbreviation Ok :: "'a \<Rightarrow> 'e + 'a" where "Ok \<equiv> Inr"
abbreviation Err :: "'e \<Rightarrow> 'e + 'a" where "Err \<equiv> Inl"

named_theorems proc_simps "unfolding of the procedure combinators"
named_theorems returns_intros "procedures that always return"
named_theorems byte_simps "lengths and contents of byte strings"

definition res_bind :: "'x + 'y \<Rightarrow> ('y \<Rightarrow> 'x + 'z) \<Rightarrow> 'x + 'z" where
  "res_bind r f = (case r of Err e \<Rightarrow> Err e | Ok x \<Rightarrow> f x)"

definition map_err :: "('e \<Rightarrow> 'f) \<Rightarrow> 'e + 'a \<Rightarrow> 'f + 'a" where
  "map_err f r = (case r of Err e \<Rightarrow> Err (f e) | Ok x \<Rightarrow> Ok x)"

definition ok_or :: "'e \<Rightarrow> 'a option \<Rightarrow> 'e + 'a" where
  "ok_or e r = (case r of None \<Rightarrow> Err e | Some x \<Rightarrow> Ok x)"

fun is_ok :: "'e + 'a \<Rightarrow> bool" where
  "is_ok (Err e) = False"
| "is_ok (Ok x) = True"

lemma res_bind_simps [simp]:
  "res_bind (Err e) f = Err e"
  "res_bind (Ok x) f = f x"
  by (simp_all add: res_bind_def)

lemma map_err_simps [simp]:
  "map_err g (Err e) = Err (g e)"
  "map_err g (Ok x) = Ok x"
  by (simp_all add: map_err_def)

lemma ok_or_simps [simp]:
  "ok_or e None = Err e"
  "ok_or e (Some x) = Ok x"
  by (simp_all add: ok_or_def)

lemma res_bind_Ok_iff: "res_bind r f = Ok y \<longleftrightarrow> (\<exists>x. r = Ok x \<and> f x = Ok y)"
  by (cases r) auto

lemma map_err_Ok_iff: "map_err g r = Ok y \<longleftrightarrow> r = Ok y"
  by (cases r) auto

lemma map_err_Err_iff: "map_err g r = Err e \<longleftrightarrow> (\<exists>e'. r = Err e' \<and> e = g e')"
  by (cases r) auto

lemma ok_or_Ok_iff: "ok_or e r = Ok y \<longleftrightarrow> r = Some y"
  by (cases r) auto

section \<open>Procedures over a world\<close>

type_synonym ('s, 'e, 'a) proc = "'s \<Rightarrow> (('e + 'a) \<times> 's) option"

definition ret :: "'a \<Rightarrow> ('s, 'e, 'a) proc" where
  "ret x = (\<lambda>s. Some (Ok x, s))"

definition throw :: "'e \<Rightarrow> ('s, 'e, 'a) proc" where
  "throw e = (\<lambda>s. Some (Err e, s))"

definition lift_res :: "'e + 'a \<Rightarrow> ('s, 'e, 'a) proc" where
  "lift_res r = (\<lambda>s. Some (r, s))"

definition proc_bind :: "('s, 'e, 'a) proc \<Rightarrow> ('a \<Rightarrow> ('s, 'e, 'b) proc) \<Rightarrow> ('s, 'e, 'b) proc" where
  "proc_bind m k = (\<lambda>s. case m s of
     None \<Rightarrow> None
   | Some (r, s') \<Rightarrow> (case r of Err e \<Rightarrow> Some (Err e, s') | Ok x \<Rightarrow> k x s'))"

definition proc_map_err :: "('e \<Rightarrow> 'f) \<Rightarrow> ('s, 'e, 'a) proc \<Rightarrow> ('s, 'f, 'a) proc" where
  "proc_map_err f m = (\<lambda>s. map_option (\<lambda>(r, s'). (map_err f r, s')) (m s))"

text \<open>\<open>proc_try m k\<close> inspects the whole result, as a \<^verbatim>\<open>match\<close> on the result does.\<close>

definition proc_try :: "('s, 'e, 'a) proc \<Rightarrow> ('e + 'a \<Rightarrow> ('s, 'f, 'b) proc) \<Rightarrow> ('s, 'f, 'b) proc" where
  "proc_try m k = (\<lambda>s. case m s of None \<Rightarrow> None | Some (r, s') \<Rightarrow> k r s')"

lemma ret_run [proc_simps]: "ret x s = Some (Ok x, s)"
  by (simp add: ret_def)

lemma throw_run [proc_simps]: "throw e s = Some (Err e, s)"
  by (simp add: throw_def)

lemma lift_res_run [proc_simps]: "lift_res r s = Some (r, s)"
  by (simp add: lift_res_def)

lemma lift_res_Ok [simp]: "lift_res (Ok x) = ret x"
  by (simp add: lift_res_def ret_def)

lemma lift_res_Err [simp]: "lift_res (Err e) = throw e"
  by (simp add: lift_res_def throw_def)

lemma proc_bind_ret [simp]: "proc_bind (ret x) k = k x"
  by (simp add: proc_bind_def ret_def)

lemma proc_bind_throw [simp]: "proc_bind (throw e) k = throw e"
  by (simp add: proc_bind_def throw_def)

lemma proc_bind_assoc: "proc_bind (proc_bind m k) h = proc_bind m (\<lambda>x. proc_bind (k x) h)"
  by (rule ext) (simp add: proc_bind_def split: option.split sum.split)

lemma proc_bind_ret_right [simp]: "proc_bind m ret = m"
  by (rule ext) (simp add: proc_bind_def ret_def split: option.split sum.split)

lemma proc_bind_None: "m s = None \<Longrightarrow> proc_bind m k s = None"
  by (simp add: proc_bind_def)

lemma proc_bind_Err: "m s = Some (Err e, s') \<Longrightarrow> proc_bind m k s = Some (Err e, s')"
  by (simp add: proc_bind_def)

lemma proc_bind_Ok: "m s = Some (Ok x, s') \<Longrightarrow> proc_bind m k s = k x s'"
  by (simp add: proc_bind_def)

lemmas proc_bind_run = proc_bind_None proc_bind_Err proc_bind_Ok

lemma proc_bind_Some_Ok:
  "proc_bind m k s = Some (Ok y, s') \<longleftrightarrow>
     (\<exists>x t. m s = Some (Ok x, t) \<and> k x t = Some (Ok y, s'))"
  by (auto simp: proc_bind_def split: option.splits sum.splits)

lemma proc_bind_Some_Err:
  "proc_bind m k s = Some (Err e, s') \<longleftrightarrow>
     m s = Some (Err e, s') \<or> (\<exists>x t. m s = Some (Ok x, t) \<and> k x t = Some (Err e, s'))"
  by (auto simp: proc_bind_def split: option.splits sum.splits)

lemma proc_map_err_ret [simp]: "proc_map_err f (ret x) = ret x"
  by (simp add: proc_map_err_def ret_def)

lemma proc_map_err_throw [simp]: "proc_map_err f (throw e) = throw (f e)"
  by (simp add: proc_map_err_def throw_def)

lemma proc_map_err_Some_Ok:
  "proc_map_err f m s = Some (Ok y, s') \<longleftrightarrow> m s = Some (Ok y, s')"
  by (auto simp: proc_map_err_def map_err_Ok_iff)

lemma proc_map_err_Some_Err:
  "proc_map_err f m s = Some (Err e, s') \<longleftrightarrow> (\<exists>e'. m s = Some (Err e', s') \<and> e = f e')"
  by (auto simp: proc_map_err_def map_err_Err_iff)

lemma proc_try_run:
  "m s = None \<Longrightarrow> proc_try m k s = None"
  "m s = Some (r, s') \<Longrightarrow> proc_try m k s = k r s'"
  by (simp_all add: proc_try_def)

lemma proc_try_Some: "proc_try m k w = Some res \<longleftrightarrow> (\<exists>r w1. m w = Some (r, w1) \<and> k r w1 = Some res)"
  by (auto simp: proc_try_def split: option.splits)

lemma lift_bind_Some_Ok:
  "proc_bind (lift_res r) k w = Some (Ok y, w') \<longleftrightarrow> (\<exists>x. r = Ok x \<and> k x w = Some (Ok y, w'))"
  by (cases r) (simp_all add: throw_run)

text \<open>A procedure \<open>returns\<close> when it gives an outcome from every world.\<close>

definition returns :: "('s, 'e, 'a) proc \<Rightarrow> bool" where
  "returns m \<longleftrightarrow> (\<forall>s. m s \<noteq> None)"

lemma returnsI:
  assumes "\<And>s. \<exists>r s'. m s = Some (r, s')"
  shows "returns m"
  using assms by (metis option.distinct(1) returns_def)

lemma returnsD: "returns m \<Longrightarrow> \<exists>r s'. m s = Some (r, s')"
  by (metis not_Some_eq returns_def surj_pair)

lemma returns_ret [returns_intros]: "returns (ret x)"
  by (simp add: returns_def ret_def)

lemma returns_throw [returns_intros]: "returns (throw e)"
  by (simp add: returns_def throw_def)

lemma returns_lift_res [returns_intros]: "returns (lift_res r)"
  by (simp add: returns_def lift_res_def)

lemma returns_bind [returns_intros]:
  assumes "returns m" and "\<And>x. returns (k x)"
  shows "returns (proc_bind m k)"
proof (rule returnsI)
  fix s
  from assms(1) obtain r s' where m: "m s = Some (r, s')"
    by (blast dest: returnsD)
  show "\<exists>r s'. proc_bind m k s = Some (r, s')"
  proof (cases r)
    case (Inl e)
    with m show ?thesis by (simp add: proc_bind_def)
  next
    case (Inr x)
    with m have "proc_bind m k s = k x s'" by (simp add: proc_bind_def)
    with returnsD [OF assms(2) [of x], of s'] show ?thesis by simp
  qed
qed

lemma returns_map_err [returns_intros]: "returns m \<Longrightarrow> returns (proc_map_err f m)"
  by (simp add: returns_def proc_map_err_def)

lemma returns_try [returns_intros]:
  assumes "returns m" and "\<And>r. returns (k r)"
  shows "returns (proc_try m k)"
  using assms by (auto simp: returns_def proc_try_def split: option.splits)

lemma returns_if [returns_intros]: "returns m \<Longrightarrow> returns n \<Longrightarrow> returns (if b then m else n)"
  by simp

lemma returns_case_option [returns_intros]:
  "returns m \<Longrightarrow> (\<And>x. returns (k x)) \<Longrightarrow> returns (case_option m k r)"
  by (cases r) auto

lemma returns_case_sum [returns_intros]:
  "(\<And>e. returns (m e)) \<Longrightarrow> (\<And>x. returns (k x)) \<Longrightarrow> returns (case_sum m k r)"
  by (cases r) auto

text \<open>\<^verbatim>\<open>unwrap\<close> and \<^verbatim>\<open>expect\<close>: a missing value panics, so the procedure does not return.\<close>

definition unwrap :: "'a option \<Rightarrow> ('s, 'e, 'a) proc" where
  "unwrap r = (\<lambda>s. map_option (\<lambda>x. (Ok x, s)) r)"

lemma unwrap_run [proc_simps]: "unwrap (Some x) s = Some (Ok x, s)" "unwrap None s = None"
  by (simp_all add: unwrap_def)

lemma unwrap_Some [simp]: "unwrap (Some x) = ret x"
  by (simp add: unwrap_def ret_def)

text \<open>
  \<open>wp m Q s\<close>: if \<open>m\<close> returns from \<open>s\<close>, its result and world satisfy \<open>Q\<close>.  One rewrite rule per
  combinator computes it, so a procedure is verified from the facts about the calls it makes.
\<close>

definition wp :: "('s, 'e, 'a) proc \<Rightarrow> ('e + 'a \<Rightarrow> 's \<Rightarrow> bool) \<Rightarrow> 's \<Rightarrow> bool" where
  "wp m Q s \<longleftrightarrow> (\<forall>r s'. m s = Some (r, s') \<longrightarrow> Q r s')"

named_theorems proc_wp "weakest preconditions of the combinators"

lemma wpD: "wp m Q s \<Longrightarrow> m s = Some (r, s') \<Longrightarrow> Q r s'"
  by (simp add: wp_def)

lemma wp_mono: "wp m P s \<Longrightarrow> (\<And>r s'. P r s' \<Longrightarrow> Q r s') \<Longrightarrow> wp m Q s"
  by (simp add: wp_def)

lemma wp_ret [proc_wp]: "wp (ret x) Q s = Q (Ok x) s"
  by (simp add: wp_def ret_def)

lemma wp_throw [proc_wp]: "wp (throw e) Q s = Q (Err e) s"
  by (simp add: wp_def throw_def)

lemma wp_lift_res [proc_wp]: "wp (lift_res r) Q s = Q r s"
  by (auto simp: wp_def lift_res_def)

lemma wp_unwrap [proc_wp]: "wp (unwrap v) Q s = (\<forall>x. v = Some x \<longrightarrow> Q (Ok x) s)"
  by (auto simp: wp_def unwrap_def)

lemma wp_bind [proc_wp]:
  "wp (proc_bind m k) Q s = wp m (\<lambda>r s'. case r of Err e \<Rightarrow> Q (Err e) s' | Ok x \<Rightarrow> wp (k x) Q s') s"
  by (auto simp: wp_def proc_bind_def split: option.splits sum.splits)

lemma wp_map_err [proc_wp]: "wp (proc_map_err f m) Q s = wp m (\<lambda>r s'. Q (map_err f r) s') s"
  by (auto simp: wp_def proc_map_err_def)

lemma wp_try [proc_wp]: "wp (proc_try m k) Q s = wp m (\<lambda>r s'. wp (k r) Q s') s"
  by (auto simp: wp_def proc_try_def split: option.splits)

text \<open>\<open>preserves f m\<close>: whatever \<open>m\<close> returns, it has not changed what \<open>f\<close> reads of the world.\<close>

definition preserves :: "('s \<Rightarrow> 'b) \<Rightarrow> ('s, 'e, 'a) proc \<Rightarrow> bool" where
  "preserves f m \<longleftrightarrow> (\<forall>s. wp m (\<lambda>_ s'. f s' = f s) s)"

named_theorems preserves_intros "procedures that leave a part of the world alone"

lemma preservesD: "preserves f m \<Longrightarrow> m s = Some (r, s') \<Longrightarrow> f s' = f s"
  by (auto simp: preserves_def wp_def)

lemma preserves_wp: "preserves f m \<Longrightarrow> (\<And>r s'. f s' = f s \<Longrightarrow> Q r s') \<Longrightarrow> wp m Q s"
  by (auto simp: preserves_def wp_def)

lemma preserves_ret [preserves_intros]: "preserves f (ret x)" "preserves f (throw e)" "preserves f (lift_res r)"
    "preserves f (unwrap v)"
  by (simp_all add: preserves_def proc_wp)

lemma preserves_bind [preserves_intros]:
  assumes "preserves f m" and "\<And>x. preserves f (k x)"
  shows "preserves f (proc_bind m k)"
  unfolding preserves_def wp_bind
  by (intro allI preserves_wp [OF assms(1)]) (auto split: sum.splits intro: preserves_wp [OF assms(2)])

lemma preserves_try [preserves_intros]:
  assumes "preserves f m" and "\<And>r. preserves f (k r)"
  shows "preserves f (proc_try m k)"
  unfolding preserves_def wp_try
  by (intro allI preserves_wp [OF assms(1)]) (auto intro: preserves_wp [OF assms(2)])

lemma preserves_map_err [preserves_intros]: "preserves f m \<Longrightarrow> preserves f (proc_map_err g m)"
  by (simp add: preserves_def wp_map_err)

lemma preserves_step [preserves_intros]: "(\<And>w. f (g w) = f w) \<Longrightarrow> preserves f (\<lambda>w. Some (r, g w))"
  by (simp add: preserves_def wp_def)

lemma preserves_if [preserves_intros]: "preserves f m \<Longrightarrow> preserves f n \<Longrightarrow> preserves f (if b then m else n)"
  by simp

lemma preserves_case_option [preserves_intros]:
  "preserves f m \<Longrightarrow> (\<And>x. preserves f (k x)) \<Longrightarrow> preserves f (case_option m k r)"
  by (cases r) auto

lemma preserves_case_sum [preserves_intros]:
  "(\<And>e. preserves f (m e)) \<Longrightarrow> (\<And>x. preserves f (k x)) \<Longrightarrow> preserves f (case_sum m k r)"
  by (cases r) auto

lemma preserves_case_prod [preserves_intros]: "(\<And>x y. preserves f (k x y)) \<Longrightarrow> preserves f (case_prod k r)"
  by (cases r) auto

section \<open>Machine integers and bytes\<close>

type_synonym byte = "8 word"
type_synonym u8 = "8 word"
type_synonym u16 = "16 word"
type_synonym u32 = "32 word"
type_synonym u64 = "64 word"

definition be_bytes16 :: "u16 \<Rightarrow> byte list" where
  "be_bytes16 w = [ucast (drop_bit 8 w), ucast w]"

definition be_bytes32 :: "u32 \<Rightarrow> byte list" where
  "be_bytes32 w = [ucast (drop_bit 24 w), ucast (drop_bit 16 w), ucast (drop_bit 8 w), ucast w]"

definition be_bytes64 :: "u64 \<Rightarrow> byte list" where
  "be_bytes64 w = [ucast (drop_bit 56 w), ucast (drop_bit 48 w), ucast (drop_bit 40 w),
     ucast (drop_bit 32 w), ucast (drop_bit 24 w), ucast (drop_bit 16 w), ucast (drop_bit 8 w),
     ucast w]"

fun from_be16 :: "byte list \<Rightarrow> u16" where
  "from_be16 [a, b] = push_bit 8 (ucast a) OR ucast b"
| "from_be16 _ = 0"

fun from_be32 :: "byte list \<Rightarrow> u32" where
  "from_be32 [a, b, c, d] =
     push_bit 24 (ucast a) OR push_bit 16 (ucast b) OR push_bit 8 (ucast c) OR ucast d"
| "from_be32 _ = 0"

lemma from_be16_be_bytes16 [simp]: "from_be16 (be_bytes16 w) = w"
  unfolding be_bytes16_def by simp (rule bit_word_eqI, auto simp: bit_simps)

lemma from_be32_be_bytes32 [simp]: "from_be32 (be_bytes32 w) = w"
proof (rule bit_word_eqI)
  fix n assume n: "n < LENGTH(32)"
  consider "n < 8" | "8 \<le> n" "n < 16" | "16 \<le> n" "n < 24" | "24 \<le> n" "n < 32"
    using n by fastforce
  then show "bit (from_be32 (be_bytes32 w)) n = bit w n"
    by cases (use n in \<open>auto simp: be_bytes32_def bit_simps\<close>)
qed

lemma length_be_bytes [simp]:
  "length (be_bytes16 a) = 2"
  "length (be_bytes32 b) = 4"
  "length (be_bytes64 c) = 8"
  by (simp_all add: be_bytes16_def be_bytes32_def be_bytes64_def)

lemma nibbles:
  "unat (drop_bit 4 (b :: byte)) < 16" "unat (b AND 15) < 16"
  "push_bit 4 (drop_bit 4 b) OR (b AND 15) = b"
proof -
  have "unat (drop_bit 4 b) = unat b div 16"
    using unsigned_drop_bit_eq [where 'b = 8 and 'a = nat, of 4 b] unsigned_less [where 'b = 8 and 'a = nat, of b]
    by (simp add: drop_bit_eq_div take_bit_eq_mod)
  then show "unat (drop_bit 4 b) < 16" using unsigned_less [where 'b = 8 and 'a = nat, of b] by simp
  have m: "b AND 15 = take_bit 4 b" by (simp add: take_bit_eq_mask mask_eq_exp_minus_1)
  have "unat (take_bit 4 b) = unat b mod 2 ^ 4"
    using unsigned_take_bit_eq [where 'a = nat and 'b = 8, of 4 b]
    by (rule trans) (rule take_bit_eq_mod)
  with m show "unat (b AND 15) < 16" by simp
  show "push_bit 4 (drop_bit 4 b) OR (b AND 15) = b"
    unfolding m by (rule bit_word_eqI) (auto simp: bit_simps)
qed

section \<open>Slices\<close>

text \<open>\<open>subslice i j xs\<close> is \<^verbatim>\<open>xs[i..j]\<close>, used only where the indices are in range;
  \<open>copy_at i src dst\<close> is \<^verbatim>\<open>dst[i..i + src.len()].copy_from_slice(src)\<close>.\<close>

definition subslice :: "nat \<Rightarrow> nat \<Rightarrow> 'a list \<Rightarrow> 'a list" where
  "subslice i j xs = take (j - i) (drop i xs)"

definition copy_at :: "nat \<Rightarrow> 'a list \<Rightarrow> 'a list \<Rightarrow> 'a list" where
  "copy_at i src dst = take i dst @ src @ drop (i + length src) dst"

lemma length_subslice [simp]: "length (subslice i j xs) = min (j - i) (length xs - i)"
  by (simp add: subslice_def)

lemma length_copy_at [simp]:
  "i + length src \<le> length dst \<Longrightarrow> length (copy_at i src dst) = length dst"
  by (simp add: copy_at_def)

lemma copy_at_fill [byte_simps]:
  "i = length xs \<Longrightarrow> copy_at i src (xs @ replicate n z) = xs @ src @ replicate (n - length src) z"
  by (simp add: copy_at_def)

lemma copy_at_fill0 [byte_simps]:
  "copy_at 0 src (replicate n z) = src @ replicate (n - length src) z"
  by (simp add: copy_at_def)

lemma update_fill [byte_simps]:
  "i = length xs \<Longrightarrow> 0 < n \<Longrightarrow> (xs @ replicate n z)[i := y] = xs @ y # replicate (n - 1) z"
  by (cases n) simp_all

lemma subslice_append_mid [byte_simps]:
  "i = length xs \<Longrightarrow> j = i + length ys \<Longrightarrow> subslice i j (xs @ ys @ zs) = ys"
  by (simp add: subslice_def)

lemma subslice_take_drop: "subslice i (i + n) xs = take n (drop i xs)"
  by (simp add: subslice_def)

section \<open>ASCII bytes\<close>

text \<open>\<^verbatim>\<open>to_ascii_uppercase\<close>, \<^verbatim>\<open>to_ascii_lowercase\<close> and \<^verbatim>\<open>eq_ignore_ascii_case\<close> on the bytes
  of a string; \<open>lit\<close> is a string literal as bytes.\<close>

definition ascii_upper :: "byte \<Rightarrow> byte" where
  "ascii_upper b = (if 0x61 \<le> b \<and> b \<le> 0x7a then b - 0x20 else b)"

definition ascii_lower :: "byte \<Rightarrow> byte" where
  "ascii_lower b = (if 0x41 \<le> b \<and> b \<le> 0x5a then b + 0x20 else b)"

definition eq_ignore_ascii_case :: "byte list \<Rightarrow> byte list \<Rightarrow> bool" where
  "eq_ignore_ascii_case xs ys \<longleftrightarrow> map ascii_lower xs = map ascii_lower ys"

definition lit :: "string \<Rightarrow> byte list" where
  "lit s = map of_char s"

section \<open>Decimal text\<close>

definition digit_char :: "nat \<Rightarrow> char" where
  "digit_char d = char_of (48 + d)"

fun show_nat :: "nat \<Rightarrow> string" where
  "show_nat n = (if n < 10 then [digit_char n] else show_nat (n div 10) @ [digit_char (n mod 10)])"

declare show_nat.simps [simp del]

section \<open>I/O errors\<close>

text \<open>\<^verbatim>\<open>std::io::Error\<close>: a kind and a message, which is also its \<^verbatim>\<open>Display\<close> text.  The kinds
  named here are those the code constructs or inspects; \<open>IoKindOther\<close> numbers the rest.\<close>

datatype io_kind = IoInvalidInput | IoInvalidData | IoInterrupted | IoNotFound | IoAlreadyExists | IoBrokenPipe | IoWriteZero
  | IoConnectionReset | IoUnexpectedEof | IoOther | IoKindOther nat

datatype io_error = IoError (io_kind_of: io_kind) (io_message: string)

section \<open>Codecs\<close>

text \<open>The contract of an encoder and its decoder, and of a decoder that accepts several
  spellings of each encoding.\<close>

locale codec =
  fixes enc :: "'a \<Rightarrow> 'b" and dec :: "'b \<Rightarrow> 'e + 'a"
  assumes dec_enc: "dec (enc x) = Ok x"
begin

lemma enc_inject: "enc x = enc y \<longleftrightarrow> x = y"
  by (metis dec_enc sum.inject(2))

end

locale spelled_codec = codec +
  fixes canon :: "'b \<Rightarrow> 'b"
  assumes dec_spelling: "dec s = Ok x \<longleftrightarrow> canon s = enc x"
begin

lemma dec_same_iff: "dec s = Ok x \<Longrightarrow> dec t = Ok x \<longleftrightarrow> canon t = canon s"
  by (simp add: dec_spelling)

lemma dec_rejects: "(\<exists>e. dec s = Err e) \<longleftrightarrow> canon s \<notin> range enc"
proof -
  have "(\<exists>e. dec s = Err e) \<longleftrightarrow> \<not> (\<exists>x. dec s = Ok x)" by (cases "dec s") simp_all
  then show ?thesis by (auto simp: dec_spelling)
qed

end

end
