(* ===== verification/Strings.thy ===== *)
theory Strings
  imports Prelude
begin

unbundle bit_operations_syntax

text \<open>
  The functions of Rust's \<^verbatim>\<open>str\<close> that the code calls, on the UTF-8 bytes of a string:
  validation, \<^verbatim>\<open>trim\<close>, \<^verbatim>\<open>strip_prefix\<close>, \<^verbatim>\<open>split_once\<close>, \<^verbatim>\<open>split\<close> and \<^verbatim>\<open>parse\<close> for unsigned
  integers.
\<close>

section \<open>UTF-8\<close>

definition utf8_cont :: "byte \<Rightarrow> bool" where
  "utf8_cont b \<longleftrightarrow> 0x80 \<le> b \<and> b \<le> 0xbf"

text \<open>The length of the well-formed sequence at the head of the input, 0 when there is none.\<close>

definition utf8_seq :: "byte list \<Rightarrow> nat" where
  "utf8_seq bs = (case bs of
     [] \<Rightarrow> 0
   | a # rest \<Rightarrow>
       if a < 0x80 then 1
       else (case rest of
         [] \<Rightarrow> 0
       | b # rest \<Rightarrow>
           if 0xc2 \<le> a \<and> a \<le> 0xdf then (if utf8_cont b then 2 else 0)
           else (case rest of
             [] \<Rightarrow> 0
           | c # rest \<Rightarrow>
               if 0xe0 \<le> a \<and> a \<le> 0xef
               then (if utf8_cont b \<and> utf8_cont c \<and> (a = 0xe0 \<longrightarrow> 0xa0 \<le> b) \<and> (a = 0xed \<longrightarrow> b \<le> 0x9f)
                     then 3 else 0)
               else (case rest of
                 [] \<Rightarrow> 0
               | d # rest \<Rightarrow>
                   if 0xf0 \<le> a \<and> a \<le> 0xf4 \<and> utf8_cont b \<and> utf8_cont c \<and> utf8_cont d
                      \<and> (a = 0xf0 \<longrightarrow> 0x90 \<le> b) \<and> (a = 0xf4 \<longrightarrow> b \<le> 0x8f)
                   then 4 else 0))))"

function utf8_valid :: "byte list \<Rightarrow> bool" where
  "utf8_valid bs = (if bs = [] then True
     else if utf8_seq bs = 0 then False else utf8_valid (drop (utf8_seq bs) bs))"
  by pat_completeness auto
termination by (relation "measure length") auto

declare utf8_valid.simps [simp del]

lemma utf8_valid_Nil [simp]: "utf8_valid []"
  by (simp add: utf8_valid.simps)

lemma utf8_valid_ascii_Cons [simp]: "b < 0x80 \<Longrightarrow> utf8_valid (b # bs) = utf8_valid bs"
  by (subst utf8_valid.simps) (simp add: utf8_seq_def)

lemma utf8_valid_ascii: "\<forall>b \<in> set bs. b < 0x80 \<Longrightarrow> utf8_valid bs"
  by (induction bs) simp_all

lemma utf8_seq_le: "utf8_seq bs \<le> length bs"
  by (auto simp: utf8_seq_def split: list.split)

lemma utf8_seq_append:
  assumes "xs \<noteq> []" and "b < 0x80"
  shows "utf8_seq (xs @ b # ys) = utf8_seq xs"
proof -
  have b: "\<not> utf8_cont b" using assms(2) by (auto simp: utf8_cont_def)
  show ?thesis
  proof (cases xs)
    case (Cons x xs')
    show ?thesis
    proof (cases xs')
      case Nil
      then show ?thesis using b Cons by (simp add: utf8_seq_def split: list.split)
    next
      case C2: (Cons x2 xs2)
      show ?thesis
      proof (cases xs2)
        case Nil
        then show ?thesis using b Cons C2 by (simp add: utf8_seq_def split: list.split)
      next
        case C3: (Cons x3 xs3)
        then show ?thesis using b Cons C2 by (simp add: utf8_seq_def split: list.split)
      qed
    qed
  qed (use assms in simp)
qed

text \<open>An ASCII byte is a character boundary.\<close>

lemma utf8_valid_split:
  assumes "b < 0x80"
  shows "utf8_valid (xs @ b # ys) \<longleftrightarrow> utf8_valid xs \<and> utf8_valid ys"
proof (induction xs rule: utf8_valid.induct)
  case (1 xs)
  show ?case
  proof (cases "xs = [] \<or> utf8_seq xs = 0")
    case True
    then show ?thesis
      using assms utf8_seq_append [of xs b ys]
      by (cases "xs = []") (simp_all add: utf8_valid.simps [of "xs @ b # ys"] utf8_valid.simps [of xs])
  next
    case False
    then have "utf8_valid (xs @ b # ys) \<longleftrightarrow> utf8_valid (drop (utf8_seq xs) xs @ b # ys)"
      using utf8_seq_append [of xs b ys] assms utf8_seq_le [of xs]
      by (subst utf8_valid.simps) simp
    also have "\<dots> \<longleftrightarrow> utf8_valid (drop (utf8_seq xs) xs) \<and> utf8_valid ys"
      using 1 False by simp
    also have "utf8_valid (drop (utf8_seq xs) xs) \<longleftrightarrow> utf8_valid xs"
      using False by (subst (2) utf8_valid.simps) simp
    finally show ?thesis .
  qed
qed

text \<open>
  \<^verbatim>\<open>String::from_utf8_lossy\<close>: every maximal prefix of a well-formed sequence that is not
  completed, and every byte that starts none, becomes U+FFFD.
\<close>

definition replacement_char :: "byte list" where
  "replacement_char = [0xef, 0xbf, 0xbd]"

definition utf8_lead :: "byte \<Rightarrow> byte \<Rightarrow> bool" where
  "utf8_lead a b \<longleftrightarrow> utf8_cont b
     \<and> ((0xe0 \<le> a \<and> a \<le> 0xef \<and> (a = 0xe0 \<longrightarrow> 0xa0 \<le> b) \<and> (a = 0xed \<longrightarrow> b \<le> 0x9f))
       \<or> (0xf0 \<le> a \<and> a \<le> 0xf4 \<and> (a = 0xf0 \<longrightarrow> 0x90 \<le> b) \<and> (a = 0xf4 \<longrightarrow> b \<le> 0x8f)))"

definition utf8_invalid_len :: "byte list \<Rightarrow> nat" where
  "utf8_invalid_len bs = (case bs of
     a # b # c # rest \<Rightarrow> if utf8_lead a b then (if 0xf0 \<le> a \<and> utf8_cont c then 3 else 2) else 1
   | [a, b] \<Rightarrow> if utf8_lead a b then 2 else 1
   | _ \<Rightarrow> 1)"

function utf8_lossy :: "byte list \<Rightarrow> byte list" where
  "utf8_lossy bs = (if bs = [] then []
     else if utf8_seq bs = 0 then replacement_char @ utf8_lossy (drop (utf8_invalid_len bs) bs)
     else take (utf8_seq bs) bs @ utf8_lossy (drop (utf8_seq bs) bs))"
  by pat_completeness auto
termination
  by (relation "measure length") (auto simp: utf8_invalid_len_def split: list.split)

declare utf8_lossy.simps [simp del]

lemma utf8_lossy_valid: "utf8_valid bs \<Longrightarrow> utf8_lossy bs = bs"
proof (induction bs rule: utf8_lossy.induct)
  case (1 bs)
  show ?case
  proof (cases "bs = []")
    case True
    then show ?thesis by (simp add: utf8_lossy.simps)
  next
    case False
    with "1.prems" have "utf8_seq bs \<noteq> 0" "utf8_valid (drop (utf8_seq bs) bs)"
      by (auto simp: utf8_valid.simps [of bs] split: if_splits)
    with "1.IH"(2) False show ?thesis by (simp add: utf8_lossy.simps [of bs])
  qed
qed

section \<open>Slicing strings\<close>

definition strip_prefix :: "byte list \<Rightarrow> byte list \<Rightarrow> byte list option" where
  "strip_prefix p s = (if take (length p) s = p then Some (drop (length p) s) else None)"

definition split_once :: "byte \<Rightarrow> byte list \<Rightarrow> (byte list \<times> byte list) option" where
  "split_once b s = (if b \<in> set s
     then Some (takeWhile (\<lambda>x. x \<noteq> b) s, tl (dropWhile (\<lambda>x. x \<noteq> b) s)) else None)"

fun split_on :: "byte \<Rightarrow> byte list \<Rightarrow> byte list list" where
  "split_on b [] = [[]]"
| "split_on b (x # xs) =
     (if x = b then [] # split_on b xs
      else (case split_on b xs of [] \<Rightarrow> [[x]] | f # fs \<Rightarrow> (x # f) # fs))"

lemma strip_prefix_append [simp]: "strip_prefix p (p @ s) = Some s"
  by (simp add: strip_prefix_def)

lemma strip_prefix_Some: "strip_prefix p s = Some t \<longleftrightarrow> s = p @ t"
  by (metis append_take_drop_id strip_prefix_append option.distinct(1) option.inject strip_prefix_def)

lemma while_append:
  "b \<notin> set xs \<Longrightarrow> takeWhile (\<lambda>x. x \<noteq> b) (xs @ b # ys) = xs"
  "b \<notin> set xs \<Longrightarrow> dropWhile (\<lambda>x. x \<noteq> b) (xs @ b # ys) = b # ys"
  by (induction xs) auto

lemma split_once_append [simp]: "b \<notin> set xs \<Longrightarrow> split_once b (xs @ b # ys) = Some (xs, ys)"
  by (simp add: split_once_def while_append)

lemma split_once_None [simp]: "b \<notin> set xs \<Longrightarrow> split_once b xs = None"
  by (simp add: split_once_def)

lemma split_once_Some:
  "split_once b s = Some (x, y) \<longleftrightarrow> s = x @ b # y \<and> b \<notin> set x"
proof
  assume "split_once b s = Some (x, y)"
  then have m: "b \<in> set s" and xy: "x = takeWhile (\<lambda>x. x \<noteq> b) s" "y = tl (dropWhile (\<lambda>x. x \<noteq> b) s)"
    by (auto simp: split_once_def split: if_splits)
  from m obtain u v where s: "s = u @ b # v" "b \<notin> set u"
    by (meson split_list_first)
  then have "takeWhile (\<lambda>x. x \<noteq> b) s = u" "dropWhile (\<lambda>x. x \<noteq> b) s = b # v"
    by (simp_all add: while_append)
  with xy s show "s = x @ b # y \<and> b \<notin> set x" by simp
qed auto

lemma split_on_single: "b \<notin> set xs \<Longrightarrow> split_on b xs = [xs]"
  by (induction xs) auto

lemma split_on_append [simp]: "b \<notin> set xs \<Longrightarrow> split_on b (xs @ b # ys) = xs # split_on b ys"
  by (induction xs) auto

section \<open>Searching\<close>

text \<open>\<^verbatim>\<open>find\<close>, \<^verbatim>\<open>contains\<close>, \<^verbatim>\<open>matches(..).count()\<close>, \<^verbatim>\<open>starts_with\<close> and \<^verbatim>\<open>ends_with\<close> with a
  string pattern.\<close>

fun find_sub :: "byte list \<Rightarrow> byte list \<Rightarrow> nat option" where
  "find_sub pat [] = (if pat = [] then Some 0 else None)"
| "find_sub pat (x # xs) =
     (if take (length pat) (x # xs) = pat then Some 0 else map_option Suc (find_sub pat xs))"

definition contains_sub :: "byte list \<Rightarrow> byte list \<Rightarrow> bool" where
  "contains_sub pat s \<longleftrightarrow> find_sub pat s \<noteq> None"

definition starts_with :: "byte list \<Rightarrow> byte list \<Rightarrow> bool" where
  "starts_with pat s \<longleftrightarrow> take (length pat) s = pat"

definition ends_with :: "byte list \<Rightarrow> byte list \<Rightarrow> bool" where
  "ends_with pat s \<longleftrightarrow> length pat \<le> length s \<and> drop (length s - length pat) s = pat"

lemma find_sub_bound: "find_sub pat s = Some n \<Longrightarrow> n + length pat \<le> length s"
proof (induction s arbitrary: n)
  case (Cons x xs)
  show ?case
  proof (cases "take (length pat) (x # xs) = pat")
    case True
    then have "length pat \<le> length (x # xs)" by (metis length_take min.cobounded1)
    with True Cons show ?thesis by simp
  next
    case False
    with Cons show ?thesis by auto
  qed
qed (auto split: if_splits)

lemma find_sub_skip:
  "p \<notin> set xs \<Longrightarrow> find_sub (p # ps) (xs @ ys) = map_option (\<lambda>n. length xs + n) (find_sub (p # ps) ys)"
  by (induction xs; cases "find_sub (p # ps) ys") auto

lemma find_sub_here: "find_sub pat (pat @ ys) = Some 0"
proof (cases "pat @ ys")
  case (Cons a l)
  then have "take (length pat) (a # l) = pat" by (metis append_eq_conv_conj)
  with Cons show ?thesis by simp
qed simp

lemma find_sub_absent: "p \<notin> set xs \<Longrightarrow> find_sub (p # ps) xs = None"
  by (induction xs) auto

text \<open>Non-overlapping occurrences\<close>

function count_sub :: "byte list \<Rightarrow> byte list \<Rightarrow> nat" where
  "count_sub pat s = (if pat = [] then length s + 1
     else (case find_sub pat s of None \<Rightarrow> 0 | Some n \<Rightarrow> Suc (count_sub pat (drop (n + length pat) s))))"
  by pat_completeness auto
termination
proof (relation "measure (\<lambda>(pat, s). length s)")
  fix pat s :: "byte list" and n
  assume "pat \<noteq> []" "find_sub pat s = Some n"
  with find_sub_bound [of pat s n] show "((pat, drop (n + length pat) s), pat, s) \<in> measure (\<lambda>(pat, s). length s)"
    by (cases pat) auto
qed simp

declare count_sub.simps [simp del]

section \<open>Trimming\<close>

text \<open>The UTF-8 encodings of the characters with the Unicode property \<^verbatim>\<open>White_Space\<close>.\<close>

definition white_chars :: "byte list list" where
  "white_chars =
     [[0x09], [0x0a], [0x0b], [0x0c], [0x0d], [0x20], [0xc2, 0x85], [0xc2, 0xa0],
      [0xe1, 0x9a, 0x80], [0xe2, 0x80, 0x80], [0xe2, 0x80, 0x81], [0xe2, 0x80, 0x82],
      [0xe2, 0x80, 0x83], [0xe2, 0x80, 0x84], [0xe2, 0x80, 0x85], [0xe2, 0x80, 0x86],
      [0xe2, 0x80, 0x87], [0xe2, 0x80, 0x88], [0xe2, 0x80, 0x89], [0xe2, 0x80, 0x8a],
      [0xe2, 0x80, 0xa8], [0xe2, 0x80, 0xa9], [0xe2, 0x80, 0xaf], [0xe2, 0x81, 0x9f],
      [0xe3, 0x80, 0x80]]"

function strip_chars :: "byte list list \<Rightarrow> byte list \<Rightarrow> byte list" where
  "strip_chars cs s = (case find (\<lambda>c. c \<noteq> [] \<and> take (length c) s = c) cs of
     None \<Rightarrow> s | Some c \<Rightarrow> strip_chars cs (drop (length c) s))"
  by pat_completeness auto
termination
proof (relation "measure (\<lambda>(cs, s). length s)")
  fix cs s c
  assume "find (\<lambda>c. c \<noteq> [] \<and> take (length c) s = c) cs = Some c"
  then have "c \<noteq> []" "take (length c) s = c" by (auto simp: find_Some_iff)
  then have "0 < length c" "0 < length s" by (cases s; force)+
  then show "((cs, drop (length c) s), cs, s) \<in> measure (\<lambda>(cs, s). length s)" by simp
qed simp

declare strip_chars.simps [simp del]

definition trim_start :: "byte list \<Rightarrow> byte list" where
  "trim_start s = strip_chars white_chars s"

definition trim_end :: "byte list \<Rightarrow> byte list" where
  "trim_end s = rev (strip_chars (map rev white_chars) (rev s))"

definition trim :: "byte list \<Rightarrow> byte list" where
  "trim s = trim_end (trim_start s)"

lemma strip_chars_id:
  assumes "\<forall>c \<in> set cs. c = [] \<or> hd c \<noteq> b"
  shows "strip_chars cs (b # s) = b # s"
proof -
  have "find (\<lambda>c. c \<noteq> [] \<and> take (length c) (b # s) = c) cs = None"
    using assms by (auto simp: find_None_iff) (metis list.sel(1) take_Cons')
  then show ?thesis by (simp add: strip_chars.simps [of cs])
qed

text \<open>\<^verbatim>\<open>chars().filter(|c| !c.is_whitespace())\<close>\<close>

function remove_white :: "byte list \<Rightarrow> byte list" where
  "remove_white s = (case find (\<lambda>c. c \<noteq> [] \<and> take (length c) s = c) white_chars of
     Some c \<Rightarrow> remove_white (drop (length c) s)
   | None \<Rightarrow> (case s of [] \<Rightarrow> [] | b # bs \<Rightarrow> b # remove_white bs))"
  by pat_completeness auto
termination
proof (relation "measure length")
  fix s c
  assume "find (\<lambda>c. c \<noteq> [] \<and> take (length c) s = c) white_chars = Some c"
  then have "c \<noteq> []" "take (length c) s = c" by (auto simp: find_Some_iff)
  then have "0 < length c" "0 < length s" by (cases s; force)+
  then show "(drop (length c) s, s) \<in> measure length" by simp
qed simp_all

declare remove_white.simps [simp del]

text \<open>Text between visible ASCII characters is not trimmed.\<close>

definition visible :: "byte \<Rightarrow> bool" where
  "visible b \<longleftrightarrow> 0x21 \<le> b \<and> b \<le> 0x7e"

lemma trim_visible:
  assumes "visible (hd s)" and "visible (last s)" and "s \<noteq> []"
  shows "trim s = s"
proof -
  have hd: "\<forall>c \<in> set white_chars. c = [] \<or> hd c \<noteq> b" if "visible b" for b
    using that by (auto simp: white_chars_def visible_def)
  have last: "\<forall>c \<in> set (map rev white_chars). c = [] \<or> hd c \<noteq> b" if "visible b" for b
    using that by (auto simp: white_chars_def visible_def)
  obtain b t where s: "s = b # t" using assms(3) by (cases s) auto
  then have 1: "trim_start s = s"
    using hd [of b] assms(1) by (simp add: trim_start_def strip_chars_id)
  obtain u where r: "rev s = last s # u"
    using assms(3) by (metis append_butlast_last_id rev_eq_Cons_iff rev_rev_ident)
  have "strip_chars (map rev white_chars) (rev s) = rev s"
    unfolding r by (rule strip_chars_id [OF last [OF assms(2)]])
  then have "trim_end s = s" by (simp add: trim_end_def)
  with 1 show ?thesis by (simp add: trim_def)
qed

lemma white_chars_visible: "visible b \<Longrightarrow> \<forall>c \<in> set white_chars. c = [] \<or> hd c \<noteq> b"
  by (auto simp: white_chars_def visible_def)

lemma remove_white_visible: "visible b \<Longrightarrow> remove_white (b # s) = b # remove_white s"
proof -
  assume "visible b"
  then have "find (\<lambda>c. c \<noteq> [] \<and> take (length c) (b # s) = c) white_chars = None"
    using white_chars_visible [of b] by (auto simp: find_None_iff) (metis list.sel(1) take_Cons')
  then show ?thesis by (simp add: remove_white.simps [of "b # s"])
qed

lemma remove_white_newline: "remove_white (0x0a # s) = remove_white s"
proof -
  have "find (\<lambda>c. c \<noteq> [] \<and> take (length c) (0x0a # s) = c) white_chars = Some [0x0a]"
    by (simp add: white_chars_def)
  then show ?thesis by (simp add: remove_white.simps [of "0x0a # s"])
qed

lemma remove_white_Nil: "remove_white [] = []"
proof -
  have "find (\<lambda>c. c \<noteq> [] \<and> take (length c) [] = c) white_chars = None" by (simp add: find_None_iff)
  then show ?thesis by (simp add: remove_white.simps [of "[]"])
qed

section \<open>Unsigned integers\<close>

text \<open>\<^verbatim>\<open>str::parse\<close> for \<^verbatim>\<open>u8\<close> and \<^verbatim>\<open>u32\<close>: one optional \<open>+\<close>, at least one digit, and an
  error on overflow.\<close>

fun parse_digits :: "nat \<Rightarrow> nat \<Rightarrow> byte list \<Rightarrow> nat option" where
  "parse_digits m acc [] = Some acc"
| "parse_digits m acc (b # bs) =
     (if 0x30 \<le> b \<and> b \<le> 0x39
      then let acc = acc * 10 + unat (b - 0x30) in
        if acc \<le> m then parse_digits m acc bs else None
      else None)"

definition parse_unsigned :: "nat \<Rightarrow> byte list \<Rightarrow> nat option" where
  "parse_unsigned m s =
    (let digits = (case s of b # bs \<Rightarrow> if b = 0x2b then bs else s | [] \<Rightarrow> s) in
     if digits = [] then None else parse_digits m 0 digits)"

definition parse_u8 :: "byte list \<Rightarrow> nat option" where "parse_u8 = parse_unsigned (2 ^ 8 - 1)"
definition parse_u32 :: "byte list \<Rightarrow> nat option" where "parse_u32 = parse_unsigned (2 ^ 32 - 1)"

lemma parse_digits_append:
  "parse_digits m acc (xs @ ys) =
     (case parse_digits m acc xs of None \<Rightarrow> None | Some acc \<Rightarrow> parse_digits m acc ys)"
  by (induction xs arbitrary: acc) (auto simp: Let_def)

lemma parse_digits_bound: "parse_digits m acc s = Some n \<Longrightarrow> acc \<le> m \<Longrightarrow> n \<le> m"
  by (induction s arbitrary: acc) (auto simp: Let_def split: if_splits)

lemma parse_unsigned_bound: "parse_unsigned m s = Some n \<Longrightarrow> n \<le> m"
  by (auto simp: parse_unsigned_def Let_def split: if_splits intro: parse_digits_bound)

lemma digit_byte:
  "n < 10 \<Longrightarrow> (of_char (digit_char n) :: byte) = 0x30 + word_of_nat n"
proof -
  assume "n < 10"
  then have "(of_char (digit_char n) :: nat) = 48 + n" by (simp add: digit_char_def)
  then have "word_of_nat (of_char (digit_char n)) = (0x30 + word_of_nat n :: byte)" by simp
  then show ?thesis by (simp only: of_nat_of_char)
qed

lemma digit_byte_range:
  assumes "n < 10"
  shows "0x30 \<le> (0x30 + word_of_nat n :: byte)" "(0x30 + word_of_nat n :: byte) \<le> 0x39"
    "unat (0x30 + word_of_nat n - 0x30 :: byte) = n"
proof -
  have u: "unat (word_of_nat n :: byte) = n" using assms by (simp add: unat_of_nat)
  with assms show "0x30 \<le> (0x30 + word_of_nat n :: byte)" "(0x30 + word_of_nat n :: byte) \<le> 0x39"
    by (simp_all add: word_le_nat_alt unat_word_ariths)
  show "unat (0x30 + word_of_nat n - 0x30 :: byte) = n" using u by simp
qed

lemma parse_digits_show:
  assumes "n \<le> m"
  shows "parse_digits m 0 (lit (show_nat n)) = Some n"
  using assms
proof (induction n rule: show_nat.induct)
  case (1 n)
  show ?case
  proof (cases "n < 10")
    case True
    then have "lit (show_nat n) = [0x30 + word_of_nat n]"
      by (simp add: show_nat.simps [of n] lit_def digit_byte)
    then show ?thesis using 1 True digit_byte_range [of n] by simp
  next
    case False
    then have "lit (show_nat n) = lit (show_nat (n div 10)) @ [0x30 + word_of_nat (n mod 10)]"
      by (simp add: show_nat.simps [of n] lit_def digit_byte)
    moreover have "parse_digits m 0 (lit (show_nat (n div 10))) = Some (n div 10)"
      using 1 False by simp
    ultimately show ?thesis
      using 1(2) digit_byte_range [of "n mod 10"] by (simp add: parse_digits_append)
  qed
qed

lemma show_nat_digits: "\<forall>b \<in> set (lit (show_nat n)). 0x30 \<le> b \<and> b \<le> 0x39"
proof (induction n rule: show_nat.induct)
  case (1 n)
  then show ?case
    using digit_byte_range [of n] digit_byte_range [of "n mod 10"]
    by (cases "n < 10") (auto simp: show_nat.simps [of n] lit_def digit_byte)
qed

lemma show_nat_nonempty: "lit (show_nat n) \<noteq> []"
  by (simp add: lit_def show_nat.simps [of n])

lemma parse_unsigned_show: "n \<le> m \<Longrightarrow> parse_unsigned m (lit (show_nat n)) = Some n"
  using show_nat_digits [of n] show_nat_nonempty [of n] parse_digits_show [of n m]
  by (cases "lit (show_nat n)") (auto simp: parse_unsigned_def Let_def)

section \<open>Hexadecimal text\<close>

text \<open>Two lower-case digits per byte, as \<^verbatim>\<open>{:02x}\<close> prints them, and \<^verbatim>\<open>u8::from_str_radix(.., 16)\<close> on two
  characters, which accepts a leading plus sign.\<close>

definition hex_char :: "byte \<Rightarrow> byte" where
  "hex_char d = (if d < 10 then 0x30 + d else 0x57 + d)"

definition hex_text :: "byte list \<Rightarrow> byte list" where
  "hex_text bs = concat (map (\<lambda>b. [hex_char (drop_bit 4 b), hex_char (b AND 15)]) bs)"

definition hex_val :: "byte \<Rightarrow> byte option" where
  "hex_val b =
    (if 0x30 \<le> b \<and> b \<le> 0x39 then Some (b - 0x30)
     else if 0x61 \<le> b \<and> b \<le> 0x66 then Some (b - 0x57)
     else if 0x41 \<le> b \<and> b \<le> 0x46 then Some (b - 0x37) else None)"

definition hex_pair :: "byte \<Rightarrow> byte \<Rightarrow> byte option" where
  "hex_pair a b =
    (if a = 0x2b then hex_val b
     else Option.bind (hex_val a) (\<lambda>h. map_option (\<lambda>l. push_bit 4 h OR l) (hex_val b)))"

fun hex_decode :: "byte list \<Rightarrow> byte list option" where
  "hex_decode [] = Some []"
| "hex_decode [a] = None"
| "hex_decode (a # b # rest) =
     Option.bind (hex_pair a b) (\<lambda>x. map_option ((#) x) (hex_decode rest))"

lemma hex_char_val:
  assumes "unat d < 16"
  shows "hex_val (hex_char d) = Some d" "hex_char d \<noteq> 0x2b" "visible (hex_char d)"
proof -
  have d: "d < 16" using assms by (simp add: word_less_nat_alt)
  have low: "0x30 \<le> 0x30 + d" "0x30 + d \<le> 0x39" if "d < 10"
    using that by (unat_arith; simp)+
  have high: "0x61 \<le> 0x57 + d" "0x57 + d \<le> 0x66" if "\<not> d < 10"
    using that d by (unat_arith; simp)+
  have out: "\<not> 0x57 + d \<le> 0x39" if "\<not> d < 10"
    using order.trans [of "0x61" "0x57 + d" "0x39"] high [OF that] by auto
  show "hex_val (hex_char d) = Some d"
    using low high out by (cases "d < 10") (simp_all add: hex_char_def hex_val_def)
  have "0x30 \<le> hex_char d \<and> hex_char d \<le> 0x66"
    using low high order.trans [of "0x30 + d" "0x39" "0x66"] order.trans [of "0x30" "0x61" "0x57 + d"]
    by (cases "d < 10") (auto simp: hex_char_def)
  then have range: "0x30 \<le> hex_char d" "hex_char d \<le> 0x66" by simp_all
  from range(1) show "hex_char d \<noteq> 0x2b" by auto
  from range show "visible (hex_char d)"
    using order.trans [of "0x21" "0x30" "hex_char d"] order.trans [of "hex_char d" "0x66" "0x7e"]
    by (simp add: visible_def)
qed

lemma hex_decode_text: "hex_decode (hex_text bs) = Some bs"
proof (induction bs)
  case (Cons b bs)
  then show ?case
    using hex_char_val [OF nibbles(1) [of b]] hex_char_val [OF nibbles(2) [of b]] nibbles(3) [of b]
    by (simp add: hex_text_def hex_pair_def)
qed (simp add: hex_text_def)

lemma hex_text_visible: "\<forall>c \<in> set (hex_text bs). visible c"
  by (induction bs) (auto simp: hex_text_def hex_char_val nibbles)

lemma length_hex_text [simp]: "length (hex_text bs) = 2 * length bs"
  by (induction bs) (simp_all add: hex_text_def)

end
