(* ===== verification/Drive.thy ===== *)
theory Drive
  imports Prelude
begin

text \<open>
  The session layer of \<^verbatim>\<open>crates/ckman-core/src/lib.rs\<close>: driving one libcanokey operation over a
  raw transport.  libcanokey is not part of the repository.  Its operations are objects with
  four methods (\<^verbatim>\<open>start\<close>, \<^verbatim>\<open>command\<close>, \<^verbatim>\<open>advance\<close>, \<^verbatim>\<open>take_result\<close>), modelled as a codatatype with
  one field per method and no assumption on what the methods do; a method that updates the
  object returns the next object.  \<open>lib_error\<close> is its error value, with the fields the code
  reads; a phase or reference of \<open>None\<close> is the one \<^verbatim>\<open>Error::new\<close> leaves.
\<close>

section \<open>Library errors\<close>

datatype error_kind =
    AuthenticationFailed | CapabilityUnknown | ConditionsNotSatisfied | DeviceAuthenticationFailed
  | InvalidArgument | InvalidPin | InvalidResponse | NotFound | PinBlocked
  | SecurityStatusNotSatisfied | UnexpectedStatusWord | UnsupportedAlgorithm | UnsupportedDevice
  | UnsupportedFeature | OtherKind nat

datatype phase =
    PhaseConstruction | PhaseSelect | PhaseAuthentication | PhaseCommand | PhaseParsing
  | OtherPhase nat

datatype secret_reference = RefPin | RefPuk | RefAdminPin | RefOathAccess | RefManagementKey
  | RefPw nat | RefResetCode | OtherReference nat

record lib_error =
  err_kind :: error_kind
  err_phase :: "phase option"
  err_reference :: "secret_reference option"
  err_status_word :: "u16 option"
  err_retries :: "nat option"
  err_application :: "8 word option"

definition new_error :: "error_kind \<Rightarrow> lib_error" where
  "new_error k = \<lparr>err_kind = k, err_phase = None, err_reference = None, err_status_word = None, err_retries = None,
     err_application = None\<rparr>"

definition at_phase :: "lib_error \<Rightarrow> phase \<Rightarrow> lib_error" where
  "at_phase e p = e\<lparr>err_phase := Some p\<rparr>"

text \<open>An opaque device profile, and a failure of the host's random generator.\<close>

datatype device_profile = DeviceProfile nat

datatype random_error = RandomError nat

section \<open>Operations\<close>

datatype step = StepExchange | StepComplete

codatatype 't operation = Operation
  (op_start: "(lib_error + step) \<times> 't operation")
  (op_command: "lib_error + byte list")
  (op_advance: "byte list \<Rightarrow> (lib_error + step) \<times> 't operation")
  (op_take_result: "lib_error + 't")

datatype 'e drive_error = Transport 'e | Protocol lib_error

type_synonym ('w, 'e) exchange = "byte list \<Rightarrow> ('w, 'e, byte list) proc"

text \<open>The \<^verbatim>\<open>while step == Step::Exchange\<close> loop and the final \<^verbatim>\<open>take_result\<close>.  A library
  operation that asks for exchanges forever does not return.\<close>

partial_function (option) drive_loop ::
  "('w, 'e) exchange \<Rightarrow> 't operation \<Rightarrow> step \<Rightarrow> 'w \<Rightarrow> (('e drive_error + 't) \<times> 'w) option" where
  "drive_loop exchange oper st w =
    (if st = StepExchange
     then (case op_command oper of
         Err e \<Rightarrow> Some (Err (Protocol e), w)
       | Ok command \<Rightarrow> (case exchange command w of
           None \<Rightarrow> None
         | Some (Err e, w) \<Rightarrow> Some (Err (Transport e), w)
         | Some (Ok response, w) \<Rightarrow> (case op_advance oper response of
             (Err e, oper) \<Rightarrow> Some (Err (Protocol e), w)
           | (Ok st, oper) \<Rightarrow> drive_loop exchange oper st w)))
     else Some (map_err Protocol (op_take_result oper), w))"

definition execute :: "'t operation \<Rightarrow> ('w, 'e) exchange \<Rightarrow> ('w, 'e drive_error, 't) proc" where
  "execute oper exchange = (\<lambda>w. case op_start oper of
     (Err e, oper) \<Rightarrow> Some (Err (Protocol e), w)
   | (Ok st, oper) \<Rightarrow> drive_loop exchange oper st w)"

text \<open>\<^verbatim>\<open>canokey::probe_device(ProbeOptions::default())\<close> is the argument.\<close>

definition probe :: "lib_error + 'p operation \<Rightarrow> ('w, 'e) exchange \<Rightarrow> ('w, 'e drive_error, 'p) proc" where
  "probe probe_device exchange =
     proc_bind (lift_res (map_err Protocol probe_device)) (\<lambda>oper. execute oper exchange)"

section \<open>The protocol of an operation\<close>

text \<open>
  The specification: \<open>op_run oper st tr r\<close> holds when an operation at step \<open>st\<close> that sees exactly the
  exchanges \<open>tr\<close> (each a command with the transport's answer) has the outcome \<open>r\<close>.  Each
  command of the operation occurs once, in order; nothing follows a failed exchange.
\<close>

inductive op_run ::
  "'t operation \<Rightarrow> step \<Rightarrow> (byte list \<times> ('e + byte list)) list \<Rightarrow> 'e drive_error + 't \<Rightarrow> bool" where
  op_complete: "op_run oper StepComplete [] (map_err Protocol (op_take_result oper))"
| op_no_command: "op_command oper = Err e \<Longrightarrow> op_run oper StepExchange [] (Err (Protocol e))"
| op_transport: "op_command oper = Ok c \<Longrightarrow> op_run oper StepExchange [(c, Err e)] (Err (Transport e))"
| op_refused: "op_command oper = Ok c \<Longrightarrow> op_advance oper resp = (Err e, oper')
    \<Longrightarrow> op_run oper StepExchange [(c, Ok resp)] (Err (Protocol e))"
| op_next: "op_command oper = Ok c \<Longrightarrow> op_advance oper resp = (Ok st, oper')
    \<Longrightarrow> op_run oper' st tr r \<Longrightarrow> op_run oper StepExchange ((c, Ok resp) # tr) r"

inductive_cases op_run_completeE [elim!]: "op_run oper StepComplete tr r"
inductive_cases op_run_exchangeE [elim!]: "op_run oper StepExchange tr r"

text \<open>An exchange that records what it did.\<close>

definition recorded :: "('w, 'e) exchange \<Rightarrow> ('w \<times> (byte list \<times> ('e + byte list)) list, 'e) exchange" where
  "recorded exchange c = (\<lambda>(w, log). map_option (\<lambda>(r, w). (r, (w, log @ [(c, r)]))) (exchange c w))"

definition logged :: "(byte list \<times> ('e + byte list)) list \<Rightarrow> 't operation \<Rightarrow> step
    \<Rightarrow> ('e drive_error + 't) \<times> ('w \<times> (byte list \<times> ('e + byte list)) list) \<Rightarrow> bool" where
  "logged log oper st res \<longleftrightarrow> (\<exists>tr. snd (snd res) = log @ tr \<and> op_run oper st tr (fst res))"

lemma logged_step:
  assumes "logged (log @ [(c, Ok resp)]) oper' st' res"
    and "op_command oper = Ok c" and "op_advance oper resp = (Ok st', oper')"
  shows "logged log oper StepExchange res"
proof -
  from assms(1) obtain tr where "snd (snd res) = log @ (c, Ok resp) # tr" "op_run oper' st' tr (fst res)"
    by (auto simp: logged_def)
  with op_next [OF assms(2,3)] show ?thesis unfolding logged_def by blast
qed

lemma logged_body:
  assumes "\<And>ex oper st wl res. loop ex oper st wl = Some res
      \<Longrightarrow> ex = recorded exchange \<longrightarrow> logged (snd wl) oper st res"
    and "(if st = StepExchange
     then (case op_command oper of
         Err e \<Rightarrow> Some (Err (Protocol e), wl)
       | Ok command \<Rightarrow> (case ex command wl of
           None \<Rightarrow> None
         | Some (Err e, w) \<Rightarrow> Some (Err (Transport e), w)
         | Some (Ok response, w) \<Rightarrow> (case op_advance oper response of
             (Err e, oper) \<Rightarrow> Some (Err (Protocol e), w)
           | (Ok st, oper) \<Rightarrow> loop ex oper st w)))
     else Some (map_err Protocol (op_take_result oper), wl)) = Some res"
    and "ex = recorded exchange"
  shows "logged (snd wl) oper st res"
proof -
  obtain w log where wl: "wl = (w, log)" by (cases wl)
  show ?thesis
  proof (cases st)
    case StepComplete
    with assms(2) have "res = (map_err Protocol (op_take_result oper), wl)" by simp
    with StepComplete op_complete show ?thesis by (auto simp: logged_def)
  next
    case StepExchange
    show ?thesis
    proof (cases "op_command oper")
      case (Inl e)
      with assms(2) StepExchange have "res = (Err (Protocol e), wl)" by simp
      with StepExchange Inl op_no_command show ?thesis by (auto simp: logged_def)
    next
      case (Inr c)
      with assms(2,3) StepExchange wl obtain r w' where ex: "exchange c w = Some (r, w')"
        by (auto simp: recorded_def split: option.splits)
      show ?thesis
      proof (cases r)
        case (Inl e)
        with assms(2,3) StepExchange wl Inr ex have "res = (Err (Transport e), (w', log @ [(c, Err e)]))"
          by (simp add: recorded_def)
        with StepExchange wl op_transport [OF Inr] show ?thesis by (auto simp: logged_def)
      next
        case R: (Inr resp)
        obtain a oper' where adv: "op_advance oper resp = (a, oper')" by (cases "op_advance oper resp")
        show ?thesis
        proof (cases a)
          case (Inl e)
          with assms(2,3) StepExchange wl Inr ex R adv
          have "res = (Err (Protocol e), (w', log @ [(c, Ok resp)]))" by (simp add: recorded_def)
          with StepExchange wl adv op_refused [OF Inr] Inl show ?thesis by (auto simp: logged_def)
        next
          case (Inr st')
          with assms(2,3) StepExchange wl \<open>op_command oper = Ok c\<close> ex R adv
          have "loop ex oper' st' (w', log @ [(c, Ok resp)]) = Some res" by (simp add: recorded_def)
          from assms(1) [OF this] assms(3) have "logged (log @ [(c, Ok resp)]) oper' st' res" by simp
          from logged_step [OF this \<open>op_command oper = Ok c\<close>] adv Inr StepExchange wl
          show ?thesis by simp
        qed
      qed
    qed
  qed
qed

lemma drive_loop_logged:
  assumes "drive_loop ex oper st wl = Some res" and "ex = recorded exchange"
  shows "logged (snd wl) oper st res"
proof -
  have "ex = recorded exchange \<longrightarrow> logged (snd wl) oper st res"
    apply (rule drive_loop.raw_induct [OF _ assms(1),
          where P = "\<lambda>ex oper st wl res. ex = recorded exchange \<longrightarrow> logged (snd wl) oper st res"])
    subgoal premises prems for loop ex oper st wl res
      using prems(2) logged_body [OF prems(1)] by blast
    done
  with assms(2) show ?thesis by blast
qed

text \<open>An operation that asks for finitely many exchanges, whatever the answers\<close>

inductive op_ends :: "'t operation \<Rightarrow> step \<Rightarrow> bool" where
  ends_complete: "op_ends oper StepComplete"
| ends_exchange: "(\<And>resp st oper'. op_advance oper resp = (Ok st, oper') \<Longrightarrow> op_ends oper' st)
    \<Longrightarrow> op_ends oper StepExchange"

lemma drive_loop_returns:
  assumes "op_ends oper st" and "\<And>c. returns (exchange c)"
  shows "drive_loop exchange oper st w \<noteq> None"
  using assms(1)
proof (induction arbitrary: w)
  case (ends_complete oper)
  show ?case by (subst drive_loop.simps) simp
next
  case (ends_exchange oper)
  show ?case
  proof (cases "op_command oper")
    case (Inr c)
    obtain r w' where ex: "exchange c w = Some (r, w')" using returnsD [OF assms(2)] by blast
    show ?thesis
    proof (cases r)
      case R: (Inr resp)
      obtain a oper' where "op_advance oper resp = (a, oper')" by (cases "op_advance oper resp")
      with ends_exchange.IH ex Inr R show ?thesis
        by (subst drive_loop.simps) (auto split: sum.split)
    qed (use ex Inr in \<open>subst drive_loop.simps, simp\<close>)
  qed (subst drive_loop.simps, simp)
qed

lemma execute_returns:
  assumes "\<And>st oper'. op_start oper = (Ok st, oper') \<Longrightarrow> op_ends oper' st" and "\<And>c. returns (exchange c)"
  shows "returns (execute oper exchange)"
  unfolding returns_def execute_def
  using assms drive_loop_returns [of _ _ exchange] by (auto split: prod.split sum.split)

text \<open>What the exchange leaves alone, the operation leaves alone.\<close>

lemma preserves_body:
  assumes loop: "\<And>oper st w res. loop oper st w = Some res \<Longrightarrow> f (snd res) = f w"
    and body: "(if st = StepExchange
     then (case op_command oper of
         Err e \<Rightarrow> Some (Err (Protocol e), w)
       | Ok command \<Rightarrow> (case exchange command w of
           None \<Rightarrow> None
         | Some (Err e, w) \<Rightarrow> Some (Err (Transport e), w)
         | Some (Ok response, w) \<Rightarrow> (case op_advance oper response of
             (Err e, oper) \<Rightarrow> Some (Err (Protocol e), w)
           | (Ok st, oper) \<Rightarrow> loop oper st w)))
     else Some (map_err Protocol (op_take_result oper), w)) = Some res"
    and exchange: "\<And>c. preserves f (exchange c)"
  shows "f (snd res) = f w"
proof (cases "st = StepExchange \<and> is_ok (op_command oper)")
  case False
  with body show ?thesis by (cases "op_command oper") (auto split: if_splits)
next
  case True
  then obtain c where c: "st = StepExchange" "op_command oper = Ok c" by (cases "op_command oper") auto
  with body obtain r w' where ex: "exchange c w = Some (r, w')" by (auto split: option.splits)
  have same: "f w' = f w" by (rule preservesD [OF exchange ex])
  obtain a oper' where adv: "op_advance oper (projr r) = (a, oper')" by (cases "op_advance oper (projr r)")
  show ?thesis
    using body c ex same adv loop by (cases r; cases a) auto
qed

lemma drive_loop_preserves:
  assumes "drive_loop exchange oper st w = Some res" and "\<And>c. preserves f (exchange c)"
  shows "f (snd res) = f w"
proof -
  have "(\<forall>c. preserves f (exchange c)) \<longrightarrow> f (snd res) = f w"
    apply (rule drive_loop.raw_induct [OF _ assms(1),
          where P = "\<lambda>ex oper st w res. (\<forall>c. preserves f (ex c)) \<longrightarrow> f (snd res) = f w"])
    subgoal premises prems for loop ex oper st w res
      using preserves_body [where loop = "loop ex" and exchange = ex and f = f, OF _ prems(2)] prems(1) by blast
    done
  with assms(2) show ?thesis by blast
qed

lemma preserves_execute [preserves_intros]:
  assumes "\<And>c. preserves f (exchange c)"
  shows "preserves f (execute oper exchange)"
  using drive_loop_preserves [OF _ assms]
  by (auto simp: preserves_def wp_def execute_def split: prod.splits sum.splits)

lemma preserves_probe [preserves_intros]:
  assumes "\<And>c. preserves f (exchange c)"
  shows "preserves f (probe device exchange)"
  unfolding probe_def by (intro preserves_intros assms)

text \<open>An operation with one exchange: a command and the reading of its response.\<close>

primcorec done_operation :: "lib_error + 't \<Rightarrow> 't operation" where
  "done_operation r = Operation (Ok StepComplete, done_operation r) (Err (new_error InvalidArgument))
     (\<lambda>_. (Ok StepComplete, done_operation r)) r"

primcorec single_operation :: "byte list \<Rightarrow> (byte list \<Rightarrow> lib_error + 't) \<Rightarrow> 't operation" where
  "single_operation c f = Operation (Ok StepExchange, single_operation c f) (Ok c)
     (\<lambda>resp. (Ok StepComplete, done_operation (f resp))) (Err (new_error InvalidArgument))"

section \<open>Properties\<close>

text \<open>C11. Driving an operation follows its protocol exactly: the exchanges performed are one run of
  the operation, each command sent once and in order, nothing is sent after a transport failure
  or a refused response, and the result is that of the run.\<close>

theorem execute_follows_protocol:
  assumes "op_start oper = (Ok st, oper')"
    and "execute oper (recorded exchange) (w, []) = Some (r, (w', tr))"
  shows "op_run oper' st tr r"
proof -
  have "drive_loop (recorded exchange) oper' st (w, []) = Some (r, (w', tr))"
    using assms by (simp add: execute_def)
  from drive_loop_logged [OF this refl] show ?thesis by (simp add: logged_def)
qed

theorem execute_follows_protocol_witness:
  "op_run (single_operation [1] Ok) StepExchange [([1], Ok [0x90, 0])] (Ok [0x90, 0] :: string drive_error + byte list)"
proof (rule execute_follows_protocol)
  show "op_start (single_operation [1] (Ok :: byte list \<Rightarrow> lib_error + byte list))
      = (Ok StepExchange, single_operation [1] Ok)" by simp
  show "execute (single_operation [1] Ok) (recorded (\<lambda>c w. Some (Ok [0x90, 0], w))) ((), []) =
      Some (Ok [0x90, 0] :: string drive_error + byte list, ((), [([1], Ok [0x90, 0])]))"
    by (simp add: execute_def recorded_def drive_loop.simps)
qed

end
