(* ===== verification/Cli.thy ===== *)
theory Cli
  imports Strings Drive
begin

text \<open>
  The shared layer of the command-line program: reader selection and probing of
  \<^verbatim>\<open>crates/ckman/src/commands/mod.rs\<close> over the PC/SC transport of
  \<^verbatim>\<open>crates/ckman-transport/src/pcsc.rs\<close>, prompts, the retry with an Admin PIN, and the reading of
  secret input of \<^verbatim>\<open>commands/input.rs\<close>.  An error of the program is its message, as bytes of UTF-8.
  The PC/SC service, the terminal and Unicode case mapping are parameters.
\<close>

section \<open>Environment\<close>

type_synonym message = "byte list"

datatype pcsc_error = NoSmartcard | NoReadersAvailable | OtherPcsc nat

datatype admin_pin = AdminPin (admin_pin_bytes: "byte list")

record 'w cli_env =
  pc_establish :: "('w, pcsc_error, unit) proc"
  pc_list_readers :: "('w, pcsc_error, byte list list) proc"
  pc_connect :: "byte list \<Rightarrow> ('w, pcsc_error, nat) proc"
  pc_atr :: "nat \<Rightarrow> ('w, pcsc_error, byte list) proc"
  pc_transmit :: "nat \<Rightarrow> byte list \<Rightarrow> ('w, pcsc_error, byte list) proc"
  show_pcsc :: "pcsc_error \<Rightarrow> string"
  probe_device :: "lib_error + device_profile operation"
  serial_bytes :: "device_profile \<Rightarrow> byte list option"
  show_lib_error :: "lib_error \<Rightarrow> string"
  admin_pin_from_bytes :: "byte list \<Rightarrow> lib_error + admin_pin"
  unicode_lower :: "byte list \<Rightarrow> byte list"
  rpassword :: "byte list \<Rightarrow> ('w, io_error, byte list) proc"
  stdin_line :: "('w, io_error, byte list) proc"
  stdout_write :: "byte list \<Rightarrow> ('w, io_error, unit) proc"
  stdout_flush :: "('w, io_error, unit) proc"
  stderr_print :: "byte list \<Rightarrow> 'w \<Rightarrow> 'w"
  stderr_flush :: "('w, io_error, unit) proc"

text \<open>The \<open>?\<close> operator on an I/O result: the message is the error's text.\<close>

definition io_result :: "('w, io_error, 'a) proc \<Rightarrow> ('w, message, 'a) proc" where
  "io_result m = proc_map_err (\<lambda>e. lit (io_message e)) m"

definition pcsc_result :: "'w cli_env \<Rightarrow> ('w, pcsc_error, 'a) proc \<Rightarrow> ('w, message, 'a) proc" where
  "pcsc_result env m = proc_map_err (\<lambda>e. lit (''PC/SC error: '' @ show_pcsc env e)) m"

section \<open>The PC/SC transport\<close>

definition is_no_smartcard :: "pcsc_error \<Rightarrow> bool" where
  "is_no_smartcard e \<longleftrightarrow> e = NoSmartcard"

text \<open>A reader is its C string.\<close>

definition reader_name :: "byte list \<Rightarrow> byte list" where
  "reader_name raw = (if utf8_valid raw then raw else lit ''<invalid reader name>'')"

definition looks_like_canokey :: "byte list \<Rightarrow> bool" where
  "looks_like_canokey raw = contains_sub (lit ''canokey'') (map ascii_lower (reader_name raw))"

definition readers :: "'w cli_env \<Rightarrow> ('w, pcsc_error, byte list list) proc" where
  "readers env = proc_try (pc_list_readers env) (\<lambda>r. case r of
     Ok names \<Rightarrow> ret names
   | Err e \<Rightarrow> if e = NoReadersAvailable then ret [] else throw e)"

record connection =
  conn_card :: nat
  conn_reader :: "byte list"
  conn_atr :: "byte list"

definition connect_reader :: "'w cli_env \<Rightarrow> byte list \<Rightarrow> ('w, pcsc_error, connection) proc" where
  "connect_reader env reader =
     proc_bind (pc_connect env reader) (\<lambda>c.
     proc_bind (pc_atr env c) (\<lambda>atr.
     ret \<lparr>conn_card = c, conn_reader = reader_name reader, conn_atr = atr\<rparr>))"

definition is_canokey :: "connection \<Rightarrow> bool" where
  "is_canokey c \<longleftrightarrow> contains_sub (lit ''canokey'') (map ascii_lower (conn_reader c))
     \<or> contains_sub (lit ''canokey'') (map ascii_lower (conn_atr c))"

definition conn_exchange :: "'w cli_env \<Rightarrow> connection \<Rightarrow> ('w, io_error) exchange" where
  "conn_exchange env c command =
     proc_map_err (\<lambda>e. IoError IoOther (show_pcsc env e)) (pc_transmit env (conn_card c) command)"

section \<open>Error messages\<close>

definition needs_admin_pin :: "'e drive_error \<Rightarrow> bool" where
  "needs_admin_pin error = (case error of
     Protocol e \<Rightarrow> err_kind e = SecurityStatusNotSatisfied
       \<or> (err_kind e = AuthenticationFailed \<and> err_reference e = Some RefAdminPin)
   | Transport _ \<Rightarrow> False)"

definition describe_drive_error :: "'w cli_env \<Rightarrow> io_error drive_error \<Rightarrow> message" where
  "describe_drive_error env error = (case error of
     Transport e \<Rightarrow> lit (''transport exchange failed: '' @ io_message e)
   | Protocol e \<Rightarrow>
       if err_kind e = CapabilityUnknown then lit ''unrecognized firmware; refusing to attempt the operation''
       else if err_kind e = UnsupportedFeature then lit ''this firmware does not support the operation''
       else if err_kind e = AuthenticationFailed
       then (case err_retries e of
           Some retries \<Rightarrow> lit (''incorrect PIN ('' @ show_nat retries @ '' attempts remaining)'')
         | None \<Rightarrow> lit ''incorrect PIN'')
       else if err_kind e = PinBlocked
       then (if err_reference e = Some RefAdminPin then lit ''the Admin PIN is blocked'' else lit ''the PIN is blocked'')
       else if err_kind e = SecurityStatusNotSatisfied then lit ''the operation requires authentication''
       else if err_kind e = UnsupportedDevice then lit ''the applet is disabled or absent on this device''
       else lit (''protocol error: '' @ show_lib_error env e))"

section \<open>Targets\<close>

record target =
  tg_connection :: connection
  tg_profile :: device_profile

definition target_serial :: "'w cli_env \<Rightarrow> target \<Rightarrow> u32 option" where
  "target_serial env t = (case serial_bytes env (tg_profile t) of
     Some bytes \<Rightarrow> if length bytes = 4 then Some (from_be32 bytes) else None
   | None \<Rightarrow> None)"

definition reader_matches :: "'w cli_env \<Rightarrow> byte list \<Rightarrow> byte list \<Rightarrow> bool" where
  "reader_matches env name filter_text = contains_sub (unicode_lower env filter_text) (unicode_lower env name)"

definition probe_reader :: "'w cli_env \<Rightarrow> byte list \<Rightarrow> ('w, message, target) proc" where
  "probe_reader env reader =
     proc_bind (proc_map_err (\<lambda>e. lit ''cannot connect to reader '' @ reader_name reader
         @ lit ('': PC/SC error: '' @ show_pcsc env e)) (connect_reader env reader)) (\<lambda>c.
     if \<not> is_canokey c then throw (lit ''no CanoKey found in reader '' @ reader_name reader)
     else proc_bind (proc_map_err (\<lambda>e. lit ''cannot probe CanoKey in reader '' @ reader_name reader
         @ lit '': '' @ describe_drive_error env e) (probe (probe_device env) (conn_exchange env c))) (\<lambda>profile.
       ret \<lparr>tg_connection = c, tg_profile = profile\<rparr>))"

text \<open>The best-effort loop of listing.\<close>

fun probe_matching :: "'w cli_env \<Rightarrow> byte list option \<Rightarrow> byte list list \<Rightarrow> ('w, message, target list) proc" where
  "probe_matching env name [] = ret []"
| "probe_matching env name (r # rs) =
    (if (case name of Some n \<Rightarrow> \<not> reader_matches env (reader_name r) n | None \<Rightarrow> False)
     then probe_matching env name rs
     else proc_try (probe_reader env r) (\<lambda>t.
       proc_bind (probe_matching env name rs) (\<lambda>ts.
       ret (case t of Ok t \<Rightarrow> t # ts | Err _ \<Rightarrow> ts))))"

definition targets_matching_reader :: "'w cli_env \<Rightarrow> byte list option \<Rightarrow> ('w, message, target list) proc" where
  "targets_matching_reader env name =
     proc_bind (pcsc_result env (readers env)) (probe_matching env name)"

definition all_targets :: "'w cli_env \<Rightarrow> ('w, message, target list) proc" where
  "all_targets env = targets_matching_reader env None"

fun selection_targets :: "'r list \<Rightarrow> ('r \<Rightarrow> ('w, message, 't option) proc) \<Rightarrow> ('w, message, 't list) proc" where
  "selection_targets [] candidate = ret []"
| "selection_targets (r # rs) candidate =
     proc_bind (candidate r) (\<lambda>t.
     proc_bind (selection_targets rs candidate) (\<lambda>ts.
     ret (case t of Some t \<Rightarrow> t # ts | None \<Rightarrow> ts)))"

definition only_match :: "'t list \<Rightarrow> message \<Rightarrow> message \<Rightarrow> message + 't" where
  "only_match matches missing ambiguous = (case matches of
     [] \<Rightarrow> Err missing | [t] \<Rightarrow> Ok t | _ \<Rightarrow> Err ambiguous)"

text \<open>The closure that \<^verbatim>\<open>single_target\<close> passes to the selection loop.\<close>

definition selection_candidate :: "'w cli_env \<Rightarrow> byte list \<Rightarrow> ('w, message, target option) proc" where
  "selection_candidate env reader = proc_try (connect_reader env reader) (\<lambda>r. case r of
     Err e \<Rightarrow>
       if is_no_smartcard e then ret None
       else throw (lit ''cannot determine whether reader '' @ reader_name reader
         @ lit ('' contains another CanoKey: PC/SC error: '' @ show_pcsc env e)
         @ lit ''; select a reader explicitly with --reader'')
   | Ok c \<Rightarrow>
       if \<not> is_canokey c then ret None
       else proc_bind (proc_map_err (\<lambda>e. lit ''cannot probe CanoKey in reader '' @ reader_name reader
           @ lit '': '' @ describe_drive_error env e @ lit ''; select a reader explicitly with --reader'')
           (probe (probe_device env) (conn_exchange env c))) (\<lambda>profile.
         ret (Some \<lparr>tg_connection = c, tg_profile = profile\<rparr>)))"

definition single_target :: "'w cli_env \<Rightarrow> u32 option \<Rightarrow> byte list option \<Rightarrow> ('w, message, target) proc" where
  "single_target env device reader = (case reader of
     Some name \<Rightarrow>
       proc_bind (pcsc_result env (readers env)) (\<lambda>rs.
       proc_bind (lift_res (only_match (filter (\<lambda>r. reader_matches env (reader_name r) name) rs)
         (lit ''no such reader: '' @ name)
         (lit ''multiple readers match '' @ name @ lit ''; use a more specific --reader''))) (probe_reader env))
   | None \<Rightarrow>
       proc_bind (pcsc_result env (readers env)) (\<lambda>rs.
       proc_bind (selection_targets rs (selection_candidate env)) (\<lambda>targets.
       case device of
         Some serial \<Rightarrow> lift_res (only_match (filter (\<lambda>t. target_serial env t = Some serial) targets)
           (lit (''no CanoKey with serial number '' @ show_nat (unat serial) @ '' found''))
           (lit (''multiple CanoKeys have serial number '' @ show_nat (unat serial) @ ''; select one with --reader'')))
       | None \<Rightarrow> (case targets of
           [] \<Rightarrow> throw (lit ''no CanoKey found'')
         | [t] \<Rightarrow> ret t
         | _ \<Rightarrow> throw (lit ''multiple CanoKeys found; use --device or --reader to select one'')))))"

section \<open>Prompts\<close>

definition prompt_password :: "'w cli_env \<Rightarrow> byte list \<Rightarrow> ('w, message, byte list) proc" where
  "prompt_password env prompt =
     proc_map_err (\<lambda>e. lit ''cannot prompt for input ('' @ [0x22] @ prompt @ [0x22]
       @ lit (''): '' @ io_message e @ ''; is a terminal attached?'')) (rpassword env prompt)"

definition prompt_admin_pin :: "'w cli_env \<Rightarrow> ('w, message, admin_pin) proc" where
  "prompt_admin_pin env =
     proc_bind (prompt_password env (lit ''Admin PIN: '')) (\<lambda>entered.
     lift_res (map_err (\<lambda>e. lit (show_lib_error env e)) (admin_pin_from_bytes env entered)))"

definition with_admin_pin_retry ::
  "'w cli_env \<Rightarrow> admin_pin option \<Rightarrow> (admin_pin option \<Rightarrow> ('w, io_error drive_error, 'a) proc) \<Rightarrow> ('w, message, 'a) proc" where
  "with_admin_pin_retry env pin operation = (case pin of
     Some p \<Rightarrow> proc_map_err (describe_drive_error env) (operation (Some p))
   | None \<Rightarrow> proc_try (operation None) (\<lambda>r. case r of
       Ok x \<Rightarrow> ret x
     | Err e \<Rightarrow>
         if needs_admin_pin e
         then proc_bind (prompt_admin_pin env) (\<lambda>p.
           proc_map_err (describe_drive_error env) (operation (Some p)))
         else throw (describe_drive_error env e)))"

definition prompt_line_from ::
  "('w, io_error, byte list) proc \<Rightarrow> (byte list \<Rightarrow> ('w, io_error, unit) proc) \<Rightarrow> ('w, io_error, unit) proc
    \<Rightarrow> byte list \<Rightarrow> ('w, message, byte list option) proc" where
  "prompt_line_from read_line print flush prompt =
     proc_bind (io_result (print prompt)) (\<lambda>_.
     proc_bind (io_result flush) (\<lambda>_.
     proc_bind (io_result read_line) (\<lambda>line.
     ret (if line = [] then None else Some (trim line)))))"

definition prompt_line :: "'w cli_env \<Rightarrow> byte list \<Rightarrow> ('w, message, byte list option) proc" where
  "prompt_line env prompt = prompt_line_from (stdin_line env) (stdout_write env) (stdout_flush env) prompt"

definition confirm :: "'w cli_env \<Rightarrow> byte list \<Rightarrow> ('w, message, bool) proc" where
  "confirm env prompt =
     proc_bind (\<lambda>w. Some (Ok (), stderr_print env (prompt @ lit '' [y/N]: '') w)) (\<lambda>_.
     proc_bind (io_result (stderr_flush env)) (\<lambda>_.
     proc_bind (io_result (stdin_line env)) (\<lambda>answer.
     ret (map ascii_lower (trim answer) \<in> {lit ''y'', lit ''yes''}))))"

section \<open>Secret input\<close>

text \<open>
  The reading loop of \<^verbatim>\<open>read_secret_from\<close>; a read gives at most 8192 bytes.  Growing the protected
  buffer does not change its contents.  The length of the data is a \<^verbatim>\<open>usize\<close>.
\<close>

partial_function (option) read_secret_from ::
  "('w, io_error, byte list) proc \<Rightarrow> byte list \<Rightarrow> 'w \<Rightarrow> ((io_error + byte list) \<times> 'w) option" where
  "read_secret_from read_block data w = (case read_block w of
     None \<Rightarrow> None
   | Some (Ok block, w) \<Rightarrow>
       if block = [] then Some (Ok data, w)
       else if length data + length block \<ge> 2 ^ 64
       then Some (Err (IoError IoOther ''secret input is too large''), w)
       else read_secret_from read_block (data @ block) w
   | Some (Err e, w) \<Rightarrow>
       if io_kind_of e = IoInterrupted then read_secret_from read_block data w
       else Some (Err e, w))"

section \<open>Selection over stable readers\<close>

lemma selection_targets_stable:
  assumes "\<And>r w. r \<in> set rs \<Longrightarrow> candidate r w = Some (res r, w)"
  shows "selection_targets rs candidate w =
    Some (if \<exists>r \<in> set rs. \<not> is_ok (res r) then Err (projl (res (hd (filter (\<lambda>r. \<not> is_ok (res r)) rs))))
          else Ok (List.map_filter (\<lambda>r. projr (res r)) rs), w)"
  using assms
proof (induction rs)
  case Nil
  then show ?case by (simp add: ret_def List.map_filter_simps)
next
  case (Cons r rs)
  then have IH: "selection_targets rs candidate w =
      Some (if \<exists>r \<in> set rs. \<not> is_ok (res r) then Err (projl (res (hd (filter (\<lambda>r. \<not> is_ok (res r)) rs))))
          else Ok (List.map_filter (\<lambda>r. projr (res r)) rs), w)" by simp
  have "candidate r w = Some (res r, w)" using Cons.prems by simp
  with IH show ?case
    by (cases "res r") (auto simp: proc_bind_def ret_def List.map_filter_simps split: option.splits)
qed

lemma map_filter_single: "List.map_filter f xs = [t] \<longleftrightarrow>
    (\<exists>i < length xs. f (xs ! i) = Some t \<and> (\<forall>j < length xs. j \<noteq> i \<longrightarrow> f (xs ! j) = None))"
proof (induction xs)
  case (Cons x xs)
  have none: "List.map_filter f xs = [] \<longleftrightarrow> (\<forall>j < length xs. f (xs ! j) = None)"
    by (auto simp: List.map_filter_def filter_empty_conv all_set_conv_all_nth)
  show ?case
  proof (cases "f x")
    case None
    with Cons show ?thesis
      by (simp add: List.map_filter_simps Ex_less_Suc2 All_less_Suc2)
  next
    case (Some y)
    with none show ?thesis
      by (auto simp: List.map_filter_simps Ex_less_Suc2 All_less_Suc2)
  qed
qed (simp add: List.map_filter_simps)

section \<open>Submitted PINs\<close>

definition logs_pins :: "('w \<Rightarrow> admin_pin list) \<Rightarrow> (admin_pin option \<Rightarrow> ('w, 'e, 'a) proc) \<Rightarrow> bool" where
  "logs_pins log operation \<longleftrightarrow> (\<forall>pin w r w'. operation pin w = Some (r, w')
     \<longrightarrow> log w' = log w @ (case pin of Some p \<Rightarrow> [p] | None \<Rightarrow> []))"

lemma prompt_admin_pin_log:
  assumes "\<And>prompt w r w'. rpassword env prompt w = Some (r, w') \<Longrightarrow> log w' = log w"
    and "prompt_admin_pin env w = Some (r, w')"
  shows "log w' = log w"
  using assms(2) assms(1) [of "lit ''Admin PIN: ''" w]
  by (auto simp: prompt_admin_pin_def prompt_password_def proc_bind_def proc_map_err_def lift_res_def
      split: option.splits sum.splits)

lemma prompt_admin_pin_Ok:
  "prompt_admin_pin env w = Some (Ok p, w') \<longleftrightarrow>
    (\<exists>entered. rpassword env (lit ''Admin PIN: '') w = Some (Ok entered, w') \<and> admin_pin_from_bytes env entered = Ok p)"
  by (auto simp: prompt_admin_pin_def prompt_password_def proc_bind_Some_Ok proc_map_err_Some_Ok lift_res_run map_err_Ok_iff)

section \<open>Reading a script\<close>

text \<open>A reader that gives a list of results; at its end it stays at the end of input.\<close>

fun scripted_read :: "((io_error + byte list) list, io_error, byte list) proc" where
  "scripted_read [] = Some (Ok [], [])"
| "scripted_read (r # rs) = Some (r, rs)"

fun block_of :: "io_error + byte list \<Rightarrow> byte list" where
  "block_of (Ok b) = b"
| "block_of (Err e) = []"

definition quiet_read :: "io_error + byte list \<Rightarrow> bool" where
  "quiet_read r = (case r of Ok b \<Rightarrow> b \<noteq> [] | Err e \<Rightarrow> io_kind_of e = IoInterrupted)"

lemma read_secret_quiet:
  assumes "\<forall>r \<in> set script. quiet_read r" "length data + length (concat (map block_of script)) < 2 ^ 64"
  shows "read_secret_from scripted_read data (script @ rest)
    = read_secret_from scripted_read (data @ concat (map block_of script)) rest"
  using assms
proof (induction script arbitrary: data)
  case (Cons r rs)
  show ?case
    using Cons.prems Cons.IH [of "data @ block_of r"]
    by (subst read_secret_from.simps) (cases r; auto simp: quiet_read_def)
qed simp

text \<open>A concrete environment for examples: empty ATRs, an ASCII case mapping, no terminal.\<close>

definition sample_cli :: "byte list list \<Rightarrow> 'w cli_env" where
  "sample_cli rs = \<lparr>pc_establish = ret (), pc_list_readers = ret rs, pc_connect = \<lambda>r. ret (length r),
     pc_atr = \<lambda>_. ret [], pc_transmit = \<lambda>_ _. throw (OtherPcsc 0), show_pcsc = \<lambda>_. ''failed'',
     probe_device = Ok (done_operation (Ok (DeviceProfile 2))), serial_bytes = \<lambda>_. None,
     show_lib_error = \<lambda>_. ''error'', admin_pin_from_bytes = \<lambda>b. Ok (AdminPin b), unicode_lower = map ascii_lower,
     rpassword = \<lambda>_. ret [], stdin_line = ret [], stdout_write = \<lambda>_. ret (), stdout_flush = ret (),
     stderr_print = \<lambda>_ w. w, stderr_flush = ret ()\<rparr>"

section \<open>Properties\<close>

text \<open>C18. Without a filter, a CanoKey is selected exactly when every reader was accounted for and one alone holds a
  CanoKey; a reader that could not be identified or probed stops the selection, so a second device is
  never overlooked.\<close>

theorem single_target_unique:
  assumes "readers env w = Some (Ok rs, w)"
    and "\<And>r w. r \<in> set rs \<Longrightarrow> selection_candidate env r w = Some (res r, w)"
  shows "single_target env None None w = Some (Ok t, w) \<longleftrightarrow>
    (\<exists>i < length rs. res (rs ! i) = Ok (Some t) \<and> (\<forall>j < length rs. j \<noteq> i \<longrightarrow> res (rs ! j) = Ok None))"
proof (cases "\<exists>r \<in> set rs. \<not> is_ok (res r)")
  case True
  then obtain j where j: "j < length rs" "\<not> is_ok (res (rs ! j))" by (auto simp: in_set_conv_nth)
  from True assms(1) have "single_target env None None w \<noteq> Some (Ok t, w)"
    by (simp add: single_target_def pcsc_result_def proc_bind_def proc_map_err_def selection_targets_stable [OF assms(2)])
  moreover from j have "\<not> (\<exists>i < length rs. res (rs ! i) = Ok (Some t) \<and> (\<forall>j < length rs. j \<noteq> i \<longrightarrow> res (rs ! j) = Ok None))"
    by (metis is_ok.simps(2))
  ultimately show ?thesis by blast
next
  case False
  then have ok: "res (rs ! i) = Ok (projr (res (rs ! i)))" if "i < length rs" for i
    using that by (cases "res (rs ! i)") (auto dest!: nth_mem)
  have "single_target env None None w = Some (Ok t, w) \<longleftrightarrow> List.map_filter (\<lambda>r. projr (res r)) rs = [t]"
    using False assms(1)
    by (auto simp: single_target_def pcsc_result_def proc_bind_def proc_map_err_def selection_targets_stable [OF assms(2)]
        ret_def throw_def split: list.splits)
  also have "\<dots> \<longleftrightarrow> (\<exists>i < length rs. res (rs ! i) = Ok (Some t) \<and> (\<forall>j < length rs. j \<noteq> i \<longrightarrow> res (rs ! j) = Ok None))"
    unfolding map_filter_single using ok by (metis sum.inject(2))
  finally show ?thesis .
qed

theorem single_target_unique_witness:
  "single_target (sample_cli [lit ''Generic reader'', lit ''Canokeys Canokey [1]'']) None None () =
    Some (Ok \<lparr>tg_connection = \<lparr>conn_card = 20, conn_reader = lit ''Canokeys Canokey [1]'', conn_atr = []\<rparr>,
      tg_profile = DeviceProfile 2\<rparr>, ())"
proof -
  let ?rs = "[lit ''Generic reader'', lit ''Canokeys Canokey [1]'']"
  let ?t = "\<lparr>tg_connection = \<lparr>conn_card = 20, conn_reader = lit ''Canokeys Canokey [1]'', conn_atr = []\<rparr>,
      tg_profile = DeviceProfile 2\<rparr>"
  let ?res = "\<lambda>r. Ok (if r = lit ''Canokeys Canokey [1]'' then Some ?t else None) :: message + target option"
  have names: "is_canokey \<lparr>conn_card = c, conn_reader = lit ''Canokeys Canokey [1]'', conn_atr = []\<rparr>"
    "\<not> is_canokey \<lparr>conn_card = c, conn_reader = lit ''Generic reader'', conn_atr = []\<rparr>" for c
    by code_simp+
  have texts: "reader_name (lit ''Canokeys Canokey [1]'') = lit ''Canokeys Canokey [1]''"
    "reader_name (lit ''Generic reader'') = lit ''Generic reader''"
    "lit ''Generic reader'' \<noteq> lit ''Canokeys Canokey [1]''" "length (lit ''Canokeys Canokey [1]'') = 20"
    by code_simp+
  have rs: "readers (sample_cli ?rs) () = Some (Ok ?rs, ())"
    by (simp add: readers_def sample_cli_def proc_try_def ret_def)
  have cand: "selection_candidate (sample_cli ?rs) r w = Some (?res r, w)" if "r \<in> set ?rs" for r w
    using that names texts
    by (auto simp: selection_candidate_def connect_reader_def sample_cli_def proc_try_def proc_bind_def ret_def
        probe_def lift_res_def execute_def drive_loop.simps proc_map_err_def)
  have "\<exists>i < length ?rs. ?res (?rs ! i) = Ok (Some ?t) \<and> (\<forall>j < length ?rs. j \<noteq> i \<longrightarrow> ?res (?rs ! j) = Ok None)"
    using texts by (intro exI [of _ 1]) (auto simp: less_Suc_eq)
  then show ?thesis
    using single_target_unique [where res = ?res and t = ?t, OF rs] cand by blast
qed

text \<open>C19. One call of the retry, that is one guarded operation (a command may make several), submits at most one
  PIN: the given one; without one, none at all unless the card first refused the operation for want of
  the Admin PIN, and then the one the user typed.  A wrong PIN is never repeated.\<close>

theorem at_most_one_admin_pin:
  assumes "logs_pins log operation"
    and "\<And>prompt w r w'. rpassword env prompt w = Some (r, w') \<Longrightarrow> log w' = log w"
    and "with_admin_pin_retry env pin operation w = Some (r, w')"
  shows "\<exists>ps. log w' = log w @ ps \<and> length ps \<le> 1 \<and> (case pin of
      Some p \<Rightarrow> ps = [p]
    | None \<Rightarrow> ps = [] \<or> (\<exists>e w1 entered w2 p. operation None w = Some (Err e, w1) \<and> needs_admin_pin e
        \<and> rpassword env (lit ''Admin PIN: '') w1 = Some (Ok entered, w2)
        \<and> admin_pin_from_bytes env entered = Ok p \<and> ps = [p]))"
proof (cases pin)
  case (Some p)
  with assms(1,3) have "log w' = log w @ [p]"
    by (auto simp: with_admin_pin_retry_def proc_map_err_def logs_pins_def)
  with Some show ?thesis by simp
next
  case None
  with assms(3) obtain q w1 where first: "operation None w = Some (q, w1)"
    by (cases "operation None w") (auto simp: with_admin_pin_retry_def proc_try_def)
  with assms(1) have w1: "log w1 = log w" unfolding logs_pins_def by fastforce
  show ?thesis
  proof (cases "\<exists>e. q = Err e \<and> needs_admin_pin e")
    case False
    with None first assms(3) have "w' = w1"
      by (auto simp: with_admin_pin_retry_def proc_try_def ret_def throw_def split: sum.splits if_splits)
    with w1 None show ?thesis by simp
  next
    case True
    with None first assms(3) obtain x w2 where ask: "prompt_admin_pin env w1 = Some (x, w2)"
      and rest: "(case x of Err m \<Rightarrow> Some (Err m, w2)
        | Ok p \<Rightarrow> proc_map_err (describe_drive_error env) (operation (Some p)) w2) = Some (r, w')"
      by (auto simp: with_admin_pin_retry_def proc_try_def proc_bind_def split: option.splits)
    have w2: "log w2 = log w"
      using prompt_admin_pin_log [where log = log, OF _ ask] assms(2) w1 by metis
    show ?thesis
    proof (cases x)
      case (Inl m)
      with rest w2 None show ?thesis by simp
    next
      case (Inr p)
      with rest assms(1) have sent: "log w' = log w2 @ [p]" by (auto simp: proc_map_err_def logs_pins_def)
      from ask Inr obtain entered where "rpassword env (lit ''Admin PIN: '') w1 = Some (Ok entered, w2)"
        "admin_pin_from_bytes env entered = Ok p" by (auto simp: prompt_admin_pin_Ok)
      with sent w2 None True first show ?thesis by auto
    qed
  qed
qed

text \<open>A card that asks for the Admin PIN and then finds it wrong, and a user who types one.\<close>

definition wrong_pin_operation :: "admin_pin option \<Rightarrow> (admin_pin list, io_error drive_error, unit) proc" where
  "wrong_pin_operation pin log = Some (case pin of
     None \<Rightarrow> (Err (Protocol (new_error SecurityStatusNotSatisfied)), log)
   | Some p \<Rightarrow> (Err (Protocol ((new_error AuthenticationFailed)\<lparr>err_reference := Some RefAdminPin\<rparr>)), log @ [p]))"

definition typing_cli :: "admin_pin list cli_env" where
  "typing_cli = (sample_cli [])\<lparr>rpassword := (\<lambda>_. ret (lit ''123456''))\<rparr>"

theorem at_most_one_admin_pin_witness:
  "with_admin_pin_retry typing_cli None wrong_pin_operation [] = Some (Err (lit ''incorrect PIN''), [AdminPin (lit ''123456'')])
   \<and> (\<exists>e w1 entered w2. wrong_pin_operation None [] = Some (Err e, w1) \<and> needs_admin_pin e
      \<and> rpassword typing_cli (lit ''Admin PIN: '') w1 = Some (Ok entered, w2)
      \<and> admin_pin_from_bytes typing_cli entered = Ok (AdminPin (lit ''123456'')))"
proof -
  have logs: "logs_pins id wrong_pin_operation"
    by (auto simp: logs_pins_def wrong_pin_operation_def split: option.splits)
  have same: "id w' = id w" if "rpassword typing_cli prompt w = Some (x, w')" for prompt w x w'
    using that by (simp add: typing_cli_def ret_def)
  have ran: "with_admin_pin_retry typing_cli None wrong_pin_operation []
      = Some (Err (lit ''incorrect PIN''), [AdminPin (lit ''123456'')])"
    by (simp add: with_admin_pin_retry_def wrong_pin_operation_def typing_cli_def sample_cli_def proc_try_def proc_bind_def
        proc_map_err_def prompt_admin_pin_def prompt_password_def lift_res_def ret_def needs_admin_pin_def new_error_def
        describe_drive_error_def)
  from at_most_one_admin_pin [OF logs same ran] have "\<exists>e w1 entered w2 p. wrong_pin_operation None [] = Some (Err e, w1)
      \<and> needs_admin_pin e \<and> rpassword typing_cli (lit ''Admin PIN: '') w1 = Some (Ok entered, w2)
      \<and> admin_pin_from_bytes typing_cli entered = Ok p \<and> [AdminPin (lit ''123456'')] = [p]"
    by simp
  with ran show ?thesis by auto
qed

text \<open>C20. Reading a secret returns exactly the bytes up to the end of input, over interrupted and partial reads, and
  a failing read gives its error and no data.\<close>

theorem read_secret_exact:
  assumes "\<forall>r \<in> set script. quiet_read r" "length (concat (map block_of script)) < 2 ^ 64"
    and "io_kind_of e \<noteq> IoInterrupted"
  shows "read_secret_from scripted_read [] (script @ Ok [] # rest) = Some (Ok (concat (map block_of script)), rest)
    \<and> read_secret_from scripted_read [] (script @ Err e # rest) = Some (Err e, rest)"
proof -
  have step: "read_secret_from scripted_read [] (script @ tail) = read_secret_from scripted_read (concat (map block_of script)) tail" for tail
    using read_secret_quiet [OF assms(1), of "[]"] assms(2) by simp
  show ?thesis unfolding step by (subst (1 2) read_secret_from.simps) (simp add: assms(3))
qed

theorem read_secret_exact_witness:
  "read_secret_from scripted_read [] [Ok [1, 2], Err (IoError IoInterrupted ''eintr''), Ok [3], Ok [], Ok [9]]
     = Some (Ok [1, 2, 3], [Ok [9]])
   \<and> read_secret_from scripted_read [] [Ok [1, 2], Err (IoError IoInterrupted ''eintr''), Ok [3], Err (IoError IoOther ''lost''), Ok [9]]
     = Some (Err (IoError IoOther ''lost''), [Ok [9]])"
  using read_secret_exact [of "[Ok [1, 2], Err (IoError IoInterrupted ''eintr''), Ok [3]]" "IoError IoOther ''lost''" "[Ok [9]]"]
  by (simp add: quiet_read_def)

end
