(* ===== verification/Trace.thy ===== *)
theory Trace
  imports Cli
begin

text \<open>
  What the PC/SC transport writes to the trace log, \<^verbatim>\<open>crates/ckman-transport/src/pcsc.rs\<close>: the header of a command, the
  status of a response and their lengths, or everything if \<^verbatim>\<open>CKMAN_LOG_TRAFFIC\<close> is \<^verbatim>\<open>1\<close>.  An exchange with its trace
  is the exchange of Cli over a world that also holds the events.
\<close>

section \<open>Events\<close>

datatype trace_event =
    CommandBytes "byte list"
  | CommandHeader "byte list option" "byte list option" "byte list option" "byte list option" nat
  | ResponseBytes "byte list"
  | ResponseStatus "byte list option" nat

definition log_traffic :: "byte list option \<Rightarrow> bool" where
  "log_traffic variable \<longleftrightarrow> variable = Some (lit ''1'')"

definition byte_field :: "byte list \<Rightarrow> nat \<Rightarrow> byte list option" where
  "byte_field command i = (if i < length command then Some (hex_text [command ! i]) else None)"

definition log_command :: "byte list option \<Rightarrow> byte list \<Rightarrow> trace_event" where
  "log_command variable command =
    (if log_traffic variable then CommandBytes (hex_text command)
     else CommandHeader (byte_field command 0) (byte_field command 1) (byte_field command 2) (byte_field command 3)
       (length command))"

text \<open>\<^verbatim>\<open>get(n..)\<close> with \<open>n\<close> at most the length always gives a slice.\<close>

definition log_response :: "byte list option \<Rightarrow> byte list \<Rightarrow> trace_event" where
  "log_response variable response =
    (if log_traffic variable then ResponseBytes (hex_text response)
     else ResponseStatus (Some (hex_text (drop (length response - 2) response))) (length response))"

section \<open>Traced exchanges\<close>

definition trace :: "trace_event \<Rightarrow> ('w \<times> trace_event list, 'e, unit) proc" where
  "trace e = (\<lambda>(w, log). Some (Ok (), w, log @ [e]))"

definition untraced :: "('w, 'e, 'a) proc \<Rightarrow> ('w \<times> 'l, 'e, 'a) proc" where
  "untraced m = (\<lambda>(w, log). map_option (\<lambda>(r, w). (r, w, log)) (m w))"

definition traced_exchange :: "byte list option \<Rightarrow> 'w cli_env \<Rightarrow> connection \<Rightarrow> ('w \<times> trace_event list, io_error) exchange" where
  "traced_exchange variable env c command =
     proc_bind (trace (log_command variable command)) (\<lambda>_.
     proc_bind (untraced (conn_exchange env c command)) (\<lambda>response.
     proc_bind (trace (log_response variable response)) (\<lambda>_. ret response)))"

lemma traced_exchange_run:
  "traced_exchange variable env c command (w, log) = map_option (\<lambda>(r, w). (r, w, log @ log_command variable command
     # (case r of Ok response \<Rightarrow> [log_response variable response] | Err _ \<Rightarrow> []))) (conn_exchange env c command w)"
  by (auto simp: traced_exchange_def trace_def untraced_def proc_bind_def ret_def split: option.split sum.split)

section \<open>Property\<close>

text \<open>Commands that differ in their data field only, and answers that differ in their data only\<close>

definition same_header :: "byte list \<Rightarrow> byte list \<Rightarrow> bool" where
  "same_header a b \<longleftrightarrow> length a = length b \<and> take 4 a = take 4 b"

fun same_status :: "io_error + byte list \<Rightarrow> io_error + byte list \<Rightarrow> bool" where
  "same_status (Ok a) (Ok b) \<longleftrightarrow> length a = length b \<and> drop (length a - 2) a = drop (length b - 2) b"
| "same_status (Err _) (Err _) \<longleftrightarrow> True"
| "same_status _ _ \<longleftrightarrow> False"

lemma byte_field_header: "same_header a b \<Longrightarrow> i < 4 \<Longrightarrow> byte_field a i = byte_field b i"
  by (auto simp: same_header_def byte_field_def) (metis nth_take)

lemma log_command_header:
  assumes "\<not> log_traffic variable" and "same_header a b"
  shows "log_command variable a = log_command variable b"
  using assms(1) byte_field_header [OF assms(2)] assms(2) by (simp add: log_command_def same_header_def)

lemma log_response_status:
  "\<not> log_traffic variable \<Longrightarrow> same_status (Ok a) (Ok b) \<Longrightarrow> log_response variable a = log_response variable b"
  by (auto simp: log_response_def)

text \<open>C40. Tracing changes no exchange, and unless \<^verbatim>\<open>CKMAN_LOG_TRAFFIC\<close> is \<^verbatim>\<open>1\<close> the events it adds say nothing of a PIN, a
  key or any other payload: two exchanges whose commands agree in header and length and whose answers agree in status and
  length leave the same events, whatever their data fields are.\<close>

theorem trace_hides_payload:
  assumes "\<not> log_traffic variable" and "same_header a b"
    and "conn_exchange env c a w = Some (r, w1)" and "conn_exchange env' c' b w' = Some (s, w2)" and "same_status r s"
  shows "\<exists>events. traced_exchange variable env c a (w, log) = Some (r, w1, log @ events)
    \<and> traced_exchange variable env' c' b (w', log') = Some (s, w2, log' @ events)"
proof -
  let ?answered = "\<lambda>r. case r of Ok x \<Rightarrow> [log_response variable x] | Err _ \<Rightarrow> []"
  have "?answered r = ?answered s"
    using assms(5) by (cases r; cases s) (auto intro: log_response_status [OF assms(1)] simp del: same_status.simps(1))
  moreover have "log_command variable a = log_command variable b" by (rule log_command_header [OF assms(1,2)])
  ultimately show ?thesis
    by (intro exI [of _ "log_command variable a # ?answered r"]) (simp only: traced_exchange_run assms(3,4) option.map prod.case simp_thms)
qed

text \<open>A PIV VERIFY of two different PINs, over a card that accepts both\<close>

definition verify_apdu :: "string \<Rightarrow> byte list" where
  "verify_apdu pin = [0, 0x20, 0, 0x80, 8] @ lit pin @ [0xff, 0xff]"

definition accepting_cli :: "unit cli_env" where
  "accepting_cli = (sample_cli [])\<lparr>pc_transmit := \<lambda>_ _. ret [0x90, 0]\<rparr>"

definition accepting_card :: connection where
  "accepting_card = \<lparr>conn_card = 1, conn_reader = lit ''Canokey'', conn_atr = []\<rparr>"

theorem trace_hides_payload_witness:
  "\<exists>events. traced_exchange None accepting_cli accepting_card (verify_apdu ''123456'') ((), []) = Some (Ok [0x90, 0], (), events)
    \<and> traced_exchange None accepting_cli accepting_card (verify_apdu ''654321'') ((), []) = Some (Ok [0x90, 0], (), events)"
proof -
  have "conn_exchange accepting_cli accepting_card x () = Some (Ok [0x90, 0], ())" for x
    by (simp add: conn_exchange_def accepting_cli_def proc_map_err_def ret_def)
  moreover have "same_header (verify_apdu ''123456'') (verify_apdu ''654321'')" "\<not> log_traffic None" by code_simp+
  ultimately show ?thesis
    using trace_hides_payload [of None "verify_apdu ''123456''" "verify_apdu ''654321''" accepting_cli accepting_card "()" "Ok [0x90, 0]" "()"
      accepting_cli accepting_card "()" "Ok [0x90, 0]" "()" "[]" "[]"] by simp
qed

section \<open>Windows\<close>

text \<open>The transport looks for a name in the ATR window by window.\<close>

definition contains_window :: "byte list \<Rightarrow> byte list \<Rightarrow> bool" where
  "contains_window haystack needle \<longleftrightarrow>
     list_ex (\<lambda>i. take (length needle) (drop i haystack) = needle) [0..<Suc (length haystack) - length needle]"

lemma contains_window_iff: "contains_window haystack needle \<longleftrightarrow> (\<exists>a b. haystack = a @ needle @ b)"
proof
  assume "contains_window haystack needle"
  then obtain i where "take (length needle) (drop i haystack) = needle" by (auto simp: contains_window_def list_ex_iff)
  then have "haystack = take i haystack @ needle @ drop (length needle) (drop i haystack)"
    by (metis append_take_drop_id)
  then show "\<exists>a b. haystack = a @ needle @ b" by blast
next
  assume "\<exists>a b. haystack = a @ needle @ b"
  then obtain a b where "haystack = a @ needle @ b" by blast
  then show "contains_window haystack needle"
    by (auto simp: contains_window_def list_ex_iff intro!: bexI [of _ "length a"])
qed

lemma contains_sub_iff: "contains_sub needle haystack \<longleftrightarrow> (\<exists>a b. haystack = a @ needle @ b)"
proof (induction haystack)
  case (Cons x xs)
  have "(\<exists>a b. x # xs = a @ needle @ b) \<longleftrightarrow> take (length needle) (x # xs) = needle \<or> (\<exists>a b. xs = a @ needle @ b)"
    by (metis (no_types) append_Cons append_Nil append_eq_conv_conj append_take_drop_id list.exhaust list.inject)
  with Cons show ?case by (auto simp: contains_sub_def)
qed (simp add: contains_sub_def)

lemma contains_window_sub: "contains_window haystack needle \<longleftrightarrow> contains_sub needle haystack"
  by (simp add: contains_window_iff contains_sub_iff)

end
