(* ===== verification/CtapHid.thy ===== *)
theory CtapHid
  imports Prelude
begin

unbundle bit_operations_syntax

text \<open>
  CTAPHID framing, \<^verbatim>\<open>crates/ckman-transport/src/ctaphid.rs\<close>: the constants, the command,
  device-error and keepalive codes, \<open>frame_message\<close> (fragmentation) and the
  \<open>MessageDecoder\<close> (reassembly), with the decoder's invariant and the round trip.
  Reports are byte lists; \<^verbatim>\<open>[u8; REPORT_LEN]\<close> is a list of length \<open>REPORT_LEN\<close>.
\<close>

section \<open>Constants and codes\<close>

type_synonym report = "byte list"

definition REPORT_LEN :: nat where "REPORT_LEN = 64"
definition INIT_HEADER :: nat where "INIT_HEADER = 7"
definition CONT_HEADER :: nat where "CONT_HEADER = 5"
definition INIT_PAYLOAD :: nat where "INIT_PAYLOAD = REPORT_LEN - INIT_HEADER"
definition CONT_PAYLOAD :: nat where "CONT_PAYLOAD = REPORT_LEN - CONT_HEADER"
definition MAX_SEQ :: u8 where "MAX_SEQ = 0x7f"
definition MAX_MESSAGE_LEN :: nat where
  "MAX_MESSAGE_LEN = INIT_PAYLOAD + (unat MAX_SEQ + 1) * CONT_PAYLOAD"
definition BROADCAST_CID :: u32 where "BROADCAST_CID = 0xffffffff"

lemma ctaphid_consts [simp]:
  "REPORT_LEN = 64" "INIT_HEADER = 7" "CONT_HEADER = 5"
  "INIT_PAYLOAD = 57" "CONT_PAYLOAD = 59" "MAX_MESSAGE_LEN = 7609"
  by (simp_all add: REPORT_LEN_def INIT_HEADER_def CONT_HEADER_def INIT_PAYLOAD_def
      CONT_PAYLOAD_def MAX_SEQ_def MAX_MESSAGE_LEN_def)

datatype command =
    CmdPing | CmdMsg | CmdLock | CmdInit | CmdWink | CmdCbor | CmdCancel | CmdError | CmdKeepalive

fun command_byte :: "command \<Rightarrow> u8" where
  "command_byte CmdPing = 0x81"
| "command_byte CmdMsg = 0x83"
| "command_byte CmdLock = 0x84"
| "command_byte CmdInit = 0x86"
| "command_byte CmdWink = 0x88"
| "command_byte CmdCbor = 0x90"
| "command_byte CmdCancel = 0x91"
| "command_byte CmdError = 0xbf"
| "command_byte CmdKeepalive = 0xbb"

definition command_from_byte :: "u8 \<Rightarrow> command option" where
  "command_from_byte b =
    (if b = 0x81 then Some CmdPing
     else if b = 0x83 then Some CmdMsg
     else if b = 0x84 then Some CmdLock
     else if b = 0x86 then Some CmdInit
     else if b = 0x88 then Some CmdWink
     else if b = 0x90 then Some CmdCbor
     else if b = 0x91 then Some CmdCancel
     else if b = 0xbf then Some CmdError
     else if b = 0xbb then Some CmdKeepalive
     else None)"

datatype hid_device_error =
    InvalidCmd | InvalidParam | InvalidLen | InvalidSeq | MsgTimeout | ChannelBusy
  | LockRequired | InvalidChannel | OtherError | UnknownError u8

definition device_error_from_byte :: "u8 \<Rightarrow> hid_device_error" where
  "device_error_from_byte b =
    (if b = 0x01 then InvalidCmd
     else if b = 0x02 then InvalidParam
     else if b = 0x03 then InvalidLen
     else if b = 0x04 then InvalidSeq
     else if b = 0x05 then MsgTimeout
     else if b = 0x06 then ChannelBusy
     else if b = 0x0a then LockRequired
     else if b = 0x0b then InvalidChannel
     else if b = 0x7f then OtherError
     else UnknownError b)"

datatype keepalive = Processing | UserPresenceNeeded | UnknownStatus u8

definition keepalive_from_byte :: "u8 \<Rightarrow> keepalive" where
  "keepalive_from_byte b =
    (if b = 0x01 then Processing
     else if b = 0x02 then UserPresenceNeeded
     else UnknownStatus b)"

datatype ctaphid_error =
    HidIo io_error | Timeout | PayloadTooLarge nat | Malformed string | Device hid_device_error | WrongChannel

text \<open>Both sides of the source's \<^verbatim>\<open>Result<CtapHidError, CtapHidError>\<close> are returned as an
  error by every caller (\<^verbatim>\<open>return Err(device_error(&body)?)\<close>).\<close>

definition device_error :: "byte list \<Rightarrow> ctaphid_error + ctaphid_error" where
  "device_error body = (case body of
     [code] \<Rightarrow> Ok (Device (device_error_from_byte code))
   | _ \<Rightarrow> Err (Malformed ''ERROR must contain one byte''))"

definition device_failure :: "byte list \<Rightarrow> ctaphid_error" where
  "device_failure body = (case device_error body of Err e \<Rightarrow> e | Ok e \<Rightarrow> e)"

section \<open>Fragmentation\<close>

definition init_packet :: "u32 \<Rightarrow> command \<Rightarrow> byte list \<Rightarrow> report" where
  "init_packet cid cmd payload =
    (let init = replicate REPORT_LEN 0;
         init = copy_at 0 (be_bytes32 cid) init;
         init = init[4 := command_byte cmd];
         init = copy_at 5 (be_bytes16 (word_of_nat (length payload))) init;
         head = min (length payload) INIT_PAYLOAD
     in copy_at INIT_HEADER (take head payload) init)"

definition cont_packet :: "u32 \<Rightarrow> u8 \<Rightarrow> byte list \<Rightarrow> report" where
  "cont_packet cid seq chunk =
    (let cont = replicate REPORT_LEN 0;
         cont = copy_at 0 (be_bytes32 cid) cont;
         cont = cont[4 := seq]
     in copy_at CONT_HEADER chunk cont)"

text \<open>The \<^verbatim>\<open>while offset < payload.len()\<close> loop; \<^verbatim>\<open>seq += 1\<close> is the wrapping addition
  of the release build (bounded below: it never wraps).\<close>

function frame_cont :: "u32 \<Rightarrow> byte list \<Rightarrow> nat \<Rightarrow> u8 \<Rightarrow> report list" where
  "frame_cont cid payload offset seq =
    (if offset < length payload
     then let tk = min (length payload - offset) CONT_PAYLOAD
          in cont_packet cid seq (subslice offset (offset + tk) payload)
             # frame_cont cid payload (offset + tk) (seq + 1)
     else [])"
  by pat_completeness auto
termination
  by (relation "measure (\<lambda>(cid, payload, offset, seq). length payload - offset)") auto

declare frame_cont.simps [simp del]

definition frame_message :: "u32 \<Rightarrow> command \<Rightarrow> byte list \<Rightarrow> ctaphid_error + report list" where
  "frame_message cid cmd payload =
    (if length payload > MAX_MESSAGE_LEN then Err (PayloadTooLarge (length payload))
     else Ok (init_packet cid cmd payload
              # frame_cont cid payload (min (length payload) INIT_PAYLOAD) 0))"

section \<open>Reassembly\<close>

record partial_msg =
  p_cmd :: u8
  p_expected :: nat
  p_buf :: "byte list"
  p_next_seq :: u8

text \<open>\<^verbatim>\<open>MessageDecoder\<close> is its \<^verbatim>\<open>active\<close> field.\<close>

type_synonym message_decoder = "partial_msg option"

definition decoder_new :: message_decoder where
  "decoder_new = None"

definition decoder_push ::
  "report \<Rightarrow> message_decoder
    \<Rightarrow> (ctaphid_error + (command \<times> byte list) option) \<times> message_decoder" where
  "decoder_push report active =
    (let tag = report ! 4 in
     if tag AND 0x80 \<noteq> 0 then
       (let expected = unat (from_be16 [report ! 5, report ! 6]) in
        case command_from_byte tag of
          None \<Rightarrow> (Err (Malformed ''unknown command byte''), None)
        | Some cmd \<Rightarrow>
            if expected > MAX_MESSAGE_LEN
            then (Err (Malformed ''declared length out of range''), None)
            else
              let head = min expected INIT_PAYLOAD;
                  buf = subslice INIT_HEADER (INIT_HEADER + head) report
              in if length buf = expected then (Ok (Some (cmd, buf)), None)
                 else (Ok None, Some \<lparr>p_cmd = tag, p_expected = expected, p_buf = buf,
                                     p_next_seq = 0\<rparr>))
     else
       (case active of
          None \<Rightarrow> (Err (Malformed ''unexpected continuation packet''), None)
        | Some partial \<Rightarrow>
            if tag \<noteq> p_next_seq partial then (Err (Device InvalidSeq), None)
            else
              let remaining = p_expected partial - length (p_buf partial);
                  tk = min remaining CONT_PAYLOAD;
                  buf = p_buf partial @ subslice CONT_HEADER (CONT_HEADER + tk) report;
                  partial = partial\<lparr>p_buf := buf, p_next_seq := p_next_seq partial + 1\<rparr>
              in if length buf = p_expected partial
                 then (case command_from_byte (p_cmd partial) of
                         None \<Rightarrow> (Err (Malformed ''unknown command byte''), None)
                       | Some cmd \<Rightarrow> (Ok (Some (cmd, buf)), None))
                 else (Ok None, Some partial)))"

text \<open>Feeding a sequence of reports, as the receive loops and the loopback device do: the
  completed messages in order, up to the first protocol violation.\<close>

fun decode_stream :: "report list \<Rightarrow> message_decoder
    \<Rightarrow> (ctaphid_error + (command \<times> byte list) list) \<times> message_decoder" where
  "decode_stream [] dec = (Ok [], dec)"
| "decode_stream (r # rs) dec = (case decoder_push r dec of
     (Err e, dec') \<Rightarrow> (Err e, dec')
   | (Ok m, dec') \<Rightarrow> (case decode_stream rs dec' of
        (Err e, dec'') \<Rightarrow> (Err e, dec'')
      | (Ok ms, dec'') \<Rightarrow> (Ok (case m of None \<Rightarrow> ms | Some x \<Rightarrow> x # ms), dec'')))"

section \<open>Packet layout\<close>

lemma init_packet_layout:
  "init_packet cid cmd payload =
     (be_bytes32 cid @ command_byte cmd # be_bytes16 (word_of_nat (length payload)))
      @ take 57 payload @ replicate (57 - length payload) 0"
proof -
  let ?l = "be_bytes16 (word_of_nat (length payload))"
  have a: "(copy_at 0 (be_bytes32 cid) (replicate 64 0))[4 := command_byte cmd] =
      (be_bytes32 cid @ [command_byte cmd]) @ replicate 59 0"
    by (simp add: byte_simps)
  have b: "copy_at 5 ?l ((be_bytes32 cid @ [command_byte cmd]) @ replicate 59 0) =
      (be_bytes32 cid @ command_byte cmd # ?l) @ replicate 57 0"
    by (subst copy_at_fill) simp_all
  have c: "copy_at 7 src ((be_bytes32 cid @ command_byte cmd # ?l) @ replicate 57 0) =
      (be_bytes32 cid @ command_byte cmd # ?l) @ src @ replicate (57 - length src) 0" for src
    by (subst copy_at_fill) simp_all
  have d: "57 - min (length payload) 57 = 57 - length payload"
    by (simp add: min_def)
  show ?thesis
    unfolding init_packet_def Let_def ctaphid_consts a b c
    by (simp add: min_def)
qed

lemma cont_packet_layout:
  "cont_packet cid seq chunk =
     (be_bytes32 cid @ [seq]) @ chunk @ replicate (59 - length chunk) 0"
proof -
  have a: "(copy_at 0 (be_bytes32 cid) (replicate 64 0))[4 := seq] =
      (be_bytes32 cid @ [seq]) @ replicate 59 0"
    by (simp add: byte_simps)
  have b: "copy_at 5 chunk ((be_bytes32 cid @ [seq]) @ replicate 59 0) =
      (be_bytes32 cid @ [seq]) @ chunk @ replicate (59 - length chunk) 0"
    by (subst copy_at_fill) simp_all
  show ?thesis
    unfolding cont_packet_def Let_def ctaphid_consts a b ..
qed

lemma be_bytes32_nth4 [simp]: "(be_bytes32 cid @ x # xs) ! 4 = x"
  using nth_append_length [of "be_bytes32 cid" x xs] by simp

lemma init_packet_fields [simp]:
  "length (init_packet cid cmd payload) = 64"
  "take 4 (init_packet cid cmd payload) = be_bytes32 cid"
  "init_packet cid cmd payload ! 4 = command_byte cmd"
  "[init_packet cid cmd payload ! 5, init_packet cid cmd payload ! 6] =
     be_bytes16 (word_of_nat (length payload))"
  by (simp_all add: init_packet_layout nth_append be_bytes16_def)

lemma init_packet_head:
  "subslice 7 (7 + min (length payload) 57) (init_packet cid cmd payload) = take 57 payload"
  unfolding init_packet_layout by (rule subslice_append_mid) simp_all

lemma cont_packet_fields [simp]:
  "length chunk \<le> 59 \<Longrightarrow> length (cont_packet cid seq chunk) = 64"
  "take 4 (cont_packet cid seq chunk) = be_bytes32 cid"
  "cont_packet cid seq chunk ! 4 = seq"
  by (simp_all add: cont_packet_layout)

lemma cont_packet_chunk:
  "subslice 5 (5 + length chunk) (cont_packet cid seq chunk) = chunk"
  unfolding cont_packet_layout by (rule subslice_append_mid) simp_all

section \<open>Codes round trip\<close>

lemma command_from_byte_byte [simp]: "command_from_byte (command_byte c) = Some c"
  by (cases c) (simp_all add: command_from_byte_def)

lemma command_from_byte_Some: "command_from_byte b = Some c \<longleftrightarrow> b = command_byte c"
  by (cases c) (auto simp: command_from_byte_def split: if_splits)

lemma command_byte_flag [simp]: "command_byte c AND 0x80 \<noteq> 0"
  by (cases c) simp_all

section \<open>Fragmentation and reassembly\<close>

lemma seq_flag:
  assumes "unat (seq :: u8) < 128"
  shows "seq AND 0x80 = 0"
proof -
  have "\<not> bit (unat seq) 7"
    using assms by (simp add: bit_iff_odd)
  then have "\<not> bit seq 7"
    by (simp add: bit_unsigned_iff)
  moreover have "(0x80 :: u8) = 2 ^ 7" by simp
  ultimately show ?thesis
    by (metis and_exp_eq_0_iff_not_bit)
qed

lemma push_init:
  assumes "length payload \<le> 7609"
  shows "decoder_push (init_packet cid cmd payload) dec =
    (if length payload \<le> 57 then (Ok (Some (cmd, payload)), None)
     else (Ok None, Some \<lparr>p_cmd = command_byte cmd, p_expected = length payload,
                          p_buf = take 57 payload, p_next_seq = 0\<rparr>))"
proof -
  have "unat (word_of_nat (length payload) :: u16) = length payload"
    using assms by (simp add: unsigned_of_nat take_bit_eq_mod)
  then show ?thesis
    using assms
      init_packet_head [of payload cid cmd]
    by (auto simp: decoder_push_def Let_def min_def split: if_splits)
qed

lemma push_cont:
  assumes seq: "unat seq < 128" and off: "offset < length payload"
    and chunk: "chunk = take 59 (drop offset payload)"
  shows "decoder_push (cont_packet cid seq chunk)
      (Some \<lparr>p_cmd = command_byte cmd, p_expected = length payload,
             p_buf = take offset payload, p_next_seq = seq\<rparr>) =
    (if length payload \<le> offset + 59 then (Ok (Some (cmd, payload)), None)
     else (Ok None, Some \<lparr>p_cmd = command_byte cmd, p_expected = length payload,
                          p_buf = take (offset + 59) payload, p_next_seq = seq + 1\<rparr>))"
proof -
  have len: "min (length payload - offset) 59 = length chunk"
    by (simp add: chunk min_def)
  have buf: "take offset payload @ chunk = take (offset + 59) payload"
    by (simp add: chunk take_add)
  let ?p = "\<lparr>p_cmd = command_byte cmd, p_expected = length payload,
             p_buf = take offset payload, p_next_seq = seq\<rparr>"
  have remaining: "p_expected ?p - length (p_buf ?p) = length payload - offset"
    using off by simp
  have sub: "subslice CONT_HEADER (CONT_HEADER + min (length payload - offset) CONT_PAYLOAD)
      (cont_packet cid seq chunk) = chunk"
    using cont_packet_chunk [of chunk cid seq] by (simp add: len)
  have "decoder_push (cont_packet cid seq chunk) (Some ?p) =
     (let buf = p_buf ?p @ chunk; p = ?p\<lparr>p_buf := buf, p_next_seq := seq + 1\<rparr>
      in if length buf = length payload then (Ok (Some (cmd, buf)), None) else (Ok None, Some p))"
    unfolding decoder_push_def Let_def cont_packet_fields option.case remaining sub
    by (simp add: seq_flag [OF seq])
  also have "\<dots> = (if length payload \<le> offset + 59 then (Ok (Some (cmd, payload)), None)
     else (Ok None, Some \<lparr>p_cmd = command_byte cmd, p_expected = length payload,
                          p_buf = take (offset + 59) payload, p_next_seq = seq + 1\<rparr>))"
    using off by (simp add: Let_def buf min_def)
  finally show ?thesis .
qed

text \<open>\<open>completes dec ps m dec'\<close>: feeding the reports \<open>ps\<close> to a decoder in state \<open>dec\<close>
  completes the message \<open>m\<close> with the last of them and not before.\<close>

inductive completes :: "message_decoder \<Rightarrow> report list \<Rightarrow> command \<times> byte list \<Rightarrow> message_decoder \<Rightarrow> bool"
where
  last: "decoder_push r dec = (Ok (Some m), dec') \<Longrightarrow> completes dec [r] m dec'"
| more: "decoder_push r dec = (Ok None, dec') \<Longrightarrow> completes dec' rs m dec'' \<Longrightarrow>
     completes dec (r # rs) m dec''"

inductive_cases completes_NilE [elim!]: "completes dec [] m dec'"

lemma frame_cont_completes:
  assumes "offset = 57 + 59 * unat seq" and "offset < length payload"
    and "length payload \<le> 7609"
  shows "completes (Some \<lparr>p_cmd = command_byte cmd, p_expected = length payload,
                          p_buf = take offset payload, p_next_seq = seq\<rparr>)
    (frame_cont cid payload offset seq) (cmd, payload) None"
  using assms
proof (induction cid payload offset seq rule: frame_cont.induct)
  case (1 cid payload offset seq)
  let ?chunk = "take 59 (drop offset payload)"
  from "1.prems" have seq: "unat seq < 128" by simp
  have slice: "subslice offset (offset + min (length payload - offset) 59) payload = ?chunk"
    by (auto simp: subslice_take_drop min_def)
  have unfold: "frame_cont cid payload offset seq =
      cont_packet cid seq ?chunk
      # frame_cont cid payload (offset + min (length payload - offset) 59) (seq + 1)"
    unfolding frame_cont.simps [of cid payload offset seq] ctaphid_consts Let_def slice
    using "1.prems"(2) by simp
  show ?case
  proof (cases "length payload \<le> offset + 59")
    case True
    then have "frame_cont cid payload (offset + min (length payload - offset) 59) (seq + 1) = []"
      by (subst frame_cont.simps) auto
    with True push_cont [OF seq "1.prems"(2) refl, of cid cmd] show ?thesis
      unfolding unfold by (auto intro: completes.last)
  next
    case False
    have next_off: "offset + min (length payload - offset) 59 = offset + 59"
      using False by simp
    have "unat (seq + 1) = unat seq + 1"
      using seq by (simp add: unat_word_ariths)
    with False "1.prems" "1.IH" [OF "1.prems"(2) refl]
    have rest: "completes (Some \<lparr>p_cmd = command_byte cmd, p_expected = length payload,
          p_buf = take (offset + 59) payload, p_next_seq = seq + 1\<rparr>)
        (frame_cont cid payload (offset + 59) (seq + 1)) (cmd, payload) None"
      by (simp add: next_off)
    from False push_cont [OF seq "1.prems"(2) refl, of cid cmd] show ?thesis
      unfolding unfold next_off by (intro completes.more [OF _ rest]) simp
  qed
qed

lemma frame_message_completes:
  assumes "frame_message cid cmd payload = Ok packets"
  shows "completes dec packets (cmd, payload) None"
proof -
  from assms have len: "length payload \<le> 7609"
    and packets: "packets = init_packet cid cmd payload
        # frame_cont cid payload (min (length payload) 57) 0"
    by (auto simp: frame_message_def split: if_splits)
  show ?thesis
  proof (cases "length payload \<le> 57")
    case True
    then have "frame_cont cid payload (min (length payload) 57) 0 = []"
      by (subst frame_cont.simps) simp
    with True push_init [OF len, of cid cmd dec] show ?thesis
      unfolding packets by (auto intro: completes.last)
  next
    case False
    then have min: "min (length payload) 57 = 57" by simp
    have rest: "completes (Some \<lparr>p_cmd = command_byte cmd, p_expected = length payload,
          p_buf = take 57 payload, p_next_seq = 0\<rparr>)
        (frame_cont cid payload 57 0) (cmd, payload) None"
      using False len by (intro frame_cont_completes) simp_all
    from False push_init [OF len, of cid cmd dec] show ?thesis
      unfolding packets min by (intro completes.more [OF _ rest]) simp
  qed
qed

text \<open>Prepending one completed message to the outcome of the remaining stream.\<close>

definition add_message :: "command \<times> byte list
    \<Rightarrow> (ctaphid_error + (command \<times> byte list) list) \<times> message_decoder
    \<Rightarrow> (ctaphid_error + (command \<times> byte list) list) \<times> message_decoder" where
  "add_message m r = (case r of (Err e, d) \<Rightarrow> (Err e, d) | (Ok ms, d) \<Rightarrow> (Ok (m # ms), d))"

lemma decode_stream_completes:
  "completes dec ps m dec' \<Longrightarrow>
     decode_stream (ps @ rest) dec = add_message m (decode_stream rest dec')"
  by (induction rule: completes.induct) (simp_all add: add_message_def split: prod.split sum.split)

section \<open>Shape of the packets\<close>

lemma frame_cont_report:
  "r \<in> set (frame_cont cid payload offset seq) \<Longrightarrow> length r = 64 \<and> take 4 r = be_bytes32 cid"
proof (induction cid payload offset seq rule: frame_cont.induct)
  case (1 cid payload offset seq)
  show ?case
  proof (cases "offset < length payload")
    case True
    then have "r = cont_packet cid seq
          (subslice offset (offset + min (length payload - offset) 59) payload)
        \<or> r \<in> set (frame_cont cid payload (offset + min (length payload - offset) 59) (seq + 1))"
      using "1.prems" by (subst (asm) frame_cont.simps) (simp add: Let_def)
    then show ?thesis
      using "1.IH" [OF True refl] by auto
  next
    case False
    then show ?thesis
      using "1.prems" by (subst (asm) frame_cont.simps) simp
  qed
qed

lemma frame_message_report:
  assumes "frame_message cid cmd payload = Ok packets" and "r \<in> set packets"
  shows "length r = 64" and "take 4 r = be_bytes32 cid"
  using assms frame_cont_report by (auto simp: frame_message_def split: if_splits)

lemma length_frame_cont:
  "offset \<le> length payload \<Longrightarrow>
     length (frame_cont cid payload offset seq) = (length payload - offset + 58) div 59"
proof (induction cid payload offset seq rule: frame_cont.induct)
  case (1 cid payload offset seq)
  show ?case
  proof (cases "offset < length payload")
    case True
    let ?tk = "min (length payload - offset) 59"
    have "length (frame_cont cid payload offset seq) =
        Suc (length (frame_cont cid payload (offset + ?tk) (seq + 1)))"
      using True by (subst frame_cont.simps) (simp add: Let_def)
    also have "\<dots> = Suc ((length payload - (offset + ?tk) + 58) div 59)"
      using "1.IH" [OF True refl] True by simp
    also have "\<dots> = (length payload - offset + 58) div 59"
      using True by (simp add: min_def) linarith
    finally show ?thesis .
  next
    case False
    with "1.prems" show ?thesis by (subst frame_cont.simps) simp
  qed
qed

lemma frame_message_length:
  assumes "frame_message cid cmd payload = Ok packets"
  shows "length packets = 1 + (length payload - 57 + 58) div 59" and "length packets \<le> 129"
proof -
  from assms have len: "length payload \<le> 7609"
    and packets: "packets = init_packet cid cmd payload
        # frame_cont cid payload (min (length payload) 57) 0"
    by (auto simp: frame_message_def split: if_splits)
  have "length (frame_cont cid payload (min (length payload) 57) 0) =
      (length payload - min (length payload) 57 + 58) div 59"
    by (rule length_frame_cont) simp
  then show "length packets = 1 + (length payload - 57 + 58) div 59"
    by (simp add: packets min_def)
  then show "length packets \<le> 129"
    using len by linarith
qed

section \<open>Decoder invariant\<close>

text \<open>A partial message knows its command, still misses bytes, and holds exactly the payload of
  the initialization packet and of the continuation packets counted by \<^verbatim>\<open>next_seq\<close>.\<close>

definition decoder_wf :: "message_decoder \<Rightarrow> bool" where
  "decoder_wf dec = (case dec of None \<Rightarrow> True | Some p \<Rightarrow>
     command_from_byte (p_cmd p) \<noteq> None
     \<and> length (p_buf p) < p_expected p \<and> p_expected p \<le> MAX_MESSAGE_LEN
     \<and> length (p_buf p) = INIT_PAYLOAD + unat (p_next_seq p) * CONT_PAYLOAD)"

lemma decoder_wf_None [simp]: "decoder_wf None"
  by (simp add: decoder_wf_def)

lemma decoder_wf_seq: "decoder_wf (Some p) \<Longrightarrow> unat (p_next_seq p) < 128"
  by (simp add: decoder_wf_def)

lemma push_init_wf:
  assumes "length report = 64" and "report ! 4 AND 0x80 \<noteq> 0"
    and "decoder_push report dec = (res, dec')"
  shows "decoder_wf dec'" and "res = Ok (Some (cmd, body)) \<Longrightarrow> length body \<le> 57"
  using assms
  by (auto simp: decoder_push_def Let_def decoder_wf_def command_from_byte_Some min_def
      split: option.splits if_splits)

lemma push_cont_wf:
  assumes len: "length report = 64" and flag: "report ! 4 AND 0x80 = 0"
    and push: "decoder_push report dec = (res, dec')" and wf: "decoder_wf dec"
  shows "decoder_wf dec'" and "res = Ok (Some (cmd, body)) \<Longrightarrow> length body \<le> 7609"
    and "res \<noteq> Err (Malformed ''unknown command byte'')"
proof -
  have "decoder_wf dec' \<and> (res = Ok (Some (cmd, body)) \<longrightarrow> length body \<le> 7609)
      \<and> res \<noteq> Err (Malformed ''unknown command byte'')"
  proof (cases dec)
    case None
    with push flag show ?thesis by (auto simp: decoder_push_def Let_def)
  next
    case (Some p)
    with wf have "unat (p_next_seq p + 1) = Suc (unat (p_next_seq p))"
      using decoder_wf_seq [of p] by (simp add: unat_word_ariths)
    with Some push flag wf len show ?thesis
      by (auto simp: decoder_push_def Let_def decoder_wf_def min_def split: option.splits if_splits)
  qed
  then show "decoder_wf dec'" and "res = Ok (Some (cmd, body)) \<Longrightarrow> length body \<le> 7609"
    and "res \<noteq> Err (Malformed ''unknown command byte'')"
    by blast+
qed

lemma push_wf:
  assumes "length report = 64" and "decoder_push report dec = (res, dec')" and "decoder_wf dec"
  shows "decoder_wf dec'"
  using assms push_init_wf(1) push_cont_wf(1) by blast

lemma push_error_resets: "decoder_push report dec = (Err e, dec') \<Longrightarrow> dec' = None"
  by (auto simp: decoder_push_def Let_def split: option.splits if_splits)

section \<open>Properties\<close>

text \<open>C1. Fragmentation and reassembly are inverse on whole streams: for any messages of at most
  \<open>MAX_MESSAGE_LEN\<close> bytes, framed on any channels and concatenated, a decoder in any state
  (a half-received message included) yields exactly these commands and payloads in order and
  ends idle.\<close>

theorem frame_stream_roundtrip:
  assumes "list_all2 (\<lambda>(cid, m) ps. frame_message cid (fst m) (snd m) = Ok ps) ms pss"
    and "ms \<noteq> []"
  shows "decode_stream (concat pss) dec = (Ok (map snd ms), None)"
proof -
  have "decode_stream (concat pss) dec = (Ok (map snd ms), if ms = [] then dec else None)"
    using assms(1)
  proof (induction arbitrary: dec rule: list_all2_induct)
    case (Cons m ms ps pss)
    then have "completes dec ps (snd m) None"
      using frame_message_completes by (cases m) force
    from decode_stream_completes [OF this] Cons.IH [of None] show ?case
      by (simp add: add_message_def)
  qed simp
  with assms(2) show ?thesis by simp
qed

theorem frame_stream_roundtrip_witness:
  "\<exists>ps qs. frame_message 1 CmdCbor (replicate 100 7) = Ok ps \<and> frame_message 2 CmdPing [9] = Ok qs
    \<and> length ps = 2
    \<and> decode_stream (concat [ps, qs]) None = (Ok [(CmdCbor, replicate 100 7), (CmdPing, [9])], None)"
proof -
  obtain ps qs where ps: "frame_message 1 CmdCbor (replicate 100 7) = Ok ps"
    and qs: "frame_message 2 CmdPing [9] = Ok qs"
    by (simp add: frame_message_def)
  have "length ps = 2"
    using frame_message_length(1) [OF ps] by simp
  with ps qs frame_stream_roundtrip [of "[(1, CmdCbor, replicate 100 7), (2, CmdPing, [9])]"
      "[ps, qs]" None]
  show ?thesis by simp
qed

text \<open>C6. Every packet of a framed message is one 64-byte report on the message's channel, and
  a message takes one initialization packet and one continuation packet per started 59 bytes
  beyond the first 57, at most 129 in all (so the sequence number never wraps).\<close>

theorem frame_message_packets:
  assumes "frame_message cid cmd payload = Ok packets"
  shows "(\<forall>r \<in> set packets. length r = REPORT_LEN \<and> take 4 r = be_bytes32 cid)
    \<and> length packets = 1 + (length payload - INIT_PAYLOAD + CONT_PAYLOAD - 1) div CONT_PAYLOAD
    \<and> length packets \<le> 129"
  using frame_message_report [OF assms] frame_message_length [OF assms] by simp

text \<open>C4. The decoder's invariant: whatever 64-byte reports arrive, a partial message always
  misses bytes (so the remaining-length subtraction never underflows), holds exactly the bytes
  its sequence number accounts for (so the sequence number stays below 128 and never wraps), and
  is for a known command; every completed message fits the limit, and every error leaves the
  decoder idle.\<close>

theorem decoder_invariant:
  assumes "length report = REPORT_LEN" and "decoder_wf dec"
    and "decoder_push report dec = (res, dec')"
  shows "decoder_wf dec' \<and> (\<forall>e. res = Err e \<longrightarrow> dec' = None)
    \<and> (\<forall>cmd body. res = Ok (Some (cmd, body)) \<longrightarrow> length body \<le> MAX_MESSAGE_LEN)"
proof -
  have "length body \<le> 7609" if "res = Ok (Some (cmd, body))" for cmd body
    using assms that push_init_wf(2) [of report dec res dec' cmd body]
      push_cont_wf(2) [of report dec res dec' cmd body]
    by (cases "report ! 4 AND 0x80 = 0") auto
  then show ?thesis
    using assms push_wf [of report dec res dec'] push_error_resets [of report dec _ dec'] by auto
qed

theorem frame_message_packets_witness:
  "\<exists>ps. frame_message 5 CmdCbor (replicate 7609 0) = Ok ps \<and> length ps = 129
    \<and> (\<forall>r \<in> set ps. length r = REPORT_LEN \<and> take 4 r = be_bytes32 5)"
proof -
  obtain ps where ps: "frame_message 5 CmdCbor (replicate 7609 0) = Ok ps"
    by (simp add: frame_message_def)
  from frame_message_packets [OF this] show ?thesis by (intro exI [of _ ps]) (simp add: ps)
qed

theorem decoder_invariant_witness:
  "decoder_wf (Some \<lparr>p_cmd = 0x90, p_expected = 100, p_buf = replicate 57 1, p_next_seq = 0\<rparr>)
   \<and> decoder_push (cont_packet 1 0 (replicate 43 2))
      (Some \<lparr>p_cmd = 0x90, p_expected = 100, p_buf = replicate 57 1, p_next_seq = 0\<rparr>) =
      (Ok (Some (CmdCbor, replicate 57 1 @ replicate 43 2)), None)
   \<and> length (replicate 57 (1 :: byte) @ replicate 43 2) \<le> MAX_MESSAGE_LEN"
proof -
  let ?dec = "Some \<lparr>p_cmd = 0x90, p_expected = 100, p_buf = replicate 57 1, p_next_seq = 0\<rparr>"
  have wf: "decoder_wf ?dec" by (simp add: decoder_wf_def command_from_byte_def)
  have push: "decoder_push (cont_packet 1 0 (replicate 43 2)) ?dec =
      (Ok (Some (CmdCbor, replicate 57 1 @ replicate 43 2)), None)"
    using push_cont [of 0 57 "replicate 57 1 @ replicate 43 2" "replicate 43 2" 1 CmdCbor] by simp
  have "length (cont_packet 1 0 (replicate 43 2)) = REPORT_LEN" by simp
  from decoder_invariant [OF this wf push] wf push show ?thesis by simp
qed

end
