(* ===== verification/CtapChannel.thy ===== *)
theory CtapChannel
  imports CtapHid
begin

unbundle bit_operations_syntax

text \<open>
  The CTAPHID channel of \<^verbatim>\<open>crates/ckman-transport/src/ctaphid.rs\<close>: the \<^verbatim>\<open>ReportIo\<close> trait as a
  record of procedures over a world, channel allocation, requests with keepalives and
  deadlines, cancellation, and the \<^verbatim>\<open>loopback\<close> authenticator.
  \<^verbatim>\<open>Instant::now()\<close> is the third operation of the record; times are natural numbers.
  \<open>None\<close> stands for a call that does not return: a receive loop fed forever with
  foreign reports by a stopped clock, or a panicking device.
\<close>

section \<open>The transport\<close>

record 'd report_io =
  write_report :: "report \<Rightarrow> ('d, io_error, unit) proc"
  read_report :: "nat \<Rightarrow> ('d, io_error, report option) proc"
  instant_now :: "'d \<Rightarrow> nat \<times> 'd"

fun send_all :: "'d report_io \<Rightarrow> report list \<Rightarrow> ('d, ctaphid_error, unit) proc" where
  "send_all io [] = ret ()"
| "send_all io (p # ps) = proc_bind (proc_map_err HidIo (write_report io p)) (\<lambda>_. send_all io ps)"

text \<open>The head of both receive loops: the deadline check and one read.\<close>

definition next_report :: "'d report_io \<Rightarrow> nat \<Rightarrow> ('d, ctaphid_error, report) proc" where
  "next_report io deadline = (\<lambda>d.
     let (now, d) = instant_now io d; remaining = deadline - now in
     if remaining = 0 then Some (Err Timeout, d)
     else (case read_report io remaining d of
             None \<Rightarrow> None
           | Some (Err e, d) \<Rightarrow> Some (Err (HidIo e), d)
           | Some (Ok None, d) \<Rightarrow> Some (Err Timeout, d)
           | Some (Ok (Some report), d) \<Rightarrow> Some (Ok report, d)))"

record capabilities =
  wink :: bool
  cbor_cap :: bool
  nmsg :: bool

datatype 'a loop_step = Continue | Finish "ctaphid_error + 'a"

text \<open>What the allocation loop does with one completed message on the broadcast channel.\<close>

definition allocate_reply :: "byte list \<Rightarrow> command \<times> byte list \<Rightarrow> (u32 \<times> capabilities) loop_step" where
  "allocate_reply nonce m = (case m of (cmd, payload) \<Rightarrow>
     if cmd = CmdError then Finish (Err (device_failure payload))
     else if cmd \<noteq> CmdInit then Continue
     else if length payload < 17 then Finish (Err (Malformed ''short INIT response''))
     else if take 8 payload \<noteq> nonce then Continue
     else let cid = from_be32 (subslice 8 12 payload) in
       if cid = 0 \<or> cid = BROADCAST_CID
       then Finish (Err (Malformed ''INIT assigned a reserved channel''))
       else let caps = payload ! 16 in
         Finish (Ok (cid, \<lparr>wink = (caps AND 0x01 \<noteq> 0), cbor_cap = (caps AND 0x04 \<noteq> 0),
                          nmsg = (caps AND 0x08 \<noteq> 0)\<rparr>)))"

partial_function (option) allocate_loop ::
  "'d report_io \<Rightarrow> byte list \<Rightarrow> nat \<Rightarrow> message_decoder \<Rightarrow> 'd
    \<Rightarrow> ((ctaphid_error + u32 \<times> capabilities) \<times> 'd) option" where
  "allocate_loop io nonce deadline dec d = (case next_report io deadline d of
     None \<Rightarrow> None
   | Some (Err e, d) \<Rightarrow> Some (Err e, d)
   | Some (Ok report, d) \<Rightarrow>
       if from_be32 (take 4 report) \<noteq> BROADCAST_CID
       then allocate_loop io nonce deadline dec d
       else (case decoder_push report dec of
          (Err e, dec') \<Rightarrow> Some (Err e, d)
        | (Ok None, dec') \<Rightarrow> allocate_loop io nonce deadline dec' d
        | (Ok (Some m), dec') \<Rightarrow> (case allocate_reply nonce m of
             Continue \<Rightarrow> allocate_loop io nonce deadline dec' d
           | Finish r \<Rightarrow> Some (r, d))))"

definition allocate ::
  "'d report_io \<Rightarrow> byte list \<Rightarrow> nat \<Rightarrow> ('d, ctaphid_error, u32 \<times> capabilities) proc" where
  "allocate io nonce timeout =
     proc_bind (lift_res (frame_message BROADCAST_CID CmdInit nonce)) (\<lambda>packets.
     proc_bind (send_all io packets) (\<lambda>_ d.
       let (now, d) = instant_now io d in allocate_loop io nonce (now + timeout) decoder_new d))"

text \<open>What \<^verbatim>\<open>request\<close> does with one completed message: a keepalive is forwarded to the
  callback, everything else ends the request.\<close>

datatype request_step = Forward keepalive | Reply "ctaphid_error + byte list"

definition request_reply :: "command \<Rightarrow> command \<times> byte list \<Rightarrow> request_step" where
  "request_reply cmd m = (case m of
     (CmdKeepalive, body) \<Rightarrow> (case body of
        [status] \<Rightarrow> Forward (keepalive_from_byte status)
      | _ \<Rightarrow> Reply (Err (Malformed ''KEEPALIVE must contain one byte'')))
   | (CmdError, body) \<Rightarrow> Reply (Err (device_failure body))
   | (response, body) \<Rightarrow>
       if response = cmd then Reply (Ok body)
       else Reply (Err (Malformed ''unexpected response command'')))"

partial_function (option) request_loop ::
  "'d report_io \<Rightarrow> (keepalive \<Rightarrow> 'd \<Rightarrow> 'd) \<Rightarrow> u32 \<Rightarrow> command \<Rightarrow> nat \<Rightarrow> message_decoder \<Rightarrow> 'd
    \<Rightarrow> ((ctaphid_error + byte list) \<times> 'd) option" where
  "request_loop io on_keepalive cid cmd deadline dec d = (case next_report io deadline d of
     None \<Rightarrow> None
   | Some (Err e, d) \<Rightarrow> Some (Err e, d)
   | Some (Ok report, d) \<Rightarrow>
       if from_be32 (take 4 report) \<noteq> cid
       then request_loop io on_keepalive cid cmd deadline dec d
       else (case decoder_push report dec of
          (Err e, dec') \<Rightarrow> Some (Err e, d)
        | (Ok None, dec') \<Rightarrow> request_loop io on_keepalive cid cmd deadline dec' d
        | (Ok (Some m), dec') \<Rightarrow> (case request_reply cmd m of
             Forward k \<Rightarrow> request_loop io on_keepalive cid cmd deadline dec' (on_keepalive k d)
           | Reply r \<Rightarrow> Some (r, d))))"

definition request ::
  "'d report_io \<Rightarrow> u32 \<Rightarrow> command \<Rightarrow> byte list \<Rightarrow> nat \<Rightarrow> (keepalive \<Rightarrow> 'd \<Rightarrow> 'd)
    \<Rightarrow> ('d, ctaphid_error, byte list) proc" where
  "request io cid cmd payload timeout on_keepalive =
     proc_bind (lift_res (frame_message cid cmd payload)) (\<lambda>packets.
     proc_bind (send_all io packets) (\<lambda>_ d.
       let (now, d) = instant_now io d
       in request_loop io on_keepalive cid cmd (now + timeout) decoder_new d))"

definition cancel :: "'d report_io \<Rightarrow> u32 \<Rightarrow> ('d, ctaphid_error, unit) proc" where
  "cancel io cid = proc_bind (lift_res (frame_message cid CmdCancel [])) (send_all io)"

section \<open>The loopback authenticator\<close>

datatype cbor_behavior =
    Respond "byte list"
  | KeepaliveThen "keepalive list" "byte list"
  | Scripted "byte list list"
  | Fail hid_device_error

record loopback =
  inbox :: "report list"
  outbox :: "report list"
  lb_decoder :: message_decoder
  next_cid :: u32
  cbor :: cbor_behavior
  cbor_log :: "byte list list"

definition loopback_new :: "cbor_behavior \<Rightarrow> loopback" where
  "loopback_new b = \<lparr>inbox = [], outbox = [], lb_decoder = decoder_new, next_cid = 1,
     cbor = b, cbor_log = []\<rparr>"

text \<open>\<^verbatim>\<open>expect("loopback frame")\<close> panics on an oversized payload: \<open>None\<close>.\<close>

definition loopback_respond :: "u32 \<Rightarrow> command \<Rightarrow> byte list \<Rightarrow> loopback \<Rightarrow> loopback option" where
  "loopback_respond cid cmd payload lb = (case frame_message cid cmd payload of
     Err _ \<Rightarrow> None
   | Ok packets \<Rightarrow> Some (lb\<lparr>outbox := outbox lb @ packets\<rparr>))"

fun keepalive_code :: "keepalive \<Rightarrow> u8" where
  "keepalive_code Processing = 0x01"
| "keepalive_code UserPresenceNeeded = 0x02"
| "keepalive_code (UnknownStatus b) = b"

fun device_error_code :: "hid_device_error \<Rightarrow> u8" where
  "device_error_code InvalidCmd = 0x01"
| "device_error_code InvalidParam = 0x02"
| "device_error_code InvalidLen = 0x03"
| "device_error_code InvalidSeq = 0x04"
| "device_error_code MsgTimeout = 0x05"
| "device_error_code ChannelBusy = 0x06"
| "device_error_code LockRequired = 0x0a"
| "device_error_code InvalidChannel = 0x0b"
| "device_error_code OtherError = 0x7f"
| "device_error_code (UnknownError b) = b"

datatype cbor_act = ActRespond "byte list" | ActKeepaliveThen "u8 list" "byte list" | ActFail u8

fun cbor_act_of :: "cbor_behavior \<Rightarrow> cbor_act \<times> cbor_behavior" where
  "cbor_act_of (Respond payload) = (ActRespond payload, Respond payload)"
| "cbor_act_of (Scripted []) = (ActFail 0x01, Scripted [])"
| "cbor_act_of (Scripted (p # ps)) = (ActRespond p, Scripted ps)"
| "cbor_act_of (KeepaliveThen statuses payload) =
     (ActKeepaliveThen (map keepalive_code statuses) payload, KeepaliveThen statuses payload)"
| "cbor_act_of (Fail e) = (ActFail (device_error_code e), Fail e)"

fun respond_keepalives :: "u32 \<Rightarrow> u8 list \<Rightarrow> loopback \<Rightarrow> loopback option" where
  "respond_keepalives cid [] lb = Some lb"
| "respond_keepalives cid (b # bs) lb =
     Option.bind (loopback_respond cid CmdKeepalive [b] lb) (respond_keepalives cid bs)"

fun run_cbor_act :: "u32 \<Rightarrow> cbor_act \<Rightarrow> loopback \<Rightarrow> loopback option" where
  "run_cbor_act cid (ActRespond payload) lb = loopback_respond cid CmdCbor payload lb"
| "run_cbor_act cid (ActKeepaliveThen statuses payload) lb =
     Option.bind (respond_keepalives cid statuses lb) (loopback_respond cid CmdCbor payload)"
| "run_cbor_act cid (ActFail b) lb = loopback_respond cid CmdError [b] lb"

definition loopback_handle :: "u32 \<Rightarrow> command \<Rightarrow> byte list \<Rightarrow> loopback \<Rightarrow> loopback option" where
  "loopback_handle cid cmd payload lb = (case cmd of
     CmdInit \<Rightarrow>
       let new_cid = next_cid lb; lb = lb\<lparr>next_cid := next_cid lb + 1\<rparr>;
           response = payload @ be_bytes32 new_cid @ [2, 1, 0, 0] @ [0x01 OR 0x04]
       in loopback_respond BROADCAST_CID CmdInit response lb
   | CmdPing \<Rightarrow> loopback_respond cid CmdPing payload lb
   | CmdWink \<Rightarrow> loopback_respond cid CmdWink [] lb
   | CmdCbor \<Rightarrow>
       let lb = lb\<lparr>cbor_log := cbor_log lb @ [payload]\<rparr>; (act, behavior) = cbor_act_of (cbor lb)
       in run_cbor_act cid act (lb\<lparr>cbor := behavior\<rparr>)
   | _ \<Rightarrow> loopback_respond cid CmdError [0x01] lb)"

fun show_device_error :: "hid_device_error \<Rightarrow> string" where
  "show_device_error InvalidCmd = ''InvalidCmd''"
| "show_device_error InvalidParam = ''InvalidParam''"
| "show_device_error InvalidLen = ''InvalidLen''"
| "show_device_error InvalidSeq = ''InvalidSeq''"
| "show_device_error MsgTimeout = ''MsgTimeout''"
| "show_device_error ChannelBusy = ''ChannelBusy''"
| "show_device_error LockRequired = ''LockRequired''"
| "show_device_error InvalidChannel = ''InvalidChannel''"
| "show_device_error OtherError = ''Other''"
| "show_device_error (UnknownError b) = ''Unknown('' @ show_nat (unat b) @ '')''"

fun show_ctaphid_error :: "ctaphid_error \<Rightarrow> string" where
  "show_ctaphid_error (HidIo e) = ''HID I/O error: '' @ io_message e"
| "show_ctaphid_error Timeout = ''timed out waiting for the authenticator''"
| "show_ctaphid_error (PayloadTooLarge n) =
     ''message of '' @ show_nat n @ '' bytes exceeds the CTAPHID limit of ''
       @ show_nat MAX_MESSAGE_LEN"
| "show_ctaphid_error (Malformed msg) = ''malformed report from the authenticator: '' @ msg"
| "show_ctaphid_error (Device e) = ''authenticator reported an error: '' @ show_device_error e"
| "show_ctaphid_error WrongChannel = ''authenticator answered on an unexpected channel''"

definition loopback_write :: "report \<Rightarrow> (loopback, io_error, unit) proc" where
  "loopback_write report lb =
    (let cid = from_be32 (take 4 report); lb = lb\<lparr>inbox := inbox lb @ [report]\<rparr> in
     case decoder_push report (lb_decoder lb) of
       (Err e, dec) \<Rightarrow>
         Some (Err (IoError IoInvalidData (show_ctaphid_error e)), lb\<lparr>lb_decoder := dec\<rparr>)
     | (Ok None, dec) \<Rightarrow> Some (Ok (), lb\<lparr>lb_decoder := dec\<rparr>)
     | (Ok (Some (cmd, payload)), dec) \<Rightarrow>
         map_option (\<lambda>lb. (Ok (), lb)) (loopback_handle cid cmd payload (lb\<lparr>lb_decoder := dec\<rparr>)))"

definition loopback_read :: "nat \<Rightarrow> (loopback, io_error, report option) proc" where
  "loopback_read timeout lb = (case outbox lb of
     [] \<Rightarrow> Some (Ok None, lb)
   | r # rs \<Rightarrow> Some (Ok (Some r), lb\<lparr>outbox := rs\<rparr>))"

text \<open>A world for the loopback device: the device, a clock that an in-memory exchange does not
  advance, and the keepalives the caller's callback has seen.\<close>

type_synonym loop_world = "loopback \<times> nat \<times> keepalive list"

definition loop_io :: "loop_world report_io" where
  "loop_io = \<lparr>
     write_report = (\<lambda>r (lb, w). map_option (\<lambda>(x, lb). (x, lb, w)) (loopback_write r lb)),
     read_report = (\<lambda>t (lb, w). map_option (\<lambda>(x, lb). (x, lb, w)) (loopback_read t lb)),
     instant_now = (\<lambda>(lb, t, ks). (t, lb, t, ks))\<rparr>"

definition record_keepalive :: "keepalive \<Rightarrow> loop_world \<Rightarrow> loop_world" where
  "record_keepalive k w = (case w of (lb, t, ks) \<Rightarrow> (lb, t, ks @ [k]))"

section \<open>The contract of a queueing device\<close>

text \<open>
  What the channel client relies on: the device queues complete reports and delivers them in
  order, one per read; writing the packets of one message has the effect \<open>deliver\<close> of that
  message; the clock stands still during the exchange; the keepalive callback leaves the
  device alone.
\<close>

locale queue_device =
  fixes io :: "'d report_io"
    and queue :: "'d \<Rightarrow> report list"
    and pop :: "'d \<Rightarrow> 'd"
    and clock :: "'d \<Rightarrow> nat"
    and deliver :: "u32 \<Rightarrow> command \<Rightarrow> byte list \<Rightarrow> 'd \<Rightarrow> 'd option"
    and on_keepalive :: "keepalive \<Rightarrow> 'd \<Rightarrow> 'd"
  assumes read_empty: "queue d = [] \<Longrightarrow> read_report io t d = Some (Ok None, d)"
    and read_pop: "queue d = r # rs \<Longrightarrow> read_report io t d = Some (Ok (Some r), pop d)"
    and queue_pop: "queue d = r # rs \<Longrightarrow> queue (pop d) = rs"
    and clock_pop: "clock (pop d) = clock d"
    and now_clock: "instant_now io d = (clock d, d)"
    and write_message: "frame_message cid cmd payload = Ok ps \<Longrightarrow>
      send_all io ps d = map_option (\<lambda>d'. (Ok (), d')) (deliver cid cmd payload d)"
    and clock_deliver: "deliver cid cmd payload d = Some d' \<Longrightarrow> clock d' = clock d"
    and keepalive_queue: "queue (on_keepalive k d) = queue d"
    and keepalive_clock: "clock (on_keepalive k d) = clock d"
begin

definition pops :: "nat \<Rightarrow> 'd \<Rightarrow> 'd" where
  "pops n d = (pop ^^ n) d"

lemma pops_simps [simp]: "pops 0 d = d" "pops (Suc n) d = pops n (pop d)"
  by (simp_all add: pops_def funpow_swap1)

lemma clock_pops [simp]: "clock (pops n d) = clock d"
  by (induction n arbitrary: d) (simp_all add: clock_pop)

lemma queue_pops: "queue d = ps @ rest \<Longrightarrow> queue (pops (length ps) d) = rest"
  by (induction ps arbitrary: d) (simp_all add: queue_pop)

lemma next_report_pop:
  "clock d < deadline \<Longrightarrow> queue d = r # rs \<Longrightarrow> next_report io deadline d = Some (Ok r, pop d)"
  by (simp add: next_report_def now_clock read_pop)

lemma next_report_empty:
  "queue d = [] \<Longrightarrow> next_report io deadline d = Some (Err Timeout, d)"
  by (simp add: next_report_def now_clock read_empty)

lemma request_loop_message:
  assumes "completes dec ps m dec'" and "queue d = ps @ rest" and "clock d < deadline"
    and "\<And>r. r \<in> set ps \<Longrightarrow> from_be32 (take 4 r) = cid"
  shows "request_loop io on_keepalive cid cmd deadline dec d =
    (case request_reply cmd m of
       Forward k \<Rightarrow> request_loop io on_keepalive cid cmd deadline dec'
                      (on_keepalive k (pops (length ps) d))
     | Reply r \<Rightarrow> Some (r, pops (length ps) d))"
  using assms
proof (induction arbitrary: d rule: completes.induct)
  case (last r dec m dec')
  then have "next_report io deadline d = Some (Ok r, pop d)"
    by (simp add: next_report_pop)
  with last show ?case by (subst request_loop.simps) (simp split: request_step.split)
next
  case (more r dec dec' rs m dec'')
  then have "next_report io deadline d = Some (Ok r, pop d)"
    by (simp add: next_report_pop)
  with more show ?case
    by (subst request_loop.simps) (simp add: queue_pop clock_pop split: request_step.split)
qed

lemma request_loop_empty:
  "queue d = [] \<Longrightarrow> request_loop io on_keepalive cid cmd deadline dec d = Some (Err Timeout, d)"
  by (subst request_loop.simps) (simp add: next_report_empty)

lemma request_loop_foreign:
  assumes "queue d = ps @ rest" and "clock d < deadline"
    and "\<And>r. r \<in> set ps \<Longrightarrow> from_be32 (take 4 r) \<noteq> cid"
  shows "request_loop io on_keepalive cid cmd deadline dec d =
    request_loop io on_keepalive cid cmd deadline dec (pops (length ps) d)"
  using assms
proof (induction ps arbitrary: d)
  case (Cons p ps)
  then have "next_report io deadline d = Some (Ok p, pop d)"
    by (simp add: next_report_pop)
  with Cons show ?case
    by (subst request_loop.simps) (simp add: queue_pop clock_pop)
qed simp

lemma allocate_loop_message:
  assumes "completes dec ps m dec'" and "queue d = ps @ rest" and "clock d < deadline"
    and "\<And>r. r \<in> set ps \<Longrightarrow> from_be32 (take 4 r) = BROADCAST_CID"
  shows "allocate_loop io nonce deadline dec d =
    (case allocate_reply nonce m of
       Continue \<Rightarrow> allocate_loop io nonce deadline dec' (pops (length ps) d)
     | Finish r \<Rightarrow> Some (r, pops (length ps) d))"
  using assms
proof (induction arbitrary: d rule: completes.induct)
  case (last r dec m dec')
  then have "next_report io deadline d = Some (Ok r, pop d)"
    by (simp add: next_report_pop)
  with last show ?case by (subst allocate_loop.simps) (simp split: loop_step.split)
next
  case (more r dec dec' rs m dec'')
  then have "next_report io deadline d = Some (Ok r, pop d)"
    by (simp add: next_report_pop)
  with more show ?case
    by (subst allocate_loop.simps) (simp add: queue_pop clock_pop split: loop_step.split)
qed

text \<open>A whole request: deliver the message, then receive.\<close>

lemma request_run:
  assumes "frame_message cid cmd payload = Ok ps" and "deliver cid cmd payload d = Some d'"
  shows "request io cid cmd payload timeout on_keepalive d =
    request_loop io on_keepalive cid cmd (clock d + timeout) None d'"
  using assms write_message [OF assms(1), of d]
  by (simp add: request_def proc_bind_def lift_res_def now_clock clock_deliver decoder_new_def)

lemma allocate_run:
  assumes "frame_message BROADCAST_CID CmdInit nonce = Ok ps"
    and "deliver BROADCAST_CID CmdInit nonce d = Some d'"
  shows "allocate io nonce timeout d = allocate_loop io nonce (clock d + timeout) None d'"
  using assms write_message [OF assms(1), of d]
  by (simp add: allocate_def proc_bind_def lift_res_def now_clock clock_deliver decoder_new_def)

text \<open>Keepalives are forwarded in order, then the final message decides.\<close>

fun forward_all :: "report list list \<Rightarrow> keepalive list \<Rightarrow> 'd \<Rightarrow> 'd" where
  "forward_all (ps # pss) (k # ks) d = forward_all pss ks (on_keepalive k (pops (length ps) d))"
| "forward_all _ _ d = d"

lemma request_loop_keepalives:
  assumes "list_all2 (\<lambda>b ps. frame_message cid CmdKeepalive [b] = Ok ps) bs pss"
    and "queue d = concat pss @ rest" and "clock d < deadline"
  defines "d' \<equiv> forward_all pss (map keepalive_from_byte bs) d"
  shows "request_loop io on_keepalive cid cmd deadline None d =
      request_loop io on_keepalive cid cmd deadline None d'
    \<and> queue d' = rest \<and> clock d' = clock d"
  using assms(1-3) unfolding d'_def
proof (induction arbitrary: d rule: list_all2_induct)
  case (Cons b bs ps pss)
  have cid: "from_be32 (take 4 r) = cid" if "r \<in> set ps" for r
    using frame_message_report(2) [OF Cons(1) that] by simp
  let ?d = "on_keepalive (keepalive_from_byte b) (pops (length ps) d)"
  from request_loop_message [OF frame_message_completes [OF Cons(1)], of d "concat pss @ rest"
      deadline cid cmd None] Cons.prems cid
  have step: "request_loop io on_keepalive cid cmd deadline None d =
      request_loop io on_keepalive cid cmd deadline None ?d"
    by (simp add: request_reply_def)
  have "queue ?d = concat pss @ rest" "clock ?d < deadline" "clock ?d = clock d"
    using Cons.prems queue_pops [of d ps "concat pss @ rest"]
    by (simp_all add: keepalive_queue keepalive_clock)
  with Cons.IH [of ?d] step show ?case by simp
qed simp

end

section \<open>The loopback device meets the contract\<close>

definition loop_queue :: "loop_world \<Rightarrow> report list" where
  "loop_queue w = outbox (fst w)"

definition loop_pop :: "loop_world \<Rightarrow> loop_world" where
  "loop_pop w = (case w of (lb, r) \<Rightarrow> (lb\<lparr>outbox := tl (outbox lb)\<rparr>, r))"

definition loop_clock :: "loop_world \<Rightarrow> nat" where
  "loop_clock w = fst (snd w)"

definition loop_deliver :: "u32 \<Rightarrow> command \<Rightarrow> byte list \<Rightarrow> loop_world \<Rightarrow> loop_world option" where
  "loop_deliver cid cmd payload w = (case w of (lb, r) \<Rightarrow>
     (case frame_message cid cmd payload of
        Err _ \<Rightarrow> None
      | Ok ps \<Rightarrow> map_option (\<lambda>lb. (lb, r)) (loopback_handle cid cmd payload
          (lb\<lparr>inbox := inbox lb @ ps, lb_decoder := None\<rparr>))))"

lemma loop_io_write:
  "write_report loop_io r (lb, w) = map_option (\<lambda>(x, lb). (x, lb, w)) (loopback_write r lb)"
  by (simp add: loop_io_def)

lemma send_all_loopback:
  assumes "completes dec ps (cmd, payload) dec'" and "lb_decoder lb = dec"
    and "\<And>r. r \<in> set ps \<Longrightarrow> from_be32 (take 4 r) = cid"
  shows "send_all loop_io ps (lb, w) = map_option (\<lambda>lb. (Ok (), lb, w))
    (loopback_handle cid cmd payload (lb\<lparr>inbox := inbox lb @ ps, lb_decoder := dec'\<rparr>))"
  using assms
proof (induction dec ps "(cmd, payload)" dec' arbitrary: lb rule: completes.induct)
  case (last r dec dec')
  then show ?case
    by (cases "loopback_handle cid cmd payload
          (lb\<lparr>inbox := inbox lb @ [r], lb_decoder := dec'\<rparr>)")
      (simp_all add: proc_bind_def proc_map_err_def loop_io_write loopback_write_def Let_def ret_def)
next
  case (more r dec dec' rs dec'')
  then have w: "loopback_write r lb =
      Some (Ok (), lb\<lparr>inbox := inbox lb @ [r], lb_decoder := dec'\<rparr>)"
    by (simp add: loopback_write_def Let_def)
  from more.hyps(3) [of "lb\<lparr>inbox := inbox lb @ [r], lb_decoder := dec'\<rparr>"] more.prems
  show ?case
    by (simp add: proc_bind_def proc_map_err_def loop_io_write w)
qed

interpretation loop: queue_device loop_io loop_queue loop_pop loop_clock loop_deliver record_keepalive
proof unfold_locales
  fix cid cmd payload ps and d :: loop_world
  assume frame: "frame_message cid cmd payload = Ok ps"
  obtain lb w where d: "d = (lb, w)" by (cases d)
  have "from_be32 (take 4 r) = cid" if "r \<in> set ps" for r
    using frame_message_report(2) [OF frame that] by simp
  with frame_message_completes [OF frame] show "send_all loop_io ps d =
      map_option (\<lambda>d'. (Ok (), d')) (loop_deliver cid cmd payload d)"
    by (simp add: d loop_deliver_def frame send_all_loopback option.map_comp comp_def)
qed (auto simp: loop_queue_def loop_pop_def loop_clock_def loop_io_def loopback_read_def
    loop_deliver_def record_keepalive_def split: prod.splits sum.splits)

lemma loop_pop_apply: "loop_pop (lb, r) = (lb\<lparr>outbox := tl (outbox lb)\<rparr>, r)"
  by (simp add: loop_pop_def)

lemma record_keepalive_apply: "record_keepalive k (lb, t, ks) = (lb, t, ks @ [k])"
  by (simp add: record_keepalive_def)

lemma loop_pops: "loop.pops n (lb, w) = (lb\<lparr>outbox := drop n (outbox lb)\<rparr>, w)"
proof (induction n arbitrary: lb)
  case (Suc n)
  then show ?case by (simp add: loop_pop_apply drop_Suc)
qed simp

section \<open>Round trip through the loopback device\<close>

lemma keepalive_norm:
  "keepalive_from_byte (keepalive_code k) = (case k of
     UnknownStatus b \<Rightarrow> keepalive_from_byte b | _ \<Rightarrow> k)"
  by (cases k) (simp_all add: keepalive_from_byte_def)

text \<open>What a caller of the loopback device sees: the keepalives forwarded and the result.\<close>

fun loop_expected :: "cbor_behavior \<Rightarrow> command \<Rightarrow> byte list
    \<Rightarrow> keepalive list \<times> (ctaphid_error + byte list)" where
  "loop_expected b CmdPing payload = ([], Ok payload)"
| "loop_expected b CmdWink payload = ([], Ok [])"
| "loop_expected (Respond p) CmdCbor payload = ([], Ok p)"
| "loop_expected (Scripted []) CmdCbor payload = ([], Err (Device InvalidCmd))"
| "loop_expected (Scripted (p # ps)) CmdCbor payload = ([], Ok p)"
| "loop_expected (KeepaliveThen ks p) CmdCbor payload =
     (map (\<lambda>k. keepalive_from_byte (keepalive_code k)) ks, Ok p)"
| "loop_expected (Fail e) CmdCbor payload =
     ([], Err (Device (device_error_from_byte (device_error_code e))))"
| "loop_expected b _ payload = ([], Err (Device InvalidCmd))"

fun answer_size :: "cbor_behavior \<Rightarrow> nat" where
  "answer_size (Respond p) = length p"
| "answer_size (KeepaliveThen ks p) = length p"
| "answer_size (Scripted []) = 0"
| "answer_size (Scripted (p # ps)) = length p"
| "answer_size (Fail e) = 0"

lemma frame_message_Ok:
  "length payload \<le> 7609 \<Longrightarrow> \<exists>ps. frame_message cid cmd payload = Ok ps"
  by (simp add: frame_message_def)

lemma respond_Some:
  "frame_message cid cmd payload = Ok ps \<Longrightarrow>
     loopback_respond cid cmd payload lb = Some (lb\<lparr>outbox := outbox lb @ ps\<rparr>)"
  by (simp add: loopback_respond_def)

lemma respond_keepalives_Some:
  "\<exists>pss. list_all2 (\<lambda>b ps. frame_message cid CmdKeepalive [b] = Ok ps) bs pss \<and>
     respond_keepalives cid bs lb = Some (lb\<lparr>outbox := outbox lb @ concat pss\<rparr>)"
proof (induction bs arbitrary: lb)
  case (Cons b bs)
  obtain ps where ps: "frame_message cid CmdKeepalive [b] = Ok ps"
    using frame_message_Ok [of "[b]" cid CmdKeepalive] by auto
  from Cons.IH [of "lb\<lparr>outbox := outbox lb @ ps\<rparr>"] obtain pss where
    "list_all2 (\<lambda>b ps. frame_message cid CmdKeepalive [b] = Ok ps) bs pss"
    "respond_keepalives cid bs (lb\<lparr>outbox := outbox lb @ ps\<rparr>) =
       Some (lb\<lparr>outbox := outbox lb @ ps @ concat pss\<rparr>)"
    by auto
  with ps show ?case
    by (intro exI [of _ "ps # pss"]) (simp add: respond_Some)
qed simp

text \<open>Receiving one final message that the device has queued.\<close>

lemma loop_receive_final:
  assumes "frame_message cid c body = Ok ps" and "outbox lb = ps @ rest" and "0 < timeout"
    and "request_reply cmd (c, body) = Reply r"
  shows "request_loop loop_io record_keepalive cid cmd (t + timeout) None (lb, t, ks) =
    Some (r, (lb\<lparr>outbox := rest\<rparr>, t, ks))"
proof -
  have cid: "from_be32 (take 4 r) = cid" if "r \<in> set ps" for r
    using frame_message_report(2) [OF assms(1) that] by simp
  show ?thesis
    using loop.request_loop_message [OF frame_message_completes [OF assms(1)],
        of "(lb, t, ks)" rest "t + timeout" cid cmd None] assms cid
    by (simp add: loop_queue_def loop_clock_def loop_pops)
qed

lemma loop_forward_all:
  "length pss = length ksn \<Longrightarrow> loop.forward_all pss ksn (lb, t, ks) =
     (lb\<lparr>outbox := drop (length (concat pss)) (outbox lb)\<rparr>, t, ks @ ksn)"
proof (induction pss ksn arbitrary: lb ks rule: list_induct2')
  case (4 p ps k ksn)
  then show ?case
    by (simp add: loop_pops record_keepalive_apply ac_simps)
qed simp_all

lemma loop_request_answer:
  assumes "frame_message cid cmd payload = Ok qs" and "0 < timeout" and "outbox lb = []"
    and "loopback_handle cid cmd payload (lb\<lparr>inbox := inbox lb @ qs, lb_decoder := None\<rparr>)
      = Some (lb'\<lparr>outbox := ps\<rparr>)"
    and "frame_message cid c body = Ok ps" and "request_reply cmd (c, body) = Reply r"
  shows "\<exists>lb''. request loop_io cid cmd payload timeout record_keepalive (lb, t, ks) =
    Some (r, (lb'', t, ks)) \<and> outbox lb'' = []"
proof -
  have "loop_deliver cid cmd payload (lb, t, ks) = Some (lb'\<lparr>outbox := ps\<rparr>, t, ks)"
    by (simp add: loop_deliver_def assms)
  from loop.request_run [OF assms(1) this, of timeout]
    loop_receive_final [OF assms(5) _ assms(2) assms(6), of "lb'\<lparr>outbox := ps\<rparr>" "[]" t ks]
  show ?thesis by (simp add: loop_clock_def)
qed

lemma loop_request_simple:
  assumes "length payload \<le> 7609" and "0 < timeout" and "outbox lb = []"
    and "loopback_handle cid cmd payload (lb\<lparr>inbox := inbox lb @ qs, lb_decoder := None\<rparr>)
      = loopback_respond cid c body lb'"
    and "frame_message cid cmd payload = Ok qs" and "outbox lb' = []" and "length body \<le> 7609"
    and "request_reply cmd (c, body) = Reply r"
  shows "\<exists>lb''. request loop_io cid cmd payload timeout record_keepalive (lb, t, ks) =
    Some (r, (lb'', t, ks)) \<and> outbox lb'' = []"
proof -
  obtain ps where ps: "frame_message cid c body = Ok ps"
    using frame_message_Ok [OF assms(7)] by blast
  have "loopback_handle cid cmd payload (lb\<lparr>inbox := inbox lb @ qs, lb_decoder := None\<rparr>)
      = Some (lb'\<lparr>outbox := ps\<rparr>)"
    using assms(4,6) respond_Some [OF ps, of lb'] by simp
  then show ?thesis
    by (rule loop_request_answer [OF assms(5,2,3) _ ps assms(8)])
qed

lemma device_failure_single [simp]: "device_failure [b] = Device (device_error_from_byte b)"
  by (simp add: device_failure_def device_error_def)

lemma device_error_from_byte_1 [simp]: "device_error_from_byte 1 = InvalidCmd"
  by (simp add: device_error_from_byte_def)

lemma request_reply_error: "request_reply cmd (CmdError, [b]) =
    Reply (Err (Device (device_error_from_byte b)))"
  by (simp add: request_reply_def device_failure_def device_error_def)

lemma loop_request_keepalives:
  assumes len: "length payload \<le> 7609" "length body \<le> 7609" and "0 < timeout" and "outbox lb = []"
    and behave: "cbor lb = KeepaliveThen statuses body"
  shows "\<exists>lb'. request loop_io cid CmdCbor payload timeout record_keepalive (lb, t, ks) =
    Some (Ok body, (lb', t, ks @ map (\<lambda>k. keepalive_from_byte (keepalive_code k)) statuses))
    \<and> outbox lb' = []"
proof -
  let ?bs = "map keepalive_code statuses"
  obtain qs where qs: "frame_message cid CmdCbor payload = Ok qs"
    using frame_message_Ok [OF len(1)] by blast
  obtain ps where ps: "frame_message cid CmdCbor body = Ok ps"
    using frame_message_Ok [OF len(2)] by blast
  let ?lb = "lb\<lparr>inbox := inbox lb @ qs, lb_decoder := None, cbor_log := cbor_log lb @ [payload],
      cbor := KeepaliveThen statuses body\<rparr>"
  obtain pss where pss: "list_all2 (\<lambda>b ps. frame_message cid CmdKeepalive [b] = Ok ps) ?bs pss"
    and resp: "respond_keepalives cid ?bs ?lb = Some (?lb\<lparr>outbox := concat pss\<rparr>)"
    using respond_keepalives_Some [of cid ?bs ?lb] assms(4) by auto
  let ?lb' = "?lb\<lparr>outbox := concat pss @ ps\<rparr>"
  have deliver: "loop_deliver cid CmdCbor payload (lb, t, ks) = Some (?lb', t, ks)"
    using resp by (simp add: loop_deliver_def qs loopback_handle_def behave respond_Some [OF ps])
  have "length pss = length (map keepalive_from_byte ?bs)"
    using list_all2_lengthD [OF pss] by simp
  then have fwd: "loop.forward_all pss (map keepalive_from_byte ?bs) (?lb', t, ks) =
      (?lb'\<lparr>outbox := ps\<rparr>, t, ks @ map keepalive_from_byte ?bs)"
    by (subst loop_forward_all) simp_all
  have "request loop_io cid CmdCbor payload timeout record_keepalive (lb, t, ks) =
      request_loop loop_io record_keepalive cid CmdCbor (t + timeout) None (?lb', t, ks)"
    using loop.request_run [OF qs deliver, of timeout] by (simp add: loop_clock_def)
  also have "\<dots> = request_loop loop_io record_keepalive cid CmdCbor (t + timeout) None
      (?lb'\<lparr>outbox := ps\<rparr>, t, ks @ map keepalive_from_byte ?bs)"
    using loop.request_loop_keepalives [OF pss, of "(?lb', t, ks)" ps "t + timeout" CmdCbor] assms(3)
    by (simp add: loop_queue_def loop_clock_def fwd [unfolded map_map])
  also have "\<dots> = Some (Ok body, (?lb'\<lparr>outbox := []\<rparr>, t, ks @ map keepalive_from_byte ?bs))"
    using loop_receive_final [OF ps, of "?lb'\<lparr>outbox := ps\<rparr>" "[]" timeout CmdCbor "Ok body" t] assms(3)
    by (simp add: request_reply_def)
  finally show ?thesis by (auto simp: comp_def)
qed

lemma loop_request_cbor:
  assumes len: "length payload \<le> 7609" "answer_size (cbor lb) \<le> 7609" and "0 < timeout"
    and "outbox lb = []" and exp: "loop_expected (cbor lb) CmdCbor payload = (forwarded, result)"
  shows "\<exists>lb'. request loop_io cid CmdCbor payload timeout record_keepalive (lb, t, ks) =
    Some (result, (lb', t, ks @ forwarded)) \<and> outbox lb' = []"
proof (cases "\<exists>statuses body. cbor lb = KeepaliveThen statuses body")
  case True
  then obtain statuses body where "cbor lb = KeepaliveThen statuses body" by blast
  with loop_request_keepalives [OF len(1) _ assms(3,4) this, of cid t ks] len(2) exp
  show ?thesis by auto
next
  case False
  obtain qs where qs: "frame_message cid CmdCbor payload = Ok qs"
    using frame_message_Ok [OF len(1)] by blast
  let ?lb = "lb\<lparr>inbox := inbox lb @ qs, lb_decoder := None, cbor_log := cbor_log lb @ [payload],
      cbor := snd (cbor_act_of (cbor lb))\<rparr>"
  obtain c body where
    h: "loopback_handle cid CmdCbor payload (lb\<lparr>inbox := inbox lb @ qs, lb_decoder := None\<rparr>) =
          loopback_respond cid c body ?lb"
    and r: "request_reply CmdCbor (c, body) = Reply result" "length body \<le> 7609" "forwarded = []"
  proof (cases "cbor lb")
    case (Scripted ps)
    with exp len(2) that [of "if ps = [] then CmdError else CmdCbor" "if ps = [] then [0x01] else hd ps"]
    show ?thesis
      by (cases ps) (auto simp: loopback_handle_def request_reply_error device_error_from_byte_def
          request_reply_def device_failure_def device_error_def)
  next
    case (Fail e)
    with exp that [of CmdError "[device_error_code e]"] show ?thesis
      by (auto simp: loopback_handle_def request_reply_error)
  qed (use False exp len(2) that in \<open>auto simp: loopback_handle_def request_reply_def\<close>)
  have "outbox ?lb = []" using assms(4) by simp
  from loop_request_simple [OF len(1) assms(3,4) h qs this r(2,1), of t ks] r(3)
  show ?thesis by simp
qed

text \<open>C3. A request on an idle loopback device answers with exactly the scripted behaviour:
  PING echoes, WINK is empty, CBOR returns the scripted payload after forwarding every
  keepalive in order, a scripted failure and every unsupported command surface as device
  errors; the device's queue is empty again.\<close>

theorem loopback_request:
  assumes "length payload \<le> MAX_MESSAGE_LEN" and "answer_size (cbor lb) \<le> MAX_MESSAGE_LEN"
    and "outbox lb = []" and "0 < timeout" and "cmd \<noteq> CmdInit"
    and "loop_expected (cbor lb) cmd payload = (forwarded, result)"
  shows "\<exists>lb'. request loop_io cid cmd payload timeout record_keepalive (lb, t, ks) =
    Some (result, (lb', t, ks @ forwarded)) \<and> outbox lb' = []"
proof -
  obtain qs where qs: "frame_message cid cmd payload = Ok qs"
    using frame_message_Ok assms(1) by fastforce
  note run = loop_request_simple [OF _ assms(4,3) _ qs] and defs = loopback_handle_def request_reply_def
  consider (ping) "cmd = CmdPing" | (wink) "cmd = CmdWink" | (cbor) "cmd = CmdCbor"
    | (unsupported) "cmd \<notin> {CmdPing, CmdWink, CmdCbor, CmdInit}"
    using assms(5) by auto
  then show ?thesis
  proof cases
    case ping
    then show ?thesis
      using run [of CmdPing payload "lb\<lparr>inbox := inbox lb @ qs, lb_decoder := None\<rparr>" "Ok payload" t ks] assms
      by (simp add: defs)
  next
    case wink
    then show ?thesis
      using run [of CmdWink "[]" "lb\<lparr>inbox := inbox lb @ qs, lb_decoder := None\<rparr>" "Ok []" t ks] assms
      by (simp add: defs)
  next
    case unsupported
    then have "loop_expected (cbor lb) cmd payload = ([], Err (Device InvalidCmd))"
      by (cases cmd) auto
    with unsupported show ?thesis
      using run [of CmdError "[0x01]" "lb\<lparr>inbox := inbox lb @ qs, lb_decoder := None\<rparr>"
          "Err (Device InvalidCmd)" t ks] assms
      by (cases cmd) (simp_all add: defs request_reply_error)
  next
    case cbor
    with loop_request_cbor [OF _ _ assms(4,3), of payload] assms show ?thesis by simp
  qed
qed

theorem loopback_request_witness:
  "\<exists>lb'. request loop_io 7 CmdCbor [4] 10 record_keepalive
      (loopback_new (KeepaliveThen [UserPresenceNeeded, UnknownStatus 9] [0, 1]), 0, []) =
    Some (Ok [0, 1], (lb', 0, [UserPresenceNeeded, UnknownStatus 9])) \<and> outbox lb' = []"
  using loopback_request [of "[4]" "loopback_new (KeepaliveThen [UserPresenceNeeded, UnknownStatus 9] [0, 1])"
      10 CmdCbor "[UserPresenceNeeded, UnknownStatus 9]" "Ok [0, 1]" 7 0 "[]"]
  by (simp add: loopback_new_def keepalive_from_byte_def)

section \<open>Allocation\<close>

lemma loop_allocate_foreign:
  assumes "list_all2 (\<lambda>reply ps. frame_message BROADCAST_CID CmdInit reply = Ok ps
      \<and> 17 \<le> length reply \<and> take 8 reply \<noteq> nonce) replies pss"
    and "outbox lb = concat pss @ rest" and "0 < timeout"
  shows "allocate_loop loop_io nonce (t + timeout) None (lb, t, ks) =
    allocate_loop loop_io nonce (t + timeout) None (lb\<lparr>outbox := rest\<rparr>, t, ks)"
  using assms
proof (induction arbitrary: lb rule: list_all2_induct)
  case (Cons reply replies ps pss)
  then have ps: "frame_message BROADCAST_CID CmdInit reply = Ok ps" by simp
  have cid: "from_be32 (take 4 r) = BROADCAST_CID" if "r \<in> set ps" for r
    using frame_message_report(2) [OF ps that] by simp
  have "allocate_reply nonce (CmdInit, reply) = Continue"
    using Cons by (simp add: allocate_reply_def)
  then have "allocate_loop loop_io nonce (t + timeout) None (lb, t, ks) =
      allocate_loop loop_io nonce (t + timeout) None (lb\<lparr>outbox := concat pss @ rest\<rparr>, t, ks)"
    using loop.allocate_loop_message [OF frame_message_completes [OF ps],
        of "(lb, t, ks)" "concat pss @ rest" "t + timeout" nonce None] Cons.prems cid
    by (simp add: loop_queue_def loop_clock_def loop_pops)
  with Cons.IH [of "lb\<lparr>outbox := concat pss @ rest\<rparr>"] Cons.prems show ?case by simp
next
  case Nil
  then have "lb\<lparr>outbox := rest\<rparr> = lb" by auto
  then show ?case by simp
qed

lemma init_reply_cid:
  assumes "length nonce = 8"
  shows "allocate_reply nonce (CmdInit, nonce @ be_bytes32 cid @ [2, 1, 0, 0] @ [0x01 OR 0x04]) =
    (if cid = 0 \<or> cid = BROADCAST_CID
     then Finish (Err (Malformed ''INIT assigned a reserved channel''))
     else Finish (Ok (cid, \<lparr>wink = True, cbor_cap = True, nmsg = False\<rparr>)))"
proof -
  have "subslice 8 12 (nonce @ be_bytes32 cid @ [2, 1, 0, 0] @ [0x01 OR 0x04]) = be_bytes32 cid"
    using assms by (intro subslice_append_mid) simp_all
  moreover have "(nonce @ be_bytes32 cid @ [2, 1, 0, 0] @ [0x01 OR 0x04]) ! 16 = 5"
    using assms by (simp add: nth_append)
  ultimately show ?thesis
    using assms by (simp add: allocate_reply_def Let_def del: append_assoc append.simps)
qed

text \<open>Channel allocation takes the channel of its own nonce only: broadcast INIT replies to
  other applications that are already queued are consumed and ignored, and the channel id and
  capabilities are those the device assigned to this request; a device that assigns a reserved
  id is refused.\<close>

theorem allocate_matches_nonce:
  assumes "length nonce = 8" and "0 < timeout"
    and "list_all2 (\<lambda>reply ps. frame_message BROADCAST_CID CmdInit reply = Ok ps
      \<and> 17 \<le> length reply \<and> take 8 reply \<noteq> nonce) replies pss"
    and "outbox lb = concat pss"
  shows "\<exists>lb'. allocate loop_io nonce timeout (lb, t, ks) =
    Some (if next_cid lb = 0 \<or> next_cid lb = BROADCAST_CID
          then Err (Malformed ''INIT assigned a reserved channel'')
          else Ok (next_cid lb, \<lparr>wink = True, cbor_cap = True, nmsg = False\<rparr>), (lb', t, ks))
    \<and> outbox lb' = [] \<and> next_cid lb' = next_cid lb + 1"
proof -
  let ?reply = "nonce @ be_bytes32 (next_cid lb) @ [2, 1, 0, 0] @ [0x01 OR 0x04]"
  obtain qs where qs: "frame_message BROADCAST_CID CmdInit nonce = Ok qs"
    using frame_message_Ok [of nonce] assms(1) by auto
  obtain ps where ps: "frame_message BROADCAST_CID CmdInit ?reply = Ok ps"
    using frame_message_Ok [of ?reply] assms(1) by auto
  have cid: "from_be32 (take 4 r) = BROADCAST_CID" if "r \<in> set ps" for r
    using frame_message_report(2) [OF ps that] by simp
  let ?lb = "lb\<lparr>inbox := inbox lb @ qs, lb_decoder := None, next_cid := next_cid lb + 1\<rparr>"
  have "loop_deliver BROADCAST_CID CmdInit nonce (lb, t, ks) =
      Some (?lb\<lparr>outbox := concat pss @ ps\<rparr>, t, ks)"
    using respond_Some [OF ps] by (simp add: loop_deliver_def qs loopback_handle_def assms(4))
  from loop.allocate_run [OF qs this, of timeout]
  have "allocate loop_io nonce timeout (lb, t, ks) =
      allocate_loop loop_io nonce (t + timeout) None (?lb\<lparr>outbox := concat pss @ ps\<rparr>, t, ks)"
    by (simp add: loop_clock_def)
  also have "\<dots> = allocate_loop loop_io nonce (t + timeout) None (?lb\<lparr>outbox := ps\<rparr>, t, ks)"
    using loop_allocate_foreign [OF assms(3), of "?lb\<lparr>outbox := concat pss @ ps\<rparr>" ps timeout t ks]
      assms(2) by simp
  also have "\<dots> = (case allocate_reply nonce (CmdInit, ?reply) of
      Continue \<Rightarrow> allocate_loop loop_io nonce (t + timeout) None (?lb\<lparr>outbox := []\<rparr>, t, ks)
    | Finish r \<Rightarrow> Some (r, ?lb\<lparr>outbox := []\<rparr>, t, ks))"
    using loop.allocate_loop_message [OF frame_message_completes [OF ps],
        of "(?lb\<lparr>outbox := ps\<rparr>, t, ks)" "[]" "t + timeout" nonce None] assms(2) cid
    by (simp add: loop_queue_def loop_clock_def loop_pops split: loop_step.split)
  finally show ?thesis
    by (simp only: init_reply_cid [OF assms(1)]) (simp split: if_split)
qed

theorem allocate_matches_nonce_witness:
  "\<exists>foreign lb'. frame_message BROADCAST_CID CmdInit (replicate 17 1) = Ok foreign \<and>
    allocate loop_io [1, 2, 3, 4, 5, 6, 7, 8] 5
      ((loopback_new (Respond []))\<lparr>outbox := foreign\<rparr>, 0, []) =
    Some (Ok (1, \<lparr>wink = True, cbor_cap = True, nmsg = False\<rparr>), (lb', 0, []))"
proof -
  obtain foreign where f: "frame_message BROADCAST_CID CmdInit (replicate 17 1) = Ok foreign"
    by (simp add: frame_message_def)
  have "take 8 (replicate 17 (1 :: byte)) \<noteq> [1, 2, 3, 4, 5, 6, 7, 8]"
    by (simp add: numeral_eq_Suc)
  with f allocate_matches_nonce [of "[1, 2, 3, 4, 5, 6, 7, 8]" 5 "[replicate 17 1]" "[foreign]"
      "(loopback_new (Respond []))\<lparr>outbox := foreign\<rparr>" 0 "[]"]
  show ?thesis by (auto simp: loopback_new_def BROADCAST_CID_def)
qed

section \<open>Foreign traffic and deadlines\<close>

lemma loop_next_report:
  "next_report loop_io deadline (lb, t, ks) =
    (if deadline \<le> t then Some (Err Timeout, (lb, t, ks))
     else case outbox lb of [] \<Rightarrow> Some (Err Timeout, (lb, t, ks))
       | r # rs \<Rightarrow> Some (Ok r, (lb\<lparr>outbox := rs\<rparr>, t, ks)))"
  by (simp add: next_report_def loop_io_def loopback_read_def split: list.split)

definition own_reports :: "u32 \<Rightarrow> report list \<Rightarrow> report list" where
  "own_reports cid = filter (\<lambda>r. from_be32 (take 4 r) = cid)"

text \<open>C2. Interleaved traffic of other channels never influences a request: with any reports
  queued, in any interleaving, the result and the forwarded keepalives are those of the queue
  with the other channels' reports removed.\<close>

theorem request_ignores_other_channels:
  "map_option (\<lambda>(r, lb, t, ks). (r, ks))
     (request_loop loop_io record_keepalive cid cmd deadline dec (lb, t, ks)) =
   map_option (\<lambda>(r, lb, t, ks). (r, ks))
     (request_loop loop_io record_keepalive cid cmd deadline dec
       (lb\<lparr>outbox := own_reports cid (outbox lb)\<rparr>, t, ks))"
proof (induction "outbox lb" arbitrary: lb dec ks)
  case Nil
  then show ?case
    by (simp add: own_reports_def request_loop.simps [of _ _ _ _ _ _ "(_, _, _)"]
        loop_next_report)
next
  case (Cons r rs)
  note IH = Cons(1) [of "lb\<lparr>outbox := rs\<rparr>", simplified]
  have out: "outbox lb = r # rs" using Cons(2) by simp
  show ?case
  proof (cases "deadline \<le> t")
    case True
    then show ?thesis
      by (simp add: request_loop.simps [of _ _ _ _ _ _ "(_, _, _)"] loop_next_report)
  next
    case False
    let ?own = "\<lambda>rs. lb\<lparr>outbox := own_reports cid rs\<rparr>"
    show ?thesis
    proof (cases "from_be32 (take 4 r) = cid")
      case True
      have step: "request_loop loop_io record_keepalive cid cmd deadline dec (lb\<lparr>outbox := r # xs\<rparr>, t, ks) =
          (case decoder_push r dec of
             (Err e, dec') \<Rightarrow> Some (Err e, lb\<lparr>outbox := xs\<rparr>, t, ks)
           | (Ok None, dec') \<Rightarrow> request_loop loop_io record_keepalive cid cmd deadline dec'
               (lb\<lparr>outbox := xs\<rparr>, t, ks)
           | (Ok (Some m), dec') \<Rightarrow> (case request_reply cmd m of
                Forward k \<Rightarrow> request_loop loop_io record_keepalive cid cmd deadline dec'
                  (lb\<lparr>outbox := xs\<rparr>, t, ks @ [k])
              | Reply r \<Rightarrow> Some (r, lb\<lparr>outbox := xs\<rparr>, t, ks)))" for xs
        using True False
        by (subst request_loop.simps) (simp add: loop_next_report record_keepalive_apply
            split: prod.split sum.split option.split request_step.split)
      have "lb\<lparr>outbox := r # rs\<rparr> = lb" using out by auto
      with step [of rs] step [of "own_reports cid rs"] True out show ?thesis
        by (auto simp: own_reports_def IH [unfolded own_reports_def] split: prod.split sum.split option.split
            request_step.split)
    next
      case other: False
      then have "request_loop loop_io record_keepalive cid cmd deadline dec (lb, t, ks) =
          request_loop loop_io record_keepalive cid cmd deadline dec (lb\<lparr>outbox := rs\<rparr>, t, ks)"
        using False by (subst request_loop.simps) (simp add: loop_next_report out)
      with other IH show ?thesis by (simp add: out own_reports_def)
    qed
  qed
qed

text \<open>A transport whose calls return and whose clock advances with every reading.\<close>

definition ticking :: "'d report_io \<Rightarrow> (keepalive \<Rightarrow> 'd \<Rightarrow> 'd) \<Rightarrow> ('d \<Rightarrow> nat) \<Rightarrow> bool" where
  "ticking io on_keepalive time \<longleftrightarrow>
     (\<forall>d. time d \<le> fst (instant_now io d) \<and> fst (instant_now io d) < time (snd (instant_now io d)))
   \<and> (\<forall>d t. case read_report io t d of None \<Rightarrow> False | Some (r, d') \<Rightarrow> time d \<le> time d')
   \<and> (\<forall>k d. time d \<le> time (on_keepalive k d))
   \<and> (\<forall>r. returns (write_report io r))"

lemma ticking_next_report:
  assumes "ticking io kf time"
  shows "\<exists>r d'. next_report io deadline d = Some (r, d')
    \<and> (is_ok r \<longrightarrow> time d < deadline \<and> time d < time d')"
proof -
  obtain n d1 where now: "instant_now io d = (n, d1)" by (cases "instant_now io d")
  with assms have t: "time d \<le> n" "n < time d1"
    unfolding ticking_def by (metis fst_conv, metis fst_conv snd_conv)
  have read: "case read_report io (deadline - n) d1 of None \<Rightarrow> False
      | Some (r, d') \<Rightarrow> time d1 \<le> time d'"
    using assms unfolding ticking_def by blast
  show ?thesis
  proof (cases "deadline - n = 0")
    case False
    from read obtain r d2 where r: "read_report io (deadline - n) d1 = Some (r, d2)"
      and "time d1 \<le> time d2"
      by (auto split: option.splits prod.splits)
    with False t now show ?thesis
      by (auto simp: next_report_def split: sum.split option.split)
  qed (simp add: next_report_def now)
qed

lemma request_loop_returns:
  assumes "ticking io kf time"
  shows "request_loop io kf cid cmd deadline dec d \<noteq> None"
proof (induction "deadline - time d" arbitrary: dec d rule: less_induct)
  case less
  obtain r d1 where nr: "next_report io deadline d = Some (r, d1)"
    and progress: "is_ok r \<Longrightarrow> time d < deadline \<and> time d < time d1"
    using ticking_next_report [OF assms, of deadline d] by blast
  have IH: "request_loop io kf cid cmd deadline dec' d' \<noteq> None"
    if "is_ok r" "time d1 \<le> time d'" for dec' d'
    using less.hyps [of d' dec'] progress that by force
  have "time d1 \<le> time (kf k d1)" for k
    using assms unfolding ticking_def by blast
  with nr IH show ?case
    by (subst request_loop.simps)
      (auto split: sum.split prod.split option.split request_step.split)
qed

lemma send_all_returns: "(\<And>r. returns (write_report io r)) \<Longrightarrow> returns (send_all io ps)"
  by (induction ps) (auto intro!: returns_intros)

text \<open>C5. A request always returns: on any transport whose calls return and whose clock advances,
  whatever reports the device sends, the deadline ends the receive loop.\<close>

theorem request_returns:
  assumes "ticking io on_keepalive time"
  shows "returns (request io cid cmd payload timeout on_keepalive)"
proof -
  have "returns (send_all io ps)" for ps
    using assms by (intro send_all_returns) (simp add: ticking_def)
  moreover have "returns (\<lambda>d. let (now, d) = instant_now io d
      in request_loop io on_keepalive cid cmd (now + timeout) decoder_new d)"
    using request_loop_returns [OF assms] by (auto simp: returns_def split: prod.split)
  ultimately show ?thesis
    unfolding request_def by (intro returns_intros)
qed

text \<open>The loopback device with a clock that each reading advances.\<close>

definition ticking_loop_io :: "loop_world report_io" where
  "ticking_loop_io = loop_io\<lparr>
     write_report := (\<lambda>r w. Some (Ok (), w)),
     instant_now := (\<lambda>(lb, t, ks). (t, lb, t + 1, ks))\<rparr>"

theorem request_returns_witness:
  "request ticking_loop_io 7 CmdPing [1] 100 record_keepalive (loopback_new (Respond []), 0, [])
    \<noteq> None"
proof -
  have "ticking ticking_loop_io record_keepalive loop_clock"
    by (auto simp: ticking_def ticking_loop_io_def loop_io_def loopback_read_def loop_clock_def
        record_keepalive_def returns_def split: prod.split list.split)
  from request_returns [OF this] show ?thesis
    by (simp add: returns_def)
qed

end
