(* ===== verification/X509.thy ===== *)
theory X509
  imports Strings
begin

unbundle bit_operations_syntax

text \<open>
  Host-side X.509 building, \<^verbatim>\<open>crates/ckman-core/src/x509.rs\<close>: RFC 4514 subjects, PKCS#1 v1.5
  padding, signature identifiers, validity, and the assembly of certificates and requests.
  The crates \<^verbatim>\<open>der\<close>, \<^verbatim>\<open>x509-cert\<close>, \<^verbatim>\<open>spki\<close>, \<^verbatim>\<open>sha2\<close> and \<^verbatim>\<open>base64ct\<close> are the record
  \<open>x509_lib\<close>; an error of theirs is its display text.
\<close>

section \<open>Data\<close>

text \<open>\<^verbatim>\<open>canokey::piv::Algorithm\<close>, whose constructors the code matches exhaustively.\<close>

datatype algorithm =
    Rsa1024 | Rsa2048 | Rsa3072 | Rsa4096 | EccP256 | EccP384 | EccP521 | Secp256k1
  | Sm2 | Ed25519 | X25519 | MlDsa65 | MlKem768

datatype x509_error =
    Rfc4514 string | X509UnsupportedAlgorithm | UnsupportedHash | X509Der string | TimeRange
  | InvalidValidity | SignatureAlgorithmMismatch | MessageTooLarge | NotSigning string

datatype hash_algorithm = HashSha256 | HashSha384 | HashSha512

text \<open>Object identifiers by their dotted text; a DER value is its tag and content.\<close>

datatype oid = Oid (oid_text: "byte list")

datatype der_tag = TagUtf8String | TagPrintableString | TagIa5String | OtherTag nat

datatype der_any = DerAny (any_tag: der_tag) (any_value: "byte list")

definition any_null :: der_any where "any_null = DerAny (OtherTag 5) []"

record algorithm_identifier =
  ai_oid :: oid
  ai_parameters :: "der_any option"

type_synonym attribute = "oid \<times> der_any"
type_synonym name = "attribute list list"

datatype x509_time = UtcTime nat | GeneralTime nat

record x509_validity =
  not_before :: x509_time
  not_after :: x509_time

record spki_info =
  spki_algorithm :: algorithm_identifier
  spki_key :: "byte list option"

record cert_extension =
  extn_id :: oid
  critical :: bool
  extn_value :: "byte list"

datatype cert_version = V1 | V2 | V3

record tbs_certificate =
  tbs_version :: cert_version
  tbs_serial :: "byte list"
  tbs_signature :: algorithm_identifier
  tbs_issuer :: name
  tbs_validity :: x509_validity
  tbs_subject :: name
  tbs_spki :: spki_info
  tbs_issuer_uid :: "byte list option"
  tbs_subject_uid :: "byte list option"
  tbs_extensions :: "cert_extension list option"

record certificate =
  cert_tbs :: tbs_certificate
  cert_algorithm :: algorithm_identifier
  cert_signature :: "byte list option"

record cert_req_info =
  cri_subject :: name
  cri_spki :: spki_info

record cert_req =
  csr_info :: cert_req_info
  csr_algorithm :: algorithm_identifier
  csr_signature :: "byte list option"

record x509_lib =
  sha256 :: "byte list \<Rightarrow> byte list"
  sha384 :: "byte list \<Rightarrow> byte list"
  sha512 :: "byte list \<Rightarrow> byte list"
  oid_new :: "byte list \<Rightarrow> string + oid"
  set_insert :: "attribute list \<Rightarrow> attribute \<Rightarrow> string + attribute list"
  any_from_der :: "byte list \<Rightarrow> string + der_any"
  printable_string :: "byte list \<Rightarrow> string + der_any"
  ia5_string :: "byte list \<Rightarrow> string + der_any"
  utf8_string :: "byte list \<Rightarrow> string + der_any"
  decode_printable :: "der_any \<Rightarrow> string + byte list"
  decode_ia5 :: "der_any \<Rightarrow> string + byte list"
  decode_utf8 :: "der_any \<Rightarrow> string + byte list"
  generalized_year :: "nat \<Rightarrow> nat option"
  utc_time :: "nat \<Rightarrow> nat option"
  serial_number :: "byte list \<Rightarrow> string + byte list"
  spki_from_der :: "byte list \<Rightarrow> string + spki_info"
  spki_to_der :: "spki_info \<Rightarrow> string + byte list"
  tbs_to_der :: "tbs_certificate \<Rightarrow> string + byte list"
  tbs_from_der :: "byte list \<Rightarrow> string + tbs_certificate"
  bit_string :: "byte list \<Rightarrow> string + byte list option"
  cert_to_der :: "certificate \<Rightarrow> string + byte list"
  cert_from_der :: "byte list \<Rightarrow> string + certificate"
  cri_to_der :: "cert_req_info \<Rightarrow> string + byte list"
  cri_from_der :: "byte list \<Rightarrow> string + cert_req_info"
  csr_to_der :: "cert_req \<Rightarrow> string + byte list"
  base64_encode :: "byte list \<Rightarrow> byte list"

section \<open>Hashing and padding\<close>

definition hash_message :: "x509_lib \<Rightarrow> hash_algorithm \<Rightarrow> byte list \<Rightarrow> byte list" where
  "hash_message lib h message = (case h of
     HashSha256 \<Rightarrow> sha256 lib message
   | HashSha384 \<Rightarrow> sha384 lib message
   | HashSha512 \<Rightarrow> sha512 lib message)"

text \<open>The three prefixes differ in the length of the DigestInfo, the last arc of the hash's object
  identifier (2.16.840.1.101.3.4.2) and the length of the digest.\<close>

definition sha2_prefix :: "byte \<Rightarrow> byte \<Rightarrow> byte \<Rightarrow> byte list" where
  "sha2_prefix outer arc n =
     [0x30, outer, 0x30, 0xd, 6, 9, 0x60, 0x86, 0x48, 1, 0x65, 3, 4, 2, arc, 5, 0, 4, n]"

definition digest_info_prefix :: "hash_algorithm \<Rightarrow> byte list" where
  "digest_info_prefix h = (case h of
     HashSha256 \<Rightarrow> sha2_prefix 0x31 1 0x20
   | HashSha384 \<Rightarrow> sha2_prefix 0x41 2 0x30
   | HashSha512 \<Rightarrow> sha2_prefix 0x51 3 0x40)"

text \<open>\<^verbatim>\<open>Vec::resize\<close>\<close>

definition resize :: "nat \<Rightarrow> 'a \<Rightarrow> 'a list \<Rightarrow> 'a list" where
  "resize n x xs = take n xs @ replicate (n - length xs) x"

definition rsa_pkcs1v15_encode ::
  "x509_lib \<Rightarrow> hash_algorithm \<Rightarrow> byte list \<Rightarrow> nat \<Rightarrow> x509_error + byte list" where
  "rsa_pkcs1v15_encode lib hash message modulus_bytes =
    (let info = digest_info_prefix hash @ hash_message lib hash message in
     if modulus_bytes < length info + 11 then Err UnsupportedHash
     else Ok (resize (modulus_bytes - length info - 1) 0xff [0, 1] @ [0] @ info))"

definition is_rsa :: "algorithm \<Rightarrow> bool" where
  "is_rsa key \<longleftrightarrow> key = Rsa1024 \<or> key = Rsa2048 \<or> key = Rsa3072 \<or> key = Rsa4096"

definition ecdsa_oid :: "hash_algorithm \<Rightarrow> string" where
  "ecdsa_oid h = (case h of
     HashSha256 \<Rightarrow> ''1.2.840.10045.4.3.2''
   | HashSha384 \<Rightarrow> ''1.2.840.10045.4.3.3''
   | HashSha512 \<Rightarrow> ''1.2.840.10045.4.3.4'')"

definition rsa_oid :: "hash_algorithm \<Rightarrow> string" where
  "rsa_oid h = (case h of
     HashSha256 \<Rightarrow> ''1.2.840.113549.1.1.11''
   | HashSha384 \<Rightarrow> ''1.2.840.113549.1.1.12''
   | HashSha512 \<Rightarrow> ''1.2.840.113549.1.1.13'')"

definition signature_oid :: "algorithm \<Rightarrow> hash_algorithm option \<Rightarrow> x509_error + string" where
  "signature_oid key hash =
    (if key = Ed25519 \<and> hash = None then Ok ''1.3.101.112''
     else if key = Sm2 \<and> hash = None then Ok ''1.2.156.10197.1.501''
     else if key = MlDsa65 \<and> hash = None then Ok ''2.16.840.1.101.3.4.3.18''
     else if key = X25519 \<or> key = MlKem768
     then Err (NotSigning (if key = X25519 then ''X25519'' else ''ML-KEM-768''))
     else if key = EccP521 \<or> key = Secp256k1
     then res_bind (ok_or UnsupportedHash hash) (\<lambda>h. Ok (ecdsa_oid h))
     else if is_rsa key then res_bind (ok_or UnsupportedHash hash) (\<lambda>h. Ok (rsa_oid h))
     else if key = EccP256 \<or> key = EccP384
     then res_bind (ok_or UnsupportedHash hash) (\<lambda>h. Ok (ecdsa_oid h))
     else Err X509UnsupportedAlgorithm)"

definition signature_algorithm ::
  "x509_lib \<Rightarrow> algorithm \<Rightarrow> hash_algorithm option \<Rightarrow> x509_error + algorithm_identifier" where
  "signature_algorithm lib key hash =
     res_bind (signature_oid key hash) (\<lambda>text.
     res_bind (map_err X509Der (oid_new lib (lit text))) (\<lambda>oid.
     Ok (if is_rsa key then \<lparr>ai_oid = oid, ai_parameters = Some any_null\<rparr>
         else \<lparr>ai_oid = oid, ai_parameters = None\<rparr>)))"

section \<open>Subjects\<close>

definition NAME_ATTRIBUTES :: "(string \<times> string) list" where
  "NAME_ATTRIBUTES =
     [(''CN'', ''2.5.4.3''), (''L'', ''2.5.4.7''), (''ST'', ''2.5.4.8''), (''O'', ''2.5.4.10''),
      (''OU'', ''2.5.4.11''), (''C'', ''2.5.4.6''), (''STREET'', ''2.5.4.9''),
      (''DC'', ''0.9.2342.19200300.100.1.25''), (''UID'', ''0.9.2342.19200300.100.1.1''),
      (''serialNumber'', ''2.5.4.5''), (''emailAddress'', ''1.2.840.113549.1.9.1'')]"

definition is_hexdigit :: "byte \<Rightarrow> bool" where
  "is_hexdigit b \<longleftrightarrow> (0x30 \<le> b \<and> b \<le> 0x39) \<or> (0x41 \<le> b \<and> b \<le> 0x46) \<or> (0x61 \<le> b \<and> b \<le> 0x66)"

definition nibble :: "byte \<Rightarrow> byte" where
  "nibble b = (if b \<le> 0x39 then b - 0x30 else if b \<le> 0x46 then b - 0x41 + 10 else b - 0x61 + 10)"

definition hex_byte :: "byte \<Rightarrow> byte \<Rightarrow> byte" where
  "hex_byte h l = nibble h * 16 + nibble l"

fun hex_pairs :: "byte list \<Rightarrow> byte list" where
  "hex_pairs (h # l # bs) = hex_byte h l # hex_pairs bs"
| "hex_pairs _ = []"

text \<open>The \<^verbatim>\<open>while index < bytes.len()\<close> loop; \<open>first\<close> is \<^verbatim>\<open>index == 0\<close>.\<close>

fun unescape :: "bool \<Rightarrow> byte list \<Rightarrow> x509_error + byte list" where
  "unescape first [] = Ok []"
| "unescape first (b # bs) =
    (if b = 0x5c
     then (case bs of
         [] \<Rightarrow> Err (Rfc4514 ''trailing backslash'')
       | e # rest \<Rightarrow>
           if e \<in> {0x5c, 0x22, 0x23, 0x2b, 0x2c, 0x3b, 0x3c, 0x3e, 0x20, 0x3d}
           then res_bind (unescape False rest) (\<lambda>out. Ok (e # out))
           else (case rest of
               [] \<Rightarrow> Err (Rfc4514 ''truncated hex escape'')
             | l # rest \<Rightarrow>
                 if is_hexdigit e \<and> is_hexdigit l
                 then res_bind (unescape False rest) (\<lambda>out. Ok (hex_byte e l # out))
                 else Err (Rfc4514 ''invalid hex escape'')))
     else if b \<in> {0x22, 0x3b, 0x3c, 0x3e, 0} \<or> b = 0x20 \<and> (first \<or> bs = [])
     then Err (Rfc4514 ''special or boundary character must be escaped'')
     else res_bind (unescape False bs) (\<lambda>out. Ok (b # out)))"

definition encode_text :: "x509_lib \<Rightarrow> oid \<Rightarrow> byte list \<Rightarrow> x509_error + der_any" where
  "encode_text lib oid text =
    (let t = oid_text oid in
     map_err X509Der
       (if t = lit ''2.5.4.6'' \<or> t = lit ''2.5.4.5'' then printable_string lib text
        else if t = lit ''0.9.2342.19200300.100.1.25'' \<or> t = lit ''1.2.840.113549.1.9.1''
        then ia5_string lib text
        else utf8_string lib text))"

definition check_string_tag :: "x509_lib \<Rightarrow> der_any \<Rightarrow> x509_error + unit" where
  "check_string_tag lib encoded = (case any_tag encoded of
     TagUtf8String \<Rightarrow> res_bind (map_err X509Der (decode_utf8 lib encoded)) (\<lambda>_. Ok ())
   | TagPrintableString \<Rightarrow> res_bind (map_err X509Der (decode_printable lib encoded)) (\<lambda>_. Ok ())
   | TagIa5String \<Rightarrow> res_bind (map_err X509Der (decode_ia5 lib encoded)) (\<lambda>_. Ok ())
   | OtherTag _ \<Rightarrow> Ok ())"

definition check_attribute_type :: "x509_lib \<Rightarrow> oid \<Rightarrow> der_any \<Rightarrow> x509_error + unit" where
  "check_attribute_type lib oid encoded =
    (let t = oid_text oid in
     if t = lit ''2.5.4.6''
     then res_bind (map_err X509Der (decode_printable lib encoded)) (\<lambda>country.
       if length country \<noteq> 2 then Err (Rfc4514 ''country must contain two characters'') else Ok ())
     else if t = lit ''2.5.4.5''
     then res_bind (map_err X509Der (decode_printable lib encoded)) (\<lambda>_. Ok ())
     else if t = lit ''0.9.2342.19200300.100.1.25'' \<or> t = lit ''1.2.840.113549.1.9.1''
     then res_bind (map_err X509Der (decode_ia5 lib encoded)) (\<lambda>_. Ok ())
     else Ok ())"

definition subject_value :: "x509_lib \<Rightarrow> oid \<Rightarrow> byte list \<Rightarrow> x509_error + der_any" where
  "subject_value lib oid val =
     res_bind
       (case strip_prefix (lit ''#'') val of
          Some hex \<Rightarrow>
            if hex = [] \<or> odd (length hex) \<or> \<not> list_all is_hexdigit hex
            then Err (Rfc4514 ''invalid hexadecimal DER attribute value'')
            else map_err (\<lambda>_. Rfc4514 ''invalid DER attribute value'') (any_from_der lib (hex_pairs hex))
        | None \<Rightarrow>
            res_bind (unescape True val) (\<lambda>decoded.
            if utf8_valid decoded then encode_text lib oid decoded
            else Err (Rfc4514 ''invalid UTF-8 data'')))
       (\<lambda>encoded.
          res_bind (check_string_tag lib encoded) (\<lambda>_.
          res_bind (check_attribute_type lib oid encoded) (\<lambda>_. Ok encoded)))"

definition attribute_oid :: "byte list \<Rightarrow> byte list" where
  "attribute_oid key = (case find (\<lambda>(name, oid). eq_ignore_ascii_case (lit name) key) NAME_ATTRIBUTES of
     Some (name, oid) \<Rightarrow> lit oid | None \<Rightarrow> key)"

text \<open>One attribute, inserted into the current relative distinguished name.\<close>

definition subject_attribute ::
  "x509_lib \<Rightarrow> byte list \<Rightarrow> attribute list \<Rightarrow> x509_error + attribute list" where
  "subject_attribute lib part attributes =
     res_bind (ok_or (Rfc4514 ''missing '=' in attribute'') (split_once 0x3d part)) (\<lambda>(key, val).
     res_bind (map_err (\<lambda>_. Rfc4514 ''unsupported attribute'') (oid_new lib (attribute_oid key))) (\<lambda>oid.
     res_bind (subject_value lib oid val) (\<lambda>encoded.
     map_err X509Der (set_insert lib attributes (oid, encoded)))))"

text \<open>The scan over the characters.  \<open>part\<close> is \<^verbatim>\<open>value[start..index]\<close>; the separators and the
  backslash are ASCII, so the scan over bytes is the scan over characters.\<close>

fun rfc_scan ::
  "x509_lib \<Rightarrow> byte list \<Rightarrow> bool \<Rightarrow> byte list \<Rightarrow> attribute list \<Rightarrow> name \<Rightarrow> x509_error + name" where
  "rfc_scan lib [] escaped part attributes rdns =
     (if escaped then Err (Rfc4514 ''trailing backslash'')
      else res_bind (subject_attribute lib part attributes) (\<lambda>attributes. Ok (rdns @ [attributes])))"
| "rfc_scan lib (c # cs) escaped part attributes rdns =
     (if escaped then rfc_scan lib cs False (part @ [c]) attributes rdns
      else if c = 0x5c then rfc_scan lib cs True (part @ [c]) attributes rdns
      else if c = 0x2c
      then res_bind (subject_attribute lib part attributes) (\<lambda>attributes.
        rfc_scan lib cs False [] [] (rdns @ [attributes]))
      else if c = 0x2b
      then res_bind (subject_attribute lib part attributes) (\<lambda>attributes.
        rfc_scan lib cs False [] attributes rdns)
      else rfc_scan lib cs False (part @ [c]) attributes rdns)"

definition parse_rfc4514 :: "x509_lib \<Rightarrow> byte list \<Rightarrow> x509_error + name" where
  "parse_rfc4514 lib val = res_bind (rfc_scan lib val False [] [] []) (\<lambda>rdns. Ok (rev rdns))"

section \<open>Certificates and requests\<close>

definition x509_time_of :: "x509_lib \<Rightarrow> int \<Rightarrow> x509_error + x509_time" where
  "x509_time_of lib unix_seconds =
    (if unix_seconds < 0 then Err TimeRange
     else (case generalized_year lib (nat unix_seconds) of
         None \<Rightarrow> Err TimeRange
       | Some year \<Rightarrow>
           if year < 2050 then res_bind (ok_or TimeRange (utc_time lib (nat unix_seconds))) (\<lambda>t. Ok (UtcTime t))
           else Ok (GeneralTime (nat unix_seconds))))"

definition validity :: "x509_lib \<Rightarrow> int \<Rightarrow> int \<Rightarrow> x509_error + x509_validity" where
  "validity lib nbefore nafter =
    (if nafter < nbefore then Err InvalidValidity
     else res_bind (x509_time_of lib nbefore) (\<lambda>b. res_bind (x509_time_of lib nafter) (\<lambda>a.
       Ok \<lparr>not_before = b, not_after = a\<rparr>)))"

definition spki :: "x509_lib \<Rightarrow> byte list \<Rightarrow> x509_error + spki_info" where
  "spki lib der_bytes = map_err X509Der (spki_from_der lib der_bytes)"

definition tbs_self_signed ::
  "x509_lib \<Rightarrow> byte list \<Rightarrow> name \<Rightarrow> byte list \<Rightarrow> int \<Rightarrow> int \<Rightarrow> algorithm_identifier \<Rightarrow> x509_error + byte list" where
  "tbs_self_signed lib spki_der subject serial nbefore nafter signature =
     res_bind (map_err X509Der (serial_number lib serial)) (\<lambda>serial.
     res_bind (validity lib nbefore nafter) (\<lambda>valid.
     res_bind (spki lib spki_der) (\<lambda>key.
     map_err X509Der (tbs_to_der lib
       \<lparr>tbs_version = V3, tbs_serial = serial, tbs_signature = signature, tbs_issuer = subject,
        tbs_validity = valid, tbs_subject = subject, tbs_spki = key, tbs_issuer_uid = None,
        tbs_subject_uid = None, tbs_extensions = None\<rparr>))))"

definition assemble_certificate ::
  "x509_lib \<Rightarrow> byte list \<Rightarrow> algorithm_identifier \<Rightarrow> byte list \<Rightarrow> x509_error + byte list" where
  "assemble_certificate lib tbs_der sig_algorithm signature =
     res_bind (map_err X509Der (tbs_from_der lib tbs_der)) (\<lambda>tbs.
     if tbs_signature tbs \<noteq> sig_algorithm then Err SignatureAlgorithmMismatch
     else res_bind (map_err X509Der (bit_string lib signature)) (\<lambda>bits.
       map_err X509Der (cert_to_der lib
         \<lparr>cert_tbs = tbs, cert_algorithm = sig_algorithm, cert_signature = bits\<rparr>)))"

definition certification_request_info :: "x509_lib \<Rightarrow> byte list \<Rightarrow> name \<Rightarrow> x509_error + byte list" where
  "certification_request_info lib spki_der subject =
     res_bind (spki lib spki_der) (\<lambda>key.
     map_err X509Der (cri_to_der lib \<lparr>cri_subject = subject, cri_spki = key\<rparr>))"

definition assemble_csr ::
  "x509_lib \<Rightarrow> byte list \<Rightarrow> algorithm_identifier \<Rightarrow> byte list \<Rightarrow> x509_error + byte list" where
  "assemble_csr lib cri_der sig_algorithm signature =
     res_bind (map_err X509Der (cri_from_der lib cri_der)) (\<lambda>info.
     res_bind (map_err X509Der (bit_string lib signature)) (\<lambda>bits.
     map_err X509Der (csr_to_der lib
       \<lparr>csr_info = info, csr_algorithm = sig_algorithm, csr_signature = bits\<rparr>)))"

section \<open>PEM armor\<close>

function chunks_of :: "nat \<Rightarrow> 'a list \<Rightarrow> 'a list list" where
  "chunks_of n xs = (if xs = [] \<or> n = 0 then [] else take n xs # chunks_of n (drop n xs))"
  by pat_completeness auto
termination by (relation "measure (\<lambda>(n, xs). length xs)") auto

declare chunks_of.simps [simp del]

definition pem_encode :: "x509_lib \<Rightarrow> byte list \<Rightarrow> byte list \<Rightarrow> byte list" where
  "pem_encode lib label der_bytes =
     lit ''-----BEGIN '' @ label @ lit ''-----'' @ [0x0a]
     @ concat (map (\<lambda>line. line @ [0x0a]) (chunks_of 64 (base64_encode lib der_bytes)))
     @ lit ''-----END '' @ label @ lit ''-----'' @ [0x0a]"

section \<open>Printing subjects\<close>

text \<open>Escaping of a text value, and subjects as lists of relative distinguished names, each a list
  of attribute names and texts.\<close>

definition escape_byte :: "byte \<Rightarrow> byte list" where
  "escape_byte b =
    (if b \<in> {0x5c, 0x22, 0x23, 0x2b, 0x2c, 0x3b, 0x3c, 0x3e, 0x20, 0x3d} then [0x5c, b]
     else if b = 0 then [0x5c, 0x30, 0x30] else [b])"

definition escape_text :: "byte list \<Rightarrow> byte list" where
  "escape_text t = concat (map escape_byte t)"

type_synonym dn_text = "(byte list \<times> byte list) list list"

definition print_attribute :: "byte list \<times> byte list \<Rightarrow> byte list" where
  "print_attribute kt = fst kt @ 0x3d # escape_text (snd kt)"

fun print_rdn :: "(byte list \<times> byte list) list \<Rightarrow> byte list" where
  "print_rdn [] = []"
| "print_rdn [kt] = print_attribute kt"
| "print_rdn (kt # kts) = print_attribute kt @ 0x2b # print_rdn kts"

fun print_dn :: "dn_text \<Rightarrow> byte list" where
  "print_dn [] = []"
| "print_dn [rdn] = print_rdn rdn"
| "print_dn (rdn # rdns) = print_rdn rdn @ 0x2c # print_dn rdns"

text \<open>What the texts denote: each value in the string type of its attribute.\<close>

definition text_value :: "x509_lib \<Rightarrow> oid \<Rightarrow> byte list \<Rightarrow> x509_error + der_any" where
  "text_value lib oid text =
     res_bind (encode_text lib oid text) (\<lambda>encoded.
     res_bind (check_string_tag lib encoded) (\<lambda>_.
     res_bind (check_attribute_type lib oid encoded) (\<lambda>_. Ok encoded)))"

definition text_attribute ::
  "x509_lib \<Rightarrow> byte list \<times> byte list \<Rightarrow> attribute list \<Rightarrow> x509_error + attribute list" where
  "text_attribute lib kt attributes =
     res_bind (map_err (\<lambda>_. Rfc4514 ''unsupported attribute'') (oid_new lib (attribute_oid (fst kt)))) (\<lambda>oid.
     res_bind (text_value lib oid (snd kt)) (\<lambda>encoded.
     map_err X509Der (set_insert lib attributes (oid, encoded))))"

fun text_rdn ::
  "x509_lib \<Rightarrow> (byte list \<times> byte list) list \<Rightarrow> attribute list \<Rightarrow> x509_error + attribute list" where
  "text_rdn lib [] attributes = Ok attributes"
| "text_rdn lib (kt # kts) attributes = res_bind (text_attribute lib kt attributes) (text_rdn lib kts)"

fun text_dn :: "x509_lib \<Rightarrow> dn_text \<Rightarrow> x509_error + name" where
  "text_dn lib [] = Ok []"
| "text_dn lib (rdn # rdns) =
     res_bind (text_rdn lib rdn []) (\<lambda>r. res_bind (text_dn lib rdns) (\<lambda>rs. Ok (r # rs)))"

definition dn_text_wf :: "dn_text \<Rightarrow> bool" where
  "dn_text_wf dn \<longleftrightarrow> dn \<noteq> [] \<and> (\<forall>rdn \<in> set dn. rdn \<noteq> [] \<and> (\<forall>(key, text) \<in> set rdn.
     utf8_valid text \<and> set key \<inter> {0x2b, 0x2c, 0x3d, 0x5c} = {}))"

lemma unescape_escape: "unescape first (escape_text t) = Ok t"
proof (induction t arbitrary: first)
  case (Cons b t)
  have "hex_byte 0x30 0x30 = 0" "is_hexdigit 0x30" by (simp_all add: hex_byte_def nibble_def is_hexdigit_def)
  with Cons show ?case
    by (auto simp: escape_text_def escape_byte_def)
qed (simp add: escape_text_def)

lemma strip_hash_escape: "strip_prefix (lit ''#'') (escape_text t) = None"
proof -
  have "lit ''#'' = [0x23]" by code_simp
  then show ?thesis
    by (cases t) (auto simp: strip_prefix_def escape_text_def escape_byte_def)
qed

lemma subject_value_escape:
  assumes "utf8_valid t"
  shows "subject_value lib oid (escape_text t) = text_value lib oid t"
  using assms by (simp add: subject_value_def strip_hash_escape unescape_escape text_value_def)

lemma subject_attribute_print:
  assumes "utf8_valid (snd kt)" and "0x3d \<notin> set (fst kt)"
  shows "subject_attribute lib (print_attribute kt) attributes = text_attribute lib kt attributes"
  using assms by (simp add: subject_attribute_def print_attribute_def subject_value_escape text_attribute_def)

lemma rfc_scan_key:
  assumes "set key \<inter> {0x2b, 0x2c, 0x5c} = {}"
  shows "rfc_scan lib (key @ rest) False part attributes rdns =
    rfc_scan lib rest False (part @ key) attributes rdns"
  using assms by (induction key arbitrary: part) auto

lemma rfc_scan_escaped:
  "rfc_scan lib (escape_text t @ rest) False part attributes rdns =
    rfc_scan lib rest False (part @ escape_text t) attributes rdns"
proof (induction t arbitrary: part)
  case (Cons b t)
  have "rfc_scan lib (escape_byte b @ rest') False part attributes rdns =
      rfc_scan lib rest' False (part @ escape_byte b) attributes rdns" for rest'
    by (simp add: escape_byte_def)
  with Cons show ?case by (simp add: escape_text_def)
qed (simp add: escape_text_def)

lemma rfc_scan_attribute:
  assumes "set (fst kt) \<inter> {0x2b, 0x2c, 0x3d, 0x5c} = {}"
  shows "rfc_scan lib (print_attribute kt @ rest) False [] attributes rdns =
    rfc_scan lib rest False (print_attribute kt) attributes rdns"
  using assms rfc_scan_key [of "fst kt" lib _ "[]"]
  by (simp add: print_attribute_def rfc_scan_escaped disjoint_insert)

lemma rfc_scan_rdn_comma:
  assumes "rdn \<noteq> []"
    and "\<forall>(key, text) \<in> set rdn. utf8_valid text \<and> set key \<inter> {0x2b, 0x2c, 0x3d, 0x5c} = {}"
  shows "rfc_scan lib (print_rdn rdn @ 0x2c # rest) False [] attributes rdns =
    res_bind (text_rdn lib rdn attributes) (\<lambda>r. rfc_scan lib rest False [] [] (rdns @ [r]))"
  using assms
proof (induction rdn arbitrary: attributes rule: print_rdn.induct)
  case (2 kt)
  then show ?case
    by (cases "text_attribute lib kt attributes")
      (auto simp: rfc_scan_attribute subject_attribute_print case_prod_beta)
next
  case (3 kt kt' kts)
  then show ?case
    by (cases "text_attribute lib kt attributes")
      (auto simp: rfc_scan_attribute subject_attribute_print case_prod_beta)
qed simp

lemma rfc_scan_rdn_end:
  assumes "rdn \<noteq> []"
    and "\<forall>(key, text) \<in> set rdn. utf8_valid text \<and> set key \<inter> {0x2b, 0x2c, 0x3d, 0x5c} = {}"
  shows "rfc_scan lib (print_rdn rdn) False [] attributes rdns =
    res_bind (text_rdn lib rdn attributes) (\<lambda>r. Ok (rdns @ [r]))"
  using assms
proof (induction rdn arbitrary: attributes rule: print_rdn.induct)
  case (2 kt)
  then show ?case
    using rfc_scan_attribute [of kt lib "[]"]
    by (cases "text_attribute lib kt attributes")
      (auto simp: subject_attribute_print case_prod_beta)
next
  case (3 kt kt' kts)
  then show ?case
    by (cases "text_attribute lib kt attributes")
      (auto simp: rfc_scan_attribute subject_attribute_print case_prod_beta)
qed simp

lemma rfc_scan_dn:
  assumes "dn_text_wf dn"
  shows "rfc_scan lib (print_dn dn) False [] [] rdns = res_bind (text_dn lib dn) (\<lambda>rs. Ok (rdns @ rs))"
  using assms
proof (induction dn arbitrary: rdns rule: print_dn.induct)
  case (2 rdn)
  then show ?case
    by (cases "text_rdn lib rdn []") (simp_all add: dn_text_wf_def rfc_scan_rdn_end)
next
  case (3 rdn rdn' rdns')
  then have "rfc_scan lib (print_dn (rdn # rdn' # rdns')) False [] [] rdns =
      res_bind (text_rdn lib rdn []) (\<lambda>r. rfc_scan lib (print_dn (rdn' # rdns')) False [] [] (rdns @ [r]))"
    by (simp add: dn_text_wf_def rfc_scan_rdn_comma)
  moreover have "dn_text_wf (rdn' # rdns')" using 3(2) by (simp add: dn_text_wf_def)
  ultimately show ?case
    using 3(1) by (cases "text_rdn lib rdn []"; cases "text_dn lib (rdn' # rdns')") simp_all
qed (simp add: dn_text_wf_def)

text \<open>A concrete library for examples: names and strings, no DER.\<close>

definition sample_x509 :: x509_lib where
  "sample_x509 = \<lparr>
     sha256 = take 32, sha384 = take 48, sha512 = take 64,
     oid_new = (\<lambda>t. if t = [] then Err ''empty'' else Ok (Oid t)),
     set_insert = (\<lambda>xs x. if x \<in> set xs then Err ''duplicate'' else Ok (xs @ [x])),
     any_from_der = (\<lambda>bs. case bs of t # v \<Rightarrow> Ok (DerAny (OtherTag (unat t)) v) | [] \<Rightarrow> Err ''empty''),
     printable_string = (\<lambda>t. Ok (DerAny TagPrintableString t)),
     ia5_string = (\<lambda>t. Ok (DerAny TagIa5String t)),
     utf8_string = (\<lambda>t. Ok (DerAny TagUtf8String t)),
     decode_printable = (\<lambda>v. Ok (any_value v)), decode_ia5 = (\<lambda>v. Ok (any_value v)),
     decode_utf8 = (\<lambda>v. Ok (any_value v)),
     generalized_year = (\<lambda>_. None), utc_time = (\<lambda>_. None), serial_number = Ok,
     spki_from_der = (\<lambda>_. Err ''no DER''), spki_to_der = (\<lambda>_. Err ''no DER''),
     tbs_to_der = (\<lambda>_. Err ''no DER''), tbs_from_der = (\<lambda>_. Err ''no DER''),
     bit_string = (\<lambda>bs. Ok (Some bs)), cert_to_der = (\<lambda>_. Err ''no DER''),
     cert_from_der = (\<lambda>_. Err ''no DER''), cri_to_der = (\<lambda>_. Err ''no DER''),
     cri_from_der = (\<lambda>_. Err ''no DER''), csr_to_der = (\<lambda>_. Err ''no DER''),
     base64_encode = id\<rparr>"

section \<open>Properties\<close>

text \<open>C10. A subject printed in RFC 4514 form, with every special byte escaped, parses to exactly the
  name its texts denote, in DER (reversed) order: no escaping of any valid UTF-8 text can make a
  value start another attribute, and the errors are those of the values themselves.\<close>

theorem rfc4514_roundtrip:
  assumes "dn_text_wf dn"
  shows "parse_rfc4514 lib (print_dn dn) = res_bind (text_dn lib dn) (\<lambda>rdns. Ok (rev rdns))"
  using assms by (cases "text_dn lib dn") (simp_all add: parse_rfc4514_def rfc_scan_dn)

theorem rfc4514_roundtrip_witness:
  "parse_rfc4514 sample_x509 (print_dn [[(lit ''CN'', lit ''a, b+c'')], [(lit ''C'', lit ''CH'')]]) =
    Ok [[(Oid (lit ''2.5.4.6''), DerAny TagPrintableString (lit ''CH''))],
        [(Oid (lit ''2.5.4.3''), DerAny TagUtf8String (lit ''a, b+c''))]]"
proof -
  have "dn_text_wf [[(lit ''CN'', lit ''a, b+c'')], [(lit ''C'', lit ''CH'')]]" by code_simp
  note round = rfc4514_roundtrip [OF this, of sample_x509]
  have "text_dn sample_x509 [[(lit ''CN'', lit ''a, b+c'')], [(lit ''C'', lit ''CH'')]] =
    Ok [[(Oid (lit ''2.5.4.3''), DerAny TagUtf8String (lit ''a, b+c''))],
        [(Oid (lit ''2.5.4.6''), DerAny TagPrintableString (lit ''CH''))]]"
    by code_simp
  then show ?thesis unfolding round by simp
qed

text \<open>The PKCS#1 v1.5 encoding has exactly the modulus length and the form
  \<open>00 01 ff .. ff 00 DigestInfo\<close> with at least eight padding bytes, for every hash, message and
  modulus length; a modulus too short for that is refused.\<close>

theorem rsa_pkcs1v15_shape:
  "(let info = digest_info_prefix hash @ hash_message lib hash message in
    rsa_pkcs1v15_encode lib hash message k =
      (if 11 + length info \<le> k
       then Ok ([0, 1] @ replicate (k - length info - 3) 0xff @ [0] @ info)
       else Err UnsupportedHash)
    \<and> (case rsa_pkcs1v15_encode lib hash message k of Ok e \<Rightarrow> length e = k | Err _ \<Rightarrow> True))"
  by (auto simp: rsa_pkcs1v15_encode_def Let_def resize_def)

end
