(* ===== verification/PivTypes.thy ===== *)
theory PivTypes
  imports X509 Drive
begin

unbundle bit_operations_syntax

text \<open>
  The types of \<^verbatim>\<open>canokey::piv\<close> that the repository's PIV code builds or inspects, by the
  constructors and fields it names.  Library values that the code only passes on (a device
  profile, credentials, key material) are wrapped handles or the bytes they were built from.
\<close>

datatype slot = Authentication | Signature | KeyManagement | CardAuthentication | Retired nat

datatype 'a known = Known 'a | Unknown nat

datatype key_origin = Generated | Imported | NotPresent

datatype pin_policy = PinDefault | PinNever | PinOnce | PinAlways | OtherPinPolicy nat

datatype touch_policy = TouchDefault | TouchNever | TouchAlways | TouchCached | OtherTouchPolicy nat

datatype public_key =
    PkRsa algorithm "byte list" "byte list"
  | PkEc algorithm "byte list"
  | PkRaw algorithm "byte list"

record metadata_fields =
  mf_algorithm_id :: "u8 option"
  mf_is_default :: "bool known option"
  mf_origin :: "key_origin known option"
  mf_public_key :: "public_key option"
  mf_pin_policy :: "pin_policy known option"
  mf_touch_policy :: "touch_policy known option"
  mf_retries :: "(nat \<times> nat) option"
  mf_unknown_fields :: "(nat \<times> byte list) list"

datatype metadata =
    KeyMetadata (metadata_fields_of: metadata_fields)
  | PinMetadata (metadata_fields_of: metadata_fields)
  | PukMetadata (metadata_fields_of: metadata_fields)
  | ManagementMetadata (metadata_fields_of: metadata_fields)

datatype metadata_reference = MetadataKey slot | MetadataPin | MetadataPuk | MetadataManagement

datatype pin = Pin (pin_bytes: "byte list")

datatype puk = Puk (puk_bytes: "byte list")

datatype management_algorithm = Tdes | Aes192 | OtherManagementAlgorithm nat

datatype management_touch = ManagementTouchNever | ManagementTouchAlways | OtherManagementTouch nat

datatype management_key =
  ManagementKey (mk_algorithm: management_algorithm) (mk_bytes: "byte list")

datatype management_auth = AuthMutual management_key "byte list" | AuthExternal management_key

datatype access =
  AccessNone | AccessPin pin | AccessManagement management_auth | AccessPinAndManagement pin management_auth

datatype piv_object_id = ObjectId "byte list"

datatype piv_pin_status = PinStatus (pin_retries_left: "nat option")
datatype selection_info = SelectionInfo nat
datatype mutation_result = MutationResult nat
datatype piv_certificate = PivCertificate (piv_certificate_der: "byte list")
datatype private_material = PrivateMaterial nat
datatype attestation_parameters = AttestationParameters (ap_pin_policy: pin_policy) (ap_touch_policy: touch_policy)
datatype container_name = ContainerName (container_text: "byte list")
datatype container_reference = ContainerKey slot | ContainerAttestation
datatype sm2_role = Sm2Initiator | Sm2Responder

record sm2_input =
  si_role :: sm2_role
  si_peer_static :: "byte list"
  si_peer_ephemeral :: "byte list"
  si_user_id :: "byte list option"
  si_peer_id :: "byte list option"
  si_key_len :: nat

record sm2_agreement =
  sa_key :: "byte list"
  sa_ephemeral_public :: "byte list"

record key_parameters =
  kp_slot :: slot
  kp_algorithm :: algorithm
  kp_pin_policy :: pin_policy
  kp_touch_policy :: touch_policy

datatype sign_input = RsaEncodedBlock "byte list" | SignDigest "byte list" | SignMessage "byte list"

datatype streaming_input = StreamSm2 "byte list" "byte list option" | StreamMlDsa65 "byte list"

datatype batch_request = BatchAuthenticate management_auth | BatchGenerate key_parameters

datatype batch_item = BatchPublicKey public_key | BatchOther nat

datatype capability = CapAttestation | CapCertificateDeletion | OtherCapability nat

text \<open>
  \<^verbatim>\<open>canokey::tlv\<close>: a BER reader is the list of results that its successive \<^verbatim>\<open>next()\<close> calls give
  (finite, since its input is), and a writer is the bytes written so far.
\<close>

datatype tlv_reader = TlvEnd | TlvError lib_error | TlvField nat "byte list" tlv_reader

record tlv_lib =
  tlv_reader_of :: "byte list \<Rightarrow> tlv_reader"
  tag_from_bytes :: "byte list \<Rightarrow> lib_error + nat"
  tlv_push :: "nat option \<Rightarrow> nat \<Rightarrow> byte list \<Rightarrow> byte list \<Rightarrow> lib_error + byte list"

text \<open>
  The operations of \<^verbatim>\<open>canokey::piv\<close>, each called with the default options, and the library's
  pure functions.
\<close>

record piv_secrets =
  lib_get_pin_status :: "device_profile \<Rightarrow> lib_error + piv_pin_status operation"
  lib_verify_pin :: "device_profile \<Rightarrow> pin \<Rightarrow> lib_error + unit operation"
  lib_logout :: "device_profile \<Rightarrow> lib_error + unit operation"
  lib_change_pin :: "device_profile \<Rightarrow> pin \<Rightarrow> pin \<Rightarrow> lib_error + mutation_result operation"
  lib_change_puk :: "device_profile \<Rightarrow> puk \<Rightarrow> puk \<Rightarrow> lib_error + mutation_result operation"
  lib_unblock_pin :: "device_profile \<Rightarrow> puk \<Rightarrow> pin \<Rightarrow> lib_error + mutation_result operation"
  lib_reset_retries :: "device_profile \<Rightarrow> u8 \<Rightarrow> u8 \<Rightarrow> access \<Rightarrow> lib_error + mutation_result operation"
  lib_pin_managed :: "device_profile \<Rightarrow> byte list option \<Rightarrow> access \<Rightarrow> lib_error + byte list operation"
  lib_authenticate :: "device_profile \<Rightarrow> management_auth \<Rightarrow> bool \<Rightarrow> lib_error + unit operation"
  lib_set_management_key :: "device_profile \<Rightarrow> management_key \<Rightarrow> management_touch \<Rightarrow> bool \<Rightarrow> access
    \<Rightarrow> lib_error + mutation_result operation"
  lib_select :: "device_profile \<Rightarrow> lib_error + selection_info operation"
  lib_random_selected :: "nat \<Rightarrow> lib_error + byte list operation"

record piv_objects =
  lib_read_object :: "device_profile \<Rightarrow> piv_object_id \<Rightarrow> access \<Rightarrow> lib_error + byte list operation"
  lib_write_object :: "device_profile \<Rightarrow> piv_object_id \<Rightarrow> byte list \<Rightarrow> access \<Rightarrow> lib_error + mutation_result operation"
  lib_read_certificate :: "device_profile \<Rightarrow> slot \<Rightarrow> access \<Rightarrow> lib_error + piv_certificate operation"
  lib_write_certificate :: "device_profile \<Rightarrow> slot \<Rightarrow> byte list \<Rightarrow> access \<Rightarrow> lib_error + mutation_result operation"
  lib_delete_certificate :: "device_profile \<Rightarrow> slot \<Rightarrow> access \<Rightarrow> lib_error + mutation_result operation"
  lib_read_attestation_certificate :: "device_profile \<Rightarrow> lib_error + piv_certificate operation"
  lib_read_container_name :: "device_profile \<Rightarrow> container_reference \<Rightarrow> access \<Rightarrow> lib_error + container_name operation"
  lib_set_container_name :: "device_profile \<Rightarrow> container_reference \<Rightarrow> container_name \<Rightarrow> access
    \<Rightarrow> lib_error + mutation_result operation"

record piv_keys =
  lib_get_metadata :: "device_profile \<Rightarrow> metadata_reference \<Rightarrow> access \<Rightarrow> lib_error + metadata operation"
  lib_generate_key :: "device_profile \<Rightarrow> key_parameters \<Rightarrow> access \<Rightarrow> lib_error + public_key operation"
  lib_import_key :: "device_profile \<Rightarrow> key_parameters \<Rightarrow> private_material \<Rightarrow> access
    \<Rightarrow> lib_error + mutation_result operation"
  lib_delete_key :: "device_profile \<Rightarrow> slot \<Rightarrow> access \<Rightarrow> lib_error + mutation_result operation"
  lib_move_key :: "device_profile \<Rightarrow> slot \<Rightarrow> slot \<Rightarrow> access \<Rightarrow> lib_error + mutation_result operation"
  lib_attest :: "device_profile \<Rightarrow> slot \<Rightarrow> bool \<Rightarrow> lib_error + byte list operation"
  lib_generate_attestation_key :: "device_profile \<Rightarrow> attestation_parameters \<Rightarrow> access
    \<Rightarrow> lib_error + public_key operation"
  lib_import_attestation_key :: "device_profile \<Rightarrow> attestation_parameters \<Rightarrow> private_material \<Rightarrow> access
    \<Rightarrow> lib_error + mutation_result operation"
  lib_attestation_metadata :: "device_profile \<Rightarrow> lib_error + metadata_fields operation"
  lib_sign :: "device_profile \<Rightarrow> slot \<Rightarrow> algorithm \<Rightarrow> sign_input \<Rightarrow> access \<Rightarrow> lib_error + byte list operation"
  lib_sign_streaming :: "device_profile \<Rightarrow> slot \<Rightarrow> streaming_input \<Rightarrow> access \<Rightarrow> lib_error + byte list operation"
  lib_decrypt :: "device_profile \<Rightarrow> slot \<Rightarrow> algorithm \<Rightarrow> byte list \<Rightarrow> access \<Rightarrow> lib_error + byte list operation"
  lib_derive :: "device_profile \<Rightarrow> slot \<Rightarrow> algorithm \<Rightarrow> byte list \<Rightarrow> access \<Rightarrow> lib_error + byte list operation"
  lib_decapsulate :: "device_profile \<Rightarrow> slot \<Rightarrow> byte list \<Rightarrow> access \<Rightarrow> lib_error + byte list operation"
  lib_agree_sm2 :: "device_profile \<Rightarrow> slot \<Rightarrow> sm2_input \<Rightarrow> access \<Rightarrow> lib_error + sm2_agreement operation"
  lib_batch :: "device_profile \<Rightarrow> batch_request list \<Rightarrow> lib_error + batch_item list operation"
  lib_batch_progress :: "batch_item list operation \<Rightarrow> batch_item list option"

record piv_host =
  management_key_from_bytes :: "management_algorithm \<Rightarrow> byte list \<Rightarrow> lib_error + management_key"
  auth_mutual :: "management_key \<Rightarrow> byte list \<Rightarrow> lib_error + management_auth"
  block_len :: "management_algorithm \<Rightarrow> nat"
  pin_from_bytes :: "byte list \<Rightarrow> lib_error + pin"
  object_id_from_bytes :: "byte list \<Rightarrow> lib_error + piv_object_id"
  certificate_object_id :: "slot \<Rightarrow> piv_object_id"
  container_name_from_text :: "byte list \<Rightarrow> lib_error + container_name"
  require_capability :: "device_profile \<Rightarrow> capability \<Rightarrow> lib_error + unit"
  profile_serial :: "device_profile \<Rightarrow> byte list option"
  max_input_bytes :: nat
  pbkdf2_hmac_sha1 :: "byte list \<Rightarrow> byte list \<Rightarrow> nat \<Rightarrow> nat \<Rightarrow> byte list"

text \<open>
  Everything a PIV procedure uses: the card transport and the host's random generator, which
  act on the world, and the library.
\<close>

record ('w, 'e) piv_env =
  env_exchange :: "('w, 'e) exchange"
  fill_random :: "nat \<Rightarrow> ('w, random_error, byte list) proc"
  secrets :: piv_secrets
  objects :: piv_objects
  keys :: piv_keys
  host :: piv_host
  tlv :: tlv_lib
  x509 :: x509_lib

end
