(* ===== verification/Pem.thy ===== *)
theory Pem
  imports X509
begin

text \<open>
  PEM armor: \<^verbatim>\<open>pem_decode\<close> of \<^verbatim>\<open>crates/ckman-core/src/keys/mod.rs\<close>, the reader for the
  files that \<open>pem_encode\<close> of X509 writes, and the error type of key files.  The remaining text
  after \<^verbatim>\<open>cursor\<close> is the list argument; Base64 (\<^verbatim>\<open>base64ct\<close>) is a parameter.
\<close>

datatype key_error =
    KeyPem | KeyEncoding | KeyUnsupported | KeyUnsupportedEncryption | KeyPassword
  | KeyRsaExponent | KeyMacMismatch | KeyAmbiguousCertificates

definition pem_marker :: "byte list \<Rightarrow> byte list" where
  "pem_marker label = lit ''-----END '' @ label @ lit ''-----''"

function pem_blocks ::
  "(byte list \<Rightarrow> byte list option) \<Rightarrow> byte list list \<Rightarrow> byte list \<Rightarrow> key_error + byte list \<times> byte list" where
  "pem_blocks base64_decode labels src =
    (case find_sub (lit ''-----BEGIN '') src of
       None \<Rightarrow> Err KeyPem
     | Some pos \<Rightarrow>
         let begin_text = drop (pos + length (lit ''-----BEGIN '')) src in
         (case find_sub (lit ''-----'') begin_text of
            None \<Rightarrow> Err KeyPem
          | Some label_end \<Rightarrow>
              let label = take label_end begin_text; rest = drop label_end begin_text;
                  end_marker = pem_marker label in
              (case find_sub end_marker rest of
                 None \<Rightarrow> Err KeyPem
               | Some i \<Rightarrow>
                   if label \<notin> set labels
                   then pem_blocks base64_decode labels (drop (i + length end_marker) rest)
                   else (case find_sub [0x0a] rest of
                       None \<Rightarrow> Err KeyPem
                     | Some nl \<Rightarrow>
                         let body_text = drop (nl + 1) rest in
                         (case find_sub end_marker body_text of
                            None \<Rightarrow> Err KeyPem
                          | Some e \<Rightarrow>
                              (case base64_decode (remove_white (take e body_text)) of
                                 None \<Rightarrow> Err KeyPem
                               | Some decoded \<Rightarrow> Ok (label, decoded)))))))"
  by pat_completeness auto
termination
proof (relation "measure (\<lambda>(d, labels, src). length src)")
  fix src pos begin_text label_end label rest end_marker i
  assume "find_sub (lit ''-----BEGIN '') src = Some pos"
    and b: "begin_text = drop (pos + length (lit ''-----BEGIN '')) src"
    and r: "rest = drop label_end begin_text"
  then have "pos + length (lit ''-----BEGIN '') \<le> length src" by (simp add: find_sub_bound)
  then have "length begin_text < length src" using b by (simp add: lit_def)
  then show "((base64_decode, labels, drop (i + length end_marker) rest), base64_decode, labels, src)
      \<in> measure (\<lambda>(d, labels, src). length src)" for base64_decode :: "byte list \<Rightarrow> byte list option" and labels :: "byte list list"
    using r by simp
qed simp

declare pem_blocks.simps [simp del]

text \<open>Input that is not text or has no armor passes through as DER, with an empty label.\<close>

definition pem_decode ::
  "(byte list \<Rightarrow> byte list option) \<Rightarrow> byte list \<Rightarrow> byte list list \<Rightarrow> key_error + byte list \<times> byte list" where
  "pem_decode base64_decode input labels =
    (if utf8_valid input \<and> contains_sub (lit ''-----BEGIN'') input
     then pem_blocks base64_decode labels input else Ok ([], input))"

section \<open>Reading what was written\<close>

text \<open>What the code relies on of Base64: decoding inverts encoding, and the encoding uses visible
  ASCII characters other than the dash.\<close>

definition base64_laws :: "x509_lib \<Rightarrow> (byte list \<Rightarrow> byte list option) \<Rightarrow> bool" where
  "base64_laws lib base64_decode \<longleftrightarrow> (\<forall>d. base64_decode (base64_encode lib d) = Some d
     \<and> (\<forall>b \<in> set (base64_encode lib d). visible b \<and> b \<noteq> 0x2d))"

text \<open>A label is ASCII without dashes and line breaks.\<close>

definition label_ok :: "byte list \<Rightarrow> bool" where
  "label_ok label \<longleftrightarrow> (\<forall>b \<in> set label. b < 0x80 \<and> b \<noteq> 0x2d \<and> b \<noteq> 0x0a)"

definition armor_body :: "byte list \<Rightarrow> byte list" where
  "armor_body src = concat (map (\<lambda>line. line @ [0x0a]) (chunks_of 64 src))"

lemma concat_chunks: "concat (chunks_of 64 xs) = xs"
proof (induction "64 :: nat" xs rule: chunks_of.induct)
  case (1 xs)
  show ?case
  proof (cases "xs = []")
    case False
    then have "chunks_of 64 xs = take 64 xs # chunks_of 64 (drop 64 xs)" by (subst chunks_of.simps) simp
    with 1 False show ?thesis by simp
  qed (simp add: chunks_of.simps)
qed

lemma armor_body_chars: "b \<in> set (armor_body src) \<Longrightarrow> b \<in> set src \<or> b = 0x0a"
proof -
  assume "b \<in> set (armor_body src)"
  then have "b \<in> set (concat (chunks_of 64 src)) \<or> b = 0x0a" by (auto simp: armor_body_def split: if_splits)
  then show ?thesis by (simp only: concat_chunks)
qed

lemma remove_white_append:
  "\<forall>b \<in> set xs. visible b \<Longrightarrow> remove_white (xs @ ys) = xs @ remove_white ys"
  by (induction xs) (simp_all add: remove_white_visible)

lemma remove_white_lines:
  "\<forall>l \<in> set ls. \<forall>b \<in> set l. visible b
    \<Longrightarrow> remove_white (concat (map (\<lambda>line. line @ [0x0a]) ls)) = concat ls"
  by (induction ls) (simp_all add: remove_white_append remove_white_newline remove_white_Nil)

lemma remove_white_body:
  assumes "\<forall>b \<in> set src. visible b"
  shows "remove_white (armor_body src) = src"
proof -
  have "\<forall>b \<in> set (concat (chunks_of 64 src)). visible b" unfolding concat_chunks by (rule assms)
  then have "\<forall>l \<in> set (chunks_of 64 src). \<forall>b \<in> set l. visible b" by auto
  then show ?thesis unfolding armor_body_def by (simp add: remove_white_lines concat_chunks)
qed

lemma dash_lits:
  "lit ''-----'' = [0x2d, 0x2d, 0x2d, 0x2d, 0x2d]"
  "lit ''-----BEGIN '' = [0x2d, 0x2d, 0x2d, 0x2d, 0x2d, 0x42, 0x45, 0x47, 0x49, 0x4e, 0x20]"
  "lit ''-----END '' = [0x2d, 0x2d, 0x2d, 0x2d, 0x2d, 0x45, 0x4e, 0x44, 0x20]"
  "lit ''-----BEGIN'' = [0x2d, 0x2d, 0x2d, 0x2d, 0x2d, 0x42, 0x45, 0x47, 0x49, 0x4e]"
  by code_simp+

text \<open>One block of armor, from its label on\<close>

definition armor_tail :: "x509_lib \<Rightarrow> byte list \<Rightarrow> byte list \<Rightarrow> byte list" where
  "armor_tail lib label d = lit ''-----'' @ 0x0a # armor_body (base64_encode lib d) @ pem_marker label"

lemma pem_encode_tail:
  "pem_encode lib label d = lit ''-----BEGIN '' @ label @ armor_tail lib label d @ [0x0a]"
  by (simp add: pem_encode_def armor_tail_def armor_body_def pem_marker_def)

lemma find_marker_body:
  assumes "\<forall>b \<in> set xs. b \<noteq> 0x2d"
  shows "find_sub (pem_marker label) (xs @ pem_marker label @ ys) = Some (length xs)"
proof -
  obtain ms where m: "pem_marker label = 0x2d # ms" by (simp add: pem_marker_def dash_lits)
  have "find_sub (0x2d # ms) (xs @ (0x2d # ms) @ ys) = map_option (\<lambda>n. length xs + n) (find_sub (0x2d # ms) ((0x2d # ms) @ ys))"
    using assms by (intro find_sub_skip) auto
  then show ?thesis unfolding m find_sub_here by simp
qed

lemma find_marker_tail:
  assumes "\<forall>b \<in> set xs. b \<noteq> 0x2d"
  shows "find_sub (pem_marker label) (lit ''-----'' @ 0x0a # xs @ pem_marker label @ ys) = Some (6 + length xs)"
proof -
  have m: "pem_marker label = [0x2d, 0x2d, 0x2d, 0x2d, 0x2d, 0x45, 0x4e, 0x44, 0x20] @ label @ lit ''-----''"
    by (simp add: pem_marker_def dash_lits)
  have "find_sub (pem_marker label) (0x0a # xs @ pem_marker label @ ys) = Some (1 + length xs)"
    using find_marker_body [of "0x0a # xs" label ys] assms by simp
  then show ?thesis
    unfolding dash_lits(1) by (simp add: m)
qed

lemma body_no_dash:
  assumes "base64_laws lib base64_decode"
  shows "\<forall>b \<in> set (armor_body (base64_encode lib d)). b \<noteq> 0x2d"
  using assms armor_body_chars by (fastforce simp: base64_laws_def)

lemma pem_blocks_cons:
  assumes "base64_laws lib base64_decode" and "label_ok label" and "set pre \<subseteq> {0x0a}"
  shows "pem_blocks base64_decode labels (pre @ pem_encode lib label d @ rest) =
    (if label \<in> set labels then Ok (label, d) else pem_blocks base64_decode labels (0x0a # rest))"
proof -
  let ?body = "armor_body (base64_encode lib d)" and ?m = "pem_marker label"
  have begin_at: "find_sub (lit ''-----BEGIN '') (pre @ pem_encode lib label d @ rest) = Some (length pre)"
  proof -
    obtain bs where b: "lit ''-----BEGIN '' = 0x2d # bs" by (simp add: dash_lits)
    have "0x2d \<notin> set pre" using assms(3) by auto
    then have "find_sub (0x2d # bs) (pre @ (0x2d # bs) @ label @ armor_tail lib label d @ 0x0a # rest) =
        map_option (\<lambda>n. length pre + n) (find_sub (0x2d # bs) ((0x2d # bs) @ label @ armor_tail lib label d @ 0x0a # rest))"
      by (rule find_sub_skip)
    then show ?thesis unfolding find_sub_here by (simp add: pem_encode_tail b)
  qed
  have drop1: "drop (length pre + length (lit ''-----BEGIN '')) (pre @ pem_encode lib label d @ rest)
      = label @ armor_tail lib label d @ 0x0a # rest"
    by (simp add: pem_encode_tail)
  have label_end: "find_sub (lit ''-----'') (label @ armor_tail lib label d @ 0x0a # rest) = Some (length label)"
  proof -
    have "0x2d \<notin> set label" using assms(2) by (auto simp: label_ok_def)
    then have "find_sub (lit ''-----'') (label @ armor_tail lib label d @ 0x0a # rest) =
        map_option (\<lambda>n. length label + n) (find_sub (lit ''-----'') (armor_tail lib label d @ 0x0a # rest))"
      unfolding dash_lits(1) by (rule find_sub_skip)
    also have "find_sub (lit ''-----'') (armor_tail lib label d @ 0x0a # rest) = Some 0"
      unfolding armor_tail_def append_assoc by (rule find_sub_here)
    finally show ?thesis by simp
  qed
  have label_split: "drop (length label) (label @ armor_tail lib label d @ 0x0a # rest)
      = armor_tail lib label d @ 0x0a # rest" by simp
  have tail: "armor_tail lib label d @ 0x0a # rest = lit ''-----'' @ 0x0a # ?body @ ?m @ 0x0a # rest"
    by (simp add: armor_tail_def)
  have end_at: "find_sub ?m (armor_tail lib label d @ 0x0a # rest) = Some (6 + length ?body)"
    unfolding tail using find_marker_tail body_no_dash [OF assms(1)] by blast
  have skip: "drop (6 + length ?body + length ?m) (armor_tail lib label d @ 0x0a # rest) = 0x0a # rest"
  proof -
    have "6 + length ?body + length ?m = length (armor_tail lib label d)"
      by (simp add: armor_tail_def dash_lits)
    then show ?thesis by simp
  qed
  have newline: "find_sub [0x0a] (armor_tail lib label d @ 0x0a # rest) = Some 5"
    unfolding tail dash_lits by simp
  have body: "drop 6 (armor_tail lib label d @ 0x0a # rest) = ?body @ ?m @ 0x0a # rest"
    by (simp add: tail dash_lits)
  have body_end: "find_sub ?m (?body @ ?m @ 0x0a # rest) = Some (length ?body)"
    using find_marker_body body_no_dash [OF assms(1)] by blast
  have decoded: "base64_decode (remove_white ?body) = Some d"
    using assms(1) by (simp add: base64_laws_def remove_white_body)
  show ?thesis
    by (subst pem_blocks.simps)
      (simp add: begin_at drop1 label_end label_split end_at skip newline body body_end decoded Let_def
        del: drop_append)
qed

lemma pem_encode_not_Nil: "pem_encode lib label d \<noteq> []"
  by (simp add: pem_encode_tail dash_lits)

lemma pem_blocks_bundle:
  assumes "base64_laws lib base64_decode" and "\<forall>(label, d) \<in> set blocks. label_ok label" and "set pre \<subseteq> {0x0a}"
  shows "pem_blocks base64_decode labels (pre @ concat (map (\<lambda>(label, d). pem_encode lib label d) blocks)) =
    (case find (\<lambda>(label, d). label \<in> set labels) blocks of Some b \<Rightarrow> Ok b | None \<Rightarrow> Err KeyPem)"
  using assms(2,3)
proof (induction blocks arbitrary: pre)
  case Nil
  obtain bs where b: "lit ''-----BEGIN '' = 0x2d # bs" by (simp add: dash_lits)
  have "find_sub (0x2d # bs) pre = None" using Nil by (intro find_sub_absent) auto
  then show ?case by (simp add: pem_blocks.simps b)
next
  case (Cons ld blocks)
  obtain label d where ld: "ld = (label, d)" by (cases ld)
  have "pem_blocks base64_decode labels ([0x0a] @ concat (map (\<lambda>(label, d). pem_encode lib label d) blocks)) =
    (case find (\<lambda>(label, d). label \<in> set labels) blocks of Some b \<Rightarrow> Ok b | None \<Rightarrow> Err KeyPem)"
    using Cons by (intro Cons.IH) auto
  with Cons.prems ld show ?case
    by (simp add: pem_blocks_cons [OF assms(1)])
qed

lemma utf8_bundle:
  assumes "base64_laws lib base64_decode" and "\<forall>(label, d) \<in> set blocks. label_ok label"
  shows "utf8_valid (concat (map (\<lambda>(label, d). pem_encode lib label d) blocks))"
proof (rule utf8_valid_ascii)
  have ascii: "b < 0x80" if "visible b" for b
    using that unfolding visible_def by (elim conjE) (unat_arith; simp)
  have "\<forall>b \<in> set (pem_encode lib label d). b < 0x80" if "label_ok label" for label d
  proof -
    have "b < 0x80" if "b \<in> set (armor_body (base64_encode lib d))" for b
      using that armor_body_chars assms(1) ascii by (fastforce simp: base64_laws_def)
    with that show ?thesis
      by (auto simp: pem_encode_tail armor_tail_def pem_marker_def dash_lits label_ok_def)
  qed
  with assms(2) show "\<forall>b \<in> set (concat (map (\<lambda>(label, d). pem_encode lib label d) blocks)). b < 0x80"
    by (fastforce split: prod.splits)
qed

section \<open>Properties\<close>

text \<open>C13. Reading a bundle of PEM blocks gives the first block whose label is wanted, wherever it
  stands among other blocks, with exactly the bytes that were armored; a bundle without one is
  refused.\<close>

theorem pem_bundle_roundtrip:
  assumes "base64_laws lib base64_decode" and "blocks \<noteq> []" and "\<forall>(label, d) \<in> set blocks. label_ok label"
  shows "pem_decode base64_decode (concat (map (\<lambda>(label, d). pem_encode lib label d) blocks)) labels =
    (case find (\<lambda>(label, d). label \<in> set labels) blocks of Some b \<Rightarrow> Ok b | None \<Rightarrow> Err KeyPem)"
proof -
  obtain label d blocks' where b: "blocks = (label, d) # blocks'" using assms(2) by (cases blocks) auto
  have "contains_sub (lit ''-----BEGIN'') (concat (map (\<lambda>(label, d). pem_encode lib label d) blocks))"
    by (simp add: b contains_sub_def pem_encode_tail dash_lits)
  then show ?thesis
    using pem_blocks_bundle [OF assms(1,3), of "[]"] utf8_bundle [OF assms(1,3)] by (simp add: pem_decode_def)
qed

text \<open>A Base64-like code for the example: two letters per byte.\<close>

definition sample_base64 :: "byte list \<Rightarrow> byte list" where
  "sample_base64 d = concat (map (\<lambda>b. [0x41 + drop_bit 4 b, 0x41 + (b AND 15)]) d)"

fun sample_base64_decode :: "byte list \<Rightarrow> byte list option" where
  "sample_base64_decode [] = Some []"
| "sample_base64_decode [b] = None"
| "sample_base64_decode (h # l # bs) =
     map_option (\<lambda>d. (push_bit 4 (h - 0x41) OR (l - 0x41)) # d) (sample_base64_decode bs)"

lemma sample_base64_laws: "base64_laws (sample_x509\<lparr>base64_encode := sample_base64\<rparr>) sample_base64_decode"
proof -
  have letter: "visible (0x41 + n) \<and> 0x41 + n \<noteq> 0x2d" if "unat n < 16" for n :: byte
    using that unfolding visible_def by (unat_arith; simp)
  have "sample_base64_decode (sample_base64 d) = Some d" for d
    by (induction d) (simp_all add: sample_base64_def nibbles)
  moreover have "\<forall>b \<in> set (sample_base64 d). visible b \<and> b \<noteq> 0x2d" for d
    using letter nibbles(1,2) by (auto simp: sample_base64_def)
  ultimately show ?thesis by (simp add: base64_laws_def)
qed

theorem pem_bundle_roundtrip_witness:
  "pem_decode sample_base64_decode
     (concat (map (\<lambda>(label, d). pem_encode (sample_x509\<lparr>base64_encode := sample_base64\<rparr>) label d)
       [(lit ''CERTIFICATE'', [1, 2]), (lit ''PRIVATE KEY'', [3])])) [lit ''PRIVATE KEY'']
    = Ok (lit ''PRIVATE KEY'', [3])"
proof -
  have labels: "\<forall>(label, d) \<in> set [(lit ''CERTIFICATE'', [1, 2]), (lit ''PRIVATE KEY'', [3 :: byte])]. label_ok label"
    by code_simp
  have ne: "lit ''CERTIFICATE'' \<noteq> lit ''PRIVATE KEY''" by code_simp
  show ?thesis
    using pem_bundle_roundtrip [OF sample_base64_laws _ labels, of "[lit ''PRIVATE KEY'']"] ne by simp
qed

end
