(* ===== verification/Attestation.thy ===== *)
theory Attestation
  imports PivTypes Pem
begin

unbundle bit_operations_syntax

text \<open>
  The CanoKey PIV attestation policy, \<^verbatim>\<open>crates/ckman-core/src/piv/attestation.rs\<close>: the fixed
  chain leaf, F9 issuer, root, and the binding to the live device.  Certificate parsing, P-256
  and SHA-256 are the record \<open>attest_lib\<close>.  The specification below states the policy as a
  predicate; \<open>verify\<close> accepts exactly what it allows.
\<close>

section \<open>Code\<close>

datatype attestation_error =
    CertificateError (ce_role: string) (ce_reason: string) | Binding string | TrustRoot

record attest_lib =
  att_x509 :: x509_lib
  basic_constraints :: "byte list \<Rightarrow> (bool \<times> nat option) option"
  key_usage :: "byte list \<Rightarrow> (bool \<times> bool) option"
  p256_key :: "byte list \<Rightarrow> byte list option"
  ecdsa_signature :: "byte list \<Rightarrow> byte list option"
  ecdsa_verify :: "byte list \<Rightarrow> byte list \<Rightarrow> byte list \<Rightarrow> bool"
  slot_reference :: "slot \<Rightarrow> u8"
  public_key_spki :: "public_key \<Rightarrow> byte list option"
  att_base64_decode :: "byte list \<Rightarrow> byte list option"

definition MAX_CERTIFICATE_BYTES :: nat where "MAX_CERTIFICATE_BYTES = 16 * 1024"
definition SERIAL_OID :: oid where "SERIAL_OID = Oid (lit ''1.3.6.1.4.1.66602.1.1'')"
definition POLICIES_OID :: oid where "POLICIES_OID = Oid (lit ''1.3.6.1.4.1.66602.1.2'')"
definition BC_OID :: oid where "BC_OID = Oid (lit ''2.5.29.19'')"
definition KU_OID :: oid where "KU_OID = Oid (lit ''2.5.29.15'')"
definition ECDSA_SHA256_OID :: oid where "ECDSA_SHA256_OID = Oid (lit ''1.2.840.10045.4.3.2'')"

text \<open>\<^verbatim>\<open>decode_root\<close>\<close>

definition parse_certificate :: "attest_lib \<Rightarrow> byte list \<Rightarrow> string \<Rightarrow> attestation_error + certificate" where
  "parse_certificate lib bytes role =
    (if length bytes > MAX_CERTIFICATE_BYTES
     then Err (CertificateError role ''certificate exceeds size limit'')
     else map_err (\<lambda>_. CertificateError role ''malformed DER'') (cert_from_der (att_x509 lib) bytes))"

definition decode_root :: "attest_lib \<Rightarrow> byte list \<Rightarrow> attestation_error + byte list" where
  "decode_root lib input =
    (if length input > MAX_CERTIFICATE_BYTES * 2 then Err TrustRoot
     else if (case input of b # _ \<Rightarrow> b \<noteq> 0x30 | [] \<Rightarrow> True)
       \<and> (\<not> utf8_valid input
          \<or> count_sub (lit ''-----BEGIN '') input \<noteq> 1
          \<or> \<not> starts_with (lit ''-----BEGIN CERTIFICATE-----'') (trim_start input)
          \<or> \<not> ends_with (lit ''-----END CERTIFICATE-----'') (trim_end input))
     then Err TrustRoot
     else res_bind (map_err (\<lambda>_. TrustRoot) (pem_decode (att_base64_decode lib) input [lit ''CERTIFICATE'']))
       (\<lambda>(label, der). res_bind (parse_certificate lib der ''root'') (\<lambda>_. Ok der)))"

record evidence =
  ev_certificate :: "byte list"
  ev_issuer :: "byte list"
  ev_slot :: slot
  ev_serial :: "byte list"
  ev_target :: metadata_fields
  ev_signer :: metadata_fields

definition extension :: "certificate \<Rightarrow> oid \<Rightarrow> byte list option" where
  "extension cert oid = (case tbs_extensions (cert_tbs cert) of
     None \<Rightarrow> None
   | Some exts \<Rightarrow> map_option extn_value (find (\<lambda>e. extn_id e = oid) exts))"

fun check_extensions :: "string \<Rightarrow> cert_extension list \<Rightarrow> cert_extension list \<Rightarrow> attestation_error + unit" where
  "check_extensions role seen [] = Ok ()"
| "check_extensions role seen (e # es) =
     (if \<exists>other \<in> set seen. extn_id other = extn_id e
      then Err (CertificateError role ''duplicate extension'')
      else if critical e \<and> extn_id e \<noteq> BC_OID \<and> extn_id e \<noteq> KU_OID
      then Err (CertificateError role ''unsupported critical extension'')
      else check_extensions role (seen @ [e]) es)"

definition unix_seconds :: "x509_time \<Rightarrow> nat" where
  "unix_seconds t = (case t of UtcTime n \<Rightarrow> n | GeneralTime n \<Rightarrow> n)"

text \<open>\<^verbatim>\<open>extension(..).map(T::from_der).transpose()\<close>\<close>

definition parse_extension :: "(byte list \<Rightarrow> 'a option) \<Rightarrow> byte list option \<Rightarrow> attestation_error \<Rightarrow> attestation_error + 'a option" where
  "parse_extension from_der ext e = (case ext of
     None \<Rightarrow> Ok None
   | Some bytes \<Rightarrow> (case from_der bytes of None \<Rightarrow> Err e | Some x \<Rightarrow> Ok (Some x)))"

definition check_ca :: "string \<Rightarrow> nat \<Rightarrow> (bool \<times> nat option) option \<Rightarrow> (bool \<times> bool) option \<Rightarrow> attestation_error + unit" where
  "check_ca role depth bc ku = (case bc of
     Some (True, path_len) \<Rightarrow>
       if (case path_len of Some limit \<Rightarrow> depth > limit | None \<Rightarrow> False)
       then Err (CertificateError role ''CA path length exceeded'')
       else if (case ku of Some (cert_sign, crl_sign) \<Rightarrow> \<not> cert_sign | None \<Rightarrow> False)
       then Err (CertificateError role ''signer KeyUsage does not allow certificate signing'')
       else Ok ()
   | _ \<Rightarrow> Err (CertificateError role ''signer must be a CA''))"

definition check_end_entity :: "string \<Rightarrow> (bool \<times> nat option) option \<Rightarrow> (bool \<times> bool) option \<Rightarrow> attestation_error + unit" where
  "check_end_entity role bc ku =
    (if (case bc of Some (ca, path_len) \<Rightarrow> ca \<or> path_len \<noteq> None | None \<Rightarrow> False)
      \<or> (case ku of Some (cert_sign, crl_sign) \<Rightarrow> cert_sign \<or> crl_sign | None \<Rightarrow> False)
     then Err (CertificateError role ''target attestation must be an end-entity certificate'')
     else Ok ())"

definition check_profile :: "attest_lib \<Rightarrow> certificate \<Rightarrow> string \<Rightarrow> nat \<Rightarrow> nat option \<Rightarrow> attestation_error + unit" where
  "check_profile lib cert role now ca_depth =
    (let tbs = cert_tbs cert; invalid = CertificateError role in
     if tbs_version tbs \<noteq> V3 \<or> tbs_issuer_uid tbs \<noteq> None \<or> tbs_subject_uid tbs \<noteq> None
     then Err (invalid ''unsupported certificate version or unique identifiers'')
     else if cert_algorithm cert \<noteq> tbs_signature tbs \<or> ai_oid (cert_algorithm cert) \<noteq> ECDSA_SHA256_OID
       \<or> ai_parameters (cert_algorithm cert) \<noteq> None
     then Err (invalid ''expected matching ECDSA/SHA-256 signature identifiers without parameters'')
     else let bef = unix_seconds (not_before (tbs_validity tbs)); aft = unix_seconds (not_after (tbs_validity tbs)) in
     if bef > aft \<or> now < bef \<or> now > aft
     then Err (invalid ''certificate is expired or not yet valid'')
     else res_bind (case tbs_extensions tbs of None \<Rightarrow> Ok () | Some exts \<Rightarrow> check_extensions role [] exts) (\<lambda>_.
     res_bind (parse_extension (basic_constraints lib) (extension cert BC_OID) (invalid ''malformed BasicConstraints'')) (\<lambda>bc.
     res_bind (parse_extension (key_usage lib) (extension cert KU_OID) (invalid ''malformed KeyUsage'')) (\<lambda>ku.
     case ca_depth of Some depth \<Rightarrow> check_ca role depth bc ku | None \<Rightarrow> check_end_entity role bc ku))))"

definition verify_signature :: "attest_lib \<Rightarrow> certificate \<Rightarrow> certificate \<Rightarrow> string \<Rightarrow> attestation_error + unit" where
  "verify_signature lib cert issuer role =
    (let invalid = CertificateError role in
     if tbs_issuer (cert_tbs cert) \<noteq> tbs_subject (cert_tbs issuer)
     then Err (invalid ''issuer name does not match signer subject'')
     else res_bind (map_err (\<lambda>_. invalid ''invalid signer SPKI'') (spki_to_der (att_x509 lib) (tbs_spki (cert_tbs issuer)))) (\<lambda>spki.
     res_bind (ok_or (invalid ''signer must use P-256'') (p256_key lib spki)) (\<lambda>key.
     res_bind (ok_or (invalid ''invalid ECDSA signature encoding'')
       (Option.bind (cert_signature cert) (ecdsa_signature lib))) (\<lambda>signature.
     res_bind (map_err (\<lambda>_. invalid ''invalid TBS certificate'') (tbs_to_der (att_x509 lib) (cert_tbs cert))) (\<lambda>tbs.
     if ecdsa_verify lib key tbs signature then Ok ()
     else Err (invalid ''signature verification failed''))))))"

definition metadata_spki :: "attest_lib \<Rightarrow> metadata_fields \<Rightarrow> attestation_error + byte list" where
  "metadata_spki lib mf =
     res_bind (ok_or (Binding ''public key metadata missing or unsupported'') (mf_public_key mf)) (\<lambda>key.
     ok_or (Binding ''invalid public key metadata'') (public_key_spki lib key))"

definition pin_wire :: "pin_policy known option \<Rightarrow> attestation_error + byte" where
  "pin_wire policy = (case policy of
     Some (Known PinNever) \<Rightarrow> Ok 1
   | Some (Known PinOnce) \<Rightarrow> Ok 2
   | Some (Known PinAlways) \<Rightarrow> Ok 3
   | _ \<Rightarrow> Err (Binding ''PIN policy missing or unknown''))"

definition touch_wire :: "touch_policy known option \<Rightarrow> attestation_error + byte" where
  "touch_wire policy = (case policy of
     Some (Known TouchNever) \<Rightarrow> Ok 1
   | Some (Known TouchAlways) \<Rightarrow> Ok 2
   | Some (Known TouchCached) \<Rightarrow> Ok 3
   | _ \<Rightarrow> Err (Binding ''touch policy missing or unknown''))"

text \<open>\<^verbatim>\<open>{:02x}\<close>\<close>

definition hex_lower :: "u8 \<Rightarrow> byte list" where
  "hex_lower b = map (\<lambda>n. if n < 10 then n + 0x30 else n - 10 + 0x61) [drop_bit 4 b, b AND 15]"

definition attestation_subject :: "attest_lib \<Rightarrow> slot \<Rightarrow> byte list" where
  "attestation_subject lib s = lit ''CN=CanoKey PIV Attestation '' @ hex_lower (slot_reference lib s)"

definition check_bindings :: "attest_lib \<Rightarrow> evidence \<Rightarrow> certificate \<Rightarrow> certificate \<Rightarrow> attestation_error + unit" where
  "check_bindings lib ev leaf issuer =
    (if mf_origin (ev_target ev) \<noteq> Some (Known Generated)
     then Err (Binding ''target key is not reported as generated on device'')
     else res_bind (metadata_spki lib (ev_target ev)) (\<lambda>target_spki.
     res_bind (metadata_spki lib (ev_signer ev)) (\<lambda>signer_spki.
     if spki_to_der (att_x509 lib) (tbs_spki (cert_tbs leaf)) \<noteq> Ok target_spki
     then Err (Binding ''target public key mismatch'')
     else if spki_to_der (att_x509 lib) (tbs_spki (cert_tbs issuer)) \<noteq> Ok signer_spki
     then Err (Binding ''F9 public key does not match issuer certificate'')
     else res_bind (map_err (\<lambda>_. Binding ''invalid target slot'')
         (parse_rfc4514 (att_x509 lib) (attestation_subject lib (ev_slot ev)))) (\<lambda>expected_subject.
     if tbs_subject (cert_tbs leaf) \<noteq> expected_subject
     then Err (Binding ''target slot subject mismatch'')
     else if extension leaf SERIAL_OID \<noteq> Some (ev_serial ev)
     then Err (Binding ''device serial extension missing or mismatched'')
     else res_bind (pin_wire (mf_pin_policy (ev_target ev))) (\<lambda>pin.
     res_bind (touch_wire (mf_touch_policy (ev_target ev))) (\<lambda>touch.
     if extension leaf POLICIES_OID \<noteq> Some [pin, touch]
     then Err (Binding ''PIN/touch policy extension missing or mismatched'')
     else Ok ()))))))"

definition verify :: "attest_lib \<Rightarrow> evidence \<Rightarrow> byte list \<Rightarrow> nat \<Rightarrow> attestation_error + byte list" where
  "verify lib ev root now =
     res_bind (parse_certificate lib (ev_certificate ev) ''attestation'') (\<lambda>leaf.
     res_bind (parse_certificate lib (ev_issuer ev) ''F9 issuer'') (\<lambda>issuer.
     res_bind (parse_certificate lib root ''root'') (\<lambda>root_cert.
     res_bind (check_profile lib leaf ''attestation'' now None) (\<lambda>_.
     res_bind (check_profile lib issuer ''F9 issuer'' now (Some 0)) (\<lambda>_.
     let intermediate_count = (if tbs_subject (cert_tbs issuer) \<noteq> tbs_issuer (cert_tbs issuer) then 1 else 0) in
     res_bind (check_profile lib root_cert ''root'' now (Some intermediate_count)) (\<lambda>_.
     if tbs_issuer (cert_tbs root_cert) \<noteq> tbs_subject (cert_tbs root_cert)
     then Err (CertificateError ''root'' ''trust root must be self-issued'')
     else res_bind (verify_signature lib root_cert root_cert ''root'') (\<lambda>_.
     res_bind (verify_signature lib issuer root_cert ''F9 issuer'') (\<lambda>_.
     res_bind (verify_signature lib leaf issuer ''attestation'') (\<lambda>_.
     res_bind (check_bindings lib ev leaf issuer) (\<lambda>_. Ok (sha256 (att_x509 lib) root)))))))))))"

section \<open>The policy\<close>

text \<open>The extension found under an identifier, decoded; \<open>None\<close> when it is malformed.\<close>

definition decoded_extension :: "(byte list \<Rightarrow> 'a option) \<Rightarrow> certificate \<Rightarrow> oid \<Rightarrow> 'a option option" where
  "decoded_extension from_der cert oid = (case extension cert oid of
     None \<Rightarrow> Some None | Some bytes \<Rightarrow> map_option Some (from_der bytes))"

definition ca_allowed :: "nat \<Rightarrow> (bool \<times> nat option) option \<Rightarrow> (bool \<times> bool) option \<Rightarrow> bool" where
  "ca_allowed depth bc ku \<longleftrightarrow> (\<exists>path_len. bc = Some (True, path_len) \<and> (\<forall>limit. path_len = Some limit \<longrightarrow> depth \<le> limit))
     \<and> (\<forall>cert_sign crl_sign. ku = Some (cert_sign, crl_sign) \<longrightarrow> cert_sign)"

definition end_entity :: "(bool \<times> nat option) option \<Rightarrow> (bool \<times> bool) option \<Rightarrow> bool" where
  "end_entity bc ku \<longleftrightarrow> (bc = None \<or> bc = Some (False, None)) \<and> (ku = None \<or> ku = Some (False, False))"

definition cert_allowed :: "attest_lib \<Rightarrow> nat \<Rightarrow> nat option \<Rightarrow> certificate \<Rightarrow> bool" where
  "cert_allowed lib now ca_depth cert \<longleftrightarrow>
     (let tbs = cert_tbs cert; exts = (case tbs_extensions tbs of None \<Rightarrow> [] | Some es \<Rightarrow> es) in
      tbs_version tbs = V3 \<and> tbs_issuer_uid tbs = None \<and> tbs_subject_uid tbs = None
      \<and> cert_algorithm cert = \<lparr>ai_oid = ECDSA_SHA256_OID, ai_parameters = None\<rparr>
      \<and> tbs_signature tbs = cert_algorithm cert
      \<and> unix_seconds (not_before (tbs_validity tbs)) \<le> now \<and> now \<le> unix_seconds (not_after (tbs_validity tbs))
      \<and> distinct (map extn_id exts)
      \<and> (\<forall>e \<in> set exts. critical e \<longrightarrow> extn_id e = BC_OID \<or> extn_id e = KU_OID)
      \<and> (\<exists>bc ku. decoded_extension (basic_constraints lib) cert BC_OID = Some bc
          \<and> decoded_extension (key_usage lib) cert KU_OID = Some ku
          \<and> (case ca_depth of Some depth \<Rightarrow> ca_allowed depth bc ku | None \<Rightarrow> end_entity bc ku)))"

definition signed_by :: "attest_lib \<Rightarrow> certificate \<Rightarrow> certificate \<Rightarrow> bool" where
  "signed_by lib cert issuer \<longleftrightarrow> tbs_issuer (cert_tbs cert) = tbs_subject (cert_tbs issuer)
     \<and> (\<exists>spki key bits signature tbs.
         spki_to_der (att_x509 lib) (tbs_spki (cert_tbs issuer)) = Ok spki \<and> p256_key lib spki = Some key
         \<and> cert_signature cert = Some bits \<and> ecdsa_signature lib bits = Some signature
         \<and> tbs_to_der (att_x509 lib) (cert_tbs cert) = Ok tbs \<and> ecdsa_verify lib key tbs signature)"

definition policy_byte :: "(byte \<times> 'p) list \<Rightarrow> 'p known option \<Rightarrow> byte option" where
  "policy_byte table policy = map_of (map (\<lambda>(b, p). (Some (Known p), b)) table) policy"

definition bound_to_device :: "attest_lib \<Rightarrow> evidence \<Rightarrow> certificate \<Rightarrow> certificate \<Rightarrow> bool" where
  "bound_to_device lib ev leaf issuer \<longleftrightarrow>
     mf_origin (ev_target ev) = Some (Known Generated)
     \<and> (\<exists>key spki. mf_public_key (ev_target ev) = Some key \<and> public_key_spki lib key = Some spki
          \<and> spki_to_der (att_x509 lib) (tbs_spki (cert_tbs leaf)) = Ok spki)
     \<and> (\<exists>key spki. mf_public_key (ev_signer ev) = Some key \<and> public_key_spki lib key = Some spki
          \<and> spki_to_der (att_x509 lib) (tbs_spki (cert_tbs issuer)) = Ok spki)
     \<and> parse_rfc4514 (att_x509 lib) (attestation_subject lib (ev_slot ev)) = Ok (tbs_subject (cert_tbs leaf))
     \<and> extension leaf SERIAL_OID = Some (ev_serial ev)
     \<and> (\<exists>pin touch.
          policy_byte [(1, PinNever), (2, PinOnce), (3, PinAlways)] (mf_pin_policy (ev_target ev)) = Some pin
          \<and> policy_byte [(1, TouchNever), (2, TouchAlways), (3, TouchCached)] (mf_touch_policy (ev_target ev)) = Some touch
          \<and> extension leaf POLICIES_OID = Some [pin, touch])"

definition attestation_policy :: "attest_lib \<Rightarrow> evidence \<Rightarrow> byte list \<Rightarrow> nat \<Rightarrow> bool" where
  "attestation_policy lib ev root now \<longleftrightarrow> (\<exists>leaf issuer root_cert.
     length (ev_certificate ev) \<le> 16384 \<and> cert_from_der (att_x509 lib) (ev_certificate ev) = Ok leaf
     \<and> length (ev_issuer ev) \<le> 16384 \<and> cert_from_der (att_x509 lib) (ev_issuer ev) = Ok issuer
     \<and> length root \<le> 16384 \<and> cert_from_der (att_x509 lib) root = Ok root_cert
     \<and> cert_allowed lib now None leaf \<and> cert_allowed lib now (Some 0) issuer
     \<and> cert_allowed lib now (Some (if tbs_subject (cert_tbs issuer) = tbs_issuer (cert_tbs issuer) then 0 else 1)) root_cert
     \<and> signed_by lib root_cert root_cert \<and> signed_by lib issuer root_cert \<and> signed_by lib leaf issuer
     \<and> bound_to_device lib ev leaf issuer)"

section \<open>The checks decide the policy\<close>

lemma check_extensions_Ok:
  "check_extensions role seen exts = Ok () \<longleftrightarrow>
     distinct (map extn_id exts) \<and> (\<forall>other \<in> set seen. \<forall>e \<in> set exts. extn_id other \<noteq> extn_id e)
     \<and> (\<forall>e \<in> set exts. critical e \<longrightarrow> extn_id e = BC_OID \<or> extn_id e = KU_OID)"
proof (induction exts arbitrary: seen)
  case (Cons e es)
  have "check_extensions role seen (e # es) = Ok () \<longleftrightarrow>
      (\<forall>other \<in> set seen. extn_id other \<noteq> extn_id e)
      \<and> (critical e \<longrightarrow> extn_id e = BC_OID \<or> extn_id e = KU_OID)
      \<and> check_extensions role (seen @ [e]) es = Ok ()"
    by auto
  also have "\<dots> \<longleftrightarrow> (\<forall>other \<in> set seen. extn_id other \<noteq> extn_id e)
      \<and> (critical e \<longrightarrow> extn_id e = BC_OID \<or> extn_id e = KU_OID)
      \<and> distinct (map extn_id es) \<and> (\<forall>other \<in> set (seen @ [e]). \<forall>x \<in> set es. extn_id other \<noteq> extn_id x)
      \<and> (\<forall>x \<in> set es. critical x \<longrightarrow> extn_id x = BC_OID \<or> extn_id x = KU_OID)"
    by (simp only: Cons.IH)
  finally show ?case by fastforce
qed simp

lemma parse_extension_Ok:
  "parse_extension from_der (extension cert oid) e = Ok r \<longleftrightarrow> decoded_extension from_der cert oid = Some r"
  by (auto simp: parse_extension_def decoded_extension_def split: option.splits)

lemma check_ca_Ok: "check_ca role depth bc ku = Ok () \<longleftrightarrow> ca_allowed depth bc ku"
  by (auto simp: check_ca_def ca_allowed_def split: option.splits bool.splits)

lemma check_end_entity_Ok: "check_end_entity role bc ku = Ok () \<longleftrightarrow> end_entity bc ku"
  by (auto simp: check_end_entity_def end_entity_def split: option.splits)

lemma check_profile_Ok: "check_profile lib cert role now ca_depth = Ok () \<longleftrightarrow> cert_allowed lib now ca_depth cert"
proof -
  have ai: "cert_algorithm cert = \<lparr>ai_oid = ECDSA_SHA256_OID, ai_parameters = None\<rparr> \<longleftrightarrow>
      ai_oid (cert_algorithm cert) = ECDSA_SHA256_OID \<and> ai_parameters (cert_algorithm cert) = None"
    by (cases "cert_algorithm cert") auto
  have exts: "(case e of None \<Rightarrow> Ok () | Some exts \<Rightarrow> check_extensions role [] exts) = Ok () \<longleftrightarrow>
      distinct (map extn_id (case e of None \<Rightarrow> [] | Some es \<Rightarrow> es))
      \<and> (\<forall>x \<in> set (case e of None \<Rightarrow> [] | Some es \<Rightarrow> es). critical x \<longrightarrow> extn_id x = BC_OID \<or> extn_id x = KU_OID)" for e
    by (cases e) (auto simp: check_extensions_Ok)
  have final: "(case ca_depth of Some depth \<Rightarrow> check_ca role depth bc ku | None \<Rightarrow> check_end_entity role bc ku) = Ok ()
      \<longleftrightarrow> (case ca_depth of Some depth \<Rightarrow> ca_allowed depth bc ku | None \<Rightarrow> end_entity bc ku)" for bc ku
    by (cases ca_depth) (simp_all add: check_ca_Ok check_end_entity_Ok)
  show ?thesis
    unfolding check_profile_def cert_allowed_def Let_def
    by (auto simp: res_bind_Ok_iff exts parse_extension_Ok final ai)
qed

lemma verify_signature_Ok: "verify_signature lib cert issuer role = Ok () \<longleftrightarrow> signed_by lib cert issuer"
  unfolding verify_signature_def signed_by_def Let_def
  by (auto simp: res_bind_Ok_iff map_err_Ok_iff ok_or_Ok_iff bind_eq_Some_conv)

lemma pin_wire_Ok: "pin_wire p = Ok b \<longleftrightarrow> policy_byte [(1, PinNever), (2, PinOnce), (3, PinAlways)] p = Some b"
  by (auto simp: pin_wire_def policy_byte_def split: option.splits known.splits pin_policy.splits)

lemma touch_wire_Ok: "touch_wire p = Ok b \<longleftrightarrow> policy_byte [(1, TouchNever), (2, TouchAlways), (3, TouchCached)] p = Some b"
  by (auto simp: touch_wire_def policy_byte_def split: option.splits known.splits touch_policy.splits)

lemma metadata_spki_Ok:
  "metadata_spki lib mf = Ok der \<longleftrightarrow> (\<exists>key. mf_public_key mf = Some key \<and> public_key_spki lib key = Some der)"
  by (auto simp: metadata_spki_def res_bind_Ok_iff ok_or_Ok_iff)

lemma check_bindings_Ok: "check_bindings lib ev leaf issuer = Ok () \<longleftrightarrow> bound_to_device lib ev leaf issuer"
  unfolding check_bindings_def bound_to_device_def
  by (auto simp: res_bind_Ok_iff map_err_Ok_iff metadata_spki_Ok pin_wire_Ok touch_wire_Ok)

lemma parse_certificate_Ok:
  "parse_certificate lib bytes role = Ok c \<longleftrightarrow> length bytes \<le> 16384 \<and> cert_from_der (att_x509 lib) bytes = Ok c"
  by (auto simp: parse_certificate_def MAX_CERTIFICATE_BYTES_def map_err_Ok_iff)

lemma signed_by_self: "signed_by lib c c \<Longrightarrow> tbs_issuer (cert_tbs c) = tbs_subject (cert_tbs c)"
  by (simp add: signed_by_def)

section \<open>Properties\<close>

text \<open>C12. Attestation verification accepts exactly the policy: bounded well-formed certificates, each
  within validity, version 3 with matching ECDSA/SHA-256 identifiers, distinct and known critical
  extensions, CA constraints on the signers and none on the leaf, a signature chain that ends in
  the self-signed root, and a leaf bound to the live key, slot, serial and policies.  No other
  evidence is accepted, and the fingerprint is that of the caller's root.\<close>

theorem attestation_verify_iff:
  "verify lib ev root now = Ok fingerprint \<longleftrightarrow>
     attestation_policy lib ev root now \<and> fingerprint = sha256 (att_x509 lib) root"
proof -
  have "verify lib ev root now = Ok fingerprint \<longleftrightarrow> (\<exists>leaf issuer root_cert.
     parse_certificate lib (ev_certificate ev) ''attestation'' = Ok leaf
     \<and> parse_certificate lib (ev_issuer ev) ''F9 issuer'' = Ok issuer
     \<and> parse_certificate lib root ''root'' = Ok root_cert
     \<and> cert_allowed lib now None leaf \<and> cert_allowed lib now (Some 0) issuer
     \<and> cert_allowed lib now (Some (if tbs_subject (cert_tbs issuer) = tbs_issuer (cert_tbs issuer) then 0 else 1)) root_cert
     \<and> tbs_issuer (cert_tbs root_cert) = tbs_subject (cert_tbs root_cert)
     \<and> signed_by lib root_cert root_cert \<and> signed_by lib issuer root_cert \<and> signed_by lib leaf issuer
     \<and> bound_to_device lib ev leaf issuer \<and> fingerprint = sha256 (att_x509 lib) root)"
    unfolding verify_def Let_def
    by (auto simp: res_bind_Ok_iff check_profile_Ok verify_signature_Ok check_bindings_Ok)
  then show ?thesis
    unfolding attestation_policy_def parse_certificate_Ok using signed_by_self by blast
qed

end
