(* ===== verification/Piv.thy ===== *)
theory Piv
  imports PivTypes Attestation
begin

unbundle bit_operations_syntax

text \<open>
  The PIV procedures of \<^verbatim>\<open>crates/ckman-core/src/piv.rs\<close>: typed wrappers over libcanokey
  operations, certificate containers, batch key generation, and certificate and request
  signing.  Every procedure acts on the world through \<open>env_exchange\<close> and \<open>fill_random\<close>.
  The management-key procedures are in theory Pivman.
\<close>

section \<open>Errors and driving\<close>

datatype update_stage = ReplaceKey | UpdateMetadata | StoreProtectedKey | ProtectPuk

datatype 'e piv_error =
    PivDrive "'e drive_error"
  | PivRandom random_error
  | PivManagementKeyUpdate update_stage "'e drive_error"
  | PivX509 x509_error
  | PivAttestation attestation_error
  | PivKey key_error

definition protocol_error :: "error_kind \<Rightarrow> 'e piv_error" where
  "protocol_error k = PivDrive (Protocol (new_error k))"

definition lib_result :: "lib_error + 'a \<Rightarrow> ('w, 'e piv_error, 'a) proc" where
  "lib_result r = lift_res (map_err (\<lambda>e. PivDrive (Protocol e)) r)"

definition run :: "('w, 'e) piv_env \<Rightarrow> lib_error + 't operation \<Rightarrow> ('w, 'e piv_error, 't) proc" where
  "run env operation =
     proc_bind (lib_result operation) (\<lambda>oper. proc_map_err PivDrive (execute oper (env_exchange env)))"

definition run_unit :: "('w, 'e) piv_env \<Rightarrow> lib_error + 't operation \<Rightarrow> ('w, 'e piv_error, unit) proc" where
  "run_unit env operation = proc_bind (run env operation) (\<lambda>_. ret ())"

definition random_bytes :: "('w, 'e) piv_env \<Rightarrow> nat \<Rightarrow> ('w, 'e piv_error, byte list) proc" where
  "random_bytes env n = proc_map_err PivRandom (fill_random env n)"

section \<open>Management keys\<close>

definition DEFAULT_MANAGEMENT_KEY :: "byte list" where
  "DEFAULT_MANAGEMENT_KEY = [1, 2, 3, 4, 5, 6, 7, 8, 1, 2, 3, 4, 5, 6, 7, 8, 1, 2, 3, 4, 5, 6, 7, 8]"

text \<open>\<open>None\<close> is the panic of \<^verbatim>\<open>expect\<close>.\<close>

definition default_management_key :: "('w, 'e) piv_env \<Rightarrow> management_algorithm \<Rightarrow> management_key option" where
  "default_management_key env algorithm =
    (case management_key_from_bytes (host env) algorithm DEFAULT_MANAGEMENT_KEY of
       Ok k \<Rightarrow> Some k | Err _ \<Rightarrow> None)"

definition random_management_key ::
  "('w, 'e) piv_env \<Rightarrow> random_error \<Rightarrow> management_algorithm \<Rightarrow> ('w, random_error, management_key) proc" where
  "random_management_key env custom algorithm =
     proc_bind (fill_random env 24) (\<lambda>bytes.
     lift_res (map_err (\<lambda>_. custom) (management_key_from_bytes (host env) algorithm bytes)))"

definition mutual_auth ::
  "('w, 'e) piv_env \<Rightarrow> random_error \<Rightarrow> management_key \<Rightarrow> ('w, random_error, management_auth) proc" where
  "mutual_auth env custom key =
     proc_bind (fill_random env (block_len (host env) (mk_algorithm key))) (\<lambda>challenge.
     lift_res (map_err (\<lambda>_. custom) (auth_mutual (host env) key challenge)))"

definition external_auth :: "management_key \<Rightarrow> management_auth" where
  "external_auth key = AuthExternal key"

section \<open>PIN and PUK\<close>

definition pin_status where
  "pin_status env profile = run env (lib_get_pin_status (secrets env) profile)"

definition verify_pin where
  "verify_pin env profile pin = run env (lib_verify_pin (secrets env) profile pin)"

definition logout where
  "logout env profile = run env (lib_logout (secrets env) profile)"

definition change_pin where
  "change_pin env profile old new = run_unit env (lib_change_pin (secrets env) profile old new)"

definition change_puk where
  "change_puk env profile old new = run_unit env (lib_change_puk (secrets env) profile old new)"

definition unblock_pin where
  "unblock_pin env profile puk new_pin = run_unit env (lib_unblock_pin (secrets env) profile puk new_pin)"

definition set_retries where
  "set_retries env profile pin_retries puk_retries access =
     run_unit env (lib_reset_retries (secrets env) profile pin_retries puk_retries access)"

section \<open>The management key\<close>

definition pin_managed_key where
  "pin_managed_key env profile pin = run env (lib_pin_managed (secrets env) profile None (AccessPin pin))"

definition random_puk_replacement where
  "random_puk_replacement env = random_bytes env 8"

definition complete_pin_managed_key where
  "complete_pin_managed_key env profile pin =
     proc_bind (random_puk_replacement env) (\<lambda>replacement.
     run env (lib_pin_managed (secrets env) profile (Some replacement) (AccessPin pin)))"

definition authenticate where
  "authenticate env profile auth = run env (lib_authenticate (secrets env) profile auth True)"

definition set_management_key where
  "set_management_key env profile key touch access =
     run_unit env (lib_set_management_key (secrets env) profile key touch False access)"

section \<open>Objects\<close>

definition read_object where
  "read_object env profile oid access = run env (lib_read_object (objects env) profile oid access)"

definition write_object where
  "write_object env profile oid data access = run_unit env (lib_write_object (objects env) profile oid data access)"

definition chuid_value :: "byte list \<Rightarrow> byte list" where
  "chuid_value guid =
     [0x30, 0x19, 0xd4, 0xe7, 0x39, 0xda, 0x73, 0x9c, 0xed, 0x39, 0xce, 0x73, 0x9d, 0x83, 0x68,
      0x58, 0x21, 0x08, 0x42, 0x10, 0x84, 0x21, 0xc8, 0x42, 0x10, 0xc3, 0xeb, 0x34, 0x10]
     @ guid @ [0x35, 0x08] @ lit ''20300101'' @ [0x3e, 0, 0xfe, 0]"

definition set_chuid where
  "set_chuid env profile guid access =
     proc_bind (lib_result (object_id_from_bytes (host env) [0x5f, 0xc1, 0x02])) (\<lambda>oid.
     write_object env profile oid (chuid_value guid) access)"

definition ccc_value :: "byte list \<Rightarrow> byte list" where
  "ccc_value card_id =
     [0xf0, 0x15, 0xa0, 0, 0, 1, 0x16, 0xff, 2] @ card_id
     @ [0xf1, 1, 0x21, 0xf2, 1, 0x21, 0xf3, 0, 0xf4, 1, 0, 0xf5, 1, 0x10, 0xf6, 0, 0xf7, 0, 0xfa,
        0, 0xfb, 0, 0xfc, 0, 0xfd, 0, 0xfe, 0]"

definition set_ccc where
  "set_ccc env profile card_id access =
     proc_bind (lib_result (object_id_from_bytes (host env) [0x5f, 0xc1, 0x07])) (\<lambda>oid.
     write_object env profile oid (ccc_value card_id) access)"

section \<open>Certificates\<close>

datatype certificate_reference = CertKey slot | CertAttestation

text \<open>\<open>None\<close> is the panic of \<^verbatim>\<open>expect("fixed PIV object ID")\<close>.\<close>

definition object_id :: "('w, 'e) piv_env \<Rightarrow> certificate_reference \<Rightarrow> piv_object_id option" where
  "object_id env reference = (case reference of
     CertKey s \<Rightarrow> Some (certificate_object_id (host env) s)
   | CertAttestation \<Rightarrow> (case object_id_from_bytes (host env) [0x5f, 0xff, 1] of Ok oid \<Rightarrow> Some oid | Err _ \<Rightarrow> None))"

definition certificate_slots :: "slot list" where
  "certificate_slots =
     [Authentication, Signature, KeyManagement, CardAuthentication] @ map Retired [1..<21]"

definition from_object_id :: "('w, 'e) piv_env \<Rightarrow> piv_object_id \<Rightarrow> certificate_reference option option" where
  "from_object_id env oid = map_option (\<lambda>attestation.
     if oid = attestation then Some CertAttestation
     else map_option CertKey (find (\<lambda>s. certificate_object_id (host env) s = oid) certificate_slots))
     (object_id env CertAttestation)"

definition check_reference ::
  "('w, 'e) piv_env \<Rightarrow> device_profile \<Rightarrow> certificate_reference \<Rightarrow> ('w, 'e piv_error, unit) proc" where
  "check_reference env profile reference =
    (if reference = CertAttestation then lib_result (require_capability (host env) profile CapAttestation)
     else ret ())"

definition read_certificate where
  "read_certificate env profile s access = run env (lib_read_certificate (objects env) profile s access)"

definition write_certificate where
  "write_certificate env profile s der access =
     run_unit env (lib_write_certificate (objects env) profile s der access)"

definition delete_certificate where
  "delete_certificate env profile s access = run_unit env (lib_delete_certificate (objects env) profile s access)"

definition attestation_certificate where
  "attestation_certificate env profile = run env (lib_read_attestation_certificate (objects env) profile)"

definition read_certificate_object where
  "read_certificate_object env profile reference =
     proc_bind (check_reference env profile reference) (\<lambda>_.
     proc_bind (unwrap (object_id env reference)) (\<lambda>oid. read_object env profile oid AccessNone))"

definition read_certificate_at where
  "read_certificate_at env profile reference = (case reference of
     CertKey s \<Rightarrow> read_certificate env profile s AccessNone
   | CertAttestation \<Rightarrow> attestation_certificate env profile)"

text \<open>The loop over the three container fields.\<close>

fun push_all :: "tlv_lib \<Rightarrow> nat option \<Rightarrow> byte list \<Rightarrow> (byte \<times> byte list) list \<Rightarrow> lib_error + byte list" where
  "push_all lib limit out [] = Ok out"
| "push_all lib limit out ((tag, val) # rest) =
     res_bind (tag_from_bytes lib [tag]) (\<lambda>t.
     res_bind (tlv_push lib limit t val out) (\<lambda>out. push_all lib limit out rest))"

definition write_certificate_at where
  "write_certificate_at env profile reference der access =
     proc_bind (check_reference env profile reference) (\<lambda>_. case reference of
       CertKey s \<Rightarrow> write_certificate env profile s der access
     | CertAttestation \<Rightarrow>
         if der = [] then throw (protocol_error InvalidArgument)
         else proc_bind (lib_result (push_all (tlv env) (Some (max_input_bytes (host env))) []
             [(0x70, der), (0x71, [0]), (0xfe, [])])) (\<lambda>container.
           proc_bind (unwrap (object_id env reference)) (\<lambda>oid.
           write_object env profile oid container access)))"

definition delete_certificate_at where
  "delete_certificate_at env profile reference access =
     proc_bind (check_reference env profile reference) (\<lambda>_. case reference of
       CertKey s \<Rightarrow> delete_certificate env profile s access
     | CertAttestation \<Rightarrow>
         proc_bind (lib_result (require_capability (host env) profile CapCertificateDeletion)) (\<lambda>_.
         proc_bind (unwrap (object_id env reference)) (\<lambda>oid.
         write_object env profile oid [] access)))"

section \<open>Keys\<close>

definition read_metadata where
  "read_metadata env profile reference access = run env (lib_get_metadata (keys env) profile reference access)"

definition generate_key where
  "generate_key env profile parameters access = run env (lib_generate_key (keys env) profile parameters access)"

definition import_key where
  "import_key env profile parameters material access =
     run_unit env (lib_import_key (keys env) profile parameters material access)"

definition delete_key where
  "delete_key env profile s access = run_unit env (lib_delete_key (keys env) profile s access)"

definition move_key where
  "move_key env profile source target access = run_unit env (lib_move_key (keys env) profile source target access)"

definition attest where
  "attest env profile s = run env (lib_attest (keys env) profile s True)"

definition generate_attestation_key where
  "generate_attestation_key env profile parameters access =
     run env (lib_generate_attestation_key (keys env) profile parameters access)"

definition import_attestation_key where
  "import_attestation_key env profile parameters material access =
     run_unit env (lib_import_attestation_key (keys env) profile parameters material access)"

definition attestation_metadata where
  "attestation_metadata env profile = run env (lib_attestation_metadata (keys env) profile)"

definition read_container_name where
  "read_container_name env profile reference =
     proc_bind (run env (lib_read_container_name (objects env) profile reference AccessNone)) (\<lambda>name.
     ret (container_text name))"

definition set_container_name_op where
  "set_container_name_op env profile reference name access =
     proc_bind (lib_result (container_name_from_text (host env) name)) (\<lambda>name.
     run_unit env (lib_set_container_name (objects env) profile reference name access))"

definition select_piv where
  "select_piv env profile = run env (lib_select (secrets env) profile)"

definition sign where
  "sign env profile s algorithm input access = run env (lib_sign (keys env) profile s algorithm input access)"

definition decrypt where
  "decrypt env profile s algorithm ciphertext access =
     run env (lib_decrypt (keys env) profile s algorithm ciphertext access)"

definition derive where
  "derive env profile s algorithm peer access = run env (lib_derive (keys env) profile s algorithm peer access)"

definition decapsulate where
  "decapsulate env profile s ciphertext access = run env (lib_decapsulate (keys env) profile s ciphertext access)"

definition agree_sm2 where
  "agree_sm2 env profile s input access = run env (lib_agree_sm2 (keys env) profile s input access)"

definition random where
  "random env profile n =
     proc_bind (select_piv env profile) (\<lambda>_. run env (lib_random_selected (secrets env) n))"

end
