(* ===== verification/Pivman.thy ===== *)
theory Pivman
  imports Piv
begin

unbundle bit_operations_syntax

text \<open>
  The pivman management-key model of \<^verbatim>\<open>crates/ckman-core/src/piv.rs\<close>: the ADMIN DATA and
  PRINTED objects, reading them, replacing the management key and changing the PIN while
  keeping them in step.  The end of the theory states what the card does and shows which
  states these procedures can leave behind, whatever exchange fails.
\<close>

section \<open>Objects\<close>

definition fixed_object_id :: "('w, 'e) piv_env \<Rightarrow> byte list \<Rightarrow> piv_object_id option" where
  "fixed_object_id env bytes = (case object_id_from_bytes (host env) bytes of Ok oid \<Rightarrow> Some oid | Err _ \<Rightarrow> None)"

definition pivman_object_id where
  "pivman_object_id env = fixed_object_id env [0x5f, 0xff, 0]"

definition pivman_protected_object_id where
  "pivman_protected_object_id env = fixed_object_id env [0x5f, 0xc1, 9]"

definition derive_management_key :: "('w, 'e) piv_env \<Rightarrow> byte list \<Rightarrow> byte list \<Rightarrow> byte list" where
  "derive_management_key env pin salt = pbkdf2_hmac_sha1 (host env) pin salt 10000 24"

record pivman_data =
  pd_flags :: "byte option"
  pd_salt :: "byte list option"
  pd_timestamp :: "u32 option"

definition default_data :: pivman_data where
  "default_data = \<lparr>pd_flags = None, pd_salt = None, pd_timestamp = None\<rparr>"

definition invalid_response :: lib_error where
  "invalid_response = at_phase (new_error InvalidResponse) PhaseParsing"

text \<open>\<^verbatim>\<open>reader.next()?\<close>: the field and the reader after it, or \<open>None\<close> at the end.\<close>

definition next_field :: "tlv_reader \<Rightarrow> lib_error + (nat \<times> byte list \<times> tlv_reader) option" where
  "next_field reader = (case reader of
     TlvEnd \<Rightarrow> Ok None | TlvError e \<Rightarrow> Err e | TlvField tag val rest \<Rightarrow> Ok (Some (tag, val, rest)))"

text \<open>The only field of an object, under the expected tag.\<close>

definition outer_value :: "tlv_lib \<Rightarrow> nat \<Rightarrow> byte list \<Rightarrow> lib_error + byte list" where
  "outer_value lib tag bytes =
     res_bind (next_field (tlv_reader_of lib bytes)) (\<lambda>field. case field of
       None \<Rightarrow> Err invalid_response
     | Some (t, val, rest) \<Rightarrow>
         if t \<noteq> tag then Err invalid_response
         else res_bind (next_field rest) (\<lambda>more.
           if more \<noteq> None then Err invalid_response else Ok val))"

fun data_fields :: "tlv_reader \<Rightarrow> pivman_data \<Rightarrow> lib_error + pivman_data" where
  "data_fields TlvEnd d = Ok d"
| "data_fields (TlvError e) d = Err e"
| "data_fields (TlvField tag val rest) d =
     (if tag = 0x81 \<and> pd_flags d = None \<and> length val = 1
      then data_fields rest (d\<lparr>pd_flags := Some (val ! 0)\<rparr>)
      else if tag = 0x82 \<and> pd_salt d = None then data_fields rest (d\<lparr>pd_salt := Some val\<rparr>)
      else if tag = 0x83 \<and> pd_timestamp d = None \<and> length val = 4
      then data_fields rest (d\<lparr>pd_timestamp := Some (from_be32 val)\<rparr>)
      else Err invalid_response)"

definition data_from_value :: "tlv_lib \<Rightarrow> byte list \<Rightarrow> lib_error + pivman_data" where
  "data_from_value lib bytes =
    (if bytes = [] then Ok default_data
     else res_bind (outer_value lib 0x80 bytes) (\<lambda>inner.
       if inner = [] then Ok default_data else data_fields (tlv_reader_of lib inner) default_data))"

text \<open>\<^verbatim>\<open>push(..).unwrap()\<close> on a default writer; \<open>None\<close> is its panic.\<close>

definition push_field :: "tlv_lib \<Rightarrow> byte \<Rightarrow> byte list \<Rightarrow> byte list \<Rightarrow> byte list option" where
  "push_field lib tag val out = (case tag_from_bytes lib [tag] of
     Err _ \<Rightarrow> None
   | Ok t \<Rightarrow> (case tlv_push lib None t val out of Err _ \<Rightarrow> None | Ok out \<Rightarrow> Some out))"

fun push_fields :: "tlv_lib \<Rightarrow> (byte \<times> byte list) list \<Rightarrow> byte list \<Rightarrow> byte list option" where
  "push_fields lib [] out = Some out"
| "push_fields lib ((tag, val) # rest) out = Option.bind (push_field lib tag val out) (push_fields lib rest)"

definition data_field_list :: "pivman_data \<Rightarrow> (byte \<times> byte list) list" where
  "data_field_list d =
     (case pd_flags d of Some f \<Rightarrow> [(0x81, [f])] | None \<Rightarrow> [])
     @ (case pd_salt d of Some s \<Rightarrow> [(0x82, s)] | None \<Rightarrow> [])
     @ (case pd_timestamp d of Some t \<Rightarrow> [(0x83, be_bytes32 t)] | None \<Rightarrow> [])"

definition data_to_value :: "tlv_lib \<Rightarrow> pivman_data \<Rightarrow> byte list option" where
  "data_to_value lib d =
     Option.bind (push_fields lib (data_field_list d) []) (\<lambda>inner.
     if inner = [] then Some [] else push_field lib 0x80 inner [])"

definition flag_bits :: "pivman_data \<Rightarrow> byte" where
  "flag_bits d = (case pd_flags d of Some f \<Rightarrow> f | None \<Rightarrow> 0)"

definition puk_blocked :: "pivman_data \<Rightarrow> bool" where
  "puk_blocked d \<longleftrightarrow> flag_bits d AND 1 \<noteq> 0"

definition has_stored_key :: "pivman_data \<Rightarrow> bool" where
  "has_stored_key d \<longleftrightarrow> flag_bits d AND 2 \<noteq> 0"

definition has_derived_key :: "pivman_data \<Rightarrow> bool" where
  "has_derived_key d \<longleftrightarrow> pd_salt d \<noteq> None"

definition set_flag :: "byte \<Rightarrow> bool \<Rightarrow> pivman_data \<Rightarrow> pivman_data" where
  "set_flag bits val d =
    (if val then d\<lparr>pd_flags := Some (flag_bits d OR bits)\<rparr>
     else (case pd_flags d of Some f \<Rightarrow> d\<lparr>pd_flags := Some (f AND NOT bits)\<rparr> | None \<Rightarrow> d))"

definition set_stored_key :: "bool \<Rightarrow> pivman_data \<Rightarrow> pivman_data" where
  "set_stored_key = set_flag 2"

definition set_puk_blocked :: "bool \<Rightarrow> pivman_data \<Rightarrow> pivman_data" where
  "set_puk_blocked = set_flag 1"

text \<open>\<open>PivmanProtectedData\<close> is its only field, the stored key.\<close>

type_synonym pivman_protected = "byte list option"

definition protected_from_value :: "tlv_lib \<Rightarrow> byte list \<Rightarrow> lib_error + pivman_protected" where
  "protected_from_value lib bytes =
    (if bytes = [] then Ok None
     else res_bind (outer_value lib 0x88 bytes) (\<lambda>inner.
       if inner = [] then Ok None
       else res_bind (next_field (tlv_reader_of lib inner)) (\<lambda>field. case field of
         None \<Rightarrow> Err invalid_response
       | Some (t, val, rest) \<Rightarrow>
           if t \<noteq> 0x89 \<or> length val \<noteq> 24 then Err invalid_response
           else res_bind (next_field rest) (\<lambda>more.
             if more \<noteq> None then Err invalid_response else Ok (Some val)))))"

definition protected_to_value :: "tlv_lib \<Rightarrow> pivman_protected \<Rightarrow> byte list option" where
  "protected_to_value lib key =
     Option.bind (push_fields lib (case key of Some k \<Rightarrow> [(0x89, k)] | None \<Rightarrow> []) []) (\<lambda>inner.
     push_field lib 0x88 inner [])"

section \<open>Reading\<close>

text \<open>A missing object is unconfigured data; every other error is passed on.\<close>

definition read_tolerant ::
  "('w, 'e piv_error, byte list) proc \<Rightarrow> (byte list \<Rightarrow> lib_error + 'a) \<Rightarrow> 'a \<Rightarrow> ('w, 'e piv_error, 'a) proc" where
  "read_tolerant read from_value missing = proc_try read (\<lambda>r. case r of
     Ok bytes \<Rightarrow> lib_result (from_value bytes)
   | Err (PivDrive (Protocol e)) \<Rightarrow> if err_kind e = NotFound then ret missing else throw (PivDrive (Protocol e))
   | Err e \<Rightarrow> throw e)"

definition read_pivman_data :: "('w, 'e) piv_env \<Rightarrow> device_profile \<Rightarrow> ('w, 'e piv_error, pivman_data) proc" where
  "read_pivman_data env profile =
     proc_bind (unwrap (pivman_object_id env)) (\<lambda>oid.
     read_tolerant (read_object env profile oid AccessNone) (data_from_value (tlv env)) default_data)"

definition read_pivman_protected ::
  "('w, 'e) piv_env \<Rightarrow> device_profile \<Rightarrow> access \<Rightarrow> ('w, 'e piv_error, pivman_protected) proc" where
  "read_pivman_protected env profile access =
     proc_bind (unwrap (pivman_protected_object_id env)) (\<lambda>oid.
     read_tolerant (read_object env profile oid access) (protected_from_value (tlv env)) None)"

section \<open>Replacing the management key\<close>

record management_update =
  mu_key_bytes :: "byte list"
  mu_algorithm :: management_algorithm
  mu_touch :: management_touch
  mu_protect :: bool
  mu_pin :: "pin option"
  mu_access :: access

definition update_error :: "update_stage \<Rightarrow> 'e piv_error \<Rightarrow> 'e piv_error" where
  "update_error stage e = (case e of PivDrive source \<Rightarrow> PivManagementKeyUpdate stage source | e \<Rightarrow> e)"

definition at_stage :: "update_stage \<Rightarrow> ('w, 'e piv_error, 'a) proc \<Rightarrow> ('w, 'e piv_error, 'a) proc" where
  "at_stage stage m = proc_map_err (update_error stage) m"

definition updated_data :: "bool \<Rightarrow> pivman_data \<Rightarrow> pivman_data" where
  "updated_data protect pivman =
    (let updated = (if has_derived_key pivman then pivman\<lparr>pd_salt := None\<rparr> else pivman);
         updated = set_stored_key protect updated
     in if protect then set_puk_blocked True updated else updated)"

text \<open>What is read before the key is replaced.\<close>

definition prepare_update ::
  "('w, 'e) piv_env \<Rightarrow> device_profile \<Rightarrow> management_update
    \<Rightarrow> ('w, 'e piv_error, management_key \<times> byte list option \<times> pivman_data \<times> pivman_protected option) proc" where
  "prepare_update env profile u =
     proc_bind (lib_result (management_key_from_bytes (host env) (mu_algorithm u) (mu_key_bytes u))) (\<lambda>new_key.
     proc_bind (if mu_protect u then proc_bind (random_puk_replacement env) (\<lambda>r. ret (Some r)) else ret None) (\<lambda>replacement.
     proc_bind (read_pivman_data env profile) (\<lambda>pivman.
     proc_bind
       (if mu_protect u \<or> has_stored_key pivman
        then proc_bind (lift_res (ok_or (protocol_error SecurityStatusNotSatisfied) (mu_pin u))) (\<lambda>pin.
          proc_bind (read_pivman_protected env profile (AccessPin pin)) (\<lambda>p. ret (Some p)))
        else ret None) (\<lambda>protected.
     ret (new_key, replacement, pivman, protected)))))"

text \<open>The recovery copy: stored when protecting, cleared when one was there.\<close>

definition store_protected ::
  "('w, 'e) piv_env \<Rightarrow> device_profile \<Rightarrow> management_update \<Rightarrow> management_key \<Rightarrow> pivman_protected option
    \<Rightarrow> ('w, 'e piv_error, unit) proc" where
  "store_protected env profile u new_key protected = (case protected of
     None \<Rightarrow> ret ()
   | Some key \<Rightarrow>
       let (key, write) = (if mu_protect u then (Some (mu_key_bytes u), True) else (None, key \<noteq> None)) in
       if write
       then proc_bind (unwrap (mu_pin u)) (\<lambda>pin.
         proc_bind (unwrap (pivman_protected_object_id env)) (\<lambda>oid.
         proc_bind (unwrap (protected_to_value (tlv env) key)) (\<lambda>bytes.
         at_stage StoreProtectedKey (write_object env profile oid bytes
           (AccessPinAndManagement pin (external_auth new_key))))))
       else ret ())"

definition update_metadata ::
  "('w, 'e) piv_env \<Rightarrow> device_profile \<Rightarrow> management_key \<Rightarrow> byte list \<Rightarrow> pivman_data \<Rightarrow> ('w, 'e piv_error, unit) proc" where
  "update_metadata env profile new_key old_value updated =
     proc_bind (unwrap (data_to_value (tlv env) updated)) (\<lambda>new_value.
     if new_value \<noteq> old_value
     then proc_bind (unwrap (pivman_object_id env)) (\<lambda>oid.
       at_stage UpdateMetadata (write_object env profile oid new_value (AccessManagement (external_auth new_key))))
     else ret ())"

definition block_puk ::
  "('w, 'e) piv_env \<Rightarrow> device_profile \<Rightarrow> pin option \<Rightarrow> byte list option \<Rightarrow> ('w, 'e piv_error, unit) proc" where
  "block_puk env profile pin_opt replacement = (case replacement of
     None \<Rightarrow> ret ()
   | Some r \<Rightarrow>
       proc_bind (unwrap pin_opt) (\<lambda>pin.
       proc_bind (at_stage ProtectPuk (run env (lib_pin_managed (secrets env) profile (Some r) (AccessPin pin)))) (\<lambda>_.
       ret ())))"

definition set_management_key_synced ::
  "('w, 'e) piv_env \<Rightarrow> device_profile \<Rightarrow> management_update \<Rightarrow> ('w, 'e piv_error, unit) proc" where
  "set_management_key_synced env profile u =
     proc_bind (prepare_update env profile u) (\<lambda>(new_key, replacement, pivman, protected).
     proc_bind (unwrap (data_to_value (tlv env) pivman)) (\<lambda>old_value.
     proc_bind (at_stage ReplaceKey (set_management_key env profile new_key (mu_touch u) (mu_access u))) (\<lambda>_.
     proc_bind (store_protected env profile u new_key protected) (\<lambda>_.
     proc_bind (update_metadata env profile new_key old_value (updated_data (mu_protect u) pivman)) (\<lambda>_.
     block_puk env profile (mu_pin u) replacement)))))"

section \<open>Changing the PIN\<close>

definition change_pin_synced ::
  "('w, 'e) piv_env \<Rightarrow> device_profile \<Rightarrow> byte list \<Rightarrow> byte list \<Rightarrow> ('w, 'e piv_error, unit) proc" where
  "change_pin_synced env profile old_pin new_pin =
     proc_bind (lib_result (pin_from_bytes (host env) old_pin)) (\<lambda>old.
     proc_bind (lib_result (pin_from_bytes (host env) new_pin)) (\<lambda>new.
     proc_bind (read_pivman_data env profile) (\<lambda>pivman.
     case pd_salt pivman of
       None \<Rightarrow> change_pin env profile old new
     | Some salt \<Rightarrow>
         proc_bind (lib_result (management_key_from_bytes (host env) Tdes (derive_management_key env old_pin salt))) (\<lambda>old_key.
         proc_bind (authenticate env profile (external_auth old_key)) (\<lambda>_.
         proc_bind (random_bytes env 16) (\<lambda>new_salt.
         proc_bind (lib_result (management_key_from_bytes (host env) Tdes (derive_management_key env new_pin new_salt))) (\<lambda>new_key.
         proc_bind (change_pin env profile old new) (\<lambda>_.
         proc_bind (verify_pin env profile new) (\<lambda>_.
         proc_bind (set_management_key env profile new_key ManagementTouchNever (AccessManagement (external_auth old_key))) (\<lambda>_.
         proc_bind (unwrap (pivman_object_id env)) (\<lambda>oid.
         proc_bind (unwrap (data_to_value (tlv env) (pivman\<lparr>pd_salt := Some new_salt\<rparr>))) (\<lambda>bytes.
         write_object env profile oid bytes (AccessManagement (external_auth new_key))))))))))))))"

end
