(* ===== verification/PivCard.thy ===== *)
theory PivCard
  imports Pivman
begin

text \<open>
  What a PIV card makes of the pivman procedures.  An abstract card (PIN, management key,
  objects, PUK state) and \<open>card_laws\<close>, the documented effect of the card operations the
  procedures use: a reading call changes nothing, a writing call that reports success has
  happened, and one that fails (the response may be lost) has happened or not.  The first part
  is about the two objects alone, under the round trip of the TLV library.
\<close>

section \<open>The objects\<close>

text \<open>\<^verbatim>\<open>canokey::tlv\<close>: reading what the writer produced gives the fields back.\<close>

definition tlv_writer_reader :: "tlv_lib \<Rightarrow> bool" where
  "tlv_writer_reader lib \<longleftrightarrow>
     (\<forall>fs out. set (List.map fst fs) \<subseteq> {0x80, 0x81, 0x82, 0x83, 0x88, 0x89}
        \<longrightarrow> push_fields lib fs [] = Some out
        \<longrightarrow> tlv_reader_of lib out = foldr (\<lambda>(t, v). TlvField (unat t) v) fs TlvEnd
          \<and> (out = [] \<longleftrightarrow> fs = []))"

lemma push_field_single: "push_field lib t v out = push_fields lib [(t, v)] out"
  by (simp split: bind_split)

lemma written_reader:
  assumes "tlv_writer_reader lib" "push_fields lib fs [] = Some out"
    and "set (List.map fst fs) \<subseteq> {0x80, 0x81, 0x82, 0x83, 0x88, 0x89}"
  shows "tlv_reader_of lib out = foldr (\<lambda>(t, v). TlvField (unat t) v) fs TlvEnd" "out = [] \<longleftrightarrow> fs = []"
  using assms by (auto simp: tlv_writer_reader_def)

lemma outer_value_written:
  assumes "tlv_writer_reader lib" "push_field lib t inner [] = Some out" "t \<in> {0x80, 0x88}"
  shows "outer_value lib (unat t) out = Ok inner" "out \<noteq> []"
proof -
  have push: "push_fields lib [(t, inner)] [] = Some out" using assms(2) by (simp only: push_field_single)
  have "set (List.map fst [(t, inner)]) \<subseteq> {0x80, 0x81, 0x82, 0x83, 0x88, 0x89}" using assms(3) by auto
  note reader = written_reader [OF assms(1) push this]
  show "outer_value lib (unat t) out = Ok inner" by (simp add: reader(1) outer_value_def next_field_def)
  show "out \<noteq> []" using reader(2) by simp
qed

lemma data_field_tags: "set (List.map fst (data_field_list d)) \<subseteq> {0x80, 0x81, 0x82, 0x83, 0x88, 0x89}"
  by (auto simp: data_field_list_def split: option.splits)

lemma data_fields_written:
  "data_fields (foldr (\<lambda>(t, v). TlvField (unat t) v) (data_field_list d) TlvEnd) default_data = Ok d"
  by (cases d) (auto simp: data_field_list_def default_data_def split: option.splits)

lemma data_roundtrip:
  assumes "tlv_writer_reader lib" "data_to_value lib d = Some v"
  shows "data_from_value lib v = Ok d"
proof -
  from assms(2) obtain inner where inner: "push_fields lib (data_field_list d) [] = Some inner"
    and v: "(if inner = [] then Some [] else push_field lib 0x80 inner []) = Some v"
    by (auto simp: data_to_value_def bind_eq_Some_conv)
  note reader = written_reader [OF assms(1) inner data_field_tags]
  show ?thesis
  proof (cases "inner = []")
    case True
    with reader(2) have "data_field_list d = []" by simp
    then have "d = default_data"
      by (cases d) (auto simp: data_field_list_def default_data_def split: option.splits)
    with True v show ?thesis by (simp add: data_from_value_def)
  next
    case False
    with v have "push_field lib 0x80 inner [] = Some v" by simp
    from outer_value_written [OF assms(1) this] False reader(1) data_fields_written [of d]
    show ?thesis by (simp add: data_from_value_def)
  qed
qed

lemma protected_roundtrip:
  assumes "tlv_writer_reader lib" "protected_to_value lib key = Some v" "\<forall>k\<in>set_option key. length k = 24"
  shows "protected_from_value lib v = Ok key"
proof -
  let ?fs = "case key of Some k \<Rightarrow> [(0x89, k)] | None \<Rightarrow> []"
  from assms(2) obtain inner where inner: "push_fields lib ?fs [] = Some inner"
    and v: "push_field lib 0x88 inner [] = Some v"
    by (auto simp: protected_to_value_def bind_eq_Some_conv)
  have tags: "set (List.map fst ?fs) \<subseteq> {0x80, 0x81, 0x82, 0x83, 0x88, 0x89}" by (cases key) auto
  note reader = written_reader [OF assms(1) inner tags]
  from outer_value_written [OF assms(1) v] reader assms(3) show ?thesis
    by (cases key) (auto simp: protected_from_value_def next_field_def)
qed

lemma flag_bits_update:
  "flag_bits (set_flag bits val d) = (if val then flag_bits d OR bits else flag_bits d AND NOT bits)"
  "pd_salt (set_flag bits val d) = pd_salt d" "pd_timestamp (set_flag bits val d) = pd_timestamp d"
  by (auto simp: set_flag_def flag_bits_def split: option.split)

text \<open>Concrete TLV: one-byte tags, one-byte lengths below 128.\<close>

function short_reader :: "byte list \<Rightarrow> tlv_reader" where
  "short_reader bs = (case bs of
     [] \<Rightarrow> TlvEnd
   | [t] \<Rightarrow> TlvError (new_error InvalidResponse)
   | t # n # rest \<Rightarrow>
       if n < 0x80 \<and> unat n \<le> length rest
       then TlvField (unat t) (take (unat n) rest) (short_reader (drop (unat n) rest))
       else TlvError (new_error InvalidResponse))"
  by auto
termination by (relation "measure length") auto

declare short_reader.simps [simp del]

definition short_tlv :: tlv_lib where
  "short_tlv = \<lparr>tlv_reader_of = short_reader,
     tag_from_bytes = (\<lambda>bs. case bs of [t] \<Rightarrow> Ok (unat t) | _ \<Rightarrow> Err (new_error InvalidArgument)),
     tlv_push = (\<lambda>limit t v out. if length v < 128 then Ok (out @ [word_of_nat t, word_of_nat (length v)] @ v)
       else Err (new_error InvalidArgument))\<rparr>"

lemma short_push:
  "push_field short_tlv t v out = (if length v < 128 then Some (out @ [t, word_of_nat (length v)] @ v) else None)"
  by (simp add: push_field_def short_tlv_def)

lemma short_push_fields:
  assumes "push_fields short_tlv fs pre = Some out"
  shows "\<exists>body. out = pre @ body \<and> (body = [] \<longleftrightarrow> fs = [])
    \<and> short_reader body = foldr (\<lambda>(t, v). TlvField (unat t) v) fs TlvEnd"
  using assms
proof (induction fs arbitrary: pre)
  case Nil
  then show ?case by (simp add: short_reader.simps)
next
  case (Cons f fs)
  obtain t v where f: "f = (t, v)" by (cases f)
  from Cons.prems f have len: "length v < 128"
    and rest: "push_fields short_tlv fs (pre @ [t, word_of_nat (length v)] @ v) = Some out"
    by (auto simp: short_push split: if_splits)
  from Cons.IH [OF rest] obtain body where out: "out = pre @ [t, word_of_nat (length v)] @ v @ body"
    and body: "short_reader body = foldr (\<lambda>(t, v). TlvField (unat t) v) fs TlvEnd" by auto
  have n: "unat (word_of_nat (length v) :: byte) = length v"
    using len by (simp add: unat_of_nat)
  then have "(word_of_nat (length v) :: byte) < 0x80" using len by (simp add: word_less_nat_alt)
  with n body f have "short_reader (t # word_of_nat (length v) # v @ body)
      = foldr (\<lambda>(t, v). TlvField (unat t) v) (f # fs) TlvEnd"
    by (subst short_reader.simps) simp
  with out show ?case by (intro exI [of _ "t # word_of_nat (length v) # v @ body"]) simp
qed

lemma short_tlv_writer_reader: "tlv_writer_reader short_tlv"
proof -
  have "tlv_reader_of short_tlv = short_reader" by (simp add: short_tlv_def)
  then show ?thesis unfolding tlv_writer_reader_def
    using short_push_fields [of _ "[]"] by auto
qed

section \<open>The card\<close>

record piv_card =
  card_pin :: "byte list"
  card_key :: management_key
  card_objects :: "piv_object_id \<Rightarrow> byte list option"
  card_puk_blocked :: bool

text \<open>Writing an empty value deletes the object.\<close>

definition put_object :: "piv_object_id \<Rightarrow> byte list \<Rightarrow> piv_card \<Rightarrow> piv_card" where
  "put_object oid v c = c\<lparr>card_objects := (card_objects c)(oid := if v = [] then None else Some v)\<rparr>"

definition put_key :: "management_key \<Rightarrow> piv_card \<Rightarrow> piv_card" where
  "put_key k c = c\<lparr>card_key := k\<rparr>"

definition put_pin :: "pin \<Rightarrow> piv_card \<Rightarrow> piv_card" where
  "put_pin p c = c\<lparr>card_pin := pin_bytes p\<rparr>"

definition block_card_puk :: "piv_card \<Rightarrow> piv_card" where
  "block_card_puk c = c\<lparr>card_puk_blocked := True\<rparr>"

text \<open>A call that changes nothing, and a call with one effect, which a failure may have hidden.\<close>

definition keeps :: "('w \<Rightarrow> piv_card) \<Rightarrow> ('w, 'e, 'a) proc \<Rightarrow> bool" where
  "keeps view m \<longleftrightarrow> (\<forall>s. wp m (\<lambda>_ s'. view s' = view s) s)"

definition updates :: "('w \<Rightarrow> piv_card) \<Rightarrow> (piv_card \<Rightarrow> piv_card) \<Rightarrow> ('w, 'e, 'a) proc \<Rightarrow> bool" where
  "updates view f m \<longleftrightarrow> (\<forall>s. wp m (\<lambda>r s'. case r of
     Ok _ \<Rightarrow> view s' = f (view s) | Err _ \<Rightarrow> view s' = view s \<or> view s' = f (view s)) s)"

definition read_result :: "byte list option \<Rightarrow> 'e piv_error + byte list \<Rightarrow> bool" where
  "read_result object r = (case r of
     Ok v \<Rightarrow> object = Some v
   | Err (PivDrive (Protocol e)) \<Rightarrow> err_kind e = NotFound \<longrightarrow> object = None
   | Err _ \<Rightarrow> True)"

definition card_laws :: "('w, 'e) piv_env \<Rightarrow> device_profile \<Rightarrow> ('w \<Rightarrow> piv_card) \<Rightarrow> bool" where
  "card_laws env profile view \<longleftrightarrow>
     (\<forall>n. keeps view (fill_random env n))
   \<and> (\<forall>n s. wp (fill_random env n) (\<lambda>r _. \<forall>bs. r = Ok bs \<longrightarrow> length bs = n) s)
   \<and> (\<forall>oid access. keeps view (read_object env profile oid access))
   \<and> (\<forall>oid access s. wp (read_object env profile oid access) (\<lambda>r _. read_result (card_objects (view s) oid) r) s)
   \<and> (\<forall>pin. keeps view (verify_pin env profile pin))
   \<and> (\<forall>auth. keeps view (authenticate env profile auth))
   \<and> (\<forall>oid v access. updates view (put_object oid v) (write_object env profile oid v access))
   \<and> (\<forall>k touch access. updates view (put_key k) (set_management_key env profile k touch access))
   \<and> (\<forall>old new. updates view (put_pin new) (change_pin env profile old new))
   \<and> (\<forall>r access. updates view block_card_puk (run env (lib_pin_managed (secrets env) profile (Some r) access)))"

lemma keeps_wp: "keeps view m \<Longrightarrow> (\<And>r s'. view s' = view s \<Longrightarrow> Q r s') \<Longrightarrow> wp m Q s"
  by (auto simp: keeps_def intro: wp_mono)

lemma updates_wp:
  assumes "updates view f m" and "\<And>x s'. view s' = f (view s) \<Longrightarrow> Q (Ok x) s'"
    and "\<And>e s'. view s' = view s \<or> view s' = f (view s) \<Longrightarrow> Q (Err e) s'"
  shows "wp m Q s"
  by (rule wp_mono [OF assms(1) [unfolded updates_def, THEN spec, of s]])
    (use assms(2,3) in \<open>auto split: sum.splits\<close>)

lemma wp_conj: "wp m P s \<Longrightarrow> wp m Q s \<Longrightarrow> wp m (\<lambda>r s'. P r s' \<and> Q r s') s"
  by (simp add: wp_def)

lemma card_lawsD:
  assumes "card_laws env profile view"
  shows "keeps view (fill_random env n)" "keeps view (read_object env profile oid access)"
    "wp (read_object env profile oid access) (\<lambda>r _. read_result (card_objects (view s) oid) r) s"
    "keeps view (verify_pin env profile pin)" "keeps view (authenticate env profile auth)"
    "updates view (put_object oid v) (write_object env profile oid v access)"
    "updates view (put_key k) (set_management_key env profile k touch access)"
    "updates view (put_pin new) (change_pin env profile old new)"
    "updates view block_card_puk (run env (lib_pin_managed (secrets env) profile (Some r) access))"
    "wp (fill_random env n) (\<lambda>r _. \<forall>bs. r = Ok bs \<longrightarrow> length bs = n) s"
  using assms unfolding card_laws_def by blast+

lemma keeps_random: "card_laws env profile view \<Longrightarrow> keeps view (random_bytes env n)"
  using card_lawsD(1) [of env profile view n] by (simp add: keeps_def random_bytes_def wp_map_err)

text \<open>The calls that drive an operation fail with a drive error only.\<close>

definition drive_errors :: "('w, 'e piv_error, 'a) proc \<Rightarrow> bool" where
  "drive_errors m \<longleftrightarrow> (\<forall>s. wp m (\<lambda>r _. case r of Ok _ \<Rightarrow> True | Err e \<Rightarrow> \<exists>d. e = PivDrive d) s)"

lemma drive_errors_run: "drive_errors (run env oper)" "drive_errors (run_unit env oper)"
  by (auto simp: drive_errors_def run_def run_unit_def lib_result_def proc_wp wp_def [of "execute _ _"]
      map_err_Err_iff split: sum.splits)

lemma drive_errors_calls:
  "drive_errors (set_management_key env profile k touch access)"
  "drive_errors (write_object env profile oid v access)"
  "drive_errors (read_object env profile oid access)"
  "drive_errors (change_pin env profile old new)"
  by (simp_all add: set_management_key_def write_object_def read_object_def change_pin_def drive_errors_run)

section \<open>The steps of a replacement\<close>

text \<open>
  The specification: a replacement is a list of single card updates, each with the stage that a
  failure in it reports.  A run performs them in order; on failure the ones before the reported
  stage are done, its own may be, and no later one is.
\<close>

type_synonym card_step = "update_stage \<times> (piv_card \<Rightarrow> piv_card)"

definition card_after :: "card_step list \<Rightarrow> piv_card \<Rightarrow> piv_card" where
  "card_after steps c = fold snd steps c"

definition stopped_at :: "card_step list \<Rightarrow> update_stage \<Rightarrow> piv_card \<Rightarrow> piv_card \<Rightarrow> bool" where
  "stopped_at steps stage c c' \<longleftrightarrow>
     (\<exists>i < length steps. fst (steps ! i) = stage
        \<and> (c' = card_after (take i steps) c \<or> c' = card_after (take (Suc i) steps) c))"

definition run_outcome :: "card_step list \<Rightarrow> piv_card \<Rightarrow> 'e piv_error + 'a \<Rightarrow> piv_card \<Rightarrow> bool" where
  "run_outcome steps c r c' = (case r of
     Ok _ \<Rightarrow> c' = card_after steps c
   | Err (PivManagementKeyUpdate stage _) \<Rightarrow> stopped_at steps stage c c'
   | Err _ \<Rightarrow> c' = c)"

text \<open>Once the steps have begun, every error is a staged one.\<close>

definition staged :: "('w \<Rightarrow> piv_card) \<Rightarrow> card_step list \<Rightarrow> ('w, 'e piv_error, 'a) proc \<Rightarrow> bool" where
  "staged view steps m \<longleftrightarrow> (\<forall>s. wp m (\<lambda>r s'. run_outcome steps (view s) r (view s')
     \<and> (\<forall>e. r = Err e \<longrightarrow> (\<exists>stage d. e = PivManagementKeyUpdate stage d))) s)"

lemma card_after_simps [simp]: "card_after [] c = c" "card_after (f # fs) c = card_after fs (snd f c)"
  by (simp_all add: card_after_def)

lemma card_after_append [simp]: "card_after (fs @ gs) c = card_after gs (card_after fs c)"
  by (simp add: card_after_def)

lemma stopped_at_append:
  "stopped_at fs stage c c' \<Longrightarrow> stopped_at (fs @ gs) stage c c'"
  "stopped_at gs stage (card_after fs c) c' \<Longrightarrow> stopped_at (fs @ gs) stage c c'"
proof -
  assume "stopped_at fs stage c c'"
  then obtain i where "i < length fs" "fst (fs ! i) = stage"
    "c' = card_after (take i fs) c \<or> c' = card_after (take (Suc i) fs) c"
    unfolding stopped_at_def by blast
  then show "stopped_at (fs @ gs) stage c c'"
    unfolding stopped_at_def by (intro exI [of _ i]) (simp add: nth_append)
next
  assume "stopped_at gs stage (card_after fs c) c'"
  then obtain i where "i < length gs" "fst (gs ! i) = stage"
    "c' = card_after (take i gs) (card_after fs c) \<or> c' = card_after (take (Suc i) gs) (card_after fs c)"
    unfolding stopped_at_def by blast
  then show "stopped_at (fs @ gs) stage c c'"
    unfolding stopped_at_def by (intro exI [of _ "length fs + i"]) (simp add: nth_append)
qed

lemma run_outcome_append:
  "run_outcome fs c (Err e) c' \<Longrightarrow> e = PivManagementKeyUpdate stage d \<Longrightarrow> run_outcome (fs @ gs) c (Err e) c'"
  "run_outcome gs (card_after fs c) r c' \<Longrightarrow> r = Ok x \<or> r = Err (PivManagementKeyUpdate stage d)
     \<Longrightarrow> run_outcome (fs @ gs) c r c'"
  by (auto simp: run_outcome_def intro: stopped_at_append)

lemma staged_ret: "staged view [] (ret x)"
  by (simp add: staged_def proc_wp run_outcome_def)

lemma staged_unwrap: "(\<And>x. v = Some x \<Longrightarrow> staged view steps (k x)) \<Longrightarrow> staged view steps (proc_bind (unwrap v) k)"
  by (auto simp: staged_def proc_wp)

lemma staged_bind:
  fixes m :: "('w, 'e piv_error, 'a) proc" and k :: "'a \<Rightarrow> ('w, 'e piv_error, 'b) proc"
  assumes "staged view fs m" and "\<And>x. staged view gs (k x)"
  shows "staged view (fs @ gs) (proc_bind m k)"
  unfolding staged_def wp_bind
proof
  fix s
  let ?Q = "\<lambda>(r :: 'e piv_error + 'b) s'. run_outcome (fs @ gs) (view s) r (view s')
     \<and> (\<forall>e. r = Err e \<longrightarrow> (\<exists>stage d. e = PivManagementKeyUpdate stage d))"
  show "wp m (\<lambda>r s'. case r of Err e \<Rightarrow> ?Q (Err e) s' | Ok x \<Rightarrow> wp (k x) ?Q s') s"
  proof (rule wp_mono [OF assms(1) [unfolded staged_def, THEN spec, of s]])
    fix r :: "'e piv_error + 'a" and s'
    assume r: "run_outcome fs (view s) r (view s')
      \<and> (\<forall>e. r = Err e \<longrightarrow> (\<exists>stage d. e = PivManagementKeyUpdate stage d))"
    show "case r of Err e \<Rightarrow> ?Q (Err e) s' | Ok x \<Rightarrow> wp (k x) ?Q s'"
    proof (cases r)
      case (Inl e)
      with r show ?thesis by (auto intro: run_outcome_append(1))
    next
      case (Inr x)
      with r have c: "view s' = card_after fs (view s)" by (simp add: run_outcome_def)
      have "wp (k x) ?Q s'"
      proof (rule wp_mono [OF assms(2) [unfolded staged_def, THEN spec, of x s']])
        fix r' :: "'e piv_error + 'b" and t
        assume "run_outcome gs (view s') r' (view t)
          \<and> (\<forall>e. r' = Err e \<longrightarrow> (\<exists>stage d. e = PivManagementKeyUpdate stage d))"
        with c show "?Q r' t"
          by (cases r') (auto intro: run_outcome_append(2))
      qed
      with Inr show ?thesis by simp
    qed
  qed
qed

lemma staged_update:
  assumes "updates view f m" "drive_errors m"
  shows "staged view [(stage, f)] (at_stage stage m)"
  unfolding staged_def at_stage_def wp_map_err
proof
  fix s
  show "wp m (\<lambda>r s'. run_outcome [(stage, f)] (view s) (map_err (update_error stage) r) (view s')
     \<and> (\<forall>e. map_err (update_error stage) r = Err e \<longrightarrow> (\<exists>stage d. e = PivManagementKeyUpdate stage d))) s"
    by (rule wp_mono [OF wp_conj [OF assms(1) [unfolded updates_def, THEN spec, of s]
            assms(2) [unfolded drive_errors_def, THEN spec, of s]]])
      (auto simp: update_error_def stopped_at_def run_outcome_def split: sum.splits)
qed

definition admin_data :: "('w, 'e) piv_env \<Rightarrow> piv_card \<Rightarrow> lib_error + pivman_data" where
  "admin_data env c = (case Option.bind (pivman_object_id env) (card_objects c) of
     None \<Rightarrow> Ok default_data | Some v \<Rightarrow> data_from_value (tlv env) v)"

definition printed_key :: "('w, 'e) piv_env \<Rightarrow> piv_card \<Rightarrow> lib_error + pivman_protected" where
  "printed_key env c = (case Option.bind (pivman_protected_object_id env) (card_objects c) of
     None \<Rightarrow> Ok None | Some v \<Rightarrow> protected_from_value (tlv env) v)"

definition printed_step :: "('w, 'e) piv_env \<Rightarrow> pivman_protected \<Rightarrow> card_step" where
  "printed_step env key = (StoreProtectedKey,
     put_object (the (pivman_protected_object_id env)) (the (protected_to_value (tlv env) key)))"

definition admin_step :: "('w, 'e) piv_env \<Rightarrow> pivman_data \<Rightarrow> card_step" where
  "admin_step env d = (UpdateMetadata,
     put_object (the (pivman_object_id env)) (the (data_to_value (tlv env) d)))"

definition protected_steps :: "('w, 'e) piv_env \<Rightarrow> management_update \<Rightarrow> pivman_data \<Rightarrow> pivman_protected \<Rightarrow> card_step list" where
  "protected_steps env u d stored =
    (if mu_protect u then [printed_step env (Some (mu_key_bytes u))]
     else if has_stored_key d \<and> stored \<noteq> None then [printed_step env None] else [])"

definition metadata_steps :: "('w, 'e) piv_env \<Rightarrow> pivman_data \<Rightarrow> pivman_data \<Rightarrow> card_step list" where
  "metadata_steps env old new =
    (if data_to_value (tlv env) new \<noteq> data_to_value (tlv env) old then [admin_step env new] else [])"

text \<open>The order is the point: the key, then its recovery copy, then the flag that announces it, then the
  PUK that could bypass it.\<close>

definition replacement_steps ::
  "('w, 'e) piv_env \<Rightarrow> management_update \<Rightarrow> management_key \<Rightarrow> pivman_data \<Rightarrow> pivman_protected \<Rightarrow> card_step list" where
  "replacement_steps env u key d stored =
     (ReplaceKey, put_key key) # protected_steps env u d stored
     @ metadata_steps env d (updated_data (mu_protect u) d)
     @ (if mu_protect u then [(ProtectPuk, block_card_puk)] else [])"

lemma store_protected_staged:
  assumes "card_laws env profile view"
    and "protected = (if mu_protect u \<or> has_stored_key d then Some stored else None)"
  shows "staged view (protected_steps env u d stored) (store_protected env profile u key protected)"
proof -
  have writes: "staged view [printed_step env k]
      (proc_bind (unwrap (mu_pin u)) (\<lambda>pin. proc_bind (unwrap (pivman_protected_object_id env)) (\<lambda>oid.
         proc_bind (unwrap (protected_to_value (tlv env) k)) (\<lambda>bytes.
         at_stage StoreProtectedKey (write_object env profile oid bytes (AccessPinAndManagement pin (external_auth key)))))))" for k
    by (intro staged_unwrap)
      (simp add: printed_step_def staged_update card_lawsD [OF assms(1)] drive_errors_calls)
  show ?thesis
    using writes staged_ret [of view "()"]
    by (auto simp: assms(2) store_protected_def protected_steps_def)
qed

lemma update_metadata_staged:
  assumes "card_laws env profile view" "data_to_value (tlv env) d = Some old_value"
  shows "staged view (metadata_steps env d new) (update_metadata env profile key old_value new)"
proof -
  have writes: "staged view [admin_step env new]
      (proc_bind (unwrap (pivman_object_id env)) (\<lambda>oid. at_stage UpdateMetadata
         (write_object env profile oid bytes (AccessManagement (external_auth key)))))"
    if "data_to_value (tlv env) new = Some bytes" for bytes
    by (intro staged_unwrap)
      (simp add: that admin_step_def staged_update card_lawsD [OF assms(1)] drive_errors_calls)
  show ?thesis unfolding update_metadata_def
    by (rule staged_unwrap) (auto simp: metadata_steps_def assms(2) writes staged_ret)
qed

lemma block_puk_staged:
  assumes "card_laws env profile view"
  shows "staged view (if replacement = None then [] else [(ProtectPuk, block_card_puk)])
    (block_puk env profile pin_opt replacement)"
proof (cases replacement)
  case None
  then show ?thesis by (simp add: block_puk_def staged_ret)
next
  case (Some r)
  have "staged view ([(ProtectPuk, block_card_puk)] @ [])
    (proc_bind (at_stage ProtectPuk (run env (lib_pin_managed (secrets env) profile (Some r) (AccessPin pin)))) (\<lambda>_. ret ()))" for pin
    by (intro staged_bind staged_update staged_ret card_lawsD [OF assms] drive_errors_run)
  with Some show ?thesis by (simp add: block_puk_def staged_unwrap)
qed

lemma replacement_staged:
  assumes "card_laws env profile view" "data_to_value (tlv env) d = Some old_value"
    and "protected = (if mu_protect u \<or> has_stored_key d then Some stored else None)"
    and "replacement \<noteq> None \<longleftrightarrow> mu_protect u"
  shows "staged view (replacement_steps env u key d stored)
    (proc_bind (at_stage ReplaceKey (set_management_key env profile key (mu_touch u) (mu_access u))) (\<lambda>_.
     proc_bind (store_protected env profile u key protected) (\<lambda>_.
     proc_bind (update_metadata env profile key old_value (updated_data (mu_protect u) d)) (\<lambda>_.
     block_puk env profile (mu_pin u) replacement))))"
proof -
  have eq: "replacement_steps env u key d stored = [(ReplaceKey, put_key key)] @ protected_steps env u d stored
     @ metadata_steps env d (updated_data (mu_protect u) d)
     @ (if replacement = None then [] else [(ProtectPuk, block_card_puk)])"
    using assms(4) by (auto simp: replacement_steps_def)
  show ?thesis unfolding eq
    by (intro staged_bind staged_update card_lawsD [OF assms(1)] drive_errors_calls
        store_protected_staged [OF assms(1,3)] update_metadata_staged [OF assms(1,2)] block_puk_staged [OF assms(1)])
qed

text \<open>What is read first.\<close>

lemma read_tolerant_wp:
  assumes "card_laws env profile view"
  shows "wp (read_tolerant (read_object env profile oid access) from_value missing)
    (\<lambda>r s'. view s' = view s \<and> (\<forall>x. r = Ok x \<longrightarrow>
       (case card_objects (view s) oid of None \<Rightarrow> x = missing | Some v \<Rightarrow> from_value v = Ok x))
     \<and> (\<forall>e. r = Err e \<longrightarrow> (\<exists>d. e = PivDrive d))) s"
proof -
  have keeps: "wp (read_object env profile oid access) (\<lambda>_ s'. view s' = view s) s"
    using card_lawsD(2) [OF assms, of oid access] by (simp add: keeps_def)
  have drive: "wp (read_object env profile oid access)
      (\<lambda>r _. case r of Ok _ \<Rightarrow> True | Err e \<Rightarrow> \<exists>d. e = PivDrive d) s"
    using drive_errors_calls(3) [of env profile oid access] by (simp add: drive_errors_def)
  show ?thesis unfolding read_tolerant_def wp_try
    by (rule wp_mono [OF wp_conj [OF keeps wp_conj [OF card_lawsD(3) [OF assms] drive]]])
      (auto simp: read_result_def proc_wp lib_result_def map_err_Ok_iff map_err_Err_iff
        split: sum.splits drive_error.splits option.splits)
qed

definition prepared :: "('w, 'e) piv_env \<Rightarrow> management_update \<Rightarrow> piv_card
    \<Rightarrow> management_key \<times> byte list option \<times> pivman_data \<times> pivman_protected option \<Rightarrow> bool" where
  "prepared env u c = (\<lambda>(key, replacement, d, protected).
     management_key_from_bytes (host env) (mu_algorithm u) (mu_key_bytes u) = Ok key
     \<and> (replacement \<noteq> None \<longleftrightarrow> mu_protect u) \<and> admin_data env c = Ok d
     \<and> (\<exists>stored. protected = (if mu_protect u \<or> has_stored_key d then Some stored else None)
          \<and> (mu_protect u \<or> has_stored_key d \<longrightarrow> printed_key env c = Ok stored)))"

definition unstaged :: "'e piv_error + 'a \<Rightarrow> bool" where
  "unstaged r \<longleftrightarrow> (\<exists>e. r = Err e \<and> (\<forall>stage d. e \<noteq> PivManagementKeyUpdate stage d))"

lemma unstaged_simps [simp]:
  "unstaged (Err (PivDrive d))" "unstaged (Err (PivRandom e'))" "\<not> unstaged (Ok x)"
  "unstaged (Err (protocol_error k))"
  by (simp_all add: unstaged_def protocol_error_def)

lemma unstaged_Err: "unstaged (Err e :: 'e piv_error + 'a) \<Longrightarrow> unstaged (Err e :: 'e piv_error + 'b)"
  by (simp add: unstaged_def)

text \<open>One step of a reading prefix: an error is unstaged, and nothing has changed so far.\<close>

definition reads :: "('w \<Rightarrow> piv_card) \<Rightarrow> (piv_card \<Rightarrow> 'a \<Rightarrow> bool) \<Rightarrow> ('w, 'e piv_error, 'a) proc \<Rightarrow> bool" where
  "reads view P m \<longleftrightarrow> (\<forall>s. wp m (\<lambda>r s'. view s' = view s
     \<and> (case r of Ok x \<Rightarrow> P (view s) x | Err e \<Rightarrow> unstaged r)) s)"

lemma reads_bind:
  fixes m :: "('w, 'e piv_error, 'a) proc" and k :: "'a \<Rightarrow> ('w, 'e piv_error, 'b) proc"
  assumes "reads view P m" and "\<And>x. reads view (\<lambda>c y. P c x \<longrightarrow> Q c y) (k x)"
  shows "reads view Q (proc_bind m k)"
  unfolding reads_def wp_bind
proof
  fix s
  let ?G = "\<lambda>(r :: 'e piv_error + 'b) s'. view s' = view s \<and> (case r of Ok x \<Rightarrow> Q (view s) x | Err e \<Rightarrow> unstaged r)"
  show "wp m (\<lambda>r s'. case r of Err e \<Rightarrow> ?G (Err e) s' | Ok x \<Rightarrow> wp (k x) ?G s') s"
  proof (rule wp_mono [OF assms(1) [unfolded reads_def, THEN spec, of s]])
    fix r :: "'e piv_error + 'a" and s'
    assume r: "view s' = view s \<and> (case r of Ok x \<Rightarrow> P (view s) x | Err e \<Rightarrow> unstaged r)"
    show "case r of Err e \<Rightarrow> ?G (Err e) s' | Ok x \<Rightarrow> wp (k x) ?G s'"
    proof (cases r)
      case (Inl e)
      with r show ?thesis by (auto intro: unstaged_Err)
    next
      case (Inr x)
      have "wp (k x) ?G s'"
        by (rule wp_mono [OF assms(2) [unfolded reads_def, THEN spec, of x s']])
          (use r Inr in \<open>auto split: sum.splits\<close>)
      with Inr show ?thesis by simp
    qed
  qed
qed

lemma reads_ret: "(\<And>c. P c x) \<Longrightarrow> reads view P (ret x)"
  by (simp add: reads_def proc_wp)

lemma reads_lib: "reads view (\<lambda>_ x. res = Ok x) (lib_result res)"
  by (cases res) (simp_all add: reads_def lib_result_def proc_wp)

lemma reads_random: "card_laws env profile view \<Longrightarrow> reads view (\<lambda>_ bs. length bs = n) (random_bytes env n)"
  unfolding reads_def random_bytes_def wp_map_err
  by (intro allI wp_mono [OF wp_conj [OF card_lawsD(1) [unfolded keeps_def, THEN spec] card_lawsD(10)]])
    (auto split: sum.splits simp: map_err_Err_iff map_err_Ok_iff)

lemma reads_unwrap:
  assumes "\<And>x. v = Some x \<Longrightarrow> reads view P (k x)"
  shows "reads view P (proc_bind (unwrap v) k)"
  using assms by (auto simp: reads_def proc_wp)

lemma reads_mono: "reads view P m \<Longrightarrow> (\<And>c x. P c x \<Longrightarrow> Q c x) \<Longrightarrow> reads view Q m"
  unfolding reads_def by (fastforce elim!: wp_mono split: sum.splits)

lemma reads_admin:
  assumes "card_laws env profile view"
  shows "reads view (\<lambda>c d. admin_data env c = Ok d) (read_pivman_data env profile)"
  unfolding read_pivman_data_def
proof (rule reads_unwrap)
  fix oid assume oid: "pivman_object_id env = Some oid"
  show "reads view (\<lambda>c d. admin_data env c = Ok d)
     (read_tolerant (read_object env profile oid AccessNone) (data_from_value (tlv env)) default_data)"
    unfolding reads_def
    by (intro allI wp_mono [OF read_tolerant_wp [OF assms]])
      (auto simp: admin_data_def oid split: sum.splits option.splits)
qed

lemma reads_printed:
  assumes "card_laws env profile view"
  shows "reads view (\<lambda>c key. printed_key env c = Ok key) (read_pivman_protected env profile access)"
  unfolding read_pivman_protected_def
proof (rule reads_unwrap)
  fix oid assume oid: "pivman_protected_object_id env = Some oid"
  show "reads view (\<lambda>c key. printed_key env c = Ok key)
     (read_tolerant (read_object env profile oid access) (protected_from_value (tlv env)) None)"
    unfolding reads_def
    by (intro allI wp_mono [OF read_tolerant_wp [OF assms]])
      (auto simp: printed_key_def oid split: sum.splits option.splits)
qed

lemma reads_replacement:
  assumes "card_laws env profile view"
  shows "reads view (\<lambda>_ r. r \<noteq> None \<longleftrightarrow> protect)
    (if protect then proc_bind (random_puk_replacement env) (\<lambda>r. ret (Some r)) else ret None)"
  using reads_bind [OF reads_random [OF assms, of 8], of "\<lambda>_ r. r \<noteq> None" "\<lambda>r. ret (Some r)"]
  by (simp add: random_puk_replacement_def reads_ret)

lemma reads_protected:
  assumes "card_laws env profile view"
  shows "reads view (\<lambda>c p. \<exists>stored. p = (if wanted then Some stored else None)
       \<and> (wanted \<longrightarrow> printed_key env c = Ok stored))
    (if wanted
     then proc_bind (lift_res (ok_or (protocol_error SecurityStatusNotSatisfied) pin_opt)) (\<lambda>pin.
       proc_bind (read_pivman_protected env profile (AccessPin pin)) (\<lambda>p. ret (Some p)))
     else ret None)"
proof (cases wanted)
  case True
  have "reads view (\<lambda>c p. \<exists>stored. p = Some stored \<and> printed_key env c = Ok stored)
      (proc_bind (lift_res (ok_or (protocol_error SecurityStatusNotSatisfied) pin_opt)) (\<lambda>pin.
       proc_bind (read_pivman_protected env profile (AccessPin pin)) (\<lambda>p. ret (Some p))))"
  proof (rule reads_bind [where P = "\<lambda>_ _. True"])
    show "reads view (\<lambda>_ _. True) (lift_res (ok_or (protocol_error SecurityStatusNotSatisfied) pin_opt))"
      by (cases pin_opt) (simp_all add: reads_def proc_wp)
    show "reads view (\<lambda>c p. True \<longrightarrow> (\<exists>stored. p = Some stored \<and> printed_key env c = Ok stored))
      (proc_bind (read_pivman_protected env profile (AccessPin pin)) (\<lambda>p. ret (Some p)))" for pin
      by (rule reads_bind [OF reads_printed [OF assms]]) (simp add: reads_ret)
  qed
  with True show ?thesis by simp
next
  case False
  then show ?thesis by (simp add: reads_ret)
qed

lemma prepare_reads:
  assumes "card_laws env profile view"
  shows "reads view (prepared env u) (prepare_update env profile u)"
  unfolding prepare_update_def
  by (rule reads_bind [OF reads_lib], rule reads_mono, rule reads_bind [OF reads_replacement [OF assms]],
      rule reads_mono, rule reads_bind [OF reads_admin [OF assms]], rule reads_mono,
      rule reads_bind [OF reads_protected [OF assms]], rule reads_ret)
    (auto simp: prepared_def)

definition synced_outcome ::
  "('w, 'e) piv_env \<Rightarrow> management_update \<Rightarrow> piv_card \<Rightarrow> 'e piv_error + unit \<Rightarrow> piv_card \<Rightarrow> bool" where
  "synced_outcome env u c r c' \<longleftrightarrow> (unstaged r \<and> c' = c)
     \<or> (\<exists>key d stored. management_key_from_bytes (host env) (mu_algorithm u) (mu_key_bytes u) = Ok key
          \<and> admin_data env c = Ok d \<and> data_to_value (tlv env) d \<noteq> None
          \<and> (mu_protect u \<or> has_stored_key d \<longrightarrow> printed_key env c = Ok stored)
          \<and> run_outcome (replacement_steps env u key d stored) c r c')"

lemma synced_wp:
  assumes "card_laws env profile view"
  shows "wp (set_management_key_synced env profile u) (\<lambda>r s'. synced_outcome env u (view s) r (view s')) s"
  unfolding set_management_key_synced_def
proof (subst wp_bind, rule wp_mono [OF prepare_reads [OF assms, unfolded reads_def, THEN spec, of u s]], goal_cases)
  case (1 r s')
  show ?case
  proof (cases r)
    case (Inl e)
    with 1 show ?thesis by (auto simp: synced_outcome_def intro: unstaged_Err)
  next
    case (Inr x)
    obtain key replacement d protected where x: "x = (key, replacement, d, protected)" by (cases x)
    from 1 Inr x have same: "view s' = view s" and prep: "prepared env u (view s) (key, replacement, d, protected)"
      by simp_all
    then obtain stored where protected: "protected = (if mu_protect u \<or> has_stored_key d then Some stored else None)"
      and repl: "replacement \<noteq> None \<longleftrightarrow> mu_protect u"
      and known: "management_key_from_bytes (host env) (mu_algorithm u) (mu_key_bytes u) = Ok key"
        "admin_data env (view s) = Ok d" "mu_protect u \<or> has_stored_key d \<longrightarrow> printed_key env (view s) = Ok stored"
      by (auto simp: prepared_def)
    show ?thesis
    proof (cases "data_to_value (tlv env) d")
      case None
      with Inr x show ?thesis by (simp add: wp_unwrap wp_bind)
    next
      case (Some old_value)
      have "wp (proc_bind (at_stage ReplaceKey (set_management_key env profile key (mu_touch u) (mu_access u))) (\<lambda>_.
          proc_bind (store_protected env profile u key protected) (\<lambda>_.
          proc_bind (update_metadata env profile key old_value (updated_data (mu_protect u) d)) (\<lambda>_.
          block_puk env profile (mu_pin u) replacement)))) (\<lambda>r s'. synced_outcome env u (view s) r (view s')) s'"
        by (rule wp_mono [OF replacement_staged [OF assms Some protected repl, unfolded staged_def, THEN spec]])
          (use known same Some in \<open>auto simp: synced_outcome_def\<close>)
      then show ?thesis unfolding Inr x sum.case prod.case Some unwrap_Some proc_bind_ret .
    qed
  qed
qed

section \<open>Changing the PIN\<close>

lemma wp_reads:
  assumes "reads view P m" "\<And>x s'. view s' = view s \<Longrightarrow> P (view s) x \<Longrightarrow> wp (k x) Q s'"
    and "\<And>e s'. view s' = view s \<Longrightarrow> Q (Err e) s'"
  shows "wp (proc_bind m k) Q s"
  unfolding wp_bind
  by (rule wp_mono [OF assms(1) [unfolded reads_def, THEN spec, of s]]) (use assms(2,3) in \<open>auto split: sum.splits\<close>)

lemma wp_keeps:
  assumes "keeps view m" "\<And>x s'. view s' = view s \<Longrightarrow> wp (k x) Q s'" "\<And>e s'. view s' = view s \<Longrightarrow> Q (Err e) s'"
  shows "wp (proc_bind m k) Q s"
  unfolding wp_bind by (rule keeps_wp [OF assms(1)]) (use assms(2,3) in \<open>auto split: sum.splits\<close>)

lemma wp_update:
  assumes "updates view f m" "\<And>x s'. view s' = f (view s) \<Longrightarrow> wp (k x) Q s'"
    and "\<And>e s'. view s' = view s \<or> view s' = f (view s) \<Longrightarrow> Q (Err e) s'"
  shows "wp (proc_bind m k) Q s"
  unfolding wp_bind by (rule updates_wp [OF assms(1)]) (use assms(2,3) in auto)

lemma wp_unwrap_bind: "(\<And>x. v = Some x \<Longrightarrow> wp (k x) Q s) \<Longrightarrow> wp (proc_bind (unwrap v) k) Q s"
  by (auto simp: proc_wp)

lemma put_simps [simp]:
  "card_pin (put_object oid v c) = card_pin c" "card_key (put_object oid v c) = card_key c"
  "card_pin (put_key k c) = card_pin c" "card_key (put_key k c) = k"
  "card_objects (put_key k c) = card_objects c" "card_objects (put_pin p c) = card_objects c"
  "card_key (put_pin p c) = card_key c" "card_pin (put_pin p c) = pin_bytes p"
  "card_puk_blocked (put_object oid v c) = card_puk_blocked c" "card_puk_blocked (put_key k c) = card_puk_blocked c"
  "card_puk_blocked (put_pin p c) = card_puk_blocked c"
  "card_pin (block_card_puk c) = card_pin c" "card_key (block_card_puk c) = card_key c"
  "card_objects (block_card_puk c) = card_objects c" "card_puk_blocked (block_card_puk c)"
  "card_objects (put_object oid v c) = (card_objects c)(oid := if v = [] then None else Some v)"
  by (simp_all add: put_object_def put_key_def put_pin_def block_card_puk_def)

text \<open>The PIN first, then the key derived from it, then the salt it was derived with.\<close>

definition pin_change_outcome ::
  "('w, 'e) piv_env \<Rightarrow> byte list \<Rightarrow> pin \<Rightarrow> pivman_data \<Rightarrow> piv_card \<Rightarrow> 'e piv_error + unit \<Rightarrow> piv_card \<Rightarrow> bool" where
  "pin_change_outcome env new_pin new d c r c' \<longleftrightarrow>
    (if pd_salt d = None then c' = put_pin new c \<or> (c' = c \<and> r \<noteq> Ok ())
     else (c' = c \<and> r \<noteq> Ok ()) \<or> (c' = put_pin new c \<and> r \<noteq> Ok ())
       \<or> (\<exists>salt key. length salt = 16
            \<and> management_key_from_bytes (host env) Tdes (derive_management_key env new_pin salt) = Ok key
            \<and> ((c' = put_key key (put_pin new c) \<and> r \<noteq> Ok ())
              \<or> (\<exists>oid v. pivman_object_id env = Some oid \<and> data_to_value (tlv env) (d\<lparr>pd_salt := Some salt\<rparr>) = Some v
                   \<and> c' = put_object oid v (put_key key (put_pin new c))))))"

lemma change_pin_synced_wp:
  assumes "card_laws env profile view"
  shows "wp (change_pin_synced env profile old_pin new_pin) (\<lambda>r s'.
      (\<exists>e. r = Err e \<and> view s' = view s)
    \<or> (\<exists>new d. pin_from_bytes (host env) new_pin = Ok new \<and> admin_data env (view s) = Ok d
         \<and> pin_change_outcome env new_pin new d (view s) r (view s'))) s"
  unfolding change_pin_synced_def
proof (rule wp_reads [OF reads_lib [of view]], rule wp_reads [OF reads_lib [of view]], rule wp_reads [OF reads_admin [OF assms]], goal_cases)
  case (1 old s1 new s2 d s3)
  let ?Q = "\<lambda>r s'. (\<exists>e. r = Err e \<and> view s' = view s)
    \<or> (\<exists>new d. pin_from_bytes (host env) new_pin = Ok new \<and> admin_data env (view s) = Ok d
         \<and> pin_change_outcome env new_pin new d (view s) r (view s'))"
  from 1 have d: "admin_data env (view s) = Ok d" and new: "pin_from_bytes (host env) new_pin = Ok new"
    and same: "view s3 = view s" by simp_all
  show ?case
  proof (cases "pd_salt d")
    case None
    have "wp (change_pin env profile old new) ?Q s3"
      by (rule updates_wp [OF card_lawsD(8) [OF assms]])
        (use None d new same in \<open>auto simp: pin_change_outcome_def\<close>)
    with None show ?thesis by simp
  next
    case (Some salt)
    define Q where "Q = ?Q"
    have tail: "Q r t" if "pin_change_outcome env new_pin new d (view s) r (view t)" for r t
      using d new that unfolding Q_def by blast
    have E0: "Q (Err e) t" if "view t = view s" for e t
      using that by (simp add: Q_def)
    have E1: "Q (Err e) t" if "view t = put_pin new (view s)" for e t
      using that Some by (intro tail) (simp add: pin_change_outcome_def)
    have E2: "Q (Err e) t"
      if "view t = put_key key (put_pin new (view s))" "length salt = 16"
        "management_key_from_bytes (host env) Tdes (derive_management_key env new_pin salt) = Ok key" for e t salt key
      using that Some by (intro tail) (auto simp: pin_change_outcome_def)
    have E3: "Q r t"
      if "view t = put_object oid v (put_key key (put_pin new (view s)))" "length salt = 16"
        "management_key_from_bytes (host env) Tdes (derive_management_key env new_pin salt) = Ok key"
        "pivman_object_id env = Some oid" "data_to_value (tlv env) (d\<lparr>pd_salt := Some salt\<rparr>) = Some v"
      for r t oid v salt key
      using that Some by (intro tail) (auto simp: pin_change_outcome_def)
    show ?thesis unfolding Some option.case Q_def [symmetric]
    proof (rule wp_reads [OF reads_lib [of view]], rule wp_keeps [OF card_lawsD(5) [OF assms]],
        rule wp_reads [OF reads_random [OF assms]], rule wp_reads [OF reads_lib [of view]],
        rule wp_update [OF card_lawsD(8) [OF assms]], rule wp_keeps [OF card_lawsD(4) [OF assms]],
        rule wp_update [OF card_lawsD(7) [OF assms]], rule wp_unwrap_bind, rule wp_unwrap_bind,
        rule updates_wp [OF card_lawsD(6) [OF assms]], goal_cases)
    qed (use same in \<open>auto intro: E0 E1 E2 E3\<close>)
  qed
qed auto

end
