(* ===== verification/PivProps.thy ===== *)
theory PivProps
  imports PivCard
begin

text \<open>
  The properties of the pivman procedures, and a simulated card on which they are exercised: it
  checks the management key that accompanies a write and the PIN that accompanies a change,
  answers with status words, and keeps its state in \<open>piv_card\<close>.
\<close>

section \<open>A simulated card\<close>

definition status :: "bool \<Rightarrow> piv_card \<Rightarrow> piv_card \<Rightarrow> ((string + byte list) \<times> piv_card) option" where
  "status granted c' c = (if granted then Some (Ok [0x90, 0], c') else Some (Ok [0x69, 0x82], c))"

definition sim_exchange :: "(piv_card, string) exchange" where
  "sim_exchange command c = (case command of [] \<Rightarrow> Some (Err ''empty'', c) | code # body \<Rightarrow>
     if code = 1 then (case card_objects c (ObjectId body) of
         Some v \<Rightarrow> Some (Ok ([0x90, 0] @ v), c) | None \<Rightarrow> Some (Ok [0x6a, 0x82], c))
     else if code = 2 then status (take 24 (drop 3 body) = mk_bytes (card_key c))
         (put_object (ObjectId (take 3 body)) (drop 27 body) c) c
     else if code = 3 then status (take 24 body = mk_bytes (card_key c)) (put_key (ManagementKey Tdes (drop 24 body)) c) c
     else if code = 4 then status (take (unat (hd body)) (tl body) = card_pin c) (put_pin (Pin (drop (unat (hd body)) (tl body))) c) c
     else if code = 5 then status (body = card_pin c) (block_card_puk c) c
     else if code = 6 then status (body = card_pin c) c c
     else status (body = mk_bytes (card_key c)) c c)"

definition answer :: "'a \<Rightarrow> byte list \<Rightarrow> lib_error + 'a" where
  "answer x resp = (if resp = [0x90, 0] then Ok x else Err (new_error SecurityStatusNotSatisfied))"

definition object_answer :: "byte list \<Rightarrow> lib_error + byte list" where
  "object_answer resp = (if take 2 resp = [0x90, 0] then Ok (drop 2 resp) else Err (new_error NotFound))"

definition refused :: "lib_error + 'a" where
  "refused = Err (new_error UnsupportedFeature)"

fun auth_key :: "access \<Rightarrow> byte list option" where
  "auth_key (AccessManagement (AuthExternal k)) = (if length (mk_bytes k) = 24 then Some (mk_bytes k) else None)"
| "auth_key (AccessPinAndManagement _ (AuthExternal k)) = (if length (mk_bytes k) = 24 then Some (mk_bytes k) else None)"
| "auth_key _ = None"

definition sim_secrets :: piv_secrets where
  "sim_secrets = \<lparr>lib_get_pin_status = \<lambda>_. refused,
     lib_verify_pin = \<lambda>_ pin. Ok (single_operation (0x06 # pin_bytes pin) (answer ())),
     lib_logout = \<lambda>_. refused,
     lib_change_pin = \<lambda>_ old new. if length (pin_bytes old) \<le> 8
       then Ok (single_operation (0x04 # word_of_nat (length (pin_bytes old)) # pin_bytes old @ pin_bytes new)
         (answer (MutationResult 0))) else refused,
     lib_change_puk = \<lambda>_ _ _. refused, lib_unblock_pin = \<lambda>_ _ _. refused, lib_reset_retries = \<lambda>_ _ _ _. refused,
     lib_pin_managed = \<lambda>_ _ access. case access of
       AccessPin pin \<Rightarrow> Ok (single_operation (0x05 # pin_bytes pin) (answer [])) | _ \<Rightarrow> refused,
     lib_authenticate = \<lambda>_ auth _. case auth of
       AuthExternal k \<Rightarrow> Ok (single_operation (0x07 # mk_bytes k) (answer ())) | _ \<Rightarrow> refused,
     lib_set_management_key = \<lambda>_ k _ _ access. case auth_key access of
       Some auth \<Rightarrow> if mk_algorithm k = Tdes
         then Ok (single_operation (0x03 # auth @ mk_bytes k) (answer (MutationResult 0))) else refused
     | None \<Rightarrow> refused,
     lib_select = \<lambda>_. refused, lib_random_selected = \<lambda>_. refused\<rparr>"

definition sim_objects :: piv_objects where
  "sim_objects = \<lparr>
     lib_read_object = \<lambda>_ oid _. case oid of ObjectId bytes \<Rightarrow> Ok (single_operation (0x01 # bytes) object_answer),
     lib_write_object = \<lambda>_ oid v access. case oid of ObjectId bytes \<Rightarrow> (case auth_key access of
       Some k \<Rightarrow> if length bytes = 3
         then Ok (single_operation (0x02 # bytes @ k @ v) (answer (MutationResult 0))) else refused
     | None \<Rightarrow> refused),
     lib_read_certificate = \<lambda>_ _ _. refused, lib_write_certificate = \<lambda>_ _ _ _. refused,
     lib_delete_certificate = \<lambda>_ _ _. refused, lib_read_attestation_certificate = \<lambda>_. refused,
     lib_read_container_name = \<lambda>_ _ _. refused, lib_set_container_name = \<lambda>_ _ _ _. refused\<rparr>"

definition sim_keys :: piv_keys where
  "sim_keys = \<lparr>lib_get_metadata = \<lambda>_ _ _. refused, lib_generate_key = \<lambda>_ _ _. refused,
     lib_import_key = \<lambda>_ _ _ _. refused, lib_delete_key = \<lambda>_ _ _. refused, lib_move_key = \<lambda>_ _ _ _. refused,
     lib_attest = \<lambda>_ _ _. refused, lib_generate_attestation_key = \<lambda>_ _ _. refused,
     lib_import_attestation_key = \<lambda>_ _ _ _. refused, lib_attestation_metadata = \<lambda>_. refused,
     lib_sign = \<lambda>_ _ _ _ _. refused, lib_sign_streaming = \<lambda>_ _ _ _. refused, lib_decrypt = \<lambda>_ _ _ _ _. refused,
     lib_derive = \<lambda>_ _ _ _ _. refused, lib_decapsulate = \<lambda>_ _ _ _. refused, lib_agree_sm2 = \<lambda>_ _ _ _. refused,
     lib_batch = \<lambda>_ _. refused, lib_batch_progress = \<lambda>_. None\<rparr>"

definition sim_host :: piv_host where
  "sim_host = \<lparr>
     management_key_from_bytes = \<lambda>algorithm bs. if length bs = 24 then Ok (ManagementKey algorithm bs)
       else Err (new_error InvalidArgument),
     auth_mutual = \<lambda>_ _. refused, block_len = \<lambda>_. 8,
     pin_from_bytes = \<lambda>bs. if 6 \<le> length bs \<and> length bs \<le> 8 then Ok (Pin bs) else Err (new_error InvalidPin),
     object_id_from_bytes = \<lambda>bs. Ok (ObjectId bs),
     certificate_object_id = \<lambda>_. ObjectId [0x5f, 0xc1, 5],
     container_name_from_text = \<lambda>bs. Ok (ContainerName bs), require_capability = \<lambda>_ _. Ok (),
     profile_serial = \<lambda>_. None, max_input_bytes = 4096,
     pbkdf2_hmac_sha1 = \<lambda>pin salt _ n. take n (pin @ salt @ replicate n 0)\<rparr>"

definition sim_env :: "(piv_card, string) piv_env" where
  "sim_env = \<lparr>env_exchange = sim_exchange, fill_random = \<lambda>n. ret (replicate n 7),
     secrets = sim_secrets, objects = sim_objects, keys = sim_keys, host = sim_host,
     tlv = short_tlv, x509 = sample_x509\<rparr>"

lemma sim_env_fields [simp]:
  "env_exchange sim_env = sim_exchange" "fill_random sim_env n = ret (replicate n 7)"
  "secrets sim_env = sim_secrets" "objects sim_env = sim_objects" "host sim_env = sim_host"
  "tlv sim_env = short_tlv"
  by (simp_all add: sim_env_def)

text \<open>A call with one exchange.\<close>

lemma run_single:
  "run env (Ok (single_operation c f)) s = (case env_exchange env c s of
     None \<Rightarrow> None
   | Some (Err e, s') \<Rightarrow> Some (Err (PivDrive (Transport e)), s')
   | Some (Ok resp, s') \<Rightarrow> Some (map_err (\<lambda>e. PivDrive (Protocol e)) (f resp), s'))"
  by (cases "f (projr (fst (the (env_exchange env c s))))")
    (auto simp: run_def lib_result_def execute_def drive_loop.simps proc_map_err_def
      split: option.split sum.split prod.split)

lemma run_Err: "run env (Err e) s = Some (Err (PivDrive (Protocol e)), s)"
  by (simp add: run_def lib_result_def throw_run)

lemma run_unit_run: "run_unit env oper s = map_option (\<lambda>(r, s'). (case r of Err e \<Rightarrow> Err e | Ok _ \<Rightarrow> Ok (), s')) (run env oper s)"
  by (auto simp: run_unit_def proc_bind_def ret_def split: option.split sum.split)

lemmas sim_run = run_single run_Err run_unit_run sim_exchange_def status_def answer_def object_answer_def refused_def

lemma sim_reads: "keeps id (read_object sim_env profile oid access)"
  "wp (read_object sim_env profile oid access) (\<lambda>r _. read_result (card_objects s oid) r) s"
  by (auto simp: keeps_def wp_def read_object_def sim_objects_def sim_run read_result_def new_error_def
      split: piv_object_id.splits option.splits list.splits)

lemma sim_checks: "keeps id (verify_pin sim_env profile pin)" "keeps id (authenticate sim_env profile auth)"
  by (auto simp: keeps_def wp_def verify_pin_def authenticate_def sim_secrets_def sim_run split: management_auth.splits if_splits)

lemma auth_key_length: "auth_key access = Some k \<Longrightarrow> length k = 24"
  by (cases access rule: auth_key.cases) (auto split: if_splits)

lemma sim_write: "updates id (put_object oid v) (write_object sim_env profile oid v access)"
  by (auto simp: updates_def wp_def write_object_def sim_objects_def sim_run auth_key_length
      split: piv_object_id.splits option.splits list.splits sum.splits if_splits)

lemma sim_set_key: "updates id (put_key k) (set_management_key sim_env profile k touch access)"
  by (cases k) (auto simp: updates_def wp_def set_management_key_def sim_secrets_def sim_run auth_key_length
      split: option.splits sum.splits if_splits)

lemma sim_change_pin: "updates id (put_pin new) (change_pin sim_env profile old new)"
  by (cases new) (auto simp: updates_def wp_def change_pin_def sim_secrets_def sim_run unat_of_nat put_pin_def
      split: option.splits sum.splits if_splits)

lemma sim_block: "updates id block_card_puk (run sim_env (lib_pin_managed (secrets sim_env) profile (Some r) access))"
  by (auto simp: updates_def wp_def sim_secrets_def sim_run split: option.splits sum.splits if_splits access.splits)

lemma sim_random: "wp (fill_random sim_env n) (\<lambda>r _. \<forall>bs. r = Ok bs \<longrightarrow> length bs = n) s"
  "keeps id (fill_random sim_env n)"
  by (simp_all add: keeps_def wp_ret)

lemma sim_laws: "card_laws sim_env profile id"
  unfolding card_laws_def
  using sim_reads sim_checks sim_write sim_set_key sim_change_pin sim_block sim_random
  by (metis id_apply)

lemma run_outcome_Ok: "run_outcome steps c (Ok x) c' \<longleftrightarrow> c' = card_after steps c"
  by (simp add: run_outcome_def)

text \<open>The card during a replacement is one of these: a prefix of the steps.\<close>

lemma run_outcome_prefix:
  assumes "run_outcome steps c r c'"
  shows "\<exists>n. c' = card_after (take n steps) c \<and> (r = Ok x \<longrightarrow> n = length steps)"
proof (cases r)
  case (Inr y)
  with assms show ?thesis by (intro exI [of _ "length steps"]) (simp add: run_outcome_def)
next
  case (Inl e)
  show ?thesis
  proof (cases "\<exists>stage d. e = PivManagementKeyUpdate stage d")
    case True
    with Inl assms show ?thesis by (auto simp: run_outcome_def stopped_at_def)
  next
    case False
    with Inl assms have "c' = c" by (cases e) (auto simp: run_outcome_def)
    with Inl show ?thesis by (intro exI [of _ 0]) simp
  qed
qed

section \<open>What a replacement leaves\<close>

text \<open>The writer round trip, and the small objects that the code's \<^verbatim>\<open>unwrap\<close> relies on.\<close>

definition pivman_tlv :: "tlv_lib \<Rightarrow> bool" where
  "pivman_tlv lib \<longleftrightarrow> tlv_writer_reader lib
     \<and> (\<forall>d. pd_salt d = None \<longrightarrow> data_to_value lib d \<noteq> None)
     \<and> (\<forall>k. length k = 24 \<longrightarrow> protected_to_value lib (Some k) \<noteq> None)
     \<and> protected_to_value lib None \<noteq> None"

lemma updated_salt [simp]: "pd_salt (updated_data protect d) = None"
  by (simp add: updated_data_def Let_def set_stored_key_def set_puk_blocked_def set_flag_def has_derived_key_def
      split: option.split)

lemma admin_written:
  assumes "pivman_tlv (tlv env)" "pivman_object_id env = Some oid" "pd_salt d = None"
  shows "admin_data env (snd (admin_step env d) c) = Ok d"
proof -
  from assms obtain v where v: "data_to_value (tlv env) d = Some v" by (auto simp: pivman_tlv_def)
  from assms(1) data_roundtrip [OF _ v] have "data_from_value (tlv env) v = Ok d" by (simp add: pivman_tlv_def)
  then show ?thesis by (auto simp: admin_data_def admin_step_def assms(2) v data_from_value_def split: if_splits)
qed

lemma printed_written:
  assumes "pivman_tlv (tlv env)" "pivman_protected_object_id env = Some oid" "\<forall>k\<in>set_option key. length k = 24"
  shows "printed_key env (snd (printed_step env key) c) = Ok key"
proof -
  from assms(1,3) obtain v where v: "protected_to_value (tlv env) key = Some v"
    by (cases key) (auto simp: pivman_tlv_def)
  from assms(1) protected_roundtrip [OF _ v assms(3)] have "protected_from_value (tlv env) v = Ok key"
    by (simp add: pivman_tlv_def)
  then show ?thesis by (auto simp: printed_key_def printed_step_def assms(2) v protected_from_value_def split: if_splits)
qed

lemma metadata_unchanged:
  assumes "pivman_tlv (tlv env)" "metadata_steps env d (updated_data protect d) = []" "data_to_value (tlv env) d \<noteq> None"
  shows "updated_data protect d = d"
proof -
  from assms(2,3) obtain v where "data_to_value (tlv env) d = Some v" "data_to_value (tlv env) (updated_data protect d) = Some v"
    by (auto simp: metadata_steps_def split: if_splits)
  with data_roundtrip [of "tlv env"] assms(1) show ?thesis by (metis pivman_tlv_def sum.inject(2))
qed

text \<open>Each step concerns one part of the card.\<close>

lemma step_frame [simp]:
  assumes "pivman_object_id env = Some oa" "pivman_protected_object_id env = Some ob" "oa \<noteq> ob"
  shows "card_key (snd (admin_step env d) c) = card_key c" "card_key (snd (printed_step env k) c) = card_key c"
    "card_pin (snd (admin_step env d) c) = card_pin c" "card_pin (snd (printed_step env k) c) = card_pin c"
    "card_puk_blocked (snd (admin_step env d) c) = card_puk_blocked c"
    "card_puk_blocked (snd (printed_step env k) c) = card_puk_blocked c"
    "card_objects (snd (printed_step env k) c) oa = card_objects c oa"
    "printed_key env (snd (admin_step env d) c) = printed_key env c"
    "admin_data env (snd (printed_step env k) c) = admin_data env c"
  using assms by (simp_all add: admin_step_def printed_step_def printed_key_def admin_data_def)

lemma data_frame [simp]:
  "admin_data env (put_key k c) = admin_data env c" "printed_key env (put_key k c) = printed_key env c"
  "admin_data env (block_card_puk c) = admin_data env c" "printed_key env (block_card_puk c) = printed_key env c"
  by (simp_all add: admin_data_def printed_key_def)

definition replacement_safe ::
  "('w, 'e) piv_env \<Rightarrow> management_update \<Rightarrow> management_key \<Rightarrow> piv_card \<Rightarrow> piv_card \<Rightarrow> bool" where
  "replacement_safe env u key c c' \<longleftrightarrow> card_pin c' = card_pin c
     \<and> (c' \<noteq> c \<longrightarrow> card_key c' = key)
     \<and> (mu_protect u \<and> admin_data env c' \<noteq> admin_data env c \<longrightarrow> printed_key env c' = Ok (Some (mu_key_bytes u)))
     \<and> (card_puk_blocked c' \<noteq> card_puk_blocked c \<longrightarrow> mu_protect u \<and> printed_key env c' = Ok (Some (mu_key_bytes u))
          \<and> (\<exists>d. admin_data env c' = Ok d \<and> has_stored_key d))"

definition replacement_done ::
  "('w, 'e) piv_env \<Rightarrow> management_update \<Rightarrow> management_key \<Rightarrow> piv_card \<Rightarrow> piv_card \<Rightarrow> bool" where
  "replacement_done env u key c c' \<longleftrightarrow> card_key c' = key
     \<and> (\<exists>d. admin_data env c = Ok d \<and> admin_data env c' = Ok (updated_data (mu_protect u) d)
          \<and> (\<not> mu_protect u \<and> has_stored_key d \<longrightarrow> printed_key env c' = Ok None))
     \<and> (mu_protect u \<longrightarrow> printed_key env c' = Ok (Some (mu_key_bytes u)) \<and> card_puk_blocked c')"

lemma flags_of_update:
  "has_stored_key (updated_data protect d) = protect"
  "puk_blocked (updated_data protect d) \<longleftrightarrow> protect \<or> puk_blocked d"
  "pd_timestamp (updated_data protect d) = pd_timestamp d"
  "flag_bits (updated_data protect d) AND 0xfc = flag_bits d AND 0xfc"
proof -
  have split: "updated_data protect d = (if protect then set_flag 1 True (set_flag 2 protect (d\<lparr>pd_salt := None\<rparr>))
      else set_flag 2 protect (d\<lparr>pd_salt := None\<rparr>))"
    by (cases d) (auto simp: updated_data_def Let_def set_stored_key_def set_puk_blocked_def has_derived_key_def)
  have same: "flag_bits (d\<lparr>pd_salt := None\<rparr>) = flag_bits d" by (simp add: flag_bits_def)
  have bits: "(f OR 2) AND 2 \<noteq> 0" "((f OR 2) OR 1) AND 2 \<noteq> 0" "(f AND NOT 2) AND 2 = 0" "(f OR 1) AND 1 \<noteq> 0"
    "(f AND NOT 2) AND 1 = f AND 1" "((f OR 2) OR 1) AND 0xfc = f AND 0xfc" "(f AND NOT 2) AND 0xfc = f AND 0xfc"
    for f :: byte
    using and_exp_eq_0_iff_not_bit [of _ 1, where ?'a = "8 word"] and_exp_eq_0_iff_not_bit [of _ 0, where ?'a = "8 word"]
    by (simp_all add: bit_simps and.assoc bit.conj_disj_distrib2 bit_1_iff numeral_2_eq_2 [symmetric])
  show "has_stored_key (updated_data protect d) = protect"
    using bits(1-3) by (auto simp: split has_stored_key_def flag_bits_update same)
  show "puk_blocked (updated_data protect d) \<longleftrightarrow> protect \<or> puk_blocked d"
    using bits(4,5) by (auto simp: split puk_blocked_def flag_bits_update same)
  show "pd_timestamp (updated_data protect d) = pd_timestamp d"
    by (simp add: split flag_bits_update)
  show "flag_bits (updated_data protect d) AND 0xfc = flag_bits d AND 0xfc"
    using bits(6,7) by (auto simp: split flag_bits_update same)
qed

lemma replacement_prefix:
  assumes tlv: "pivman_tlv (tlv env)"
    and oids: "pivman_object_id env = Some oa" "pivman_protected_object_id env = Some ob" "oa \<noteq> ob"
    and len: "length (mu_key_bytes u) = 24"
    and d: "admin_data env c = Ok d" "data_to_value (tlv env) d \<noteq> None"
    and stored: "mu_protect u \<or> has_stored_key d \<longrightarrow> printed_key env c = Ok stored"
    and c': "c' = card_after (take n (replacement_steps env u key d stored)) c"
  shows "replacement_safe env u key c c'"
    and "n = length (replacement_steps env u key d stored) \<Longrightarrow> replacement_done env u key c c'"
proof -
  let ?upd = "updated_data (mu_protect u) d"
  have admin: "admin_data env (snd (admin_step env (updated_data b d)) x) = Ok (updated_data b d)" for b x
    by (rule admin_written [OF tlv oids(1)]) simp
  have printed: "printed_key env (snd (printed_step env (Some (mu_key_bytes u))) x) = Ok (Some (mu_key_bytes u))"
    "printed_key env (snd (printed_step env None) x) = Ok None" for x
    by (rule printed_written [OF tlv oids(2)], use len in simp)+
  have imp: "updated_data True d = d \<longrightarrow> has_stored_key d" using flags_of_update(1) [of True d] by auto
  consider (meta) "metadata_steps env d ?upd = [admin_step env ?upd]"
    | (same) "metadata_steps env d ?upd = []" "?upd = d"
    using metadata_unchanged [OF tlv _ d(2)] by (metis metadata_steps_def)
  note cases = this
  show "replacement_safe env u key c c'"
    using cases
    by cases (use d(1) stored imp in \<open>auto simp: c' replacement_safe_def replacement_steps_def protected_steps_def
        take_Cons' step_frame [OF oids] admin printed flags_of_update split: if_splits\<close>)
  show "replacement_done env u key c c'" if "n = length (replacement_steps env u key d stored)"
    using cases
    by cases (use d(1) stored that in \<open>auto simp: c' replacement_done_def replacement_steps_def protected_steps_def
        step_frame [OF oids] admin printed flags_of_update split: if_splits\<close>)
qed

section \<open>A replacement and a PIN change on the simulated card\<close>

definition sim_pin :: "byte list" where "sim_pin = [0x31, 0x32, 0x33, 0x34, 0x35, 0x36]"

definition sim_card :: piv_card where
  "sim_card = \<lparr>card_pin = sim_pin, card_key = ManagementKey Tdes DEFAULT_MANAGEMENT_KEY,
     card_objects = \<lambda>_. None, card_puk_blocked = False\<rparr>"

definition sim_new_key :: "byte list" where "sim_new_key = replicate 24 9"

definition sim_update :: management_update where
  "sim_update = \<lparr>mu_key_bytes = sim_new_key, mu_algorithm = Tdes, mu_touch = ManagementTouchNever,
     mu_protect = True, mu_pin = Some (Pin sim_pin),
     mu_access = AccessManagement (AuthExternal (ManagementKey Tdes DEFAULT_MANAGEMENT_KEY))\<rparr>"

definition sim_updated_card :: piv_card where
  "sim_updated_card = block_card_puk
     (put_object (ObjectId [0x5f, 0xff, 0]) [0x80, 3, 0x81, 1, 3]
     (put_object (ObjectId [0x5f, 0xc1, 9]) (0x88 # 26 # 0x89 # 24 # sim_new_key)
     (put_key (ManagementKey Tdes sim_new_key) sim_card)))"

lemma sim_lengths [simp]: "length DEFAULT_MANAGEMENT_KEY = 24" "length sim_new_key = 24" "length sim_pin = 6"
  by (simp_all add: DEFAULT_MANAGEMENT_KEY_def sim_new_key_def sim_pin_def)

lemma sim_fields [simp]:
  "mu_key_bytes sim_update = sim_new_key" "mu_algorithm sim_update = Tdes" "mu_protect sim_update"
  "mu_pin sim_update = Some (Pin sim_pin)"
  "mu_access sim_update = AccessManagement (AuthExternal (ManagementKey Tdes DEFAULT_MANAGEMENT_KEY))"
  "card_pin sim_card = sim_pin" "card_key sim_card = ManagementKey Tdes DEFAULT_MANAGEMENT_KEY"
  "card_objects sim_card = (\<lambda>_. None)"
  by (simp_all add: sim_update_def sim_card_def)

lemma sim_oids [simp]:
  "pivman_object_id sim_env = Some (ObjectId [0x5f, 0xff, 0])"
  "pivman_protected_object_id sim_env = Some (ObjectId [0x5f, 0xc1, 9])"
  by (simp_all add: pivman_object_id_def pivman_protected_object_id_def fixed_object_id_def sim_host_def)

lemma short_protected: "length k = 24 \<Longrightarrow> protected_to_value short_tlv (Some k) = Some (0x88 # 26 # 0x89 # 24 # k)"
  by (simp add: protected_to_value_def short_push)

lemma short_data: "data_to_value short_tlv default_data = Some []"
  "data_to_value short_tlv (updated_data True default_data) = Some [0x80, 3, 0x81, 1, 3]"
  by (simp_all add: data_to_value_def short_push data_field_list_def default_data_def updated_data_def Let_def
      set_stored_key_def set_puk_blocked_def set_flag_def has_derived_key_def flag_bits_def)

lemma pivman_tlv_short: "pivman_tlv short_tlv"
  by (auto simp: pivman_tlv_def short_tlv_writer_reader data_to_value_def data_field_list_def short_push
      protected_to_value_def split: option.splits)

lemma sim_replacement:
  "set_management_key_synced sim_env profile sim_update sim_card = Some (Ok (), sim_updated_card)"
proof -
  have prep: "prepare_update sim_env profile sim_update sim_card =
      Some (Ok (ManagementKey Tdes sim_new_key, Some (replicate 8 7), default_data, Some None), sim_card)"
    by (simp add: prepare_update_def sim_host_def lib_result_def random_puk_replacement_def random_bytes_def
        read_pivman_data_def read_pivman_protected_def read_tolerant_def read_object_def sim_objects_def proc_bind_def
        proc_try_def sim_run new_error_def ret_run has_stored_key_def default_data_def flag_bits_def)
  show ?thesis
    by (simp add: set_management_key_synced_def proc_bind_def prep short_data sim_updated_card_def at_stage_def
        proc_map_err_def set_management_key_def sim_secrets_def sim_objects_def sim_run
        store_protected_def update_metadata_def block_puk_def write_object_def short_protected ret_run
        external_auth_def)
qed

definition sim_derived_key :: "byte list \<Rightarrow> byte list \<Rightarrow> management_key" where
  "sim_derived_key pin salt = ManagementKey Tdes (derive_management_key sim_env pin salt)"

definition sim_salted :: "byte list \<Rightarrow> pivman_data" where
  "sim_salted salt = default_data\<lparr>pd_salt := Some salt\<rparr>"

definition sim_derived_card :: piv_card where
  "sim_derived_card = put_key (sim_derived_key sim_pin [9])
     (put_object (ObjectId [0x5f, 0xff, 0]) [0x80, 3, 0x82, 1, 9] sim_card)"

definition sim_new_pin :: "byte list" where "sim_new_pin = [0x38, 0x37, 0x36, 0x35, 0x34, 0x33, 0x32]"

definition sim_repinned_card :: piv_card where
  "sim_repinned_card = put_object (ObjectId [0x5f, 0xff, 0]) ([0x80, 18, 0x82, 16] @ replicate 16 7)
     (put_key (sim_derived_key sim_new_pin (replicate 16 7)) (put_pin (Pin sim_new_pin) sim_derived_card))"

lemma sim_derived [simp]: "length (derive_management_key sim_env pin salt) = 24"
  by (simp add: derive_management_key_def sim_host_def)

lemma short_salted: "data_to_value short_tlv (sim_salted [9]) = Some [0x80, 3, 0x82, 1, 9]"
  "data_to_value short_tlv (sim_salted (replicate 16 7)) = Some ([0x80, 18, 0x82, 16] @ replicate 16 7)"
  by (simp_all add: data_to_value_def short_push data_field_list_def sim_salted_def default_data_def)

lemma sim_pin_change:
  "change_pin_synced sim_env profile sim_pin sim_new_pin sim_derived_card = Some (Ok (), sim_repinned_card)"
proof -
  have pins: "pin_from_bytes sim_host sim_pin = Ok (Pin sim_pin)"
    "pin_from_bytes sim_host sim_new_pin = Ok (Pin sim_new_pin)"
    by (simp_all add: sim_host_def sim_pin_def sim_new_pin_def)
  have data: "data_from_value short_tlv [0x80, 3, 0x82, 1, 9] = Ok (sim_salted [9])"
    by (rule data_roundtrip [OF short_tlv_writer_reader short_salted(1)])
  have card: "card_pin sim_derived_card = sim_pin" "card_key sim_derived_card = sim_derived_key sim_pin [9]"
    "card_objects sim_derived_card (ObjectId [0x5f, 0xff, 0]) = Some [0x80, 3, 0x82, 1, 9]"
    by (simp_all add: sim_derived_card_def)
  have salted: "pd_salt (sim_salted x) = Some x" "sim_salted x\<lparr>pd_salt := Some y\<rparr> = sim_salted y" for x y
    by (simp_all add: sim_salted_def)
  have keys: "management_key_from_bytes sim_host Tdes (derive_management_key sim_env pin salt)
      = Ok (sim_derived_key pin salt)" for pin salt
    by (simp add: sim_derived_key_def sim_host_def)
  have mk: "mk_bytes (sim_derived_key pin salt) = derive_management_key sim_env pin salt"
    "mk_algorithm (sim_derived_key pin salt) = Tdes"
    "ManagementKey Tdes (derive_management_key sim_env pin salt) = sim_derived_key pin salt" for pin salt
    by (simp_all add: sim_derived_key_def)
  show ?thesis
    by (simp add: change_pin_synced_def pins data card salted keys mk short_salted lib_result_def proc_bind_def ret_run
        proc_map_err_def proc_try_def sim_run read_pivman_data_def read_tolerant_def read_object_def sim_objects_def
        sim_secrets_def authenticate_def random_bytes_def change_pin_def verify_pin_def set_management_key_def
        write_object_def external_auth_def sim_repinned_card_def)
qed

section \<open>Properties\<close>

text \<open>C14. Replacing the management key refines a fixed list of card updates: the key, its recovery copy in
  PRINTED, the ADMIN DATA flags, the PUK.  Whatever exchange fails, the card has exactly the
  updates before the reported stage, and perhaps that stage's own; an error of the preparation
  leaves the card as it was.\<close>

theorem set_management_key_synced_refines:
  assumes "card_laws env profile view" and "set_management_key_synced env profile u s = Some (r, s')"
  shows "synced_outcome env u (view s) r (view s')"
  by (rule wpD [OF synced_wp [OF assms(1)] assms(2)])


theorem set_management_key_synced_refines_witness:
  "synced_outcome sim_env sim_update sim_card (Ok () :: string piv_error + unit) sim_updated_card"
  using set_management_key_synced_refines [OF sim_laws sim_replacement [of "DeviceProfile 0"]] by simp

text \<open>C17. The pivman objects survive their encoding: ADMIN DATA and PRINTED read back as what was written,
  for every combination of fields, under the round trip of the TLV library.\<close>

theorem pivman_objects_roundtrip:
  assumes "tlv_writer_reader lib"
    and "data_to_value lib d = Some v" "protected_to_value lib key = Some p" "\<forall>k\<in>set_option key. length k = 24"
  shows "data_from_value lib v = Ok d \<and> protected_from_value lib p = Ok key"
  using data_roundtrip [OF assms(1,2)] protected_roundtrip [OF assms(1,3,4)] ..

theorem pivman_objects_roundtrip_witness:
  "data_from_value short_tlv [0x80, 6, 0x81, 1, 3, 0x82, 1, 9] = Ok \<lparr>pd_flags = Some 3, pd_salt = Some [9], pd_timestamp = None\<rparr>
   \<and> protected_from_value short_tlv (0x88 # 26 # 0x89 # 24 # replicate 24 5) = Ok (Some (replicate 24 5))"
  by (rule pivman_objects_roundtrip [OF short_tlv_writer_reader])
    (simp_all add: data_to_value_def data_field_list_def short_push protected_to_value_def eval_nat_numeral)

text \<open>The flags of a replacement: the stored-key flag says whether the key is protected, the PUK flag is set
  by protection and never cleared, the salt goes, and no other bit or field changes.\<close>

theorem updated_data_flags:
  "has_stored_key (updated_data protect d) = protect
   \<and> puk_blocked (updated_data protect d) = (if protect then True else puk_blocked d)
   \<and> \<not> has_derived_key (updated_data protect d)
   \<and> pd_timestamp (updated_data protect d) = pd_timestamp d
   \<and> flag_bits (updated_data protect d) AND 0xfc = flag_bits d AND 0xfc"
  using flags_of_update [of protect d] by (simp add: has_derived_key_def)

text \<open>C15. However a replacement ends, the card is recoverable: nothing but the key changes before the key, the
  announcement in ADMIN DATA never precedes the recovery copy in PRINTED, the PUK is blocked only
  when both are in place, and success means all of it.\<close>

theorem management_key_recoverable:
  assumes "card_laws env profile view" "pivman_tlv (tlv env)"
    and "pivman_object_id env = Some oa" "pivman_protected_object_id env = Some ob" "oa \<noteq> ob"
    and "management_key_from_bytes (host env) (mu_algorithm u) (mu_key_bytes u) = Ok key"
    and "length (mu_key_bytes u) = 24"
    and "set_management_key_synced env profile u s = Some (r, s')"
  shows "replacement_safe env u key (view s) (view s')
    \<and> (if r = Ok () then replacement_done env u key (view s) (view s') else True)"
proof -
  from wpD [OF synced_wp [OF assms(1)] assms(8)] consider "unstaged r" "view s' = view s"
    | d stored where "admin_data env (view s) = Ok d" "data_to_value (tlv env) d \<noteq> None"
        "mu_protect u \<or> has_stored_key d \<longrightarrow> printed_key env (view s) = Ok stored"
        "run_outcome (replacement_steps env u key d stored) (view s) r (view s')"
    unfolding synced_outcome_def using assms(6) by fastforce
  then show ?thesis
  proof cases
    case 1
    then show ?thesis by (auto simp: replacement_safe_def)
  next
    case 2
    from run_outcome_prefix [OF 2(4), of "()"] obtain n
      where n: "view s' = card_after (take n (replacement_steps env u key d stored)) (view s)"
        "r = Ok () \<longrightarrow> n = length (replacement_steps env u key d stored)" by blast
    from replacement_prefix [OF assms(2-5,7) 2(1,2,3) n(1)] n(2) show ?thesis by simp
  qed
qed

theorem management_key_recoverable_witness:
  "replacement_safe sim_env sim_update (ManagementKey Tdes sim_new_key) sim_card sim_updated_card
   \<and> replacement_done sim_env sim_update (ManagementKey Tdes sim_new_key) sim_card sim_updated_card"
  using management_key_recoverable [OF sim_laws _ sim_oids _ _ _ sim_replacement [of "DeviceProfile 0"]]
  by (simp add: pivman_tlv_short sim_host_def)

text \<open>C16. A synchronized PIN change replaces the PIN, then the derived key, then its salt: whatever fails, the
  card is one of these states, and success leaves the key derived from the new PIN and the
  recorded fresh salt.\<close>

theorem change_pin_synced_order:
  assumes "card_laws env profile view" and "change_pin_synced env profile old_pin new_pin s = Some (r, s')"
  shows "(\<exists>e. r = Err e \<and> view s' = view s)
    \<or> (\<exists>new d. pin_from_bytes (host env) new_pin = Ok new \<and> admin_data env (view s) = Ok d
         \<and> pin_change_outcome env new_pin new d (view s) r (view s'))"
  by (rule wpD [OF change_pin_synced_wp [OF assms(1)] assms(2)])

theorem change_pin_synced_order_witness:
  "\<exists>new d. pin_from_bytes (host sim_env) sim_new_pin = Ok new \<and> admin_data sim_env sim_derived_card = Ok d
     \<and> pin_change_outcome sim_env sim_new_pin new d sim_derived_card (Ok () :: string piv_error + unit) sim_repinned_card"
  using change_pin_synced_order [OF sim_laws sim_pin_change [of "DeviceProfile 0"]] by simp

end
