(* ===== verification/PivSigning.thy ===== *)
theory PivSigning
  imports Piv
begin

unbundle bit_operations_syntax

text \<open>
  The composite PIV procedures of \<^verbatim>\<open>crates/ckman-core/src/piv.rs\<close>: attestation of a live slot,
  batch key generation with its progress callback, message signing, and the generation of
  self-signed certificates and certificate requests.
\<close>

section \<open>Attestation of a slot\<close>

definition verify_attestation ::
  "('w, 'e) piv_env \<Rightarrow> attest_lib \<Rightarrow> device_profile \<Rightarrow> slot \<Rightarrow> byte list \<Rightarrow> nat
    \<Rightarrow> ('w, 'e piv_error, byte list) proc" where
  "verify_attestation env lib profile s root now =
     proc_bind (lib_result (require_capability (host env) profile CapAttestation)) (\<lambda>_.
     proc_bind (lift_res (ok_or (PivAttestation (Binding ''device serial unavailable''))
       (case profile_serial (host env) profile of
          Some serial \<Rightarrow> if length serial = 4 then Some serial else None | None \<Rightarrow> None))) (\<lambda>serial.
     proc_bind (read_metadata env profile (MetadataKey s) AccessNone) (\<lambda>target.
     proc_bind (attest env profile s) (\<lambda>certificate.
     proc_bind (attestation_certificate env profile) (\<lambda>issuer.
     proc_bind (attestation_metadata env profile) (\<lambda>signer.
     lift_res (map_err PivAttestation (verify lib
       \<lparr>ev_certificate = certificate, ev_issuer = piv_certificate_der issuer, ev_slot = s,
        ev_serial = serial, ev_target = metadata_fields_of target, ev_signer = signer\<rparr> root now))))))))"

section \<open>Batch generation\<close>

datatype ('e, 'c) generate_error = GenOperation "'e piv_error" | GenCallback 'c

text \<open>A slot occurs among the earlier ones.\<close>

fun repeats :: "slot list \<Rightarrow> slot list \<Rightarrow> bool" where
  "repeats seen [] = False"
| "repeats seen (s # ss) = (s \<in> set seen \<or> repeats (seen @ [s]) ss)"

definition validate_generation_slots :: "slot list \<Rightarrow> lib_error + unit" where
  "validate_generation_slots slots =
    (if slots = [] \<or> repeats [] slots then Err (new_error InvalidArgument) else Ok ())"

type_synonym ('w, 'c) progress = "nat \<Rightarrow> public_key \<Rightarrow> ('w, 'c, unit) proc"

fun report_items :: "('w, 'c) progress \<Rightarrow> nat \<Rightarrow> batch_item list \<Rightarrow> ('w, ('e, 'c) generate_error, nat) proc" where
  "report_items progress reported [] = ret reported"
| "report_items progress reported (item # items) = (case item of
     BatchPublicKey public \<Rightarrow>
       proc_bind (proc_map_err GenCallback (progress (reported + 1) public)) (\<lambda>_.
       report_items progress (reported + 1) items)
   | BatchOther _ \<Rightarrow> throw (GenOperation (protocol_error InvalidResponse)))"

partial_function (option) batch_loop ::
  "('w, 'e) piv_env \<Rightarrow> ('w, 'c) progress \<Rightarrow> batch_item list operation \<Rightarrow> step \<Rightarrow> nat \<Rightarrow> 'w
    \<Rightarrow> ((('e, 'c) generate_error + batch_item list) \<times> 'w) option" where
  "batch_loop env progress oper st reported w =
    (if st = StepExchange
     then (case op_command oper of
         Err e \<Rightarrow> Some (Err (GenOperation (PivDrive (Protocol e))), w)
       | Ok command \<Rightarrow> (case env_exchange env command w of
           None \<Rightarrow> None
         | Some (Err e, w) \<Rightarrow> Some (Err (GenOperation (PivDrive (Transport e))), w)
         | Some (Ok response, w) \<Rightarrow> (case op_advance oper response of
             (Err e, oper) \<Rightarrow> Some (Err (GenOperation (PivDrive (Protocol e))), w)
           | (Ok st, oper) \<Rightarrow> (case lib_batch_progress (keys env) oper of
               None \<Rightarrow> batch_loop env progress oper st reported w
             | Some done_items \<Rightarrow> (case report_items progress reported (drop (reported + 1) done_items) w of
                 None \<Rightarrow> None
               | Some (Err e, w) \<Rightarrow> Some (Err e, w)
               | Some (Ok reported, w) \<Rightarrow> batch_loop env progress oper st reported w)))))
     else Some (map_err (\<lambda>e. GenOperation (PivDrive (Protocol e))) (op_take_result oper), w))"

definition public_keys :: "batch_item list \<Rightarrow> public_key list" where
  "public_keys items = List.map_filter (\<lambda>item. case item of BatchPublicKey k \<Rightarrow> Some k | BatchOther _ \<Rightarrow> None) items"

definition generate_keys_with_progress ::
  "('w, 'e) piv_env \<Rightarrow> device_profile \<Rightarrow> key_parameters list \<Rightarrow> management_auth \<Rightarrow> ('w, 'c) progress
    \<Rightarrow> ('w, ('e, 'c) generate_error, public_key list) proc" where
  "generate_keys_with_progress env profile slots management progress =
     proc_bind (lift_res (map_err (\<lambda>e. GenOperation (PivDrive (Protocol e)))
       (validate_generation_slots (map kp_slot slots)))) (\<lambda>_.
     proc_bind (lift_res (map_err (\<lambda>e. GenOperation (PivDrive (Protocol e)))
       (lib_batch (keys env) profile (BatchAuthenticate management # map BatchGenerate slots)))) (\<lambda>oper.
     proc_bind (case op_start oper of
         (Err e, oper) \<Rightarrow> throw (GenOperation (PivDrive (Protocol e)))
       | (Ok st, oper) \<Rightarrow> batch_loop env progress oper st 0) (\<lambda>results.
     let found = public_keys results in
     if length found \<noteq> length slots then throw (GenOperation (protocol_error InvalidResponse))
     else ret found)))"

text \<open>\<^verbatim>\<open>generate_keys\<close>: the callback cannot fail; its error type is empty, here \<open>unit\<close> that the
  callback never returns.\<close>

definition generate_keys ::
  "('w, 'e) piv_env \<Rightarrow> device_profile \<Rightarrow> key_parameters list \<Rightarrow> management_auth \<Rightarrow> (nat \<Rightarrow> 'w \<Rightarrow> 'w)
    \<Rightarrow> ('w, 'e piv_error, public_key list) proc" where
  "generate_keys env profile slots management progress =
     (\<lambda>w. case generate_keys_with_progress env profile slots management
         (\<lambda>n _ w. Some (Ok (), progress n w) :: ((unit + unit) \<times> 'w) option) w of
       None \<Rightarrow> None
     | Some (Ok ks, w) \<Rightarrow> Some (Ok ks, w)
     | Some (Err (GenOperation e), w) \<Rightarrow> Some (Err e, w)
     | Some (Err (GenCallback _), w) \<Rightarrow> None)"

section \<open>Signing\<close>

definition rsa_width :: "algorithm \<Rightarrow> nat" where
  "rsa_width algorithm = (case algorithm of Rsa1024 \<Rightarrow> 128 | Rsa2048 \<Rightarrow> 256 | Rsa3072 \<Rightarrow> 384 | _ \<Rightarrow> 512)"

definition sign_message ::
  "('w, 'e) piv_env \<Rightarrow> device_profile \<Rightarrow> slot \<Rightarrow> algorithm \<Rightarrow> hash_algorithm option \<Rightarrow> byte list \<Rightarrow> access
    \<Rightarrow> ('w, 'e piv_error, byte list) proc" where
  "sign_message env profile s algorithm hash message access =
    (if is_rsa algorithm
     then proc_bind (lift_res (ok_or (PivX509 UnsupportedHash) hash)) (\<lambda>h.
       proc_bind (lift_res (map_err PivX509 (rsa_pkcs1v15_encode (x509 env) h message (rsa_width algorithm)))) (\<lambda>encoded.
       sign env profile s algorithm (RsaEncodedBlock encoded) access))
     else if algorithm \<in> {EccP256, EccP384, EccP521, Secp256k1}
     then proc_bind (lift_res (ok_or (PivX509 UnsupportedHash) hash)) (\<lambda>h.
       sign env profile s algorithm (SignDigest (hash_message (x509 env) h message)) access)
     else if algorithm = Ed25519 then sign env profile s algorithm (SignMessage message) access
     else if algorithm = Sm2
     then run env (lib_sign_streaming (keys env) profile s (StreamSm2 message None) access)
     else if algorithm = MlDsa65
     then run env (lib_sign_streaming (keys env) profile s (StreamMlDsa65 message) access)
     else if algorithm = X25519 then throw (PivX509 (NotSigning ''X25519''))
     else throw (PivX509 (NotSigning ''ML-KEM-768'')))"

record sign_request =
  sr_slot :: slot
  sr_algorithm :: algorithm
  sr_spki_der :: "byte list"
  sr_subject :: "byte list"
  sr_hash :: "hash_algorithm option"
  sr_access :: access

definition clear_sign_bit :: "byte list \<Rightarrow> byte list" where
  "clear_sign_bit serial = serial[0 := serial ! 0 AND 0x7f]"

definition generate_self_signed_certificate ::
  "('w, 'e) piv_env \<Rightarrow> device_profile \<Rightarrow> sign_request \<Rightarrow> int \<Rightarrow> int \<Rightarrow> ('w, 'e piv_error, byte list) proc" where
  "generate_self_signed_certificate env profile request nbefore nafter =
     proc_bind (lift_res (map_err PivX509 (parse_rfc4514 (x509 env) (sr_subject request)))) (\<lambda>subject.
     proc_bind (lift_res (map_err PivX509
       (signature_algorithm (x509 env) (sr_algorithm request) (sr_hash request)))) (\<lambda>sig_algorithm.
     proc_bind (random_bytes env 16) (\<lambda>serial.
     proc_bind (lift_res (map_err PivX509 (tbs_self_signed (x509 env) (sr_spki_der request) subject
       (clear_sign_bit serial) nbefore nafter sig_algorithm))) (\<lambda>tbs.
     proc_bind (sign_message env profile (sr_slot request) (sr_algorithm request) (sr_hash request) tbs
       (sr_access request)) (\<lambda>signature.
     lift_res (map_err PivX509 (assemble_certificate (x509 env) tbs sig_algorithm signature)))))))"

definition generate_csr ::
  "('w, 'e) piv_env \<Rightarrow> device_profile \<Rightarrow> sign_request \<Rightarrow> ('w, 'e piv_error, byte list) proc" where
  "generate_csr env profile request =
     proc_bind (lift_res (map_err PivX509 (parse_rfc4514 (x509 env) (sr_subject request)))) (\<lambda>subject.
     proc_bind (lift_res (map_err PivX509
       (signature_algorithm (x509 env) (sr_algorithm request) (sr_hash request)))) (\<lambda>sig_algorithm.
     proc_bind (lift_res (map_err PivX509
       (certification_request_info (x509 env) (sr_spki_der request) subject))) (\<lambda>cri.
     proc_bind (sign_message env profile (sr_slot request) (sr_algorithm request) (sr_hash request) cri
       (sr_access request)) (\<lambda>signature.
     lift_res (map_err PivX509 (assemble_csr (x509 env) cri sig_algorithm signature))))))"

end
