(* ===== verification/PivBatch.thy ===== *)
theory PivBatch
  imports PivProps PivSigning
begin

text \<open>
  Properties of batch key generation and of certificate signing: distinct targets, the progress
  callback's numbering, and the requests that are refused before the card sees anything.
\<close>

section \<open>Distinct targets\<close>

lemma repeats_iff: "repeats seen ss \<longleftrightarrow> set seen \<inter> set ss \<noteq> {} \<or> \<not> distinct ss"
  by (induction seen ss rule: repeats.induct) auto

lemma validate_slots: "validate_generation_slots slots = Ok () \<longleftrightarrow> slots \<noteq> [] \<and> distinct slots"
  by (simp add: validate_generation_slots_def repeats_iff)

lemma validate_slots_Err: "slots = [] \<or> \<not> distinct slots
    \<Longrightarrow> validate_generation_slots slots = Err (new_error InvalidArgument)"
  by (auto simp: validate_generation_slots_def repeats_iff)

section \<open>The numbering of the callback\<close>

text \<open>A progress callback that records its calls in the world, which the card does not touch.\<close>

definition logs_calls :: "('w \<Rightarrow> (nat \<times> public_key) list) \<Rightarrow> ('w, 'c) progress \<Rightarrow> bool" where
  "logs_calls log progress \<longleftrightarrow> (\<forall>n k w r w'. progress n k w = Some (r, w') \<longrightarrow> log w' = log w @ [(n, k)])"

definition keeps_log :: "('w \<Rightarrow> (nat \<times> public_key) list) \<Rightarrow> ('w, 'e) piv_env \<Rightarrow> bool" where
  "keeps_log log env \<longleftrightarrow> (\<forall>c w r w'. env_exchange env c w = Some (r, w') \<longrightarrow> log w' = log w)"

definition numbered :: "('w \<Rightarrow> (nat \<times> public_key) list) \<Rightarrow> nat \<Rightarrow> 'w \<Rightarrow> 'w \<Rightarrow> nat \<Rightarrow> bool" where
  "numbered log n w w' m \<longleftrightarrow> List.map fst (log w') = List.map fst (log w) @ [n + 1..<m + 1]"

lemma numbered_refl: "log w' = log w \<Longrightarrow> numbered log n w w' n"
  by (simp add: numbered_def)

lemma numbered_trans:
  assumes "numbered log n w w' m" "numbered log m w' w'' k" "n \<le> m" "m \<le> k"
  shows "numbered log n w w'' k"
proof -
  have "[n + 1..<m + 1] @ [m + 1..<k + 1] = [n + 1..<k + 1]"
    using upt_add_eq_append [of "n + 1" "m + 1" "k - m"] assms(3,4) by simp
  with assms(1,2) show ?thesis by (simp add: numbered_def del: upt_Suc)
qed

lemma report_items_numbered:
  assumes "logs_calls log progress" "report_items progress n items w = Some (r, w')"
  shows "\<exists>m \<ge> n. numbered log n w w' m \<and> (\<forall>x. r = Ok x \<longrightarrow> x = m)"
  using assms(2)
proof (induction items arbitrary: n w)
  case Nil
  then show ?case by (auto simp: ret_def numbered_def intro!: exI [of _ n])
next
  case (Cons item items)
  show ?case
  proof (cases item)
    case (BatchOther x)
    with Cons.prems show ?thesis by (auto simp: throw_def numbered_def intro!: exI [of _ n])
  next
    case (BatchPublicKey k)
    from Cons.prems obtain p w1 where call: "progress (n + 1) k w = Some (p, w1)"
      by (cases "progress (n + 1) k w") (auto simp: BatchPublicKey proc_bind_def proc_map_err_def)
    with assms(1) have one: "numbered log n w w1 (n + 1)"
      by (simp add: logs_calls_def numbered_def)
    show ?thesis
    proof (cases p)
      case (Inl e)
      with Cons.prems call one show ?thesis
        by (auto simp: BatchPublicKey proc_bind_def proc_map_err_def intro!: exI [of _ "n + 1"])
    next
      case (Inr u)
      with Cons.prems call have "report_items progress (n + 1) items w1 = Some (r, w')"
        by (simp add: BatchPublicKey proc_bind_def proc_map_err_def)
      from Cons.IH [OF this] obtain m where "n + 1 \<le> m" "numbered log (n + 1) w1 w' m" "\<forall>x. r = Ok x \<longrightarrow> x = m"
        by blast
      with numbered_trans [OF one] show ?thesis by (intro exI [of _ m]) simp
    qed
  qed
qed

text \<open>One turn of the batch loop.\<close>

lemma batch_body:
  fixes progress :: "('w, 'c) progress" and env :: "('w, 'e) piv_env"
    and r :: "('e, 'c) generate_error + batch_item list"
  assumes logs: "logs_calls log progress" and keeps: "keeps_log log env"
    and IH: "\<And>oper st n w r w'. loop env progress oper st n w = Some (r, w') \<Longrightarrow> \<exists>m \<ge> n. numbered log n w w' m"
    and body: "(if st = StepExchange
     then (case op_command oper of
         Err e \<Rightarrow> Some (Err (GenOperation (PivDrive (Protocol e))), w)
       | Ok command \<Rightarrow> (case env_exchange env command w of
           None \<Rightarrow> None
         | Some (Err e, w) \<Rightarrow> Some (Err (GenOperation (PivDrive (Transport e))), w)
         | Some (Ok response, w) \<Rightarrow> (case op_advance oper response of
             (Err e, oper) \<Rightarrow> Some (Err (GenOperation (PivDrive (Protocol e))), w)
           | (Ok st, oper) \<Rightarrow> (case lib_batch_progress (keys env) oper of
               None \<Rightarrow> loop env progress oper st n w
             | Some done_items \<Rightarrow> (case report_items progress n (drop (n + 1) done_items) w of
                 None \<Rightarrow> None
               | Some (Err e, w) \<Rightarrow> Some (Err e, w)
               | Some (Ok n, w) \<Rightarrow> loop env progress oper st n w)))))
     else Some (map_err (\<lambda>e. GenOperation (PivDrive (Protocol e))) (op_take_result oper), w)) = Some (r, w')"
  shows "\<exists>m \<ge> n. numbered log n w w' m"
proof (cases "st = StepExchange \<and> is_ok (op_command oper)")
  case False
  with body have "w' = w" by (auto split: if_splits sum.splits)
  then show ?thesis by (auto intro: numbered_refl)
next
  case True
  then obtain c where st: "st = StepExchange" and c: "op_command oper = Ok c" by (cases "op_command oper") auto
  from body st c obtain x w1 where ex: "env_exchange env c w = Some (x, w1)"
    by (cases "env_exchange env c w") auto
  with keeps have same: "log w1 = log w" unfolding keeps_log_def by blast
  show ?thesis
  proof (cases "\<exists>resp oper' st'. x = Ok resp \<and> op_advance oper resp = (Ok st', oper')")
    case False
    with body st c ex have "w' = w1" by (auto split: sum.splits prod.splits)
    with same show ?thesis by (auto intro: numbered_refl)
  next
    case True
    then obtain resp oper' st' where go: "x = Ok resp" "op_advance oper resp = (Ok st', oper')" by blast
    show ?thesis
    proof (cases "lib_batch_progress (keys env) oper'")
      case None
      with body st c ex go have "loop env progress oper' st' n w1 = Some (r, w')" by simp
      from IH [OF this] same show ?thesis by (simp add: numbered_def)
    next
      case (Some items)
      with body st c ex go obtain y :: "('e, 'c) generate_error + nat" and w2
        where rep: "report_items progress n (drop (n + 1) items) w1 = Some (y, w2)"
        by (cases "report_items progress n (drop (n + 1) items) w1 :: ((('e, 'c) generate_error + nat) \<times> 'w) option") auto
      from report_items_numbered [OF logs rep] obtain m where m: "m \<ge> n" "numbered log n w1 w2 m" "\<forall>x. y = Ok x \<longrightarrow> x = m"
        by blast
      show ?thesis
      proof (cases y)
        case (Inl e)
        with body st c ex go Some rep have "w' = w2" by simp
        with m same show ?thesis by (auto simp: numbered_def)
      next
        case (Inr k)
        with body st c ex go Some rep m(3) have "loop env progress oper' st' m w2 = Some (r, w')" by simp
        from IH [OF this] obtain l where "m \<le> l" "numbered log m w2 w' l" by blast
        with numbered_trans [OF m(2)] m(1) same show ?thesis by (intro exI [of _ l]) (simp add: numbered_def)
      qed
    qed
  qed
qed

lemma batch_loop_numbered:
  assumes "logs_calls log progress" "keeps_log log env" "batch_loop env progress oper st n w = Some (r, w')"
  shows "\<exists>m \<ge> n. numbered log n w w' m"
proof -
  have "logs_calls log progress \<longrightarrow> keeps_log log env \<longrightarrow> (\<exists>m \<ge> n. numbered log n w (snd (r, w')) m)"
    apply (rule batch_loop.raw_induct [OF _ assms(3), where P = "\<lambda>env progress oper st n w res.
        logs_calls log progress \<longrightarrow> keeps_log log env \<longrightarrow> (\<exists>m \<ge> n. numbered log n w (snd res) m)"])
    subgoal premises prems for loop env progress oper st n w res
    proof (cases res)
      case (Pair r w')
      show ?thesis
        using batch_body [where loop = loop and log = log and progress = progress and env = env and st = st
            and oper = oper and w = w and n = n and r = r and w' = w'] prems Pair by fastforce
    qed
    done
  with assms(1,2) show ?thesis by simp
qed

section \<open>Requests that never reach the card\<close>

lemma signature_algorithm_Err:
  assumes "algorithm \<in> {X25519, MlKem768} \<or> (hash = None \<and> (is_rsa algorithm \<or> algorithm \<in> {EccP256, EccP384, EccP521, Secp256k1}))"
  shows "\<exists>e. signature_algorithm lib algorithm hash = Err e"
  using assms by (cases algorithm) (auto simp: signature_algorithm_def signature_oid_def is_rsa_def)

definition sim_batch_env :: "((nat \<times> public_key) list, string) piv_env" where
  "sim_batch_env = \<lparr>env_exchange = \<lambda>_ w. Some (Ok [0x90, 0], w), fill_random = \<lambda>n. ret (replicate n 7),
     secrets = sim_secrets, objects = sim_objects,
     keys = sim_keys\<lparr>
       lib_batch := \<lambda>_ requests. Ok (single_operation [1] (\<lambda>_. Ok (BatchOther 0 # map (\<lambda>_. BatchPublicKey (PkRaw Ed25519 [1])) (tl requests)))),
       lib_batch_progress := \<lambda>oper. case op_take_result oper of Ok items \<Rightarrow> Some items | Err _ \<Rightarrow> None\<rparr>,
     host = sim_host, tlv = short_tlv, x509 = sample_x509\<rparr>"

definition sim_targets :: "slot list \<Rightarrow> key_parameters list" where
  "sim_targets = map (\<lambda>s. \<lparr>kp_slot = s, kp_algorithm = Ed25519, kp_pin_policy = PinDefault, kp_touch_policy = TouchDefault\<rparr>)"

definition sim_progress :: "((nat \<times> public_key) list, string) progress" where
  "sim_progress = (\<lambda>n k w. Some (Ok (), w @ [(n, k)]))"

section \<open>Properties\<close>

text \<open>A batch targets at least one slot and no slot twice; anything else is refused, and a refused batch
  performs no exchange and calls no callback.\<close>

theorem batch_targets_distinct:
  "(validate_generation_slots (map kp_slot slots) = Ok () \<longleftrightarrow> slots \<noteq> [] \<and> distinct (map kp_slot slots))
   \<and> (if slots \<noteq> [] \<and> distinct (map kp_slot slots) then True
      else generate_keys_with_progress env profile slots management progress w
        = Some (Err (GenOperation (protocol_error InvalidArgument)), w))"
proof (cases "slots \<noteq> [] \<and> distinct (map kp_slot slots)")
  case True
  then show ?thesis using validate_slots [of "map kp_slot slots"] by simp
next
  case False
  then have "validate_generation_slots (map kp_slot slots) = Err (new_error InvalidArgument)"
    by (intro validate_slots_Err) auto
  with False show ?thesis by (simp add: generate_keys_with_progress_def protocol_error_def throw_run)
qed

text \<open>The progress callback is called with the counts 1, 2, 3, and so on, each once and in order, whether the
  batch completes, fails or is stopped by the callback.\<close>

theorem progress_counts_consecutive:
  assumes "logs_calls log progress" "keeps_log log env"
    and "generate_keys_with_progress env profile slots management progress w = Some (r, w')"
  shows "\<exists>m. List.map fst (log w') = List.map fst (log w) @ [1..<m + 1]"
proof -
  consider "w' = w" | oper st x where "batch_loop env progress oper st 0 w = Some (x, w')"
    using assms(3) unfolding generate_keys_with_progress_def
    by (auto simp: proc_bind_def lift_res_def throw_def ret_def Let_def split: option.splits sum.splits prod.splits if_splits)
  then show ?thesis
  proof cases
    case 1
    then show ?thesis by (intro exI [of _ 0]) simp
  next
    case 2
    from batch_loop_numbered [OF assms(1,2) 2] show ?thesis by (auto simp: numbered_def)
  qed
qed

theorem progress_counts_consecutive_witness:
  "\<exists>m. List.map fst [(1, PkRaw Ed25519 [1]), (2, PkRaw Ed25519 [1])] = List.map fst ([] :: (nat \<times> public_key) list) @ [1..<m + 1]"
proof -
  have run: "generate_keys_with_progress sim_batch_env (DeviceProfile 0) (sim_targets [Signature, Retired 1])
     (AuthExternal (ManagementKey Tdes [])) sim_progress []
     = Some (Ok [PkRaw Ed25519 [1], PkRaw Ed25519 [1]], [(1, PkRaw Ed25519 [1]), (2, PkRaw Ed25519 [1])])"
    by (simp add: generate_keys_with_progress_def sim_batch_env_def sim_targets_def sim_progress_def
        validate_generation_slots_def proc_bind_def ret_def proc_map_err_def batch_loop.simps public_keys_def
        Let_def List.map_filter_simps)
  have "logs_calls id sim_progress" "keeps_log id sim_batch_env"
    by (simp_all add: logs_calls_def keeps_log_def sim_progress_def sim_batch_env_def)
  from progress_counts_consecutive [OF this run] show ?thesis by simp
qed

text \<open>A key that cannot sign, or an RSA or EC request without a hash, is refused before any exchange with the
  card, for certificates and for requests.\<close>

theorem unsignable_never_reaches_card:
  assumes "sr_algorithm request \<in> {X25519, MlKem768}
      \<or> (sr_hash request = None
          \<and> (is_rsa (sr_algorithm request) \<or> sr_algorithm request \<in> {EccP256, EccP384, EccP521, Secp256k1}))"
  shows "\<exists>e e'. generate_csr env profile request w = Some (Err (PivX509 e), w)
    \<and> generate_self_signed_certificate env profile request nbefore nafter w = Some (Err (PivX509 e'), w)"
proof -
  from signature_algorithm_Err [OF assms] obtain e where "signature_algorithm (x509 env) (sr_algorithm request) (sr_hash request) = Err e"
    by blast
  then show ?thesis
    by (cases "parse_rfc4514 (x509 env) (sr_subject request)")
      (simp_all add: generate_csr_def generate_self_signed_certificate_def throw_run)
qed

theorem unsignable_never_reaches_card_witness:
  "\<exists>e e'. generate_csr sim_env (DeviceProfile 0) \<lparr>sr_slot = Signature, sr_algorithm = X25519, sr_spki_der = [],
       sr_subject = [], sr_hash = None, sr_access = AccessNone\<rparr> sim_card = Some (Err (PivX509 e), sim_card)
    \<and> generate_self_signed_certificate sim_env (DeviceProfile 0) \<lparr>sr_slot = Signature, sr_algorithm = X25519, sr_spki_der = [],
       sr_subject = [], sr_hash = None, sr_access = AccessNone\<rparr> 0 1 sim_card = Some (Err (PivX509 e'), sim_card)"
  by (rule unsignable_never_reaches_card) simp

end
