(* ===== verification/OathTypes.thy ===== *)
theory OathTypes
  imports Prelude
begin

text \<open>
  The enums \<open>Kind\<close> and \<open>Algorithm\<close> of \<^verbatim>\<open>canokey::oath\<close>, by the constructors the code names; the URI
  parser, the OATH wrappers and the command line share them.
\<close>

datatype otp_kind = Totp | Hotp

datatype otp_algorithm = Sha1 | Sha256 | Sha512

end
