(* ===== verification/Oath.thy ===== *)
theory Oath
  imports Strings Drive OathTypes
begin

unbundle bit_operations_syntax

text \<open>
  The OATH wrappers of \<^verbatim>\<open>crates/ckman-core/src/oath.rs\<close>: one request per operation with the kind of
  outcome it accepts, key derivation, the TOTP time step, Steam codes, and the display convention
  for credential names.  The types of \<^verbatim>\<open>canokey::oath\<close> have the constructors the code names.
\<close>

section \<open>Types\<close>

datatype oath_format = FormatFull | FormatTruncated
datatype oath_name = OathName (name_bytes: "byte list")
datatype access_key = AccessKey (access_key_bytes: "byte list")
datatype hmac_slot = HmacShort | HmacLong
datatype default_slot = SlotShort | SlotLong

record oath_access =
  oa_key :: access_key
  oa_challenge :: "byte list"

record oath_credential =
  oc_name :: oath_name
  oc_kind :: otp_kind
  oc_algorithm :: otp_algorithm
  oc_digits :: u8
  oc_secret :: "byte list"
  oc_require_touch :: bool
  oc_increasing :: bool
  oc_initial_counter :: u32

record oath_entry =
  oe_name :: oath_name
  oe_algorithm_type :: byte

datatype oath_code = CodeTruncated "byte list" | CodeFull "byte list" | CodeHotp | CodeTouchRequired | CodeOther nat

record calculation =
  calc_name :: oath_name
  calc_code :: oath_code
  calc_digits :: u8

record oath_selection =
  sel_version :: "byte list"
  sel_handle :: "byte list"
  sel_challenge :: "byte list option"

datatype oath_request =
    ReqSelect | ReqValidate | ReqList | ReqPut oath_credential
  | ReqRename oath_name oath_name | ReqDelete oath_name
  | ReqCalculate oath_name otp_kind otp_algorithm "byte list option" oath_format
  | ReqCalculateAll "byte list" oath_format
  | ReqGetSerial | ReqChallengeResponseHmac hmac_slot "byte list"
  | ReqSetDefault default_slot bool oath_name
  | ReqSetCode access_key "byte list" | ReqClearCode

datatype oath_outcome =
    OutSelection oath_selection | OutLegacySelection "byte list option" | OutUnit
  | OutEntries "oath_entry list" | OutCalculations "calculation list"
  | OutSerial "byte list" | OutChallengeResponse "byte list" | OutOther nat

record ('w, 'e) oath_env =
  oath_exchange :: "('w, 'e) exchange"
  oath_random :: "nat \<Rightarrow> ('w, random_error, byte list) proc"
  oath_operation :: "device_profile \<Rightarrow> oath_request \<Rightarrow> oath_access option \<Rightarrow> lib_error + oath_outcome operation"
  access_key_from_bytes :: "byte list \<Rightarrow> lib_error + access_key"
  from_password :: "byte list \<Rightarrow> byte list \<Rightarrow> access_key"
  oath_pbkdf2_sha1 :: "byte list \<Rightarrow> byte list \<Rightarrow> nat \<Rightarrow> nat \<Rightarrow> byte list"
  name_from_bytes :: "byte list \<Rightarrow> lib_error + oath_name"
  calculation_decimal :: "calculation \<Rightarrow> byte list option"

section \<open>Operations\<close>

definition DEFAULT_PERIOD :: nat where "DEFAULT_PERIOD = 30"

datatype 'e oath_error = OathDrive "'e drive_error" | OathRandom random_error

datatype selected = Modern oath_selection | Legacy "byte list option"

definition selected_version :: "selected \<Rightarrow> byte list option" where
  "selected_version s = (case s of Modern m \<Rightarrow> Some (sel_version m) | Legacy _ \<Rightarrow> None)"

definition selected_handle :: "selected \<Rightarrow> byte list option" where
  "selected_handle s = (case s of Modern m \<Rightarrow> Some (sel_handle m) | Legacy _ \<Rightarrow> None)"

definition selected_locked :: "selected \<Rightarrow> bool" where
  "selected_locked s = (case s of Modern m \<Rightarrow> sel_challenge m \<noteq> None | Legacy _ \<Rightarrow> False)"

definition unexpected :: "'e oath_error" where
  "unexpected = OathDrive (Protocol (at_phase (new_error InvalidResponse) PhaseParsing))"

definition oath_run ::
  "('w, 'e) oath_env \<Rightarrow> device_profile \<Rightarrow> oath_request \<Rightarrow> oath_access option \<Rightarrow> ('w, 'e oath_error, oath_outcome) proc" where
  "oath_run env profile request access =
     proc_bind (lift_res (map_err (\<lambda>e. OathDrive (Protocol e)) (oath_operation env profile request access))) (\<lambda>oper.
     proc_map_err OathDrive (execute oper (oath_exchange env)))"

definition oath_select where
  "oath_select env profile = proc_bind (oath_run env profile ReqSelect None) (\<lambda>out. case out of
     OutSelection selection \<Rightarrow> ret (Modern selection)
   | OutLegacySelection serial \<Rightarrow> ret (Legacy serial)
   | _ \<Rightarrow> throw unexpected)"

text \<open>The match of an outcome that carries no value, and of each kind that carries one.\<close>

definition expect_unit :: "oath_outcome \<Rightarrow> ('w, 'e oath_error, unit) proc" where
  "expect_unit out = (case out of OutUnit \<Rightarrow> ret () | _ \<Rightarrow> throw unexpected)"

definition oath_validate where
  "oath_validate env profile access = proc_bind (oath_run env profile ReqValidate (Some access)) expect_unit"

definition oath_list where
  "oath_list env profile access = proc_bind (oath_run env profile ReqList access) (\<lambda>out. case out of
     OutEntries entries \<Rightarrow> ret entries | _ \<Rightarrow> throw unexpected)"

definition oath_add where
  "oath_add env profile access credential =
     proc_bind (oath_run env profile (ReqPut credential) access) expect_unit"

definition oath_rename where
  "oath_rename env profile access old new =
     proc_bind (oath_run env profile (ReqRename old new) access) expect_unit"

definition oath_delete where
  "oath_delete env profile access name = proc_bind (oath_run env profile (ReqDelete name) access) expect_unit"

record credential_ref =
  cr_name :: oath_name
  cr_kind :: otp_kind
  cr_algorithm :: otp_algorithm

definition oath_calculate where
  "oath_calculate env profile access credential challenge format =
     proc_bind (oath_run env profile
       (ReqCalculate (cr_name credential) (cr_kind credential) (cr_algorithm credential) challenge format) access) (\<lambda>out.
     case out of
       OutCalculations calculations \<Rightarrow>
         if length calculations = 1 then ret (hd calculations) else throw unexpected
     | _ \<Rightarrow> throw unexpected)"

definition oath_calculate_all where
  "oath_calculate_all env profile access challenge format =
     proc_bind (oath_run env profile (ReqCalculateAll challenge format) access) (\<lambda>out. case out of
       OutCalculations calculations \<Rightarrow> ret calculations | _ \<Rightarrow> throw unexpected)"

definition get_serial where
  "get_serial env profile = proc_bind (oath_run env profile ReqGetSerial None) (\<lambda>out. case out of
     OutSerial serial \<Rightarrow> ret serial | _ \<Rightarrow> throw unexpected)"

definition challenge_response_hmac where
  "challenge_response_hmac env profile s challenge =
     proc_bind (oath_run env profile (ReqChallengeResponseHmac s challenge) None) (\<lambda>out. case out of
       OutChallengeResponse response \<Rightarrow> ret response | _ \<Rightarrow> throw unexpected)"

definition set_default where
  "set_default env profile s append_enter name access =
     proc_bind (oath_run env profile (ReqSetDefault s append_enter name) access) expect_unit"

definition set_password where
  "set_password env profile access new_key =
     proc_bind (proc_map_err OathRandom (oath_random env 8)) (\<lambda>challenge.
     proc_bind (oath_run env profile (ReqSetCode new_key challenge) access) expect_unit)"

definition clear_password where
  "clear_password env profile access = proc_bind (oath_run env profile ReqClearCode access) expect_unit"

section \<open>Keys and challenges\<close>

definition derive_key_bytes :: "('w, 'e) oath_env \<Rightarrow> byte list \<Rightarrow> byte list \<Rightarrow> byte list" where
  "derive_key_bytes env password handle = oath_pbkdf2_sha1 env password handle 1000 16"

text \<open>\<open>None\<close> is the panic of \<^verbatim>\<open>expect\<close>.\<close>

definition access_key :: "('w, 'e) oath_env \<Rightarrow> byte list \<Rightarrow> access_key option" where
  "access_key env key = (case access_key_from_bytes env key of Ok k \<Rightarrow> Some k | Err _ \<Rightarrow> None)"

definition access_key_from_password where
  "access_key_from_password env password handle = from_password env password handle"

definition access_from_key :: "('w, 'e) oath_env \<Rightarrow> access_key \<Rightarrow> ('w, random_error, oath_access) proc" where
  "access_from_key env key = proc_bind (oath_random env 8) (\<lambda>challenge.
     ret \<lparr>oa_key = key, oa_challenge = challenge\<rparr>)"

text \<open>\<open>None\<close> is the failed assertion on the period.\<close>

definition totp_challenge :: "u64 \<Rightarrow> u32 \<Rightarrow> byte list option" where
  "totp_challenge timestamp period =
    (if period > 0 then Some (be_bytes64 (timestamp div ucast period)) else None)"

section \<open>Steam codes\<close>

definition STEAM_CHARS :: "byte list" where
  "STEAM_CHARS = lit ''23456789BCDFGHJKMNPQRTVWXY''"

definition steam_value :: "oath_code \<Rightarrow> u32 option" where
  "steam_value code = (case code of
     CodeTruncated bytes \<Rightarrow> if length bytes = 4 then Some (from_be32 bytes) else None
   | CodeFull bytes \<Rightarrow>
       if bytes = [] then None
       else let offset = unat (last bytes AND 0x0f) in
         if offset + 4 \<le> length bytes then Some (from_be32 (subslice offset (offset + 4) bytes) AND 0x7fffffff)
         else None
   | _ \<Rightarrow> None)"

fun steam_digits :: "nat \<Rightarrow> u32 \<Rightarrow> byte list" where
  "steam_digits 0 code = []"
| "steam_digits (Suc n) code =
     STEAM_CHARS ! (unat code mod length STEAM_CHARS) # steam_digits n (code div word_of_nat (length STEAM_CHARS))"

definition steam_code :: "calculation \<Rightarrow> byte list option" where
  "steam_code calculation = map_option (steam_digits 5) (steam_value (calc_code calculation))"

section \<open>Names\<close>

record parsed_name =
  pn_issuer :: "byte list option"
  pn_account :: "byte list"
  pn_period :: nat

definition is_ascii_digit :: "byte \<Rightarrow> bool" where
  "is_ascii_digit b \<longleftrightarrow> 0x30 \<le> b \<and> b \<le> 0x39"

definition numeric_prefix :: "byte list \<Rightarrow> bool" where
  "numeric_prefix head \<longleftrightarrow> head \<noteq> [] \<and> (\<forall>b \<in> set head. is_ascii_digit b)"

definition parse_period :: "otp_kind \<Rightarrow> byte list \<Rightarrow> nat \<times> byte list" where
  "parse_period kind rest =
    (if kind = Totp
     then (case split_once 0x2f rest of
         Some (head, tail) \<Rightarrow>
           if numeric_prefix head
           then (case parse_u32 head of Some parsed \<Rightarrow> (parsed, tail) | None \<Rightarrow> (DEFAULT_PERIOD, rest))
           else (DEFAULT_PERIOD, rest)
       | None \<Rightarrow> (DEFAULT_PERIOD, rest))
     else (0, rest))"

definition parse_issuer :: "byte list \<Rightarrow> byte list option \<times> byte list" where
  "parse_issuer rest =
    (if starts_with [0x3a] rest then (None, rest)
     else (case split_once 0x3a rest of Some (head, tail) \<Rightarrow> (Some head, tail) | None \<Rightarrow> (None, rest)))"

definition parse_name :: "byte list \<Rightarrow> otp_kind \<Rightarrow> parsed_name" where
  "parse_name raw kind =
    (let (period, rest) = parse_period kind (utf8_lossy raw);
         (issuer, account) = parse_issuer rest
     in \<lparr>pn_issuer = issuer, pn_account = account, pn_period = period\<rparr>)"

definition format_id :: "byte list option \<Rightarrow> byte list \<Rightarrow> otp_kind \<Rightarrow> nat \<Rightarrow> byte list" where
  "format_id issuer account kind period =
    (let id = (case issuer of Some i \<Rightarrow> if i \<noteq> [] then i @ [0x3a] else [] | None \<Rightarrow> []) @ account;
         ambiguous = (case split_once 0x2f id of Some (head, _) \<Rightarrow> numeric_prefix head | None \<Rightarrow> False)
     in if kind = Totp \<and> (period \<noteq> DEFAULT_PERIOD \<or> ambiguous)
        then lit (show_nat period) @ [0x2f] @ id else id)"

section \<open>Reading and printing names\<close>

text \<open>The issuers that the \<open>issuer:account\<close> convention can express.\<close>

definition issuer_fits :: "byte list option \<Rightarrow> byte list \<Rightarrow> bool" where
  "issuer_fits issuer account = (case issuer of
     Some i \<Rightarrow> i \<noteq> [] \<and> 0x3a \<notin> set i \<and> utf8_valid i
   | None \<Rightarrow> 0x3a \<notin> set account \<or> starts_with [0x3a] account)"

definition id_body :: "byte list option \<Rightarrow> byte list \<Rightarrow> byte list" where
  "id_body issuer account = (case issuer of Some i \<Rightarrow> i @ 0x3a # account | None \<Rightarrow> account)"

lemma parse_issuer_body: "issuer_fits issuer account \<Longrightarrow> parse_issuer (id_body issuer account) = (issuer, account)"
  by (auto simp: issuer_fits_def id_body_def parse_issuer_def starts_with_def take_Suc neq_Nil_conv
      split: option.splits)

lemma utf8_valid_body: "issuer_fits issuer account \<Longrightarrow> utf8_valid account \<Longrightarrow> utf8_valid (id_body issuer account)"
  by (auto simp: issuer_fits_def id_body_def utf8_valid_split split: option.splits)

lemma numeric_show_nat: "numeric_prefix (lit (show_nat n))"
  using show_nat_digits [of n] show_nat_nonempty [of n] by (simp add: numeric_prefix_def is_ascii_digit_def)

lemma numeric_utf8: "numeric_prefix s \<Longrightarrow> utf8_valid s"
  by (rule utf8_valid_ascii) (auto simp: numeric_prefix_def is_ascii_digit_def word_le_nat_alt word_less_nat_alt)

lemma numeric_no_slash: "numeric_prefix s \<Longrightarrow> 0x2f \<notin> set s"
  by (auto simp: numeric_prefix_def is_ascii_digit_def)

lemma format_id_body:
  assumes "issuer_fits issuer account"
  shows "format_id issuer account kind period =
    (if kind = Totp \<and> (period \<noteq> DEFAULT_PERIOD
         \<or> (\<exists>head tail. split_once 0x2f (id_body issuer account) = Some (head, tail) \<and> numeric_prefix head))
     then lit (show_nat period) @ 0x2f # id_body issuer account else id_body issuer account)"
  using assms
  by (auto simp: format_id_def id_body_def issuer_fits_def Let_def split: option.splits prod.splits)

lemma parse_period_format:
  assumes "issuer_fits issuer account" "period < 2 ^ 32" "kind = Hotp \<longrightarrow> period = 0"
  shows "parse_period kind (format_id issuer account kind period) = (period, id_body issuer account)"
proof (cases "kind = Totp")
  case False
  then have "kind = Hotp" by (cases kind) simp_all
  with assms False show ?thesis by (simp add: format_id_body parse_period_def)
next
  case True
  let ?b = "id_body issuer account"
  show ?thesis
  proof (cases "period \<noteq> DEFAULT_PERIOD \<or> (\<exists>head tail. split_once 0x2f ?b = Some (head, tail) \<and> numeric_prefix head)")
    case wrote: True
    have "parse_u32 (lit (show_nat period)) = Some period"
      unfolding parse_u32_def using assms(2) by (intro parse_unsigned_show) simp
    with True wrote assms(1) numeric_show_nat [of period] numeric_no_slash [OF numeric_show_nat]
    show ?thesis by (simp add: format_id_body parse_period_def)
  next
    case False
    then have "format_id issuer account kind period = ?b" and "period = DEFAULT_PERIOD"
      and "\<And>head tail. split_once 0x2f ?b = Some (head, tail) \<Longrightarrow> \<not> numeric_prefix head"
      using assms(1) True by (auto simp: format_id_body)
    then show ?thesis using True by (auto simp: parse_period_def split: option.splits prod.splits)
  qed
qed

lemma utf8_valid_format:
  assumes "issuer_fits issuer account" "utf8_valid account"
  shows "utf8_valid (format_id issuer account kind period)"
  using utf8_valid_body [OF assms] numeric_utf8 [OF numeric_show_nat [of period]] assms(1)
  by (simp add: format_id_body utf8_valid_split)

section \<open>Steam values\<close>

lemma steam_digits_nth:
  "steam_digits n v = map (\<lambda>i. STEAM_CHARS ! (unat v div 26 ^ i mod 26)) [0..<n]"
proof (induction n arbitrary: v)
  case (Suc n)
  have len: "length STEAM_CHARS = 26" by (simp add: STEAM_CHARS_def lit_def)
  have d: "unat (v div 26) = unat v div 26" by (simp add: unat_div)
  have "map (\<lambda>i. STEAM_CHARS ! (unat v div 26 ^ i mod 26)) [0..<Suc n]
      = STEAM_CHARS ! (unat v mod 26) # map (\<lambda>i. STEAM_CHARS ! (unat v div 26 ^ Suc i mod 26)) [0..<n]"
    by (simp add: upt_conv_Cons map_Suc_upt [symmetric] del: upt_Suc power_Suc)
  also have "map (\<lambda>i. STEAM_CHARS ! (unat v div 26 ^ Suc i mod 26)) [0..<n] = steam_digits n (v div 26)"
    by (simp add: Suc.IH d div_mult2_eq)
  finally show ?case by (simp add: len)
qed simp

section \<open>Properties\<close>

text \<open>C22. The display convention for credential names is lossless: formatting an issuer, account and period and
  reading the name back gives them again, even when the account itself looks like a period prefix
  or contains the separators.\<close>

theorem credential_name_roundtrip:
  assumes "issuer_fits issuer account" "utf8_valid account" "period < 2 ^ 32" "kind = Hotp \<longrightarrow> period = 0"
  shows "parse_name (format_id issuer account kind period) kind =
    \<lparr>pn_issuer = issuer, pn_account = account, pn_period = period\<rparr>"
  using utf8_lossy_valid [OF utf8_valid_format [OF assms(1,2)]] parse_period_format [OF assms(1,3,4)]
    parse_issuer_body [OF assms(1)]
  by (simp add: parse_name_def)

theorem credential_name_roundtrip_witness:
  "parse_name (format_id None (lit ''60/alice/2'') Totp 30) Totp =
    \<lparr>pn_issuer = None, pn_account = lit ''60/alice/2'', pn_period = 30\<rparr>"
proof (rule credential_name_roundtrip)
  show "issuer_fits None (lit ''60/alice/2'')" by code_simp
  show "utf8_valid (lit ''60/alice/2'')" by (rule utf8_valid_ascii) code_simp
qed simp_all

text \<open>A Steam code is the five least significant base-26 digits, least first, of the dynamically truncated
  response, for a full HMAC as for one the card truncated, and of nothing else.\<close>

theorem steam_code_digits:
  "steam_code c = (case calc_code c of
     CodeTruncated bytes \<Rightarrow>
       if length bytes = 4
       then Some (map (\<lambda>i. STEAM_CHARS ! (unat (from_be32 bytes) div 26 ^ i mod 26)) [0..<5]) else None
   | CodeFull bytes \<Rightarrow>
       (let offset = unat (last bytes AND 0x0f) in
        if bytes \<noteq> [] \<and> offset + 4 \<le> length bytes
        then Some (map (\<lambda>i. STEAM_CHARS ! (unat (from_be32 (take 4 (drop offset bytes)) AND 0x7fffffff) div 26 ^ i mod 26)) [0..<5])
        else None)
   | _ \<Rightarrow> None)"
  by (cases "calc_code c")
    (simp_all add: steam_code_def steam_value_def steam_digits_nth Let_def subslice_def del: upt_Suc)

end
