(* ===== verification/Admin.thy ===== *)
theory Admin
  imports Cli
begin

unbundle bit_operations_syntax

text \<open>
  The Admin wrappers of \<^verbatim>\<open>crates/ckman-core/src/admin.rs\<close>: one request per operation with the kinds
  of value it accepts, and the two layouts of the CTAP SM2 configuration.  Values of
  \<^verbatim>\<open>canokey::admin\<close> are records of what their accessors give.
\<close>

section \<open>Types\<close>

datatype applet = AppletCtap | AppletOath | AppletPass | AppletPiv | AppletOpenPgp | AppletNdef | OtherApplet nat

datatype support = Supported | Unsupported | SupportUnknown

record modern_configuration =
  mc_led_on :: bool
  mc_ndef_enabled :: bool
  mc_ndef_read_only :: bool
  mc_webusb_landing :: bool
  mc_features :: u8

record legacy_configuration =
  lc_led_on :: bool
  lc_ndef_read_only :: bool
  lc_ndef_enabled :: "bool option"
  lc_webusb_landing :: "bool option"
  lc_keyboard_interface :: "bool option"
  lc_keyboard_return :: "bool option"
  lc_openpgp_touch :: "byte list option"

text \<open>The fields of a patch that the program can set.\<close>

record configuration_patch =
  cp_led_on :: "bool option"
  cp_ndef_read_only :: "bool option"
  cp_webusb_landing :: "bool option"

datatype pass_slot_id = PassShort | PassLong
datatype pass_slot_config = PassConfigOff | PassConfigStatic "byte list" bool | PassConfigHmacSha1 "byte list"
datatype pass_slot_state = PassOff | PassStatic bool | PassHmacSha1 | PassOath "byte list" bool | PassUnknown u8

record pass_slots =
  ps_short :: pass_slot_state
  ps_long :: pass_slot_state

datatype keymap = Keymap (keymap_bytes: "byte list")

record flash_usage =
  fu_used_kib :: nat
  fu_total_kib :: nat

record applet_usage =
  au_applet_id :: nat
  au_logical_bytes :: nat

record admin_pin_status =
  aps_verified :: bool
  aps_retries_remaining :: "nat option"
  aps_blocked :: bool

text \<open>Identifiers are \<^verbatim>\<open>i32\<close>, kept as their 32 bits; the legacy layout is its nine raw bytes.\<close>

record sm2_configuration =
  sm2_curve_id :: u32
  sm2_algorithm_id :: u32

datatype legacy_sm2 = LegacySm2 (legacy_raw: "byte list")

record sm2_patch =
  sp_curve_id :: "u32 option"
  sp_algorithm_id :: "u32 option"

datatype admin_request =
    AReqConfiguration | AReqNfcStatus | AReqSetNfc bool | AReqResetApplet applet | AReqFactoryReset
  | AReqVerifyPin | AReqChangePin admin_pin | AReqPassSlots | AReqSetPassSlot pass_slot_id pass_slot_config
  | AReqConfigure configuration_patch | AReqKeyboardLayout | AReqKeyboardKeymap
  | AReqSetKeyboardKeymap u8 keymap | AReqClearKeyboardKeymap | AReqSetKeyboardReturn bool | AReqChipId
  | AReqCoreCommit | AReqFlashUsage | AReqAppletUsage | AReqSm2Configuration | AReqWriteLegacySm2 legacy_sm2
  | AReqConfigureSm2 sm2_patch | AReqPinStatus

datatype admin_value =
    AValConfiguration modern_configuration | AValLegacyConfiguration legacy_configuration
  | AValNfcStatus bool | AValPassSlots pass_slots | AValKeyboardLayout u8 | AValKeyboardKeymap keymap
  | AValBytes "byte list" | AValFlashUsage flash_usage | AValAppletUsage "applet_usage list"
  | AValSm2Configuration sm2_configuration | AValLegacySm2Configuration legacy_sm2
  | AValPinStatus admin_pin_status | AValUnit | AValOther nat

record ('w, 'e) admin_env =
  admin_exchange :: "('w, 'e) exchange"
  admin_operation :: "device_profile \<Rightarrow> admin_request \<Rightarrow> admin_pin option \<Rightarrow> lib_error + admin_value operation"
  admin_operation_existing :: "device_profile \<Rightarrow> admin_request \<Rightarrow> lib_error + admin_value operation"
  capability_public_configuration :: "device_profile \<Rightarrow> support"
  legacy_sm2_supported :: "device_profile \<Rightarrow> bool"
  legacy_sm2_from_bytes :: "byte list \<Rightarrow> lib_error + legacy_sm2"
  legacy_sm2_enabled :: "legacy_sm2 \<Rightarrow> bool"

section \<open>Wrappers\<close>

datatype admin_configuration = AdminModern modern_configuration | AdminLegacy legacy_configuration

definition unexpected_value :: "'e drive_error" where
  "unexpected_value = Protocol (at_phase (new_error InvalidResponse) PhaseParsing)"

definition admin_run ::
  "('w, 'e) admin_env \<Rightarrow> device_profile \<Rightarrow> admin_request \<Rightarrow> admin_pin option \<Rightarrow> ('w, 'e drive_error, admin_value) proc" where
  "admin_run env profile request pin =
     proc_bind (lift_res (map_err Protocol (admin_operation env profile request pin))) (\<lambda>oper.
     execute oper (admin_exchange env))"

text \<open>\<^verbatim>\<open>run(..)?; Ok(())\<close>\<close>

definition admin_unit where
  "admin_unit env profile request pin = proc_bind (admin_run env profile request pin) (\<lambda>_. ret ())"

definition read_configuration where
  "read_configuration env profile pin = proc_bind (admin_run env profile AReqConfiguration pin) (\<lambda>v. case v of
     AValConfiguration c \<Rightarrow> ret (AdminModern c)
   | AValLegacyConfiguration c \<Rightarrow> ret (AdminLegacy c)
   | _ \<Rightarrow> throw unexpected_value)"

definition nfc_status where
  "nfc_status env profile pin = proc_bind (admin_run env profile AReqNfcStatus pin) (\<lambda>v. case v of
     AValNfcStatus on \<Rightarrow> ret on | _ \<Rightarrow> throw unexpected_value)"

definition set_nfc where
  "set_nfc env profile on pin = proc_bind (admin_run env profile (AReqSetNfc on) pin) (\<lambda>_. ret on)"

definition public_configuration_supported where
  "public_configuration_supported env profile = capability_public_configuration env profile"

definition reset_applet where
  "reset_applet env profile a pin = admin_unit env profile (AReqResetApplet a) pin"

definition factory_reset where
  "factory_reset env profile = admin_unit env profile AReqFactoryReset None"

definition admin_verify_pin where
  "admin_verify_pin env profile pin = admin_unit env profile AReqVerifyPin (Some pin)"

definition admin_change_pin where
  "admin_change_pin env profile old new = admin_unit env profile (AReqChangePin new) (Some old)"

definition pass_slots_of where
  "pass_slots_of env profile pin = proc_bind (admin_run env profile AReqPassSlots pin) (\<lambda>v. case v of
     AValPassSlots s \<Rightarrow> ret s | _ \<Rightarrow> throw unexpected_value)"

definition set_pass_slot where
  "set_pass_slot env profile s config pin = admin_unit env profile (AReqSetPassSlot s config) pin"

definition configure where
  "configure env profile patch pin = admin_unit env profile (AReqConfigure patch) pin"

definition keyboard_layout where
  "keyboard_layout env profile pin = proc_bind (admin_run env profile AReqKeyboardLayout pin) (\<lambda>v. case v of
     AValKeyboardLayout l \<Rightarrow> ret l | _ \<Rightarrow> throw unexpected_value)"

definition read_keymap where
  "read_keymap env profile pin = proc_bind (admin_run env profile AReqKeyboardKeymap pin) (\<lambda>v. case v of
     AValKeyboardKeymap k \<Rightarrow> ret k | _ \<Rightarrow> throw unexpected_value)"

definition set_keymap where
  "set_keymap env profile layout_id map_bytes pin =
     admin_unit env profile (AReqSetKeyboardKeymap layout_id map_bytes) pin"

definition clear_keymap where
  "clear_keymap env profile pin = admin_unit env profile AReqClearKeyboardKeymap pin"

definition set_keyboard_return where
  "set_keyboard_return env profile on pin = admin_unit env profile (AReqSetKeyboardReturn on) pin"

definition chip_id where
  "chip_id env profile = proc_bind (admin_run env profile AReqChipId None) (\<lambda>v. case v of
     AValBytes b \<Rightarrow> ret b | _ \<Rightarrow> throw unexpected_value)"

definition core_commit where
  "core_commit env profile = proc_bind (admin_run env profile AReqCoreCommit None) (\<lambda>v. case v of
     AValBytes b \<Rightarrow> ret b | _ \<Rightarrow> throw unexpected_value)"

definition flash_usage_of where
  "flash_usage_of env profile pin = proc_bind (admin_run env profile AReqFlashUsage pin) (\<lambda>v. case v of
     AValFlashUsage u \<Rightarrow> ret u | _ \<Rightarrow> throw unexpected_value)"

definition applet_usage_of where
  "applet_usage_of env profile = proc_bind (admin_run env profile AReqAppletUsage None) (\<lambda>v. case v of
     AValAppletUsage u \<Rightarrow> ret u | _ \<Rightarrow> throw unexpected_value)"

definition admin_pin_status_of where
  "admin_pin_status_of env profile = proc_bind (admin_run env profile AReqPinStatus None) (\<lambda>v. case v of
     AValPinStatus s \<Rightarrow> ret s | _ \<Rightarrow> throw unexpected_value)"

section \<open>The SM2 configuration\<close>

datatype sm2_readout = Sm2Typed sm2_configuration | Sm2Legacy legacy_sm2

definition le_bytes32 :: "u32 \<Rightarrow> byte list" where
  "le_bytes32 w = rev (be_bytes32 w)"

definition from_le32 :: "byte list \<Rightarrow> u32" where
  "from_le32 bs = from_be32 (rev bs)"

definition readout_algorithm_id :: "('w, 'e) admin_env \<Rightarrow> sm2_readout \<Rightarrow> u32 option" where
  "readout_algorithm_id env r = (case r of
     Sm2Typed c \<Rightarrow> Some (sm2_algorithm_id c)
   | Sm2Legacy c \<Rightarrow> if legacy_sm2_enabled env c then Some (from_le32 (subslice 5 9 (legacy_raw c))) else None)"

definition read_sm2 :: "('w, 'e) admin_env \<Rightarrow> device_profile \<Rightarrow> admin_pin option \<Rightarrow> ('w, 'e drive_error, sm2_readout) proc" where
  "read_sm2 env profile pin = proc_bind (admin_run env profile AReqSm2Configuration pin) (\<lambda>v. case v of
     AValSm2Configuration c \<Rightarrow> ret (Sm2Typed c)
   | AValLegacySm2Configuration c \<Rightarrow> ret (Sm2Legacy c)
   | _ \<Rightarrow> throw unexpected_value)"

definition patched_sm2 :: "sm2_patch \<Rightarrow> byte list \<Rightarrow> byte list" where
  "patched_sm2 patch raw =
    (let raw = (case sp_curve_id patch of Some c \<Rightarrow> copy_at 1 (le_bytes32 c) raw | None \<Rightarrow> raw)
     in case sp_algorithm_id patch of Some a \<Rightarrow> copy_at 5 (le_bytes32 a) raw | None \<Rightarrow> raw)"

definition configure_sm2 ::
  "('w, 'e) admin_env \<Rightarrow> device_profile \<Rightarrow> sm2_patch \<Rightarrow> admin_pin option \<Rightarrow> ('w, 'e drive_error, unit) proc" where
  "configure_sm2 env profile patch pin =
    (if legacy_sm2_supported env profile
     then proc_bind (read_sm2 env profile pin) (\<lambda>r. case r of
       Sm2Typed _ \<Rightarrow> throw unexpected_value
     | Sm2Legacy current \<Rightarrow>
         let raw = patched_sm2 patch (legacy_raw current) in
         if raw \<noteq> legacy_raw current
         then proc_bind (lift_res (map_err Protocol (legacy_sm2_from_bytes env raw))) (\<lambda>c.
           proc_bind (lift_res (map_err Protocol (admin_operation_existing env profile (AReqWriteLegacySm2 c)))) (\<lambda>oper.
           proc_bind (execute oper (admin_exchange env)) (\<lambda>_. ret ())))
         else ret ())
     else admin_unit env profile (AReqConfigureSm2 patch) pin)"

lemma from_le32_le_bytes32 [simp]: "from_le32 (le_bytes32 w) = w"
  by (simp add: from_le32_def le_bytes32_def)

lemma length_le_bytes32 [simp]: "length (le_bytes32 w) = 4"
  by (simp add: le_bytes32_def)

section \<open>Properties\<close>

text \<open>Patching the legacy SM2 layout changes exactly the identifiers the patch names, little-endian at their
  offsets: the enable flag and an identifier that is not named keep their bytes.\<close>

theorem patched_sm2_fields:
  assumes "length raw = 9"
  shows "length (patched_sm2 patch raw) = 9 \<and> patched_sm2 patch raw ! 0 = raw ! 0
    \<and> from_le32 (subslice 1 5 (patched_sm2 patch raw)) =
        (case sp_curve_id patch of Some c \<Rightarrow> c | None \<Rightarrow> from_le32 (subslice 1 5 raw))
    \<and> from_le32 (subslice 5 9 (patched_sm2 patch raw)) =
        (case sp_algorithm_id patch of Some a \<Rightarrow> a | None \<Rightarrow> from_le32 (subslice 5 9 raw))"
  using assms
  by (cases "sp_curve_id patch"; cases "sp_algorithm_id patch")
    (simp_all add: patched_sm2_def copy_at_def subslice_def nth_append min_def drop_take)

theorem patched_sm2_fields_witness:
  "patched_sm2 \<lparr>sp_curve_id = None, sp_algorithm_id = Some 0xffffffd0\<rparr> [1, 9, 0, 0, 0, 0, 0, 0, 0] ! 0 = 1
   \<and> from_le32 (subslice 5 9 (patched_sm2 \<lparr>sp_curve_id = None, sp_algorithm_id = Some 0xffffffd0\<rparr>
       [1, 9, 0, 0, 0, 0, 0, 0, 0])) = 0xffffffd0"
  using patched_sm2_fields [of "[1, 9, 0, 0, 0, 0, 0, 0, 0]" "\<lparr>sp_curve_id = None, sp_algorithm_id = Some 0xffffffd0\<rparr>"]
  by simp

end
