(* ===== verification/Base32.thy ===== *)
theory Base32
  imports Prelude
begin

unbundle bit_operations_syntax

text \<open>
  The RFC 4648 base32 codec of \<^verbatim>\<open>crates/ckman-core/src/uri.rs\<close>, on bytes (a Rust \<^verbatim>\<open>&str\<close> is
  its UTF-8 bytes).  The specification is the value of a string of digits: \<open>be_val b xs\<close> reads
  a list of digits in base \<open>b\<close>, most significant first.
\<close>

datatype base32_error = Base32Error

section \<open>Code\<close>

text \<open>One character: a digit, an ignored separator (\<open>None\<close>), or an error.\<close>

definition base32_value :: "byte \<Rightarrow> base32_error + byte option" where
  "base32_value b =
    (if 0x41 \<le> b \<and> b \<le> 0x5a then Ok (Some (b - 0x41))
     else if 0x61 \<le> b \<and> b \<le> 0x7a then Ok (Some (b - 0x61))
     else if 0x32 \<le> b \<and> b \<le> 0x37 then Ok (Some (b - 0x32 + 26))
     else if b = 0x3d \<or> b = 0x20 then Ok None
     else Err Base32Error)"

fun base32_loop :: "byte list \<Rightarrow> u32 \<Rightarrow> nat \<Rightarrow> byte list \<Rightarrow> base32_error + u32 \<times> nat \<times> byte list" where
  "base32_loop [] acc bits out = Ok (acc, bits, out)"
| "base32_loop (b # bs) acc bits out = (case base32_value b of
     Err e \<Rightarrow> Err e
   | Ok None \<Rightarrow> base32_loop bs acc bits out
   | Ok (Some value) \<Rightarrow>
       let acc = push_bit 5 acc OR ucast value; bits = bits + 5 in
       if bits \<ge> 8
       then let bits = bits - 8 in base32_loop bs acc bits (out @ [ucast (drop_bit bits acc)])
       else base32_loop bs acc bits out)"

definition base32_decode :: "byte list \<Rightarrow> base32_error + byte list" where
  "base32_decode input = (case base32_loop input 0 0 [] of
     Err e \<Rightarrow> Err e
   | Ok (acc, bits, out) \<Rightarrow>
       if bits \<ge> 5 \<or> acc AND (push_bit bits 1 - 1) \<noteq> 0 then Err Base32Error else Ok out)"

definition base32_alphabet :: "byte list" where
  "base32_alphabet = map of_char ''ABCDEFGHIJKLMNOPQRSTUVWXYZ234567''"

definition div_ceil :: "nat \<Rightarrow> nat \<Rightarrow> nat" where
  "div_ceil a b = (a + b - 1) div b"

definition chunk_acc :: "byte list \<Rightarrow> u64" where
  "chunk_acc chunk = foldl (\<lambda>acc b. push_bit 8 acc OR ucast b) 0 chunk"

definition encode_chunk :: "byte list \<Rightarrow> byte list" where
  "encode_chunk chunk =
    (let digits = div_ceil (length chunk * 8) 5;
         acc = push_bit (digits * 5 - length chunk * 8) (chunk_acc chunk)
     in map (\<lambda>index. base32_alphabet ! (unat (drop_bit (index * 5) acc AND 31))) (rev [0..<digits]))"

text \<open>\<^verbatim>\<open>data.chunks(5)\<close>\<close>

function base32_encode :: "byte list \<Rightarrow> byte list" where
  "base32_encode data =
    (if data = [] then [] else encode_chunk (take 5 data) @ base32_encode (drop 5 data))"
  by pat_completeness auto
termination by (relation "measure length") auto

declare base32_encode.simps [simp del]

section \<open>Digit strings\<close>

fun be_val :: "nat \<Rightarrow> nat list \<Rightarrow> nat" where
  "be_val b [] = 0"
| "be_val b (d # ds) = d * b ^ length ds + be_val b ds"

lemma be_val_append: "be_val b (xs @ ys) = be_val b xs * b ^ length ys + be_val b ys"
  by (induction xs) (simp_all add: algebra_simps power_add)

lemma be_val_snoc [simp]: "be_val b (xs @ [y]) = be_val b xs * b + y"
  by (simp add: be_val_append)

lemma be_val_less: "\<forall>d \<in> set ds. d < b \<Longrightarrow> be_val b ds < b ^ length ds"
proof (induction ds)
  case (Cons d ds)
  then have "d + 1 \<le> b" by simp
  then have "(d + 1) * b ^ length ds \<le> b * b ^ length ds"
    by (rule mult_le_mono1)
  with Cons show ?case by (simp add: algebra_simps)
qed simp

lemma be_val_inj:
  assumes "length xs = length ys" and "\<forall>d \<in> set xs. d < b" and "\<forall>d \<in> set ys. d < b"
    and "be_val b xs = be_val b ys"
  shows "xs = ys"
  using assms
proof (induction xs ys rule: rev_induct2)
  case (4 x xs y ys)
  then have eq: "be_val b xs * b + x = be_val b ys * b + y" and "x < b" "y < b" by auto
  from arg_cong [OF eq, of "\<lambda>n. n mod b"] \<open>x < b\<close> \<open>y < b\<close> have "x = y" by simp
  with eq \<open>x < b\<close> have "be_val b xs = be_val b ys" by simp
  with 4 \<open>x = y\<close> show ?case by simp
qed auto

lemma unat_inject: "unat v = unat w \<longleftrightarrow> v = w"
  by (rule word_eq_iff_unsigned [where 'a = nat, symmetric])

text \<open>\<open>unat\<close> of the digits\<close>

abbreviation digits :: "'a::len word list \<Rightarrow> nat list" where
  "digits \<equiv> map unat"

lemma digits_less: "\<forall>d \<in> set (digits (bs :: byte list)). d < 256"
  using unsigned_less [where 'b = 8 and 'a = nat] by auto

lemma digits_inj: "digits xs = digits ys \<longleftrightarrow> xs = ys"
  by (rule inj_map_eq_map) (simp add: inj_on_def word_eq_iff_unsigned [where 'a = nat])

lemma be_val256_inj:
  assumes "length xs = length ys" and "be_val 256 (digits xs) = be_val 256 (digits (ys :: byte list))"
  shows "xs = ys"
  using assms be_val_inj [of "digits xs" "digits ys" 256] digits_less
  by (auto simp: digits_inj)

section \<open>Shifting digits in\<close>

lemma push_bit_or_add:
  fixes a v :: "'a::len word"
  assumes "unat v < 2 ^ k"
  shows "push_bit k a OR v = push_bit k a + v"
proof (rule disjunctive_add [symmetric])
  fix n
  have "\<not> bit v n" if "k \<le> n"
  proof -
    have "unat v < 2 ^ n"
      using assms power_increasing [OF that, of "2 :: nat"] by (simp add: order.strict_trans2)
    then have "\<not> bit (unat v) n" by (simp add: bit_iff_odd)
    then show ?thesis by (metis bit_imp_le_length bit_unsigned_iff exp_eq_zero_iff not_le possible_bit_nat
        possible_bit_word)
  qed
  then show "\<not> bit (push_bit k a) n \<or> \<not> bit v n"
    by (auto simp: bit_simps)
qed

lemma unat_shift_in:
  fixes a :: "'a::len word" and v :: byte
  assumes "unat v < 2 ^ k" and "k \<le> LENGTH('a)" and "8 \<le> LENGTH('a)"
  shows "unat (push_bit k a OR ucast v) = unat a * 2 ^ k mod 2 ^ LENGTH('a) + unat v"
proof -
  let ?N = "2 ^ LENGTH('a) :: nat"
  have v: "unat (ucast v :: 'a word) = unat v"
    using assms(3) digits_less [of "[v]"] power_increasing [OF assms(3), of "2 :: nat"]
    by (simp add: unsigned_ucast_eq take_bit_eq_mod)
  have N: "?N = 2 ^ (LENGTH('a) - k) * 2 ^ k"
    using assms(2) by (simp flip: power_add)
  have push: "unat (push_bit k a) = unat a * 2 ^ k mod ?N"
    unfolding unsigned_push_bit_eq take_bit_eq_mod by (simp add: push_bit_eq_mult)
  have "unat a * 2 ^ k mod ?N = unat a mod 2 ^ (LENGTH('a) - k) * 2 ^ k"
    by (simp add: N mult_mod_left)
  moreover have "unat a mod 2 ^ (LENGTH('a) - k) + 1 \<le> 2 ^ (LENGTH('a) - k)"
    by (simp add: Suc_leI)
  then have "(unat a mod 2 ^ (LENGTH('a) - k) + 1) * 2 ^ k \<le> ?N"
    unfolding N by (rule mult_le_mono1)
  ultimately have "unat a * 2 ^ k mod ?N + unat v < ?N"
    using assms(1) by (simp add: algebra_simps)
  then show ?thesis
    using push_bit_or_add [of "ucast v :: 'a word" k a] assms(1)
    by (simp add: v push unat_word_ariths)
qed

section \<open>The decoding loop\<close>

text \<open>The digits of an input, separators dropped.\<close>

fun base32_digits :: "byte list \<Rightarrow> base32_error + byte list" where
  "base32_digits [] = Ok []"
| "base32_digits (b # bs) = (case base32_value b of
     Err e \<Rightarrow> Err e
   | Ok None \<Rightarrow> base32_digits bs
   | Ok (Some v) \<Rightarrow> (case base32_digits bs of Err e \<Rightarrow> Err e | Ok vs \<Rightarrow> Ok (v # vs)))"

lemma base32_value_bound: "base32_value b = Ok (Some v) \<Longrightarrow> unat v < 32"
proof -
  have "unat (v - 0x41) < 32" if "0x41 \<le> v" "v \<le> 0x5a" for v :: byte
    using that by unat_arith
  moreover have "unat (v - 0x61) < 32" if "0x61 \<le> v" "v \<le> 0x7a" for v :: byte
    using that by unat_arith
  moreover have "unat (v - 0x32 + 26) < 32" if "0x32 \<le> v" "v \<le> 0x37" for v :: byte
    using that by unat_arith
  ultimately show "base32_value b = Ok (Some v) \<Longrightarrow> unat v < 32"
    by (auto simp: base32_value_def split: if_splits)
qed

lemma base32_digits_bound: "base32_digits s = Ok vs \<Longrightarrow> \<forall>d \<in> set (digits vs). d < 32"
proof (induction s arbitrary: vs)
  case (Cons b bs)
  then show ?case
    using base32_value_bound [of b]
    by (auto split: sum.splits option.splits)
qed simp

lemma base32_step:
  fixes acc :: u32
  assumes "unat (v :: byte) < 32" and "bits < 8"
  defines "acc' \<equiv> (push_bit 5 acc OR ucast v :: u32)"
  shows "unat acc' mod 2 ^ (bits + 5) = (unat acc mod 2 ^ bits) * 32 + unat v"
    and "unat (ucast (drop_bit k acc') :: byte) * 2 ^ k + unat acc' mod 2 ^ k =
      unat acc' mod 2 ^ (k + 8)"
proof -
  have a: "unat acc' = unat acc * 32 mod 2 ^ 32 + unat v"
    using unat_shift_in [of v 5 acc] assms(1) by (simp add: acc'_def)
  have "unat acc' mod 2 ^ (bits + 5) = (unat acc * 32 + unat v) mod 2 ^ (bits + 5)"
  proof -
    have "(2 :: nat) ^ (bits + 5) dvd 2 ^ 32"
      using assms(2) by (intro le_imp_power_dvd) simp
    then have "unat acc * 32 mod 2 ^ 32 mod 2 ^ (bits + 5) = unat acc * 32 mod 2 ^ (bits + 5)"
      by (rule mod_mod_cancel)
    then show ?thesis unfolding a by (metis mod_add_left_eq)
  qed
  also have "\<dots> = (unat acc mod 2 ^ bits) * 32 + unat v"
  proof -
    have "(unat acc mod 2 ^ bits + 1) * 32 \<le> 2 ^ bits * 32"
      by (intro mult_le_mono1) (simp add: Suc_leI)
    then have "(unat acc mod 2 ^ bits) * 32 + unat v < 2 ^ (bits + 5)"
      using assms(1) by (simp add: power_add)
    moreover have "(unat acc * 32 + unat v) mod 2 ^ (bits + 5) =
        ((unat acc mod 2 ^ bits) * 32 + unat v) mod 2 ^ (bits + 5)"
      by (simp add: power_add) (metis mod_add_left_eq mod_mult_mult2)
    ultimately show ?thesis by simp
  qed
  finally show "unat acc' mod 2 ^ (bits + 5) = (unat acc mod 2 ^ bits) * 32 + unat v" .
  have "unat (ucast (drop_bit k acc') :: byte) = unat acc' div 2 ^ k mod 256"
    using unsigned_drop_bit_eq [where 'b = 32 and 'a = nat, of k acc']
      unsigned_less [where 'b = 32 and 'a = nat, of acc']
    by (simp only: unsigned_ucast_eq take_bit_eq_mod) (simp add: drop_bit_eq_div take_bit_eq_mod)
  then show "unat (ucast (drop_bit k acc') :: byte) * 2 ^ k + unat acc' mod 2 ^ k =
      unat acc' mod 2 ^ (k + 8)"
    by (simp add: power_add mod_mult2_eq mult.commute)
qed

lemma base32_loop_digits:
  assumes "bits < 8" and "base32_loop s acc bits out = Ok (acc', bits', out')"
  shows "\<exists>vs. base32_digits s = Ok vs \<and> bits' < 8
    \<and> 8 * length out' + bits' = 8 * length out + bits + 5 * length vs
    \<and> be_val 256 (digits out') * 2 ^ bits' + unat acc' mod 2 ^ bits' =
      (be_val 256 (digits out) * 2 ^ bits + unat acc mod 2 ^ bits) * 32 ^ length vs
        + be_val 32 (digits vs)"
  using assms
proof (induction s acc bits out rule: base32_loop.induct)
  case (2 b bs acc bits out)
  show ?case
  proof (cases "base32_value b")
    case (Inr r)
    show ?thesis
    proof (cases r)
      case None
      with 2 Inr show ?thesis by simp
    next
      case (Some v)
      let ?acc = "push_bit 5 acc OR ucast v :: u32"
      have v: "unat v < 32" using base32_value_bound Inr Some by simp
      note step = base32_step [where acc = acc, OF v "2.prems"(1)]
      show ?thesis
      proof (cases "8 \<le> bits + 5")
        case True
        let ?bits = "bits + 5 - 8" and ?out = "out @ [ucast (drop_bit (bits + 5 - 8) ?acc)]"
        have "base32_loop bs ?acc ?bits ?out = Ok (acc', bits', out')"
          using "2.prems"(2) Inr Some True by (simp add: Let_def)
        note run = this
        have b: "?bits < 8" using "2.prems"(1) by simp
        have "\<exists>vs. base32_digits bs = Ok vs \<and> bits' < 8
          \<and> 8 * length out' + bits' = 8 * length ?out + ?bits + 5 * length vs
          \<and> be_val 256 (digits out') * 2 ^ bits' + unat acc' mod 2 ^ bits' =
            (be_val 256 (digits ?out) * 2 ^ ?bits + unat ?acc mod 2 ^ ?bits) * 32 ^ length vs
            + be_val 32 (digits vs)"
          by (rule "2.IH"(2) [OF Inr Some refl refl True refl b run])
        then obtain vs where vs: "base32_digits bs = Ok vs" "bits' < 8"
          "8 * length out' + bits' = 8 * length ?out + ?bits + 5 * length vs"
          "be_val 256 (digits out') * 2 ^ bits' + unat acc' mod 2 ^ bits' =
            (be_val 256 (digits ?out) * 2 ^ ?bits + unat ?acc mod 2 ^ ?bits) * 32 ^ length vs
            + be_val 32 (digits vs)"
          by blast
        have "be_val 256 (digits ?out) * 2 ^ ?bits + unat ?acc mod 2 ^ ?bits =
            be_val 256 (digits out) * 2 ^ (?bits + 8) + unat ?acc mod 2 ^ (?bits + 8)"
          using step(2) [of ?bits] by (simp add: algebra_simps power_add)
        also have "\<dots> = (be_val 256 (digits out) * 2 ^ bits + unat acc mod 2 ^ bits) * 32 + unat v"
          using True step(1) by (simp add: power_add algebra_simps)
        finally show ?thesis
          using vs True Inr Some by (intro exI [of _ "v # vs"]) (simp add: algebra_simps)
      next
        case False
        then have run: "base32_loop bs ?acc (bits + 5) out = Ok (acc', bits', out')"
          using "2.prems"(2) Inr Some by (simp add: Let_def)
        have b: "bits + 5 < 8" using False by simp
        from "2.IH"(3) [OF Inr Some refl refl False b run]
        obtain vs where vs: "base32_digits bs = Ok vs" "bits' < 8"
          "8 * length out' + bits' = 8 * length out + (bits + 5) + 5 * length vs"
          "be_val 256 (digits out') * 2 ^ bits' + unat acc' mod 2 ^ bits' =
            (be_val 256 (digits out) * 2 ^ (bits + 5) + unat ?acc mod 2 ^ (bits + 5)) * 32 ^ length vs
            + be_val 32 (digits vs)"
          by auto
        then show ?thesis
          using Inr Some step(1) by (intro exI [of _ "v # vs"]) (simp add: algebra_simps power_add)
      qed
    qed
  qed (use 2 in simp)
qed simp

lemma base32_loop_total:
  "base32_digits s = Ok vs \<Longrightarrow> \<exists>r. base32_loop s acc bits out = Ok r"
proof (induction s acc bits out arbitrary: vs rule: base32_loop.induct)
  case (2 b bs acc bits out)
  then show ?case
    by (auto simp: Let_def split: sum.splits option.splits)
qed simp

lemma final_bits_clear:
  fixes acc :: u32
  assumes "bits < 8"
  shows "acc AND (push_bit bits 1 - 1) = 0 \<longleftrightarrow> unat acc mod 2 ^ bits = 0"
proof -
  have "acc AND (push_bit bits 1 - 1) = take_bit bits acc"
    by (simp add: take_bit_eq_mask mask_eq_exp_minus_1 push_bit_of_1)
  moreover have "take_bit bits acc = 0 \<longleftrightarrow> unat (take_bit bits acc) = 0"
    by (simp only: word_eq_iff_unsigned [where 'a = nat] unsigned_0)
  moreover have "unat (take_bit bits acc) = unat acc mod 2 ^ bits"
    using unsigned_take_bit_eq [where 'a = nat and 'b = 32, of bits acc]
    by (rule trans) (rule take_bit_eq_mod)
  ultimately show ?thesis by simp
qed

text \<open>Decoding succeeds exactly when the digits, padded with fewer than five zero bits, are the
  value of the output.\<close>

lemma base32_decode_iff:
  "base32_decode s = Ok d \<longleftrightarrow> (\<exists>vs. base32_digits s = Ok vs
     \<and> 8 * length d \<le> 5 * length vs \<and> 5 * length vs < 8 * length d + 5
     \<and> be_val 32 (digits vs) = be_val 256 (digits d) * 2 ^ (5 * length vs - 8 * length d))"
  (is "_ \<longleftrightarrow> (\<exists>vs. ?R vs)")
proof
  assume "base32_decode s = Ok d"
  then obtain acc bits where run: "base32_loop s 0 0 [] = Ok (acc, bits, d)"
    and fin: "bits < 5" "acc AND (push_bit bits 1 - 1) = 0"
    by (auto simp: base32_decode_def split: sum.splits if_splits)
  from base32_loop_digits [OF _ run] obtain vs where vs: "base32_digits s = Ok vs"
    "8 * length d + bits = 5 * length vs"
    "be_val 256 (digits d) * 2 ^ bits + unat acc mod 2 ^ bits = be_val 32 (digits vs)"
    by auto
  have "unat acc mod 2 ^ bits = 0" using final_bits_clear [of bits acc] fin by simp
  moreover have "bits = 5 * length vs - 8 * length d" using vs(2) by linarith
  ultimately have "?R vs" using vs fin(1) by simp
  then show "\<exists>vs. ?R vs" ..
next
  assume "\<exists>vs. ?R vs"
  then obtain vs where vs: "base32_digits s = Ok vs" "8 * length d \<le> 5 * length vs"
      "5 * length vs < 8 * length d + 5"
      "be_val 32 (digits vs) = be_val 256 (digits d) * 2 ^ (5 * length vs - 8 * length d)"
    by blast
  from base32_loop_total vs obtain acc bits out
    where run: "base32_loop s 0 0 [] = Ok (acc, bits, out)" by (metis prod_cases3)
  from base32_loop_digits [OF _ run] vs have eq: "bits < 8"
    "8 * length out + bits = 5 * length vs"
    "be_val 256 (digits out) * 2 ^ bits + unat acc mod 2 ^ bits = be_val 32 (digits vs)"
    by auto
  have "length out = length d" using eq vs by linarith
  then have bits: "bits = 5 * length vs - 8 * length d" using eq(2) by simp
  have val: "be_val 256 (digits out) * 2 ^ bits + unat acc mod 2 ^ bits = be_val 256 (digits d) * 2 ^ bits"
    using eq(3) vs bits by simp
  then have z: "unat acc mod 2 ^ bits = 0"
    by (metis mod_mod_trivial mod_mult_self2_is_0 mod_mult_self3)
  then have "be_val 256 (digits out) = be_val 256 (digits d)"
    using val by simp
  with \<open>length out = length d\<close> have "out = d" by (rule be_val256_inj)
  moreover have "bits < 5" using bits vs by linarith
  ultimately show "base32_decode s = Ok d"
    using run z final_bits_clear [of bits acc] eq(1) by (simp add: base32_decode_def)
qed

section \<open>Encoding\<close>

lemma be_val_shifts:
  "0 < b \<Longrightarrow> be_val b (map (\<lambda>i. x div b ^ i mod b) (rev [0..<n])) = x mod b ^ n"
proof (induction n)
  case (Suc n)
  then show ?case
    using mod_mult2_eq [of x "b ^ n" b] by (simp add: algebra_simps)
qed simp

lemma chunk_acc_val:
  "length chunk \<le> 5 \<Longrightarrow> unat (chunk_acc chunk) = be_val 256 (digits chunk)"
proof (induction chunk rule: rev_induct)
  case Nil
  then show ?case by (simp add: chunk_acc_def)
next
  case (snoc b bs)
  have "be_val 256 (digits bs) < 256 ^ length bs"
    using be_val_less [of "digits bs" 256] digits_less [of bs] by simp
  also have "(256 :: nat) ^ length bs \<le> 256 ^ 5" using snoc by (intro power_increasing) auto
  finally have "be_val 256 (digits bs) * 256 < 2 ^ 64" by simp
  with snoc show ?case
    using unat_shift_in [of b 8 "chunk_acc bs"] digits_less [of "[b]"]
    by (simp add: chunk_acc_def)
qed

text \<open>The five-bit groups of a chunk\<close>

definition chunk_digits :: "byte list \<Rightarrow> nat list" where
  "chunk_digits chunk = (let n = div_ceil (length chunk * 8) 5;
     x = be_val 256 (digits chunk) * 2 ^ (n * 5 - length chunk * 8)
     in map (\<lambda>i. x div 32 ^ i mod 32) (rev [0..<n]))"

lemma length_chunk_digits: "length (chunk_digits c) = div_ceil (length c * 8) 5"
  by (simp add: chunk_digits_def Let_def)

lemma div_ceil_bounds: "8 * n \<le> 5 * div_ceil (n * 8) 5" "5 * div_ceil (n * 8) 5 < 8 * n + 5"
  unfolding div_ceil_def by linarith+

lemma chunk_digits_val:
  "be_val 32 (chunk_digits chunk) =
     be_val 256 (digits chunk) * 2 ^ (5 * length (chunk_digits chunk) - 8 * length chunk)"
proof -
  let ?n = "div_ceil (length chunk * 8) 5" and ?v = "be_val 256 (digits chunk)"
  let ?x = "?v * 2 ^ (?n * 5 - length chunk * 8)"
  have "?v < 256 ^ length chunk"
    using be_val_less [of "digits chunk" 256] digits_less [of chunk] by simp
  then have "?x < 2 ^ (8 * length chunk) * 2 ^ (?n * 5 - length chunk * 8)"
    by (simp add: power_mult)
  also have "\<dots> = 2 ^ (5 * ?n)"
    using div_ceil_bounds [of "length chunk"] by (simp flip: power_add add: mult.commute)
  also have "\<dots> = (32 :: nat) ^ ?n" by (simp add: power_mult)
  finally show ?thesis
    by (simp add: chunk_digits_def Let_def be_val_shifts mult.commute)
qed

lemma unat_group: "unat (take_bit 5 (drop_bit k (w :: u64))) = unat w div 2 ^ k mod 32"
  using unsigned_take_bit_eq [where 'a = nat and 'b = 64, of 5 "drop_bit k w"]
    unsigned_drop_bit_eq [where 'a = nat and 'b = 64, of k w]
    unsigned_less [where 'a = nat and 'b = 64, of w]
  by (simp add: take_bit_eq_mod drop_bit_eq_div)

lemma encode_chunk_digits:
  assumes "length chunk \<le> 5"
  shows "encode_chunk chunk = map (\<lambda>d. base32_alphabet ! d) (chunk_digits chunk)"
proof -
  let ?n = "div_ceil (length chunk * 8) 5" and ?v = "be_val 256 (digits chunk)"
  let ?p = "?n * 5 - length chunk * 8"
  let ?acc = "push_bit ?p (chunk_acc chunk)"
  have "?v < 256 ^ length chunk"
    using be_val_less [of "digits chunk" 256] digits_less [of chunk] by simp
  also have "(256 :: nat) ^ length chunk \<le> 256 ^ 5" using assms by (intro power_increasing) auto
  finally have "?v < 2 ^ 40" by simp
  moreover have "?p < 5" using div_ceil_bounds [of "length chunk"] by linarith
  then have "(2 :: nat) ^ ?p \<le> 2 ^ 5" by (intro power_increasing) auto
  ultimately have "?v * 2 ^ ?p < 2 ^ 40 * 2 ^ 5" by (intro mult_less_le_imp_less) auto
  then have "take_bit 64 (?v * 2 ^ ?p) = ?v * 2 ^ ?p"
    by (simp add: take_bit_nat_eq_self_iff)
  moreover have "unat ?acc = take_bit 64 (?v * 2 ^ ?p)"
    using unsigned_push_bit_eq [where 'a = nat and 'b = 64, of ?p "chunk_acc chunk"]
    unfolding chunk_acc_val [OF assms] push_bit_eq_mult [where 'a = nat] by simp
  ultimately have acc: "unat ?acc = ?v * 2 ^ ?p" by simp
  have "unat (drop_bit (i * 5) ?acc AND 31) = ?v * 2 ^ ?p div 32 ^ i mod 32" for i
  proof -
    have "drop_bit (i * 5) ?acc AND 31 = take_bit 5 (drop_bit (i * 5) ?acc)"
      by (simp add: take_bit_eq_mask mask_eq_exp_minus_1)
    then have "unat (drop_bit (i * 5) ?acc AND 31) = unat ?acc div 2 ^ (i * 5) mod 32"
      by (simp only: unat_group)
    also have "(2 :: nat) ^ (i * 5) = 32 ^ i" by (simp add: mult.commute [of i] power_mult)
    finally show ?thesis by (simp only: acc)
  qed
  then show ?thesis
    by (simp add: encode_chunk_def chunk_digits_def Let_def)
qed

lemma base32_encode_Nil [simp]: "base32_encode [] = []"
  by (simp add: base32_encode.simps)

lemma base32_encode_digits:
  "\<exists>ws. base32_encode d = map (\<lambda>d. base32_alphabet ! d) ws \<and> (\<forall>w \<in> set ws. w < 32)
     \<and> length ws = div_ceil (length d * 8) 5
     \<and> be_val 32 ws = be_val 256 (digits d) * 2 ^ (5 * length ws - 8 * length d)"
proof (induction d rule: base32_encode.induct)
  case (1 d)
  let ?c = "take 5 d"
  have lt: "\<forall>w \<in> set (chunk_digits ?c). w < 32"
    by (auto simp: chunk_digits_def Let_def)
  show ?case
  proof (cases "length d \<le> 5")
    case True
    then have "base32_encode d = encode_chunk d"
      by (cases "d = []")
        (simp_all add: base32_encode.simps [of d] base32_encode_Nil encode_chunk_def div_ceil_def)
    then have "base32_encode d = map (\<lambda>d. base32_alphabet ! d) (chunk_digits d)"
      by (simp only: encode_chunk_digits [OF True])
    then show ?thesis
      using chunk_digits_val [of d] lt True
      by (intro exI [of _ "chunk_digits d"]) (simp add: length_chunk_digits)
  next
    case False
    then have "d \<noteq> []" by auto
    from "1.IH" [OF this] obtain ws where ws: "base32_encode (drop 5 d) = map (\<lambda>d. base32_alphabet ! d) ws"
      "\<forall>w \<in> set ws. w < 32" "length ws = div_ceil (length (drop 5 d) * 8) 5"
      "be_val 32 ws = be_val 256 (digits (drop 5 d)) * 2 ^ (5 * length ws - 8 * length (drop 5 d))"
      by blast
    have enc: "base32_encode d = map (\<lambda>d. base32_alphabet ! d) (chunk_digits ?c @ ws)"
      using encode_chunk_digits [of ?c] ws(1) \<open>d \<noteq> []\<close> by (simp add: base32_encode.simps [of d])
    have lc: "length (chunk_digits ?c) = 8"
      using False by (simp add: chunk_digits_def Let_def div_ceil_def)
    then have vc: "be_val 32 (chunk_digits ?c) = be_val 256 (digits ?c)"
      using chunk_digits_val [of ?c] False by simp
    have len: "length (chunk_digits ?c @ ws) = div_ceil (length d * 8) 5"
      using lc ws(3) False unfolding div_ceil_def by simp
    let ?r = "5 * length ws - 8 * length (drop 5 d)"
    have r: "5 * length (chunk_digits ?c @ ws) - 8 * length d = ?r" using lc False by simp
    have e: "5 * length ws = 8 * length (drop 5 d) + ?r"
      using ws(3) div_ceil_bounds(1) [of "length (drop 5 d)"] by simp
    have pw: "(32 :: nat) ^ length ws = 256 ^ length (drop 5 d) * 2 ^ ?r"
    proof -
      have "(32 :: nat) ^ length ws = 2 ^ (5 * length ws)" by (simp add: power_mult)
      also have "\<dots> = 2 ^ (8 * length (drop 5 d)) * 2 ^ ?r" by (subst e) (simp only: power_add)
      finally show ?thesis by (simp add: power_mult)
    qed
    have "digits d = digits ?c @ digits (drop 5 d)"
      by (simp flip: map_append)
    then have "be_val 256 (digits d) =
        be_val 256 (digits ?c) * 256 ^ length (drop 5 d) + be_val 256 (digits (drop 5 d))"
      by (simp add: be_val_append)
    then have val: "be_val 32 (chunk_digits ?c @ ws) = be_val 256 (digits d) * 2 ^ ?r"
      unfolding be_val_append ws(4) vc pw by (simp add: algebra_simps)
    show ?thesis
      using enc lt ws(2) len val r by (intro exI [of _ "chunk_digits ?c @ ws"]) auto
  qed
qed

section \<open>The codec\<close>

text \<open>Upper-cased and without separators, an accepted input is the alphabet's spelling of its
  digits.\<close>

definition base32_canonical :: "byte list \<Rightarrow> byte list" where
  "base32_canonical s = map ascii_upper (filter (\<lambda>b. b \<noteq> 0x3d \<and> b \<noteq> 0x20) s)"

text \<open>The letter of a five-bit digit, as arithmetic\<close>

definition base32_letter :: "byte \<Rightarrow> byte" where
  "base32_letter v = (if v < 26 then v + 0x41 else v + 24)"

lemma base32_alphabet_distinct: "distinct base32_alphabet" "length base32_alphabet = 32"
  by code_simp+

lemma base32_alphabet_letters:
  assumes "unat v < 32"
  shows "base32_alphabet ! unat v = base32_letter v"
    and "base32_value (base32_letter v) = Ok (Some v)"
proof -
  have all: "list_all (\<lambda>n. base32_alphabet ! n = base32_letter (word_of_nat n)
      \<and> base32_value (base32_letter (word_of_nat n)) = Ok (Some (word_of_nat n))) [0..<32]"
    by code_simp
  have "unat v \<in> set [0..<32]" using assms by simp
  with all have "base32_alphabet ! unat v = base32_letter (word_of_nat (unat v))
      \<and> base32_value (base32_letter (word_of_nat (unat v))) = Ok (Some (word_of_nat (unat v)))"
    unfolding list_all_iff by blast
  then show "base32_alphabet ! unat v = base32_letter v"
    and "base32_value (base32_letter v) = Ok (Some v)" by simp_all
qed

lemma base32_value_upper: "base32_value (ascii_upper b) = base32_value b"
proof (cases "0x61 \<le> b \<and> b \<le> 0x7a")
  case True
  then have "0x41 \<le> b - 0x20" "b - 0x20 \<le> 0x5a" "\<not> b \<le> 0x5a" by unat_arith+
  with True show ?thesis by (simp add: base32_value_def ascii_upper_def)
next
  case False
  then have "ascii_upper b = b" by (auto simp: ascii_upper_def)
  then show ?thesis by simp
qed

lemma base32_value_letter:
  "case base32_value b of
     Err e \<Rightarrow> b \<noteq> 0x3d \<and> b \<noteq> 0x20
   | Ok None \<Rightarrow> b = 0x3d \<or> b = 0x20
   | Ok (Some v) \<Rightarrow> b \<noteq> 0x3d \<and> b \<noteq> 0x20 \<and> v < 32 \<and> ascii_upper b = base32_letter v"
proof -
  have "v - 0x41 < 26 \<and> v \<noteq> 0x3d \<and> v \<noteq> 0x20 \<and> \<not> 0x61 \<le> v \<and> v - 0x41 < 32"
    if "0x41 \<le> v" "v \<le> 0x5a" for v :: byte
    using that by unat_arith
  moreover have "v - 0x61 < 26 \<and> v \<noteq> 0x3d \<and> v \<noteq> 0x20 \<and> v - 0x61 < 32"
    if "0x61 \<le> v" "v \<le> 0x7a" for v :: byte
    using that by unat_arith
  moreover have "\<not> v - 0x32 + 26 < 26 \<and> v \<noteq> 0x3d \<and> v \<noteq> 0x20 \<and> \<not> 0x61 \<le> v \<and> v - 0x32 + 26 < 32"
    if "0x32 \<le> v" "v \<le> 0x37" for v :: byte
    using that by unat_arith
  ultimately show ?thesis
    by (auto simp: base32_value_def ascii_upper_def base32_letter_def)
qed

lemma base32_value_canonical:
  "case base32_value b of
     Err e \<Rightarrow> b \<noteq> 0x3d \<and> b \<noteq> 0x20 \<and> ascii_upper b \<notin> set base32_alphabet
   | Ok None \<Rightarrow> b = 0x3d \<or> b = 0x20
   | Ok (Some v) \<Rightarrow> b \<noteq> 0x3d \<and> b \<noteq> 0x20 \<and> unat v < 32 \<and> ascii_upper b = base32_alphabet ! unat v"
proof -
  have "\<exists>v. base32_value b = Ok (Some v)" if "ascii_upper b \<in> set base32_alphabet"
  proof -
    from that obtain n where n: "n < 32" "ascii_upper b = base32_alphabet ! n"
      using base32_alphabet_distinct(2) by (metis in_set_conv_nth)
    have u: "unat (word_of_nat n :: byte) = n"
      using n(1) by (simp add: unat_of_nat)
    note letters = base32_alphabet_letters [of "word_of_nat n", unfolded u, OF n(1)]
    have "base32_value (ascii_upper b) = Ok (Some (word_of_nat n))"
      unfolding n(2) letters(1) by (rule letters(2))
    then show ?thesis by (simp add: base32_value_upper)
  qed
  moreover have "unat v < 32" if "v < 32" for v :: byte
    using that by unat_arith
  ultimately show ?thesis
    using base32_value_letter [of b]
    by (cases "base32_value b"; cases "projr (base32_value b)")
      (auto simp: base32_alphabet_letters(1))
qed

lemma base32_alphabet_inj:
  "v < 32 \<Longrightarrow> w < 32 \<Longrightarrow> base32_alphabet ! v = base32_alphabet ! w \<longleftrightarrow> v = w"
  using base32_alphabet_distinct by (simp add: nth_eq_iff_index_eq)

lemma base32_digits_canonical:
  "base32_digits s = Ok vs \<longleftrightarrow>
     base32_canonical s = map (\<lambda>d. base32_alphabet ! d) (digits vs) \<and> (\<forall>d \<in> set (digits vs). d < 32)"
proof (induction s arbitrary: vs)
  case Nil
  then show ?case by (auto simp: base32_canonical_def)
next
  case (Cons b s)
  note c = base32_value_canonical [of b]
  show ?case
  proof (cases "base32_value b")
    case (Inl e)
    with c have "b \<noteq> 0x3d" "b \<noteq> 0x20" "ascii_upper b \<notin> set base32_alphabet" by simp_all
    then show ?thesis
      using Inl base32_alphabet_distinct(2)
      by (cases vs) (auto simp: base32_canonical_def dest: nth_mem)
  next
    case (Inr r)
    show ?thesis
    proof (cases r)
      case None
      with c Inr have "base32_canonical (b # s) = base32_canonical s"
        by (auto simp: base32_canonical_def)
      with Cons.IH None Inr show ?thesis by simp
    next
      case (Some v)
      with c Inr have v: "unat v < 32" and
        can: "base32_canonical (b # s) = base32_alphabet ! unat v # base32_canonical s"
        by (auto simp: base32_canonical_def)
      have "base32_digits (b # s) = Ok vs \<longleftrightarrow> (\<exists>ws. vs = v # ws \<and> base32_digits s = Ok ws)"
        using Inr Some by (auto split: sum.splits)
      also have "\<dots> \<longleftrightarrow> base32_canonical (b # s) = map (\<lambda>d. base32_alphabet ! d) (digits vs)
          \<and> (\<forall>d \<in> set (digits vs). d < 32)"
        unfolding can Cons.IH using v
        by (cases vs) (auto simp: base32_alphabet_inj unat_inject)
      finally show ?thesis .
    qed
  qed
qed

lemma base32_encode_word_digits:
  obtains vs :: "byte list" where "base32_encode d = map (\<lambda>d. base32_alphabet ! d) (digits vs)"
    "\<forall>d \<in> set (digits vs). d < 32"
    "length vs = div_ceil (length d * 8) 5"
    "be_val 32 (digits vs) = be_val 256 (digits d) * 2 ^ (5 * length vs - 8 * length d)"
proof -
  obtain ws where ws: "base32_encode d = map (\<lambda>d. base32_alphabet ! d) ws" "\<forall>w \<in> set ws. w < 32"
     "length ws = div_ceil (length d * 8) 5"
     "be_val 32 ws = be_val 256 (digits d) * 2 ^ (5 * length ws - 8 * length d)"
    using base32_encode_digits [of d] by blast
  let ?vs = "map word_of_nat ws :: byte list"
  have "digits ?vs = ws"
    using ws(2) by (auto simp: unsigned_of_nat take_bit_eq_mod intro!: map_idI)
  moreover have "length ?vs = length ws" by simp
  ultimately show ?thesis using ws that [of ?vs] by simp
qed

text \<open>Decoding accepts exactly the spellings of the encoding.\<close>

lemma base32_decode_spellings: "base32_decode s = Ok d \<longleftrightarrow> base32_canonical s = base32_encode d"
proof
  obtain ws :: "byte list" where ws: "base32_encode d = map (\<lambda>d. base32_alphabet ! d) (digits ws)"
    "\<forall>d \<in> set (digits ws). d < 32" "length ws = div_ceil (length d * 8) 5"
    "be_val 32 (digits ws) = be_val 256 (digits d) * 2 ^ (5 * length ws - 8 * length d)"
    by (rule base32_encode_word_digits)
  {
    assume "base32_decode s = Ok d"
    then obtain vs where vs: "base32_digits s = Ok vs" "8 * length d \<le> 5 * length vs"
      "5 * length vs < 8 * length d + 5"
      "be_val 32 (digits vs) = be_val 256 (digits d) * 2 ^ (5 * length vs - 8 * length d)"
      unfolding base32_decode_iff by blast
    have "length vs = length ws"
      using vs(2,3) ws(3) div_ceil_bounds [of "length d"] by linarith
    then have "digits vs = digits ws"
      using vs(4) ws(2,4) base32_digits_bound [OF vs(1)] by (intro be_val_inj [where b = 32]) auto
    with vs(1) ws(1) show "base32_canonical s = base32_encode d"
      by (simp add: base32_digits_canonical)
  next
    assume "base32_canonical s = base32_encode d"
    with ws have "base32_digits s = Ok ws" by (simp add: base32_digits_canonical)
    with ws(3,4) div_ceil_bounds [of "length d"] show "base32_decode s = Ok d"
      unfolding base32_decode_iff by (intro exI [of _ ws]) (simp add: mult.commute)
  }
qed

lemma base32_canonical_encode: "base32_canonical (base32_encode d) = base32_encode d"
proof -
  have all: "\<forall>b \<in> set base32_alphabet. b \<noteq> 0x3d \<and> b \<noteq> 0x20 \<and> ascii_upper b = b" by code_simp
  obtain ws :: "byte list" where ws: "base32_encode d = map (\<lambda>d. base32_alphabet ! d) (digits ws)"
    "\<forall>d \<in> set (digits ws). d < 32"
    by (rule base32_encode_word_digits)
  have "\<forall>b \<in> set (base32_encode d). b \<in> set base32_alphabet"
    using ws base32_alphabet_distinct(2) by auto
  with all have "\<forall>b \<in> set (base32_encode d). b \<noteq> 0x3d \<and> b \<noteq> 0x20 \<and> ascii_upper b = b" by blast
  then show ?thesis
    by (simp add: base32_canonical_def map_idI)
qed

interpretation base32: spelled_codec base32_encode base32_decode base32_canonical
  by unfold_locales (simp_all add: base32_decode_spellings base32_canonical_encode)

text \<open>Decoding an encoded secret gives the secret back, for every byte string: the chunked
  encoder and the bit-accumulating decoder (whose 32-bit accumulator silently drops its high
  bits) agree, without padding, and the trailing-bits check never rejects an encoding.\<close>

theorem base32_roundtrip: "base32_decode (base32_encode d) = Ok d"
  by (rule base32.dec_enc)

text \<open>C7. The decoder is strict: it accepts a text as the spelling of \<open>d\<close> exactly when, with
  spaces and \<open>=\<close> dropped and letters upper-cased, the text is the encoding of \<open>d\<close>.  So truncated
  groups, non-zero trailing bits and characters outside the alphabet are all rejected, and no
  two secrets share a spelling.\<close>

theorem base32_decode_accepts:
  "base32_decode s = Ok d \<longleftrightarrow>
     map ascii_upper (filter (\<lambda>b. b \<noteq> 0x3d \<and> b \<noteq> 0x20) s) = base32_encode d"
  using base32.dec_spelling [of s d] by (simp only: base32_canonical_def)

end
