(* ===== verification/OtpUri.thy ===== *)
theory OtpUri
  imports Base32 Strings OathTypes
begin

unbundle bit_operations_syntax

text \<open>
  The \<^verbatim>\<open>otpauth://\<close> parser of \<^verbatim>\<open>crates/ckman-core/src/uri.rs\<close>: percent-decoding, the label and
  the query parameters, with the checks that reject rather than guess.  \<open>Kind\<close> and
  \<open>Algorithm\<close> are enums of libcanokey.
\<close>

section \<open>Data\<close>

record otp_auth =
  otp_kind_of :: otp_kind
  otp_issuer :: "byte list option"
  otp_account :: "byte list"
  otp_secret :: "byte list"
  otp_algorithm_of :: otp_algorithm
  otp_digits :: nat
  otp_period :: nat
  otp_counter :: nat

datatype uri_error =
    UriScheme | UriKind | UriMissingName | UriMissingSecret | UriSecret base32_error
  | UriPercentEncoding | UriAlgorithm | UriDigits | UriPeriod | UriDuplicateParameter string
  | UriCounter

section \<open>Percent-decoding\<close>

definition hex_value :: "byte \<Rightarrow> uri_error + byte" where
  "hex_value b =
    (if 0x30 \<le> b \<and> b \<le> 0x39 then Ok (b - 0x30)
     else if 0x61 \<le> b \<and> b \<le> 0x66 then Ok (b - 0x61 + 10)
     else if 0x41 \<le> b \<and> b \<le> 0x46 then Ok (b - 0x41 + 10)
     else Err UriPercentEncoding)"

fun percent_bytes :: "byte list \<Rightarrow> uri_error + byte list" where
  "percent_bytes [] = Ok []"
| "percent_bytes (b # bs) =
     (if b = 0x25
      then (case bs of
          h # l # rest \<Rightarrow>
            res_bind (hex_value h) (\<lambda>hi. res_bind (hex_value l) (\<lambda>lo.
            res_bind (percent_bytes rest) (\<lambda>out. Ok ((push_bit 4 hi OR lo) # out))))
        | _ \<Rightarrow> Err UriPercentEncoding)
      else res_bind (percent_bytes bs) (\<lambda>out. Ok (b # out)))"

definition percent_decode :: "byte list \<Rightarrow> uri_error + byte list" where
  "percent_decode s = res_bind (percent_bytes s) (\<lambda>out.
     if utf8_valid out then Ok out else Err UriPercentEncoding)"

section \<open>The query\<close>

record query_state =
  q_secret :: "byte list option"
  q_issuer :: "byte list option"
  q_algorithm :: otp_algorithm
  q_digits :: nat
  q_period :: nat
  q_counter :: "nat option"
  q_seen :: "bool list"

definition PARAMETERS :: "string list" where
  "PARAMETERS = [''secret'', ''issuer'', ''algorithm'', ''digits'', ''period'', ''counter'']"

fun position :: "('a \<Rightarrow> bool) \<Rightarrow> 'a list \<Rightarrow> nat option" where
  "position P [] = None"
| "position P (x # xs) = (if P x then Some 0 else map_option Suc (position P xs))"

definition mark_seen :: "byte list \<Rightarrow> bool list \<Rightarrow> uri_error + bool list" where
  "mark_seen key seen = (case position (\<lambda>p. lit p = key) PARAMETERS of
     Some index \<Rightarrow>
       if seen ! index then Err (UriDuplicateParameter (PARAMETERS ! index))
       else Ok (seen[index := True])
   | None \<Rightarrow> Ok seen)"

definition parse_algorithm :: "byte list \<Rightarrow> uri_error + otp_algorithm" where
  "parse_algorithm value = (let v = map ascii_upper value in
     if v = lit ''SHA1'' then Ok Sha1
     else if v = lit ''SHA256'' then Ok Sha256
     else if v = lit ''SHA512'' then Ok Sha512
     else Err UriAlgorithm)"

definition set_parameter :: "byte list \<Rightarrow> byte list \<Rightarrow> query_state \<Rightarrow> uri_error + query_state" where
  "set_parameter key value q =
    (if key = lit ''secret''
     then res_bind (map_err UriSecret (base32_decode value)) (\<lambda>s. Ok (q\<lparr>q_secret := Some s\<rparr>))
     else if key = lit ''issuer'' then Ok (q\<lparr>q_issuer := Some value\<rparr>)
     else if key = lit ''algorithm''
     then res_bind (parse_algorithm value) (\<lambda>a. Ok (q\<lparr>q_algorithm := a\<rparr>))
     else if key = lit ''digits''
     then res_bind (ok_or UriDigits (parse_u8 value)) (\<lambda>d.
       if 4 \<le> d \<and> d \<le> 8 then Ok (q\<lparr>q_digits := d\<rparr>) else Err UriDigits)
     else if key = lit ''period''
     then res_bind (ok_or UriPeriod (parse_u32 value)) (\<lambda>p.
       if p = 0 then Err UriPeriod else Ok (q\<lparr>q_period := p\<rparr>))
     else if key = lit ''counter''
     then res_bind (ok_or UriCounter (parse_u32 value)) (\<lambda>c. Ok (q\<lparr>q_counter := Some c\<rparr>))
     else Ok q)"

definition query_pair :: "byte list \<Rightarrow> query_state \<Rightarrow> uri_error + query_state" where
  "query_pair pair q =
    (if pair = [] then Ok q
     else let (key, value) = (case split_once 0x3d pair of Some kv \<Rightarrow> kv | None \<Rightarrow> (pair, [])) in
       res_bind (percent_decode key) (\<lambda>key. res_bind (percent_decode value) (\<lambda>value.
       res_bind (mark_seen key (q_seen q)) (\<lambda>seen. set_parameter key value (q\<lparr>q_seen := seen\<rparr>)))))"

fun query_pairs :: "byte list list \<Rightarrow> query_state \<Rightarrow> uri_error + query_state" where
  "query_pairs [] q = Ok q"
| "query_pairs (p # ps) q = res_bind (query_pair p q) (query_pairs ps)"

section \<open>The URI\<close>

definition parse_kind :: "byte list \<Rightarrow> uri_error + otp_kind" where
  "parse_kind kind =
    (if kind = lit ''totp'' then Ok Totp
     else if kind = lit ''hotp'' then Ok Hotp else Err UriKind)"

definition query_start :: "byte list option \<Rightarrow> query_state" where
  "query_start issuer = \<lparr>q_secret = None, q_issuer = issuer, q_algorithm = Sha1, q_digits = 6,
     q_period = 30, q_counter = None, q_seen = replicate 6 False\<rparr>"

definition finish_otp :: "otp_kind \<Rightarrow> byte list \<Rightarrow> query_state \<Rightarrow> uri_error + otp_auth" where
  "finish_otp kind account q =
     res_bind (ok_or UriMissingSecret (case q_secret q of
       Some s \<Rightarrow> if s \<noteq> [] then Some s else None | None \<Rightarrow> None)) (\<lambda>secret.
     res_bind (case q_counter q of
         Some value \<Rightarrow> Ok value
       | None \<Rightarrow> if kind = Hotp then Err UriCounter else Ok 0) (\<lambda>counter.
     Ok \<lparr>otp_kind_of = kind, otp_issuer = q_issuer q, otp_account = account, otp_secret = secret,
         otp_algorithm_of = q_algorithm q, otp_digits = q_digits q, otp_period = q_period q,
         otp_counter = counter\<rparr>))"

definition parse_otp :: "byte list \<Rightarrow> uri_error + otp_auth" where
  "parse_otp uri =
     res_bind (ok_or UriScheme (strip_prefix (lit ''otpauth://'') (trim uri))) (\<lambda>rest.
     res_bind (ok_or UriKind (split_once 0x2f rest)) (\<lambda>(kind, rest).
     res_bind (parse_kind kind) (\<lambda>kind.
     let (label, query) = (case split_once 0x3f rest of Some lq \<Rightarrow> lq | None \<Rightarrow> (rest, [])) in
     res_bind (percent_decode label) (\<lambda>label.
     let (label_issuer, account) = (case split_once 0x3a label of
         Some (issuer, account) \<Rightarrow> (Some issuer, account) | None \<Rightarrow> (None, label)) in
     if account = [] then Err UriMissingName
     else res_bind (query_pairs (split_on 0x26 query) (query_start label_issuer))
       (finish_otp kind account)))))"

section \<open>Accepted URIs\<close>

lemma percent_decode_utf8: "percent_decode s = Ok t \<Longrightarrow> utf8_valid t"
  by (auto simp: percent_decode_def res_bind_Ok_iff split: if_splits)

definition pair_key :: "byte list \<Rightarrow> byte list" where
  "pair_key pair = (case percent_decode (case split_once 0x3d pair of Some kv \<Rightarrow> fst kv | None \<Rightarrow> pair) of
     Ok key \<Rightarrow> key | Err _ \<Rightarrow> [])"

text \<open>What the query loop keeps of its variables.\<close>

definition query_inv :: "query_state \<Rightarrow> bool" where
  "query_inv q \<longleftrightarrow> 4 \<le> q_digits q \<and> q_digits q \<le> 8 \<and> 0 < q_period q \<and> q_period q < 2 ^ 32
     \<and> (\<forall>c. q_counter q = Some c \<longrightarrow> c < 2 ^ 32) \<and> (\<forall>i. q_issuer q = Some i \<longrightarrow> utf8_valid i)
     \<and> length (q_seen q) = 6"

lemma parse_bounds: "parse_u8 s = Some n \<Longrightarrow> n < 2 ^ 8" "parse_u32 s = Some n \<Longrightarrow> n < 2 ^ 32"
  by (auto simp: parse_u8_def parse_u32_def dest: parse_unsigned_bound)

lemma mark_seen_length: "mark_seen key seen = Ok seen' \<Longrightarrow> length seen' = length seen"
  by (auto simp: mark_seen_def split: option.splits if_splits)

lemma set_parameter_inv:
  assumes "query_inv q" and "utf8_valid value" and "set_parameter key value q = Ok q'"
  shows "query_inv q'"
  using assms(3)
  by (simp add: set_parameter_def res_bind_Ok_iff ok_or_Ok_iff map_err_Ok_iff split: if_split_asm)
    (use assms(1,2) in \<open>auto simp: query_inv_def dest: parse_bounds\<close>)

lemma query_pair_cases:
  assumes "query_pair pair q = Ok q'"
  obtains "pair = []" "q' = q"
  | key val seen where "pair \<noteq> []" "key = pair_key pair" "utf8_valid val"
    "mark_seen key (q_seen q) = Ok seen" "set_parameter key val (q\<lparr>q_seen := seen\<rparr>) = Ok q'"
proof (cases "pair = []")
  case True
  then show thesis using assms that(1) by (simp add: query_pair_def)
next
  case False
  obtain k v where kv: "(case split_once 0x3d pair of Some kv \<Rightarrow> kv | None \<Rightarrow> (pair, [])) = (k, v)"
    by (rule prod.exhaust)
  with assms False obtain key val seen where dec: "percent_decode k = Ok key"
    "percent_decode v = Ok val" "mark_seen key (q_seen q) = Ok seen"
    "set_parameter key val (q\<lparr>q_seen := seen\<rparr>) = Ok q'"
    by (auto simp: query_pair_def res_bind_Ok_iff)
  moreover have "pair_key pair = key"
    using kv dec(1) by (auto simp: pair_key_def split: option.splits)
  ultimately show thesis
    using that(2) [OF False] by (metis percent_decode_utf8)
qed

lemma query_pair_inv:
  assumes "query_inv q" and "query_pair pair q = Ok q'"
  shows "query_inv q'"
  using assms(2)
proof (cases rule: query_pair_cases)
  case (2 key val seen)
  from assms(1) mark_seen_length [OF 2(4)] have "query_inv (q\<lparr>q_seen := seen\<rparr>)"
    by (simp add: query_inv_def)
  then show ?thesis using 2(3,5) by (rule set_parameter_inv)
qed (use assms(1) in simp)

lemma query_pairs_inv: "query_inv q \<Longrightarrow> query_pairs ps q = Ok q' \<Longrightarrow> query_inv q'"
  by (induction ps arbitrary: q) (auto simp: res_bind_Ok_iff dest: query_pair_inv)

text \<open>The query text of a URI\<close>

definition uri_query :: "byte list \<Rightarrow> byte list" where
  "uri_query uri = (case split_once 0x2f (drop 10 (trim uri)) of
     Some (kind, rest) \<Rightarrow> (case split_once 0x3f rest of Some (label, query) \<Rightarrow> query | None \<Rightarrow> [])
   | None \<Rightarrow> [])"

lemma parse_otp_cases:
  assumes "parse_otp uri = Ok a"
  obtains label rest issuer account q kind where
    "trim uri = lit ''otpauth://'' @ rest"
    "percent_decode label = Ok (case issuer of Some i \<Rightarrow> i @ 0x3a # account | None \<Rightarrow> account)"
    "\<forall>i. issuer = Some i \<longrightarrow> 0x3a \<notin> set i"
    "account \<noteq> []"
    "query_pairs (split_on 0x26 (uri_query uri)) (query_start issuer) = Ok q"
    "finish_otp kind account q = Ok a"
proof -
  obtain rest where rest: "trim uri = lit ''otpauth://'' @ rest"
    using assms by (auto simp: parse_otp_def res_bind_Ok_iff ok_or_Ok_iff strip_prefix_Some)
  then obtain kindname rest2 where 2: "split_once 0x2f rest = Some (kindname, rest2)"
    using assms by (auto simp: parse_otp_def res_bind_Ok_iff ok_or_Ok_iff)
  then obtain kind where kind: "parse_kind kindname = Ok kind"
    using assms rest by (auto simp: parse_otp_def res_bind_Ok_iff ok_or_Ok_iff)
  obtain label query where
    lq: "(case split_once 0x3f rest2 of Some lq \<Rightarrow> lq | None \<Rightarrow> (rest2, [])) = (label, query)"
    by (rule prod.exhaust)
  then obtain decoded where decoded: "percent_decode label = Ok decoded" and
    fin: "(let (label_issuer, account) = (case split_once 0x3a decoded of
         Some (issuer, account) \<Rightarrow> (Some issuer, account) | None \<Rightarrow> (None, decoded)) in
     if account = [] then Err UriMissingName
     else res_bind (query_pairs (split_on 0x26 query) (query_start label_issuer))
       (finish_otp kind account)) = Ok a"
    using assms rest 2 kind by (auto simp: parse_otp_def res_bind_Ok_iff ok_or_Ok_iff)
  have "query = uri_query uri"
    using rest 2 lq by (auto simp: uri_query_def lit_def split: option.splits)
  note 1 = rest decoded fin [unfolded this]
  show thesis
  proof (cases "split_once 0x3a decoded")
    case None
    with 1 that [where issuer = None and account = decoded] show ?thesis
      by (auto simp: res_bind_Ok_iff split: if_splits)
  next
    case (Some p)
    obtain i account where p: "p = (i, account)" by (cases p)
    with Some have "decoded = i @ 0x3a # account" "0x3a \<notin> set i" by (simp_all add: split_once_Some)
    with 1 p Some that [where issuer = "Some i" and account = account] show ?thesis
      by (auto simp: res_bind_Ok_iff split: if_splits)
  qed
qed

section \<open>Repeated parameters\<close>

definition recognized_keys :: "byte list list \<Rightarrow> byte list list" where
  "recognized_keys pairs =
     filter (\<lambda>k. k \<in> set (map lit PARAMETERS)) (map pair_key (filter (\<lambda>p. p \<noteq> []) pairs))"

lemma position_Some:
  "position P xs = Some i \<Longrightarrow> i < length xs \<and> P (xs ! i)"
  by (induction xs arbitrary: i) (auto split: if_splits)

lemma position_None: "position P xs = None \<longleftrightarrow> (\<forall>x \<in> set xs. \<not> P x)"
  by (induction xs) auto

lemma PARAMETERS_distinct: "distinct (map lit PARAMETERS)" "length PARAMETERS = 6"
  by code_simp+

lemma set_parameter_seen: "set_parameter key val q = Ok q' \<Longrightarrow> q_seen q' = q_seen q"
  by (simp add: set_parameter_def res_bind_Ok_iff split: if_split_asm) auto

text \<open>The flags record exactly the recognized keys met so far.\<close>

definition seen_keys :: "bool list \<Rightarrow> byte list set" where
  "seen_keys seen = {lit (PARAMETERS ! i) | i. i < 6 \<and> seen ! i}"

lemma mark_seen_keys:
  assumes "mark_seen key seen = Ok seen'" and "length seen = 6"
  shows "seen_keys seen' = seen_keys seen \<union> (if key \<in> set (map lit PARAMETERS) then {key} else {})"
    and "key \<notin> seen_keys seen"
proof -
  have inj: "i = j" if "lit (PARAMETERS ! i) = lit (PARAMETERS ! j)" "i < 6" "j < 6" for i j
    using that PARAMETERS_distinct by (metis length_map nth_eq_iff_index_eq nth_map)
  have "seen_keys seen' = seen_keys seen \<union> (if key \<in> set (map lit PARAMETERS) then {key} else {})
    \<and> key \<notin> seen_keys seen"
  proof (cases "position (\<lambda>p. lit p = key) PARAMETERS")
    case None
    then have "key \<notin> set (map lit PARAMETERS)" by (auto simp: position_None)
    moreover have "seen_keys seen \<subseteq> set (map lit PARAMETERS)"
      using PARAMETERS_distinct by (auto simp: seen_keys_def)
    moreover have "seen' = seen" using None assms(1) by (simp add: mark_seen_def)
    ultimately show ?thesis by auto
  next
    case (Some i)
    then have i: "i < 6" "lit (PARAMETERS ! i) = key" and "key \<in> set (map lit PARAMETERS)"
      using position_Some [OF Some] PARAMETERS_distinct by auto
    have seen': "\<not> seen ! i" "seen' = seen[i := True]"
      using Some assms(1) by (auto simp: mark_seen_def split: if_splits)
    have "key \<notin> seen_keys seen"
      using seen' i inj by (auto simp: seen_keys_def)
    moreover have "seen_keys seen' = seen_keys seen \<union> (if key \<in> set (map lit PARAMETERS) then {key} else {})"
      using i seen' assms(2) \<open>key \<in> set (map lit PARAMETERS)\<close>
      by (auto simp: seen_keys_def nth_list_update split: if_splits)
    ultimately show ?thesis by blast
  qed
  then show "seen_keys seen' = seen_keys seen \<union> (if key \<in> set (map lit PARAMETERS) then {key} else {})"
    and "key \<notin> seen_keys seen" by blast+
qed

lemma query_pairs_distinct:
  assumes "query_pairs pairs q = Ok q'" and "length (q_seen q) = 6"
  shows "distinct (recognized_keys pairs) \<and> set (recognized_keys pairs) \<inter> seen_keys (q_seen q) = {}"
  using assms
proof (induction pairs arbitrary: q)
  case (Cons pair pairs)
  then obtain q1 where q1: "query_pair pair q = Ok q1" "query_pairs pairs q1 = Ok q'"
    by (auto simp: res_bind_Ok_iff)
  from q1(1) show ?case
  proof (cases rule: query_pair_cases)
    case 1
    with Cons q1 show ?thesis by (simp add: recognized_keys_def)
  next
    case (2 key val seen)
    have seen: "q_seen q1 = seen" using set_parameter_seen [OF 2(5)] by simp
    note keys = mark_seen_keys [OF 2(4) Cons.prems(2)]
    have "length (q_seen q1) = 6" using seen mark_seen_length [OF 2(4)] Cons.prems(2) by simp
    from Cons.IH [OF q1(2) this] keys seen 2(1,2) show ?thesis
      by (auto simp: recognized_keys_def)
  qed
qed (simp add: recognized_keys_def)

section \<open>Printing a URI\<close>

definition unreserved :: "byte \<Rightarrow> bool" where
  "unreserved b \<longleftrightarrow> (0x30 \<le> b \<and> b \<le> 0x39) \<or> (0x41 \<le> b \<and> b \<le> 0x5a) \<or> (0x61 \<le> b \<and> b \<le> 0x7a)
     \<or> b = 0x2d \<or> b = 0x2e \<or> b = 0x5f \<or> b = 0x7e"

definition hex_digit :: "byte \<Rightarrow> byte" where
  "hex_digit n = (if n < 10 then n + 0x30 else n - 10 + 0x41)"

definition percent_encode :: "byte list \<Rightarrow> byte list" where
  "percent_encode bs = concat (map (\<lambda>b. if unreserved b then [b]
     else [0x25, hex_digit (drop_bit 4 b), hex_digit (b AND 15)]) bs)"

definition otp_query :: "otp_auth \<Rightarrow> byte list" where
  "otp_query a =
     lit ''secret='' @ base32_encode (otp_secret a)
     @ (case otp_issuer a of Some i \<Rightarrow> lit ''&issuer='' @ percent_encode i | None \<Rightarrow> [])
     @ lit ''&algorithm='' @ lit (case otp_algorithm_of a of
         Sha1 \<Rightarrow> ''SHA1'' | Sha256 \<Rightarrow> ''SHA256'' | Sha512 \<Rightarrow> ''SHA512'')
     @ lit ''&digits='' @ lit (show_nat (otp_digits a))
     @ lit ''&period='' @ lit (show_nat (otp_period a))
     @ lit ''&counter='' @ lit (show_nat (otp_counter a))"

definition print_otp :: "otp_auth \<Rightarrow> byte list" where
  "print_otp a =
     lit ''otpauth://'' @ lit (case otp_kind_of a of Totp \<Rightarrow> ''totp'' | Hotp \<Rightarrow> ''hotp'') @ lit ''/''
     @ (case otp_issuer a of Some i \<Rightarrow> percent_encode (i @ [0x3a]) | None \<Rightarrow> [])
     @ percent_encode (otp_account a) @ lit ''?'' @ otp_query a"

text \<open>The credentials a URI can carry.  The decoded label is split at its first colon, so an
  issuer has none, and neither has an account without issuer.\<close>

definition otp_wf :: "otp_auth \<Rightarrow> bool" where
  "otp_wf a \<longleftrightarrow> otp_account a \<noteq> [] \<and> utf8_valid (otp_account a)
     \<and> (case otp_issuer a of Some i \<Rightarrow> utf8_valid i \<and> 0x3a \<notin> set i | None \<Rightarrow> 0x3a \<notin> set (otp_account a))
     \<and> otp_secret a \<noteq> [] \<and> 4 \<le> otp_digits a \<and> otp_digits a \<le> 8
     \<and> 0 < otp_period a \<and> otp_period a < 2 ^ 32 \<and> otp_counter a < 2 ^ 32"

lemma hex_value_digit:
  assumes "unat n < 16"
  shows "hex_value (hex_digit n) = Ok n"
proof (cases "n < 10")
  case True
  then have "0x30 \<le> n + 0x30 \<and> n + 0x30 \<le> 0x39" by (unat_arith; simp)
  with True show ?thesis by (simp add: hex_digit_def hex_value_def)
next
  case False
  with assms have "0x41 \<le> n - 10 + 0x41 \<and> n - 10 + 0x41 \<le> 0x46 \<and> \<not> n - 10 + 0x41 \<le> 0x39
      \<and> \<not> 0x61 \<le> n - 10 + 0x41"
    by (unat_arith; simp)
  with False show ?thesis by (simp add: hex_digit_def hex_value_def)
qed

lemma percent_bytes_encode_append:
  "percent_bytes (percent_encode xs @ rest) =
     res_bind (percent_bytes rest) (\<lambda>out. Ok (xs @ out))"
proof (induction xs)
  case Nil
  then show ?case by (cases "percent_bytes rest") (simp_all add: percent_encode_def)
next
  case (Cons b xs)
  have "b \<noteq> 0x25" if "unreserved b" using that by (auto simp: unreserved_def)
  with Cons show ?case
    by (cases "percent_bytes rest")
      (simp_all add: percent_encode_def hex_value_digit nibbles)
qed

lemma percent_decode_encode: "utf8_valid xs \<Longrightarrow> percent_decode (percent_encode xs) = Ok xs"
  using percent_bytes_encode_append [of xs "[]"] by (simp add: percent_decode_def)

lemma hex_digit_unreserved:
  assumes "unat n < 16"
  shows "unreserved (hex_digit n)"
proof (cases "n < 10")
  case True
  then have "0x30 \<le> n + 0x30 \<and> n + 0x30 \<le> 0x39" by (unat_arith; simp)
  with True show ?thesis by (simp add: hex_digit_def unreserved_def)
next
  case False
  with assms have "0x41 \<le> n - 10 + 0x41 \<and> n - 10 + 0x41 \<le> 0x5a" by (unat_arith; simp)
  with False show ?thesis by (simp add: hex_digit_def unreserved_def)
qed

lemma percent_encode_chars: "b \<in> set (percent_encode xs) \<Longrightarrow> unreserved b \<or> b = 0x25"
  by (auto simp: percent_encode_def hex_digit_unreserved nibbles split: if_splits)

lemma percent_encode_append: "percent_encode (xs @ ys) = percent_encode xs @ percent_encode ys"
  by (simp add: percent_encode_def)

text \<open>Plain text is its own percent-decoding.\<close>

definition plain :: "byte list \<Rightarrow> bool" where
  "plain s \<longleftrightarrow> (\<forall>b \<in> set s. unreserved b)"

lemma plain_ascii: "plain s \<Longrightarrow> \<forall>b \<in> set s. b < 0x80 \<and> b \<notin> {0x25, 0x26, 0x2f, 0x3a, 0x3d, 0x3f}"
proof -
  have "b < 0x80 \<and> b \<notin> {0x25, 0x26, 0x2f, 0x3a, 0x3d, 0x3f}" if "unreserved b" for b :: byte
  proof -
    have "b < 0x80" using that unfolding unreserved_def by (elim disjE conjE) (unat_arith | simp)+
    moreover have "b \<notin> {0x25, 0x26, 0x2f, 0x3a, 0x3d, 0x3f}" using that unfolding unreserved_def by auto
    ultimately show ?thesis by blast
  qed
  then show "plain s \<Longrightarrow> ?thesis" by (simp add: plain_def)
qed

lemma percent_decode_plain:
  assumes "plain s"
  shows "percent_decode s = Ok s"
proof -
  have "percent_bytes s = Ok s"
    using plain_ascii [OF assms] by (induction s) auto
  moreover have "utf8_valid s"
    using plain_ascii [OF assms] by (intro utf8_valid_ascii) blast
  ultimately show ?thesis by (simp add: percent_decode_def)
qed

lemma plain_base32: "plain (base32_encode d)"
proof -
  have "\<forall>b \<in> set base32_alphabet. unreserved b" by code_simp
  moreover obtain ws :: "byte list" where "base32_encode d = map (\<lambda>d. base32_alphabet ! d) (digits ws)"
    "\<forall>d \<in> set (digits ws). d < 32"
    by (rule base32_encode_word_digits)
  then have "\<forall>b \<in> set (base32_encode d). b \<in> set base32_alphabet"
    using base32_alphabet_distinct(2) by auto
  ultimately show ?thesis unfolding plain_def by blast
qed

lemma plain_show_nat: "plain (lit (show_nat n))"
  using show_nat_digits [of n] by (auto simp: plain_def unreserved_def)

lemma lit_separators:
  "lit ''/'' = [0x2f]" "lit ''?'' = [0x3f]"
  "lit ''secret='' = lit ''secret'' @ [0x3d]" "lit ''&issuer='' = 0x26 # lit ''issuer'' @ [0x3d]"
  "lit ''&algorithm='' = 0x26 # lit ''algorithm'' @ [0x3d]" "lit ''&digits='' = 0x26 # lit ''digits'' @ [0x3d]"
  "lit ''&period='' = 0x26 # lit ''period'' @ [0x3d]" "lit ''&counter='' = 0x26 # lit ''counter'' @ [0x3d]"
  by code_simp+

lemma plain_names:
  "plain (lit ''secret'')" "plain (lit ''issuer'')" "plain (lit ''algorithm'')" "plain (lit ''digits'')"
  "plain (lit ''period'')" "plain (lit ''counter'')" "plain (lit ''totp'')" "plain (lit ''hotp'')"
  "plain (lit ''SHA1'')" "plain (lit ''SHA256'')" "plain (lit ''SHA512'')"
  by code_simp+

lemma query_pair_plain:
  assumes "plain key" and "percent_decode v = Ok val" and "mark_seen key (q_seen q) = Ok seen"
  shows "query_pair (key @ 0x3d # v) q = set_parameter key val (q\<lparr>q_seen := seen\<rparr>)"
proof -
  have "0x3d \<notin> set key" using plain_ascii [OF assms(1)] by auto
  then show ?thesis
    using assms percent_decode_plain [OF assms(1)] by (simp add: query_pair_def)
qed

lemma mark_seen_steps:
  "mark_seen (lit ''secret'') (replicate 6 False) = Ok [True, False, False, False, False, False]"
  "mark_seen (lit ''issuer'') [True, False, False, False, False, False]
     = Ok [True, True, False, False, False, False]"
  "mark_seen (lit ''algorithm'') [True, i, False, False, False, False]
     = Ok [True, i, True, False, False, False]"
  "mark_seen (lit ''digits'') [True, i, True, False, False, False]
     = Ok [True, i, True, True, False, False]"
  "mark_seen (lit ''period'') [True, i, True, True, False, False]
     = Ok [True, i, True, True, True, False]"
  "mark_seen (lit ''counter'') [True, i, True, True, True, False]
     = Ok [True, i, True, True, True, True]"
  by (cases i; code_simp)+

lemma lit_names_distinct:
  "lit ''issuer'' \<noteq> lit ''secret''"
  "lit ''algorithm'' \<noteq> lit ''secret''" "lit ''algorithm'' \<noteq> lit ''issuer''"
  "lit ''digits'' \<noteq> lit ''secret''" "lit ''digits'' \<noteq> lit ''issuer''" "lit ''digits'' \<noteq> lit ''algorithm''"
  "lit ''period'' \<noteq> lit ''secret''" "lit ''period'' \<noteq> lit ''issuer''" "lit ''period'' \<noteq> lit ''algorithm''"
  "lit ''period'' \<noteq> lit ''digits''"
  "lit ''counter'' \<noteq> lit ''secret''" "lit ''counter'' \<noteq> lit ''issuer''" "lit ''counter'' \<noteq> lit ''algorithm''"
  "lit ''counter'' \<noteq> lit ''digits''" "lit ''counter'' \<noteq> lit ''period''"
  "lit ''hotp'' \<noteq> lit ''totp''"
  by code_simp+

abbreviation algorithm_name :: "otp_algorithm \<Rightarrow> string" where
  "algorithm_name alg \<equiv> (case alg of Sha1 \<Rightarrow> ''SHA1'' | Sha256 \<Rightarrow> ''SHA256'' | Sha512 \<Rightarrow> ''SHA512'')"

lemma parse_algorithm_name: "parse_algorithm (lit (algorithm_name alg)) = Ok alg"
  by (cases alg; simp; code_simp)

lemma plain_algorithm_name: "plain (lit (algorithm_name alg))"
  by (cases alg) (simp_all add: plain_names)

lemma set_parameter_steps:
  "set_parameter (lit ''secret'') (base32_encode d) q = Ok (q\<lparr>q_secret := Some d\<rparr>)"
  "set_parameter (lit ''issuer'') i q = Ok (q\<lparr>q_issuer := Some i\<rparr>)"
  "set_parameter (lit ''algorithm'') (lit (algorithm_name alg)) q = Ok (q\<lparr>q_algorithm := alg\<rparr>)"
  "4 \<le> n \<Longrightarrow> n \<le> 8 \<Longrightarrow> set_parameter (lit ''digits'') (lit (show_nat n)) q = Ok (q\<lparr>q_digits := n\<rparr>)"
  "0 < n \<Longrightarrow> n < 2 ^ 32 \<Longrightarrow> set_parameter (lit ''period'') (lit (show_nat n)) q = Ok (q\<lparr>q_period := n\<rparr>)"
  "n < 2 ^ 32 \<Longrightarrow> set_parameter (lit ''counter'') (lit (show_nat n)) q = Ok (q\<lparr>q_counter := Some n\<rparr>)"
  by (simp_all add: set_parameter_def lit_names_distinct base32.dec_enc parse_algorithm_name
      parse_u8_def parse_u32_def parse_unsigned_show)

lemma amp_notin: "plain s \<Longrightarrow> 0x26 \<notin> set s" "0x26 \<notin> set (percent_encode t)"
  using plain_ascii [of s] percent_encode_chars [of "0x26" t]
  by (auto simp: unreserved_def)

lemma query_pairs_otp:
  assumes "otp_wf a"
  shows "query_pairs (split_on 0x26 (otp_query a)) (query_start (otp_issuer a)) =
    Ok \<lparr>q_secret = Some (otp_secret a), q_issuer = otp_issuer a, q_algorithm = otp_algorithm_of a,
       q_digits = otp_digits a, q_period = otp_period a, q_counter = Some (otp_counter a),
       q_seen = [True, otp_issuer a \<noteq> None, True, True, True, True]\<rparr>"
proof -
  let ?tail = "[lit ''algorithm'' @ 0x3d # lit (algorithm_name (otp_algorithm_of a)),
    lit ''digits'' @ 0x3d # lit (show_nat (otp_digits a)),
    lit ''period'' @ 0x3d # lit (show_nat (otp_period a)),
    lit ''counter'' @ 0x3d # lit (show_nat (otp_counter a))]"
  note amp = amp_notin(1) [OF plain_base32] amp_notin(1) [OF plain_show_nat] amp_notin(2)
    plain_names [THEN amp_notin(1)] amp_notin(1) [OF plain_algorithm_name]
  have tail: "query_pairs ?tail q = Ok (q\<lparr>q_algorithm := otp_algorithm_of a, q_digits := otp_digits a,
      q_period := otp_period a, q_counter := Some (otp_counter a), q_seen := [True, i, True, True, True, True]\<rparr>)"
    if "q_seen q = [True, i, False, False, False, False]" for q i
    using that assms
    by (simp add: query_pair_plain plain_names percent_decode_plain plain_show_nat
        plain_algorithm_name mark_seen_steps set_parameter_steps otp_wf_def)
  have secret: "query_pair (lit ''secret'' @ 0x3d # base32_encode (otp_secret a)) (query_start i) =
      Ok ((query_start i)\<lparr>q_secret := Some (otp_secret a), q_seen := [True, False, False, False, False, False]\<rparr>)" for i
    by (simp add: query_pair_plain plain_names percent_decode_plain plain_base32 mark_seen_steps
        set_parameter_steps query_start_def)
  show ?thesis
  proof (cases "otp_issuer a")
    case None
    have "split_on 0x26 (otp_query a) = (lit ''secret'' @ 0x3d # base32_encode (otp_secret a)) # ?tail"
      using split_on_append [of "0x26" "lit ''secret'' @ 0x3d # base32_encode (otp_secret a)"]
        split_on_append [of "0x26" "lit ''algorithm'' @ 0x3d # lit (algorithm_name (otp_algorithm_of a))"]
        split_on_append [of "0x26" "lit ''digits'' @ 0x3d # lit (show_nat (otp_digits a))"]
        split_on_append [of "0x26" "lit ''period'' @ 0x3d # lit (show_nat (otp_period a))"]
        split_on_single [of "0x26" "lit ''counter'' @ 0x3d # lit (show_nat (otp_counter a))"]
      by (simp add: otp_query_def lit_separators None amp)
    with None secret tail [where i = False] show ?thesis
      by (simp add: query_start_def)
  next
    case (Some i)
    have issuer: "query_pair (lit ''issuer'' @ 0x3d # percent_encode i) q =
        Ok (q\<lparr>q_issuer := Some i, q_seen := [True, True, False, False, False, False]\<rparr>)"
      if "q_seen q = [True, False, False, False, False, False]" for q
      using that assms Some
      by (simp add: query_pair_plain plain_names percent_decode_encode mark_seen_steps
          set_parameter_steps otp_wf_def)
    have "split_on 0x26 (otp_query a) = (lit ''secret'' @ 0x3d # base32_encode (otp_secret a))
        # (lit ''issuer'' @ 0x3d # percent_encode i) # ?tail"
      using split_on_append [of "0x26" "lit ''secret'' @ 0x3d # base32_encode (otp_secret a)"]
        split_on_append [of "0x26" "lit ''issuer'' @ 0x3d # percent_encode i"]
        split_on_append [of "0x26" "lit ''algorithm'' @ 0x3d # lit (algorithm_name (otp_algorithm_of a))"]
        split_on_append [of "0x26" "lit ''digits'' @ 0x3d # lit (show_nat (otp_digits a))"]
        split_on_append [of "0x26" "lit ''period'' @ 0x3d # lit (show_nat (otp_period a))"]
        split_on_single [of "0x26" "lit ''counter'' @ 0x3d # lit (show_nat (otp_counter a))"]
      by (simp add: otp_query_def lit_separators Some amp)
    with Some secret issuer tail [where i = True] show ?thesis
      by (simp add: query_start_def)
  qed
qed

lemma last_print_visible: "visible (last (print_otp a))"
proof -
  have "last (print_otp a) = last (lit (show_nat (otp_counter a)))"
    using show_nat_nonempty by (simp add: print_otp_def otp_query_def)
  moreover have "last (lit (show_nat (otp_counter a))) \<in> set (lit (show_nat (otp_counter a)))"
    using show_nat_nonempty by (rule last_in_set)
  ultimately have "0x30 \<le> last (print_otp a) \<and> last (print_otp a) \<le> 0x39"
    using show_nat_digits by metis
  then show ?thesis unfolding visible_def by (elim conjE) (unat_arith; simp)
qed

lemma trim_print: "trim (print_otp a) = print_otp a"
proof (rule trim_visible)
  have scheme: "lit ''otpauth://'' = 0x6f # tl (lit ''otpauth://'')" by code_simp
  then have "hd (print_otp a) = 0x6f" "print_otp a \<noteq> []"
    by (simp_all add: print_otp_def) (metis append_Cons list.sel(1), metis append_Cons list.distinct(1))
  then show "visible (hd (print_otp a))" "print_otp a \<noteq> []" by (simp_all add: visible_def)
qed (rule last_print_visible)

definition otp_label :: "otp_auth \<Rightarrow> byte list" where
  "otp_label a = percent_encode ((case otp_issuer a of Some i \<Rightarrow> i @ [0x3a] | None \<Rightarrow> []) @ otp_account a)"

lemma print_otp_label: "print_otp a = lit ''otpauth://'' @
    lit (case otp_kind_of a of Totp \<Rightarrow> ''totp'' | Hotp \<Rightarrow> ''hotp'') @ 0x2f # otp_label a @ 0x3f # otp_query a"
  by (simp add: print_otp_def otp_label_def percent_encode_append lit_separators percent_encode_def
      split: option.split)

lemma otp_label_decode:
  assumes "otp_wf a"
  shows "percent_decode (otp_label a) =
    Ok ((case otp_issuer a of Some i \<Rightarrow> i @ [0x3a] | None \<Rightarrow> []) @ otp_account a)"
  unfolding otp_label_def
proof (rule percent_decode_encode)
  show "utf8_valid ((case otp_issuer a of Some i \<Rightarrow> i @ [0x3a] | None \<Rightarrow> []) @ otp_account a)"
    using assms utf8_valid_split [of "0x3a"] by (auto simp: otp_wf_def split: option.splits)
qed

lemma parse_kind_name:
  "parse_kind (lit (case k of Totp \<Rightarrow> ''totp'' | Hotp \<Rightarrow> ''hotp'')) = Ok k"
  "0x2f \<notin> set (lit (case k of Totp \<Rightarrow> ''totp'' | Hotp \<Rightarrow> ''hotp''))"
  using plain_names(7,8) [THEN plain_ascii]
  by (cases k; auto simp: parse_kind_def lit_names_distinct)+

lemma parse_print_otp:
  assumes "otp_wf a"
  shows "parse_otp (print_otp a) = Ok a"
proof -
  have "0x3f \<notin> set (otp_label a)"
    using percent_encode_chars [of "0x3f"] by (auto simp: otp_label_def unreserved_def)
  moreover have "finish_otp (otp_kind_of a) (otp_account a)
      \<lparr>q_secret = Some (otp_secret a), q_issuer = otp_issuer a, q_algorithm = otp_algorithm_of a,
       q_digits = otp_digits a, q_period = otp_period a, q_counter = Some (otp_counter a),
       q_seen = [True, otp_issuer a \<noteq> None, True, True, True, True]\<rparr> = Ok a"
    using assms by (simp add: finish_otp_def otp_wf_def)
  moreover have "(case split_once 0x3a ((case otp_issuer a of Some i \<Rightarrow> i @ [0x3a] | None \<Rightarrow> []) @ otp_account a) of
        Some (issuer, account) \<Rightarrow> (Some issuer, account)
      | None \<Rightarrow> (None, (case otp_issuer a of Some i \<Rightarrow> i @ [0x3a] | None \<Rightarrow> []) @ otp_account a))
      = (otp_issuer a, otp_account a)"
    using assms by (auto simp: otp_wf_def split: option.splits)
  moreover have "strip_prefix (lit ''otpauth://'') (trim (print_otp a)) = Some
    (lit (case otp_kind_of a of Totp \<Rightarrow> ''totp'' | Hotp \<Rightarrow> ''hotp'') @ 0x2f # otp_label a @ 0x3f # otp_query a)"
    unfolding trim_print by (subst print_otp_label) (rule strip_prefix_append)
  moreover have "otp_account a \<noteq> []" using assms by (simp add: otp_wf_def)
  ultimately show ?thesis
    using assms by (simp add: parse_otp_def parse_kind_name otp_label_decode query_pairs_otp)
qed

section \<open>Properties\<close>

text \<open>C8. Every credential that an \<^verbatim>\<open>otpauth://\<close> URI can carry survives printing and parsing:
  issuer and account with any characters (percent-encoded), the base32 secret, and the
  algorithm, digits, period and counter parameters.\<close>

theorem otp_uri_roundtrip:
  assumes "otp_wf a"
  shows "parse_otp (print_otp a) = Ok a"
  using assms by (rule parse_print_otp)

theorem otp_uri_roundtrip_witness:
  "parse_otp (print_otp \<lparr>otp_kind_of = Hotp, otp_issuer = Some (lit ''A&B''), otp_account = lit ''x:y'',
      otp_secret = [1, 2, 3], otp_algorithm_of = Sha256, otp_digits = 8, otp_period = 60, otp_counter = 7\<rparr>)
    = Ok \<lparr>otp_kind_of = Hotp, otp_issuer = Some (lit ''A&B''), otp_account = lit ''x:y'',
      otp_secret = [1, 2, 3], otp_algorithm_of = Sha256, otp_digits = 8, otp_period = 60, otp_counter = 7\<rparr>"
proof (rule otp_uri_roundtrip)
  have "utf8_valid (lit ''A&B'')" "utf8_valid (lit ''x:y'')" "0x3a \<notin> set (lit ''A&B'')" "lit ''x:y'' \<noteq> []"
    by code_simp+
  then show "otp_wf \<lparr>otp_kind_of = Hotp, otp_issuer = Some (lit ''A&B''), otp_account = lit ''x:y'',
      otp_secret = [1, 2, 3], otp_algorithm_of = Sha256, otp_digits = 8, otp_period = 60, otp_counter = 7\<rparr>"
    by (simp add: otp_wf_def)
qed

text \<open>C9. Whatever text the parser accepts, the credential is well-formed: it has an account and a
  secret, both texts are valid UTF-8, the digit count is between 4 and 8, the period is positive,
  numbers fit their types, and no recognized parameter was given twice.\<close>

theorem otp_uri_accepted:
  assumes "parse_otp uri = Ok a"
  shows "otp_account a \<noteq> [] \<and> utf8_valid (otp_account a)
    \<and> (\<forall>i. otp_issuer a = Some i \<longrightarrow> utf8_valid i)
    \<and> otp_secret a \<noteq> [] \<and> 4 \<le> otp_digits a \<and> otp_digits a \<le> 8
    \<and> 0 < otp_period a \<and> otp_period a < 2 ^ 32 \<and> otp_counter a < 2 ^ 32
    \<and> distinct (recognized_keys (split_on 0x26 (uri_query uri)))"
proof -
  from assms obtain label rest issuer account q kind where c:
    "percent_decode label = Ok (case issuer of Some i \<Rightarrow> i @ 0x3a # account | None \<Rightarrow> account)"
    "account \<noteq> []" "query_pairs (split_on 0x26 (uri_query uri)) (query_start issuer) = Ok q"
    "finish_otp kind account q = Ok a"
    by (rule parse_otp_cases)
  have utf8: "utf8_valid account" "\<forall>i. issuer = Some i \<longrightarrow> utf8_valid i"
    using percent_decode_utf8 [OF c(1)] utf8_valid_split [of "0x3a"] by (auto split: option.splits)
  then have "query_inv (query_start issuer)" by (simp add: query_inv_def query_start_def)
  then have "query_inv q" using c(3) by (rule query_pairs_inv)
  moreover have "distinct (recognized_keys (split_on 0x26 (uri_query uri)))"
    using query_pairs_distinct [OF c(3)] by (simp add: query_start_def)
  ultimately show ?thesis
    using c(2,4) utf8(1)
    by (auto simp: finish_otp_def query_inv_def res_bind_Ok_iff ok_or_Ok_iff split: option.splits if_splits)
qed

theorem otp_uri_accepted_witness:
  "4 \<le> otp_digits \<lparr>otp_kind_of = Totp, otp_issuer = None, otp_account = lit ''a'', otp_secret = [72],
      otp_algorithm_of = Sha1, otp_digits = 6, otp_period = 30, otp_counter = 0\<rparr>"
proof -
  have "parse_otp (lit ''otpauth://totp/a?secret=JA'') = Ok \<lparr>otp_kind_of = Totp, otp_issuer = None,
      otp_account = lit ''a'', otp_secret = [72], otp_algorithm_of = Sha1, otp_digits = 6,
      otp_period = 30, otp_counter = 0\<rparr>"
    by code_simp
  from otp_uri_accepted [OF this] show ?thesis by blast
qed

end
