(* ===== verification/OathCli.thy ===== *)
theory OathCli
  imports Oath Admin OtpUri "HOL-Library.List_Lexorder"
begin

unbundle bit_operations_syntax

text \<open>
  The \<^verbatim>\<open>oath\<close> commands of \<^verbatim>\<open>crates/ckman/src/commands/oath.rs\<close>: the session that resolves the access key
  (argument, keyring, prompt), the account search, and the account commands with the checks they
  make before they write.  The keyring, the clock and the terminal are parameters.
\<close>

section \<open>Environment\<close>

record 'w oath_cli =
  ocl_cli :: "'w cli_env"
  ocl_lib :: "('w, io_error) oath_env"
  ocl_admin :: "('w, io_error) admin_env"
  keyring_new :: "byte list \<Rightarrow> byte list \<Rightarrow> ('w, string, nat) proc"
  keyring_get :: "nat \<Rightarrow> ('w, string, byte list) proc"
  keyring_set :: "nat \<Rightarrow> byte list \<Rightarrow> ('w, string, unit) proc"
  keyring_delete :: "nat \<Rightarrow> ('w, string, unit) proc"
  clock_now :: "'w \<Rightarrow> u64 option"
  print_line :: "byte list \<Rightarrow> 'w \<Rightarrow> 'w"
  show_random_error :: "random_error \<Rightarrow> string"

text \<open>The library over one connection: \<^verbatim>\<open>&mut |command| connection.exchange(command)\<close>.\<close>

definition lib_at :: "'w oath_cli \<Rightarrow> target \<Rightarrow> ('w, io_error) oath_env" where
  "lib_at env t = (ocl_lib env)\<lparr>oath_exchange := conn_exchange (ocl_cli env) (tg_connection t)\<rparr>"

definition admin_at :: "'w oath_cli \<Rightarrow> target \<Rightarrow> ('w, io_error) admin_env" where
  "admin_at env t = (ocl_admin env)\<lparr>admin_exchange := conn_exchange (ocl_cli env) (tg_connection t)\<rparr>"

definition println :: "'w oath_cli \<Rightarrow> byte list \<Rightarrow> ('w, message, unit) proc" where
  "println env t = (\<lambda>w. Some (Ok (), print_line env t w))"

definition eprintln :: "'w oath_cli \<Rightarrow> byte list \<Rightarrow> ('w, message, unit) proc" where
  "eprintln env t = (\<lambda>w. Some (Ok (), stderr_print (ocl_cli env) (t @ [0x0a]) w))"

definition open_target :: "'w oath_cli \<Rightarrow> u32 option \<Rightarrow> byte list option \<Rightarrow> ('w, message, target) proc" where
  "open_target env device reader =
     proc_bind (pcsc_result (ocl_cli env) (pc_establish (ocl_cli env))) (\<lambda>_.
     single_target (ocl_cli env) device reader)"

section \<open>Messages\<close>

definition is_wrong_password :: "'e oath_error \<Rightarrow> bool" where
  "is_wrong_password error = (case error of
     OathDrive (Protocol e) \<Rightarrow> err_kind e = AuthenticationFailed \<and> err_reference e = Some RefOathAccess
   | _ \<Rightarrow> False)"

definition describe_oath :: "'w oath_cli \<Rightarrow> io_error oath_error \<Rightarrow> message" where
  "describe_oath env error = (case error of
     OathRandom e \<Rightarrow> lit (''failed to generate authentication randomness: '' @ show_random_error env e)
   | OathDrive (Protocol e) \<Rightarrow>
       if err_kind e = AuthenticationFailed then lit ''authentication to the CanoKey failed; wrong password?''
       else if err_kind e = DeviceAuthenticationFailed
       then lit ''the CanoKey failed mutual authentication; refusing to continue''
       else if err_kind e = NotFound then lit ''no such account''
       else if err_kind e = ConditionsNotSatisfied
       then (if err_phase e = Some PhaseAuthentication \<and> err_status_word e = None
         then lit ''an OATH access key was supplied, but the applet has no password set''
         else lit (''the OATH command'' @ [char_of (39 :: nat)] @ ''s execution conditions were not satisfied''))
       else describe_drive_error (ocl_cli env) (Protocol e)
   | OathDrive d \<Rightarrow> describe_drive_error (ocl_cli env) d)"

definition wrong_password :: "'w oath_cli \<Rightarrow> io_error oath_error \<Rightarrow> message" where
  "wrong_password env error =
    (if is_wrong_password error then lit ''authentication to the CanoKey failed; wrong password?''
     else describe_oath env error)"

definition describe_calculation :: "'w oath_cli \<Rightarrow> io_error oath_error \<Rightarrow> otp_kind \<Rightarrow> message" where
  "describe_calculation env error kind = (case error of
     OathDrive (Protocol e) \<Rightarrow>
       if err_phase e = Some PhaseCommand \<and> err_kind e = SecurityStatusNotSatisfied
       then (if kind = Totp
         then lit (''TOTP calculation rejected: touch may have timed out or been cancelled, or the time step is older than the credential''
           @ [char_of (39 :: nat)] @ ''s stored value; check the system clock'')
         else lit ''HOTP calculation rejected by a security condition; touch may have timed out or been cancelled'')
       else if err_phase e = Some PhaseCommand \<and> err_kind e = ConditionsNotSatisfied
       then (if kind = Hotp
         then lit ''HOTP calculation conditions not satisfied: touch may have timed out or the counter may be exhausted''
         else lit ''TOTP calculation conditions not satisfied; touch may have timed out'')
       else describe_oath env error
   | _ \<Rightarrow> describe_oath env error)"

section \<open>Sessions\<close>

record oath_session =
  os_target :: target
  os_handle :: "byte list option"
  os_key :: "byte list option"

definition validate_key :: "'w oath_cli \<Rightarrow> oath_session \<Rightarrow> byte list \<Rightarrow> ('w, io_error oath_error, unit) proc" where
  "validate_key env s key =
     proc_bind (unwrap (access_key (lib_at env (os_target s)) key)) (\<lambda>k.
     proc_bind (proc_map_err OathRandom (access_from_key (lib_at env (os_target s)) k)) (\<lambda>access.
     oath_validate (lib_at env (os_target s)) (tg_profile (os_target s)) access))"

text \<open>An operation with the resolved access and a fresh challenge.\<close>

definition run_typed ::
  "'w oath_cli \<Rightarrow> oath_session
    \<Rightarrow> (('w, io_error) oath_env \<Rightarrow> device_profile \<Rightarrow> oath_access option \<Rightarrow> ('w, io_error oath_error, 'a) proc)
    \<Rightarrow> ('w, io_error oath_error, 'a) proc" where
  "run_typed env s operation =
     proc_bind (case os_key s of
         Some key \<Rightarrow>
           proc_bind (unwrap (access_key (lib_at env (os_target s)) key)) (\<lambda>k.
           proc_bind (proc_map_err OathRandom (access_from_key (lib_at env (os_target s)) k)) (\<lambda>a. ret (Some a)))
       | None \<Rightarrow> ret None) (\<lambda>access.
     operation (lib_at env (os_target s)) (tg_profile (os_target s)) access)"

definition session_run where
  "session_run env s operation = proc_map_err (describe_oath env) (run_typed env s operation)"

definition KEYRING_SERVICE :: "byte list" where "KEYRING_SERVICE = lit ''ckman''"

definition keyring_user :: "u32 \<Rightarrow> byte list" where
  "keyring_user serial = lit (''oath:'' @ show_nat (unat serial))"

definition keyring_entry :: "'w oath_cli \<Rightarrow> oath_session \<Rightarrow> ('w, message, nat option) proc" where
  "keyring_entry env s = (case target_serial (ocl_cli env) (os_target s) of
     None \<Rightarrow> ret None
   | Some serial \<Rightarrow> proc_try (keyring_new env KEYRING_SERVICE (keyring_user serial)) (\<lambda>r. case r of
       Ok h \<Rightarrow> ret (Some h)
     | Err e \<Rightarrow> proc_bind (eprintln env (lit (''Warning: system keyring unavailable: '' @ e))) (\<lambda>_. ret None)))"

definition store_remembered_key :: "'w oath_cli \<Rightarrow> nat \<Rightarrow> byte list \<Rightarrow> ('w, string, unit) proc" where
  "store_remembered_key env entry key = keyring_set env entry (hex_text key)"

definition recall_remembered_key :: "'w oath_cli \<Rightarrow> nat \<Rightarrow> ('w, message, byte list option) proc" where
  "recall_remembered_key env entry = proc_try (keyring_get env entry) (\<lambda>r. case r of
     Err _ \<Rightarrow> ret None
   | Ok stored \<Rightarrow> ret (case hex_decode (trim stored) of
       Some bytes \<Rightarrow> if length bytes = 16 then Some bytes else None | None \<Rightarrow> None))"

definition remember_key :: "'w oath_cli \<Rightarrow> oath_session \<Rightarrow> byte list \<Rightarrow> ('w, message, unit) proc" where
  "remember_key env s key = proc_bind (keyring_entry env s) (\<lambda>entry. case entry of
     None \<Rightarrow> eprintln env (lit ''Warning: no readable serial number; password not remembered'')
   | Some h \<Rightarrow> proc_try (store_remembered_key env h key) (\<lambda>r. case r of
       Ok _ \<Rightarrow> eprintln env (lit ''Password remembered.'')
     | Err e \<Rightarrow> eprintln env (lit (''Warning: could not store password in the keyring: '' @ e))))"

definition recall_key :: "'w oath_cli \<Rightarrow> oath_session \<Rightarrow> ('w, message, byte list option) proc" where
  "recall_key env s = proc_bind (keyring_entry env s) (\<lambda>entry. case entry of
     None \<Rightarrow> ret None | Some h \<Rightarrow> recall_remembered_key env h)"

definition forget_key :: "'w oath_cli \<Rightarrow> oath_session \<Rightarrow> ('w, message, bool) proc" where
  "forget_key env s = proc_bind (keyring_entry env s) (\<lambda>entry. case entry of
     None \<Rightarrow> ret False | Some h \<Rightarrow> proc_try (keyring_delete env h) (\<lambda>r. ret (is_ok r)))"

text \<open>The last steps of \<open>connect\<close>, for a password from the command line or the prompt.\<close>

definition unlock_with ::
  "'w oath_cli \<Rightarrow> oath_session \<Rightarrow> byte list \<Rightarrow> byte list \<Rightarrow> bool \<Rightarrow> ('w, message, oath_session) proc" where
  "unlock_with env s handle password remember =
    (let key = derive_key_bytes (lib_at env (os_target s)) password handle in
     proc_bind (proc_map_err (wrong_password env) (validate_key env s key)) (\<lambda>_.
     proc_bind (if remember then remember_key env s key else ret ()) (\<lambda>_.
     ret (s\<lparr>os_key := Some key\<rparr>))))"

definition unlock_prompted :: "'w oath_cli \<Rightarrow> oath_session \<Rightarrow> byte list \<Rightarrow> bool \<Rightarrow> ('w, message, oath_session) proc" where
  "unlock_prompted env s handle remember =
     proc_bind (prompt_password (ocl_cli env) (lit ''Enter the OATH password: '')) (\<lambda>password.
     unlock_with env s handle password remember)"

definition resolve_access ::
  "'w oath_cli \<Rightarrow> oath_session \<Rightarrow> byte list \<Rightarrow> byte list option \<Rightarrow> bool \<Rightarrow> ('w, message, oath_session) proc" where
  "resolve_access env s handle password remember = (case password of
     Some p \<Rightarrow> unlock_with env s handle p remember
   | None \<Rightarrow> proc_bind (recall_key env s) (\<lambda>stored. case stored of
       Some key \<Rightarrow> proc_try (validate_key env s key) (\<lambda>r. case r of
           Ok _ \<Rightarrow> ret (s\<lparr>os_key := Some key\<rparr>)
         | Err e \<Rightarrow>
             if is_wrong_password e
             then proc_bind (forget_key env s) (\<lambda>_. unlock_prompted env s handle remember)
             else throw (describe_oath env e))
     | None \<Rightarrow> unlock_prompted env s handle remember))"

definition session_connect ::
  "'w oath_cli \<Rightarrow> u32 option \<Rightarrow> byte list option \<Rightarrow> byte list option \<Rightarrow> bool \<Rightarrow> ('w, message, oath_session) proc" where
  "session_connect env device reader password remember =
     proc_bind (open_target env device reader) (\<lambda>t.
     proc_bind (proc_map_err (describe_oath env) (oath_select (lib_at env t) (tg_profile t))) (\<lambda>selected.
     let s = \<lparr>os_target = t, os_handle = selected_handle selected, os_key = None\<rparr> in
     if \<not> selected_locked selected
     then (if password \<noteq> None then throw (lit ''password provided, but no password is set'') else ret s)
     else proc_bind (unwrap (selected_handle selected)) (\<lambda>handle.
       resolve_access env s handle password remember)))"

section \<open>Accounts\<close>

definition kind_of :: "oath_entry \<Rightarrow> otp_kind option" where
  "kind_of entry =
    (let k = drop_bit 4 (oe_algorithm_type entry) in
     if k = 1 then Some Hotp else if k = 2 then Some Totp else None)"

definition algorithm_of :: "oath_entry \<Rightarrow> message + otp_algorithm" where
  "algorithm_of entry =
    (let a = oe_algorithm_type entry AND 0x0f in
     if a = 1 then Ok Sha1 else if a = 2 then Ok Sha256 else if a = 3 then Ok Sha512
     else Err (lit ''unsupported algorithm octet 0x'' @ [hex_char a]))"

definition display_name :: "oath_entry \<Rightarrow> byte list" where
  "display_name entry = utf8_lossy (name_bytes (oe_name entry))"

definition entry_name :: "oath_entry \<Rightarrow> parsed_name" where
  "entry_name entry = parse_name (name_bytes (oe_name entry))
     (case kind_of entry of Some k \<Rightarrow> k | None \<Rightarrow> Totp)"

definition hidden :: "oath_entry \<Rightarrow> bool" where
  "hidden entry \<longleftrightarrow> pn_issuer (entry_name entry) = Some (lit ''_hidden'')"

text \<open>The loop of \<open>search\<close>, with the hits so far.\<close>

fun search_loop :: "'w oath_cli \<Rightarrow> byte list \<Rightarrow> bool \<Rightarrow> oath_entry list \<Rightarrow> oath_entry list \<Rightarrow> oath_entry list" where
  "search_loop env query show_hidden hits [] = hits"
| "search_loop env query show_hidden hits (entry # entries) =
     (if \<not> show_hidden \<and> hidden entry then search_loop env query show_hidden hits entries
      else if name_bytes (oe_name entry) = query then [entry]
      else if contains_sub (unicode_lower (ocl_cli env) query) (unicode_lower (ocl_cli env) (display_name entry))
      then search_loop env query show_hidden (hits @ [entry]) entries
      else search_loop env query show_hidden hits entries)"

definition search :: "'w oath_cli \<Rightarrow> oath_entry list \<Rightarrow> byte list \<Rightarrow> bool \<Rightarrow> oath_entry list" where
  "search env entries query show_hidden = search_loop env query show_hidden [] entries"

definition multiple_hits :: "oath_entry list \<Rightarrow> message" where
  "multiple_hits hits = lit ''multiple matches, make the query more specific:''
     @ concat (map (\<lambda>hit. [0x0a] @ lit ''  '' @ display_name hit) hits)"

definition list_accounts :: "'w oath_cli \<Rightarrow> oath_session \<Rightarrow> ('w, message, oath_entry list) proc" where
  "list_accounts env s = session_run env s oath_list"

text \<open>\<^verbatim>\<open>let [entry] = hits.as_slice() else \<dots>\<close>\<close>

definition single_hit :: "oath_entry list \<Rightarrow> message + oath_entry" where
  "single_hit hits = (case hits of
     [entry] \<Rightarrow> Ok entry
   | [] \<Rightarrow> Err (lit ''no matches, nothing to be done'')
   | _ \<Rightarrow> Err (multiple_hits hits))"

record access_args =
  aa_password :: "byte list option"
  aa_remember :: bool

definition session_for :: "'w oath_cli \<Rightarrow> u32 option \<Rightarrow> byte list option \<Rightarrow> access_args \<Rightarrow> ('w, message, oath_session) proc" where
  "session_for env device reader access = session_connect env device reader (aa_password access) (aa_remember access)"

text \<open>The row of an account in a listing, and the listing in case-insensitive order.\<close>

definition account_row :: "bool \<Rightarrow> bool \<Rightarrow> oath_entry \<Rightarrow> byte list" where
  "account_row show_type show_period entry = display_name entry
     @ (if show_type
        then (case kind_of entry of Some Hotp \<Rightarrow> lit '', HOTP'' | Some Totp \<Rightarrow> lit '', TOTP'' | None \<Rightarrow> lit '', unknown'')
        else [])
     @ (if show_period \<and> kind_of entry = Some Totp
        then lit ('', '' @ show_nat (pn_period (entry_name entry))) else [])"

fun print_all :: "'w oath_cli \<Rightarrow> byte list list \<Rightarrow> ('w, message, unit) proc" where
  "print_all env [] = ret ()"
| "print_all env (row # rows) = proc_bind (println env row) (\<lambda>_. print_all env rows)"

definition accounts_list where
  "accounts_list env device reader show_hidden show_type show_period access =
     proc_bind (session_for env device reader access) (\<lambda>s.
     proc_bind (list_accounts env s) (\<lambda>entries.
     print_all env (sort_key (unicode_lower (ocl_cli env))
       (map (account_row show_type show_period) (filter (\<lambda>e. show_hidden \<or> \<not> hidden e) entries)))))"

section \<open>Codes\<close>

definition decimal :: "'w oath_cli \<Rightarrow> target \<Rightarrow> calculation \<Rightarrow> message + byte list" where
  "decimal env t c =
     res_bind (ok_or (lit ''the credential did not produce a truncated code'') (calculation_decimal (lib_at env t) c)) (\<lambda>d.
     if utf8_valid d then Ok d else Err (lit ''invalid code bytes''))"

definition calculate_one ::
  "'w oath_cli \<Rightarrow> oath_session \<Rightarrow> oath_entry \<Rightarrow> otp_kind \<Rightarrow> u32 \<Rightarrow> u64 \<Rightarrow> bool \<Rightarrow> ('w, message, calculation) proc" where
  "calculate_one env s entry kind period now full =
     proc_bind (lift_res (map_err (\<lambda>e. lit (show_lib_error (ocl_cli env) e))
       (name_from_bytes (lib_at env (os_target s)) (name_bytes (oe_name entry))))) (\<lambda>name.
     proc_bind (lift_res (algorithm_of entry)) (\<lambda>algorithm.
     proc_bind (if kind = Totp then proc_bind (unwrap (totp_challenge now period)) (\<lambda>c. ret (Some c)) else ret None) (\<lambda>challenge.
     proc_map_err (\<lambda>e. describe_calculation env e kind)
       (run_typed env s (\<lambda>lib profile access. oath_calculate lib profile access
          \<lparr>cr_name = name, cr_kind = kind, cr_algorithm = algorithm\<rparr> challenge
          (if full then FormatFull else FormatTruncated))))))"

definition account_code ::
  "'w oath_cli \<Rightarrow> target \<Rightarrow> oath_entry \<Rightarrow> bool \<Rightarrow> (otp_kind \<Rightarrow> nat \<Rightarrow> ('w, message, calculation) proc) \<Rightarrow> ('w, message, byte list) proc" where
  "account_code env t entry one_match calculate =
     proc_bind (lift_res (ok_or (lit ''unsupported credential type octet'') (kind_of entry))) (\<lambda>kind.
     if kind = Hotp \<and> \<not> one_match then ret (lit ''[HOTP Account]'')
     else let parsed = parse_name (name_bytes (oe_name entry)) kind in
       if kind = Totp \<and> pn_period parsed = 0 then throw (lit ''the credential has an invalid zero TOTP period'')
       else proc_bind (eprintln env (display_name entry @ lit '': touch your CanoKey if it flashes...'')) (\<lambda>_.
         proc_bind (calculate kind (pn_period parsed)) (\<lambda>c.
         if kind = Totp \<and> pn_issuer parsed = Some (lit ''Steam'')
         then lift_res (ok_or (lit ''the credential did not produce a Steam code'') (steam_code c))
         else lift_res (decimal env t c))))"

text \<open>\<^verbatim>\<open>name.chars().count()\<close>: the bytes that start a character.\<close>

definition char_count :: "byte list \<Rightarrow> nat" where
  "char_count s = length (filter (\<lambda>b. \<not> utf8_cont b) s)"

fun write_rows ::
  "'w cli_env \<Rightarrow> nat \<Rightarrow> bool \<Rightarrow> (oath_entry \<Rightarrow> ('w, message, byte list) proc)
    \<Rightarrow> (byte list \<times> oath_entry) list \<Rightarrow> ('w, message, unit) proc" where
  "write_rows cli width single calculate [] = ret ()"
| "write_rows cli width single calculate ((name, entry) # rows) =
     proc_bind (proc_map_err (\<lambda>e. name @ lit '': '' @ e) (calculate entry)) (\<lambda>code.
     proc_bind (io_result (stdout_write cli (if single then code @ [0x0a]
         else name @ replicate (width - char_count name) 0x20 @ lit ''  '' @ code @ [0x0a]))) (\<lambda>_.
     proc_bind (io_result (stdout_flush cli)) (\<lambda>_.
     write_rows cli width single calculate rows)))"

definition write_account_codes ::
  "'w cli_env \<Rightarrow> oath_entry list \<Rightarrow> bool \<Rightarrow> (oath_entry \<Rightarrow> ('w, message, byte list) proc) \<Rightarrow> ('w, message, unit) proc" where
  "write_account_codes cli entries single calculate =
    (let rows = sort_key (\<lambda>(name, _). unicode_lower cli name) (map (\<lambda>e. (display_name e, e)) entries);
         width = foldr max (map (\<lambda>(name, _). char_count name) rows) 0
     in write_rows cli width single calculate rows)"

definition accounts_code where
  "accounts_code env device reader query single show_hidden access =
     proc_bind (session_for env device reader access) (\<lambda>s.
     proc_bind (list_accounts env s) (\<lambda>entries.
     let hits = search env entries query show_hidden in
     if single \<and> length hits \<noteq> 1
     then throw (if hits = [] then lit ''no matching account found'' else multiple_hits hits)
     else if hits = [] then ret ()
     else write_account_codes (ocl_cli env) hits single (\<lambda>entry.
       account_code env (os_target s) entry (length hits = 1) (\<lambda>kind period.
         proc_bind (\<lambda>w. Some (ok_or (lit ''system clock is before the Unix epoch'') (clock_now env w), w)) (\<lambda>now.
         calculate_one env s entry kind (word_of_nat period) now False)))))"

section \<open>Adding accounts\<close>

definition show_uri_error :: "uri_error \<Rightarrow> string" where
  "show_uri_error e = (case e of
     UriScheme \<Rightarrow> ''not an otpauth:// URI''
   | UriKind \<Rightarrow> ''missing or unsupported OATH type (expected totp or hotp)''
   | UriMissingName \<Rightarrow> ''missing account name in the URI label''
   | UriMissingSecret \<Rightarrow> ''missing or empty secret parameter''
   | UriSecret _ \<Rightarrow> ''invalid base32 secret: invalid base32 encoding''
   | UriPercentEncoding \<Rightarrow> ''invalid percent-encoding''
   | UriAlgorithm \<Rightarrow> ''unsupported algorithm (expected SHA1, SHA256 or SHA512)''
   | UriDigits \<Rightarrow> ''invalid digits parameter''
   | UriPeriod \<Rightarrow> ''invalid period parameter''
   | UriDuplicateParameter p \<Rightarrow> ''duplicate '' @ p @ '' parameter''
   | UriCounter \<Rightarrow> ''missing or invalid counter parameter'')"

definition uri_initial_counter :: "otp_kind \<Rightarrow> nat \<Rightarrow> message + nat" where
  "uri_initial_counter kind counter =
    (if kind = Hotp
     then (if counter = 0
       then Err (lit ''HOTP URI counter=0 is unsupported: CanoKey increments before calculating; a nonzero next counter is required'')
       else Ok (counter - 1))
     else if counter \<noteq> 0 then Err (lit ''counter is only supported for HOTP accounts'') else Ok 0)"

record new_account =
  na_issuer :: "byte list option"
  na_name :: "byte list"
  na_kind :: otp_kind
  na_algorithm :: otp_algorithm
  na_digits :: nat
  na_period :: nat
  na_counter :: nat
  na_secret :: "byte list"
  na_generated :: bool
  na_touch :: bool

text \<open>The checks before the connection, and the credential they allow.\<close>

definition check_account :: "('w, io_error) oath_env \<Rightarrow> new_account \<Rightarrow> message + oath_credential" where
  "check_account lib a =
    (if na_kind a = Totp \<and> na_period a = 0 then Err (lit ''TOTP period must be at least one second'')
     else if na_kind a = Totp \<and> na_counter a \<noteq> 0 then Err (lit ''counter is only supported for HOTP accounts'')
     else if \<not> (4 \<le> na_digits a \<and> na_digits a \<le> 8) then Err (lit ''digits must be between 4 and 8'')
     else if \<not> (1 \<le> length (na_secret a) \<and> length (na_secret a) \<le> 64)
     then Err (lit ''secret must be between 1 and 64 bytes'')
     else res_bind (map_err (\<lambda>_. lit ''name must be between 1 and 64 bytes'')
         (name_from_bytes lib (format_id (na_issuer a) (na_name a) (na_kind a) (na_period a)))) (\<lambda>name.
       Ok \<lparr>oc_name = name, oc_kind = na_kind a, oc_algorithm = na_algorithm a,
         oc_digits = word_of_nat (na_digits a), oc_secret = na_secret a, oc_require_touch = na_touch a,
         oc_increasing = False, oc_initial_counter = word_of_nat (na_counter a)\<rparr>))"

definition account_exists :: "byte list \<Rightarrow> oath_entry list \<Rightarrow> bool" where
  "account_exists new_id entries \<longleftrightarrow> (\<exists>e \<in> set entries. name_bytes (oe_name e) = new_id)"

definition refuse_existing :: "'w oath_cli \<Rightarrow> oath_session \<Rightarrow> bool \<Rightarrow> byte list \<Rightarrow> ('w, message, unit) proc" where
  "refuse_existing env s force new_id =
    (if force then ret ()
     else proc_bind (list_accounts env s) (\<lambda>entries.
       if account_exists new_id entries
       then throw (lit ''an account called '' @ [0x27] @ new_id @ [0x27] @ lit '' already exists; delete it first'')
       else ret ()))"

definition add_credential where
  "add_credential env device reader a force access =
     proc_bind (lift_res (check_account (ocl_lib env) a)) (\<lambda>credential.
     proc_bind (session_for env device reader access) (\<lambda>s.
     proc_bind (refuse_existing env s force (format_id (na_issuer a) (na_name a) (na_kind a) (na_period a))) (\<lambda>_.
     proc_bind (session_run env s (\<lambda>lib profile acc. oath_add lib profile acc credential)) (\<lambda>_.
     proc_bind (println env (lit ''Account added.'')) (\<lambda>_.
     if na_generated a
     then println env (lit ''Generated credential secret (base32): '' @ base32_encode (na_secret a))
     else ret ())))))"

record add_input =
  ai_name :: "byte list"
  ai_secret :: "byte list option"
  ai_kind :: otp_kind
  ai_digits :: nat
  ai_algorithm :: otp_algorithm
  ai_counter :: nat
  ai_issuer :: "byte list option"
  ai_period :: nat
  ai_generate :: bool

text \<open>The loops that prompt until the entry parses, and stop at the end of input.\<close>

partial_function (option) prompt_until ::
  "'w oath_cli \<Rightarrow> byte list \<Rightarrow> message \<Rightarrow> (byte list \<Rightarrow> message + 'a) \<Rightarrow> 'w \<Rightarrow> ((message + 'a) \<times> 'w) option" where
  "prompt_until env prompt eof parse w = (case prompt_line (ocl_cli env) prompt w of
     None \<Rightarrow> None
   | Some (Err e, w) \<Rightarrow> Some (Err e, w)
   | Some (Ok None, w) \<Rightarrow> Some (Err eof, w)
   | Some (Ok (Some entered), w) \<Rightarrow> (case parse entered of
       Ok x \<Rightarrow> Some (Ok x, w)
     | Err m \<Rightarrow> prompt_until env prompt eof parse (print_line env m w)))"

definition parse_secret :: "byte list \<Rightarrow> message + byte list" where
  "parse_secret entered = map_err (\<lambda>_. lit ''invalid base32 secret: invalid base32 encoding'') (base32_decode entered)"

definition add_secret :: "'w oath_cli \<Rightarrow> add_input \<Rightarrow> ('w, message, byte list \<times> bool) proc" where
  "add_secret env input = (case (ai_secret input, ai_generate input) of
     (Some secret, False) \<Rightarrow> lift_res (res_bind (parse_secret secret) (\<lambda>b. Ok (b, False)))
   | (None, True) \<Rightarrow> proc_bind (proc_map_err (\<lambda>e. lit (show_random_error env e)) (oath_random (ocl_lib env) 20)) (\<lambda>b. ret (b, True))
   | (None, False) \<Rightarrow> proc_bind (prompt_until env (lit ''Enter a secret key (base32): '')
       (lit ''no secret key entered (end of input)'') parse_secret) (\<lambda>b. ret (b, False))
   | (Some _, True) \<Rightarrow> unwrap None)"

definition accounts_add where
  "accounts_add env device reader input touch force access =
    (if ai_counter input \<noteq> 0 \<and> ai_kind input \<noteq> Hotp then throw (lit ''counter is only supported for HOTP accounts'')
     else if ai_generate input \<and> ai_secret input \<noteq> None
     then throw (lit ''cannot use --generate together with a provided SECRET'')
     else proc_bind (add_secret env input) (\<lambda>(secret, generated).
       add_credential env device reader
         \<lparr>na_issuer = ai_issuer input, na_name = ai_name input, na_kind = ai_kind input,
          na_algorithm = ai_algorithm input, na_digits = ai_digits input, na_period = ai_period input,
          na_counter = ai_counter input, na_secret = secret, na_generated = generated, na_touch = touch\<rparr>
         force access))"

definition parse_uri_text :: "byte list \<Rightarrow> message + otp_auth" where
  "parse_uri_text t = map_err (\<lambda>e. lit (show_uri_error e)) (parse_otp t)"

definition uri_account :: "otp_auth \<Rightarrow> nat \<Rightarrow> bool \<Rightarrow> new_account" where
  "uri_account parsed counter touch =
     \<lparr>na_issuer = otp_issuer parsed, na_name = otp_account parsed, na_kind = otp_kind_of parsed,
      na_algorithm = otp_algorithm_of parsed,
      na_digits = (if otp_digits parsed = 5 \<and> otp_issuer parsed = Some (lit ''Steam'') then 6 else otp_digits parsed),
      na_period = otp_period parsed, na_counter = counter, na_secret = otp_secret parsed,
      na_generated = False, na_touch = touch\<rparr>"

definition accounts_uri where
  "accounts_uri env device reader uri_arg touch force access =
     proc_bind (case uri_arg of
         Some t \<Rightarrow> lift_res (parse_uri_text t)
       | None \<Rightarrow> prompt_until env (lit ''Enter an OATH URI (otpauth://): '')
           (lit ''no URI entered (end of input)'') parse_uri_text) (\<lambda>parsed.
     proc_bind (lift_res (uri_initial_counter (otp_kind_of parsed) (otp_counter parsed))) (\<lambda>counter.
     add_credential env device reader (uri_account parsed counter touch) force access))"

section \<open>Changing accounts\<close>

definition parse_entry_name :: "'w oath_cli \<Rightarrow> oath_entry \<Rightarrow> message + oath_name" where
  "parse_entry_name env entry =
     map_err (\<lambda>e. lit (show_lib_error (ocl_cli env) e)) (name_from_bytes (ocl_lib env) (name_bytes (oe_name entry)))"

definition confirmed :: "'w oath_cli \<Rightarrow> bool \<Rightarrow> byte list \<Rightarrow> message \<Rightarrow> ('w, message, unit) proc" where
  "confirmed env force question abort =
    (if force then ret ()
     else proc_bind (confirm (ocl_cli env) question) (\<lambda>yes. if yes then ret () else throw abort))"

definition renamed_id :: "oath_entry \<Rightarrow> otp_kind \<Rightarrow> byte list \<Rightarrow> byte list" where
  "renamed_id entry kind name =
    (let (issuer, account) = (case split_once 0x3a name of Some (i, a) \<Rightarrow> (Some i, a) | None \<Rightarrow> (None, name))
     in format_id issuer account kind (pn_period (parse_name (name_bytes (oe_name entry)) kind)))"

definition accounts_rename where
  "accounts_rename env device reader query name force access =
     proc_bind (session_for env device reader access) (\<lambda>s.
     proc_bind (list_accounts env s) (\<lambda>entries.
     proc_bind (lift_res (single_hit (search env entries query True))) (\<lambda>entry.
     proc_bind (lift_res (ok_or (lit ''unsupported credential type octet'') (kind_of entry))) (\<lambda>kind.
     let new_id = renamed_id entry kind name in
     if account_exists new_id entries
     then throw (lit ''another account with ID '' @ new_id @ lit '' already exists on this CanoKey'')
     else proc_bind (confirmed env force (lit ''Rename account: '' @ display_name entry @ lit ''?'') (lit ''rename aborted'')) (\<lambda>_.
       proc_bind (lift_res (parse_entry_name env entry)) (\<lambda>old.
       proc_bind (lift_res (map_err (\<lambda>_. lit ''name must be between 1 and 64 bytes'') (name_from_bytes (ocl_lib env) new_id))) (\<lambda>new.
       proc_bind (session_run env s (\<lambda>lib profile acc. oath_rename lib profile acc old new)) (\<lambda>_.
       println env (lit ''Renamed '' @ display_name entry @ lit '' to '' @ new_id @ lit ''.'')))))))))"

definition accounts_set_default where
  "accounts_set_default env device reader query s_arg enter access =
     proc_bind (session_for env device reader access) (\<lambda>s.
     proc_bind (list_accounts env s) (\<lambda>entries.
     proc_bind (lift_res (single_hit (search env entries query True))) (\<lambda>entry.
     if kind_of entry \<noteq> Some Hotp then throw (lit ''only HOTP accounts can be the keyboard-emulation default'')
     else proc_bind (lift_res (parse_entry_name env entry)) (\<lambda>name.
       proc_bind (session_run env s (\<lambda>lib profile acc. set_default lib profile s_arg enter name acc)) (\<lambda>_.
       println env (lit ''Default credential set ('' @ lit (case s_arg of SlotShort \<Rightarrow> ''short'' | SlotLong \<Rightarrow> ''long'')
         @ lit '' touch slot).''))))))"

definition accounts_delete where
  "accounts_delete env device reader query force access =
     proc_bind (session_for env device reader access) (\<lambda>s.
     proc_bind (list_accounts env s) (\<lambda>entries.
     proc_bind (lift_res (single_hit (search env entries query True))) (\<lambda>entry.
     proc_bind (confirmed env force (lit ''Delete account: '' @ display_name entry @ lit ''?'') (lit ''deletion aborted'')) (\<lambda>_.
     proc_bind (lift_res (parse_entry_name env entry)) (\<lambda>name.
     proc_bind (session_run env s (\<lambda>lib profile acc. oath_delete lib profile acc name)) (\<lambda>_.
     println env (lit ''Deleted '' @ display_name entry @ lit ''.'')))))))"

section \<open>Access and device commands\<close>

definition new_oath_password :: "'w oath_cli \<Rightarrow> byte list option \<Rightarrow> ('w, message, byte list) proc" where
  "new_oath_password env arg = (case arg of
     Some password \<Rightarrow> ret password
   | None \<Rightarrow>
       proc_bind (prompt_password (ocl_cli env) (lit ''Enter the new OATH password: '')) (\<lambda>entered.
       proc_bind (prompt_password (ocl_cli env) (lit ''Repeat the new OATH password: '')) (\<lambda>repeated.
       if entered \<noteq> repeated then throw (lit ''the passwords do not match'') else ret entered)))"

definition access_change where
  "access_change env device reader password clear new_password remember =
    (if clear \<and> new_password \<noteq> None then throw (lit ''--clear cannot be combined with --new-password'')
     else proc_bind (session_connect env device reader password False) (\<lambda>s.
       if clear
       then proc_bind (session_run env s clear_password) (\<lambda>_.
         proc_bind (forget_key env s) (\<lambda>_. println env (lit ''Password cleared from the CanoKey.'')))
       else proc_bind (new_oath_password env new_password) (\<lambda>password.
         proc_bind (lift_res (ok_or (lit ''this firmware does not support OATH password protection'') (os_handle s))) (\<lambda>handle.
         let key = derive_key_bytes (lib_at env (os_target s)) password handle in
         proc_bind (session_run env s (\<lambda>lib profile acc.
           proc_bind (unwrap (access_key lib key)) (\<lambda>k. set_password lib profile acc k))) (\<lambda>_.
         proc_bind (if remember then remember_key env s key else proc_bind (forget_key env s) (\<lambda>_. ret ())) (\<lambda>_.
         println env (lit ''Password updated.'')))))))"

definition access_remember where
  "access_remember env device reader password =
     proc_bind (open_target env device reader) (\<lambda>t.
     proc_bind (proc_map_err (describe_oath env) (oath_select (lib_at env t) (tg_profile t))) (\<lambda>selected.
     case selected of
       Legacy _ \<Rightarrow> println env (lit ''This CanoKey is not password protected.'')
     | Modern selection \<Rightarrow>
         if sel_challenge selection = None then println env (lit ''This CanoKey is not password protected.'')
         else proc_bind (case password of
             Some p \<Rightarrow> ret p | None \<Rightarrow> prompt_password (ocl_cli env) (lit ''Enter the OATH password: '')) (\<lambda>password.
           let key = derive_key_bytes (lib_at env t) password (sel_handle selection);
               s = \<lparr>os_target = t, os_handle = Some (sel_handle selection), os_key = None\<rparr> in
           proc_bind (unwrap (access_key (lib_at env t) key)) (\<lambda>k.
           proc_bind (proc_map_err (\<lambda>e. lit (show_random_error env e)) (access_from_key (lib_at env t) k)) (\<lambda>a.
           proc_bind (proc_map_err (wrong_password env) (oath_validate (lib_at env t) (tg_profile t) a)) (\<lambda>_.
           remember_key env s key))))))"

definition access_forget where
  "access_forget env device reader =
     proc_bind (open_target env device reader) (\<lambda>t.
     proc_bind (forget_key env \<lparr>os_target = t, os_handle = None, os_key = None\<rparr>) (\<lambda>stored.
     println env (if stored then lit ''Password forgotten.'' else lit ''No password stored for this CanoKey.'')))"

definition oath_reset where
  "oath_reset env device reader force admin_pin =
     proc_bind (open_target env device reader) (\<lambda>t.
     proc_bind (confirmed env force
       (lit ''This will delete all stored OATH accounts and the OATH password. Proceed?'') (lit ''OATH reset aborted'')) (\<lambda>_.
     proc_bind (lift_res (case admin_pin of
         None \<Rightarrow> Ok None
       | Some text \<Rightarrow> map_err (\<lambda>e. lit (show_lib_error (ocl_cli env) e))
           (res_bind (admin_pin_from_bytes (ocl_cli env) text) (\<lambda>p. Ok (Some p))))) (\<lambda>pin.
     proc_bind (with_admin_pin_retry (ocl_cli env) pin (\<lambda>p. reset_applet (admin_at env t) (tg_profile t) AppletOath p)) (\<lambda>_.
     proc_bind (case target_serial (ocl_cli env) t of
         None \<Rightarrow> ret ()
       | Some serial \<Rightarrow> proc_try (keyring_new env KEYRING_SERVICE (keyring_user serial)) (\<lambda>r. case r of
           Ok h \<Rightarrow> proc_try (keyring_delete env h) (\<lambda>_. ret ()) | Err _ \<Rightarrow> ret ())) (\<lambda>_.
     println env (lit ''Reset complete. All OATH accounts have been deleted from the CanoKey.''))))))"

definition oath_serial where
  "oath_serial env device reader =
     proc_bind (open_target env device reader) (\<lambda>t.
     proc_bind (proc_map_err (describe_oath env) (get_serial (lib_at env t) (tg_profile t))) (\<lambda>serial.
     println env (lit (show_nat (unat (from_be32 serial))))))"

definition challenge_response where
  "challenge_response env device reader s_arg challenge is_text =
     proc_bind (if is_text then ret challenge
       else lift_res (ok_or (lit ''the challenge must be hex-encoded (or use --text)'') (hex_decode challenge))) (\<lambda>challenge.
     if length challenge > 64 then throw (lit ''the challenge must be at most 64 bytes'')
     else proc_bind (open_target env device reader) (\<lambda>t.
       proc_bind (proc_map_err (describe_oath env) (challenge_response_hmac (lib_at env t) (tg_profile t)
         (case s_arg of SlotShort \<Rightarrow> HmacShort | SlotLong \<Rightarrow> HmacLong) challenge)) (\<lambda>response.
       println env (hex_text response))))"

section \<open>Search and session facts\<close>

definition shown :: "bool \<Rightarrow> oath_entry \<Rightarrow> bool" where
  "shown show_hidden entry \<longleftrightarrow> show_hidden \<or> \<not> hidden entry"

definition name_contains :: "'w oath_cli \<Rightarrow> byte list \<Rightarrow> oath_entry \<Rightarrow> bool" where
  "name_contains env query entry \<longleftrightarrow>
     contains_sub (unicode_lower (ocl_cli env) query) (unicode_lower (ocl_cli env) (display_name entry))"

lemma search_loop_spec:
  "search_loop env query show_hidden hits entries =
    (case find (\<lambda>e. shown show_hidden e \<and> name_bytes (oe_name e) = query) entries of
       Some e \<Rightarrow> [e]
     | None \<Rightarrow> hits @ filter (\<lambda>e. shown show_hidden e \<and> name_contains env query e) entries)"
  by (induction entries arbitrary: hits) (auto simp: shown_def name_contains_def split: option.splits)

lemma unlock_with_validated:
  assumes "unlock_with env s handle password remember w = Some (Ok s', w')"
  shows "\<exists>k w1 w2. s' = s\<lparr>os_key := Some k\<rparr> \<and> validate_key env s k w1 = Some (Ok (), w2)"
proof -
  let ?k = "derive_key_bytes (lib_at env (os_target s)) password handle"
  from assms obtain w2 where "validate_key env s ?k w = Some (Ok (), w2)" and "s' = s\<lparr>os_key := Some ?k\<rparr>"
    by (auto simp: unlock_with_def Let_def proc_bind_Some_Ok proc_map_err_Some_Ok ret_def)
  then show ?thesis by blast
qed

lemma unlock_prompted_validated:
  assumes "unlock_prompted env s handle remember w = Some (Ok s', w')"
  shows "\<exists>k w1 w2. s' = s\<lparr>os_key := Some k\<rparr> \<and> validate_key env s k w1 = Some (Ok (), w2)"
  using assms unlock_with_validated by (fastforce simp: unlock_prompted_def proc_bind_Some_Ok)

lemma trim_hex: "bs \<noteq> [] \<Longrightarrow> trim (hex_text bs) = hex_text bs"
proof (rule trim_visible)
  assume "bs \<noteq> []"
  then show "hex_text bs \<noteq> []" using length_hex_text [of bs] by (metis length_0_conv mult_eq_0_iff zero_neq_numeral)
  then show "visible (hd (hex_text bs))" "visible (last (hex_text bs))" using hex_text_visible [of bs] by auto
qed

text \<open>A concrete environment: every OATH request succeeds with \<open>OutUnit\<close>, a listing has one account, and
  the keyring stores one text.\<close>

definition sample_entry :: oath_entry where
  "sample_entry = \<lparr>oe_name = OathName (lit ''ACME:bob''), oe_algorithm_type = 0x21\<rparr>"

definition sample_oath_cli :: "byte list option oath_cli" where
  "sample_oath_cli = \<lparr>ocl_cli = (sample_cli [lit ''canokey''])\<lparr>serial_bytes := \<lambda>_. Some [0, 0, 0, 7]\<rparr>,
     ocl_lib = \<lparr>oath_exchange = \<lambda>_. throw (IoError IoOther ''none''), oath_random = \<lambda>n. ret (replicate n 7),
       oath_operation = \<lambda>_ request _. Ok (done_operation (Ok (if request = ReqList then OutEntries [sample_entry]
         else if request = ReqSelect then OutLegacySelection None else OutUnit))),
       access_key_from_bytes = \<lambda>b. Ok (AccessKey b), from_password = \<lambda>p h. AccessKey p,
       oath_pbkdf2_sha1 = \<lambda>p salt _ n. take n (p @ salt @ replicate n 0),
       name_from_bytes = \<lambda>b. Ok (OathName b), calculation_decimal = \<lambda>_. None\<rparr>,
     ocl_admin = \<lparr>admin_exchange = \<lambda>_. throw (IoError IoOther ''none''),
       admin_operation = \<lambda>_ _ _. Err (new_error UnsupportedFeature),
       admin_operation_existing = \<lambda>_ _. Err (new_error UnsupportedFeature),
       capability_public_configuration = \<lambda>_. Unsupported, legacy_sm2_supported = \<lambda>_. False,
       legacy_sm2_from_bytes = \<lambda>b. Ok (LegacySm2 b), legacy_sm2_enabled = \<lambda>_. False\<rparr>,
     keyring_new = \<lambda>_ _. ret 1,
     keyring_get = \<lambda>_ w. Some (case w of Some t \<Rightarrow> Ok t | None \<Rightarrow> Err ''no entry'', w),
     keyring_set = \<lambda>_ t _. Some (Ok (), Some t), keyring_delete = \<lambda>_ _. Some (Ok (), None),
     clock_now = \<lambda>_. Some 0, print_line = \<lambda>_ w. w, show_random_error = \<lambda>_. ''random''\<rparr>"

definition sample_session :: oath_session where
  "sample_session = \<lparr>os_target = \<lparr>tg_connection = \<lparr>conn_card = 1, conn_reader = [], conn_atr = []\<rparr>,
       tg_profile = DeviceProfile 2\<rparr>, os_handle = Some [1], os_key = None\<rparr>"

lemma sample_validate: "validate_key sample_oath_cli s key w = Some (Ok (), w)"
  by (simp add: validate_key_def lib_at_def sample_oath_cli_def access_key_def access_from_key_def oath_validate_def
      oath_run_def expect_unit_def proc_bind_def proc_map_err_def ret_def lift_res_def execute_def drive_loop.simps)

section \<open>Properties\<close>

text \<open>C24. Searching accounts: an account whose raw name is the query wins alone, the first one listed; otherwise the
  hits are the shown accounts whose display name contains the query, in order.\<close>

theorem search_exact_or_substring:
  "search env entries query show_hidden =
    (case find (\<lambda>e. shown show_hidden e \<and> name_bytes (oe_name e) = query) entries of
       Some e \<Rightarrow> [e]
     | None \<Rightarrow> filter (\<lambda>e. shown show_hidden e \<and> name_contains env query e) entries)"
  by (simp add: search_def search_loop_spec split: option.split)

text \<open>C23. A session is unlocked only by a key the card has accepted: whatever its origin (argument, keyring, prompt),
  the key it keeps was validated, and nothing else of the session changes.\<close>

theorem session_key_validated:
  assumes "resolve_access env s handle password remember w = Some (Ok s', w')"
  shows "\<exists>k w1 w2. s' = s\<lparr>os_key := Some k\<rparr> \<and> validate_key env s k w1 = Some (Ok (), w2)"
proof (cases password)
  case (Some p)
  with assms unlock_with_validated show ?thesis by (fastforce simp: resolve_access_def)
next
  case None
  with assms obtain stored w1 where recall: "recall_key env s w = Some (Ok stored, w1)"
    and rest: "(case stored of
       Some key \<Rightarrow> proc_try (validate_key env s key) (\<lambda>r. case r of
           Ok _ \<Rightarrow> ret (s\<lparr>os_key := Some key\<rparr>)
         | Err e \<Rightarrow> if is_wrong_password e
             then proc_bind (forget_key env s) (\<lambda>_. unlock_prompted env s handle remember)
             else throw (describe_oath env e))
     | None \<Rightarrow> unlock_prompted env s handle remember) w1 = Some (Ok s', w')"
    by (auto simp: resolve_access_def proc_bind_Some_Ok)
  show ?thesis
  proof (cases stored)
    case None
    with rest unlock_prompted_validated show ?thesis by fastforce
  next
    case (Some key)
    with rest obtain r w2 where v: "validate_key env s key w1 = Some (r, w2)"
      by (cases "validate_key env s key w1") (auto simp: proc_try_def)
    show ?thesis
    proof (cases r)
      case (Inr u)
      with Some rest v have "s' = s\<lparr>os_key := Some key\<rparr>" by (simp add: proc_try_def ret_def)
      with v Inr show ?thesis by auto
    next
      case (Inl e)
      with Some rest v show ?thesis
        by (auto simp: proc_try_def proc_bind_Some_Ok throw_def split: if_splits dest!: unlock_prompted_validated)
    qed
  qed
qed

theorem session_key_validated_witness:
  "\<exists>k w1 w2. sample_session\<lparr>os_key := Some (replicate 16 5)\<rparr> = sample_session\<lparr>os_key := Some k\<rparr>
     \<and> validate_key sample_oath_cli sample_session k w1 = Some (Ok (), w2)"
proof (rule session_key_validated)
  have "trim (hex_text (replicate 16 5)) = hex_text (replicate 16 5)" by (rule trim_hex) simp
  then show "resolve_access sample_oath_cli sample_session [1] None False (Some (hex_text (replicate 16 5))) =
      Some (Ok (sample_session\<lparr>os_key := Some (replicate 16 5)\<rparr>), Some (hex_text (replicate 16 5)))"
    by (simp add: resolve_access_def proc_bind_def recall_key_def keyring_entry_def recall_remembered_key_def proc_try_def
        sample_validate ret_def hex_decode_text target_serial_def
        sample_oath_cli_def [THEN arg_cong, of keyring_new] sample_oath_cli_def [THEN arg_cong, of keyring_get]
        sample_oath_cli_def [THEN arg_cong, of ocl_cli])
qed

text \<open>A remembered key comes back from the keyring as it was stored, for every 16-byte key.\<close>

theorem remembered_key_roundtrip:
  assumes "length key = 16" "keyring_get env entry w = Some (Ok (hex_text key), w')"
  shows "recall_remembered_key env entry w = Some (Ok (Some key), w')
    \<and> store_remembered_key env entry key = keyring_set env entry (hex_text key)"
proof -
  have "trim (hex_text key) = hex_text key" using assms(1) by (intro trim_hex) auto
  with assms show ?thesis
    by (simp add: recall_remembered_key_def store_remembered_key_def proc_try_def ret_def hex_decode_text)
qed

theorem remembered_key_roundtrip_witness:
  "recall_remembered_key sample_oath_cli 1 (Some (hex_text (replicate 16 0xa5)))
     = Some (Ok (Some (replicate 16 0xa5)), Some (hex_text (replicate 16 0xa5)))"
  using remembered_key_roundtrip [of "replicate 16 0xa5" sample_oath_cli 1] by (simp add: sample_oath_cli_def)

text \<open>C25. An account that fails the checks is refused before any connection, and one whose name exists is refused
  after the listing, before anything is written, unless the user forces it.\<close>

theorem add_credential_refusals:
  assumes "check_account (ocl_lib env) bad = Err m"
    and "check_account (ocl_lib env) a = Ok credential"
    and "session_for env device reader access w = Some (Ok s, w1)" "list_accounts env s w1 = Some (Ok entries, w2)"
    and "account_exists (format_id (na_issuer a) (na_name a) (na_kind a) (na_period a)) entries"
  shows "add_credential env device reader bad force access w = Some (Err m, w)
    \<and> (\<exists>m'. add_credential env device reader a False access w = Some (Err m', w2))"
  using assms by (simp add: add_credential_def proc_bind_def lift_res_def throw_def refuse_existing_def)

definition sample_account :: "byte list \<Rightarrow> nat \<Rightarrow> new_account" where
  "sample_account name n = \<lparr>na_issuer = Some (lit ''ACME''), na_name = name, na_kind = Totp, na_algorithm = Sha1,
     na_digits = n, na_period = 30, na_counter = 0, na_secret = [1], na_generated = False, na_touch = False\<rparr>"

theorem add_credential_refusals_witness:
  "\<exists>m. add_credential sample_oath_cli None None (sample_account (lit ''bob'') 6) False
     \<lparr>aa_password = None, aa_remember = False\<rparr> None = Some (Err m, None)"
proof -
  let ?acc = "\<lparr>aa_password = None, aa_remember = False\<rparr>"
  let ?t = "\<lparr>tg_connection = \<lparr>conn_card = 7, conn_reader = lit ''canokey'', conn_atr = []\<rparr>, tg_profile = DeviceProfile 2\<rparr>"
  let ?s = "\<lparr>os_target = ?t, os_handle = None, os_key = None\<rparr>"
  have bad: "\<exists>m. check_account (ocl_lib sample_oath_cli) (sample_account (lit ''bob'') 9) = Err m"
    by (simp add: check_account_def sample_account_def)
  have good: "\<exists>c. check_account (ocl_lib sample_oath_cli) (sample_account (lit ''bob'') 6) = Ok c"
    by (simp add: check_account_def sample_account_def sample_oath_cli_def)
  have name: "is_canokey \<lparr>conn_card = n, conn_reader = lit ''canokey'', conn_atr = []\<rparr>" "reader_name (lit ''canokey'') = lit ''canokey''"
    "length (lit ''canokey'') = 7" for n by code_simp+
  have target: "open_target sample_oath_cli None None w = Some (Ok ?t, w)" for w
    using name
    by (simp add: open_target_def sample_oath_cli_def sample_cli_def pcsc_result_def single_target_def readers_def
        selection_candidate_def connect_reader_def proc_try_def proc_bind_def proc_map_err_def ret_def
        probe_def lift_res_def execute_def drive_loop.simps)
  have selected: "oath_select (lib_at sample_oath_cli ?t) (DeviceProfile 2) w = Some (Ok (Legacy None), w)" for w
    by (simp add: oath_select_def oath_run_def lib_at_def sample_oath_cli_def proc_bind_def proc_map_err_def ret_def
        lift_res_def execute_def drive_loop.simps)
  have session: "session_for sample_oath_cli None None ?acc None = Some (Ok ?s, None)"
    by (simp add: session_for_def session_connect_def proc_bind_def target selected proc_map_err_def Let_def
        selected_locked_def selected_handle_def ret_def)
  have listed: "list_accounts sample_oath_cli ?s None = Some (Ok [sample_entry], None)"
    by (simp add: list_accounts_def session_run_def run_typed_def oath_list_def oath_run_def lib_at_def sample_oath_cli_def
        proc_bind_def proc_map_err_def ret_def lift_res_def execute_def drive_loop.simps)
  have "account_exists (format_id (na_issuer (sample_account (lit ''bob'') 6)) (na_name (sample_account (lit ''bob'') 6))
      (na_kind (sample_account (lit ''bob'') 6)) (na_period (sample_account (lit ''bob'') 6))) [sample_entry]"
    by code_simp
  with bad good add_credential_refusals [OF _ _ session listed] show ?thesis by blast
qed

end
