(* ===== verification/Output.thy ===== *)
theory Output
  imports Strings Drive
begin

text \<open>
  The output files of \<^verbatim>\<open>crates/ckman/src/commands/output.rs\<close>: a destination is prepared as a temporary
  file beside it and replaced only after the complete contents are on disk.  The operating
  system's file operations are parameters; the second part states what a file system does and
  shows that no destination is ever left partial.
\<close>

section \<open>File operations\<close>

type_synonym path = "byte list"

record file_metadata =
  fm_symlink :: bool
  fm_is_file :: bool
  fm_permissions :: nat

record 'w fs_env =
  symlink_metadata :: "path \<Rightarrow> ('w, io_error, file_metadata) proc"
  canonicalize :: "path \<Rightarrow> ('w, io_error, path) proc"
  file_metadata_of :: "path \<Rightarrow> ('w, io_error, file_metadata) proc"
  open_write :: "path \<Rightarrow> ('w, io_error, nat) proc"
  create_new :: "path \<Rightarrow> bool \<Rightarrow> ('w, io_error, nat) proc"
  set_permissions :: "nat \<Rightarrow> nat \<Rightarrow> ('w, io_error, unit) proc"
  write_all :: "nat \<Rightarrow> byte list \<Rightarrow> ('w, io_error, unit) proc"
  sync_all :: "nat \<Rightarrow> ('w, io_error, unit) proc"
  close_file :: "nat \<Rightarrow> 'w \<Rightarrow> 'w"
  rename_file :: "path \<Rightarrow> path \<Rightarrow> ('w, io_error, unit) proc"
  remove_file :: "path \<Rightarrow> ('w, io_error, unit) proc"
  fs_random :: "nat \<Rightarrow> ('w, random_error, byte list) proc"
  show_random :: "random_error \<Rightarrow> string"
  path_parent :: "path \<Rightarrow> path option"
  path_file_name :: "path \<Rightarrow> path option"
  path_join :: "path \<Rightarrow> path \<Rightarrow> path"
  stdout_all :: "byte list \<Rightarrow> ('w, io_error, unit) proc"
  stdout_done :: "('w, io_error, unit) proc"

definition io_message_of :: "io_error \<Rightarrow> byte list" where
  "io_message_of e = lit (io_message e)"

definition write_and_flush ::
  "(byte list \<Rightarrow> ('w, io_error, unit) proc) \<Rightarrow> ('w, io_error, unit) proc \<Rightarrow> byte list \<Rightarrow> ('w, io_error, unit) proc" where
  "write_and_flush write flush bytes = proc_bind (write bytes) (\<lambda>_. flush)"

definition write_stdout :: "'w fs_env \<Rightarrow> byte list \<Rightarrow> ('w, byte list, unit) proc" where
  "write_stdout env bytes = proc_map_err io_message_of (write_and_flush (stdout_all env) (stdout_done env) bytes)"

section \<open>Prepared files\<close>

record prepared_file =
  pf_destination :: path
  pf_temporary :: path
  pf_file :: "nat option"

text \<open>The first step of \<open>prepare\<close>: an existing symbolic link is followed.\<close>

definition follow_link :: "'w fs_env \<Rightarrow> path \<Rightarrow> ('w, byte list, path) proc" where
  "follow_link env path = proc_try (symlink_metadata env path) (\<lambda>r. case r of
     Ok m \<Rightarrow> if fm_symlink m then proc_map_err io_message_of (canonicalize env path) else ret path
   | Err e \<Rightarrow> if io_kind_of e = IoNotFound then ret path else throw (io_message_of e))"

text \<open>The permissions of an existing regular file that can be opened for writing.\<close>

definition existing_permissions :: "'w fs_env \<Rightarrow> path \<Rightarrow> path \<Rightarrow> ('w, byte list, nat option) proc" where
  "existing_permissions env path destination = proc_try (file_metadata_of env destination) (\<lambda>r. case r of
     Ok m \<Rightarrow>
       if \<not> fm_is_file m then throw (lit ''output is not a regular file: '' @ path)
       else proc_bind (proc_map_err io_message_of (open_write env destination)) (\<lambda>h w.
         Some (Ok (Some (fm_permissions m)), close_file env h w))
   | Err e \<Rightarrow> if io_kind_of e = IoNotFound then ret None else throw (io_message_of e))"

definition temporary_name :: "byte list \<Rightarrow> path" where
  "temporary_name random = lit ''.ckman-'' @ hex_text random @ lit ''.tmp''"

text \<open>\<open>Drop\<close>: the file is closed and a temporary that was not published is removed.\<close>

definition drop_prepared :: "'w fs_env \<Rightarrow> prepared_file \<Rightarrow> 'w \<Rightarrow> 'w option" where
  "drop_prepared env p w =
    (let w = (case pf_file p of Some h \<Rightarrow> close_file env h w | None \<Rightarrow> w) in
     if pf_temporary p \<noteq> [] then map_option snd (remove_file env (pf_temporary p) w) else Some w)"

text \<open>The eight attempts to create a temporary file.\<close>

fun allocate_temporary ::
  "'w fs_env \<Rightarrow> bool \<Rightarrow> path \<Rightarrow> path \<Rightarrow> nat option \<Rightarrow> nat \<Rightarrow> ('w, byte list, prepared_file) proc" where
  "allocate_temporary env private parent destination permissions 0 =
     throw (lit ''cannot allocate a temporary output file'')"
| "allocate_temporary env private parent destination permissions (Suc n) =
     proc_bind (proc_map_err (\<lambda>e. lit (show_random env e)) (fs_random env 16)) (\<lambda>random.
     let temporary = path_join env parent (temporary_name random) in
     proc_try (create_new env temporary private) (\<lambda>r. case r of
       Ok h \<Rightarrow>
         let output = \<lparr>pf_destination = destination, pf_temporary = temporary, pf_file = Some h\<rparr> in
         (case (if private then None else permissions) of
            None \<Rightarrow> ret output
          | Some p \<Rightarrow> proc_try (set_permissions env h p) (\<lambda>r. case r of
              Ok _ \<Rightarrow> ret output
            | Err e \<Rightarrow> (\<lambda>w. map_option (\<lambda>w. (Err (io_message_of e), w)) (drop_prepared env output w))))
     | Err e \<Rightarrow>
         if io_kind_of e = IoAlreadyExists
         then allocate_temporary env private parent destination permissions n
         else throw (io_message_of e)))"

definition prepare :: "'w fs_env \<Rightarrow> path \<Rightarrow> bool \<Rightarrow> ('w, byte list, prepared_file) proc" where
  "prepare env path private =
     proc_bind (follow_link env path) (\<lambda>destination.
     proc_bind (existing_permissions env path destination) (\<lambda>permissions.
     proc_bind (proc_map_err io_message_of (canonicalize env (case path_parent env destination of
         Some parent \<Rightarrow> if parent \<noteq> [] then parent else lit ''.'' | None \<Rightarrow> lit ''.''))) (\<lambda>parent.
     proc_bind (lift_res (ok_or (lit ''output has no file name'') (path_file_name env destination))) (\<lambda>name.
     allocate_temporary env private parent (path_join env parent name) permissions 8))))"

definition prepared_new :: "'w fs_env \<Rightarrow> path \<Rightarrow> ('w, byte list, prepared_file) proc" where
  "prepared_new env path = prepare env path False"

text \<open>
  \<^verbatim>\<open>PreparedFile::write\<close> with the object it leaves: the file is closed before the rename; after a
  failed rename the temporary stays for recovery, after a successful one there is none.
\<close>

definition prepared_write ::
  "'w fs_env \<Rightarrow> prepared_file \<Rightarrow> byte list \<Rightarrow> 'w \<Rightarrow> ((byte list + unit) \<times> prepared_file \<times> 'w) option" where
  "prepared_write env p bytes w = (case pf_file p of
     None \<Rightarrow> Some (Err (lit ''output file was already written''), p, w)
   | Some h \<Rightarrow> (case proc_bind (write_all env h bytes) (\<lambda>_. sync_all env h) w of
       None \<Rightarrow> None
     | Some (Err e, w) \<Rightarrow> Some (Err (io_message_of e), p, w)
     | Some (Ok _, w) \<Rightarrow>
         (case rename_file env (pf_temporary p) (pf_destination p) (close_file env h w) of
            None \<Rightarrow> None
          | Some (Err e, w) \<Rightarrow>
              Some (Err (lit ''cannot replace '' @ pf_destination p @ lit '': '' @ io_message_of e
                  @ lit ''; output saved at '' @ pf_temporary p),
                p\<lparr>pf_file := None, pf_temporary := []\<rparr>, w)
          | Some (Ok _, w) \<Rightarrow> Some (Ok (), p\<lparr>pf_file := None, pf_temporary := []\<rparr>, w))))"

datatype secret_output = SecretStdout | SecretFile prepared_file

definition secret_new :: "'w fs_env \<Rightarrow> path \<Rightarrow> ('w, byte list, secret_output) proc" where
  "secret_new env path =
    (if path = lit ''-'' then ret SecretStdout
     else proc_bind (prepare env path True) (\<lambda>p. ret (SecretFile p)))"

definition secret_write ::
  "'w fs_env \<Rightarrow> secret_output \<Rightarrow> byte list \<Rightarrow> 'w \<Rightarrow> ((byte list + unit) \<times> secret_output \<times> 'w) option" where
  "secret_write env out bytes w = (case out of
     SecretStdout \<Rightarrow> map_option (\<lambda>(r, w). (r, SecretStdout, w)) (write_stdout env bytes w)
   | SecretFile p \<Rightarrow> map_option (\<lambda>(r, p, w). (r, SecretFile p, w)) (prepared_write env p bytes w))"

section \<open>A file system\<close>

text \<open>
  What the code relies on: a failed write may leave any prefix in the file it writes and touches
  no other, creating a file needs it to be absent, renaming is atomic, and everything else
  changes no contents.
\<close>

type_synonym contents = "path \<Rightarrow> byte list option"

definition same_files :: "('w \<Rightarrow> contents) \<Rightarrow> ('w \<Rightarrow> nat \<Rightarrow> path) \<Rightarrow> ('w, 'e, 'a) proc \<Rightarrow> bool" where
  "same_files files opened m \<longleftrightarrow> (\<forall>w. wp m (\<lambda>_ w'. files w' = files w \<and> opened w' = opened w) w)"

definition fs_laws :: "'w fs_env \<Rightarrow> ('w \<Rightarrow> contents) \<Rightarrow> ('w \<Rightarrow> nat \<Rightarrow> path) \<Rightarrow> bool" where
  "fs_laws env files opened \<longleftrightarrow>
     (\<forall>p. same_files files opened (symlink_metadata env p))
   \<and> (\<forall>p. same_files files opened (canonicalize env p))
   \<and> (\<forall>p. same_files files opened (file_metadata_of env p))
   \<and> (\<forall>p. same_files files opened (open_write env p))
   \<and> (\<forall>h n. same_files files opened (set_permissions env h n))
   \<and> (\<forall>h. same_files files opened (sync_all env h))
   \<and> (\<forall>n. same_files files opened (fs_random env n))
   \<and> (\<forall>h w. files (close_file env h w) = files w \<and> opened (close_file env h w) = opened w)
   \<and> (\<forall>p private w. wp (create_new env p private) (\<lambda>r w'. case r of
        Ok h \<Rightarrow> files w p = None \<and> files w' = (files w)(p := Some []) \<and> opened w' h = p
      | Err _ \<Rightarrow> files w' = files w) w)
   \<and> (\<forall>h bytes w. wp (write_all env h bytes) (\<lambda>r w'. opened w' = opened w \<and> (case r of
        Ok _ \<Rightarrow> files w' = (files w)(opened w h := Some (the (files w (opened w h)) @ bytes))
      | Err _ \<Rightarrow> \<exists>part. files w' = (files w)(opened w h := part))) w)
   \<and> (\<forall>a b w. wp (rename_file env a b) (\<lambda>r w'. case r of
        Ok _ \<Rightarrow> files w' = (files w)(a := None, b := files w a) | Err _ \<Rightarrow> files w' = files w) w)
   \<and> (\<forall>p w. wp (remove_file env p) (\<lambda>r w'. files w' = files w \<or> files w' = (files w)(p := None)) w)"

lemma fs_lawsD:
  assumes "fs_laws env files opened"
  shows "same_files files opened (symlink_metadata env p)" "same_files files opened (canonicalize env p)"
    "same_files files opened (file_metadata_of env p)" "same_files files opened (open_write env p)"
    "same_files files opened (set_permissions env h n)" "same_files files opened (sync_all env h)"
    "same_files files opened (fs_random env n)"
    "files (close_file env h w) = files w" "opened (close_file env h w) = opened w"
    "wp (create_new env p private) (\<lambda>r w'. case r of
        Ok h \<Rightarrow> files w p = None \<and> files w' = (files w)(p := Some []) \<and> opened w' h = p
      | Err _ \<Rightarrow> files w' = files w) w"
    "wp (write_all env h bytes) (\<lambda>r w'. opened w' = opened w \<and> (case r of
        Ok _ \<Rightarrow> files w' = (files w)(opened w h := Some (the (files w (opened w h)) @ bytes))
      | Err _ \<Rightarrow> \<exists>part. files w' = (files w)(opened w h := part))) w"
    "wp (rename_file env a b) (\<lambda>r w'. case r of
        Ok _ \<Rightarrow> files w' = (files w)(a := None, b := files w a) | Err _ \<Rightarrow> files w' = files w) w"
    "wp (remove_file env p) (\<lambda>r w'. files w' = files w \<or> files w' = (files w)(p := None)) w"
  using assms unfolding fs_laws_def by (simp_all only: simp_thms)

lemma same_files_wp:
  assumes "same_files files opened m" "\<And>r w'. files w' = files w \<Longrightarrow> opened w' = opened w \<Longrightarrow> Q r w'"
  shows "wp m Q w"
  by (rule wp_mono [OF assms(1) [unfolded same_files_def, THEN spec]]) (use assms(2) in auto)

text \<open>Writing and syncing the temporary.\<close>

lemma write_synced_wp:
  assumes "fs_laws env files opened"
  shows "wp (proc_bind (write_all env h bytes) (\<lambda>_. sync_all env h)) (\<lambda>r w'. opened w' = opened w \<and> (case r of
        Ok _ \<Rightarrow> files w' = (files w)(opened w h := Some (the (files w (opened w h)) @ bytes))
      | Err _ \<Rightarrow> \<exists>part. files w' = (files w)(opened w h := part))) w"
  unfolding wp_bind
proof (rule wp_mono [OF fs_lawsD(11) [OF assms]], goal_cases)
  case (1 r w')
  show ?case
  proof (cases r)
    case (Inl e)
    with 1 show ?thesis by simp
  next
    case (Inr u)
    have "wp (sync_all env h) (\<lambda>r w'. opened w' = opened w \<and> (case r of
        Ok _ \<Rightarrow> files w' = (files w)(opened w h := Some (the (files w (opened w h)) @ bytes))
      | Err _ \<Rightarrow> \<exists>part. files w' = (files w)(opened w h := part))) w'"
      by (rule same_files_wp [OF fs_lawsD(6) [OF assms]]) (use 1 Inr in \<open>auto split: sum.splits\<close>)
    with Inr show ?thesis by simp
  qed
qed

text \<open>Whatever prepares a destination changes no existing file.\<close>

definition adds_files :: "('w \<Rightarrow> contents) \<Rightarrow> 'w \<Rightarrow> 'w \<Rightarrow> bool" where
  "adds_files files w w' \<longleftrightarrow> (\<forall>q. files w q \<noteq> None \<longrightarrow> files w' q = files w q)"

definition fresh_temporary :: "('w \<Rightarrow> contents) \<Rightarrow> ('w \<Rightarrow> nat \<Rightarrow> path) \<Rightarrow> 'w \<Rightarrow> 'w \<Rightarrow> prepared_file \<Rightarrow> bool" where
  "fresh_temporary files opened w w' p \<longleftrightarrow> files w (pf_temporary p) = None
     \<and> files w' = (files w)(pf_temporary p := Some []) \<and> map_option (opened w') (pf_file p) = Some (pf_temporary p)"

definition prepare_post :: "('w \<Rightarrow> contents) \<Rightarrow> ('w \<Rightarrow> nat \<Rightarrow> path) \<Rightarrow> 'w \<Rightarrow> byte list + prepared_file \<Rightarrow> 'w \<Rightarrow> bool" where
  "prepare_post files opened w r w' \<longleftrightarrow> adds_files files w w'
     \<and> (case r of Ok p \<Rightarrow> fresh_temporary files opened w w' p | Err _ \<Rightarrow> True)"

lemma prepare_post_same: "files w0 = files w \<Longrightarrow> prepare_post files opened w0 r w' \<Longrightarrow> prepare_post files opened w r w'"
  by (auto simp: prepare_post_def adds_files_def fresh_temporary_def split: sum.splits)

lemma prepare_post_Err: "files w' = files w \<Longrightarrow> prepare_post files opened w (Err e) w'"
  by (simp add: prepare_post_def adds_files_def)

lemma same_files_bind:
  assumes "same_files files opened m"
    and "\<And>x w'. files w' = files w \<Longrightarrow> wp (k x) (prepare_post files opened w) w'"
  shows "wp (proc_bind m k) (prepare_post files opened w) w"
  unfolding wp_bind
  by (rule same_files_wp [OF assms(1)]) (auto split: sum.splits intro: assms(2) prepare_post_Err)

lemma same_files_map_err: "same_files files opened m \<Longrightarrow> same_files files opened (proc_map_err f m)"
  by (simp add: same_files_def wp_map_err)

lemma allocate_temporary_wp:
  assumes laws: "fs_laws env files opened"
  shows "wp (allocate_temporary env private parent destination permissions n) (prepare_post files opened w) w"
proof (induction n arbitrary: w)
  case 0
  show ?case by (simp add: wp_throw prepare_post_Err)
next
  case (Suc n)
  show ?case unfolding allocate_temporary.simps Let_def
  proof (rule same_files_bind [OF same_files_map_err [OF fs_lawsD(7) [OF laws]]])
    fix random w1 assume w1: "files w1 = files w"
    let ?t = "path_join env parent (temporary_name random)"
    let ?out = "\<lambda>h. \<lparr>pf_destination = destination, pf_temporary = ?t, pf_file = Some h\<rparr>"
    show "wp (proc_try (create_new env ?t private) (\<lambda>r. case r of
         Ok h \<Rightarrow> (case (if private then None else permissions) of
            None \<Rightarrow> ret (?out h)
          | Some p \<Rightarrow> proc_try (set_permissions env h p) (\<lambda>r. case r of
              Ok _ \<Rightarrow> ret (?out h)
            | Err e \<Rightarrow> (\<lambda>w. map_option (\<lambda>w. (Err (io_message_of e), w)) (drop_prepared env (?out h) w))))
       | Err e \<Rightarrow> if io_kind_of e = IoAlreadyExists
           then allocate_temporary env private parent destination permissions n else throw (io_message_of e)))
       (prepare_post files opened w) w1"
      unfolding wp_try
    proof (rule wp_mono [OF fs_lawsD(10) [OF laws]], goal_cases)
      case (1 r w2)
      show ?case
      proof (cases r)
        case (Inl e)
        with 1 w1 show ?thesis
          by (auto simp: wp_throw intro!: prepare_post_Err wp_mono [OF Suc.IH] intro: prepare_post_same)
      next
        case (Inr h)
        with 1 w1 have new: "files w ?t = None" "files w2 = (files w)(?t := Some [])" "opened w2 h = ?t" by auto
        then have done_: "prepare_post files opened w (Ok (?out h)) w3" if "files w3 = files w2" "opened w3 = opened w2" for w3
          using that by (auto simp: prepare_post_def adds_files_def fresh_temporary_def)
        have undone: "wp (\<lambda>w. map_option (\<lambda>w. (Err m, w)) (drop_prepared env (?out h) w)) (prepare_post files opened w) w3"
          if "files w3 = files w2" for m w3
          using that new fs_lawsD(8) [OF laws, of h w3] fs_lawsD(13) [OF laws, of ?t "close_file env h w3"]
          by (fastforce simp: wp_def drop_prepared_def prepare_post_def adds_files_def Let_def split: if_splits)
        have perms: "wp (proc_try (set_permissions env h p) (\<lambda>r. case r of
              Ok _ \<Rightarrow> ret (?out h)
            | Err e \<Rightarrow> (\<lambda>w. map_option (\<lambda>w. (Err (io_message_of e), w)) (drop_prepared env (?out h) w))))
            (prepare_post files opened w) w2" for p
          unfolding wp_try
          by (rule same_files_wp [OF fs_lawsD(5) [OF laws]])
            (auto simp: wp_ret split: sum.splits intro: done_ undone)
        show ?thesis using Inr perms by (auto simp: wp_ret done_ split: option.splits)
      qed
    qed
  qed
qed

lemma prepare_wp:
  assumes laws: "fs_laws env files opened"
  shows "wp (prepare env path private) (prepare_post files opened w) w"
  unfolding prepare_def
proof (rule same_files_bind)
  show "same_files files opened (follow_link env path)"
    unfolding same_files_def follow_link_def wp_try
    by (intro allI same_files_wp [OF fs_lawsD(1) [OF laws]])
      (auto simp: proc_wp split: sum.splits intro!: same_files_wp [OF fs_lawsD(2) [OF laws]])
  fix destination w1 assume w1: "files w1 = files w"
  show "wp (proc_bind (existing_permissions env path destination) (\<lambda>permissions.
     proc_bind (proc_map_err io_message_of (canonicalize env (case path_parent env destination of
         Some parent \<Rightarrow> if parent \<noteq> [] then parent else lit ''.'' | None \<Rightarrow> lit ''.''))) (\<lambda>parent.
     proc_bind (lift_res (ok_or (lit ''output has no file name'') (path_file_name env destination))) (\<lambda>name.
     allocate_temporary env private parent (path_join env parent name) permissions 8)))) (prepare_post files opened w) w1"
  proof (rule wp_mono [OF same_files_bind])
    show "same_files files opened (existing_permissions env path destination)"
      unfolding same_files_def existing_permissions_def wp_try
    proof (intro allI same_files_wp [OF fs_lawsD(3) [OF laws]], goal_cases)
      case (1 w r w')
      have keep: "wp (\<lambda>w. Some (Ok x, close_file env h w)) (\<lambda>_ w''. files w'' = files w \<and> opened w'' = opened w) w3"
        if "files w3 = files w" "opened w3 = opened w" for x :: "nat option" and h w3
        using that fs_lawsD(8,9) [OF laws] by (simp add: wp_def)
      show ?case
        using 1 by (auto simp: proc_wp split: sum.splits
            intro!: same_files_wp [OF fs_lawsD(4) [OF laws]] keep)
    qed
    fix permissions w2 assume w2: "files w2 = files w1"
    show "wp (proc_bind (proc_map_err io_message_of (canonicalize env (case path_parent env destination of
         Some parent \<Rightarrow> if parent \<noteq> [] then parent else lit ''.'' | None \<Rightarrow> lit ''.''))) (\<lambda>parent.
     proc_bind (lift_res (ok_or (lit ''output has no file name'') (path_file_name env destination))) (\<lambda>name.
     allocate_temporary env private parent (path_join env parent name) permissions 8))) (prepare_post files opened w1) w2"
    proof (rule wp_mono [OF same_files_bind [OF same_files_map_err [OF fs_lawsD(2) [OF laws]]]])
      fix parent w3 assume w3: "files w3 = files w2"
      show "wp (proc_bind (lift_res (ok_or (lit ''output has no file name'') (path_file_name env destination))) (\<lambda>name.
         allocate_temporary env private parent (path_join env parent name) permissions 8)) (prepare_post files opened w2) w3"
        using w3 by (cases "path_file_name env destination")
          (auto simp: proc_wp intro!: prepare_post_Err wp_mono [OF allocate_temporary_wp [OF laws]] intro: prepare_post_same)
    qed (use w2 in \<open>auto intro: prepare_post_same\<close>)
  qed (use w1 in \<open>auto intro: prepare_post_same\<close>)
qed

lemma prepared_write_wp:
  assumes laws: "fs_laws env files opened"
    and "pf_file p = Some h" "opened w h = pf_temporary p" "files w (pf_temporary p) = Some []"
    and "pf_temporary p \<noteq> pf_destination p" "prepared_write env p bytes w = Some (r, p', w')"
  shows "(\<forall>q. q \<noteq> pf_destination p \<longrightarrow> q \<noteq> pf_temporary p \<longrightarrow> files w' q = files w q)
    \<and> (case r of Ok _ \<Rightarrow> files w' (pf_destination p) = Some bytes \<and> files w' (pf_temporary p) = None
       | Err _ \<Rightarrow> files w' (pf_destination p) = files w (pf_destination p)
           \<and> (pf_temporary p' = [] \<longrightarrow> pf_temporary p \<noteq> [] \<longrightarrow> files w' (pf_temporary p) = Some bytes))"
proof -
  note sync = write_synced_wp [OF laws, of h bytes w]
  from assms(2,6) obtain x w1 where x: "proc_bind (write_all env h bytes) (\<lambda>_. sync_all env h) w = Some (x, w1)"
    by (cases "proc_bind (write_all env h bytes) (\<lambda>_. sync_all env h) w") (auto simp: prepared_write_def)
  note after = wpD [OF sync x]
  show ?thesis
  proof (cases x)
    case (Inl e)
    with assms(2,6) x have "r = Err (io_message_of e)" "p' = p" "w' = w1" by (auto simp: prepared_write_def)
    with after Inl assms(3,4,5) show ?thesis by auto
  next
    case (Inr u)
    let ?w2 = "close_file env h w1"
    from after Inr assms(3,4) fs_lawsD(8) [OF laws, of h w1]
    have w2: "files ?w2 = (files w)(pf_temporary p := Some bytes)" by simp
    from assms(2,6) x Inr obtain y w3 where y: "rename_file env (pf_temporary p) (pf_destination p) ?w2 = Some (y, w3)"
      by (cases "rename_file env (pf_temporary p) (pf_destination p) ?w2") (auto simp: prepared_write_def)
    note renamed = wpD [OF fs_lawsD(12) [OF laws] y]
    show ?thesis
      using assms(2,5,6) x Inr y renamed w2 by (cases y) (auto simp: prepared_write_def)
  qed
qed

text \<open>A file system for examples: contents by path, and one handle that is always the temporary.\<close>

definition sample_temporary :: path where "sample_temporary = lit ''.'' @ temporary_name (replicate 16 7)"

definition sample_fs :: "contents fs_env" where
  "sample_fs = \<lparr>
     symlink_metadata = \<lambda>p w. Some (if w p = None then Err (IoError IoNotFound ''none'')
       else Ok \<lparr>fm_symlink = False, fm_is_file = True, fm_permissions = 0\<rparr>, w),
     canonicalize = ret,
     file_metadata_of = \<lambda>p w. Some (if w p = None then Err (IoError IoNotFound ''none'')
       else Ok \<lparr>fm_symlink = False, fm_is_file = True, fm_permissions = 0\<rparr>, w),
     open_write = \<lambda>_. ret 0,
     create_new = \<lambda>p _ w. if p = sample_temporary \<and> w p = None then Some (Ok 7, w(p := Some []))
       else Some (Err (IoError IoAlreadyExists ''exists''), w),
     set_permissions = \<lambda>_ _. ret (),
     write_all = \<lambda>_ bytes w. Some (Ok (), w(sample_temporary := Some (the (w sample_temporary) @ bytes))),
     sync_all = \<lambda>_. ret (), close_file = \<lambda>_ w. w,
     rename_file = \<lambda>a b w. Some (Ok (), w(a := None, b := w a)),
     remove_file = \<lambda>p w. Some (Ok (), w(p := None)),
     fs_random = \<lambda>n. ret (replicate n 7), show_random = \<lambda>_. ''random'',
     path_parent = \<lambda>_. None, path_file_name = \<lambda>p. Some p, path_join = (@),
     stdout_all = \<lambda>_. ret (), stdout_done = ret ()\<rparr>"

lemma sample_fs_laws: "fs_laws sample_fs id (\<lambda>_ _. sample_temporary)"
  by (auto simp: fs_laws_def sample_fs_def same_files_def wp_def ret_def)

section \<open>Properties\<close>

text \<open>Preparing an output changes no existing file, whichever step fails, and when it succeeds the temporary is a
  new empty file that the returned object owns.\<close>

theorem prepare_changes_nothing:
  assumes "fs_laws env files opened" and "prepare env path private w = Some (r, w')"
  shows "prepare_post files opened w r w'"
  by (rule wpD [OF prepare_wp [OF assms(1)] assms(2)])

theorem prepare_changes_nothing_witness:
  "prepare_post id (\<lambda>_ _. sample_temporary) [lit ''out'' \<mapsto> [1]]
     (Ok \<lparr>pf_destination = lit ''.out'', pf_temporary = sample_temporary, pf_file = Some 7\<rparr>)
     [lit ''out'' \<mapsto> [1], sample_temporary \<mapsto> []]"
proof (rule prepare_changes_nothing [OF sample_fs_laws])
  have t: "sample_temporary \<noteq> lit ''out''" "sample_temporary = lit ''.'' @ temporary_name (replicate 16 7)"
    by code_simp (simp add: sample_temporary_def)
  then show "prepare sample_fs (lit ''out'') False [lit ''out'' \<mapsto> [1]] =
    Some (Ok \<lparr>pf_destination = lit ''.out'', pf_temporary = sample_temporary, pf_file = Some 7\<rparr>,
      [lit ''out'' \<mapsto> [1], sample_temporary \<mapsto> []])"
    by (simp add: prepare_def sample_fs_def follow_link_def existing_permissions_def proc_bind_def proc_try_def
        proc_map_err_def ret_def lift_res_def eval_nat_numeral Let_def lit_def)
qed

text \<open>C21. Writing a prepared file is all or nothing: the destination keeps its old contents on every error and has
  exactly the new bytes on success, no other file changes, and after a failed replacement the complete
  bytes are still in the temporary.\<close>

theorem prepared_write_atomic:
  assumes "fs_laws env files opened" and "pf_file p = Some h" "opened w h = pf_temporary p"
    and "files w (pf_temporary p) = Some []" "pf_temporary p \<noteq> pf_destination p"
    and "prepared_write env p bytes w = Some (r, p', w')"
  shows "(\<forall>q. q \<notin> {pf_destination p, pf_temporary p} \<longrightarrow> files w' q = files w q)
    \<and> (case r of Ok _ \<Rightarrow> files w' (pf_destination p) = Some bytes \<and> files w' (pf_temporary p) = None
       | Err _ \<Rightarrow> files w' (pf_destination p) = files w (pf_destination p)
           \<and> (pf_temporary p' = [] \<longrightarrow> pf_temporary p \<noteq> [] \<longrightarrow> files w' (pf_temporary p) = Some bytes))"
  using prepared_write_wp [OF assms] by auto

theorem prepared_write_atomic_witness:
  "case prepared_write sample_fs \<lparr>pf_destination = lit ''out'', pf_temporary = sample_temporary, pf_file = Some 7\<rparr>
       [5, 6] [lit ''out'' \<mapsto> [1], sample_temporary \<mapsto> []] of
     Some (Ok _, _, w') \<Rightarrow> w' (lit ''out'') = Some [5, 6] | _ \<Rightarrow> False"
proof -
  let ?p = "\<lparr>pf_destination = lit ''out'', pf_temporary = sample_temporary, pf_file = Some 7\<rparr>"
  have t: "sample_temporary \<noteq> lit ''out''" by code_simp
  have run: "prepared_write sample_fs ?p [5, 6] [lit ''out'' \<mapsto> [1], sample_temporary \<mapsto> []] =
    Some (Ok (), \<lparr>pf_destination = lit ''out'', pf_temporary = [], pf_file = None\<rparr>, [lit ''out'' \<mapsto> [5, 6]])"
    using t by (auto simp: prepared_write_def sample_fs_def proc_bind_def ret_def fun_eq_iff)
  from prepared_write_atomic [OF sample_fs_laws _ _ _ _ run] t show ?thesis by (simp add: run)
qed

end
