(* ===== verification/BigEndian.thy ===== *)
theory BigEndian
  imports Prelude
begin

unbundle bit_operations_syntax

text \<open>
  Byte strings as big-endian numbers, for the key material (RSA components, curve scalars) and the
  PKCS\#12 key derivation, whose code works on the bytes.
\<close>

primrec be_nat :: "byte list \<Rightarrow> nat" where
  "be_nat [] = 0"
| "be_nat (b # bs) = unat b * 256 ^ length bs + be_nat bs"

lemma be_nat_append [simp]: "be_nat (xs @ ys) = be_nat xs * 256 ^ length ys + be_nat ys"
  by (induction xs) (simp_all add: algebra_simps power_add)

lemma be_nat_zeros [simp]: "be_nat (replicate n 0) = 0"
  by (induction n) simp_all

lemma unat_byte_less: "unat (b :: byte) < 256"
  using unsigned_less [where 'b = 8 and 'a = nat, of b] by simp

lemma be_nat_less: "be_nat xs < 256 ^ length xs"
proof (induction xs)
  case (Cons b bs)
  have "unat b * 256 ^ length bs + be_nat bs < (unat b + 1) * 256 ^ length bs" using Cons by simp
  also have "\<dots> \<le> 256 * 256 ^ length bs" using unat_byte_less [of b] by (intro mult_right_mono) simp_all
  finally show ?case by simp
qed simp

lemma be_nat_inject: "length xs = length ys \<Longrightarrow> be_nat xs = be_nat ys \<longleftrightarrow> xs = ys"
proof (induction xs ys rule: list_induct2)
  case (Cons x xs y ys)
  have "be_nat (x # xs) div 256 ^ length xs = unat x" "be_nat (y # ys) div 256 ^ length xs = unat y"
    using be_nat_less [of xs] be_nat_less [of ys] Cons.hyps by simp_all
  moreover have "be_nat (x # xs) mod 256 ^ length xs = be_nat xs" "be_nat (y # ys) mod 256 ^ length xs = be_nat ys"
    using be_nat_less [of xs] be_nat_less [of ys] Cons.hyps by simp_all
  ultimately have "be_nat (x # xs) = be_nat (y # ys) \<Longrightarrow> unat x = unat y \<and> be_nat xs = be_nat ys" by metis
  then show ?case using Cons by (auto simp: word_unat_eq_iff)
qed simp

text \<open>A byte string without leading zeros is as short as its number allows.\<close>

lemma be_nat_length_le:
  assumes "be_nat xs < 256 ^ w" and "xs = [] \<or> hd xs \<noteq> 0"
  shows "length xs \<le> w"
proof (cases xs)
  case (Cons b bs)
  with assms(2) have "1 \<le> unat b" by (simp add: unat_gt_0 Suc_leI)
  then have "1 * 256 ^ length bs \<le> unat b * 256 ^ length bs" by (rule mult_right_mono) simp
  then have "256 ^ length bs \<le> be_nat xs" unfolding Cons be_nat.simps mult_1 by (rule trans_le_add1)
  with assms(1) have "(256 :: nat) ^ length bs < 256 ^ w" by (rule order.strict_trans1 [rotated])
  then have "length bs < w" by (simp add: power_strict_increasing_iff)
  with Cons show ?thesis by simp
qed simp

lemma be_nat_length_iff:
  "xs = [] \<or> hd xs \<noteq> 0 \<Longrightarrow> length xs \<le> w \<longleftrightarrow> be_nat xs < 256 ^ w"
proof
  assume "length xs \<le> w"
  then have "(256 :: nat) ^ length xs \<le> 256 ^ w" by (simp add: power_increasing)
  with be_nat_less [of xs] show "be_nat xs < 256 ^ w" by linarith
qed (rule be_nat_length_le)

text \<open>\<^verbatim>\<open>BigUint::to_bytes_be\<close>: the shortest bytes of a number, one zero byte for zero\<close>

fun min_bytes :: "nat \<Rightarrow> byte list" where
  "min_bytes n = (if n < 256 then [word_of_nat n] else min_bytes (n div 256) @ [word_of_nat n])"

declare min_bytes.simps [simp del]

lemma min_bytes_value: "be_nat (min_bytes n) = n \<and> min_bytes n \<noteq> [] \<and> (n \<noteq> 0 \<longrightarrow> hd (min_bytes n) \<noteq> 0)"
proof (induction n rule: min_bytes.induct)
  case (1 n)
  have b: "unat (word_of_nat n :: byte) = n mod 256" by (simp add: unat_of_nat)
  show ?case
  proof (cases "n < 256")
    case True
    with b have "unat (word_of_nat n :: byte) = n" by simp
    then have "n \<noteq> 0 \<Longrightarrow> (word_of_nat n :: byte) \<noteq> 0" by (metis unat_0)
    with b True show ?thesis by (subst (1 2 3) min_bytes.simps) simp
  next
    case False
    with 1 b show ?thesis by (subst (1 2 3) min_bytes.simps) (simp add: hd_append)
  qed
qed

section \<open>Bytes of a Curve25519 scalar\<close>

lemma unat_clear_low: "unat (b AND 0xf8 :: byte) = 8 * (unat b div 8)"
proof -
  have "b AND 0xf8 = push_bit 3 (drop_bit 3 b)"
  proof (rule bit_word_eqI)
    fix n assume "n < LENGTH(8)"
    then have "n \<in> {0, 1, 2, 3, 4, 5, 6, 7}" by auto
    then show "bit (b AND 0xf8) n = bit (push_bit 3 (drop_bit 3 b)) n"
      by (auto simp: bit_simps bit_numeral_rec(1) bit_1_iff)
  qed
  moreover have "unat (push_bit 3 (drop_bit 3 b)) = 8 * (unat b div 8)"
    using unat_byte_less [of b]
    by (simp add: push_bit_eq_mult unat_mult_lem [THEN iffD1] unsigned_drop_bit_eq drop_bit_eq_div unat_word_ariths mult.commute)
  ultimately show ?thesis by simp
qed

lemma unat_set_high: "unat ((b AND 0x7f) OR 0x40 :: byte) = 64 + unat b mod 64"
proof -
  have bits: "(b AND 0x7f) OR 0x40 = take_bit 6 b OR 0x40"
  proof (rule bit_word_eqI)
    fix n assume "n < LENGTH(8)"
    then have "n \<in> {0, 1, 2, 3, 4, 5, 6, 7}" by auto
    then show "bit ((b AND 0x7f) OR 0x40) n = bit (take_bit 6 b OR 0x40) n"
      by (auto simp: bit_simps bit_numeral_rec(1) bit_1_iff)
  qed
  have "unat (take_bit 6 b) = unat b mod 2 ^ 6"
    using unsigned_take_bit_eq [where 'a = nat and 'b = 8, of 6 b] by (rule trans) (rule take_bit_eq_mod)
  then have small: "unat (take_bit 6 b) = unat b mod 64" by simp
  have "\<not> bit (take_bit 6 b) n \<or> \<not> bit (0x40 :: byte) n" for n
  proof (cases "n < 6")
    case True
    then have "n \<in> {0, 1, 2, 3, 4, 5}" by auto
    then show ?thesis by (auto simp: bit_simps bit_numeral_rec(1) bit_1_iff)
  qed (simp add: bit_simps)
  then have "take_bit 6 b OR 0x40 = take_bit 6 b + 0x40"
    by (rule disjunctive_add [symmetric])
  moreover have "unat (take_bit 6 b + 0x40) = unat b mod 64 + 64"
    using small by (subst unat_add_lem [THEN iffD1]) simp_all
  ultimately show ?thesis using bits by simp
qed

text \<open>
  RFC 7748 decoding of a 32-byte scalar, as a function of the little-endian number \<open>x\<close> it spells:
  the low three bits and the high bit are cleared, and bit 254 is set.
\<close>

definition clamp_scalar :: "nat \<Rightarrow> nat" where
  "clamp_scalar x = 2 ^ 254 + 8 * (x div 8 mod 2 ^ 251)"

lemma clamp_scalar_digits:
  assumes "c < 256" and "m < 256 ^ 30" and "a < 256"
  shows "clamp_scalar (a * 256 ^ 31 + (m * 256 + c)) = (64 + a mod 64) * 256 ^ 31 + (m * 256 + 8 * (c div 8))"
proof -
  have p: "(256 :: nat) ^ 31 = 8 * 2 ^ 245" "(256 :: nat) = 8 * 32" by simp_all
  have "(a * 256 ^ 31 + (m * 256 + c)) div 8 = a * 2 ^ 245 + (m * 32 + c div 8)" by simp
  moreover have low: "m * 32 + c div 8 < 2 ^ 245"
  proof -
    have "c div 8 < 32" using assms(1) by simp
    moreover have "m + 1 \<le> 256 ^ 30" using assms(2) by simp
    then have "(m + 1) * 32 \<le> 256 ^ 30 * 32" by (rule mult_right_mono) simp
    ultimately show ?thesis by simp
  qed
  moreover have "(a * 2 ^ 245 + (m * 32 + c div 8)) mod 2 ^ 251 = (a mod 64) * 2 ^ 245 + (m * 32 + c div 8)"
  proof -
    have split: "a * k = a div 64 * (64 * k) + a mod 64 * k" for k
    proof -
      have "a * k = (a div 64 * 64 + a mod 64) * k" by simp
      then show ?thesis by (simp only: add_mult_distrib mult.assoc)
    qed
    have "a * 2 ^ 245 + (m * 32 + c div 8) = (a div 64) * 2 ^ 251 + ((a mod 64) * 2 ^ 245 + (m * 32 + c div 8))"
      using split [of "2 ^ 245"] by simp
    moreover have "(a mod 64) * 2 ^ 245 + (m * 32 + c div 8) < 2 ^ 251"
    proof -
      have "a mod 64 \<le> 63" by simp
      then have "(a mod 64) * 2 ^ 245 \<le> 63 * 2 ^ 245" by (rule mult_right_mono) simp
      with low show ?thesis by simp
    qed
    ultimately show ?thesis by (simp only: mod_mult_self3 mod_less)
  qed
  ultimately show ?thesis by (simp add: clamp_scalar_def algebra_simps)
qed

end
