(* ===== verification/Keys.thy ===== *)
theory Keys
  imports PivTypes Pem BigEndian
begin

unbundle bit_operations_syntax

text \<open>
  Private keys of \<^verbatim>\<open>crates/ckman-core/src/keys/mod.rs\<close> and \<^verbatim>\<open>keys/pq.rs\<close>: the neutral material,
  its PIV and OpenPGP import forms, and the readers of PKCS#1, SEC1, PKCS#8 and encrypted PKCS#8.
  The record \<open>keys_lib\<close> holds the crates the code calls (\<^verbatim>\<open>rsa\<close>, \<^verbatim>\<open>der\<close>, \<^verbatim>\<open>pkcs1\<close>, \<^verbatim>\<open>pkcs5\<close>,
  \<^verbatim>\<open>pkcs8\<close>, the curve crates, \<^verbatim>\<open>fips203\<close>, \<^verbatim>\<open>fips204\<close>) and the constructors of libcanokey's
  material.  A \<^verbatim>\<open>BigUint\<close> is a natural number.
\<close>

section \<open>Data\<close>

record rsa_private_key =
  rk_n :: nat
  rk_e :: nat
  rk_d :: nat
  rk_primes :: "nat list"
  rk_crt_coefficient :: "nat option"

text \<open>The fields of a \<^verbatim>\<open>pkcs1::RsaPublicKey\<close> are the bytes of two unsigned integers.\<close>

record rsa_public_key =
  rp_modulus :: "byte list"
  rp_exponent :: "byte list"

record ec_private_key =
  ek_version :: u8
  ek_private_key :: "byte list"
  ek_parameters :: "oid option"
  ek_public_key :: "byte list option option"

record pq_both =
  pb_seed :: "byte list"
  pb_expanded :: "byte list"

record private_key_info =
  pki_algorithm :: algorithm_identifier
  pki_private_key :: "byte list"
  pki_public_key :: "byte list option"

record kdf_parameters =
  kdf_key_length :: "nat option"
  kdf_pbkdf2_iterations :: "u32 option"
  kdf_scrypt_cost :: "u64 option"
  kdf_scrypt_valid :: bool

record pbes2_parameters =
  pb2_kdf :: kdf_parameters
  pb2_key_size :: nat

text \<open>An encryption scheme is the parameters it was parsed to, \<^verbatim>\<open>None\<close> for PBES1, with a handle.\<close>

record encryption_scheme =
  es_pbes2 :: "pbes2_parameters option"
  es_handle :: nat

record encrypted_key_info =
  eki_algorithm :: encryption_scheme
  eki_data :: "byte list"

datatype ec_point = EcPoint nat

datatype openpgp_private_key =
    OpenPgpRsa (og_exponent: "byte list") (og_p: "byte list") (og_q: "byte list")
      (og_q_inverse: "byte list") (og_d_p: "byte list") (og_d_q: "byte list")
  | OpenPgpEc (og_scalar: "byte list")

record keys_lib =
  kl_x509 :: x509_lib
  kl_base64_decode :: "byte list \<Rightarrow> byte list option"
  pm_rsa_crt :: "algorithm \<Rightarrow> byte list list \<Rightarrow> private_material option"
  pm_ed25519_seed :: "byte list \<Rightarrow> private_material option"
  pm_x25519_key :: "byte list \<Rightarrow> private_material option"
  pm_mldsa65_seed :: "byte list \<Rightarrow> private_material option"
  pm_mlkem768_seed :: "byte list \<Rightarrow> private_material option"
  pm_ec_scalar :: "algorithm \<Rightarrow> byte list \<Rightarrow> private_material option"
  to_bytes_be :: "nat \<Rightarrow> byte list"
  big_bits :: "nat \<Rightarrow> nat"
  rsa_from_pkcs1_der :: "byte list \<Rightarrow> rsa_private_key option"
  rsa_to_pkcs1_der :: "rsa_private_key \<Rightarrow> byte list option"
  rsa_public_from_der :: "byte list \<Rightarrow> rsa_public_key option"
  ec_private_from_der :: "byte list \<Rightarrow> ec_private_key option"
  private_info_from_der :: "byte list \<Rightarrow> private_key_info option"
  encrypted_info_from_der :: "byte list \<Rightarrow> encrypted_key_info option"
  octets_from_der :: "byte list \<Rightarrow> byte list option"
  pq_both_from_der :: "byte list \<Rightarrow> pq_both option"
  any_as_oid :: "der_any \<Rightarrow> oid option"
  pbes2_decrypt :: "encryption_scheme \<Rightarrow> byte list \<Rightarrow> byte list \<Rightarrow> byte list option"
  x25519_base :: "byte list \<Rightarrow> byte list"
  ed25519_base :: "byte list \<Rightarrow> byte list"
  ec_point_of_scalar :: "algorithm \<Rightarrow> byte list \<Rightarrow> ec_point option"
  ec_point_from_sec1 :: "algorithm \<Rightarrow> byte list \<Rightarrow> ec_point option"
  ec_point_uncompressed :: "algorithm \<Rightarrow> ec_point \<Rightarrow> byte list"
  ml_dsa_keygen :: "byte list \<Rightarrow> byte list \<times> byte list"
  ml_kem_keygen :: "byte list \<Rightarrow> byte list \<Rightarrow> byte list \<times> byte list"

text \<open>The neutral material of a parsed key, and the key.\<close>

datatype material =
    MatRsa (mr_exponent: "byte list") (mr_p: "byte list") (mr_q: "byte list")
      (mr_dp: "byte list") (mr_dq: "byte list") (mr_qinv: "byte list")
  | MatEc "byte list"

record imported_key =
  ik_algorithm :: algorithm
  ik_material :: material

section \<open>Import forms\<close>

definition piv_material :: "keys_lib \<Rightarrow> imported_key \<Rightarrow> key_error + private_material" where
  "piv_material lib k = (case ik_material k of
     MatRsa exponent p q dp dq qinv \<Rightarrow>
       if exponent \<noteq> [0, 1, 0, 1] then Err KeyRsaExponent
       else ok_or KeyEncoding (pm_rsa_crt lib (ik_algorithm k) [p, q, dp, dq, qinv])
   | MatEc bytes \<Rightarrow> ok_or KeyEncoding (case ik_algorithm k of
       Ed25519 \<Rightarrow> pm_ed25519_seed lib bytes
     | X25519 \<Rightarrow> pm_x25519_key lib bytes
     | MlDsa65 \<Rightarrow> pm_mldsa65_seed lib bytes
     | MlKem768 \<Rightarrow> pm_mlkem768_seed lib bytes
     | _ \<Rightarrow> pm_ec_scalar lib (ik_algorithm k) bytes))"

text \<open>\<^verbatim>\<open>pad\<close>, and the half-modulus width\<close>

definition pad_left :: "byte list \<Rightarrow> nat \<Rightarrow> key_error + byte list" where
  "pad_left bytes width =
    (if length bytes > width then Err KeyEncoding else Ok (replicate (width - length bytes) 0 @ bytes))"

definition half_width :: "algorithm \<Rightarrow> key_error + nat" where
  "half_width a = res_bind (case a of
     Rsa1024 \<Rightarrow> Ok 128 | Rsa2048 \<Rightarrow> Ok 256 | Rsa3072 \<Rightarrow> Ok 384 | Rsa4096 \<Rightarrow> Ok 512
   | _ \<Rightarrow> Err KeyUnsupported) (\<lambda>w. Ok (w div 2))"

text \<open>RFC 7748 clamping, then the card's big-endian order\<close>

definition card_scalar :: "byte list \<Rightarrow> byte list" where
  "card_scalar scalar =
    (let scalar = scalar[0 := scalar ! 0 AND 0xf8];
         scalar = scalar[31 := (scalar ! 31 AND 0x7f) OR 0x40]
     in rev scalar)"

definition openpgp_key :: "imported_key \<Rightarrow> key_error + openpgp_private_key" where
  "openpgp_key k = (case ik_material k of
     MatRsa exponent p q dp dq qinv \<Rightarrow>
       res_bind (half_width (ik_algorithm k)) (\<lambda>width.
       res_bind (pad_left p width) (\<lambda>p.
       res_bind (pad_left q width) (\<lambda>q.
       res_bind (pad_left qinv width) (\<lambda>qinv.
       res_bind (pad_left dp width) (\<lambda>dp.
       res_bind (pad_left dq width) (\<lambda>dq.
       Ok (OpenPgpRsa exponent p q qinv dp dq)))))))
   | MatEc bytes \<Rightarrow>
       if ik_algorithm k = X25519
       then if length bytes \<noteq> 32 then Err KeyEncoding else Ok (OpenPgpEc (card_scalar bytes))
       else Ok (OpenPgpEc bytes))"

section \<open>RSA keys\<close>

definition exponent_bytes :: "keys_lib \<Rightarrow> nat \<Rightarrow> key_error + byte list" where
  "exponent_bytes lib e =
    (let bytes = to_bytes_be lib e in
     if length bytes > 4 then Err KeyUnsupported else Ok (replicate (4 - length bytes) 0 @ bytes))"

definition rsa_material :: "keys_lib \<Rightarrow> rsa_private_key \<Rightarrow> key_error + material" where
  "rsa_material lib key = (case rk_primes key of
     [p, q] \<Rightarrow>
       let dp = rk_d key mod (p - 1); dq = rk_d key mod (q - 1); bytes = to_bytes_be lib in
       res_bind (ok_or KeyEncoding (rk_crt_coefficient key)) (\<lambda>qinv.
       res_bind (exponent_bytes lib (rk_e key)) (\<lambda>exponent.
       Ok (MatRsa exponent (bytes p) (bytes q) (bytes dp) (bytes dq) (bytes qinv))))
   | _ \<Rightarrow> Err KeyUnsupported)"

text \<open>The size of a modulus names the algorithm.\<close>

definition rsa_algorithm :: "nat \<Rightarrow> key_error + algorithm" where
  "rsa_algorithm bits =
    (if bits = 1024 then Ok Rsa1024 else if bits = 2048 then Ok Rsa2048
     else if bits = 3072 then Ok Rsa3072 else if bits = 4096 then Ok Rsa4096 else Err KeyUnsupported)"

definition rsa_imported :: "keys_lib \<Rightarrow> rsa_private_key \<Rightarrow> key_error + imported_key" where
  "rsa_imported lib key =
     res_bind (rsa_algorithm (big_bits lib (rk_n key))) (\<lambda>a.
     res_bind (rsa_material lib key) (\<lambda>mat.
     Ok \<lparr>ik_algorithm = a, ik_material = mat\<rparr>))"

text \<open>Only the canonical encoding of the key it decodes to is accepted.\<close>

definition decode_rsa_private :: "keys_lib \<Rightarrow> byte list \<Rightarrow> key_error + rsa_private_key" where
  "decode_rsa_private lib der =
     res_bind (ok_or KeyEncoding (rsa_from_pkcs1_der lib der)) (\<lambda>key.
     res_bind (ok_or KeyEncoding (rsa_to_pkcs1_der lib key)) (\<lambda>canonical.
     if canonical \<noteq> der then Err KeyEncoding else Ok key))"

definition from_pkcs1 :: "keys_lib \<Rightarrow> byte list \<Rightarrow> key_error + imported_key" where
  "from_pkcs1 lib der = res_bind (decode_rsa_private lib der) (rsa_imported lib)"

section \<open>Elliptic curve keys\<close>

definition ec_imported :: "keys_lib \<Rightarrow> algorithm \<Rightarrow> byte list \<Rightarrow> key_error + imported_key" where
  "ec_imported lib a bytes =
     res_bind (ok_or KeyEncoding (pm_ec_scalar lib a bytes)) (\<lambda>_.
     Ok \<lparr>ik_algorithm = a, ik_material = MatEc bytes\<rparr>)"

text \<open>The five curves of \<^verbatim>\<open>validate_ec_public_key\<close> and \<^verbatim>\<open>canonical_spki_fields\<close>\<close>

definition is_ec :: "algorithm \<Rightarrow> bool" where
  "is_ec a \<longleftrightarrow> a = EccP256 \<or> a = EccP384 \<or> a = EccP521 \<or> a = Secp256k1 \<or> a = Sm2"

definition validate_ec_public_key ::
  "keys_lib \<Rightarrow> algorithm \<Rightarrow> byte list \<Rightarrow> byte list \<Rightarrow> key_error + unit" where
  "validate_ec_public_key lib a scalar public =
    (if \<not> is_ec a then Err KeyUnsupported
     else res_bind (ok_or KeyEncoding (ec_point_of_scalar lib a scalar)) (\<lambda>derived.
     res_bind (ok_or KeyEncoding (ec_point_from_sec1 lib a public)) (\<lambda>supplied.
     if derived \<noteq> supplied then Err KeyEncoding else Ok ())))"

text \<open>\<^verbatim>\<open>match curve.to_string().as_str()\<close>, in both places that read a curve\<close>

definition curve_algorithm :: "oid \<Rightarrow> key_error + algorithm" where
  "curve_algorithm curve =
    (if curve = Oid (lit ''1.2.840.10045.3.1.7'') then Ok EccP256
     else if curve = Oid (lit ''1.3.132.0.34'') then Ok EccP384
     else if curve = Oid (lit ''1.3.132.0.35'') then Ok EccP521
     else if curve = Oid (lit ''1.3.132.0.10'') then Ok Secp256k1
     else if curve = Oid (lit ''1.2.156.10197.1.301'') then Ok Sm2
     else Err KeyUnsupported)"

definition from_ec_private :: "keys_lib \<Rightarrow> byte list \<Rightarrow> oid option \<Rightarrow> key_error + imported_key" where
  "from_ec_private lib der outer_curve =
     res_bind (ok_or KeyEncoding (ec_private_from_der lib der)) (\<lambda>key.
     if ek_version key \<noteq> 1 then Err KeyEncoding
     else if outer_curve \<noteq> None \<and> ek_parameters key \<noteq> None \<and> outer_curve \<noteq> ek_parameters key
     then Err KeyEncoding
     else res_bind (ok_or KeyEncoding (case outer_curve of Some c \<Rightarrow> Some c | None \<Rightarrow> ek_parameters key)) (\<lambda>curve.
     res_bind (curve_algorithm curve) (\<lambda>a.
     res_bind (ec_imported lib a (ek_private_key key)) (\<lambda>imported.
     case ek_public_key key of
       None \<Rightarrow> Ok imported
     | Some public \<Rightarrow>
         res_bind (ok_or KeyEncoding public) (\<lambda>public.
         res_bind (validate_ec_public_key lib a (ek_private_key key) public) (\<lambda>_. Ok imported))))))"

definition from_sec1 :: "keys_lib \<Rightarrow> byte list \<Rightarrow> key_error + imported_key" where
  "from_sec1 lib der = from_ec_private lib der None"

section \<open>Seed keys\<close>

definition seed_public_key :: "keys_lib \<Rightarrow> algorithm \<Rightarrow> byte list \<Rightarrow> key_error + byte list" where
  "seed_public_key lib a seed =
    (if length seed \<noteq> 32 then Err KeyEncoding
     else if a = X25519 then Ok (x25519_base lib seed)
     else if a = Ed25519 then Ok (ed25519_base lib (take 32 (sha512 (kl_x509 lib) seed)))
     else Err KeyUnsupported)"

text \<open>\<^verbatim>\<open>keys/pq.rs\<close>: the derived public and expanded keys, and the seed of a private key.\<close>

definition pq_derive :: "keys_lib \<Rightarrow> algorithm \<Rightarrow> byte list \<Rightarrow> key_error + byte list \<times> byte list" where
  "pq_derive lib a seed =
    (if a = MlDsa65 then (if length seed \<noteq> 32 then Err KeyEncoding else Ok (ml_dsa_keygen lib seed))
     else if a = MlKem768 then
       (if length seed \<noteq> 64 then Err KeyEncoding else Ok (ml_kem_keygen lib (take 32 seed) (drop 32 seed)))
     else Err KeyUnsupported)"

text \<open>The tags by their identifier octets: primitive \<^verbatim>\<open>[0]\<close>, SEQUENCE and OCTET STRING.\<close>

definition TAG_CONTEXT_0 :: der_tag where "TAG_CONTEXT_0 = OtherTag 0x80"
definition TAG_SEQUENCE :: der_tag where "TAG_SEQUENCE = OtherTag 0x30"
definition TAG_OCTET_STRING :: der_tag where "TAG_OCTET_STRING = OtherTag 4"

definition pq_widths :: "algorithm \<Rightarrow> key_error + nat \<times> nat" where
  "pq_widths a =
    (if a = MlDsa65 then Ok (32, 4032) else if a = MlKem768 then Ok (64, 2400) else Err KeyUnsupported)"

definition pq_fields ::
  "keys_lib \<Rightarrow> byte list \<Rightarrow> nat \<Rightarrow> nat \<Rightarrow> key_error + byte list \<times> byte list option" where
  "pq_fields lib private_key width expanded_width =
    (if length private_key = width then Ok (private_key, None)
     else res_bind (map_err (\<lambda>_. KeyEncoding) (any_from_der (kl_x509 lib) private_key)) (\<lambda>v.
       if any_tag v = TAG_CONTEXT_0 then Ok (any_value v, None)
       else if any_tag v = TAG_SEQUENCE then
         res_bind (ok_or KeyEncoding (pq_both_from_der lib private_key)) (\<lambda>both.
         if length (pb_expanded both) \<noteq> expanded_width then Err KeyEncoding
         else Ok (pb_seed both, Some (pb_expanded both)))
       else if any_tag v = TAG_OCTET_STRING \<and> length (any_value v) = width then Ok (any_value v, None)
       else if any_tag v = TAG_OCTET_STRING \<and> length (any_value v) = expanded_width then Err KeyUnsupported
       else Err KeyEncoding))"

definition pq_seed ::
  "keys_lib \<Rightarrow> algorithm \<Rightarrow> byte list \<Rightarrow> byte list option \<Rightarrow> key_error + byte list" where
  "pq_seed lib a private_key public_key =
     res_bind (pq_widths a) (\<lambda>(width, expanded_width).
     res_bind (pq_fields lib private_key width expanded_width) (\<lambda>(seed, expanded).
     if length seed \<noteq> width then Err KeyEncoding
     else if expanded = None \<and> public_key = None then Ok seed
     else res_bind (pq_derive lib a seed) (\<lambda>(derived_public, derived_expanded).
     if (expanded \<noteq> None \<and> expanded \<noteq> Some derived_expanded)
       \<or> (public_key \<noteq> None \<and> public_key \<noteq> Some derived_public)
     then Err KeyEncoding else Ok seed)))"

definition seed_algorithm :: "oid \<Rightarrow> key_error + algorithm \<times> nat" where
  "seed_algorithm oid =
    (if oid = Oid (lit ''1.3.101.112'') then Ok (Ed25519, 32)
     else if oid = Oid (lit ''1.3.101.110'') then Ok (X25519, 32)
     else if oid = Oid (lit ''2.16.840.1.101.3.4.3.18'') then Ok (MlDsa65, 32)
     else if oid = Oid (lit ''2.16.840.1.101.3.4.4.2'') then Ok (MlKem768, 64)
     else Err KeyUnsupported)"

definition from_seed_oid ::
  "keys_lib \<Rightarrow> oid \<Rightarrow> byte list \<Rightarrow> byte list option \<Rightarrow> key_error + imported_key" where
  "from_seed_oid lib oid private_key public_key =
     res_bind (seed_algorithm oid) (\<lambda>(a, width).
     res_bind (if a = MlDsa65 \<or> a = MlKem768 then pq_seed lib a private_key public_key
       else if length private_key = width then Ok private_key
       else ok_or KeyEncoding (octets_from_der lib private_key)) (\<lambda>seed.
     if length seed \<noteq> width then Err KeyEncoding
     else res_bind (if a = Ed25519 \<or> a = X25519
       then (case public_key of
           None \<Rightarrow> Ok ()
         | Some public \<Rightarrow> res_bind (seed_public_key lib a seed) (\<lambda>derived.
             if public \<noteq> derived then Err KeyEncoding else Ok ()))
       else Ok ()) (\<lambda>_. Ok \<lparr>ik_algorithm = a, ik_material = MatEc seed\<rparr>)))"

section \<open>PKCS\#8\<close>

definition RSA_OID :: oid where "RSA_OID = Oid (lit ''1.2.840.113549.1.1.1'')"
definition EC_OID :: oid where "EC_OID = Oid (lit ''1.2.840.10045.2.1'')"

definition pkcs8_rsa :: "keys_lib \<Rightarrow> private_key_info \<Rightarrow> key_error + imported_key" where
  "pkcs8_rsa lib info =
    (if ai_parameters (pki_algorithm info) \<noteq> None \<and> ai_parameters (pki_algorithm info) \<noteq> Some any_null
     then Err KeyEncoding
     else res_bind (decode_rsa_private lib (pki_private_key info)) (\<lambda>key.
     res_bind (case pki_public_key info of
         None \<Rightarrow> Ok ()
       | Some public \<Rightarrow> res_bind (ok_or KeyEncoding (rsa_public_from_der lib public)) (\<lambda>supplied.
           if to_bytes_be lib (rk_n key) \<noteq> rp_modulus supplied \<or> to_bytes_be lib (rk_e key) \<noteq> rp_exponent supplied
           then Err KeyEncoding else Ok ())) (\<lambda>_.
     rsa_imported lib key)))"

definition pkcs8_ec :: "keys_lib \<Rightarrow> private_key_info \<Rightarrow> key_error + imported_key" where
  "pkcs8_ec lib info =
     res_bind (ok_or KeyEncoding (Option.bind (ai_parameters (pki_algorithm info)) (any_as_oid lib))) (\<lambda>curve.
     res_bind (from_ec_private lib (pki_private_key info) (Some curve)) (\<lambda>imported.
     case pki_public_key info of
       None \<Rightarrow> Ok imported
     | Some public \<Rightarrow> (case ik_material imported of
         MatRsa _ _ _ _ _ _ \<Rightarrow> Err KeyEncoding
       | MatEc scalar \<Rightarrow>
           res_bind (validate_ec_public_key lib (ik_algorithm imported) scalar public) (\<lambda>_. Ok imported))))"

definition from_pkcs8 :: "keys_lib \<Rightarrow> byte list \<Rightarrow> key_error + imported_key" where
  "from_pkcs8 lib der =
     res_bind (ok_or KeyEncoding (private_info_from_der lib der)) (\<lambda>info.
     let oid = ai_oid (pki_algorithm info) in
     if oid = RSA_OID then pkcs8_rsa lib info
     else if oid = EC_OID then pkcs8_ec lib info
     else if ai_parameters (pki_algorithm info) \<noteq> None then Err KeyEncoding
     else from_seed_oid lib oid (pki_private_key info) (pki_public_key info))"

section \<open>Encrypted PKCS\#8\<close>

definition is_power_of_two :: "u64 \<Rightarrow> bool" where
  "is_power_of_two n \<longleftrightarrow> n \<noteq> 0 \<and> n AND (n - 1) = 0"

definition check_encryption_scheme :: "encryption_scheme \<Rightarrow> key_error + unit" where
  "check_encryption_scheme scheme = (case es_pbes2 scheme of
     None \<Rightarrow> Err KeyUnsupportedEncryption
   | Some params \<Rightarrow>
       if (case kdf_key_length (pb2_kdf params) of Some n \<Rightarrow> n \<noteq> pb2_key_size params | None \<Rightarrow> False)
       then Err KeyEncoding
       else if kdf_pbkdf2_iterations (pb2_kdf params) = Some 0 then Err KeyEncoding
       else (case kdf_scrypt_cost (pb2_kdf params) of
           None \<Rightarrow> Ok ()
         | Some cost \<Rightarrow>
             if cost < 2 \<or> \<not> is_power_of_two cost then Err KeyEncoding
             else if \<not> kdf_scrypt_valid (pb2_kdf params) then Err KeyEncoding
             else Ok ()))"

definition decrypt_pkcs8 :: "keys_lib \<Rightarrow> byte list \<Rightarrow> byte list option \<Rightarrow> key_error + imported_key" where
  "decrypt_pkcs8 lib der password =
     res_bind (ok_or KeyEncoding (encrypted_info_from_der lib der)) (\<lambda>encrypted.
     res_bind (check_encryption_scheme (eki_algorithm encrypted)) (\<lambda>_.
     res_bind (ok_or KeyPassword password) (\<lambda>password.
     res_bind (ok_or KeyPassword (pbes2_decrypt lib (eki_algorithm encrypted) password (eki_data encrypted))) (\<lambda>decrypted.
     from_pkcs8 lib decrypted))))"

section \<open>What an accepted key satisfies\<close>

text \<open>
  \<open>key_ok\<close> is the invariant of an accepted key: a scalar that the card import accepts, a seed of
  its width, or the five numbers of an RSA key of the size that its algorithm names.
\<close>

definition rsa_key_ok :: "keys_lib \<Rightarrow> imported_key \<Rightarrow> rsa_private_key \<Rightarrow> bool" where
  "rsa_key_ok lib k key \<longleftrightarrow>
     rsa_algorithm (big_bits lib (rk_n key)) = Ok (ik_algorithm k)
     \<and> length (to_bytes_be lib (rk_e key)) \<le> 4
     \<and> (\<exists>p q qinv. rk_primes key = [p, q] \<and> rk_crt_coefficient key = Some qinv
        \<and> ik_material k = MatRsa (replicate (4 - length (to_bytes_be lib (rk_e key))) 0 @ to_bytes_be lib (rk_e key))
            (to_bytes_be lib p) (to_bytes_be lib q) (to_bytes_be lib (rk_d key mod (p - 1)))
            (to_bytes_be lib (rk_d key mod (q - 1))) (to_bytes_be lib qinv))"

definition seed_width :: "algorithm \<Rightarrow> nat option" where
  "seed_width a = (case a of Ed25519 \<Rightarrow> Some 32 | X25519 \<Rightarrow> Some 32 | MlDsa65 \<Rightarrow> Some 32
    | MlKem768 \<Rightarrow> Some 64 | _ \<Rightarrow> None)"

definition key_ok :: "keys_lib \<Rightarrow> imported_key \<Rightarrow> bool" where
  "key_ok lib k \<longleftrightarrow>
     (\<exists>bytes. ik_material k = MatEc bytes \<and> is_ec (ik_algorithm k) \<and> pm_ec_scalar lib (ik_algorithm k) bytes \<noteq> None)
     \<or> (\<exists>bytes. ik_material k = MatEc bytes \<and> seed_width (ik_algorithm k) = Some (length bytes))
     \<or> (\<exists>key der. rsa_from_pkcs1_der lib der = Some key \<and> rsa_to_pkcs1_der lib key = Some der \<and> rsa_key_ok lib k key)"

lemma decode_rsa_private_Ok:
  "decode_rsa_private lib der = Ok key
    \<longleftrightarrow> rsa_from_pkcs1_der lib der = Some key \<and> rsa_to_pkcs1_der lib key = Some der"
  by (auto simp: decode_rsa_private_def res_bind_Ok_iff ok_or_Ok_iff)

lemma rsa_imported_ok:
  assumes "rsa_imported lib key = Ok k"
  shows "rsa_key_ok lib k key"
proof -
  from assms obtain a mat where a: "rsa_algorithm (big_bits lib (rk_n key)) = Ok a"
    and mat: "rsa_material lib key = Ok mat" and k: "k = \<lparr>ik_algorithm = a, ik_material = mat\<rparr>"
    by (auto simp: rsa_imported_def res_bind_Ok_iff)
  from mat obtain p q where p: "rk_primes key = [p, q]"
    by (auto simp: rsa_material_def split: list.splits)
  from mat p a k show ?thesis
    by (auto simp: rsa_material_def rsa_key_ok_def exponent_bytes_def Let_def res_bind_Ok_iff ok_or_Ok_iff
        split: if_splits)
qed

lemma rsa_decoded_key_ok:
  "decode_rsa_private lib der = Ok key \<Longrightarrow> rsa_imported lib key = Ok k \<Longrightarrow> key_ok lib k"
  using rsa_imported_ok decode_rsa_private_Ok unfolding key_ok_def by blast

lemma curve_algorithm_ec: "curve_algorithm c = Ok a \<Longrightarrow> is_ec a"
  by (auto simp: curve_algorithm_def is_ec_def split: if_splits)

lemma ec_imported_ok:
  assumes "ec_imported lib a bytes = Ok k" and "is_ec a"
  shows "ik_algorithm k = a \<and> ik_material k = MatEc bytes \<and> key_ok lib k"
  using assms by (auto simp: ec_imported_def key_ok_def res_bind_Ok_iff ok_or_Ok_iff)

lemma from_ec_private_key_ok: "from_ec_private lib der outer = Ok k \<Longrightarrow> key_ok lib k"
  unfolding from_ec_private_def
  by (auto simp: res_bind_Ok_iff ok_or_Ok_iff split: if_splits option.splits
      dest: curve_algorithm_ec ec_imported_ok)

lemma seed_algorithm_width: "seed_algorithm oid = Ok (a, w) \<Longrightarrow> seed_width a = Some w"
  by (auto simp: seed_algorithm_def seed_width_def split: if_splits)

lemma from_seed_oid_key_ok: "from_seed_oid lib oid private_key public_key = Ok k \<Longrightarrow> key_ok lib k"
  unfolding from_seed_oid_def
  by (auto simp: res_bind_Ok_iff key_ok_def split: if_splits dest!: seed_algorithm_width)

lemma from_pkcs8_key_ok:
  assumes "from_pkcs8 lib der = Ok k"
  shows "key_ok lib k"
proof -
  from assms obtain info where
    "pkcs8_rsa lib info = Ok k \<or> pkcs8_ec lib info = Ok k
      \<or> from_seed_oid lib (ai_oid (pki_algorithm info)) (pki_private_key info) (pki_public_key info) = Ok k"
    by (auto simp: from_pkcs8_def res_bind_Ok_iff Let_def split: if_splits)
  then consider "pkcs8_rsa lib info = Ok k" | "pkcs8_ec lib info = Ok k"
    | "from_seed_oid lib (ai_oid (pki_algorithm info)) (pki_private_key info) (pki_public_key info) = Ok k" by blast
  then show ?thesis
  proof cases
    case 1
    then show ?thesis
      by (auto simp: pkcs8_rsa_def res_bind_Ok_iff split: if_splits intro: rsa_decoded_key_ok)
  next
    case 2
    then obtain curve imported where from_ec: "from_ec_private lib (pki_private_key info) (Some curve) = Ok imported"
      and rest: "(case pki_public_key info of None \<Rightarrow> Ok imported
         | Some public \<Rightarrow> (case ik_material imported of MatRsa _ _ _ _ _ _ \<Rightarrow> Err KeyEncoding
           | MatEc scalar \<Rightarrow> res_bind (validate_ec_public_key lib (ik_algorithm imported) scalar public) (\<lambda>_. Ok imported))) = Ok k"
      by (auto simp: pkcs8_ec_def res_bind_Ok_iff)
    from rest have "k = imported"
      by (cases "pki_public_key info"; cases "ik_material imported") (auto simp: res_bind_Ok_iff)
    with from_ec show ?thesis by (simp add: from_ec_private_key_ok)
  next
    case 3
    then show ?thesis by (rule from_seed_oid_key_ok)
  qed
qed

lemma from_pkcs1_key_ok: "from_pkcs1 lib der = Ok k \<Longrightarrow> key_ok lib k"
  by (auto simp: from_pkcs1_def res_bind_Ok_iff intro: rsa_decoded_key_ok)

lemma decrypt_pkcs8_key_ok: "decrypt_pkcs8 lib der password = Ok k \<Longrightarrow> key_ok lib k"
  by (auto simp: decrypt_pkcs8_def res_bind_Ok_iff intro: from_pkcs8_key_ok)

section \<open>OpenPGP import forms\<close>

text \<open>What the code relies on of \<^verbatim>\<open>BigUint::to_bytes_be\<close>: the shortest big-endian bytes of the number
  (one zero byte for zero).\<close>

definition big_laws :: "keys_lib \<Rightarrow> bool" where
  "big_laws lib \<longleftrightarrow> (\<forall>n. be_nat (to_bytes_be lib n) = n
     \<and> (if n = 0 then to_bytes_be lib n = [0] else to_bytes_be lib n \<noteq> [] \<and> hd (to_bytes_be lib n) \<noteq> 0))"

lemma to_bytes_be_length:
  assumes "big_laws lib" and "0 < w"
  shows "length (to_bytes_be lib n) \<le> w \<longleftrightarrow> n < 256 ^ w"
proof (cases "n = 0")
  case True
  with assms show ?thesis by (simp add: big_laws_def Suc_le_eq)
next
  case False
  with assms be_nat_length_iff [of "to_bytes_be lib n" w] show ?thesis by (simp add: big_laws_def)
qed

lemma pad_left_number:
  assumes "big_laws lib" and "0 < w"
  shows "pad_left (to_bytes_be lib n) w = Ok bytes \<longleftrightarrow> length bytes = w \<and> be_nat bytes = n"
    (is "?pad \<longleftrightarrow> ?bytes")
proof
  have num: "be_nat (to_bytes_be lib n) = n" using assms(1) by (simp add: big_laws_def)
  then show "?pad \<Longrightarrow> ?bytes" by (auto simp: pad_left_def split: if_splits)
  assume b: ?bytes
  then have "n < 256 ^ w" using be_nat_less [of bytes] by simp
  then have len: "length (to_bytes_be lib n) \<le> w" using to_bytes_be_length [OF assms] by simp
  have "replicate (w - length (to_bytes_be lib n)) 0 @ to_bytes_be lib n = bytes"
    using be_nat_inject [of "replicate (w - length (to_bytes_be lib n)) 0 @ to_bytes_be lib n" bytes] len num b
    by simp
  with len show ?pad by (simp add: pad_left_def)
qed

lemma card_scalar_value:
  assumes "length s = 32"
  shows "length (card_scalar s) = 32" and "be_nat (card_scalar s) = clamp_scalar (be_nat (rev s))"
proof -
  show "length (card_scalar s) = 32" using assms by (simp add: card_scalar_def Let_def)
  obtain c r where r: "s = c # r" "length r = 31" using assms by (cases s) simp_all
  obtain mid a where m: "r = mid @ [a]" "length mid = 30" using r(2) by (cases r rule: rev_cases) simp_all
  have mid: "be_nat (rev mid) < 256 ^ 30" using be_nat_less [of "rev mid"] unfolding length_rev m(2) .
  have s: "card_scalar s = ((a AND 0x7f) OR 0x40) # rev mid @ [c AND 0xf8]"
    using r m by (simp add: card_scalar_def Let_def nth_append list_update_append)
  have "be_nat (card_scalar s)
      = (64 + unat a mod 64) * 256 ^ 31 + (be_nat (rev mid) * 256 + 8 * (unat c div 8))"
    unfolding s be_nat.simps unat_set_high be_nat_append length_append length_rev m(2) unat_clear_low
    by (simp del: power_numeral)
  also have "\<dots> = clamp_scalar (unat a * 256 ^ 31 + (be_nat (rev mid) * 256 + unat c))"
    using clamp_scalar_digits [OF unat_byte_less [of c] mid unat_byte_less [of a]] by (rule sym)
  also have "unat a * 256 ^ 31 + (be_nat (rev mid) * 256 + unat c) = be_nat (rev s)"
    unfolding r m rev.simps rev_append be_nat.simps be_nat_append append.simps length_append length_rev m(2) list.size
    by (simp del: power_numeral)
  finally show "be_nat (card_scalar s) = clamp_scalar (be_nat (rev s))" .
qed

text \<open>The numbers of an RSA key in the order of the import template\<close>

definition og_numbers :: "openpgp_private_key \<Rightarrow> byte list list" where
  "og_numbers og = [og_p og, og_q og, og_q_inverse og, og_d_p og, og_d_q og]"

lemma pad_left_is_ok:
  assumes "big_laws lib" and "0 < w"
  shows "pad_left (to_bytes_be lib n) w = (if n < 256 ^ w
    then Ok (replicate (w - length (to_bytes_be lib n)) 0 @ to_bytes_be lib n) else Err KeyEncoding)"
  using to_bytes_be_length [OF assms, of n] by (auto simp: pad_left_def not_le [symmetric])

lemma openpgp_rsa_values:
  assumes "big_laws lib" and "rsa_key_ok lib k key" and "half_width (ik_algorithm k) = Ok w"
    and "rk_primes key = [p, q]" and "rk_crt_coefficient key = Some qinv"
  shows "openpgp_key k = Ok og \<longleftrightarrow>
     og = OpenPgpRsa (og_exponent og) (og_p og) (og_q og) (og_q_inverse og) (og_d_p og) (og_d_q og)
     \<and> length (og_exponent og) = 4 \<and> be_nat (og_exponent og) = rk_e key
     \<and> (\<forall>bytes \<in> set (og_numbers og). length bytes = w)
     \<and> map be_nat (og_numbers og) = [p, q, qinv, rk_d key mod (p - 1), rk_d key mod (q - 1)]"
    (is "_ \<longleftrightarrow> ?rsa \<and> ?len4 \<and> ?e \<and> ?len \<and> ?nums")
proof -
  have w: "0 < w" using assms(3) by (auto simp: half_width_def split: algorithm.splits)
  define e where "e = replicate (4 - length (to_bytes_be lib (rk_e key))) 0 @ to_bytes_be lib (rk_e key)"
  have pad_e: "pad_left (to_bytes_be lib (rk_e key)) 4 = Ok e"
    using assms(2) by (simp add: rsa_key_ok_def pad_left_def e_def)
  have e: "bytes = e \<longleftrightarrow> length bytes = 4 \<and> be_nat bytes = rk_e key" for bytes
    using pad_left_number [OF assms(1), of 4 "rk_e key" bytes] unfolding pad_e by auto
  have mat: "ik_material k = MatRsa e (to_bytes_be lib p) (to_bytes_be lib q)
      (to_bytes_be lib (rk_d key mod (p - 1))) (to_bytes_be lib (rk_d key mod (q - 1))) (to_bytes_be lib qinv)"
    using assms(2,4,5) by (auto simp: rsa_key_ok_def e_def)
  have "openpgp_key k = Ok og \<longleftrightarrow> (\<exists>bp bq bi bdp bdq. og = OpenPgpRsa e bp bq bi bdp bdq
      \<and> pad_left (to_bytes_be lib p) w = Ok bp \<and> pad_left (to_bytes_be lib q) w = Ok bq
      \<and> pad_left (to_bytes_be lib qinv) w = Ok bi \<and> pad_left (to_bytes_be lib (rk_d key mod (p - 1))) w = Ok bdp
      \<and> pad_left (to_bytes_be lib (rk_d key mod (q - 1))) w = Ok bdq)"
    using mat assms(3) by (auto simp: openpgp_key_def res_bind_Ok_iff)
  also have "\<dots> \<longleftrightarrow> ?rsa \<and> ?len4 \<and> ?e \<and> ?len \<and> ?nums"
    unfolding pad_left_number [OF assms(1) w] by (cases og) (auto simp: og_numbers_def e)
  finally show ?thesis .
qed

end
