(* ===== verification/Pfx.thy ===== *)
theory Pfx
  imports Keys
begin

unbundle bit_operations_syntax

text \<open>
  PKCS\#12 bundles, \<^verbatim>\<open>crates/ckman-core/src/keys/pfx.rs\<close>: the RFC 7292 key derivation and integrity
  check, the collection of keys and certificates, and the choice of the leaf certificate.  The
  DER readers of the \<^verbatim>\<open>#[derive(Sequence)]\<close> structures, HMAC and SHA-1 are the record \<open>pfx_lib\<close>.
\<close>

section \<open>Structures\<close>

record content_info =
  ci_type :: oid
  ci_content :: der_any

record digest_info =
  di_algorithm :: algorithm_identifier
  di_digest :: "byte list"

record mac_data =
  md_mac :: digest_info
  md_salt :: "byte list"
  md_iterations :: "u32 option"

record pfx =
  px_version :: u8
  px_auth_safe :: content_info
  px_mac_data :: "mac_data option"

record safe_bag =
  sb_id :: oid
  sb_value :: der_any
  sb_attributes :: "der_any option"

record cert_bag =
  cb_id :: oid
  cb_value :: der_any

record encrypted_content_info =
  eci_type :: oid
  eci_encryption :: algorithm_identifier
  eci_content :: "byte list option"

record encrypted_data =
  ed_version :: u8
  ed_content :: encrypted_content_info

record pfx_data =
  pd_key :: "imported_key option"
  pd_certificates :: "byte list list"

datatype mac_digest = MacSha1 | MacSha256 | MacSha384 | MacSha512

record pfx_lib =
  pl_keys :: keys_lib
  pl_sha1 :: "byte list \<Rightarrow> byte list"
  pl_hmac_verify :: "mac_digest \<Rightarrow> byte list \<Rightarrow> byte list \<Rightarrow> byte list \<Rightarrow> bool"
  pfx_from_der :: "byte list \<Rightarrow> pfx option"
  infos_from_der :: "byte list \<Rightarrow> content_info list option"
  bags_from_der :: "byte list \<Rightarrow> safe_bag list option"
  any_to_der :: "der_any \<Rightarrow> byte list option"
  any_as_octets :: "der_any \<Rightarrow> byte list option"
  any_as_encrypted_data :: "der_any \<Rightarrow> encrypted_data option"
  any_as_encrypted_key :: "der_any \<Rightarrow> encrypted_key_info option"
  any_as_cert_bag :: "der_any \<Rightarrow> cert_bag option"
  scheme_from_identifier :: "algorithm_identifier \<Rightarrow> encryption_scheme option"
  name_to_der :: "name \<Rightarrow> byte list option"

definition OID_DATA :: oid where "OID_DATA = Oid (lit ''1.2.840.113549.1.7.1'')"
definition OID_ENCRYPTED_DATA :: oid where "OID_ENCRYPTED_DATA = Oid (lit ''1.2.840.113549.1.7.6'')"
definition OID_KEY_BAG :: oid where "OID_KEY_BAG = Oid (lit ''1.2.840.113549.1.12.10.1.1'')"
definition OID_SHROUDED_KEY_BAG :: oid where "OID_SHROUDED_KEY_BAG = Oid (lit ''1.2.840.113549.1.12.10.1.2'')"
definition OID_CERT_BAG :: oid where "OID_CERT_BAG = Oid (lit ''1.2.840.113549.1.12.10.1.3'')"
definition OID_X509_CERT :: oid where "OID_X509_CERT = Oid (lit ''1.2.840.113549.1.9.22.1'')"
definition MAX_ITERATIONS :: u32 where "MAX_ITERATIONS = 10000000"

section \<open>Key derivation\<close>

definition mac_digest_from_oid :: "oid \<Rightarrow> mac_digest option" where
  "mac_digest_from_oid oid =
    (if oid = Oid (lit ''1.3.14.3.2.26'') then Some MacSha1
     else if oid = Oid (lit ''2.16.840.1.101.3.4.2.1'') then Some MacSha256
     else if oid = Oid (lit ''2.16.840.1.101.3.4.2.2'') then Some MacSha384
     else if oid = Oid (lit ''2.16.840.1.101.3.4.2.3'') then Some MacSha512 else None)"

definition mac_digest_of :: "pfx_lib \<Rightarrow> mac_digest \<Rightarrow> byte list \<Rightarrow> byte list" where
  "mac_digest_of lib h = (case h of
     MacSha1 \<Rightarrow> pl_sha1 lib
   | MacSha256 \<Rightarrow> sha256 (kl_x509 (pl_keys lib))
   | MacSha384 \<Rightarrow> sha384 (kl_x509 (pl_keys lib))
   | MacSha512 \<Rightarrow> sha512 (kl_x509 (pl_keys lib)))"

definition mac_out_len :: "mac_digest \<Rightarrow> nat" where
  "mac_out_len h = (case h of MacSha1 \<Rightarrow> 20 | MacSha256 \<Rightarrow> 32 | MacSha384 \<Rightarrow> 48 | MacSha512 \<Rightarrow> 64)"

definition mac_block_len :: "mac_digest \<Rightarrow> nat" where
  "mac_block_len h = (case h of MacSha1 \<Rightarrow> 64 | MacSha256 \<Rightarrow> 64 | MacSha384 \<Rightarrow> 128 | MacSha512 \<Rightarrow> 128)"

text \<open>\<^verbatim>\<open>iter().copied().cycle().take(n)\<close>\<close>

definition cycle_take :: "nat \<Rightarrow> 'a list \<Rightarrow> 'a list" where
  "cycle_take n xs = (if xs = [] then [] else map (\<lambda>i. xs ! (i mod length xs)) [0..<n])"

definition kdf_fill :: "nat \<Rightarrow> byte list \<Rightarrow> byte list" where
  "kdf_fill v src = (if src = [] then [] else cycle_take (v * ((length src + v - 1) div v)) src)"

text \<open>The loop over \<^verbatim>\<open>block.iter_mut().rev().zip(b.iter().rev())\<close>, on the reversed bytes\<close>

fun add_reversed :: "byte list \<Rightarrow> byte list \<Rightarrow> u16 \<Rightarrow> byte list" where
  "add_reversed (x # xs) (y # ys) carry =
     (let sum = ucast x + ucast y + carry in ucast sum # add_reversed xs ys (drop_bit 8 sum))"
| "add_reversed xs _ _ = xs"

definition add_block :: "byte list \<Rightarrow> byte list \<Rightarrow> byte list" where
  "add_block b block = rev (add_reversed (rev block) (rev b) 1)"

definition stretch :: "(byte list \<Rightarrow> byte list) \<Rightarrow> nat \<Rightarrow> byte list \<Rightarrow> byte list" where
  "stretch digest iterations input = (digest ^^ (iterations - 1)) (digest input)"

text \<open>The \<^verbatim>\<open>while out.len() < out_len\<close> loop, with the number of rounds still allowed.  A digest is
  not empty, so \<open>out_len\<close> rounds are enough: \<open>kdf_rounds_enough\<close> below.\<close>

primrec kdf_rounds :: "(byte list \<Rightarrow> byte list) \<Rightarrow> nat \<Rightarrow> byte list \<Rightarrow> nat \<Rightarrow> nat
    \<Rightarrow> nat \<Rightarrow> byte list \<Rightarrow> byte list \<Rightarrow> byte list" where
  "kdf_rounds digest v d iterations out_len 0 i out = out"
| "kdf_rounds digest v d iterations out_len (Suc rounds) i out =
     (if length out < out_len
      then let a = stretch digest iterations (d @ i); b = cycle_take v a
           in kdf_rounds digest v d iterations out_len rounds
                (concat (map (add_block b) (chunks_of v i))) (out @ a)
      else out)"

definition kdf :: "(byte list \<Rightarrow> byte list) \<Rightarrow> nat \<Rightarrow> byte \<Rightarrow> byte list \<Rightarrow> byte list \<Rightarrow> nat \<Rightarrow> nat \<Rightarrow> byte list" where
  "kdf digest v diversifier bmp salt iterations out_len =
     take out_len (kdf_rounds digest v (replicate v diversifier) iterations out_len out_len
       (kdf_fill v salt @ kdf_fill v bmp) [])"

section \<open>Integrity\<close>

text \<open>\<^verbatim>\<open>encode_utf16\<close> of a string, from the code point of each of its UTF-8 sequences\<close>

definition code_point :: "byte list \<Rightarrow> nat" where
  "code_point s = (case map unat s of
     [a] \<Rightarrow> a
   | [a, b] \<Rightarrow> (a mod 32) * 64 + b mod 64
   | [a, b, c] \<Rightarrow> (a mod 16) * 4096 + (b mod 64) * 64 + c mod 64
   | [a, b, c, d] \<Rightarrow> (a mod 8) * 262144 + (b mod 64) * 4096 + (c mod 64) * 64 + d mod 64
   | _ \<Rightarrow> 0)"

definition utf16_units :: "nat \<Rightarrow> u16 list" where
  "utf16_units c = (if c < 0x10000 then [word_of_nat c]
     else [word_of_nat (0xd800 + (c - 0x10000) div 1024), word_of_nat (0xdc00 + (c - 0x10000) mod 1024)])"

function encode_utf16 :: "byte list \<Rightarrow> u16 list" where
  "encode_utf16 s = (if s = [] \<or> utf8_seq s = 0 then []
     else utf16_units (code_point (take (utf8_seq s) s)) @ encode_utf16 (drop (utf8_seq s) s))"
  by pat_completeness auto
termination by (relation "measure length") auto

declare encode_utf16.simps [simp del]

definition bmp_password :: "byte list \<Rightarrow> byte list" where
  "bmp_password password = concat (map be_bytes16 (encode_utf16 (utf8_lossy password))) @ [0, 0]"

text \<open>\<^verbatim>\<open>verifies\<close>\<close>

definition mac_verifies :: "pfx_lib \<Rightarrow> mac_digest \<Rightarrow> mac_data \<Rightarrow> u32 \<Rightarrow> byte list \<Rightarrow> byte list \<Rightarrow> bool" where
  "mac_verifies lib h mac iterations auth_safe src =
    (let key = kdf (mac_digest_of lib h) (mac_block_len h) 3 src (md_salt mac) (unat iterations) (mac_out_len h)
     in pl_hmac_verify lib h key auth_safe (di_digest (md_mac mac)))"

definition verify_mac :: "pfx_lib \<Rightarrow> mac_data \<Rightarrow> byte list \<Rightarrow> byte list option \<Rightarrow> key_error + unit" where
  "verify_mac lib mac auth_safe password =
     res_bind (ok_or KeyUnsupported (mac_digest_from_oid (ai_oid (di_algorithm (md_mac mac))))) (\<lambda>h.
     let iterations = (case md_iterations mac of Some n \<Rightarrow> n | None \<Rightarrow> 1) in
     if iterations = 0 \<or> iterations > MAX_ITERATIONS then Err KeyEncoding
     else let password_bytes = (case password of Some p \<Rightarrow> p | None \<Rightarrow> []);
              verifies = mac_verifies lib h mac iterations auth_safe in
     if verifies (bmp_password password_bytes) then Ok ()
     else if password_bytes = [] \<and> verifies [] then Ok ()
     else if password = None then Err KeyPassword else Err KeyMacMismatch)"

section \<open>Contents\<close>

definition password_or_empty :: "byte list option \<Rightarrow> byte list" where
  "password_or_empty password = (case password of Some p \<Rightarrow> p | None \<Rightarrow> [])"

definition safe_contents :: "pfx_lib \<Rightarrow> content_info \<Rightarrow> byte list option \<Rightarrow> key_error + byte list" where
  "safe_contents lib info password =
    (if ci_type info = OID_DATA then ok_or KeyEncoding (any_as_octets lib (ci_content info))
     else if ci_type info = OID_ENCRYPTED_DATA then
       res_bind (ok_or KeyEncoding (any_as_encrypted_data lib (ci_content info))) (\<lambda>data.
       if ed_version data \<noteq> 0 \<or> eci_type (ed_content data) \<noteq> OID_DATA then Err KeyEncoding
       else res_bind (ok_or KeyUnsupported (scheme_from_identifier lib (eci_encryption (ed_content data)))) (\<lambda>scheme.
       res_bind (check_encryption_scheme scheme) (\<lambda>_.
       res_bind (ok_or KeyEncoding (eci_content (ed_content data))) (\<lambda>ciphertext.
       ok_or KeyPassword (pbes2_decrypt (pl_keys lib) scheme (password_or_empty password) ciphertext)))))
     else Err KeyUnsupported)"

text \<open>The three bags that carry something importable\<close>

definition key_bag :: "pfx_lib \<Rightarrow> der_any \<Rightarrow> key_error + imported_key" where
  "key_bag lib v =
     res_bind (ok_or KeyEncoding (any_to_der lib v)) (\<lambda>der. from_pkcs8 (pl_keys lib) der)"

definition shrouded_key_bag :: "pfx_lib \<Rightarrow> byte list option \<Rightarrow> der_any \<Rightarrow> key_error + imported_key" where
  "shrouded_key_bag lib password v =
     res_bind (ok_or KeyEncoding (any_as_encrypted_key lib v)) (\<lambda>encrypted.
     res_bind (check_encryption_scheme (eki_algorithm encrypted)) (\<lambda>_.
     res_bind (ok_or KeyPassword (pbes2_decrypt (pl_keys lib) (eki_algorithm encrypted)
         (password_or_empty password) (eki_data encrypted))) (\<lambda>decrypted.
     from_pkcs8 (pl_keys lib) decrypted)))"

text \<open>The certificate of a certificate bag, none when it is of another kind (\<^verbatim>\<open>continue\<close>)\<close>

definition certificate_bag :: "pfx_lib \<Rightarrow> der_any \<Rightarrow> key_error + byte list list" where
  "certificate_bag lib v =
     res_bind (ok_or KeyEncoding (any_as_cert_bag lib v)) (\<lambda>cert.
     if cb_id cert \<noteq> OID_X509_CERT then Ok []
     else res_bind (ok_or KeyEncoding (any_as_octets lib (cb_value cert))) (\<lambda>octets. Ok [octets]))"

definition collect_bag :: "pfx_lib \<Rightarrow> byte list option \<Rightarrow> safe_bag \<Rightarrow> pfx_data \<Rightarrow> key_error + pfx_data" where
  "collect_bag lib password bag data =
    (if sb_id bag = OID_KEY_BAG \<and> pd_key data = None then
       res_bind (key_bag lib (sb_value bag)) (\<lambda>key. Ok (data\<lparr>pd_key := Some key\<rparr>))
     else if sb_id bag = OID_SHROUDED_KEY_BAG \<and> pd_key data = None then
       res_bind (shrouded_key_bag lib password (sb_value bag)) (\<lambda>key. Ok (data\<lparr>pd_key := Some key\<rparr>))
     else if sb_id bag = OID_CERT_BAG then
       res_bind (certificate_bag lib (sb_value bag)) (\<lambda>found.
         Ok (data\<lparr>pd_certificates := pd_certificates data @ found\<rparr>))
     else Ok data)"

fun collect_loop :: "pfx_lib \<Rightarrow> byte list option \<Rightarrow> safe_bag list \<Rightarrow> pfx_data \<Rightarrow> key_error + pfx_data" where
  "collect_loop lib password [] data = Ok data"
| "collect_loop lib password (bag # bags) data =
     res_bind (collect_bag lib password bag data) (collect_loop lib password bags)"

definition collect_bags :: "pfx_lib \<Rightarrow> byte list \<Rightarrow> byte list option \<Rightarrow> pfx_data \<Rightarrow> key_error + pfx_data" where
  "collect_bags lib contents password data =
     res_bind (ok_or KeyEncoding (bags_from_der lib contents)) (\<lambda>bags. collect_loop lib password bags data)"

text \<open>\<^verbatim>\<open>for info in &infos\<close>\<close>

fun collect_infos :: "pfx_lib \<Rightarrow> byte list option \<Rightarrow> content_info list \<Rightarrow> pfx_data \<Rightarrow> key_error + pfx_data" where
  "collect_infos lib password [] data = Ok data"
| "collect_infos lib password (info # infos) data =
     res_bind (safe_contents lib info password) (\<lambda>contents.
     res_bind (collect_bags lib contents password data) (collect_infos lib password infos))"

definition parse_pfx :: "pfx_lib \<Rightarrow> byte list \<Rightarrow> byte list option \<Rightarrow> key_error + pfx_data" where
  "parse_pfx lib input password =
     res_bind (ok_or KeyEncoding (pfx_from_der lib input)) (\<lambda>pfx.
     if px_version pfx \<noteq> 3 \<or> ci_type (px_auth_safe pfx) \<noteq> OID_DATA then Err KeyEncoding
     else res_bind (ok_or KeyEncoding (any_as_octets lib (ci_content (px_auth_safe pfx)))) (\<lambda>auth_safe.
     res_bind (case px_mac_data pfx of None \<Rightarrow> Ok () | Some mac \<Rightarrow> verify_mac lib mac auth_safe password) (\<lambda>_.
     res_bind (ok_or KeyEncoding (infos_from_der lib auth_safe)) (\<lambda>infos.
     res_bind (collect_infos lib password infos \<lparr>pd_key = None, pd_certificates = []\<rparr>) (\<lambda>data.
     if pd_key data = None \<and> pd_certificates data = [] then Err KeyEncoding else Ok data)))))"

definition key_from_pfx :: "pfx_lib \<Rightarrow> byte list \<Rightarrow> byte list option \<Rightarrow> key_error + imported_key" where
  "key_from_pfx lib input password =
     res_bind (parse_pfx lib input password) (\<lambda>data. ok_or KeyEncoding (pd_key data))"

definition certificates_from_pfx :: "pfx_lib \<Rightarrow> byte list \<Rightarrow> byte list option \<Rightarrow> key_error + byte list list" where
  "certificates_from_pfx lib input password =
     res_bind (parse_pfx lib input password) (\<lambda>data.
     if pd_certificates data = [] then Err KeyEncoding else Ok (pd_certificates data))"

section \<open>The leaf certificate\<close>

definition certificate_names :: "pfx_lib \<Rightarrow> byte list \<Rightarrow> key_error + byte list \<times> byte list" where
  "certificate_names lib der =
     res_bind (map_err (\<lambda>_. KeyEncoding) (cert_from_der (kl_x509 (pl_keys lib)) der)) (\<lambda>cert.
     res_bind (ok_or KeyEncoding (name_to_der lib (tbs_subject (cert_tbs cert)))) (\<lambda>subject.
     res_bind (ok_or KeyEncoding (name_to_der lib (tbs_issuer (cert_tbs cert)))) (\<lambda>issuer.
     Ok (subject, issuer))))"

fun collect_names :: "pfx_lib \<Rightarrow> byte list list \<Rightarrow> key_error + (byte list \<times> byte list) list" where
  "collect_names lib [] = Ok []"
| "collect_names lib (der # ders) =
     res_bind (certificate_names lib der) (\<lambda>n. res_bind (collect_names lib ders) (\<lambda>ns. Ok (n # ns)))"

definition issues_other :: "(byte list \<times> byte list) list \<Rightarrow> nat \<Rightarrow> bool" where
  "issues_other names i \<longleftrightarrow> (\<exists>j \<in> set [0..<length names]. i \<noteq> j \<and> snd (names ! j) = fst (names ! i))"

definition leaf_certificate :: "pfx_lib \<Rightarrow> byte list list \<Rightarrow> key_error + nat" where
  "leaf_certificate lib certificates =
    (if length certificates = 1 then Ok 0
     else res_bind (collect_names lib certificates) (\<lambda>names.
       case filter (\<lambda>i. \<not> issues_other names i) [0..<length names] of
         [leaf] \<Rightarrow> Ok leaf
       | _ \<Rightarrow> Err KeyAmbiguousCertificates))"

section \<open>What a bundle holds\<close>

definition is_key_bag :: "safe_bag \<Rightarrow> bool" where
  "is_key_bag bag \<longleftrightarrow> sb_id bag = OID_KEY_BAG \<or> sb_id bag = OID_SHROUDED_KEY_BAG"

definition bag_key :: "pfx_lib \<Rightarrow> byte list option \<Rightarrow> safe_bag \<Rightarrow> key_error + imported_key" where
  "bag_key lib password bag =
    (if sb_id bag = OID_KEY_BAG then key_bag lib (sb_value bag)
     else shrouded_key_bag lib password (sb_value bag))"

text \<open>
  The specification: \<open>bundle_holds lib password bags key certs\<close> when the first key bag reads as \<open>key\<close>
  (none: no key bag) and the certificate bags, in order, as \<open>certs\<close>.
\<close>

definition first_key :: "pfx_lib \<Rightarrow> byte list option \<Rightarrow> safe_bag list \<Rightarrow> imported_key option \<Rightarrow> bool" where
  "first_key lib password bags key \<longleftrightarrow> (case filter is_key_bag bags of
     [] \<Rightarrow> key = None
   | bag # _ \<Rightarrow> (\<exists>k. key = Some k \<and> bag_key lib password bag = Ok k))"

definition bag_certificates :: "pfx_lib \<Rightarrow> safe_bag list \<Rightarrow> byte list list \<Rightarrow> bool" where
  "bag_certificates lib bags certs \<longleftrightarrow> (\<exists>found.
     list_all2 (\<lambda>bag c. certificate_bag lib (sb_value bag) = Ok c) (filter (\<lambda>bag. sb_id bag = OID_CERT_BAG) bags) found
     \<and> certs = concat found)"

lemma bag_oids [simp]:
  "OID_KEY_BAG \<noteq> OID_CERT_BAG" "OID_SHROUDED_KEY_BAG \<noteq> OID_CERT_BAG" "OID_KEY_BAG \<noteq> OID_SHROUDED_KEY_BAG"
  "OID_CERT_BAG \<noteq> OID_KEY_BAG" "OID_CERT_BAG \<noteq> OID_SHROUDED_KEY_BAG" "OID_SHROUDED_KEY_BAG \<noteq> OID_KEY_BAG"
  by (simp_all add: OID_KEY_BAG_def OID_CERT_BAG_def OID_SHROUDED_KEY_BAG_def lit_def)

lemma collect_bag_key:
  assumes "is_key_bag bag" and "pd_key data = None" and "collect_bag lib password bag data = Ok data'"
  shows "\<exists>k. bag_key lib password bag = Ok k \<and> data' = data\<lparr>pd_key := Some k\<rparr>"
  using assms by (auto simp: collect_bag_def is_key_bag_def bag_key_def res_bind_Ok_iff split: if_splits)

lemma collect_bag_certificate:
  assumes "sb_id bag = OID_CERT_BAG" and "collect_bag lib password bag data = Ok data'"
  shows "\<exists>found. certificate_bag lib (sb_value bag) = Ok found
    \<and> data' = data\<lparr>pd_certificates := pd_certificates data @ found\<rparr>"
  using assms by (auto simp: collect_bag_def res_bind_Ok_iff split: if_splits)

lemma collect_bag_other:
  assumes "\<not> (is_key_bag bag \<and> pd_key data = None)" and "sb_id bag \<noteq> OID_CERT_BAG"
    and "collect_bag lib password bag data = Ok data'"
  shows "data' = data"
  using assms by (auto simp: collect_bag_def is_key_bag_def split: if_splits)

lemma first_key_skip: "\<not> is_key_bag bag \<Longrightarrow> first_key lib password (bag # bags) key = first_key lib password bags key"
  by (simp add: first_key_def)

lemma first_key_here: "is_key_bag bag \<Longrightarrow> bag_key lib password bag = Ok k \<Longrightarrow> first_key lib password (bag # bags) (Some k)"
  by (simp add: first_key_def)

lemma bag_certificates_Nil: "bag_certificates lib [] []"
  by (simp add: bag_certificates_def)

lemma bag_certificates_skip:
  "sb_id bag \<noteq> OID_CERT_BAG \<Longrightarrow> bag_certificates lib (bag # bags) certs = bag_certificates lib bags certs"
  by (simp add: bag_certificates_def)

lemma bag_certificates_here:
  assumes "sb_id bag = OID_CERT_BAG" and "certificate_bag lib (sb_value bag) = Ok c" and "bag_certificates lib bags certs"
  shows "bag_certificates lib (bag # bags) (c @ certs)"
proof -
  from assms(3) obtain found
    where "list_all2 (\<lambda>bag c. certificate_bag lib (sb_value bag) = Ok c) (filter (\<lambda>bag. sb_id bag = OID_CERT_BAG) bags) found"
      and "certs = concat found" by (auto simp: bag_certificates_def)
  with assms(1,2) show ?thesis unfolding bag_certificates_def by (intro exI [of _ "c # found"]) simp
qed

lemma collect_loop_holds:
  assumes "collect_loop lib password bags data = Ok data'"
  shows "\<exists>certs. bag_certificates lib bags certs \<and> pd_certificates data' = pd_certificates data @ certs
    \<and> (case pd_key data of Some k \<Rightarrow> pd_key data' = Some k | None \<Rightarrow> first_key lib password bags (pd_key data'))"
  using assms
proof (induction bags arbitrary: data)
  case Nil
  then show ?case by (auto simp: bag_certificates_def first_key_def split: option.split)
next
  case (Cons bag bags)
  from Cons.prems obtain mid where m: "collect_bag lib password bag data = Ok mid"
    and rest: "collect_loop lib password bags mid = Ok data'" by (auto simp: res_bind_Ok_iff)
  from Cons.IH [OF rest] obtain certs where c: "bag_certificates lib bags certs"
    "pd_certificates data' = pd_certificates mid @ certs"
    "case pd_key mid of Some k \<Rightarrow> pd_key data' = Some k | None \<Rightarrow> first_key lib password bags (pd_key data')" by blast
  consider (key) "is_key_bag bag" "pd_key data = None" | (cert) "sb_id bag = OID_CERT_BAG"
    | (other) "\<not> (is_key_bag bag \<and> pd_key data = None)" "sb_id bag \<noteq> OID_CERT_BAG"
    by (cases "sb_id bag = OID_CERT_BAG"; cases "is_key_bag bag \<and> pd_key data = None") auto
  then show ?case
  proof cases
    case key
    then have "sb_id bag \<noteq> OID_CERT_BAG" by (auto simp: is_key_bag_def)
    with collect_bag_key [OF key m] c key show ?thesis
      by (auto simp: bag_certificates_skip first_key_here)
  next
    case cert
    from collect_bag_certificate [OF cert m] obtain found
      where f: "certificate_bag lib (sb_value bag) = Ok found" "mid = data\<lparr>pd_certificates := pd_certificates data @ found\<rparr>"
      by blast
    have "\<not> is_key_bag bag" using cert by (auto simp: is_key_bag_def)
    with c f bag_certificates_here [OF cert f(1) c(1)] show ?thesis
      by (intro exI [of _ "found @ certs"]) (auto simp: first_key_skip split: option.splits)
  next
    case other
    with collect_bag_other [OF other m] c show ?thesis
      by (auto simp: bag_certificates_skip first_key_skip split: option.splits)
  qed
qed

text \<open>The bags of a bundle: those of every content, in order.\<close>

definition opens_as :: "pfx_lib \<Rightarrow> byte list option \<Rightarrow> content_info \<Rightarrow> safe_bag list \<Rightarrow> bool" where
  "opens_as lib password info bags \<longleftrightarrow>
     (\<exists>contents. safe_contents lib info password = Ok contents \<and> bags_from_der lib contents = Some bags)"

lemma collect_loop_append:
  "collect_loop lib password (xs @ ys) data = res_bind (collect_loop lib password xs data) (collect_loop lib password ys)"
  by (induction xs arbitrary: data) (auto simp: res_bind_def split: sum.splits)

lemma collect_infos_loop:
  assumes "collect_infos lib password infos data = Ok data'"
  shows "\<exists>bagss. list_all2 (opens_as lib password) infos bagss
    \<and> collect_loop lib password (concat bagss) data = Ok data'"
  using assms
proof (induction infos arbitrary: data)
  case (Cons info infos)
  from Cons.prems obtain bags mid where b: "opens_as lib password info bags"
    "collect_loop lib password bags data = Ok mid" and rest: "collect_infos lib password infos mid = Ok data'"
    by (auto simp: res_bind_Ok_iff ok_or_Ok_iff collect_bags_def opens_as_def)
  from Cons.IH [OF rest] obtain bagss where "list_all2 (opens_as lib password) infos bagss"
    "collect_loop lib password (concat bagss) mid = Ok data'" by blast
  with b show ?case by (intro exI [of _ "bags # bagss"]) (simp add: collect_loop_append)
qed simp

section \<open>The key derivation in numbers\<close>

text \<open>
  RFC 7292, appendix B.2, with the blocks of \<open>I\<close> as numbers: each round hashes \<open>D || I\<close>
  \<open>r\<close> times, and adds the stretched digest plus one to every block, modulo \<open>2 ^ (8 v)\<close>.
\<close>

primrec be_bytes :: "nat \<Rightarrow> nat \<Rightarrow> byte list" where
  "be_bytes 0 n = []"
| "be_bytes (Suc w) n = be_bytes w (n div 256) @ [word_of_nat n]"

lemma length_be_bytes_nat [simp]: "length (be_bytes w n) = w"
  by (induction w arbitrary: n) simp_all

lemma be_nat_be_bytes: "be_nat (be_bytes w n) = n mod 256 ^ w"
proof (induction w arbitrary: n)
  case (Suc w)
  have "unat (word_of_nat n :: byte) = n mod 256" by (simp add: unat_of_nat)
  then show ?case using Suc by (simp add: mod_mult2_eq mult.commute)
qed simp

lemma be_bytes_be_nat: "length c = w \<Longrightarrow> be_bytes w (be_nat c) = c"
  using be_nat_inject [of "be_bytes w (be_nat c)" c] be_nat_less [of c] by (simp add: be_nat_be_bytes)

primrec rfc_digests ::
  "(byte list \<Rightarrow> byte list) \<Rightarrow> nat \<Rightarrow> byte list \<Rightarrow> nat \<Rightarrow> nat \<Rightarrow> nat list \<Rightarrow> byte list list" where
  "rfc_digests digest v d r 0 blocks = []"
| "rfc_digests digest v d r (Suc rounds) blocks =
     (let a = stretch digest r (d @ concat (map (be_bytes v) blocks)); b = be_nat (cycle_take v a)
      in a # rfc_digests digest v d r rounds (map (\<lambda>x. (x + b + 1) mod 256 ^ v) blocks))"

lemma add_reversed_value:
  assumes "length xs = length ys" and "unat carry \<le> 1"
  shows "length (add_reversed xs ys carry) = length xs
    \<and> be_nat (rev (add_reversed xs ys carry)) = (be_nat (rev xs) + be_nat (rev ys) + unat carry) mod 256 ^ length xs"
  using assms
proof (induction xs ys arbitrary: carry rule: list_induct2)
  case (Cons x xs y ys)
  define s :: u16 where "s = ucast x + ucast y + carry"
  have wide: "unat (ucast b :: u16) = unat b" for b :: byte
    using unat_byte_less [of b] by (simp add: unsigned_ucast_eq take_bit_nat_eq_self)
  have s: "unat s = unat x + unat y + unat carry"
    unfolding s_def using unat_byte_less [of x] unat_byte_less [of y] Cons.prems
    by (simp add: unat_word_ariths wide)
  have high: "unat (drop_bit 8 s) = unat s div 256"
    using unsigned_drop_bit_eq [where 'b = 16 and 'a = nat, of 8 s] unsigned_less [where 'b = 16 and 'a = nat, of s]
    by (simp add: drop_bit_eq_div take_bit_eq_mod)
  have low: "unat (ucast s :: byte) = unat s mod 256"
    by (simp add: unsigned_ucast_eq take_bit_eq_mod)
  have carry: "unat (drop_bit 8 s) \<le> 1"
    using high s unat_byte_less [of x] unat_byte_less [of y] Cons.prems by linarith
  let ?S = "be_nat (rev xs) + be_nat (rev ys)" and ?N = "(256 :: nat) ^ length xs"
  have "(?S * 256 + unat s) mod (256 * ?N) = 256 * ((?S + unat s div 256) mod ?N) + unat s mod 256"
    unfolding mod_mult2_eq using div_mult_self3 [of 256 ?S "unat s"] by (simp only: mod_mult_self3)
  moreover have "add_reversed (x # xs) (y # ys) carry = ucast s # add_reversed xs ys (drop_bit 8 s)"
    by (simp add: s_def Let_def)
  ultimately show ?case using Cons.IH [OF carry] low high s by (simp add: algebra_simps)
qed simp

lemma add_block_value:
  assumes "length block = length b"
  shows "length (add_block b block) = length block"
    and "be_nat (add_block b block) = (be_nat block + be_nat b + 1) mod 256 ^ length block"
  using add_reversed_value [of "rev block" "rev b" 1] assms by (simp_all add: add_block_def)

lemma add_block_be_bytes:
  assumes "length b = v" and "x < 256 ^ v"
  shows "add_block b (be_bytes v x) = be_bytes v ((x + be_nat b + 1) mod 256 ^ v)"
proof -
  have "be_nat (be_bytes v x) = x" using assms(2) by (simp add: be_nat_be_bytes)
  then show ?thesis
    using add_block_value [of "be_bytes v x" b] assms(1)
    by (subst be_nat_inject [symmetric]) (simp_all add: be_nat_be_bytes)
qed

lemma chunks_of_blocks:
  "0 < v \<Longrightarrow> \<forall>c \<in> set cs. length c = v \<Longrightarrow> chunks_of v (concat cs) = cs"
proof (induction cs)
  case (Cons c cs)
  then show ?case by (subst chunks_of.simps) auto
qed (simp add: chunks_of.simps)

lemma chunks_of_multiple:
  assumes "0 < v" and "length xs = v * k"
  shows "(\<forall>c \<in> set (chunks_of v xs). length c = v) \<and> concat (chunks_of v xs) = xs"
  using assms(2)
proof (induction k arbitrary: xs)
  case (Suc k)
  then have x: "xs \<noteq> []" "length (drop v xs) = v * k" and t: "length (take v xs) = v" using assms(1) by auto
  have c: "chunks_of v xs = take v xs # chunks_of v (drop v xs)"
    using x(1) assms(1) by (subst chunks_of.simps) simp
  from Suc.IH [OF x(2)] show ?case unfolding c using t by simp
qed (simp add: chunks_of.simps)

lemma length_cycle_take: "xs \<noteq> [] \<Longrightarrow> length (cycle_take n xs) = n"
  by (simp add: cycle_take_def)

lemma length_kdf_fill: "\<exists>k. length (kdf_fill v src) = v * k"
  by (cases "src = []") (auto simp: kdf_fill_def length_cycle_take)

lemma length_stretch: "\<forall>x. length (digest x) = u \<Longrightarrow> length (stretch digest r x) = u"
  by (cases "r - 1") (simp_all add: stretch_def)

text \<open>Rounds of \<open>u\<close> bytes until \<open>n\<close> bytes are there, from \<open>k\<close> on\<close>

definition rounds_needed :: "nat \<Rightarrow> nat \<Rightarrow> nat \<Rightarrow> nat" where
  "rounds_needed u n k = (n - k + u - 1) div u"

lemma rounds_needed_Suc: "0 < u \<Longrightarrow> k < n \<Longrightarrow> rounds_needed u n k = Suc (rounds_needed u n (k + u))"
proof -
  assume u: "0 < u" and k: "k < n"
  have "rounds_needed u n k = (n - k - 1 + u) div u" using u k by (simp add: rounds_needed_def)
  also have "\<dots> = Suc ((n - k - 1) div u)" using u div_add_self2 [of u "n - k - 1"] by simp
  also have "(n - k - 1) div u = rounds_needed u n (k + u)"
  proof (cases "u \<le> n - k")
    case False
    then show ?thesis using u by (simp add: rounds_needed_def)
  next
    case True
    then have "n - (k + u) + u - 1 = n - k - 1" using u by simp
    then show ?thesis by (simp add: rounds_needed_def)
  qed
  finally show ?thesis .
qed

lemma rounds_needed_0: "0 < u \<Longrightarrow> n \<le> k \<Longrightarrow> rounds_needed u n k = 0"
  by (simp add: rounds_needed_def)

lemma kdf_rounds_rfc:
  assumes "\<forall>x. length (digest x) = u" and "0 < u" and "0 < v"
    and "\<forall>x \<in> set blocks. x < 256 ^ v" and "n \<le> length out + rounds"
  shows "kdf_rounds digest v d r n rounds (concat (map (be_bytes v) blocks)) out
    = out @ concat (rfc_digests digest v d r (rounds_needed u n (length out)) blocks)"
  using assms(4,5)
proof (induction rounds arbitrary: blocks out)
  case 0
  then show ?case using assms(2) by (simp add: rounds_needed_0)
next
  case (Suc rounds)
  show ?case
  proof (cases "length out < n")
    case False
    then show ?thesis using assms(2) by (simp add: rounds_needed_0)
  next
    case True
    define a where "a = stretch digest r (d @ concat (map (be_bytes v) blocks))"
    define b where "b = cycle_take v a"
    have a: "length a = u" unfolding a_def by (rule length_stretch [OF assms(1)])
    with assms(2) have "a \<noteq> []" by auto
    then have b: "length b = v" unfolding b_def by (rule length_cycle_take)
    let ?next = "map (\<lambda>x. (x + be_nat b + 1) mod 256 ^ v) blocks"
    have "map (add_block b) (chunks_of v (concat (map (be_bytes v) blocks))) = map (be_bytes v) ?next"
      using Suc.prems(1) b assms(3) by (simp add: chunks_of_blocks add_block_be_bytes)
    then have "kdf_rounds digest v d r n (Suc rounds) (concat (map (be_bytes v) blocks)) out
        = kdf_rounds digest v d r n rounds (concat (map (be_bytes v) ?next)) (out @ a)"
      using True by (simp only: kdf_rounds.simps Let_def if_True a_def [symmetric] b_def [symmetric])
    also have "\<dots> = (out @ a) @ concat (rfc_digests digest v d r (rounds_needed u n (length (out @ a))) ?next)"
      using Suc.IH [of ?next "out @ a"] Suc.prems(2) a assms(2) by simp
    finally show ?thesis
      using rounds_needed_Suc [OF assms(2) True] a
      by (simp add: Let_def a_def [symmetric] b_def [symmetric] comp_def)
  qed
qed

text \<open>What the code relies on of the digests: their output lengths.\<close>

definition digest_laws :: "pfx_lib \<Rightarrow> bool" where
  "digest_laws lib \<longleftrightarrow> (\<forall>h x. length (mac_digest_of lib h x) = mac_out_len h)"

lemma mac_lens_pos [simp]: "0 < mac_out_len h" "0 < mac_block_len h"
  by (cases h; simp add: mac_out_len_def mac_block_len_def)+

lemma length_rfc_digests:
  "\<forall>x. length (digest x) = u \<Longrightarrow> length (concat (rfc_digests digest v d r m blocks)) = m * u"
  by (induction m arbitrary: blocks) (simp_all add: Let_def length_stretch)

lemma rounds_needed_enough: "0 < u \<Longrightarrow> n \<le> rounds_needed u n 0 * u"
proof -
  assume u: "0 < u"
  then have "n + u - 1 < u + u * ((n + u - 1) div u)" by (rule dividend_less_times_div)
  then show ?thesis using u by (simp add: rounds_needed_def mult.commute)
qed

definition kdf_blocks :: "nat \<Rightarrow> byte list \<Rightarrow> byte list \<Rightarrow> nat list" where
  "kdf_blocks v salt bmp = map be_nat (chunks_of v (kdf_fill v salt @ kdf_fill v bmp))"

lemma kdf_blocks_bytes:
  assumes "0 < v"
  shows "concat (map (be_bytes v) (kdf_blocks v salt bmp)) = kdf_fill v salt @ kdf_fill v bmp"
    and "\<forall>x \<in> set (kdf_blocks v salt bmp). x < 256 ^ v"
proof -
  obtain j k where "length (kdf_fill v salt) = v * j" "length (kdf_fill v bmp) = v * k"
    using length_kdf_fill by metis
  then have "length (kdf_fill v salt @ kdf_fill v bmp) = v * (j + k)" by (simp add: add_mult_distrib2)
  note blocks = chunks_of_multiple [OF assms this]
  have "map (be_bytes v) (kdf_blocks v salt bmp) = chunks_of v (kdf_fill v salt @ kdf_fill v bmp)"
    unfolding kdf_blocks_def map_map using blocks by (intro map_idI) (simp add: be_bytes_be_nat)
  with blocks show "concat (map (be_bytes v) (kdf_blocks v salt bmp)) = kdf_fill v salt @ kdf_fill v bmp" by simp
  have "be_nat c < 256 ^ v" if "c \<in> set (chunks_of v (kdf_fill v salt @ kdf_fill v bmp))" for c
    using be_nat_less [of c] blocks that by simp
  then show "\<forall>x \<in> set (kdf_blocks v salt bmp). x < 256 ^ v" by (simp add: kdf_blocks_def)
qed

lemma kdf_rounds_enough:
  assumes "\<forall>x. length (digest x) = u" and "0 < u" and "0 < v" and "n \<le> rounds"
  shows "kdf_rounds digest v d r n rounds (kdf_fill v salt @ kdf_fill v bmp) []
    = concat (rfc_digests digest v d r (rounds_needed u n 0) (kdf_blocks v salt bmp))"
  using kdf_rounds_rfc [OF assms(1-3), of "kdf_blocks v salt bmp" n "[]" rounds d r]
    kdf_blocks_bytes [OF assms(3)] assms(4) by simp

lemma leaf_filter:
  "filter P [0..<n] = [i] \<longleftrightarrow> i < n \<and> P i \<and> (\<forall>j < n. P j \<longrightarrow> j = i)"
proof
  assume f: "filter P [0..<n] = [i]"
  have "set (filter P [0..<n]) = {i}" unfolding f by simp
  then show "i < n \<and> P i \<and> (\<forall>j < n. P j \<longrightarrow> j = i)" by auto
next
  assume i: "i < n \<and> P i \<and> (\<forall>j < n. P j \<longrightarrow> j = i)"
  then have s: "set (filter P [0..<n]) = {i}" by auto
  moreover have "distinct (filter P [0..<n])" by simp
  ultimately have "length (filter P [0..<n]) = 1" by (metis distinct_card is_singletonI is_singleton_altdef)
  then obtain j where "filter P [0..<n] = [j]" by (auto simp: length_Suc_conv)
  with s show "filter P [0..<n] = [i]" by simp
qed

lemma certificate_names_Ok:
  "certificate_names lib der = Ok (subject, issuer) \<longleftrightarrow>
    (\<exists>c. cert_from_der (kl_x509 (pl_keys lib)) der = Ok c
       \<and> name_to_der lib (tbs_subject (cert_tbs c)) = Some subject \<and> name_to_der lib (tbs_issuer (cert_tbs c)) = Some issuer)"
  by (auto simp: certificate_names_def res_bind_Ok_iff map_err_Ok_iff ok_or_Ok_iff)

lemma collect_names_Ok:
  "collect_names lib ders = Ok names \<longleftrightarrow>
    length names = length ders \<and> (\<forall>j < length ders. certificate_names lib (ders ! j) = Ok (names ! j))"
proof (induction ders arbitrary: names)
  case (Cons der ders)
  then show ?case
    by (cases names) (auto simp: res_bind_Ok_iff All_less_Suc2)
qed auto

text \<open>The names as two functions of the position\<close>

lemma collect_names_functions:
  "(\<exists>names. collect_names lib ders = Ok names \<and> P names) \<longleftrightarrow>
    (\<exists>subject issuer. (\<forall>j < length ders. certificate_names lib (ders ! j) = Ok (subject j, issuer j))
       \<and> P (map (\<lambda>j. (subject j, issuer j)) [0..<length ders]))"
proof
  assume "\<exists>names. collect_names lib ders = Ok names \<and> P names"
  then obtain names where names: "collect_names lib ders = Ok names" "P names" by blast
  then have "map (\<lambda>j. (fst (names ! j), snd (names ! j))) [0..<length ders] = names"
    by (auto simp: collect_names_Ok intro: nth_equalityI)
  with names show "\<exists>subject issuer. (\<forall>j < length ders. certificate_names lib (ders ! j) = Ok (subject j, issuer j))
       \<and> P (map (\<lambda>j. (subject j, issuer j)) [0..<length ders])"
    by (intro exI [of _ "\<lambda>j. fst (names ! j)"] exI [of _ "\<lambda>j. snd (names ! j)"]) (simp add: collect_names_Ok)
next
  assume "\<exists>subject issuer. (\<forall>j < length ders. certificate_names lib (ders ! j) = Ok (subject j, issuer j))
       \<and> P (map (\<lambda>j. (subject j, issuer j)) [0..<length ders])"
  then obtain subject issuer where "\<forall>j < length ders. certificate_names lib (ders ! j) = Ok (subject j, issuer j)"
    "P (map (\<lambda>j. (subject j, issuer j)) [0..<length ders])" by blast
  then show "\<exists>names. collect_names lib ders = Ok names \<and> P names"
    by (intro exI [of _ "map (\<lambda>j. (subject j, issuer j)) [0..<length ders]"]) (simp add: collect_names_Ok)
qed

lemma issues_other_map:
  "i < n \<Longrightarrow> issues_other (map (\<lambda>j. (subject j, issuer j)) [0..<n]) i \<longleftrightarrow> (\<exists>j < n. j \<noteq> i \<and> issuer j = subject i)"
  by (auto simp: issues_other_def)

lemma leaf_of_names:
  "filter (\<lambda>i. \<not> issues_other (map (\<lambda>j. (subject j, issuer j)) [0..<n]) i) [0..<n] = [i] \<longleftrightarrow>
     i < n \<and> (\<forall>j < n. j \<noteq> i \<longrightarrow> issuer j \<noteq> subject i)
     \<and> (\<forall>k < n. k \<noteq> i \<longrightarrow> (\<exists>j < n. j \<noteq> k \<and> issuer j = subject k))"
proof -
  have "(i < n \<and> \<not> issues_other (map (\<lambda>j. (subject j, issuer j)) [0..<n]) i
      \<and> (\<forall>k < n. \<not> issues_other (map (\<lambda>j. (subject j, issuer j)) [0..<n]) k \<longrightarrow> k = i))
    \<longleftrightarrow> (i < n \<and> \<not> (\<exists>j < n. j \<noteq> i \<and> issuer j = subject i)
      \<and> (\<forall>k < n. \<not> (\<exists>j < n. j \<noteq> k \<and> issuer j = subject k) \<longrightarrow> k = i))"
    by (simp add: issues_other_map cong: conj_cong imp_cong)
  then show ?thesis unfolding leaf_filter by blast
qed

end
