(* ===== verification/KeyFile.thy ===== *)
theory KeyFile
  imports Pfx
begin

unbundle bit_operations_syntax

text \<open>
  Key files of \<^verbatim>\<open>crates/ckman-core/src/keys/mod.rs\<close>: the order in which \<^verbatim>\<open>parse_private_key\<close> tries
  the encodings, public keys, and their comparison by value.  The last sections hold the
  properties of the key theories.
\<close>

section \<open>Private keys\<close>

text \<open>\<^verbatim>\<open>match f(..) { Err(KeyError::Encoding) => next, other => other }\<close>\<close>

definition or_next :: "key_error + 'a \<Rightarrow> key_error + 'a \<Rightarrow> key_error + 'a" where
  "or_next first next = (if first = Err KeyEncoding then next else first)"

definition parse_private_key :: "pfx_lib \<Rightarrow> byte list \<Rightarrow> byte list option \<Rightarrow> key_error + imported_key" where
  "parse_private_key lib input password =
     res_bind (pem_decode (kl_base64_decode (pl_keys lib)) input
       [lit ''PRIVATE KEY'', lit ''ENCRYPTED PRIVATE KEY'', lit ''RSA PRIVATE KEY'', lit ''EC PRIVATE KEY''])
       (\<lambda>(label, der).
     if label = lit ''ENCRYPTED PRIVATE KEY'' then decrypt_pkcs8 (pl_keys lib) der password
     else if label = lit ''RSA PRIVATE KEY'' then from_pkcs1 (pl_keys lib) der
     else if label = lit ''EC PRIVATE KEY'' then from_sec1 (pl_keys lib) der
     else or_next (from_pkcs8 (pl_keys lib) der)
       (or_next (decrypt_pkcs8 (pl_keys lib) der password)
         (or_next (or_next (from_pkcs1 (pl_keys lib) der) (from_sec1 (pl_keys lib) der))
           (key_from_pfx lib der password))))"

section \<open>Public keys\<close>

record imported_public_key =
  ip_algorithm :: algorithm
  ip_spki_der :: "byte list"

definition leading_zeros :: "byte \<Rightarrow> nat" where
  "leading_zeros b = length (takeWhile (\<lambda>i. \<not> bit b i) (rev [0..<8]))"

text \<open>The bytes of an \<^verbatim>\<open>UintRef\<close> are not empty, so the subtraction does not underflow.\<close>

definition modulus_bits :: "byte list \<Rightarrow> nat" where
  "modulus_bits modulus =
     length modulus * 8 - (case modulus of [] \<Rightarrow> 8 | b # _ \<Rightarrow> leading_zeros b)"

definition pkcs1_public :: "keys_lib \<Rightarrow> byte list \<Rightarrow> key_error + imported_public_key" where
  "pkcs1_public lib der =
     res_bind (ok_or KeyEncoding (rsa_public_from_der lib der)) (\<lambda>key.
     res_bind (map_err (\<lambda>_. KeyEncoding) (bit_string (kl_x509 lib) der)) (\<lambda>bits.
     res_bind (map_err (\<lambda>_. KeyEncoding) (spki_to_der (kl_x509 lib)
         \<lparr>spki_algorithm = \<lparr>ai_oid = RSA_OID, ai_parameters = Some any_null\<rparr>, spki_key = bits\<rparr>)) (\<lambda>spki_der.
     res_bind (rsa_algorithm (modulus_bits (rp_modulus key))) (\<lambda>a.
     Ok \<lparr>ip_algorithm = a, ip_spki_der = spki_der\<rparr>))))"

definition spki_public_algorithm :: "keys_lib \<Rightarrow> spki_info \<Rightarrow> key_error + algorithm" where
  "spki_public_algorithm lib info =
    (let oid = ai_oid (spki_algorithm info) in
     if oid = RSA_OID then
       res_bind (ok_or KeyEncoding (spki_key info)) (\<lambda>bits.
       res_bind (ok_or KeyEncoding (rsa_public_from_der lib bits)) (\<lambda>key.
       rsa_algorithm (modulus_bits (rp_modulus key))))
     else if oid = EC_OID then
       res_bind (ok_or KeyEncoding (Option.bind (ai_parameters (spki_algorithm info)) (any_as_oid lib))) curve_algorithm
     else res_bind (seed_algorithm oid) (\<lambda>(a, _). Ok a))"

definition parse_public_key_encoding :: "keys_lib \<Rightarrow> byte list \<Rightarrow> key_error + imported_public_key" where
  "parse_public_key_encoding lib input =
     res_bind (pem_decode (kl_base64_decode lib) input [lit ''PUBLIC KEY'', lit ''RSA PUBLIC KEY'']) (\<lambda>(label, der).
     if label = lit ''RSA PUBLIC KEY'' \<or> (label = [] \<and> rsa_public_from_der lib der \<noteq> None)
     then pkcs1_public lib der
     else res_bind (map_err (\<lambda>_. KeyEncoding) (spki_from_der (kl_x509 lib) der)) (\<lambda>info.
     res_bind (spki_public_algorithm lib info) (\<lambda>a.
     Ok \<lparr>ip_algorithm = a, ip_spki_der = der\<rparr>)))"

text \<open>The usable RSA keys: odd modulus and exponent, exponent at least 3\<close>

definition rsa_usable :: "rsa_public_key \<Rightarrow> bool" where
  "rsa_usable rsa \<longleftrightarrow> rp_modulus rsa \<noteq> [] \<and> last (rp_modulus rsa) AND 1 \<noteq> 0
     \<and> rp_exponent rsa \<noteq> [] \<and> last (rp_exponent rsa) AND 1 \<noteq> 0
     \<and> \<not> (length (rp_exponent rsa) = 1 \<and> rp_exponent rsa ! 0 < 3)"

definition raw_width :: "algorithm \<Rightarrow> key_error + nat" where
  "raw_width a = (case a of Ed25519 \<Rightarrow> Ok 32 | X25519 \<Rightarrow> Ok 32 | MlDsa65 \<Rightarrow> Ok 1952 | MlKem768 \<Rightarrow> Ok 1184
    | _ \<Rightarrow> Err KeyUnsupported)"

definition canonical_spki_fields :: "keys_lib \<Rightarrow> algorithm \<Rightarrow> byte list \<Rightarrow> key_error + public_key" where
  "canonical_spki_fields lib a spki_der =
     res_bind (map_err (\<lambda>_. KeyEncoding) (spki_from_der (kl_x509 lib) spki_der)) (\<lambda>info.
     res_bind (ok_or KeyEncoding (spki_key info)) (\<lambda>bytes.
     if is_rsa a then
       if ai_parameters (spki_algorithm info) \<noteq> None \<and> ai_parameters (spki_algorithm info) \<noteq> Some any_null
       then Err KeyEncoding
       else res_bind (ok_or KeyEncoding (rsa_public_from_der lib bytes)) (\<lambda>rsa.
         if \<not> rsa_usable rsa then Err KeyEncoding
         else Ok (PkRsa a (rp_modulus rsa) (rp_exponent rsa)))
     else if is_ec a then
       res_bind (ok_or KeyEncoding (ec_point_from_sec1 lib a bytes)) (\<lambda>point.
       Ok (PkEc a (ec_point_uncompressed lib a point)))
     else res_bind (raw_width a) (\<lambda>width.
       if ai_parameters (spki_algorithm info) \<noteq> None \<or> length bytes \<noteq> width then Err KeyEncoding
       else Ok (PkRaw a bytes))))"

definition parse_public_key :: "keys_lib \<Rightarrow> byte list \<Rightarrow> key_error + imported_public_key" where
  "parse_public_key lib input =
     res_bind (parse_public_key_encoding lib input) (\<lambda>parsed.
     res_bind (canonical_spki_fields lib (ip_algorithm parsed) (ip_spki_der parsed)) (\<lambda>_. Ok parsed))"

definition canonical_public_key :: "keys_lib \<Rightarrow> byte list \<Rightarrow> key_error + public_key" where
  "canonical_public_key lib input =
     res_bind (parse_public_key_encoding lib input) (\<lambda>parsed.
     canonical_spki_fields lib (ip_algorithm parsed) (ip_spki_der parsed))"

definition public_keys_equal :: "keys_lib \<Rightarrow> byte list \<Rightarrow> byte list \<Rightarrow> key_error + bool" where
  "public_keys_equal lib left right =
     res_bind (canonical_public_key lib left) (\<lambda>l.
     res_bind (canonical_public_key lib right) (\<lambda>r. Ok (l = r)))"

section \<open>What a public key file denotes\<close>

text \<open>
  The specification: \<open>spells lib input info\<close> relates a file to the key information it carries, and
  \<open>key_value lib info v\<close> that information to the key as a mathematical value.
\<close>

inductive spells :: "keys_lib \<Rightarrow> byte list \<Rightarrow> spki_info \<Rightarrow> bool" where
  spells_pkcs1: "pem_decode (kl_base64_decode lib) input [lit ''PUBLIC KEY'', lit ''RSA PUBLIC KEY''] = Ok (label, der)
    \<Longrightarrow> label = lit ''RSA PUBLIC KEY'' \<or> label = [] \<Longrightarrow> rsa_public_from_der lib der = Some rsa
    \<Longrightarrow> spells lib input \<lparr>spki_algorithm = \<lparr>ai_oid = RSA_OID, ai_parameters = Some any_null\<rparr>, spki_key = Some der\<rparr>"
| spells_spki: "pem_decode (kl_base64_decode lib) input [lit ''PUBLIC KEY'', lit ''RSA PUBLIC KEY''] = Ok (label, der)
    \<Longrightarrow> label \<noteq> lit ''RSA PUBLIC KEY'' \<Longrightarrow> label \<noteq> [] \<or> rsa_public_from_der lib der = None
    \<Longrightarrow> spki_from_der (kl_x509 lib) der = Ok info \<Longrightarrow> spells lib input info"

inductive key_value :: "keys_lib \<Rightarrow> spki_info \<Rightarrow> public_key \<Rightarrow> bool" where
  value_rsa: "ai_oid (spki_algorithm info) = RSA_OID
    \<Longrightarrow> ai_parameters (spki_algorithm info) = None \<or> ai_parameters (spki_algorithm info) = Some any_null
    \<Longrightarrow> spki_key info = Some bytes \<Longrightarrow> rsa_public_from_der lib bytes = Some rsa \<Longrightarrow> rsa_usable rsa
    \<Longrightarrow> rsa_algorithm (modulus_bits (rp_modulus rsa)) = Ok a
    \<Longrightarrow> key_value lib info (PkRsa a (rp_modulus rsa) (rp_exponent rsa))"
| value_ec: "ai_oid (spki_algorithm info) = EC_OID \<Longrightarrow> ai_parameters (spki_algorithm info) = Some p
    \<Longrightarrow> any_as_oid lib p = Some curve \<Longrightarrow> curve_algorithm curve = Ok a
    \<Longrightarrow> spki_key info = Some bytes \<Longrightarrow> ec_point_from_sec1 lib a bytes = Some point
    \<Longrightarrow> key_value lib info (PkEc a (ec_point_uncompressed lib a point))"
| value_raw: "seed_algorithm (ai_oid (spki_algorithm info)) = Ok (a, n)
    \<Longrightarrow> ai_parameters (spki_algorithm info) = None \<Longrightarrow> spki_key info = Some bytes
    \<Longrightarrow> raw_width a = Ok (length bytes) \<Longrightarrow> key_value lib info (PkRaw a bytes)"

inductive_simps key_value_iff: "key_value lib info v"
inductive_simps spells_iff: "spells lib input info"

text \<open>What the code relies on of the DER crates: a bit string of whole bytes is its bytes, and
  written key information reads back.\<close>

definition spki_laws :: "keys_lib \<Rightarrow> bool" where
  "spki_laws lib \<longleftrightarrow> (\<forall>der. bit_string (kl_x509 lib) der = Ok (Some der))
     \<and> (\<forall>info der. spki_to_der (kl_x509 lib) info = Ok der \<longrightarrow> spki_from_der (kl_x509 lib) der = Ok info)
     \<and> (\<forall>der. \<exists>out. spki_to_der (kl_x509 lib)
          \<lparr>spki_algorithm = \<lparr>ai_oid = RSA_OID, ai_parameters = Some any_null\<rparr>, spki_key = Some der\<rparr> = Ok out)"

lemma rsa_algorithm_is_rsa: "rsa_algorithm n = Ok a \<Longrightarrow> is_rsa a"
  by (auto simp: rsa_algorithm_def is_rsa_def split: if_splits)

lemma is_ec_not_rsa: "is_ec a \<Longrightarrow> \<not> is_rsa a"
  by (auto simp: is_ec_def is_rsa_def)

lemma seed_algorithm_raw: "seed_algorithm oid = Ok (a, n) \<Longrightarrow> \<not> is_rsa a \<and> \<not> is_ec a"
  by (auto simp: seed_algorithm_def is_ec_def is_rsa_def split: if_splits)

lemma key_oids: "RSA_OID \<noteq> EC_OID" "seed_algorithm RSA_OID = Err KeyUnsupported" "seed_algorithm EC_OID = Err KeyUnsupported"
  by (simp_all add: RSA_OID_def EC_OID_def seed_algorithm_def lit_def)

lemma null_parameters: "(p \<noteq> None \<and> p \<noteq> Some any_null) \<longleftrightarrow> \<not> (p = None \<or> p = Some any_null)"
  by simp

text \<open>Reading and reducing the fields of one key information\<close>

lemma fields_value:
  "(\<exists>a. spki_public_algorithm lib info = Ok a
      \<and> res_bind (ok_or KeyEncoding (spki_key info)) (\<lambda>bytes.
        if is_rsa a then
          if ai_parameters (spki_algorithm info) \<noteq> None \<and> ai_parameters (spki_algorithm info) \<noteq> Some any_null
          then Err KeyEncoding
          else res_bind (ok_or KeyEncoding (rsa_public_from_der lib bytes)) (\<lambda>rsa.
            if \<not> rsa_usable rsa then Err KeyEncoding else Ok (PkRsa a (rp_modulus rsa) (rp_exponent rsa)))
        else if is_ec a then
          res_bind (ok_or KeyEncoding (ec_point_from_sec1 lib a bytes)) (\<lambda>point. Ok (PkEc a (ec_point_uncompressed lib a point)))
        else res_bind (raw_width a) (\<lambda>width.
          if ai_parameters (spki_algorithm info) \<noteq> None \<or> length bytes \<noteq> width then Err KeyEncoding
          else Ok (PkRaw a bytes))) = Ok v)
    \<longleftrightarrow> key_value lib info v"
proof -
  consider (rsa) "ai_oid (spki_algorithm info) = RSA_OID" | (ec) "ai_oid (spki_algorithm info) = EC_OID"
    | (raw) "ai_oid (spki_algorithm info) \<noteq> RSA_OID" "ai_oid (spki_algorithm info) \<noteq> EC_OID" by blast
  then show ?thesis
  proof cases
    case rsa
    then show ?thesis
      by (auto simp: key_value_iff spki_public_algorithm_def key_oids res_bind_Ok_iff ok_or_Ok_iff null_parameters
          dest: rsa_algorithm_is_rsa split: if_splits)
  next
    case ec
    then show ?thesis
      by (auto simp: key_value_iff spki_public_algorithm_def key_oids key_oids(1) [symmetric] res_bind_Ok_iff ok_or_Ok_iff bind_eq_Some_conv
          dest: curve_algorithm_ec is_ec_not_rsa split: if_splits)
  next
    case raw
    then show ?thesis
      by (auto simp: key_value_iff spki_public_algorithm_def res_bind_Ok_iff ok_or_Ok_iff
          dest: seed_algorithm_raw split: if_splits)
  qed
qed


lemma canonical_value:
  assumes "spki_laws lib"
  shows "canonical_public_key lib input = Ok v \<longleftrightarrow> (\<exists>info. spells lib input info \<and> key_value lib info v)"
proof (cases "pem_decode (kl_base64_decode lib) input [lit ''PUBLIC KEY'', lit ''RSA PUBLIC KEY'']")
  case (Inl e)
  then show ?thesis by (simp add: canonical_public_key_def parse_public_key_encoding_def spells_iff)
next
  case (Inr r)
  obtain label der where r: "r = (label, der)" by (cases r)
  show ?thesis
  proof (cases "label = lit ''RSA PUBLIC KEY'' \<or> (label = [] \<and> rsa_public_from_der lib der \<noteq> None)")
    case True
    define wrap where "wrap = \<lparr>spki_algorithm = \<lparr>ai_oid = RSA_OID, ai_parameters = Some any_null\<rparr>, spki_key = Some der\<rparr>"
    obtain out where out: "spki_to_der (kl_x509 lib) wrap = Ok out" "spki_from_der (kl_x509 lib) out = Ok wrap"
      using assms unfolding spki_laws_def wrap_def by blast
    have bits: "bit_string (kl_x509 lib) der = Ok (Some der)" using assms by (simp add: spki_laws_def)
    have sp: "spells lib input info \<longleftrightarrow> rsa_public_from_der lib der \<noteq> None \<and> info = wrap" for info
      using Inr r True unfolding spells_iff wrap_def by auto
    have "canonical_public_key lib input = res_bind (pkcs1_public lib der) (\<lambda>p.
        canonical_spki_fields lib (ip_algorithm p) (ip_spki_der p))"
      using Inr r True by (auto simp: canonical_public_key_def parse_public_key_encoding_def)
    also have "\<dots> = Ok v \<longleftrightarrow> rsa_public_from_der lib der \<noteq> None \<and> (\<exists>a. spki_public_algorithm lib wrap = Ok a
        \<and> canonical_spki_fields lib a out = Ok v)"
      using bits out(1) by (auto simp: pkcs1_public_def spki_public_algorithm_def wrap_def [symmetric] res_bind_Ok_iff ok_or_Ok_iff)
        (auto simp: wrap_def)
    also have "\<dots> \<longleftrightarrow> rsa_public_from_der lib der \<noteq> None \<and> key_value lib wrap v"
      unfolding fields_value [symmetric] canonical_spki_fields_def out(2) by simp
    finally show ?thesis by (auto simp: sp)
  next
    case False
    have sp: "spells lib input info \<longleftrightarrow> spki_from_der (kl_x509 lib) der = Ok info" for info
      using Inr r False unfolding spells_iff by auto
    have "canonical_public_key lib input = Ok v \<longleftrightarrow> (\<exists>info. spki_from_der (kl_x509 lib) der = Ok info
        \<and> (\<exists>a. spki_public_algorithm lib info = Ok a \<and> canonical_spki_fields lib a der = Ok v))"
      using Inr r False by (auto simp: canonical_public_key_def parse_public_key_encoding_def res_bind_Ok_iff map_err_Ok_iff)
    also have "\<dots> \<longleftrightarrow> (\<exists>info. spki_from_der (kl_x509 lib) der = Ok info \<and> key_value lib info v)"
    proof -
      have "(\<exists>a. spki_public_algorithm lib info = Ok a \<and> canonical_spki_fields lib a der = Ok v) \<longleftrightarrow> key_value lib info v"
        if "spki_from_der (kl_x509 lib) der = Ok info" for info
        unfolding fields_value [symmetric] canonical_spki_fields_def that by simp
      then show ?thesis by blast
    qed
    finally show ?thesis by (simp add: sp)
  qed
qed

section \<open>Accepted keys\<close>

lemma or_next_Ok: "or_next x y = Ok k \<Longrightarrow> x = Ok k \<or> y = Ok k"
  by (auto simp: or_next_def split: if_splits)

lemma bag_key_ok: "bag_key lib password bag = Ok k \<Longrightarrow> key_ok (pl_keys lib) k"
  by (auto simp: bag_key_def key_bag_def shrouded_key_bag_def res_bind_Ok_iff dest: from_pkcs8_key_ok split: if_splits)

lemma first_key_ok: "first_key lib password bags (Some k) \<Longrightarrow> key_ok (pl_keys lib) k"
  by (auto simp: first_key_def dest: bag_key_ok split: list.splits)

lemma parse_pfx_holds:
  assumes "parse_pfx lib input password = Ok data"
  shows "\<exists>pfx auth_safe infos bagss. pfx_from_der lib input = Some pfx \<and> px_version pfx = 3
    \<and> any_as_octets lib (ci_content (px_auth_safe pfx)) = Some auth_safe
    \<and> (\<forall>mac. px_mac_data pfx = Some mac \<longrightarrow> verify_mac lib mac auth_safe password = Ok ())
    \<and> infos_from_der lib auth_safe = Some infos \<and> list_all2 (opens_as lib password) infos bagss
    \<and> first_key lib password (concat bagss) (pd_key data)
    \<and> bag_certificates lib (concat bagss) (pd_certificates data)"
proof -
  from assms obtain pfx auth_safe infos where p: "pfx_from_der lib input = Some pfx" "px_version pfx = 3"
    "any_as_octets lib (ci_content (px_auth_safe pfx)) = Some auth_safe"
    "(case px_mac_data pfx of None \<Rightarrow> Ok () | Some mac \<Rightarrow> verify_mac lib mac auth_safe password) = Ok ()"
    "infos_from_der lib auth_safe = Some infos"
    and c: "collect_infos lib password infos \<lparr>pd_key = None, pd_certificates = []\<rparr> = Ok data"
    by (auto simp: parse_pfx_def res_bind_Ok_iff ok_or_Ok_iff split: if_splits)
  from collect_infos_loop [OF c] obtain bagss where b: "list_all2 (opens_as lib password) infos bagss"
    and l: "collect_loop lib password (concat bagss) \<lparr>pd_key = None, pd_certificates = []\<rparr> = Ok data" by blast
  from collect_loop_holds [OF l] have "first_key lib password (concat bagss) (pd_key data)
    \<and> bag_certificates lib (concat bagss) (pd_certificates data)" by auto
  with p b show ?thesis by (intro exI conjI) auto
qed

lemma key_from_pfx_key_ok:
  assumes "key_from_pfx lib input password = Ok k"
  shows "key_ok (pl_keys lib) k"
proof -
  from assms obtain data where d: "parse_pfx lib input password = Ok data" "pd_key data = Some k"
    by (auto simp: key_from_pfx_def res_bind_Ok_iff ok_or_Ok_iff)
  from parse_pfx_holds [OF d(1)] d(2) show ?thesis by (auto intro: first_key_ok)
qed

lemma parse_private_key_ok:
  assumes "parse_private_key lib input password = Ok k"
  shows "key_ok (pl_keys lib) k"
proof -
  from assms obtain der where "decrypt_pkcs8 (pl_keys lib) der password = Ok k \<or> from_pkcs1 (pl_keys lib) der = Ok k
    \<or> from_sec1 (pl_keys lib) der = Ok k \<or> from_pkcs8 (pl_keys lib) der = Ok k \<or> key_from_pfx lib der password = Ok k"
    by (auto simp: parse_private_key_def res_bind_Ok_iff split: if_splits dest!: or_next_Ok)
  then show ?thesis
    by (auto simp: from_sec1_def intro: decrypt_pkcs8_key_ok from_pkcs1_key_ok from_ec_private_key_ok
        from_pkcs8_key_ok key_from_pfx_key_ok)
qed

text \<open>What the code relies on of libcanokey's constructors: seeds of their width are accepted.\<close>

definition import_laws :: "keys_lib \<Rightarrow> bool" where
  "import_laws lib \<longleftrightarrow> (\<forall>bytes.
     (length bytes = 32 \<longrightarrow> pm_ed25519_seed lib bytes \<noteq> None \<and> pm_x25519_key lib bytes \<noteq> None \<and> pm_mldsa65_seed lib bytes \<noteq> None)
     \<and> (length bytes = 64 \<longrightarrow> pm_mlkem768_seed lib bytes \<noteq> None))"

lemma rsa_key_ok_rsa: "rsa_key_ok lib k key \<Longrightarrow> \<exists>e p q dp dq qinv. ik_material k = MatRsa e p q dp dq qinv"
  by (auto simp: rsa_key_ok_def)

lemma ok_or_is_ok [simp]: "is_ok (ok_or e x) \<longleftrightarrow> x \<noteq> None"
  by (cases x) simp_all

lemma scalar_imports:
  assumes "key_ok lib k" and "import_laws lib" and "ik_material k = MatEc bytes"
  shows "is_ok (piv_material lib k) \<and> is_ok (openpgp_key k)"
proof -
  from assms(1,3) consider "is_ec (ik_algorithm k)" "pm_ec_scalar lib (ik_algorithm k) bytes \<noteq> None"
    | "seed_width (ik_algorithm k) = Some (length bytes)"
    unfolding key_ok_def using rsa_key_ok_rsa by fastforce
  then show ?thesis
  proof cases
    case 1
    with assms(3) show ?thesis by (auto simp: piv_material_def openpgp_key_def is_ec_def)
  next
    case 2
    with assms(2,3) show ?thesis
      by (cases "ik_algorithm k") (auto simp: piv_material_def openpgp_key_def seed_width_def import_laws_def)
  qed
qed

lemma exponent_65537:
  assumes "big_laws lib" and "rsa_key_ok lib k key"
  shows "mr_exponent (ik_material k) = [0, 1, 0, 1] \<longleftrightarrow> rk_e key = 65537"
proof -
  have "mr_exponent (ik_material k) = replicate (4 - length (to_bytes_be lib (rk_e key))) 0 @ to_bytes_be lib (rk_e key)"
    and "length (to_bytes_be lib (rk_e key)) \<le> 4" using assms(2) by (auto simp: rsa_key_ok_def)
  then have "pad_left (to_bytes_be lib (rk_e key)) 4 = Ok (mr_exponent (ik_material k))" by (simp add: pad_left_def)
  then have "length (mr_exponent (ik_material k)) = 4 \<and> be_nat (mr_exponent (ik_material k)) = rk_e key"
    using pad_left_number [OF assms(1), of 4 "rk_e key"] by simp
  then show ?thesis using be_nat_inject [of "mr_exponent (ik_material k)" "[0, 1, 0, 1]"] by auto
qed

text \<open>What becomes of an RSA key: PIV takes its canonical numbers and one exponent only, OpenPGP takes
  any numbers that fit the fields.\<close>

lemma rsa_imports:
  assumes "big_laws lib" and "rsa_key_ok lib k key"
  shows "\<exists>e p q qinv w. rk_primes key = [p, q] \<and> rk_crt_coefficient key = Some qinv
    \<and> half_width (ik_algorithm k) = Ok w \<and> length e = 4 \<and> be_nat e = rk_e key
    \<and> (let ns = [p, q, rk_d key mod (p - 1), rk_d key mod (q - 1), qinv] in
        ik_material k = (case map (to_bytes_be lib) ns of [bp, bq, dp, dq, bi] \<Rightarrow> MatRsa e bp bq dp dq bi)
        \<and> piv_material lib k = (if rk_e key = 65537
          then ok_or KeyEncoding (pm_rsa_crt lib (ik_algorithm k) (map (to_bytes_be lib) ns)) else Err KeyRsaExponent)
        \<and> (if \<forall>n \<in> set ns. n < 256 ^ w then is_ok (openpgp_key k) else openpgp_key k = Err KeyEncoding))"
proof -
  define e where "e = replicate (4 - length (to_bytes_be lib (rk_e key))) 0 @ to_bytes_be lib (rk_e key)"
  from assms(2) obtain p q qinv where primes: "rk_primes key = [p, q]" "rk_crt_coefficient key = Some qinv"
    and m: "ik_material k = MatRsa e (to_bytes_be lib p) (to_bytes_be lib q)
      (to_bytes_be lib (rk_d key mod (p - 1))) (to_bytes_be lib (rk_d key mod (q - 1))) (to_bytes_be lib qinv)"
    by (auto simp: rsa_key_ok_def e_def)
  from assms(2) have "is_rsa (ik_algorithm k)" by (auto simp: rsa_key_ok_def dest: rsa_algorithm_is_rsa)
  then obtain w where w: "half_width (ik_algorithm k) = Ok w" "0 < w" by (auto simp: is_rsa_def half_width_def)
  have "pad_left (to_bytes_be lib (rk_e key)) 4 = Ok e"
    using assms(2) by (simp add: rsa_key_ok_def pad_left_def e_def)
  then have e: "length e = 4" "be_nat e = rk_e key" using pad_left_number [OF assms(1), of 4 "rk_e key"] by simp_all
  have "piv_material lib k = (if rk_e key = 65537 then ok_or KeyEncoding (pm_rsa_crt lib (ik_algorithm k)
      (map (to_bytes_be lib) [p, q, rk_d key mod (p - 1), rk_d key mod (q - 1), qinv])) else Err KeyRsaExponent)"
    using exponent_65537 [OF assms] m by (auto simp: piv_material_def)
  moreover have "if \<forall>n \<in> set [p, q, rk_d key mod (p - 1), rk_d key mod (q - 1), qinv]. n < 256 ^ w
      then is_ok (openpgp_key k) else openpgp_key k = Err KeyEncoding"
    using w(1) m by (simp add: openpgp_key_def pad_left_is_ok [OF assms(1) w(2)])
  ultimately show ?thesis using primes w(1) e m unfolding Let_def
    by (intro exI [of _ e] exI [of _ p] exI [of _ q] exI [of _ qinv] exI [of _ w]) simp
qed

section \<open>A small library\<close>

text \<open>Instances of the parameters for the witnesses: real numbers and widths, and encodings that are
  one tag byte before the content.\<close>

definition sample_rsa :: rsa_private_key where
  "sample_rsa = \<lparr>rk_n = 3233, rk_e = 17, rk_d = 413, rk_primes = [61, 53], rk_crt_coefficient = Some 38\<rparr>"

definition sample_rsa_f4 :: rsa_private_key where
  "sample_rsa_f4 = sample_rsa\<lparr>rk_e := 65537\<rparr>"

definition sample_wrap :: "byte list \<Rightarrow> spki_info" where
  "sample_wrap der = \<lparr>spki_algorithm = \<lparr>ai_oid = RSA_OID, ai_parameters = Some any_null\<rparr>, spki_key = Some der\<rparr>"

definition sample_keys :: keys_lib where
  "sample_keys = \<lparr>
     kl_x509 = sample_x509\<lparr>
       spki_to_der := (\<lambda>info. case spki_key info of Some der \<Rightarrow>
         if info = sample_wrap der then Ok (0x30 # der) else Err ''no DER'' | None \<Rightarrow> Err ''no DER''),
       spki_from_der := (\<lambda>bs. case bs of t # der \<Rightarrow> if t = 0x30 then Ok (sample_wrap der) else Err ''no DER''
         | [] \<Rightarrow> Err ''no DER'')\<rparr>,
     kl_base64_decode = Some,
     pm_rsa_crt = (\<lambda>_ _. Some (PrivateMaterial 1)),
     pm_ed25519_seed = (\<lambda>bs. if length bs = 32 then Some (PrivateMaterial 2) else None),
     pm_x25519_key = (\<lambda>bs. if length bs = 32 then Some (PrivateMaterial 3) else None),
     pm_mldsa65_seed = (\<lambda>bs. if length bs = 32 then Some (PrivateMaterial 4) else None),
     pm_mlkem768_seed = (\<lambda>bs. if length bs = 64 then Some (PrivateMaterial 5) else None),
     pm_ec_scalar = (\<lambda>_ bs. if length bs = 32 then Some (PrivateMaterial 6) else None),
     to_bytes_be = min_bytes, big_bits = (\<lambda>_. 1024),
     rsa_from_pkcs1_der = (\<lambda>bs. if bs = [0x31] then Some sample_rsa else if bs = [0x32] then Some sample_rsa_f4 else None),
     rsa_to_pkcs1_der = (\<lambda>key. Some (if rk_e key = 17 then [0x31] else [0x32])),
     rsa_public_from_der = (\<lambda>bs. if bs = [2] then Some \<lparr>rp_modulus = replicate 128 0x81, rp_exponent = [3]\<rparr> else None),
     ec_private_from_der = (\<lambda>_. None),
     private_info_from_der = (\<lambda>bs. case bs of t # seed \<Rightarrow> if t = 0x30
       then Some \<lparr>pki_algorithm = \<lparr>ai_oid = Oid (lit ''1.3.101.112''), ai_parameters = None\<rparr>,
         pki_private_key = seed, pki_public_key = None\<rparr> else None | [] \<Rightarrow> None),
     encrypted_info_from_der = (\<lambda>_. None), octets_from_der = (\<lambda>_. None), pq_both_from_der = (\<lambda>_. None),
     any_as_oid = (\<lambda>_. None), pbes2_decrypt = (\<lambda>_ _ _. None), x25519_base = id, ed25519_base = id,
     ec_point_of_scalar = (\<lambda>_ _. None), ec_point_from_sec1 = (\<lambda>_ _. None), ec_point_uncompressed = (\<lambda>_ _. []),
     ml_dsa_keygen = (\<lambda>s. (s, s)), ml_kem_keygen = (\<lambda>d z. (d, z))\<rparr>"

lemma sample_keys_laws: "big_laws sample_keys" "import_laws sample_keys" "spki_laws sample_keys"
proof -
  show "big_laws sample_keys"
    using min_bytes_value by (auto simp: big_laws_def sample_keys_def min_bytes.simps [of 0])
  show "import_laws sample_keys" by (simp add: import_laws_def sample_keys_def)
  show "spki_laws sample_keys"
    by (auto simp: spki_laws_def sample_keys_def sample_x509_def sample_wrap_def split: option.splits if_splits)
qed

definition sample_rsa_key :: imported_key where
  "sample_rsa_key = \<lparr>ik_algorithm = Rsa1024, ik_material = MatRsa [0, 0, 0, 17] [61] [53] [53] [49] [38]\<rparr>"

definition sample_rsa_key_f4 :: imported_key where
  "sample_rsa_key_f4 = sample_rsa_key\<lparr>ik_material := MatRsa [0, 1, 0, 1] [61] [53] [53] [49] [38]\<rparr>"

text \<open>A bundle with one content holding an Ed25519 key bag and a certificate bag.\<close>

definition sample_octet_string :: "byte list \<Rightarrow> der_any" where
  "sample_octet_string = DerAny TAG_OCTET_STRING"

definition sample_bags :: "safe_bag list" where
  "sample_bags =
     [\<lparr>sb_id = OID_CERT_BAG, sb_value = sample_octet_string [0xaa], sb_attributes = None\<rparr>,
      \<lparr>sb_id = OID_KEY_BAG, sb_value = sample_octet_string (0x30 # replicate 32 7), sb_attributes = None\<rparr>]"

definition sample_pfx :: pfx_lib where
  "sample_pfx = \<lparr>
     pl_keys = sample_keys\<lparr>kl_x509 := (kl_x509 sample_keys)
       \<lparr>sha256 := (\<lambda>_. replicate 32 1), sha384 := (\<lambda>_. replicate 48 1), sha512 := (\<lambda>_. replicate 64 1)\<rparr>\<rparr>,
     pl_sha1 = (\<lambda>_. replicate 20 1),
     pl_hmac_verify = (\<lambda>h key bytes expected. expected = bytes),
     pfx_from_der = (\<lambda>bs. if bs = [0x55] then Some \<lparr>px_version = 3,
       px_auth_safe = \<lparr>ci_type = OID_DATA, ci_content = sample_octet_string [1]\<rparr>, px_mac_data = None\<rparr> else None),
     infos_from_der = (\<lambda>bs. if bs = [1] then Some [\<lparr>ci_type = OID_DATA, ci_content = sample_octet_string [2]\<rparr>] else None),
     bags_from_der = (\<lambda>bs. if bs = [2] then Some sample_bags else None),
     any_to_der = (\<lambda>v. Some (any_value v)), any_as_octets = (\<lambda>v. Some (any_value v)),
     any_as_encrypted_data = (\<lambda>_. None), any_as_encrypted_key = (\<lambda>_. None),
     any_as_cert_bag = (\<lambda>v. Some \<lparr>cb_id = OID_X509_CERT, cb_value = v\<rparr>),
     scheme_from_identifier = (\<lambda>_. None), name_to_der = (\<lambda>_. None)\<rparr>"

lemma sample_pfx_digests: "digest_laws sample_pfx"
  unfolding digest_laws_def
proof (intro allI)
  show "length (mac_digest_of sample_pfx h x) = mac_out_len h" for h x
    by (cases h) (simp_all add: mac_digest_of_def mac_out_len_def sample_pfx_def)
qed

section \<open>Properties\<close>

text \<open>C26. Whatever file and password a private key was read from, it is a curve or seed key that both the
  PIV and the OpenPGP import accept, or the RSA key of a canonical encoding, held as the canonical
  numbers of its primes, reduced exponents and coefficient.  The PIV import refuses such an RSA key exactly when its exponent is not 65537 or libcanokey refuses its
  canonical numbers; the OpenPGP import refuses it exactly when a number is wider than half the modulus.\<close>

theorem accepted_key_imports:
  assumes "parse_private_key lib input password = Ok k"
    and "big_laws (pl_keys lib)" and "import_laws (pl_keys lib)"
  shows "(\<exists>bytes. ik_material k = MatEc bytes \<and> is_ok (piv_material (pl_keys lib) k) \<and> is_ok (openpgp_key k))
    \<or> (\<exists>key der e p q qinv w. rsa_from_pkcs1_der (pl_keys lib) der = Some key
        \<and> rsa_to_pkcs1_der (pl_keys lib) key = Some der
        \<and> rsa_algorithm (big_bits (pl_keys lib) (rk_n key)) = Ok (ik_algorithm k)
        \<and> rk_primes key = [p, q] \<and> rk_crt_coefficient key = Some qinv
        \<and> half_width (ik_algorithm k) = Ok w \<and> length e = 4 \<and> be_nat e = rk_e key
        \<and> (let ns = [p, q, rk_d key mod (p - 1), rk_d key mod (q - 1), qinv] in
            ik_material k = (case map (to_bytes_be (pl_keys lib)) ns of [bp, bq, dp, dq, bi] \<Rightarrow> MatRsa e bp bq dp dq bi)
            \<and> piv_material (pl_keys lib) k = (if rk_e key = 65537
              then ok_or KeyEncoding (pm_rsa_crt (pl_keys lib) (ik_algorithm k) (map (to_bytes_be (pl_keys lib)) ns))
              else Err KeyRsaExponent)
            \<and> (if \<forall>n \<in> set ns. n < 256 ^ w then is_ok (openpgp_key k) else openpgp_key k = Err KeyEncoding)))"
proof -
  have ok: "key_ok (pl_keys lib) k" by (rule parse_private_key_ok [OF assms(1)])
  show ?thesis
  proof (cases "ik_material k")
    case (MatEc bytes)
    with scalar_imports [OF ok assms(3) this] show ?thesis by blast
  next
    case (MatRsa e p q dp dq qinv)
    with ok obtain key der where "rsa_from_pkcs1_der (pl_keys lib) der = Some key"
      "rsa_to_pkcs1_der (pl_keys lib) key = Some der" and key: "rsa_key_ok (pl_keys lib) k key"
      by (auto simp: key_ok_def)
    moreover from key have "rsa_algorithm (big_bits (pl_keys lib) (rk_n key)) = Ok (ik_algorithm k)"
      by (simp add: rsa_key_ok_def)
    ultimately show ?thesis using rsa_imports [OF assms(2) key] by blast
  qed
qed

lemma sample_rsa_imported:
  "rsa_imported (pl_keys sample_pfx) sample_rsa = Ok sample_rsa_key"
  "rsa_imported (pl_keys sample_pfx) sample_rsa_f4 = Ok sample_rsa_key_f4"
proof -
  have b: "min_bytes 17 = [17]" "min_bytes 61 = [61]" "min_bytes 53 = [53]" "min_bytes 49 = [49]" "min_bytes 38 = [38]"
    "replicate 3 (0 :: byte) = [0, 0, 0]"
    by code_simp+
  have f4: "min_bytes 65537 = [1, 0, 1]" by (simp add: min_bytes.simps)
  show "rsa_imported (pl_keys sample_pfx) sample_rsa = Ok sample_rsa_key"
    "rsa_imported (pl_keys sample_pfx) sample_rsa_f4 = Ok sample_rsa_key_f4"
    by (simp_all add: rsa_imported_def rsa_algorithm_def rsa_material_def exponent_bytes_def sample_pfx_def sample_keys_def
        sample_rsa_def sample_rsa_f4_def sample_rsa_key_def sample_rsa_key_f4_def ok_or_def Let_def b f4)
qed

lemma sample_not_pkcs8:
  "from_pkcs8 (pl_keys sample_pfx) [0x31] = Err KeyEncoding" "from_pkcs8 (pl_keys sample_pfx) [0x32] = Err KeyEncoding"
  "decrypt_pkcs8 (pl_keys sample_pfx) [0x31] None = Err KeyEncoding"
  "decrypt_pkcs8 (pl_keys sample_pfx) [0x32] None = Err KeyEncoding"
  by code_simp+

lemma sample_pem:
  "pem_decode (kl_base64_decode (pl_keys sample_pfx)) [0x31]
     [lit ''PRIVATE KEY'', lit ''ENCRYPTED PRIVATE KEY'', lit ''RSA PRIVATE KEY'', lit ''EC PRIVATE KEY''] = Ok ([], [0x31])"
  "pem_decode (kl_base64_decode (pl_keys sample_pfx)) [0x32]
     [lit ''PRIVATE KEY'', lit ''ENCRYPTED PRIVATE KEY'', lit ''RSA PRIVATE KEY'', lit ''EC PRIVATE KEY''] = Ok ([], [0x32])"
  by code_simp+

lemma sample_pkcs1:
  "from_pkcs1 (pl_keys sample_pfx) [0x31] = Ok sample_rsa_key"
  "from_pkcs1 (pl_keys sample_pfx) [0x32] = Ok sample_rsa_key_f4"
proof -
  have "decode_rsa_private (pl_keys sample_pfx) [0x31] = Ok sample_rsa"
    "decode_rsa_private (pl_keys sample_pfx) [0x32] = Ok sample_rsa_f4"
    by (simp_all add: decode_rsa_private_Ok sample_pfx_def sample_keys_def sample_rsa_def sample_rsa_f4_def)
  then show "from_pkcs1 (pl_keys sample_pfx) [0x31] = Ok sample_rsa_key"
    "from_pkcs1 (pl_keys sample_pfx) [0x32] = Ok sample_rsa_key_f4"
    by (simp_all add: from_pkcs1_def sample_rsa_imported)
qed

lemma sample_private_key:
  "parse_private_key sample_pfx (0x30 # replicate 32 7) None
    = Ok \<lparr>ik_algorithm = Ed25519, ik_material = MatEc (replicate 32 7)\<rparr>"
  by code_simp

lemma sample_rsa_private_keys:
  "parse_private_key sample_pfx [0x31] None = Ok sample_rsa_key"
  "parse_private_key sample_pfx [0x32] None = Ok sample_rsa_key_f4"
proof -
  have labels: "lit ''ENCRYPTED PRIVATE KEY'' \<noteq> []" "lit ''RSA PRIVATE KEY'' \<noteq> []" "lit ''EC PRIVATE KEY'' \<noteq> []" by code_simp+
  show "parse_private_key sample_pfx [0x31] None = Ok sample_rsa_key"
    "parse_private_key sample_pfx [0x32] None = Ok sample_rsa_key_f4"
    using labels by (simp_all add: parse_private_key_def sample_pem sample_not_pkcs8 sample_pkcs1 or_next_def)
qed

lemma sample_pfx_laws: "big_laws (pl_keys sample_pfx)" "import_laws (pl_keys sample_pfx)"
  using sample_keys_laws by (simp_all add: sample_pfx_def big_laws_def import_laws_def)

text \<open>The seed key and both RSA keys: the one with exponent 17 goes to OpenPGP only.\<close>

theorem accepted_key_imports_witness:
  "is_ok (piv_material (pl_keys sample_pfx) \<lparr>ik_algorithm = Ed25519, ik_material = MatEc (replicate 32 7)\<rparr>)
   \<and> piv_material (pl_keys sample_pfx) sample_rsa_key = Err KeyRsaExponent \<and> is_ok (openpgp_key sample_rsa_key)
   \<and> is_ok (piv_material (pl_keys sample_pfx) sample_rsa_key_f4) \<and> is_ok (openpgp_key sample_rsa_key_f4)"
proof -
  have lib: "to_bytes_be (pl_keys sample_pfx) = min_bytes"
    "rsa_from_pkcs1_der (pl_keys sample_pfx) der = Some key \<Longrightarrow> key = sample_rsa \<or> key = sample_rsa_f4"
    "pm_rsa_crt (pl_keys sample_pfx) a bs = Some (PrivateMaterial 1)" for der key a bs
    by (auto simp: sample_pfx_def sample_keys_def split: if_splits)
  have rsa: "rk_primes sample_rsa = [61, 53]" "rk_primes sample_rsa_f4 = [61, 53]" "rk_d sample_rsa = 413" "rk_d sample_rsa_f4 = 413"
    "rk_crt_coefficient sample_rsa = Some 38" "rk_crt_coefficient sample_rsa_f4 = Some 38"
    by (simp_all add: sample_rsa_def sample_rsa_f4_def)
  have mats: "ik_material sample_rsa_key = MatRsa [0, 0, 0, 17] [61] [53] [53] [49] [38]"
    "ik_material sample_rsa_key_f4 = MatRsa [0, 1, 0, 1] [61] [53] [53] [49] [38]"
    "half_width (ik_algorithm sample_rsa_key) = Ok 64" "half_width (ik_algorithm sample_rsa_key_f4) = Ok 64"
    by (auto simp: half_width_def sample_rsa_key_def sample_rsa_key_f4_def)
  from accepted_key_imports [OF sample_rsa_private_keys(1) sample_pfx_laws] lib(2) mats rsa
  have "piv_material (pl_keys sample_pfx) sample_rsa_key = Err KeyRsaExponent \<and> is_ok (openpgp_key sample_rsa_key)"
    by (fastforce simp: lib(1) Let_def)
  moreover from accepted_key_imports [OF sample_rsa_private_keys(2) sample_pfx_laws] lib(2) mats rsa
  have "is_ok (piv_material (pl_keys sample_pfx) sample_rsa_key_f4) \<and> is_ok (openpgp_key sample_rsa_key_f4)"
    by (fastforce simp: lib(1,3) Let_def)
  ultimately show ?thesis
    using accepted_key_imports [OF sample_private_key sample_pfx_laws] by auto
qed

text \<open>The OpenPGP import form carries the key's own numbers: every RSA component has exactly the
  half-modulus width and denotes its prime, coefficient or exponent, the public exponent four bytes,
  and import succeeds exactly when the numbers fit; an X25519 scalar becomes the big-endian bytes of
  the RFC 7748 clamped number.\<close>

theorem openpgp_import_values:
  assumes "big_laws lib" and "rsa_key_ok lib k key" and "half_width (ik_algorithm k) = Ok w"
    and "rk_primes key = [p, q]" and "rk_crt_coefficient key = Some qinv" and "length s = 32"
  shows "(openpgp_key k = Ok og \<longleftrightarrow>
       og = OpenPgpRsa (og_exponent og) (og_p og) (og_q og) (og_q_inverse og) (og_d_p og) (og_d_q og)
       \<and> length (og_exponent og) = 4 \<and> be_nat (og_exponent og) = rk_e key
       \<and> (\<forall>bytes \<in> set (og_numbers og). length bytes = w)
       \<and> map be_nat (og_numbers og) = [p, q, qinv, rk_d key mod (p - 1), rk_d key mod (q - 1)])
    \<and> openpgp_key \<lparr>ik_algorithm = X25519, ik_material = MatEc s\<rparr> = Ok (OpenPgpEc (card_scalar s))
    \<and> length (card_scalar s) = 32 \<and> be_nat (card_scalar s) = clamp_scalar (be_nat (rev s))"
  using openpgp_rsa_values [OF assms(1-5)] card_scalar_value [OF assms(6)] assms(6)
  by (simp add: openpgp_key_def)

theorem openpgp_import_values_witness:
  "openpgp_key sample_rsa_key = Ok (OpenPgpRsa [0, 0, 0, 17] (replicate 63 0 @ [61]) (replicate 63 0 @ [53])
    (replicate 63 0 @ [38]) (replicate 63 0 @ [53]) (replicate 63 0 @ [49]))"
proof -
  have b: "min_bytes 17 = [17]" "min_bytes 61 = [61]" "min_bytes 53 = [53]" "min_bytes 49 = [49]"
    "min_bytes 38 = [38]" "replicate 3 (0 :: byte) = [0, 0, 0]" by code_simp+
  have k: "rsa_key_ok sample_keys sample_rsa_key sample_rsa"
    by (simp add: rsa_key_ok_def sample_rsa_key_def sample_rsa_def sample_keys_def rsa_algorithm_def b)
  have w: "half_width (ik_algorithm sample_rsa_key) = Ok 64" by (simp add: half_width_def sample_rsa_key_def)
  have n: "rk_primes sample_rsa = [61, 53]" "rk_crt_coefficient sample_rsa = Some 38" by (simp_all add: sample_rsa_def)
  show ?thesis
    using openpgp_import_values [OF sample_keys_laws(1) k w n, where s = "replicate 32 0" and og =
        "OpenPgpRsa [0, 0, 0, 17] (replicate 63 0 @ [61]) (replicate 63 0 @ [53]) (replicate 63 0 @ [38])
          (replicate 63 0 @ [53]) (replicate 63 0 @ [49])", THEN conjunct1]
    by (simp add: og_numbers_def sample_rsa_def)
qed

text \<open>C27. The PKCS\#12 key derivation computes RFC 7292: with the blocks as numbers, each round adds the
  stretched digest plus one modulo the block size, exactly as many rounds run as the output needs, and
  the output has the length that was asked for.\<close>

theorem kdf_rfc7292:
  assumes "digest_laws lib"
  shows "(let v = mac_block_len h; out = kdf (mac_digest_of lib h) v diversifier bmp salt r n in
    out = take n (concat (rfc_digests (mac_digest_of lib h) v (replicate v diversifier) r
      (rounds_needed (mac_out_len h) n 0) (kdf_blocks v salt bmp)))
    \<and> length out = n)"
proof -
  have u: "\<forall>x. length (mac_digest_of lib h x) = mac_out_len h" using assms by (simp add: digest_laws_def)
  show ?thesis
    unfolding Let_def kdf_def kdf_rounds_enough [OF u mac_lens_pos order.refl]
    using rounds_needed_enough [OF mac_lens_pos(1), of n h] by (simp add: length_rfc_digests [OF u])
qed

theorem kdf_rfc7292_witness:
  "length (kdf (mac_digest_of sample_pfx MacSha1) 64 3 [0, 0] [9] 2 45) = 45"
  using kdf_rfc7292 [OF sample_pfx_digests, of MacSha1 3 "[0, 0]" "[9]" 2 45, unfolded Let_def, THEN conjunct2]
  by (simp add: mac_block_len_def)

text \<open>C28. A bundle that parses has version 3 and a valid integrity check when it carries one, and holds
  exactly what its bags say: the key of the first key bag, and the X.509 certificates of all
  certificate bags of all contents, in file order.\<close>

theorem parse_pfx_contents:
  assumes "parse_pfx lib input password = Ok data"
  shows "\<exists>pfx auth_safe infos bagss. pfx_from_der lib input = Some pfx \<and> px_version pfx = 3
    \<and> any_as_octets lib (ci_content (px_auth_safe pfx)) = Some auth_safe
    \<and> (\<forall>mac. px_mac_data pfx = Some mac \<longrightarrow> verify_mac lib mac auth_safe password = Ok ())
    \<and> infos_from_der lib auth_safe = Some infos \<and> list_all2 (opens_as lib password) infos bagss
    \<and> first_key lib password (concat bagss) (pd_key data)
    \<and> bag_certificates lib (concat bagss) (pd_certificates data)"
  by (rule parse_pfx_holds [OF assms])

theorem parse_pfx_contents_witness:
  "\<exists>bagss. list_all2 (opens_as sample_pfx None) [\<lparr>ci_type = OID_DATA, ci_content = sample_octet_string [2]\<rparr>] bagss
    \<and> bag_certificates sample_pfx (concat bagss) [[0xaa]]"
proof -
  have "parse_pfx sample_pfx [0x55] None = Ok \<lparr>
      pd_key = Some \<lparr>ik_algorithm = Ed25519, ik_material = MatEc (replicate 32 7)\<rparr>, pd_certificates = [[0xaa]]\<rparr>"
    by code_simp
  from parse_pfx_contents [OF this] show ?thesis
    by (auto simp: sample_pfx_def sample_octet_string_def)
qed

text \<open>C29. The leaf of a bundle is chosen exactly when it is the only candidate: the single certificate, or,
  when every certificate and its two names can be read, the one whose subject no other certificate names
  as its issuer while every other certificate's subject is named so by some certificate but itself.\<close>

theorem leaf_certificate_unique:
  "leaf_certificate lib certificates = Ok i \<longleftrightarrow>
     (length certificates = 1 \<and> i = 0)
     \<or> (length certificates \<noteq> 1 \<and> (\<exists>subject issuer.
          (\<forall>j < length certificates. \<exists>c. cert_from_der (kl_x509 (pl_keys lib)) (certificates ! j) = Ok c
             \<and> name_to_der lib (tbs_subject (cert_tbs c)) = Some (subject j)
             \<and> name_to_der lib (tbs_issuer (cert_tbs c)) = Some (issuer j))
          \<and> i < length certificates
          \<and> (\<forall>j < length certificates. j \<noteq> i \<longrightarrow> issuer j \<noteq> subject i)
          \<and> (\<forall>k < length certificates. k \<noteq> i \<longrightarrow> (\<exists>j < length certificates. j \<noteq> k \<and> issuer j = subject k))))"
proof (cases "length certificates = 1")
  case False
  have single: "(case xs of [leaf] \<Rightarrow> Ok leaf | _ \<Rightarrow> Err KeyAmbiguousCertificates) = Ok i \<longleftrightarrow> xs = [i]" for xs
    by (auto split: list.splits)
  have "leaf_certificate lib certificates = Ok i
      \<longleftrightarrow> (\<exists>names. collect_names lib certificates = Ok names \<and> filter (\<lambda>i. \<not> issues_other names i) [0..<length names] = [i])"
    using False by (simp add: leaf_certificate_def res_bind_Ok_iff single)
  also have "\<dots> \<longleftrightarrow> (\<exists>subject issuer. (\<forall>j < length certificates.
        certificate_names lib (certificates ! j) = Ok (subject j, issuer j))
      \<and> i < length certificates
      \<and> (\<forall>j < length certificates. j \<noteq> i \<longrightarrow> issuer j \<noteq> subject i)
      \<and> (\<forall>k < length certificates. k \<noteq> i \<longrightarrow> (\<exists>j < length certificates. j \<noteq> k \<and> issuer j = subject k)))"
    unfolding collect_names_functions by (simp add: leaf_of_names)
  finally show ?thesis using False by (simp add: certificate_names_Ok)
qed (auto simp: leaf_certificate_def)

text \<open>Certificates that are two bytes, the names of their subject and issuer: a chain in any order, a
  self-issued leaf beside a cycle, and two unrelated certificates, where none is the leaf.\<close>

definition chain_certificate :: "byte \<Rightarrow> byte \<Rightarrow> certificate" where
  "chain_certificate subject issuer = (let a = \<lparr>ai_oid = Oid [], ai_parameters = None\<rparr> in
     \<lparr>cert_tbs = \<lparr>tbs_version = V3, tbs_serial = [1], tbs_signature = a,
        tbs_issuer = [[(Oid [], DerAny TagUtf8String [issuer])]],
        tbs_validity = \<lparr>not_before = UtcTime 0, not_after = UtcTime 1\<rparr>,
        tbs_subject = [[(Oid [], DerAny TagUtf8String [subject])]], tbs_spki = \<lparr>spki_algorithm = a, spki_key = None\<rparr>,
        tbs_issuer_uid = None, tbs_subject_uid = None, tbs_extensions = None\<rparr>,
      cert_algorithm = a, cert_signature = None\<rparr>)"

definition chain_pfx :: pfx_lib where
  "chain_pfx = sample_pfx\<lparr>
     pl_keys := (pl_keys sample_pfx)\<lparr>kl_x509 := (kl_x509 (pl_keys sample_pfx))
       \<lparr>cert_from_der := (\<lambda>der. if length der = 2 then Ok (chain_certificate (der ! 0) (der ! 1)) else Err ''no DER'')\<rparr>\<rparr>,
     name_to_der := (\<lambda>n. case n of [[(_, v)]] \<Rightarrow> Some (any_value v) | _ \<Rightarrow> None)\<rparr>"

theorem leaf_certificate_unique_witness:
  "leaf_certificate chain_pfx [[1, 1], [3, 2], [2, 1]] = Ok 1
   \<and> leaf_certificate chain_pfx [[1, 1], [2, 3], [3, 2]] = Ok 0
   \<and> (\<nexists>i. leaf_certificate chain_pfx [[1, 1], [2, 2]] = Ok i)"
proof -
  have names: "(\<exists>c. cert_from_der (kl_x509 (pl_keys chain_pfx)) [s, t] = Ok c
      \<and> name_to_der chain_pfx (tbs_subject (cert_tbs c)) = Some x
      \<and> name_to_der chain_pfx (tbs_issuer (cert_tbs c)) = Some y) \<longleftrightarrow> x = [s] \<and> y = [t]" for s t x y
    by (auto simp: chain_pfx_def chain_certificate_def Let_def)
  have three: "(\<forall>j < length [a, b, c]. P j) \<longleftrightarrow> P 0 \<and> P 1 \<and> P 2" "(\<exists>j < length [a, b, c]. P j) \<longleftrightarrow> P 0 \<or> P 1 \<or> P 2"
    for a b c :: "byte list" and P
    by (auto simp: less_Suc_eq numeral_2_eq_2)
  have two: "(\<forall>j < length [a, b]. P j) \<longleftrightarrow> P 0 \<and> P 1" "(\<exists>j < length [a, b]. P j) \<longleftrightarrow> P 0 \<or> P 1"
    for a b :: "byte list" and P
    by (auto simp: less_Suc_eq)
  have "leaf_certificate chain_pfx [[1, 1], [3, 2], [2, 1]] = Ok 1"
    unfolding leaf_certificate_unique three
    by (intro disjI2 conjI exI [of _ "\<lambda>j. [[1], [3], [2 :: byte]] ! j"] exI [of _ "\<lambda>j. [[1], [2], [1 :: byte]] ! j"])
      (simp_all add: names)
  moreover have "leaf_certificate chain_pfx [[1, 1], [2, 3], [3, 2]] = Ok 0"
    unfolding leaf_certificate_unique three
    by (intro disjI2 conjI exI [of _ "\<lambda>j. [[1], [2], [3 :: byte]] ! j"] exI [of _ "\<lambda>j. [[1], [3], [2 :: byte]] ! j"])
      (simp_all add: names)
  moreover have "leaf_certificate chain_pfx [[1, 1], [2, 2]] \<noteq> Ok i" for i
    unfolding leaf_certificate_unique two by (auto simp: names)
  ultimately show ?thesis by blast
qed

text \<open>Public keys are compared by value: two files compare exactly when each denotes a key, and they
  are equal exactly when the keys are, whatever encoding (PKCS\#1 or key information, compressed or
  uncompressed point) each one uses.\<close>

theorem public_keys_equal_by_value:
  assumes "spki_laws lib"
  shows "public_keys_equal lib left right = Ok b \<longleftrightarrow>
    (\<exists>i j x y. spells lib left i \<and> key_value lib i x \<and> spells lib right j \<and> key_value lib j y \<and> b = (x = y))"
  unfolding public_keys_equal_def by (auto simp: res_bind_Ok_iff canonical_value [OF assms])

theorem public_keys_equal_by_value_witness: "public_keys_equal sample_keys [2] [0x30, 2] = Ok True"
proof -
  let ?v = "PkRsa Rsa1024 (replicate 128 0x81) [3]"
  have "canonical_public_key sample_keys [2] = Ok ?v" "canonical_public_key sample_keys [0x30, 2] = Ok ?v"
    by code_simp+
  then obtain i j where "spells sample_keys [2] i" "key_value sample_keys i ?v"
    "spells sample_keys [0x30, 2] j" "key_value sample_keys j ?v"
    unfolding canonical_value [OF sample_keys_laws(3)] by blast
  then show ?thesis unfolding public_keys_equal_by_value [OF sample_keys_laws(3)] by blast
qed

end
