(* ===== verification/PivCli.thy ===== *)
theory PivCli
  imports PivSigning Pivman Cli Output KeyFile Admin
begin

unbundle bit_operations_syntax

text \<open>
  The PIV session of \<^verbatim>\<open>crates/ckman/src/commands/piv.rs\<close>: slot and key references, error messages,
  the resolution of the management key and the PIN, and the private-key commands.  The terminal,
  the files and libcanokey are the records of the theories it builds on; what the program only
  prints goes through \<open>piv_print\<close>.
\<close>

section \<open>Environment\<close>

record 'w piv_cli =
  pcl_cli :: "'w cli_env"
  pcl_piv :: "('w, io_error) piv_env"
  pcl_admin :: "('w, io_error) admin_env"
  pcl_fs :: "'w fs_env"
  pcl_keys :: pfx_lib
  pcl_attest :: attest_lib
  pcl_custom_random :: random_error
  pcl_read_file :: "path \<Rightarrow> ('w, io_error, byte list) proc"
  pcl_read_stdin :: "('w, io_error, byte list) proc"
  pcl_write_file :: "path \<Rightarrow> byte list \<Rightarrow> ('w, io_error, unit) proc"
  algorithm_from_wire_id :: "device_profile \<Rightarrow> u8 \<Rightarrow> algorithm option"
  retired_slot :: "u8 \<Rightarrow> slot option"
  certificate_from_object :: "byte list \<Rightarrow> nat \<Rightarrow> piv_certificate option"
  certificate_info :: "byte list \<Rightarrow> (byte list \<times> byte list) option"
  show_key_error :: "key_error \<Rightarrow> string"
  show_x509_error :: "x509_error \<Rightarrow> string"
  show_attestation_error :: "attestation_error \<Rightarrow> string"
  piv_print :: "byte list \<Rightarrow> 'w \<Rightarrow> 'w"

text \<open>The library over one connection, and its certificate hash functions.\<close>

definition piv_at :: "'w piv_cli \<Rightarrow> target \<Rightarrow> ('w, io_error) piv_env" where
  "piv_at env t = (pcl_piv env)\<lparr>env_exchange := conn_exchange (pcl_cli env) (tg_connection t)\<rparr>"

definition host_sha256 :: "'w piv_cli \<Rightarrow> byte list \<Rightarrow> byte list" where
  "host_sha256 env = hash_message (x509 (pcl_piv env)) HashSha256"

definition piv_println :: "'w piv_cli \<Rightarrow> byte list \<Rightarrow> ('w, message, unit) proc" where
  "piv_println env t = (\<lambda>w. Some (Ok (), piv_print env t w))"

definition piv_eprintln :: "'w piv_cli \<Rightarrow> byte list \<Rightarrow> ('w, message, unit) proc" where
  "piv_eprintln env t = (\<lambda>w. Some (Ok (), stderr_print (pcl_cli env) (t @ [0x0a]) w))"

section \<open>References\<close>

datatype key_reference = KeyRef slot | AttestationRef

definition key_certificate :: "key_reference \<Rightarrow> certificate_reference" where
  "key_certificate r = (case r of KeyRef s \<Rightarrow> CertKey s | AttestationRef \<Rightarrow> CertAttestation)"

definition slot_name :: "'w piv_cli \<Rightarrow> slot \<Rightarrow> byte list" where
  "slot_name env s = hex_text [slot_reference (pcl_attest env) s]"

definition certificate_slot_name :: "'w piv_cli \<Rightarrow> certificate_reference \<Rightarrow> byte list" where
  "certificate_slot_name env r = (case r of CertKey s \<Rightarrow> slot_name env s | CertAttestation \<Rightarrow> lit ''f9'')"

definition key_name :: "'w piv_cli \<Rightarrow> key_reference \<Rightarrow> byte list" where
  "key_name env r = certificate_slot_name env (key_certificate r)"

text \<open>\<^verbatim>\<open>u8::from_str_radix(text, 16)\<close>, which allows one leading plus sign\<close>

fun hex_digits_u8 :: "nat \<Rightarrow> byte list \<Rightarrow> u8 option" where
  "hex_digits_u8 acc [] = Some (word_of_nat acc)"
| "hex_digits_u8 acc (b # bs) = (case hex_val b of
     None \<Rightarrow> None
   | Some d \<Rightarrow> if acc * 16 + unat d < 256 then hex_digits_u8 (acc * 16 + unat d) bs else None)"

definition u8_from_hex :: "byte list \<Rightarrow> u8 option" where
  "u8_from_hex t =
    (let ds = (case t of b # bs \<Rightarrow> if b = 0x2b then bs else t | [] \<Rightarrow> t) in
     if ds = [] then None else hex_digits_u8 0 ds)"

definition parse_slot :: "'w piv_cli \<Rightarrow> byte list \<Rightarrow> message + slot" where
  "parse_slot env t =
    (let other = map ascii_lower t in
     if other = lit ''9a'' then Ok Authentication
     else if other = lit ''9c'' then Ok Signature
     else if other = lit ''9d'' then Ok KeyManagement
     else if other = lit ''9e'' then Ok CardAuthentication
     else res_bind (ok_or (lit ''invalid slot'') (u8_from_hex other)) (\<lambda>reference.
       if 0x82 \<le> reference \<and> reference \<le> 0x95
       then ok_or (lit ''invalid slot'') (retired_slot env (reference - 0x81))
       else Err (lit ''invalid slot (expected 9a, 9c, 9d, 9e, or 82-95)'')))"

definition is_attestation_name :: "byte list \<Rightarrow> bool" where
  "is_attestation_name t \<longleftrightarrow> map ascii_lower t \<in> {lit ''f9'', lit ''att'', lit ''attestation''}"

definition parse_certificate_slot :: "'w piv_cli \<Rightarrow> byte list \<Rightarrow> message + certificate_reference" where
  "parse_certificate_slot env t =
    (if is_attestation_name t then Ok CertAttestation
     else res_bind (parse_slot env t) (\<lambda>s. Ok (CertKey s)))"

definition parse_key_reference :: "'w piv_cli \<Rightarrow> byte list \<Rightarrow> message + key_reference" where
  "parse_key_reference env t =
    (if is_attestation_name t then Ok AttestationRef
     else res_bind (parse_slot env t) (\<lambda>s. Ok (KeyRef s)))"

definition parse_object_id :: "'w piv_cli \<Rightarrow> byte list \<Rightarrow> message + piv_object_id" where
  "parse_object_id env t =
     res_bind (ok_or (lit ''invalid hex object id'') (hex_decode t)) (\<lambda>bytes.
     map_err (\<lambda>_. lit ''invalid object id'') (object_id_from_bytes (host (pcl_piv env)) bytes))"

definition parse_identifier :: "nat \<Rightarrow> byte list \<Rightarrow> message + byte list" where
  "parse_identifier n t = (case hex_decode t of
     Some bytes \<Rightarrow> if length bytes = n then Ok bytes
       else Err (lit ''identifier must be exactly '' @ lit (show_nat (n * 2)) @ lit '' hex characters'')
   | None \<Rightarrow> Err (lit ''identifier must be exactly '' @ lit (show_nat (n * 2)) @ lit '' hex characters''))"

definition validate_key_provisioning :: "key_reference \<Rightarrow> algorithm \<Rightarrow> message + unit" where
  "validate_key_provisioning reference a =
    (if reference = AttestationRef \<and> a \<noteq> EccP256
     then Err (lit ''the F9 attestation key only supports P-256; use --algorithm ecc-p256'') else Ok ())"

section \<open>Messages\<close>

definition show_stage :: "update_stage \<Rightarrow> string" where
  "show_stage s = (case s of ReplaceKey \<Rightarrow> ''ReplaceKey'' | UpdateMetadata \<Rightarrow> ''UpdateMetadata''
    | StoreProtectedKey \<Rightarrow> ''StoreProtectedKey'' | ProtectPuk \<Rightarrow> ''ProtectPuk'')"

definition describe_piv_drive :: "'w piv_cli \<Rightarrow> io_error drive_error \<Rightarrow> message" where
  "describe_piv_drive env error = (case error of
     Transport e \<Rightarrow> lit (''transport exchange failed: '' @ io_message e)
   | Protocol e \<Rightarrow>
       if err_kind e = AuthenticationFailed then
         (if err_reference e = Some RefPin then (case err_retries e of
              Some n \<Rightarrow> lit (''incorrect PIN ('' @ show_nat n @ '' attempts remaining)'') | None \<Rightarrow> lit ''incorrect PIN'')
          else if err_reference e = Some RefPuk then (case err_retries e of
              Some n \<Rightarrow> lit (''incorrect PUK ('' @ show_nat n @ '' attempts remaining)'') | None \<Rightarrow> lit ''incorrect PUK'')
          else if err_reference e = Some RefManagementKey then lit ''incorrect management key''
          else lit ''authentication failed'')
       else if err_kind e = PinBlocked then
         (if err_reference e = Some RefPuk then lit ''the PUK is blocked'' else lit ''the PIN is blocked'')
       else if err_kind e = NotFound then lit ''not found on the device''
       else if err_kind e = CapabilityUnknown then lit ''unrecognized firmware; refusing to attempt the operation''
       else if err_kind e = UnsupportedFeature then lit ''this firmware does not support the operation''
       else if err_kind e = SecurityStatusNotSatisfied then lit ''the operation requires authentication''
       else if err_kind e = ConditionsNotSatisfied
       then lit ''the card refused the operation (conditions not satisfied)''
       else lit (''protocol error: '' @ show_lib_error (pcl_cli env) e))"

definition describe_piv :: "'w piv_cli \<Rightarrow> io_error piv_error \<Rightarrow> message" where
  "describe_piv env error = (case error of
     PivRandom e \<Rightarrow> lit (''failed to generate randomness: '' @ show_random (pcl_fs env) e)
   | PivManagementKeyUpdate stage source \<Rightarrow>
       lit (''management key replacement may already have committed (stage '' @ show_stage stage @ ''): '')
       @ describe_piv_drive env source
   | PivX509 e \<Rightarrow> lit (show_x509_error env e)
   | PivKey e \<Rightarrow> lit (show_key_error env e)
   | PivAttestation e \<Rightarrow> lit (show_attestation_error env e)
   | PivDrive e \<Rightarrow> describe_piv_drive env e)"

section \<open>Sessions\<close>

text \<open>\<^verbatim>\<open>PivSession\<close> holds the connected target.\<close>

definition piv_connect :: "'w piv_cli \<Rightarrow> u32 option \<Rightarrow> byte list option \<Rightarrow> ('w, message, target) proc" where
  "piv_connect env device reader =
     proc_bind (pcsc_result (pcl_cli env) (pc_establish (pcl_cli env))) (\<lambda>_.
     single_target (pcl_cli env) device reader)"

type_synonym ('w, 'a) piv_operation = "('w, io_error) piv_env \<Rightarrow> device_profile \<Rightarrow> ('w, io_error piv_error, 'a) proc"

definition piv_run_typed :: "'w piv_cli \<Rightarrow> target \<Rightarrow> ('w, 'a) piv_operation \<Rightarrow> ('w, io_error piv_error, 'a) proc" where
  "piv_run_typed env t operation = operation (piv_at env t) (tg_profile t)"

definition piv_session_run :: "'w piv_cli \<Rightarrow> target \<Rightarrow> ('w, 'a) piv_operation \<Rightarrow> ('w, message, 'a) proc" where
  "piv_session_run env t operation = proc_map_err (describe_piv env) (piv_run_typed env t operation)"

definition is_capability_gate :: "'e piv_error \<Rightarrow> bool" where
  "is_capability_gate error = (case error of
     PivDrive (Protocol e) \<Rightarrow> err_kind e = UnsupportedFeature \<or> err_kind e = CapabilityUnknown | _ \<Rightarrow> False)"

definition management_metadata :: "('w, metadata) piv_operation" where
  "management_metadata env profile = read_metadata env profile MetadataManagement AccessNone"

definition management_algorithm_of :: "'w piv_cli \<Rightarrow> target \<Rightarrow> ('w, message, management_algorithm) proc" where
  "management_algorithm_of env t = proc_try (piv_run_typed env t management_metadata) (\<lambda>r. case r of
     Ok m \<Rightarrow>
       if mf_algorithm_id (metadata_fields_of m) = Some 3 then ret Tdes
       else if mf_algorithm_id (metadata_fields_of m) = Some 10 then ret Aes192
       else throw (lit ''unknown management key algorithm on the card'')
   | Err e \<Rightarrow> if is_capability_gate e then ret Tdes else throw (describe_piv env e))"

definition management_is_default :: "'w piv_cli \<Rightarrow> target \<Rightarrow> ('w, message, bool option) proc" where
  "management_is_default env t = proc_try (piv_run_typed env t management_metadata) (\<lambda>r. case r of
     Ok m \<Rightarrow> ret (case mf_is_default (metadata_fields_of m) of Some (Known b) \<Rightarrow> Some b | _ \<Rightarrow> None)
   | Err e \<Rightarrow> if is_capability_gate e then ret None else throw (describe_piv env e))"

definition resolve_pin_string :: "'w piv_cli \<Rightarrow> byte list option \<Rightarrow> byte list \<Rightarrow> ('w, message, byte list) proc" where
  "resolve_pin_string env pin prompt = (case pin of
     Some p \<Rightarrow> ret p
   | None \<Rightarrow> prompt_password (pcl_cli env) (prompt @ lit '': ''))"

definition pin_of_text :: "'w piv_cli \<Rightarrow> byte list \<Rightarrow> message + pin" where
  "pin_of_text env t = map_err (\<lambda>_. lit ''PIN must be 6-8 characters'') (pin_from_bytes (host (pcl_piv env)) t)"

definition resolve_pin :: "'w piv_cli \<Rightarrow> byte list option \<Rightarrow> byte list \<Rightarrow> ('w, message, pin) proc" where
  "resolve_pin env pin prompt =
     proc_bind (resolve_pin_string env pin prompt) (\<lambda>p. lift_res (pin_of_text env p))"

section \<open>The management key\<close>

record resolved_management =
  rm_key :: management_key
  rm_pin :: "pin option"

definition resolved_access :: "('w, io_error) piv_env \<Rightarrow> random_error \<Rightarrow> resolved_management \<Rightarrow> ('w, io_error piv_error, access) proc" where
  "resolved_access penv custom m =
     proc_map_err PivRandom (proc_bind (mutual_auth penv custom (rm_key m)) (\<lambda>a. ret (AccessManagement a)))"

definition pin_and_management :: "('w, io_error) piv_env \<Rightarrow> random_error \<Rightarrow> resolved_management \<Rightarrow> pin
    \<Rightarrow> ('w, io_error piv_error, access) proc" where
  "pin_and_management penv custom m pin =
     proc_map_err PivRandom (proc_bind (mutual_auth penv custom (rm_key m)) (\<lambda>a. ret (AccessPinAndManagement pin a)))"

text \<open>A key given as text: hexadecimal, of the card's algorithm\<close>

definition management_key_of_text :: "'w piv_cli \<Rightarrow> target \<Rightarrow> byte list \<Rightarrow> ('w, message, management_key) proc" where
  "management_key_of_text env t hex =
     proc_bind (lift_res (ok_or (lit ''management key must be hex-encoded'') (hex_decode hex))) (\<lambda>bytes.
     proc_bind (management_algorithm_of env t) (\<lambda>a.
     lift_res (map_err (\<lambda>_. lit ''management key must be 24 bytes (48 hex characters)'')
       (management_key_from_bytes (host (pcl_piv env)) a bytes))))"

definition stored_management :: "'w piv_cli \<Rightarrow> target \<Rightarrow> pivman_data \<Rightarrow> byte list option \<Rightarrow> bool
    \<Rightarrow> ('w, message, resolved_management) proc" where
  "stored_management env t pivman pin complete_protection =
     proc_bind (resolve_pin env pin (lit ''Enter PIN (to unlock the stored management key)'')) (\<lambda>pin.
     proc_bind (if complete_protection \<and> \<not> puk_blocked pivman
       then proc_bind (piv_session_run env t (\<lambda>penv profile. read_pivman_protected penv profile (AccessPin pin))) (\<lambda>protected.
         lift_res (ok_or (lit ''PIN-protected management key is missing'') protected))
       else piv_session_run env t (\<lambda>penv profile. if complete_protection
         then complete_pin_managed_key penv profile pin else pin_managed_key penv profile pin)) (\<lambda>key_bytes.
     proc_bind (management_algorithm_of env t) (\<lambda>a.
     proc_bind (lift_res (map_err (\<lambda>_. lit ''stored management key has an unexpected length'')
       (management_key_from_bytes (host (pcl_piv env)) a key_bytes))) (\<lambda>key.
     ret \<lparr>rm_key = key, rm_pin = Some pin\<rparr>))))"

text \<open>\<^verbatim>\<open>pivman.salt.expect(..)\<close> is the case that does not return.\<close>

definition derived_management :: "'w piv_cli \<Rightarrow> target \<Rightarrow> pivman_data \<Rightarrow> byte list option
    \<Rightarrow> ('w, message, resolved_management) proc" where
  "derived_management env t pivman pin =
     proc_bind (resolve_pin_string env pin (lit ''Enter PIN (the management key is derived from it)'')) (\<lambda>pin.
     proc_bind (unwrap (pd_salt pivman)) (\<lambda>salt.
     proc_bind (lift_res (map_err (\<lambda>_. lit ''derived management key is invalid'')
       (management_key_from_bytes (host (pcl_piv env)) Tdes (derive_management_key (piv_at env t) pin salt)))) (\<lambda>key.
     proc_bind (lift_res (pin_of_text env pin)) (\<lambda>pin.
     ret \<lparr>rm_key = key, rm_pin = Some pin\<rparr>))))"

definition prompted_management :: "'w piv_cli \<Rightarrow> target \<Rightarrow> ('w, message, resolved_management) proc" where
  "prompted_management env t =
     proc_bind (prompt_password (pcl_cli env) (lit ''Enter the management key [blank to use default key]: '')) (\<lambda>entered.
     proc_bind (if entered = []
       then proc_bind (management_algorithm_of env t) (\<lambda>a.
         proc_bind (unwrap (default_management_key (piv_at env t) a)) (\<lambda>key. ret (key, True)))
       else proc_bind (management_key_of_text env t entered) (\<lambda>key. ret (key, False))) (\<lambda>(key, default).
     proc_bind (if default then ret True
       else proc_bind (management_is_default env t) (\<lambda>d. ret (d = Some True))) (\<lambda>warn.
     proc_bind (if warn then piv_eprintln env (lit ''WARNING: Using default Management key!'') else ret ()) (\<lambda>_.
     ret \<lparr>rm_key = key, rm_pin = None\<rparr>))))"

definition resolve_management_protection :: "'w piv_cli \<Rightarrow> target \<Rightarrow> byte list option \<Rightarrow> byte list option \<Rightarrow> bool
    \<Rightarrow> ('w, message, resolved_management) proc" where
  "resolve_management_protection env t management_key pin complete_protection = (case management_key of
     Some hex \<Rightarrow> proc_bind (management_key_of_text env t hex) (\<lambda>key. ret \<lparr>rm_key = key, rm_pin = None\<rparr>)
   | None \<Rightarrow> proc_bind (piv_session_run env t read_pivman_data) (\<lambda>pivman.
       if has_stored_key pivman then stored_management env t pivman pin complete_protection
       else if has_derived_key pivman then derived_management env t pivman pin
       else prompted_management env t))"

definition resolve_management :: "'w piv_cli \<Rightarrow> target \<Rightarrow> byte list option \<Rightarrow> byte list option
    \<Rightarrow> ('w, message, resolved_management) proc" where
  "resolve_management env t management_key pin = resolve_management_protection env t management_key pin False"

section \<open>Files\<close>

definition read_input :: "'w piv_cli \<Rightarrow> path \<Rightarrow> ('w, message, byte list) proc" where
  "read_input env path =
    (if path = lit ''-'' then io_result (pcl_read_stdin env) else io_result (pcl_read_file env path))"

definition write_output :: "'w piv_cli \<Rightarrow> path \<Rightarrow> byte list \<Rightarrow> ('w, message, unit) proc" where
  "write_output env path bytes =
    (if path = lit ''-'' then write_stdout (pcl_fs env) bytes else io_result (pcl_write_file env path bytes))"

text \<open>
  A secret destination is prepared before anything else happens and dropped on every way out:
  \<open>produce\<close> computes the bytes, \<open>done\<close> runs after they were written.
\<close>

definition drop_secret :: "'w fs_env \<Rightarrow> secret_output \<Rightarrow> 'w \<Rightarrow> 'w option" where
  "drop_secret env out w = (case out of SecretStdout \<Rightarrow> Some w | SecretFile p \<Rightarrow> drop_prepared env p w)"

definition produce_secret :: "'w fs_env \<Rightarrow> path \<Rightarrow> ('w, message, byte list \<times> 'a) proc
    \<Rightarrow> ('a \<Rightarrow> ('w, message, unit) proc) \<Rightarrow> ('w, message, unit) proc" where
  "produce_secret env path produce finish = proc_bind (secret_new env path) (\<lambda>out w. case produce w of
     None \<Rightarrow> None
   | Some (Err e, w) \<Rightarrow> map_option (\<lambda>w. (Err e, w)) (drop_secret env out w)
   | Some (Ok (bytes, x), w) \<Rightarrow> (case secret_write env out bytes w of
       None \<Rightarrow> None
     | Some (r, out, w) \<Rightarrow> (case proc_bind (lift_res r) (\<lambda>_. finish x) w of
         None \<Rightarrow> None
       | Some (r, w) \<Rightarrow> map_option (\<lambda>w. (r, w)) (drop_secret env out w))))"

section \<open>Private-key operations\<close>

definition slot_algorithm :: "'w piv_cli \<Rightarrow> target \<Rightarrow> slot \<Rightarrow> ('w, message, algorithm) proc" where
  "slot_algorithm env t s =
     proc_bind (piv_session_run env t (\<lambda>penv profile. read_metadata penv profile (MetadataKey s) AccessNone)) (\<lambda>m.
     proc_bind (lift_res (ok_or (lit ''no key in this slot'') (mf_algorithm_id (metadata_fields_of m)))) (\<lambda>wire.
     lift_res (ok_or (lit ''unknown key algorithm (wire id 0x'' @ hex_text [wire] @ lit '')'')
       (algorithm_from_wire_id env (tg_profile t) wire))))"

definition needs_pin :: "'e piv_error \<Rightarrow> bool" where
  "needs_pin error = (case error of
     PivDrive (Protocol e) \<Rightarrow> err_kind e = SecurityStatusNotSatisfied | _ \<Rightarrow> False)"

definition run_with_pin :: "'w piv_cli \<Rightarrow> target \<Rightarrow> byte list option \<Rightarrow> (access \<Rightarrow> ('w, 'a) piv_operation)
    \<Rightarrow> ('w, message, 'a) proc" where
  "run_with_pin env t pin operation = proc_try (piv_run_typed env t (operation AccessNone)) (\<lambda>r. case r of
     Ok x \<Rightarrow> ret x
   | Err e \<Rightarrow>
       if needs_pin e
       then proc_bind (resolve_pin env pin (lit ''Enter PIN'')) (\<lambda>p. piv_session_run env t (operation (AccessPin p)))
       else throw (describe_piv env e))"

text \<open>The input that \<^verbatim>\<open>--raw\<close> signs\<close>

definition raw_input :: "algorithm \<Rightarrow> byte list \<Rightarrow> message + sign_input" where
  "raw_input a src =
    (if is_rsa a then Ok (RsaEncodedBlock src)
     else if a \<in> {EccP256, EccP384, EccP521, Secp256k1, Sm2} then Ok (SignDigest src)
     else if a = Ed25519 then Ok (SignMessage src)
     else if a = MlDsa65 then Err (lit ''--raw does not apply to ML-DSA-65; omit it to sign the message'')
     else Err (lit ''this algorithm cannot sign''))"

definition default_hash :: "hash_algorithm option \<Rightarrow> algorithm \<Rightarrow> hash_algorithm option" where
  "default_hash hash a = (case hash of
     Some h \<Rightarrow> Some h
   | None \<Rightarrow> if is_rsa a \<or> a \<in> {EccP256, EccP384, EccP521, Secp256k1} then Some HashSha256 else None)"

definition sign_command :: "'w piv_cli \<Rightarrow> u32 option \<Rightarrow> byte list option \<Rightarrow> slot \<Rightarrow> path \<Rightarrow> path
    \<Rightarrow> hash_algorithm option \<Rightarrow> bool \<Rightarrow> byte list option \<Rightarrow> ('w, message, unit) proc" where
  "sign_command env device reader s input output hash raw pin =
     proc_bind (read_input env input) (\<lambda>src.
     proc_bind (piv_connect env device reader) (\<lambda>t.
     proc_bind (slot_algorithm env t s) (\<lambda>a.
     proc_bind (if raw
       then proc_bind (lift_res (raw_input a src)) (\<lambda>signed.
         run_with_pin env t pin (\<lambda>access penv profile. sign penv profile s a signed access))
       else if hash \<noteq> None \<and> a \<in> {Sm2, Ed25519, MlDsa65}
       then throw (lit ''--hash applies to RSA/ECC only; this algorithm signs the message directly'')
       else run_with_pin env t pin (\<lambda>access penv profile. sign_message penv profile s a (default_hash hash a) src access))
       (\<lambda>signature.
     proc_bind (write_output env output signature) (\<lambda>_.
     piv_eprintln env (lit ''Signature written to '' @ output @ lit ''.''))))))"

definition decrypt_command :: "'w piv_cli \<Rightarrow> u32 option \<Rightarrow> byte list option \<Rightarrow> slot \<Rightarrow> path \<Rightarrow> path
    \<Rightarrow> byte list option \<Rightarrow> ('w, message, unit) proc" where
  "decrypt_command env device reader s input output pin =
     proc_bind (read_input env input) (\<lambda>ciphertext.
     produce_secret (pcl_fs env) output
       (proc_bind (piv_connect env device reader) (\<lambda>t.
        proc_bind (slot_algorithm env t s) (\<lambda>a.
        if \<not> is_rsa a then throw (lit ''decrypt requires an RSA key in the slot'')
        else proc_bind (run_with_pin env t pin (\<lambda>access penv profile. decrypt penv profile s a ciphertext access))
          (\<lambda>plaintext. ret (plaintext, ())))))
       (\<lambda>_. piv_eprintln env (lit ''Plaintext block written to '' @ output @ lit ''.'')))"

definition derive_command :: "'w piv_cli \<Rightarrow> u32 option \<Rightarrow> byte list option \<Rightarrow> slot \<Rightarrow> path \<Rightarrow> path
    \<Rightarrow> byte list option \<Rightarrow> ('w, message, unit) proc" where
  "derive_command env device reader s peer_public_key output pin =
     proc_bind (read_input env peer_public_key) (\<lambda>peer.
     produce_secret (pcl_fs env) output
       (proc_bind (piv_connect env device reader) (\<lambda>t.
        proc_bind (slot_algorithm env t s) (\<lambda>a.
        if a \<notin> {EccP256, EccP384, EccP521, Secp256k1, X25519}
        then throw (lit ''derive requires an ECC (ECDH) or X25519 key in the slot'')
        else proc_bind (run_with_pin env t pin (\<lambda>access penv profile. derive penv profile s a peer access))
          (\<lambda>secret. ret (secret, ())))))
       (\<lambda>_. piv_eprintln env (lit ''Shared secret written to '' @ output @ lit ''.'')))"

definition decapsulate_command :: "'w piv_cli \<Rightarrow> u32 option \<Rightarrow> byte list option \<Rightarrow> slot \<Rightarrow> path \<Rightarrow> path
    \<Rightarrow> byte list option \<Rightarrow> ('w, message, unit) proc" where
  "decapsulate_command env device reader s ciphertext_path output pin =
     proc_bind (read_input env ciphertext_path) (\<lambda>ciphertext.
     produce_secret (pcl_fs env) output
       (proc_bind (piv_connect env device reader) (\<lambda>t.
        proc_bind (slot_algorithm env t s) (\<lambda>a.
        if a \<noteq> MlKem768 then throw (lit ''decapsulate requires an ML-KEM-768 key in the slot'')
        else proc_bind (run_with_pin env t pin (\<lambda>access penv profile. decapsulate penv profile s ciphertext access))
          (\<lambda>secret. ret (secret, ())))))
       (\<lambda>_. piv_eprintln env (lit ''Shared secret written to '' @ output @ lit ''.'')))"

definition parse_party_id :: "byte list option \<Rightarrow> string \<Rightarrow> message + byte list option" where
  "parse_party_id t name = (case t of
     None \<Rightarrow> Ok None
   | Some t \<Rightarrow> res_bind (ok_or (lit (name @ '' must be hex-encoded'')) (hex_decode t)) (\<lambda>b. Ok (Some b)))"

definition agree_sm2_command :: "'w piv_cli \<Rightarrow> u32 option \<Rightarrow> byte list option \<Rightarrow> slot \<Rightarrow> path \<Rightarrow> path \<Rightarrow> path
    \<Rightarrow> sm2_role \<Rightarrow> nat \<Rightarrow> byte list option \<Rightarrow> byte list option \<Rightarrow> byte list option \<Rightarrow> ('w, message, unit) proc" where
  "agree_sm2_command env device reader s peer_static peer_ephemeral key_output role key_len user_id peer_id pin =
     proc_bind (read_input env peer_static) (\<lambda>static.
     proc_bind (read_input env peer_ephemeral) (\<lambda>ephemeral.
     proc_bind (lift_res (parse_party_id user_id ''--user-id'')) (\<lambda>user.
     proc_bind (lift_res (parse_party_id peer_id ''--peer-id'')) (\<lambda>peer.
     produce_secret (pcl_fs env) key_output
       (proc_bind (piv_connect env device reader) (\<lambda>t.
        proc_bind (slot_algorithm env t s) (\<lambda>a.
        if a \<noteq> Sm2 then throw (lit ''agree-sm2 requires an SM2 key in the slot'')
        else proc_bind (run_with_pin env t pin (\<lambda>access penv profile. agree_sm2 penv profile s
            \<lparr>si_role = role, si_peer_static = static, si_peer_ephemeral = ephemeral, si_user_id = user,
             si_peer_id = peer, si_key_len = key_len\<rparr> access))
          (\<lambda>agreement. ret (sa_key agreement, sa_ephemeral_public agreement)))))
       (\<lambda>ephemeral_public.
          proc_bind (piv_eprintln env (lit ''Own ephemeral public key: '' @ hex_text ephemeral_public)) (\<lambda>_.
          piv_eprintln env (lit ''Session key written to '' @ key_output @ lit ''.'')))))))"

definition random_command :: "'w piv_cli \<Rightarrow> u32 option \<Rightarrow> byte list option \<Rightarrow> nat \<Rightarrow> path option
    \<Rightarrow> ('w, message, unit) proc" where
  "random_command env device reader n output =
    (let produce = proc_bind (piv_connect env device reader) (\<lambda>t.
           piv_session_run env t (\<lambda>penv profile. random penv profile n))
     in case output of
       Some path \<Rightarrow> produce_secret (pcl_fs env) path (proc_bind produce (\<lambda>bytes. ret (bytes, ())))
         (\<lambda>_. piv_eprintln env (lit (show_nat n) @ lit '' random byte(s) written to '' @ path @ lit ''.''))
     | None \<Rightarrow> proc_bind produce (\<lambda>bytes. piv_println env (hex_text bytes)))"

definition logout_command :: "'w piv_cli \<Rightarrow> u32 option \<Rightarrow> byte list option \<Rightarrow> ('w, message, unit) proc" where
  "logout_command env device reader =
     proc_bind (piv_connect env device reader) (\<lambda>t.
     proc_bind (piv_session_run env t logout) (\<lambda>_.
     piv_println env (lit ''PIV PIN verification state cleared.'')))"

end
