(* ===== verification/PivOverwrite.thy ===== *)
theory PivOverwrite
  imports PivCli
begin

text \<open>
  Consent before a PIV slot is changed, \<^verbatim>\<open>crates/ckman/src/commands/piv/overwrite.rs\<close>: the key and the
  certificate of a slot are read, and unless both are known to be missing the user must agree.  A
  read that fails for another reason stops the command.
\<close>

section \<open>Code\<close>

datatype certificate_change = CertReplace | CertDelete

definition object_missing :: "'e piv_error \<Rightarrow> bool" where
  "object_missing error = (case error of
     PivDrive (Protocol e) \<Rightarrow> err_kind e = NotFound \<and> err_phase e = Some PhaseCommand | _ \<Rightarrow> False)"

definition object_unavailable :: "'e piv_error \<Rightarrow> bool" where
  "object_unavailable error = (case error of
     PivDrive (Protocol e) \<Rightarrow> err_kind e \<in> {UnsupportedFeature, CapabilityUnknown}
       \<and> err_phase e \<in> {Some PhaseConstruction, Some PhaseCommand} | _ \<Rightarrow> False)"

type_synonym 'w ask = "byte list \<Rightarrow> ('w, message, bool) proc"

definition approve :: "byte list \<Rightarrow> 'w ask \<Rightarrow> ('w, message, unit) proc" where
  "approve prompt ask =
     proc_bind (ask prompt) (\<lambda>yes. if yes then ret () else throw (lit ''Cancelled; no PIV data was changed.''))"

definition certificate_summary :: "'w piv_cli \<Rightarrow> byte list \<Rightarrow> byte list" where
  "certificate_summary env bytes = (case Option.bind (certificate_from_object env bytes (16 * 1024))
       (\<lambda>c. certificate_info env (piv_certificate_der c)) of
     Some (subject, fingerprint) \<Rightarrow>
       lit ''Subject: '' @ subject @ [0x0a] @ lit ''SHA-256: '' @ hex_text fingerprint
   | None \<Rightarrow>
       lit (''Unparseable certificate object ('' @ show_nat (length bytes) @ '' bytes); object SHA-256: '')
       @ hex_text (host_sha256 env bytes))"

definition key_fingerprint :: "'w piv_cli \<Rightarrow> metadata_fields \<Rightarrow> byte list" where
  "key_fingerprint env mf =
    (case Option.bind (mf_public_key mf) (public_key_spki (pcl_attest env)) of
       Some der \<Rightarrow> [0x0a] @ lit ''Existing public key SHA-256: '' @ hex_text (host_sha256 env der)
     | None \<Rightarrow> [])"

text \<open>What the metadata says of the slot's key: nothing there, or a sentence about it\<close>

definition key_status :: "'w piv_cli \<Rightarrow> key_reference \<Rightarrow> io_error piv_error + metadata_fields
    \<Rightarrow> message + byte list option" where
  "key_status env reference metadata = (case metadata of
     Ok mf \<Rightarrow>
       if mf_origin mf = Some (Known NotPresent) \<and> mf_public_key mf = None then Ok None
       else Ok (Some (lit ''Slot '' @ key_name env reference @ lit '' already contains a private key.''
         @ key_fingerprint env mf))
   | Err e \<Rightarrow>
       if object_missing e then Ok None
       else if reference \<noteq> AttestationRef \<and> object_unavailable e
       then Ok (Some (lit ''Cannot determine whether slot '' @ key_name env reference
         @ lit '' contains a private key on this firmware.''))
       else Err (describe_piv env e))"

definition certificate_status :: "'w piv_cli \<Rightarrow> io_error piv_error + byte list \<Rightarrow> message + byte list option" where
  "certificate_status env certificate = (case certificate of
     Ok bytes \<Rightarrow> Ok (Some (certificate_summary env bytes))
   | Err e \<Rightarrow> if object_missing e then Ok None else Err (describe_piv env e))"

definition key_prompt :: "'w piv_cli \<Rightarrow> key_reference \<Rightarrow> byte list option \<Rightarrow> byte list option \<Rightarrow> byte list" where
  "key_prompt env reference status certificate =
     (case status of Some t \<Rightarrow> t
      | None \<Rightarrow> lit ''Slot '' @ key_name env reference @ lit '' already contains a certificate.'')
     @ (case certificate of
          Some summary \<Rightarrow> [0x0a] @ lit ''Existing certificate (retained by this operation):'' @ [0x0a] @ summary
        | None \<Rightarrow> [])
     @ (if reference = AttestationRef
        then [0x0a] @ lit ''Replacing the F9 signer changes attestation identity and trust. The existing certificate will be retained and may no longer match.''
        else [])
     @ [0x0a] @ lit ''Replacing a private key is irreversible. A retained certificate may no longer match. Replace this slot's private key?''"

text \<open>The metadata of a reference, as \<^verbatim>\<open>overwrite::key\<close> and the export command read it\<close>

definition reference_metadata :: "key_reference \<Rightarrow> ('w, metadata_fields) piv_operation" where
  "reference_metadata reference penv profile = (case reference of
     KeyRef s \<Rightarrow> proc_bind (read_metadata penv profile (MetadataKey s) AccessNone) (\<lambda>m. ret (metadata_fields_of m))
   | AttestationRef \<Rightarrow> attestation_metadata penv profile)"

definition overwrite_key :: "'w piv_cli \<Rightarrow> ('w, io_error) piv_env \<Rightarrow> device_profile \<Rightarrow> key_reference \<Rightarrow> 'w ask
    \<Rightarrow> ('w, message, unit) proc" where
  "overwrite_key env penv profile reference ask =
     proc_try (reference_metadata reference penv profile) (\<lambda>metadata.
     proc_bind (lift_res (key_status env reference metadata)) (\<lambda>status.
     proc_try (read_certificate_object penv profile (key_certificate reference)) (\<lambda>certificate.
     proc_bind (lift_res (certificate_status env certificate)) (\<lambda>certificate.
     if status = None \<and> certificate = None then ret ()
     else approve (key_prompt env reference status certificate) ask))))"

fun overwrite_keys :: "'w piv_cli \<Rightarrow> ('w, io_error) piv_env \<Rightarrow> device_profile \<Rightarrow> slot list \<Rightarrow> 'w ask
    \<Rightarrow> ('w, message, unit) proc" where
  "overwrite_keys env penv profile [] ask = ret ()"
| "overwrite_keys env penv profile (s # ss) ask =
     proc_bind (overwrite_key env penv profile (KeyRef s) ask) (\<lambda>_. overwrite_keys env penv profile ss ask)"

definition certificate_prompt :: "'w piv_cli \<Rightarrow> certificate_reference \<Rightarrow> certificate_change \<Rightarrow> byte list \<Rightarrow> byte list" where
  "certificate_prompt env reference change existing =
     lit ''Slot '' @ certificate_slot_name env reference @ lit '' already contains a certificate.'' @ [0x0a]
     @ certificate_summary env existing
     @ (if reference = CertAttestation
        then [0x0a] @ lit ''Changing the F9 certificate affects attestation verification and trust.'' else [])
     @ [0x0a] @ lit (case change of CertReplace \<Rightarrow> ''Replace'' | CertDelete \<Rightarrow> ''Delete'') @ lit '' this certificate?''"

definition overwrite_certificate :: "'w piv_cli \<Rightarrow> ('w, io_error) piv_env \<Rightarrow> device_profile
    \<Rightarrow> certificate_reference \<Rightarrow> certificate_change \<Rightarrow> 'w ask \<Rightarrow> ('w, message, unit) proc" where
  "overwrite_certificate env penv profile reference change ask =
     proc_try (read_certificate_object penv profile reference) (\<lambda>existing. case existing of
       Ok bytes \<Rightarrow> approve (certificate_prompt env reference change bytes) ask
     | Err e \<Rightarrow> if object_missing e then ret () else throw (describe_piv env e))"

text \<open>\<^verbatim>\<open>PivSession::confirm__*\<close>: over the session's connection, asking on the terminal\<close>

definition confirm_key_replacement where
  "confirm_key_replacement env t reference =
     overwrite_key env (piv_at env t) (tg_profile t) reference (confirm (pcl_cli env))"

definition confirm_key_replacements where
  "confirm_key_replacements env t ss =
     overwrite_keys env (piv_at env t) (tg_profile t) ss (confirm (pcl_cli env))"

definition confirm_certificate_change where
  "confirm_certificate_change env t reference change =
     overwrite_certificate env (piv_at env t) (tg_profile t) reference change (confirm (pcl_cli env))"

section \<open>Consent\<close>

text \<open>
  What the steps let through, in the code's terms: \<open>vacant\<close> is what the reads say when nothing is
  there.  \<^verbatim>\<open>PivConsent\<close> states what the question tells without the code that words it.
\<close>

definition metadata_vacant :: "io_error piv_error + metadata_fields \<Rightarrow> bool" where
  "metadata_vacant r = (case r of
     Ok mf \<Rightarrow> mf_origin mf = Some (Known NotPresent) \<and> mf_public_key mf = None
   | Err e \<Rightarrow> object_missing e)"

definition certificate_vacant :: "io_error piv_error + byte list \<Rightarrow> bool" where
  "certificate_vacant r = (case r of Ok bytes \<Rightarrow> False | Err e \<Rightarrow> object_missing e)"

lemma object_not_both: "object_missing e \<Longrightarrow> \<not> object_unavailable e"
  by (auto simp: object_missing_def object_unavailable_def split: piv_error.splits drive_error.splits)

lemma key_status_None: "key_status env reference r = Ok None \<longleftrightarrow> metadata_vacant r"
  by (auto simp: key_status_def metadata_vacant_def split: sum.splits if_splits)

lemma certificate_status_None: "certificate_status env r = Ok None \<longleftrightarrow> certificate_vacant r"
  by (auto simp: certificate_status_def certificate_vacant_def split: sum.splits if_splits)

lemma approve_Ok: "approve prompt ask w = Some (Ok (), w') \<longleftrightarrow> ask prompt w = Some (Ok True, w')"
  by (auto simp: approve_def proc_bind_Some_Ok ret_run throw_run split: if_splits)

lemma overwrite_key_Ok:
  "overwrite_key env penv profile reference ask w = Some (Ok (), w') \<longleftrightarrow>
    (\<exists>m w1 status c w2 certificate.
       reference_metadata reference penv profile w = Some (m, w1) \<and> key_status env reference m = Ok status
     \<and> read_certificate_object penv profile (key_certificate reference) w1 = Some (c, w2)
     \<and> certificate_status env c = Ok certificate
     \<and> (if metadata_vacant m \<and> certificate_vacant c then w' = w2
        else ask (key_prompt env reference status certificate) w2 = Some (Ok True, w')))"
  unfolding overwrite_key_def proc_try_Some lift_bind_Some_Ok
  by (auto simp: approve_Ok ret_run key_status_None [symmetric, where env = env and reference = reference]
      certificate_status_None [symmetric, where env = env] split: if_splits)

lemma overwrite_certificate_Ok:
  "overwrite_certificate env penv profile reference change ask w = Some (Ok (), w') \<longleftrightarrow>
    (\<exists>c w1. read_certificate_object penv profile reference w = Some (c, w1)
     \<and> (case c of Ok existing \<Rightarrow> ask (certificate_prompt env reference change existing) w1 = Some (Ok True, w')
        | Err e \<Rightarrow> object_missing e \<and> w' = w1))"
proof -
  have "(case r of Ok bytes \<Rightarrow> approve (certificate_prompt env reference change bytes) ask
     | Err e \<Rightarrow> if object_missing e then ret () else throw (describe_piv env e)) w1 = Some (Ok (), w')
    \<longleftrightarrow> (case r of Ok existing \<Rightarrow> ask (certificate_prompt env reference change existing) w1 = Some (Ok True, w')
        | Err e \<Rightarrow> object_missing e \<and> w' = w1)" for r w1
    by (cases r) (auto simp: approve_Ok ret_run throw_run)
  then show ?thesis unfolding overwrite_certificate_def proc_try_Some by simp
qed

end
