(* ===== verification/PivRecovery.thy ===== *)
theory PivRecovery
  imports PivCli
begin

text \<open>
  The recovery file of a management-key replacement, \<^verbatim>\<open>crates/ckman/src/commands/piv_recovery.rs\<close>: the
  new key is on disk, under a name that was free, before the card is changed, and the file goes only
  after the replacement succeeded.
\<close>

section \<open>Code\<close>

record 'w recovery_env =
  rv_fs :: "'w fs_env"
  rv_current_dir :: "('w, io_error, path) proc"
  rv_open_directory :: "path \<Rightarrow> ('w, io_error, nat) proc"
  rv_debug :: "byte list \<Rightarrow> byte list"
  rv_eprintln :: "byte list \<Rightarrow> 'w \<Rightarrow> 'w"

definition sync_directory :: "'w recovery_env \<Rightarrow> path \<Rightarrow> ('w, io_error, unit) proc" where
  "sync_directory env path =
     proc_bind (rv_open_directory env path) (\<lambda>h.
     proc_try (sync_all (rv_fs env) h) (\<lambda>r w. Some (r, close_file (rv_fs env) h w)))"

definition show_bool :: "bool \<Rightarrow> string" where
  "show_bool b = (if b then ''true'' else ''false'')"

definition management_algorithm_name :: "management_algorithm \<Rightarrow> string" where
  "management_algorithm_name a = (case a of Tdes \<Rightarrow> ''tdes'' | _ \<Rightarrow> ''aes192'')"

record recovery_request =
  rq_path :: "path option"
  rq_serial :: "u32 option"
  rq_reader :: "byte list"
  rq_algorithm :: management_algorithm
  rq_key :: "byte list"
  rq_protect :: bool
  rq_touch :: bool

definition recovery_contents :: "'w recovery_env \<Rightarrow> recovery_request \<Rightarrow> byte list" where
  "recovery_contents env rq =
     lit ''CanoKey PIV management key recovery'' @ [0x0a]
     @ lit ''reader: '' @ rv_debug env (rq_reader rq) @ [0x0a]
     @ lit ''serial: '' @ lit (case rq_serial rq of Some n \<Rightarrow> ''Some('' @ show_nat (unat n) @ '')'' | None \<Rightarrow> ''None'') @ [0x0a]
     @ lit (''algorithm: '' @ management_algorithm_name (rq_algorithm rq)) @ [0x0a]
     @ lit (''protect: '' @ show_bool (rq_protect rq)) @ [0x0a]
     @ lit (''touch: '' @ show_bool (rq_touch rq)) @ [0x0a]
     @ lit ''new-management-key: '' @ hex_text (rq_key rq) @ [0x0a, 0x0a]
     @ lit ''The replacement may or may not have committed. Keep the original credentials.'' @ [0x0a]
     @ lit ''To finish, repeat change-management-key with the saved algorithm and new-management-key.'' @ [0x0a]
     @ lit ''If the new key is active, also supply it as --management-key; otherwise use the original credentials.'' @ [0x0a]
     @ lit ''Use --protect again if protect is true, and --touch if touch is true.'' @ [0x0a]
     @ lit ''Use a fresh --recovery-file path; existing recovery files are never overwritten.'' @ [0x0a]
     @ lit ''Do not reset PIV to recover this key.'' @ [0x0a]"

text \<open>The path of an attempt: the one requested, or a random name in the current directory\<close>

definition recovery_name :: "management_algorithm \<Rightarrow> byte list \<Rightarrow> path" where
  "recovery_name a rnd = lit (''ckman-piv-management-'' @ management_algorithm_name a @ ''-'') @ hex_text rnd @ lit ''.recovery''"

definition attempt_path :: "'w recovery_env \<Rightarrow> recovery_request \<Rightarrow> ('w, message, path) proc" where
  "attempt_path env rq = (case rq_path rq of
     Some path \<Rightarrow> ret path
   | None \<Rightarrow>
       proc_bind (proc_map_err (\<lambda>e. lit (show_random (rv_fs env) e)) (fs_random (rv_fs env) 16)) (\<lambda>rnd.
       proc_bind (proc_map_err io_message_of (rv_current_dir env)) (\<lambda>dir.
       ret (path_join (rv_fs env) dir (recovery_name (rq_algorithm rq) rnd)))))"

definition resolve_path :: "'w recovery_env \<Rightarrow> path \<Rightarrow> ('w, message, path \<times> path) proc" where
  "resolve_path env path =
     proc_bind (proc_map_err io_message_of (canonicalize (rv_fs env) (case path_parent (rv_fs env) path of
         Some parent \<Rightarrow> if parent \<noteq> [] then parent else lit ''.'' | None \<Rightarrow> lit ''.''))) (\<lambda>parent.
     proc_bind (lift_res (ok_or (lit ''recovery file has no file name'') (path_file_name (rv_fs env) path))) (\<lambda>name.
     ret (parent, path_join (rv_fs env) parent name)))"

definition save_recovery :: "'w recovery_env \<Rightarrow> path \<Rightarrow> nat \<Rightarrow> byte list \<Rightarrow> ('w, io_error, unit) proc" where
  "save_recovery env parent h contents =
     proc_bind (write_all (rv_fs env) h contents) (\<lambda>_.
     proc_bind (sync_all (rv_fs env) h) (\<lambda>_. sync_directory env parent))"

fun create_attempts :: "'w recovery_env \<Rightarrow> recovery_request \<Rightarrow> nat \<Rightarrow> ('w, message, path) proc" where
  "create_attempts env rq 0 = throw (lit ''cannot allocate a management key recovery file'')"
| "create_attempts env rq (Suc n) =
     proc_bind (attempt_path env rq) (\<lambda>path.
     proc_bind (resolve_path env path) (\<lambda>(parent, path).
     proc_try (create_new (rv_fs env) path True) (\<lambda>r. case r of
       Err e \<Rightarrow>
         if rq_path rq = None \<and> io_kind_of e = IoAlreadyExists then create_attempts env rq n
         else throw (lit ''cannot create management key recovery file '' @ path @ lit '': '' @ io_message_of e)
     | Ok h \<Rightarrow> proc_try (save_recovery env parent h (recovery_contents env rq)) (\<lambda>saved w.
         let w = close_file (rv_fs env) h w in
         case saved of
           Ok _ \<Rightarrow> Some (Ok path, w)
         | Err e \<Rightarrow> proc_try (remove_file (rv_fs env) path) (\<lambda>_.
             throw (lit ''cannot persist management key recovery file '' @ path @ lit '': '' @ io_message_of e
               @ lit ''; management key was not changed'')) w))))"

definition recovery_create :: "'w recovery_env \<Rightarrow> recovery_request \<Rightarrow> ('w, message, path) proc" where
  "recovery_create env rq = create_attempts env rq 8"

text \<open>\<^verbatim>\<open>expect("absolute recovery path")\<close> is the case that does not return.\<close>

definition remove_recovery :: "'w recovery_env \<Rightarrow> path \<Rightarrow> ('w, io_error, unit) proc" where
  "remove_recovery env path =
     proc_bind (remove_file (rv_fs env) path) (\<lambda>_.
     proc_bind (unwrap (path_parent (rv_fs env) path)) (sync_directory env))"

definition recovery_run :: "'w recovery_env \<Rightarrow> path \<Rightarrow> ('w, message, unit) proc \<Rightarrow> ('w, message, unit) proc" where
  "recovery_run env path operation =
     proc_bind (proc_map_err (\<lambda>e. e @ lit ''; management key recovery file retained at '' @ path) operation) (\<lambda>_.
     proc_try (remove_recovery env path) (\<lambda>r w. Some (Ok (), rv_eprintln env (case r of
       Err e \<Rightarrow> lit ''WARNING: management key updated successfully, but recovery-file cleanup failed: ''
         @ io_message_of e @ lit ''; check '' @ path
     | Ok _ \<Rightarrow> lit ''Temporary management key recovery file removed: '' @ path) w)))"

section \<open>The file is there first\<close>

text \<open>What the directory operations do to files: nothing.\<close>

definition recovery_laws :: "'w recovery_env \<Rightarrow> ('w \<Rightarrow> contents) \<Rightarrow> ('w \<Rightarrow> nat \<Rightarrow> path) \<Rightarrow> bool" where
  "recovery_laws env files opened \<longleftrightarrow> fs_laws (rv_fs env) files opened
     \<and> same_files files opened (rv_current_dir env)
     \<and> (\<forall>p. same_files files opened (rv_open_directory env p))
     \<and> (\<forall>t w. files (rv_eprintln env t w) = files w)"

lemma recovery_lawsD:
  assumes "recovery_laws env files opened"
  shows "fs_laws (rv_fs env) files opened" "same_files files opened (rv_current_dir env)"
    "same_files files opened (rv_open_directory env p)" "files (rv_eprintln env t w) = files w"
  using assms by (simp_all add: recovery_laws_def)

lemma same_files_bindI:
  assumes "same_files files opened m" and "\<And>x. same_files files opened (k x)"
  shows "same_files files opened (proc_bind m k)"
  unfolding same_files_def wp_bind
proof
  fix w
  show "wp m (\<lambda>r w'. case r of Err e \<Rightarrow> files w' = files w \<and> opened w' = opened w
      | Ok x \<Rightarrow> wp (k x) (\<lambda>_ w'. files w' = files w \<and> opened w' = opened w) w') w"
    by (rule same_files_wp [OF assms(1)]) (auto split: sum.splits intro: same_files_wp [OF assms(2)])
qed

lemma same_files_ret: "same_files files opened (ret x)" "same_files files opened (throw e)"
  by (simp_all add: same_files_def proc_wp)

lemma same_files_lift: "same_files files opened (lift_res r)"
  by (cases r) (simp_all add: same_files_ret)

lemma sync_directory_same:
  assumes "recovery_laws env files opened"
  shows "same_files files opened (sync_directory env p)"
  unfolding sync_directory_def
proof (rule same_files_bindI [OF recovery_lawsD(3) [OF assms]])
  note laws = recovery_lawsD(1) [OF assms]
  show "same_files files opened (proc_try (sync_all (rv_fs env) h) (\<lambda>r w. Some (r, close_file (rv_fs env) h w)))" for h
    unfolding same_files_def wp_try
    by (intro allI same_files_wp [OF fs_lawsD(6) [OF laws]]) (simp add: wp_def fs_lawsD(8,9) [OF laws])
qed

lemma attempt_path_same:
  assumes "recovery_laws env files opened"
  shows "same_files files opened (attempt_path env rq)"
  unfolding attempt_path_def
  by (cases "rq_path rq") (auto intro!: same_files_bindI same_files_ret same_files_map_err
      fs_lawsD(7) [OF recovery_lawsD(1) [OF assms]] recovery_lawsD(2) [OF assms])

lemma resolve_path_same:
  assumes "recovery_laws env files opened"
  shows "same_files files opened (resolve_path env path)"
  unfolding resolve_path_def
  by (auto intro!: same_files_bindI same_files_ret same_files_lift same_files_map_err
      fs_lawsD(2) [OF recovery_lawsD(1) [OF assms]])

text \<open>The outcome of \<open>recovery_create\<close>: a new file with all its contents, or no change to any file that
  existed.\<close>

definition created :: "('w \<Rightarrow> contents) \<Rightarrow> byte list \<Rightarrow> 'w \<Rightarrow> message + path \<Rightarrow> 'w \<Rightarrow> bool" where
  "created files contents w r w' \<longleftrightarrow> (case r of
     Ok path \<Rightarrow> files w path = None \<and> files w' = (files w)(path := Some contents)
   | Err e \<Rightarrow> adds_files files w w')"

lemma created_same: "files w1 = files w \<Longrightarrow> created files contents w1 r w' \<Longrightarrow> created files contents w r w'"
  by (auto simp: created_def adds_files_def split: sum.splits)

lemma created_throw: "files w1 = files w \<Longrightarrow> wp (throw e) (created files contents w) w1"
  by (simp add: proc_wp created_def adds_files_def)


text \<open>Saving: the new file has the contents, or something of its own, and nothing else changed.\<close>

lemma save_recovery_wp:
  assumes laws: "recovery_laws env files opened"
    and new: "files w p = None" "files w1 = (files w)(p := Some [])" "opened w1 h = p"
  shows "wp (save_recovery env parent h contents) (\<lambda>r w'. case r of
      Ok _ \<Rightarrow> files w' = (files w)(p := Some contents)
    | Err _ \<Rightarrow> \<exists>part. files w' = (files w)(p := part)) w1"
  unfolding save_recovery_def proc_bind_assoc [symmetric] wp_bind [where m = "proc_bind _ _"]
proof (rule wp_mono [OF write_synced_wp [OF recovery_lawsD(1) [OF laws]]], goal_cases)
  case (1 r w2)
  with new show ?case
    by (auto split: sum.splits intro!: same_files_wp [OF sync_directory_same [OF laws]])
qed

lemma created_saved:
  assumes laws: "recovery_laws env files opened"
    and new: "files w p = None" "files w1 = (files w)(p := Some [])" "opened w1 h = p"
  shows "wp (proc_try (save_recovery env parent h contents) (\<lambda>saved w.
         let w = close_file (rv_fs env) h w in
         case saved of
           Ok _ \<Rightarrow> Some (Ok p, w)
         | Err e \<Rightarrow> proc_try (remove_file (rv_fs env) p) (\<lambda>_. throw (text e)) w))
       (created files contents w) w1"
  unfolding wp_try
proof (rule wp_mono [OF save_recovery_wp [OF laws new]], goal_cases)
  case (1 r w2)
  note close = fs_lawsD(8) [OF recovery_lawsD(1) [OF laws], of h w2]
  show ?case
  proof (cases r)
    case (Inl e)
    with 1 obtain part where part: "files w2 = (files w)(p := part)" by auto
    have "wp (proc_try (remove_file (rv_fs env) p) (\<lambda>_. throw (text e))) (created files contents w) (close_file (rv_fs env) h w2)"
      unfolding wp_try
      by (rule wp_mono [OF fs_lawsD(13) [OF recovery_lawsD(1) [OF laws]]])
        (use part close new(1) in \<open>auto simp: proc_wp created_def adds_files_def\<close>)
    with Inl show ?thesis by (simp add: wp_def)
  next
    case (Inr u)
    with 1 new(1) close show ?thesis by (simp add: wp_def created_def)
  qed
qed

lemma create_attempts_wp:
  assumes laws: "recovery_laws env files opened"
  shows "wp (create_attempts env rq n) (created files (recovery_contents env rq) w) w"
proof (induction n arbitrary: w)
  case 0
  show ?case by (simp add: created_throw)
next
  case (Suc n)
  let ?Q = "created files (recovery_contents env rq) w"
  have opened: "wp (proc_try (create_new (rv_fs env) path True) (\<lambda>r. case r of
       Err e \<Rightarrow>
         if rq_path rq = None \<and> io_kind_of e = IoAlreadyExists then create_attempts env rq n
         else throw (lit ''cannot create management key recovery file '' @ path @ lit '': '' @ io_message_of e)
     | Ok h \<Rightarrow> proc_try (save_recovery env parent h (recovery_contents env rq)) (\<lambda>saved w.
         let w = close_file (rv_fs env) h w in
         case saved of
           Ok _ \<Rightarrow> Some (Ok path, w)
         | Err e \<Rightarrow> proc_try (remove_file (rv_fs env) path) (\<lambda>_.
             throw (lit ''cannot persist management key recovery file '' @ path @ lit '': '' @ io_message_of e
               @ lit ''; management key was not changed'')) w))) ?Q w1"
    if w1: "files w1 = files w" for path parent w1
    unfolding wp_try [where m = "create_new _ _ _"]
  proof (rule wp_mono [OF fs_lawsD(10) [OF recovery_lawsD(1) [OF laws]]], goal_cases)
    case (1 r w2)
    show ?case
    proof (cases r)
      case (Inl e)
      with 1 w1 have "files w2 = files w" by simp
      with Inl show ?thesis
        by (auto simp: created_throw intro: wp_mono [OF Suc.IH] created_same)
    next
      case (Inr h)
      with 1 w1 show ?thesis using created_saved [OF laws, of w path w2 h] by simp
    qed
  qed
  have resolved: "wp (proc_bind (resolve_path env path) k) ?Q w1"
    if "files w1 = files w" "\<And>x w2. files w2 = files w \<Longrightarrow> wp (k x) ?Q w2" for path k w1
    unfolding wp_bind
    by (rule same_files_wp [OF resolve_path_same [OF laws]])
      (use that in \<open>auto simp: created_def adds_files_def split: sum.splits\<close>)
  show ?case unfolding create_attempts.simps wp_bind [where m = "attempt_path _ _"]
  proof (rule same_files_wp [OF attempt_path_same [OF laws]], goal_cases)
    case (1 r w1)
    show ?case
    proof (cases r)
      case (Inl e)
      with 1 show ?thesis by (simp add: created_def adds_files_def)
    next
      case (Inr path)
      with 1 show ?thesis by (auto intro!: resolved opened)
    qed
  qed
qed

text \<open>Running an operation under the file: what it returns is returned, and its error names the file.\<close>

lemma recovery_run_iff:
  "recovery_run env path operation w = Some (Err m, w') \<longleftrightarrow>
     (\<exists>e. operation w = Some (Err e, w') \<and> m = e @ lit ''; management key recovery file retained at '' @ path)"
  "recovery_run env path operation w = Some (Ok u, w') \<longleftrightarrow>
     (\<exists>w1 r w2. operation w = Some (Ok (), w1) \<and> remove_recovery env path w1 = Some (r, w2)
       \<and> w' = rv_eprintln env (case r of
         Err e \<Rightarrow> lit ''WARNING: management key updated successfully, but recovery-file cleanup failed: ''
           @ io_message_of e @ lit ''; check '' @ path
       | Ok _ \<Rightarrow> lit ''Temporary management key recovery file removed: '' @ path) w2)"
  unfolding recovery_run_def proc_bind_Some_Ok proc_bind_Some_Err proc_map_err_Some_Ok proc_map_err_Some_Err proc_try_Some
  by auto


lemma remove_recovery_wp:
  assumes laws: "recovery_laws env files opened"
  shows "wp (remove_recovery env path) (\<lambda>_ w'. files w' = files w \<or> files w' = (files w)(path := None)) w"
  unfolding remove_recovery_def wp_bind [where m = "remove_file _ _"]
  by (rule wp_mono [OF fs_lawsD(13) [OF recovery_lawsD(1) [OF laws]]])
    (auto simp: proc_wp split: sum.splits intro!: same_files_wp [OF sync_directory_same [OF laws]])

section \<open>Properties\<close>

text \<open>A management-key replacement runs only under a recovery file that was created for it: the path was
  free, the file holds the complete recovery text before the card is changed, and no other file is
  touched.  When the replacement fails, its error comes back naming the file, which is still there;
  when it succeeds, the file is gone or a warning was printed, and everything else is as before.\<close>

theorem recovery_protects_replacement:
  assumes laws: "recovery_laws env files opened"
    and operation: "\<And>w r w'. operation w = Some (r, w') \<Longrightarrow> files w' = files w"
    and create: "recovery_create env rq w = Some (r, w1)"
  shows "case r of
      Err e \<Rightarrow> adds_files files w w1
    | Ok path \<Rightarrow> files w path = None \<and> files w1 = (files w)(path := Some (recovery_contents env rq))
        \<and> (\<forall>m w2. recovery_run env path operation w1 = Some (Err m, w2) \<longrightarrow> files w2 = files w1
             \<and> (\<exists>e. operation w1 = Some (Err e, w2) \<and> m = e @ lit ''; management key recovery file retained at '' @ path))
        \<and> (\<forall>w2. recovery_run env path operation w1 = Some (Ok (), w2) \<longrightarrow> files w2 \<in> {files w, files w1}
             \<and> (\<exists>w3. operation w1 = Some (Ok (), w3)))"
proof -
  have made: "created files (recovery_contents env rq) w r w1"
    using wpD [OF create_attempts_wp [OF laws]] create by (simp add: recovery_create_def)
  show ?thesis
  proof (cases r)
    case (Inl e)
    with made show ?thesis by (simp add: created_def)
  next
    case (Inr path)
    with made have new: "files w path = None" "files w1 = (files w)(path := Some (recovery_contents env rq))"
      by (simp_all add: created_def)
    have "files w2 \<in> {files w, files w1} \<and> (\<exists>w3. operation w1 = Some (Ok (), w3))"
      if "recovery_run env path operation w1 = Some (Ok (), w2)" for w2
    proof -
      from that obtain w3 q w4 where ran: "operation w1 = Some (Ok (), w3)" "remove_recovery env path w3 = Some (q, w4)"
        and w2: "files w2 = files w4" by (auto simp: recovery_run_iff recovery_lawsD(4) [OF laws])
      from wpD [OF remove_recovery_wp [OF laws] ran(2)] operation [OF ran(1)] new
      have "files w4 \<in> {files w, files w1}" by auto
      with ran w2 show ?thesis by simp
    qed
    with Inr new operation show ?thesis by (auto simp: recovery_run_iff)
  qed
qed

definition sample_recovery :: "contents recovery_env" where
  "sample_recovery = \<lparr>rv_fs = sample_fs\<lparr>path_parent := \<lambda>_. Some (lit ''/''), path_join := \<lambda>_ p. p\<rparr>,
     rv_current_dir = ret (lit ''/''),
     rv_open_directory = \<lambda>_. ret 0, rv_debug = \<lambda>t. t, rv_eprintln = \<lambda>_ w. w\<rparr>"

definition sample_request :: recovery_request where
  "sample_request = \<lparr>rq_path = Some sample_temporary, rq_serial = Some 42, rq_reader = lit ''reader'',
     rq_algorithm = Aes192, rq_key = replicate 24 0x42, rq_protect = True, rq_touch = False\<rparr>"

lemma sample_recovery_sel:
  "rv_fs sample_recovery = sample_fs\<lparr>path_parent := \<lambda>_. Some (lit ''/''), path_join := \<lambda>_ p. p\<rparr>"
  "rv_open_directory sample_recovery p = ret 0" "rq_path sample_request = Some sample_temporary"
  by (simp_all add: sample_recovery_def sample_request_def)

lemma sample_recovery_laws: "recovery_laws sample_recovery id (\<lambda>_ _. sample_temporary)"
  using sample_fs_laws by (auto simp: recovery_laws_def sample_recovery_def fs_laws_def same_files_def wp_def ret_def)

theorem recovery_protects_replacement_witness:
  "case recovery_create sample_recovery sample_request [lit ''out'' \<mapsto> [1]] of
     Some (Ok path, w1) \<Rightarrow> path = sample_temporary \<and> w1 path = Some (recovery_contents sample_recovery sample_request)
       \<and> recovery_run sample_recovery path (throw (lit ''lost'')) w1
         = Some (Err (lit ''lost; management key recovery file retained at '' @ path), w1)
   | _ \<Rightarrow> False"
proof -
  let ?w = "[lit ''out'' \<mapsto> [1]]"
  let ?w1 = "?w(sample_temporary \<mapsto> recovery_contents sample_recovery sample_request)"
  have t: "sample_temporary \<noteq> lit ''out''" "sample_temporary \<noteq> []" by code_simp+
  have create: "recovery_create sample_recovery sample_request ?w = Some (Ok sample_temporary, ?w1)"
    using t by (simp add: recovery_create_def eval_nat_numeral attempt_path_def resolve_path_def save_recovery_def
        sync_directory_def sample_recovery_sel sample_fs_def proc_bind_def proc_try_def proc_map_err_def ret_def
        lift_res_def fun_eq_iff)
  have fails: "(throw e :: (contents, message, unit) proc) w = Some (r, w') \<Longrightarrow> id w' = id w" for e w r w'
    by (simp add: throw_run)
  from recovery_protects_replacement [OF sample_recovery_laws fails create] create show ?thesis
    by (simp add: recovery_run_iff throw_run lit_def)
qed

end
