(* ===== verification/PivAccess.thy ===== *)
theory PivAccess
  imports PivOverwrite PivRecovery
begin

unbundle bit_operations_syntax

text \<open>
  Resetting the PIV applet, the access commands (PIN, PUK and management key) and the two identity
  objects of \<^verbatim>\<open>crates/ckman/src/commands/piv.rs\<close>, over the session of PivCli.  \<^verbatim>\<open>management.access()?\<close>
  inside an operation is \<open>with_access\<close>: a fresh authentication for each operation.
\<close>

section \<open>Environment\<close>

record 'w piv_commands =
  pm_cli :: "'w piv_cli"
  pm_recovery :: "'w recovery_env"
  puk_from_bytes :: "byte list \<Rightarrow> lib_error + puk"

definition pm_terminal :: "'w piv_commands \<Rightarrow> 'w cli_env" where
  "pm_terminal env = pcl_cli (pm_cli env)"

definition pm_host :: "'w piv_commands \<Rightarrow> piv_host" where
  "pm_host env = host (pcl_piv (pm_cli env))"

definition recovery_at :: "'w piv_commands \<Rightarrow> 'w recovery_env" where
  "recovery_at env = (pm_recovery env)\<lparr>rv_fs := pcl_fs (pm_cli env),
     rv_eprintln := \<lambda>t. stderr_print (pm_terminal env) (t @ [0x0a])\<rparr>"

definition with_access :: "'w piv_commands \<Rightarrow> target \<Rightarrow> resolved_management \<Rightarrow> (access \<Rightarrow> ('w, 'a) piv_operation)
    \<Rightarrow> ('w, message, 'a) proc" where
  "with_access env t m operation = piv_session_run (pm_cli env) t (\<lambda>penv profile.
     proc_bind (resolved_access penv (pcl_custom_random (pm_cli env)) m) (\<lambda>access. operation access penv profile))"

definition with_pin_access :: "'w piv_commands \<Rightarrow> target \<Rightarrow> resolved_management \<Rightarrow> pin
    \<Rightarrow> (access \<Rightarrow> ('w, 'a) piv_operation) \<Rightarrow> ('w, message, 'a) proc" where
  "with_pin_access env t m p operation = piv_session_run (pm_cli env) t (\<lambda>penv profile.
     proc_bind (pin_and_management penv (pcl_custom_random (pm_cli env)) m p) (\<lambda>access. operation access penv profile))"

section \<open>Reset\<close>

definition confirmed_or :: "'w piv_commands \<Rightarrow> bool \<Rightarrow> byte list \<Rightarrow> message \<Rightarrow> ('w, message, unit) proc" where
  "confirmed_or env force prompt refused =
    (if force then ret ()
     else proc_bind (confirm (pm_terminal env) prompt) (\<lambda>yes. if yes then ret () else throw refused))"

definition piv_reset :: "'w piv_commands \<Rightarrow> u32 option \<Rightarrow> byte list option \<Rightarrow> bool \<Rightarrow> byte list option
    \<Rightarrow> ('w, message, unit) proc" where
  "piv_reset env device reader force admin_text =
     proc_bind (piv_connect (pm_cli env) device reader) (\<lambda>t.
     proc_bind (confirmed_or env force
       (lit ''This will delete all stored PIV data and restore factory settings. Proceed?'') (lit ''PIV reset aborted'')) (\<lambda>_.
     proc_bind (lift_res (case admin_text of
         None \<Rightarrow> Ok None
       | Some text \<Rightarrow> map_err (\<lambda>e. lit (show_lib_error (pm_terminal env) e))
           (res_bind (admin_pin_from_bytes (pm_terminal env) text) (\<lambda>p. Ok (Some p))))) (\<lambda>pin.
     proc_bind (with_admin_pin_retry (pm_terminal env) pin (\<lambda>p. reset_applet
       ((pcl_admin (pm_cli env))\<lparr>admin_exchange := conn_exchange (pm_terminal env) (tg_connection t)\<rparr>)
       (tg_profile t) AppletPiv p)) (\<lambda>_.
     proc_bind (piv_println (pm_cli env) (lit ''Reset complete. All PIV data has been cleared from the CanoKey.'')) (\<lambda>_.
     proc_bind (piv_println (pm_cli env) (lit ''Your CanoKey now has the default PIN, PUK and Management Key:'')) (\<lambda>_.
     proc_bind (piv_println (pm_cli env) (0x09 # lit ''PIN:'' @ 0x09 # lit ''123456'')) (\<lambda>_.
     proc_bind (piv_println (pm_cli env) (0x09 # lit ''PUK:'' @ 0x09 # lit ''12345678'')) (\<lambda>_.
     piv_println (pm_cli env) (0x09 # lit ''Management Key:'' @ 0x09 # hex_text DEFAULT_MANAGEMENT_KEY)))))))))"

section \<open>Identity objects\<close>

definition random_message :: "'w piv_commands \<Rightarrow> nat \<Rightarrow> ('w, message, byte list) proc" where
  "random_message env n = proc_map_err (\<lambda>e. lit (show_random (pcl_fs (pm_cli env)) e)) (fs_random (pcl_fs (pm_cli env)) n)"

text \<open>A random GUID of version 4\<close>

definition version4 :: "byte list \<Rightarrow> byte list" where
  "version4 guid = guid[6 := guid ! 6 AND 0x0f OR 0x40, 8 := guid ! 8 AND 0x3f OR 0x80]"

definition set_chuid_command :: "'w piv_commands \<Rightarrow> u32 option \<Rightarrow> byte list option \<Rightarrow> byte list option
    \<Rightarrow> byte list option \<Rightarrow> ('w, message, unit) proc" where
  "set_chuid_command env device reader guid management_key =
     proc_bind (case guid of Some g \<Rightarrow> ret g
       | None \<Rightarrow> proc_bind (random_message env 16) (\<lambda>g. ret (version4 g))) (\<lambda>guid.
     proc_bind (piv_connect (pm_cli env) device reader) (\<lambda>t.
     proc_bind (resolve_management (pm_cli env) t management_key None) (\<lambda>m.
     proc_bind (with_access env t m (\<lambda>access penv profile. set_chuid penv profile guid access)) (\<lambda>_.
     piv_println (pm_cli env) (lit ''CHUID set (GUID: '' @ hex_text guid @ lit '').'')))))"

definition set_ccc_command :: "'w piv_commands \<Rightarrow> u32 option \<Rightarrow> byte list option \<Rightarrow> byte list option
    \<Rightarrow> byte list option \<Rightarrow> ('w, message, unit) proc" where
  "set_ccc_command env device reader card_id management_key =
     proc_bind (case card_id of Some c \<Rightarrow> ret c | None \<Rightarrow> random_message env 14) (\<lambda>card_id.
     proc_bind (piv_connect (pm_cli env) device reader) (\<lambda>t.
     proc_bind (resolve_management (pm_cli env) t management_key None) (\<lambda>m.
     proc_bind (with_access env t m (\<lambda>access penv profile. set_ccc penv profile card_id access)) (\<lambda>_.
     piv_println (pm_cli env) (lit ''CCC set (card ID: a000000116ff02'' @ hex_text card_id @ lit '').'')))))"

section \<open>PIN and PUK\<close>

definition validate_pin_reset :: "pivman_data \<Rightarrow> message + unit" where
  "validate_pin_reset pivman =
    (if has_derived_key pivman
     then Err (lit ''PIN reset would invalidate the PIN-derived management key; change to an independent or PIN-protected management key first'')
     else Ok ())"

definition ensure_pin_reset_safe :: "'w piv_commands \<Rightarrow> target \<Rightarrow> ('w, message, unit) proc" where
  "ensure_pin_reset_safe env t =
     proc_bind (piv_session_run (pm_cli env) t read_pivman_data) (\<lambda>pivman. lift_res (validate_pin_reset pivman))"

definition puk_of_text :: "'w piv_commands \<Rightarrow> byte list \<Rightarrow> message + puk" where
  "puk_of_text env t = map_err (\<lambda>_. lit ''PUK must be 6-8 characters'') (puk_from_bytes env t)"

definition resolve_puk :: "'w piv_commands \<Rightarrow> byte list option \<Rightarrow> ('w, message, puk) proc" where
  "resolve_puk env puk =
     proc_bind (case puk of Some p \<Rightarrow> ret p | None \<Rightarrow> prompt_password (pm_terminal env) (lit ''Enter PUK: '')) (\<lambda>p.
     lift_res (puk_of_text env p))"

text \<open>A new secret: the argument, or asked for twice\<close>

definition new_secret :: "'w piv_commands \<Rightarrow> byte list option \<Rightarrow> byte list \<Rightarrow> byte list \<Rightarrow> message
    \<Rightarrow> ('w, message, byte list) proc" where
  "new_secret env given ask repeat mismatch = (case given of
     Some s \<Rightarrow> ret s
   | None \<Rightarrow>
       proc_bind (prompt_password (pm_terminal env) ask) (\<lambda>entered.
       proc_bind (prompt_password (pm_terminal env) repeat) (\<lambda>repeated.
       if entered \<noteq> repeated then throw mismatch else ret entered)))"

definition new_pin :: "'w piv_commands \<Rightarrow> byte list option \<Rightarrow> ('w, message, byte list) proc" where
  "new_pin env given =
     new_secret env given (lit ''Enter new PIN: '') (lit ''Repeat new PIN: '') (lit ''the PINs do not match'')"

text \<open>The claim of a blocked PUK is cleared after the counters were reset\<close>

definition clear_puk_blocked :: "'w piv_commands \<Rightarrow> target \<Rightarrow> byte list option \<Rightarrow> ('w, message, unit) proc" where
  "clear_puk_blocked env t management_key =
     proc_bind (piv_session_run (pm_cli env) t read_pivman_data) (\<lambda>pivman.
     if puk_blocked pivman
     then proc_bind (resolve_management (pm_cli env) t management_key None) (\<lambda>m.
       piv_session_run (pm_cli env) t (\<lambda>penv profile.
         proc_bind (unwrap (pivman_object_id penv)) (\<lambda>oid.
         proc_bind (unwrap (data_to_value (tlv penv) (set_puk_blocked False pivman))) (\<lambda>bytes.
         proc_bind (resolved_access penv (pcl_custom_random (pm_cli env)) m) (\<lambda>access.
         write_object penv profile oid bytes access)))))
     else ret ())"

definition set_retries_command :: "'w piv_commands \<Rightarrow> u32 option \<Rightarrow> byte list option \<Rightarrow> u8 \<Rightarrow> u8
    \<Rightarrow> byte list option \<Rightarrow> byte list option \<Rightarrow> bool \<Rightarrow> ('w, message, unit) proc" where
  "set_retries_command env device reader pin_retries puk_retries management_key pin_text force =
     proc_bind (piv_connect (pm_cli env) device reader) (\<lambda>t.
     proc_bind (ensure_pin_reset_safe env t) (\<lambda>_.
     proc_bind (confirmed_or env force
       (lit ''This sets the retry counters and resets PIN and PUK to the factory defaults (123456 / 12345678). Proceed?'')
       (lit ''aborted'')) (\<lambda>_.
     proc_bind (resolve_management (pm_cli env) t management_key pin_text) (\<lambda>m.
     proc_bind (case rm_pin m of Some p \<Rightarrow> ret p
       | None \<Rightarrow> resolve_pin (pm_cli env) pin_text (lit ''Enter the current PIN'')) (\<lambda>p.
     proc_bind (with_pin_access env t m p (\<lambda>access penv profile. set_retries penv profile pin_retries puk_retries access)) (\<lambda>_.
     proc_bind (clear_puk_blocked env t management_key) (\<lambda>_.
     piv_println (pm_cli env) (lit ''PIN and PUK retry counters reset; both are now at factory defaults.''))))))))"

definition change_pin_command :: "'w piv_commands \<Rightarrow> u32 option \<Rightarrow> byte list option \<Rightarrow> byte list option
    \<Rightarrow> byte list option \<Rightarrow> ('w, message, unit) proc" where
  "change_pin_command env device reader pin_text new_text =
     proc_bind (piv_connect (pm_cli env) device reader) (\<lambda>t.
     proc_bind (case pin_text of Some p \<Rightarrow> ret p
       | None \<Rightarrow> prompt_password (pm_terminal env) (lit ''Enter current PIN: '')) (\<lambda>old.
     proc_bind (new_pin env new_text) (\<lambda>new.
     proc_bind (piv_session_run (pm_cli env) t (\<lambda>penv profile. change_pin_synced penv profile old new)) (\<lambda>_.
     piv_println (pm_cli env) (lit ''PIN changed.'')))))"

definition change_puk_command :: "'w piv_commands \<Rightarrow> u32 option \<Rightarrow> byte list option \<Rightarrow> byte list option
    \<Rightarrow> byte list option \<Rightarrow> ('w, message, unit) proc" where
  "change_puk_command env device reader puk_text new_text =
     proc_bind (piv_connect (pm_cli env) device reader) (\<lambda>t.
     proc_bind (resolve_puk env puk_text) (\<lambda>old.
     proc_bind (proc_bind (new_secret env new_text (lit ''Enter new PUK: '') (lit ''Repeat new PUK: '')
       (lit ''the PUKs do not match'')) (\<lambda>s. lift_res (puk_of_text env s))) (\<lambda>new.
     proc_bind (piv_session_run (pm_cli env) t (\<lambda>penv profile. change_puk penv profile old new)) (\<lambda>_.
     piv_println (pm_cli env) (lit ''PUK changed.'')))))"

definition unblock_pin_command :: "'w piv_commands \<Rightarrow> u32 option \<Rightarrow> byte list option \<Rightarrow> byte list option
    \<Rightarrow> byte list option \<Rightarrow> ('w, message, unit) proc" where
  "unblock_pin_command env device reader puk_text new_text =
     proc_bind (piv_connect (pm_cli env) device reader) (\<lambda>t.
     proc_bind (ensure_pin_reset_safe env t) (\<lambda>_.
     proc_bind (resolve_puk env puk_text) (\<lambda>puk.
     proc_bind (new_pin env new_text) (\<lambda>s.
     proc_bind (lift_res (pin_of_text (pm_cli env) s)) (\<lambda>new.
     proc_bind (piv_session_run (pm_cli env) t (\<lambda>penv profile. unblock_pin penv profile puk new)) (\<lambda>_.
     piv_println (pm_cli env) (lit ''PIN unblocked and set.'')))))))"

section \<open>The management key\<close>

record change_management_args =
  ca_touch :: bool
  ca_new_key :: "byte list option"
  ca_algorithm :: "management_algorithm option"
  ca_protect :: bool
  ca_generate :: bool
  ca_recovery_file :: "path option"
  ca_force :: bool
  ca_management_key :: "byte list option"
  ca_pin :: "byte list option"

definition key_bytes_of_hex :: "byte list \<Rightarrow> message + byte list" where
  "key_bytes_of_hex hex = (case hex_decode hex of
     Some bytes \<Rightarrow> if length bytes = 24 then Ok bytes
       else Err (lit ''management key must be 24 bytes (48 hex characters)'')
   | None \<Rightarrow> Err (lit ''management key must be 24 bytes (48 hex characters)''))"

definition new_key_bytes :: "'w piv_commands \<Rightarrow> change_management_args \<Rightarrow> ('w, message, byte list) proc" where
  "new_key_bytes env args = (case ca_new_key args of
     Some hex \<Rightarrow> lift_res (key_bytes_of_hex hex)
   | None \<Rightarrow>
       if ca_generate args \<or> ca_protect args
       then proc_bind (random_message env 24) (\<lambda>bytes.
         proc_bind (if \<not> ca_protect args
           then piv_println (pm_cli env) (lit ''Generated management key: '' @ hex_text bytes) else ret ()) (\<lambda>_.
         ret bytes))
       else if ca_force args
       then throw (lit ''new management key not given; drop --force or use --generate/--new-management-key'')
       else proc_bind (new_secret env None (lit ''Enter the new management key: '')
           (lit ''Repeat the new management key: '') (lit ''the management keys do not match'')) (\<lambda>entered.
         lift_res (key_bytes_of_hex entered)))"

definition change_request :: "'w piv_commands \<Rightarrow> target \<Rightarrow> change_management_args \<Rightarrow> management_algorithm \<Rightarrow> byte list
    \<Rightarrow> recovery_request" where
  "change_request env t args a bytes =
     \<lparr>rq_path = ca_recovery_file args, rq_serial = target_serial (pm_terminal env) t,
      rq_reader = conn_reader (tg_connection t), rq_algorithm = a, rq_key = bytes,
      rq_protect = ca_protect args, rq_touch = ca_touch args\<rparr>"

definition replace_key :: "'w piv_commands \<Rightarrow> target \<Rightarrow> change_management_args \<Rightarrow> management_algorithm \<Rightarrow> byte list
    \<Rightarrow> resolved_management \<Rightarrow> pin option \<Rightarrow> ('w, message, unit) proc" where
  "replace_key env t args a bytes m p = with_access env t m (\<lambda>access penv profile. set_management_key_synced penv profile
     \<lparr>mu_key_bytes = bytes, mu_algorithm = a,
      mu_touch = (if ca_touch args then ManagementTouchAlways else ManagementTouchNever),
      mu_protect = ca_protect args, mu_pin = p, mu_access = access\<rparr>)"

definition change_management_key_command :: "'w piv_commands \<Rightarrow> u32 option \<Rightarrow> byte list option
    \<Rightarrow> change_management_args \<Rightarrow> ('w, message, unit) proc" where
  "change_management_key_command env device reader args =
    (if ca_new_key args \<noteq> None \<and> ca_generate args then throw (lit ''--new-management-key conflicts with --generate'')
     else proc_bind (piv_connect (pm_cli env) device reader) (\<lambda>t.
     proc_bind (case ca_algorithm args of Some a \<Rightarrow> ret a | None \<Rightarrow> management_algorithm_of (pm_cli env) t) (\<lambda>a.
     proc_bind (new_key_bytes env args) (\<lambda>bytes.
     proc_bind (lift_res (map_err (\<lambda>_. lit ''new management key is invalid for the requested algorithm'')
       (management_key_from_bytes (pm_host env) a bytes))) (\<lambda>_.
     proc_bind (resolve_management_protection (pm_cli env) t (ca_management_key args) (ca_pin args) (ca_protect args)) (\<lambda>m.
     proc_bind (if ca_protect args
       then proc_bind (case rm_pin m of Some p \<Rightarrow> ret p
         | None \<Rightarrow> resolve_pin (pm_cli env) (ca_pin args) (lit ''Enter PIN'')) (\<lambda>p. ret (Some p))
       else ret (rm_pin m)) (\<lambda>p.
     proc_bind (recovery_create (recovery_at env) (change_request env t args a bytes)) (\<lambda>path.
     proc_bind (piv_eprintln (pm_cli env) (lit ''Management key recovery file temporarily saved at '' @ path
       @ lit '' (removed after a successful update)'')) (\<lambda>_.
     proc_bind (recovery_run (recovery_at env) path (replace_key env t args a bytes m p)) (\<lambda>_.
     piv_println (pm_cli env) (lit ''New management key set.'')))))))))))"

end
