(* ===== verification/Frames.thy ===== *)
theory Frames
  imports Cli
begin

text \<open>
  What the terminal and the selection of a reader leave alone: \<open>terminal_frame env f\<close> says that no
  call of the terminal, and none of PC/SC but the transmission of a command, changes what \<open>f\<close> reads of
  the world.  The commands' safety properties rest on it.
\<close>

definition terminal_frame :: "'w cli_env \<Rightarrow> ('w \<Rightarrow> 'b) \<Rightarrow> bool" where
  "terminal_frame env f \<longleftrightarrow> preserves f (pc_establish env) \<and> preserves f (pc_list_readers env)
     \<and> (\<forall>r. preserves f (pc_connect env r)) \<and> (\<forall>c. preserves f (pc_atr env c))
     \<and> (\<forall>p. preserves f (rpassword env p)) \<and> (\<forall>t w. f (stderr_print env t w) = f w)"

lemma terminal_frameD:
  assumes "terminal_frame env f"
  shows "preserves f (pc_establish env)" "preserves f (pc_list_readers env)" "preserves f (pc_connect env r)"
    "preserves f (pc_atr env c)" "preserves f (rpassword env p)" "f (stderr_print env t w) = f w"
  using assms by (simp_all add: terminal_frame_def)

lemma frame_bind:
  assumes "preserves f m" and "\<And>x s'. f s' = f s \<Longrightarrow> wp (k x) Q s'" and "\<And>e s'. f s' = f s \<Longrightarrow> Q (Err e) s'"
  shows "wp (proc_bind m k) Q s"
  unfolding wp_bind by (rule preserves_wp [OF assms(1)]) (auto split: sum.split intro: assms(2,3))

lemma frame_bind_run:
  assumes "preserves f m" and "\<And>x s'. m s = Some (Ok x, s') \<Longrightarrow> f s' = f s \<Longrightarrow> wp (k x) Q s'"
    and "\<And>e s'. f s' = f s \<Longrightarrow> Q (Err e) s'"
  shows "wp (proc_bind m k) Q s"
  unfolding wp_bind using preservesD [OF assms(1)] assms(2,3)
  by (auto simp: wp_def [of m] split: option.split sum.split)

lemma preserves_comp: "preserves f m \<Longrightarrow> preserves (\<lambda>w. g (f w)) m"
  by (auto simp: preserves_def intro: wp_mono)

lemma terminal_frame_comp: "terminal_frame env f \<Longrightarrow> terminal_frame env (\<lambda>w. g (f w))"
  by (auto simp: terminal_frame_def intro: preserves_comp)

lemma preserves_selection [preserves_intros]:
  "(\<And>r. preserves f (candidate r)) \<Longrightarrow> preserves f (selection_targets rs candidate)"
  by (induction rs) (auto intro!: preserves_intros)

text \<open>Selecting a reader.\<close>

lemma preserves_connect_reader:
  assumes "terminal_frame env f"
  shows "preserves f (connect_reader env r)" "preserves f (readers env)"
  unfolding connect_reader_def readers_def
  by (intro preserves_intros terminal_frameD [OF assms])+

lemma preserves_single_target:
  assumes "terminal_frame env f" and probe: "\<And>c. preserves f (probe (probe_device env) (conn_exchange env c))"
  shows "preserves f (single_target env device reader)"
proof -
  have candidate: "preserves f (selection_candidate env r)" for r
    unfolding selection_candidate_def
    by (intro preserves_intros preserves_connect_reader [OF assms(1)] probe)
  have probed: "preserves f (probe_reader env r)" for r
    unfolding probe_reader_def
    by (intro preserves_intros preserves_connect_reader [OF assms(1)] probe)
  have rs: "preserves f (pcsc_result env (readers env))"
    unfolding pcsc_result_def by (intro preserves_intros preserves_connect_reader [OF assms(1)])
  show ?thesis
  proof (cases reader)
    case None
    have "preserves f (case ts of [] \<Rightarrow> throw e | [t] \<Rightarrow> ret t | _ \<Rightarrow> throw e')" for ts and e e' :: message
      by (auto intro: preserves_intros split: list.split)
    with None rs candidate show ?thesis
      by (auto simp: single_target_def intro!: preserves_intros)
  next
    case (Some name)
    with rs probed show ?thesis by (auto simp: single_target_def intro!: preserves_intros)
  qed
qed

end
