(* ===== verification/PivKeySafety.thy ===== *)
theory PivKeySafety
  imports PivAccess PivProps Frames
begin

text \<open>
  The management-key command as a whole: the card of PivCard, the files of PivRecovery and the
  terminal are parts of one world, and whatever the command changes on the card is on disk first.
\<close>

section \<open>Frames of the commands\<close>

text \<open>
  \<open>command_frame env f\<close>: the terminal, the random generator, the probe of a device and the reading
  library calls leave \<open>f\<close> of the world alone.
\<close>

definition command_frame :: "'w piv_commands \<Rightarrow> ('w \<Rightarrow> 'b) \<Rightarrow> bool" where
  "command_frame env f \<longleftrightarrow> terminal_frame (pm_terminal env) f
     \<and> (\<forall>t w. f (piv_print (pm_cli env) t w) = f w)
     \<and> (\<forall>n. preserves f (fs_random (pcl_fs (pm_cli env)) n))
     \<and> (\<forall>c. preserves f (probe (probe_device (pm_terminal env)) (conn_exchange (pm_terminal env) c)))
     \<and> (\<forall>t n. preserves f (fill_random (piv_at (pm_cli env) t) n))
     \<and> (\<forall>t. preserves f (piv_run_typed (pm_cli env) t management_metadata))
     \<and> (\<forall>t oid access. preserves f (read_object (piv_at (pm_cli env) t) (tg_profile t) oid access))
     \<and> (\<forall>t r access. preserves f (run (piv_at (pm_cli env) t)
          (lib_pin_managed (secrets (piv_at (pm_cli env) t)) (tg_profile t) r access)))"

lemma command_frameD:
  assumes "command_frame env f"
  shows "terminal_frame (pcl_cli (pm_cli env)) f" "f (piv_print (pm_cli env) t w) = f w"
    "preserves f (fs_random (pcl_fs (pm_cli env)) n)"
    "preserves f (probe (probe_device (pcl_cli (pm_cli env))) (conn_exchange (pcl_cli (pm_cli env)) c))"
    "preserves f (fill_random (piv_at (pm_cli env) tg) n)"
    "preserves f (piv_run_typed (pm_cli env) tg management_metadata)"
    "preserves f (read_object (piv_at (pm_cli env) tg) (tg_profile tg) oid access)"
    "preserves f (run (piv_at (pm_cli env) tg) (lib_pin_managed (secrets (piv_at (pm_cli env) tg)) (tg_profile tg) r access))"
  using assms by (simp_all add: command_frame_def pm_terminal_def)

lemma preserves_session:
  assumes "command_frame env f"
  shows "preserves f (piv_connect (pm_cli env) device reader)"
    "preserves f (prompt_password (pcl_cli (pm_cli env)) p)"
    "preserves f (management_algorithm_of (pm_cli env) t)"
    "preserves f (management_is_default (pm_cli env) t)"
    "preserves f (piv_eprintln (pm_cli env) x)" "preserves f (piv_println (pm_cli env) x)"
  unfolding piv_connect_def pcsc_result_def prompt_password_def management_algorithm_of_def management_is_default_def
    piv_eprintln_def piv_println_def
  by (intro preserves_intros preserves_single_target terminal_frameD [OF command_frameD(1) [OF assms]]
      command_frameD [OF assms] | simp)+


lemma preserves_resolve_pin:
  assumes "command_frame env f"
  shows "preserves f (resolve_pin (pm_cli env) given p)" "preserves f (resolve_pin_string (pm_cli env) given p)"
  unfolding resolve_pin_def resolve_pin_string_def
  by (intro preserves_intros preserves_session [OF assms])+

lemma preserves_read_pivman:
  assumes "command_frame env f"
  shows "preserves f (piv_session_run (pm_cli env) t read_pivman_data)"
    "preserves f (piv_session_run (pm_cli env) t (\<lambda>penv profile. read_pivman_protected penv profile access))"
proof -
  show "preserves f (piv_session_run (pm_cli env) t read_pivman_data)"
    unfolding piv_session_run_def piv_run_typed_def read_pivman_data_def read_tolerant_def lib_result_def
    by (auto intro!: preserves_intros command_frameD [OF assms] split: piv_error.split drive_error.split)
  show "preserves f (piv_session_run (pm_cli env) t (\<lambda>penv profile. read_pivman_protected penv profile access))"
    unfolding piv_session_run_def piv_run_typed_def read_pivman_protected_def read_tolerant_def lib_result_def
    by (auto intro!: preserves_intros command_frameD [OF assms] split: piv_error.split drive_error.split)
qed

lemma preserves_new_key_bytes:
  assumes "command_frame env f"
  shows "preserves f (new_key_bytes env args)"
  unfolding new_key_bytes_def random_message_def new_secret_def pm_terminal_def
  by (intro preserves_intros preserves_session [OF assms] command_frameD [OF assms])

lemma preserves_resolve_management:
  assumes "command_frame env f"
  shows "preserves f (resolve_management_protection (pm_cli env) t management_key pin complete_protection)"
proof -
  have managed: "preserves f (piv_session_run (pm_cli env) t (\<lambda>penv profile. pin_managed_key penv profile p))"
    "preserves f (piv_session_run (pm_cli env) t (\<lambda>penv profile. complete_pin_managed_key penv profile p))" for p
    unfolding piv_session_run_def piv_run_typed_def pin_managed_key_def complete_pin_managed_key_def
      random_puk_replacement_def random_bytes_def
    by (intro preserves_intros command_frameD [OF assms])+
  have by_text: "preserves f (management_key_of_text (pm_cli env) t x)" for x
    unfolding management_key_of_text_def by (intro preserves_intros preserves_session [OF assms])
  have stored: "preserves f (stored_management (pm_cli env) t d pin complete_protection)" for d
    unfolding stored_management_def if_distrib [of "piv_session_run _ _"]
    using managed by (cases complete_protection)
      (auto intro!: preserves_intros preserves_resolve_pin [OF assms] preserves_read_pivman [OF assms] preserves_session [OF assms])
  have derived: "preserves f (derived_management (pm_cli env) t d pin)" for d
    unfolding derived_management_def by (intro preserves_intros preserves_resolve_pin [OF assms])
  have prompted: "preserves f (prompted_management (pm_cli env) t)"
    unfolding prompted_management_def
    by (intro preserves_intros preserves_session [OF assms] by_text)
  show ?thesis
    unfolding resolve_management_protection_def
    by (intro preserves_intros preserves_read_pivman [OF assms] by_text stored derived prompted)
qed


section \<open>The replacement and its recovery file\<close>

text \<open>The file operations leave the card alone.\<close>

definition recovery_frame :: "'w recovery_env \<Rightarrow> ('w \<Rightarrow> 'b) \<Rightarrow> bool" where
  "recovery_frame env f \<longleftrightarrow> preserves f (rv_current_dir env)
     \<and> (\<forall>n. preserves f (fs_random (rv_fs env) n)) \<and> (\<forall>p. preserves f (canonicalize (rv_fs env) p))
     \<and> (\<forall>p private. preserves f (create_new (rv_fs env) p private))
     \<and> (\<forall>h bytes. preserves f (write_all (rv_fs env) h bytes)) \<and> (\<forall>h. preserves f (sync_all (rv_fs env) h))
     \<and> (\<forall>h w. f (close_file (rv_fs env) h w) = f w) \<and> (\<forall>p. preserves f (remove_file (rv_fs env) p))
     \<and> (\<forall>p. preserves f (rv_open_directory env p)) \<and> (\<forall>t w. f (rv_eprintln env t w) = f w)"

lemma recovery_frameD:
  assumes "recovery_frame env f"
  shows "preserves f (rv_current_dir env)" "preserves f (fs_random (rv_fs env) n)"
    "preserves f (canonicalize (rv_fs env) p)" "preserves f (create_new (rv_fs env) p private)"
    "preserves f (write_all (rv_fs env) h bytes)" "preserves f (sync_all (rv_fs env) h)"
    "f (close_file (rv_fs env) h w) = f w" "preserves f (remove_file (rv_fs env) p)"
    "preserves f (rv_open_directory env p)" "f (rv_eprintln env t w) = f w"
  using assms by (simp_all add: recovery_frame_def)

lemma preserves_saved:
  assumes "preserves f m" and "\<And>w. f (close w) = f w"
    and "\<And>r. preserves f (k r)"
  shows "preserves f (proc_try m (\<lambda>r w. let w = close w in k r w))"
  unfolding Let_def
proof (rule preserves_try [OF assms(1)])
  show "preserves f (\<lambda>w. k r (close w))" for r
    using assms(2,3) by (auto simp: preserves_def wp_def)
qed

lemma preserves_sync_directory:
  assumes "recovery_frame env f"
  shows "preserves f (sync_directory env p)"
  unfolding sync_directory_def
  by (rule preserves_bind [OF recovery_frameD(9) [OF assms]], rule preserves_try [OF recovery_frameD(6) [OF assms]])
    (intro preserves_step recovery_frameD(7) [OF assms])

lemma preserves_recovery_create:
  assumes "recovery_frame env f"
  shows "preserves f (recovery_create env rq)"
proof -
  note frame = recovery_frameD [OF assms] preserves_sync_directory [OF assms]
  have saved: "preserves f (proc_try (save_recovery env parent h contents) (\<lambda>saved w.
         let w = close_file (rv_fs env) h w in
         case saved of
           Ok _ \<Rightarrow> Some (Ok path, w)
         | Err e \<Rightarrow> proc_try (remove_file (rv_fs env) path) (\<lambda>_. throw (says e)) w))" for parent h contents path says
  proof (rule preserves_try, goal_cases)
    case 1
    show ?case unfolding save_recovery_def by (intro preserves_intros frame)
  next
    case (2 r)
    have tail: "preserves f (proc_try (remove_file (rv_fs env) path) (\<lambda>_. throw (says e)))" for e
      by (intro preserves_intros frame)
    show ?case unfolding preserves_def wp_def
      by (cases r) (auto simp: Let_def frame(7) dest!: preservesD [OF tail])
  qed
  have "preserves f (create_attempts env rq n)" for n
  proof (induction n)
    case (Suc n)
    show ?case
      unfolding create_attempts.simps attempt_path_def resolve_path_def
      by (intro preserves_intros frame Suc saved)
  qed (simp add: preserves_intros)
  then show ?thesis by (simp add: recovery_create_def)
qed

lemma preserves_remove_recovery:
  assumes "recovery_frame env f"
  shows "preserves f (remove_recovery env path)"
  unfolding remove_recovery_def
  by (intro preserves_intros recovery_frameD [OF assms] preserves_sync_directory [OF assms])

text \<open>A synchronized replacement leaves the old key or the new one.\<close>

lemma card_key_steps:
  "card_key (card_after (take n (replacement_steps env u key d stored)) c) \<in> {card_key c, key}"
proof -
  have keep: "card_key (card_after steps c) = card_key c"
    if "\<forall>st \<in> set steps. \<forall>c. card_key (snd st c) = card_key c" for steps c
    using that by (induction steps arbitrary: c) simp_all
  let ?rest = "protected_steps env u d stored @ metadata_steps env d (updated_data (mu_protect u) d)
     @ (if mu_protect u then [(ProtectPuk, block_card_puk)] else [])"
  have rest: "\<forall>st \<in> set ?rest. \<forall>c. card_key (snd st c) = card_key c"
    by (auto simp: protected_steps_def metadata_steps_def admin_step_def printed_step_def split: if_splits)
  have "\<forall>st \<in> set (take k ?rest). \<forall>c. card_key (snd st c) = card_key c" for k
    using rest in_set_takeD by fast
  from keep [OF this] show ?thesis by (cases n) (simp_all add: replacement_steps_def)
qed

lemma synced_key_wp:
  assumes "card_laws env profile view"
  shows "wp (set_management_key_synced env profile u) (\<lambda>r s'. card_key (view s') = card_key (view s)
    \<or> management_key_from_bytes (host env) (mu_algorithm u) (mu_key_bytes u) = Ok (card_key (view s'))) s"
proof (rule wp_mono [OF synced_wp [OF assms]])
  fix r :: "'b piv_error + unit" and s'
  assume "synced_outcome env u (view s) r (view s')"
  then consider "view s' = view s"
    | key d stored where "management_key_from_bytes (host env) (mu_algorithm u) (mu_key_bytes u) = Ok key"
      "run_outcome (replacement_steps env u key d stored) (view s) r (view s')"
    unfolding synced_outcome_def by blast
  then show "card_key (view s') = card_key (view s)
    \<or> management_key_from_bytes (host env) (mu_algorithm u) (mu_key_bytes u) = Ok (card_key (view s'))"
  proof cases
    case 2
    from run_outcome_prefix [OF 2(2), of "()"] obtain n
      where "view s' = card_after (take n (replacement_steps env u key d stored)) (view s)" by blast
    with card_key_steps [of n env u key d stored "view s"] 2(1) show ?thesis by auto
  qed simp
qed


text \<open>A library call touches no file when the exchange does not.\<close>

lemma preserves_run [preserves_intros]:
  assumes "\<And>c. preserves f (env_exchange env c)"
  shows "preserves f (run env oper)" "preserves f (run_unit env oper)"
  unfolding run_def run_unit_def lib_result_def by (intro preserves_intros assms)+

lemma preserves_synced:
  assumes "\<And>c. preserves f (env_exchange env c)" and "\<And>n. preserves f (fill_random env n)"
  shows "preserves f (set_management_key_synced env profile u)"
proof -
  note calls = write_object_def read_object_def set_management_key_def random_puk_replacement_def random_bytes_def
  have tolerant: "preserves f (read_tolerant (run env oper) g x)" for oper g and x :: 'x
    unfolding read_tolerant_def lib_result_def
    by (auto intro!: preserves_intros assms(1) split: piv_error.split drive_error.split)
  have data: "preserves f (read_pivman_data env profile)"
    unfolding read_pivman_data_def calls by (intro preserves_intros tolerant)
  have protected: "preserves f (read_pivman_protected env profile access)" for access
    unfolding read_pivman_protected_def calls by (intro preserves_intros tolerant)
  have prepare: "preserves f (prepare_update env profile u)"
    unfolding prepare_update_def lib_result_def calls by (intro preserves_intros assms data protected)
  have store: "preserves f (store_protected env profile u key p)" for key p
    unfolding store_protected_def at_stage_def calls Let_def
    by (intro preserves_intros assms)
  have rest: "preserves f (update_metadata env profile key v d)" "preserves f (block_puk env profile p r)" for key v d p r
    unfolding update_metadata_def block_puk_def at_stage_def calls by (intro preserves_intros assms)+
  show ?thesis
    unfolding set_management_key_synced_def at_stage_def calls
    by (intro preserves_intros assms prepare store rest)
qed

text \<open>
  The world of the command: the terminal and the reading calls touch neither the files nor the
  management key, the file operations do not touch the card, exchanges do not touch the files, and
  card and file system behave as documented.
\<close>

definition key_world :: "'w piv_commands \<Rightarrow> ('w \<Rightarrow> contents) \<Rightarrow> ('w \<Rightarrow> nat \<Rightarrow> path) \<Rightarrow> ('w \<Rightarrow> piv_card) \<Rightarrow> bool" where
  "key_world env files opened view \<longleftrightarrow>
     command_frame env (\<lambda>w. (files w, card_key (view w)))
   \<and> recovery_frame (recovery_at env) (\<lambda>w. card_key (view w))
   \<and> recovery_laws (recovery_at env) files opened
   \<and> (\<forall>t. card_laws (piv_at (pm_cli env) t) (tg_profile t) view)
   \<and> (\<forall>c command. preserves files (conn_exchange (pm_terminal env) c command))"

lemma preserves_pair:
  "preserves (\<lambda>w. (f w, g w)) m \<longleftrightarrow> preserves f m \<and> preserves g m"
  by (auto simp: preserves_def wp_def)

lemma replace_key_wp:
  assumes "key_world env files opened view"
  shows "preserves files (replace_key env t args a bytes m p)"
    "wp (replace_key env t args a bytes m p) (\<lambda>r w'. card_key (view w') = card_key (view w)
       \<or> management_key_from_bytes (pm_host env) a bytes = Ok (card_key (view w'))) w"
proof -
  let ?penv = "piv_at (pm_cli env) t"
  from assms have random: "preserves (\<lambda>w. (files w, card_key (view w))) (fill_random ?penv n)" for n
    by (simp add: key_world_def command_frame_def)
  have exchange: "preserves files (env_exchange ?penv c)" for c
    using assms by (simp add: key_world_def piv_at_def pm_terminal_def)
  from random have random': "preserves files (fill_random ?penv n)" "preserves (\<lambda>w. card_key (view w)) (fill_random ?penv n)" for n
    by (simp_all add: preserves_pair)
  have synced: "preserves files (set_management_key_synced ?penv (tg_profile t) u)" for u
    by (rule preserves_synced [OF exchange random'(1)])
  have access: "preserves files (resolved_access ?penv x m)" "preserves (\<lambda>w. card_key (view w)) (resolved_access ?penv x m)" for x
    unfolding resolved_access_def mutual_auth_def by (intro preserves_intros random')+
  show "preserves files (replace_key env t args a bytes m p)"
    unfolding replace_key_def with_access_def piv_session_run_def piv_run_typed_def
    by (intro preserves_intros access synced)
  from assms have laws: "card_laws ?penv (tg_profile t) view" by (simp add: key_world_def)
  have host: "host ?penv = pm_host env" by (simp add: piv_at_def pm_host_def)
  show "wp (replace_key env t args a bytes m p) (\<lambda>r w'. card_key (view w') = card_key (view w)
       \<or> management_key_from_bytes (pm_host env) a bytes = Ok (card_key (view w'))) w"
    unfolding replace_key_def with_access_def piv_session_run_def piv_run_typed_def wp_map_err wp_bind
  proof (rule preserves_wp [OF access(2)], goal_cases)
    case (1 r w1)
    show ?case
    proof (cases r)
      case (Inr x)
      show ?thesis unfolding Inr sum.case
        by (rule wp_mono [OF synced_key_wp [OF laws]]) (use 1 in \<open>auto simp: host\<close>)
    qed (use 1 in simp)
  qed
qed


text \<open>What an outcome that changed the key must show: success, or the file with the key, named by the error.\<close>

definition key_accounted :: "'w piv_commands \<Rightarrow> ('w \<Rightarrow> contents) \<Rightarrow> ('w \<Rightarrow> piv_card) \<Rightarrow> change_management_args
    \<Rightarrow> 'w \<Rightarrow> message + unit \<Rightarrow> 'w \<Rightarrow> bool" where
  "key_accounted env files view args w r w' \<longleftrightarrow>
     card_key (view w') = card_key (view w)
   \<or> (\<exists>t a bytes path. management_key_from_bytes (pm_host env) a bytes = Ok (card_key (view w'))
        \<and> files w path = None
        \<and> (case r of Ok _ \<Rightarrow> files w' \<in> {files w, (files w)(path := Some (recovery_contents (recovery_at env) (change_request env t args a bytes)))}
           | Err e \<Rightarrow> files w' = (files w)(path := Some (recovery_contents (recovery_at env) (change_request env t args a bytes)))
               \<and> (\<exists>cause. e = cause @ lit ''; management key recovery file retained at '' @ path)))"

lemma key_accountedI:
  assumes "card_key (view w') = card_key (view w) \<or> management_key_from_bytes (pm_host env) a bytes = Ok (card_key (view w'))"
    and "files w path = None"
    and "case r of
        Ok _ \<Rightarrow> files w' \<in> {files w, (files w)(path := Some (recovery_contents (recovery_at env) (change_request env t args a bytes)))}
      | Err e \<Rightarrow> files w' = (files w)(path := Some (recovery_contents (recovery_at env) (change_request env t args a bytes)))
          \<and> (\<exists>cause. e = cause @ lit ''; management key recovery file retained at '' @ path)"
  shows "key_accounted env files view args w r w'"
  using assms unfolding key_accounted_def by blast

lemma replacement_under_recovery:
  assumes world: "key_world env files opened view"
    and same: "files w0 = files w" "card_key (view w0) = card_key (view w)"
  shows "wp (proc_bind (recovery_create (recovery_at env) (change_request env t args a bytes)) (\<lambda>path.
     proc_bind (piv_eprintln (pm_cli env) (says path)) (\<lambda>_.
     proc_bind (recovery_run (recovery_at env) path (replace_key env t args a bytes m p)) (\<lambda>_.
     piv_println (pm_cli env) done_text)))) (key_accounted env files view args w) w0"
proof -
  let ?rq = "change_request env t args a bytes" and ?rec = "recovery_at env" and ?op = "replace_key env t args a bytes m p"
  let ?f = "\<lambda>w. (files w, card_key (view w))"
  from world have frame: "command_frame env ?f" and rframe: "recovery_frame ?rec (\<lambda>w. card_key (view w))"
    and laws: "recovery_laws ?rec files opened" by (simp_all add: key_world_def)
  have print: "?f (piv_print (pm_cli env) t' w') = ?f w'" "?f (stderr_print (pcl_cli (pm_cli env)) t' w') = ?f w'" for t' w'
    by (rule command_frameD(2) [OF frame], rule terminal_frameD(6) [OF command_frameD(1) [OF frame]])
  have op_files: "files w2 = files w1" if "?op w1 = Some (r, w2)" for w1 r w2
    by (rule preservesD [OF replace_key_wp(1) [OF world] that])
  show ?thesis unfolding wp_bind [where m = "recovery_create _ _"]
  proof (subst wp_def, intro allI impI)
    fix r w1 assume create: "recovery_create ?rec ?rq w0 = Some (r, w1)"
    have key1: "card_key (view w1) = card_key (view w)"
      using preservesD [OF preserves_recovery_create [OF rframe] create] same(2) by simp
    show "case r of Err e \<Rightarrow> key_accounted env files view args w (Err e) w1
      | Ok path \<Rightarrow> wp (proc_bind (piv_eprintln (pm_cli env) (says path)) (\<lambda>_.
          proc_bind (recovery_run ?rec path ?op) (\<lambda>_. piv_println (pm_cli env) done_text))) (key_accounted env files view args w) w1"
    proof (cases r)
      case (Inl e)
      with key1 show ?thesis by (simp add: key_accounted_def)
    next
      case (Inr path)
      have new: "files w path = None" "files w1 = (files w)(path := Some (recovery_contents ?rec ?rq))"
        using recovery_protects_replacement [OF laws op_files create] Inr same(1) by simp_all
      show ?thesis unfolding Inr sum.case
      proof (rule frame_bind [of ?f])
        show "preserves ?f (piv_eprintln (pm_cli env) (says path))"
          unfolding piv_eprintln_def by (intro preserves_step print)
        fix x w2 assume "?f w2 = ?f w1"
        with new key1 have w2: "files w2 = files w1" "card_key (view w2) = card_key (view w)" by simp_all
        show "wp (proc_bind (recovery_run ?rec path ?op) (\<lambda>_. piv_println (pm_cli env) done_text)) (key_accounted env files view args w) w2"
          unfolding wp_bind
        proof (subst wp_def, intro allI impI, goal_cases)
          case (1 q w3)
          note ran = this
          show ?case
          proof (cases q)
            case (Inl e)
            with ran obtain cause where op: "?op w2 = Some (Err cause, w3)"
              and e: "e = cause @ lit ''; management key recovery file retained at '' @ path"
              by (auto simp: recovery_run_iff)
            from wpD [OF replace_key_wp(2) [OF world] op] w2
            have "card_key (view w3) = card_key (view w) \<or> management_key_from_bytes (pm_host env) a bytes = Ok (card_key (view w3))"
              by simp
            then show ?thesis unfolding Inl sum.case
              by (rule key_accountedI) (use Inl e new w2(1) op_files [OF op] in \<open>auto simp: new(1)\<close>)
          next
            case (Inr u)
            with ran obtain w4 cleanup w5 says' where op: "?op w2 = Some (Ok (), w4)"
              and rm: "remove_recovery ?rec path w4 = Some (cleanup, w5)" and w3: "w3 = rv_eprintln ?rec says' w5"
              by (auto simp: recovery_run_iff)
            have key3: "card_key (view w3) = card_key (view w4)"
              using preservesD [OF preserves_remove_recovery [OF rframe] rm] recovery_frameD(10) [OF rframe] w3 by simp
            have files3: "files w3 \<in> {files w, files w1}"
              using wpD [OF remove_recovery_wp [OF laws] rm] op_files [OF op] w2(1) new recovery_lawsD(4) [OF laws] w3 by auto
            from wpD [OF replace_key_wp(2) [OF world] op] w2 key3
            have key: "card_key (view w3) = card_key (view w) \<or> management_key_from_bytes (pm_host env) a bytes = Ok (card_key (view w3))"
              by simp
            show ?thesis unfolding Inr sum.case piv_println_def wp_def
              using print key files3 new
              by (auto intro!: key_accountedI [where path = path and t = t and a = a and bytes = bytes])
          qed
        qed
      qed (use key1 in \<open>simp add: key_accounted_def\<close>)
    qed
  qed
qed


section \<open>A lost response\<close>

text \<open>A card that performs the replacement and whose response is lost, beside a file system.\<close>

definition beside :: "('f, 'e, 'a) proc \<Rightarrow> ('k \<times> 'f, 'e, 'a) proc" where
  "beside m w = map_option (\<lambda>(r, f). (r, (fst w, f))) (m (snd w))"

lemma beside_wp: "wp (beside m) Q w = wp m (\<lambda>r f. Q r (fst w, f)) (snd w)"
  by (auto simp: wp_def beside_def)

lemma beside_fst: "preserves fst (beside m)" "preserves (\<lambda>w. g (fst w)) (beside m)"
  by (auto simp: preserves_def wp_def beside_def)

definition beside_fs :: "'f fs_env \<Rightarrow> ('k \<times> 'f) fs_env" where
  "beside_fs env = \<lparr>
     symlink_metadata = \<lambda>p. beside (symlink_metadata env p), canonicalize = \<lambda>p. beside (canonicalize env p),
     file_metadata_of = \<lambda>p. beside (file_metadata_of env p), open_write = \<lambda>p. beside (open_write env p),
     create_new = \<lambda>p b. beside (create_new env p b), set_permissions = \<lambda>h n. beside (set_permissions env h n),
     write_all = \<lambda>h bs. beside (write_all env h bs), sync_all = \<lambda>h. beside (sync_all env h),
     close_file = \<lambda>h w. (fst w, close_file env h (snd w)),
     rename_file = \<lambda>a b. beside (rename_file env a b), remove_file = \<lambda>p. beside (remove_file env p),
     fs_random = \<lambda>n. beside (fs_random env n), show_random = show_random env,
     path_parent = path_parent env, path_file_name = path_file_name env, path_join = path_join env,
     stdout_all = \<lambda>b. beside (stdout_all env b), stdout_done = beside (stdout_done env)\<rparr>"

definition beside_recovery :: "'f recovery_env \<Rightarrow> ('k \<times> 'f) recovery_env" where
  "beside_recovery env = \<lparr>rv_fs = beside_fs (rv_fs env), rv_current_dir = beside (rv_current_dir env),
     rv_open_directory = \<lambda>p. beside (rv_open_directory env p), rv_debug = rv_debug env,
     rv_eprintln = \<lambda>t w. (fst w, rv_eprintln env t (snd w))\<rparr>"

lemma beside_sel:
  "rv_fs (beside_recovery env) = beside_fs (rv_fs env)"
  "rv_open_directory (beside_recovery env) p = beside (rv_open_directory env p)"
  by (simp_all add: beside_recovery_def)

lemma beside_laws:
  assumes "recovery_laws env files opened"
  shows "recovery_laws (beside_recovery env) (\<lambda>w. files (snd w)) (\<lambda>w. opened (snd w))"
    "recovery_frame (beside_recovery env) (\<lambda>w. g (fst w))"
proof -
  have same: "same_files (\<lambda>w. files (snd w)) (\<lambda>w. opened (snd w)) (beside m)" if "same_files files opened m" for m
    using that by (simp add: same_files_def beside_wp)
  note laws = fs_lawsD [OF recovery_lawsD(1) [OF assms]]
  show "recovery_laws (beside_recovery env) (\<lambda>w. files (snd w)) (\<lambda>w. opened (snd w))"
    unfolding recovery_laws_def fs_laws_def beside_recovery_def beside_fs_def recovery_env.simps fs_env.simps
    by (intro conjI allI; (rule same laws recovery_lawsD [OF assms])?;
        (simp only: beside_wp fst_conv snd_conv laws recovery_lawsD [OF assms] cong: sum.case_cong)?)
  show "recovery_frame (beside_recovery env) (\<lambda>w. g (fst w))"
    by (simp add: recovery_frame_def beside_recovery_def beside_fs_def beside_fst)
qed

type_synonym lost_world = "management_key \<times> contents"

definition lost_secrets :: piv_secrets where
  "lost_secrets = sim_secrets\<lparr>lib_verify_pin := \<lambda>_ _. refused, lib_change_pin := \<lambda>_ _ _. refused,
     lib_pin_managed := \<lambda>_ _ _. refused, lib_authenticate := \<lambda>_ _ _. refused,
     lib_set_management_key := \<lambda>_ k _ _ _. if mk_algorithm k = Tdes
       then Ok (single_operation (mk_bytes k) (answer (MutationResult 0))) else refused\<rparr>"

definition lost_piv :: "(lost_world, io_error) piv_env" where
  "lost_piv = \<lparr>env_exchange = \<lambda>_. throw (IoError IoOther ''closed''), fill_random = \<lambda>n. ret (replicate n 7),
     secrets = lost_secrets,
     objects = sim_objects\<lparr>lib_read_object := \<lambda>_ _ _. Err (new_error NotFound), lib_write_object := \<lambda>_ _ _ _. refused\<rparr>,
     keys = sim_keys, host = sim_host\<lparr>auth_mutual := \<lambda>k c. Ok (AuthMutual k c)\<rparr>, tlv = short_tlv, x509 = sample_x509\<rparr>"

definition lost_cli :: "lost_world piv_cli" where
  "lost_cli = \<lparr>
     pcl_cli = (sample_cli [lit ''Canokey''])\<lparr>pc_transmit := \<lambda>_ c w. Some (Err (OtherPcsc 0), (ManagementKey Tdes c, snd w))\<rparr>,
     pcl_piv = lost_piv,
     pcl_admin = \<lparr>admin_exchange = \<lambda>_. throw (IoError IoOther ''closed''), admin_operation = \<lambda>_ _ _. refused,
       admin_operation_existing = \<lambda>_ _. refused, capability_public_configuration = \<lambda>_. Unsupported,
       legacy_sm2_supported = \<lambda>_. False, legacy_sm2_from_bytes = \<lambda>b. Ok (LegacySm2 b), legacy_sm2_enabled = \<lambda>_. False\<rparr>,
     pcl_fs = rv_fs (beside_recovery sample_recovery), pcl_keys = sample_pfx,
     pcl_attest = \<lparr>att_x509 = sample_x509, basic_constraints = \<lambda>_. None, key_usage = \<lambda>_. None, p256_key = \<lambda>_. None,
       ecdsa_signature = \<lambda>_. None, ecdsa_verify = \<lambda>_ _ _. False, slot_reference = \<lambda>_. 0x9a,
       public_key_spki = \<lambda>_. None, att_base64_decode = \<lambda>_. None\<rparr>,
     pcl_custom_random = RandomError 0, pcl_read_file = \<lambda>_. ret [], pcl_read_stdin = ret [],
     pcl_write_file = \<lambda>_ _. ret (), algorithm_from_wire_id = \<lambda>_ _. None, retired_slot = \<lambda>n. Some (Retired (unat n)),
     certificate_from_object = \<lambda>_ _. None, certificate_info = \<lambda>_. None, show_key_error = \<lambda>_. ''key'',
     show_x509_error = \<lambda>_. ''x509'', show_attestation_error = \<lambda>_. ''attestation'', piv_print = \<lambda>_ w. w\<rparr>"

definition lost_env :: "lost_world piv_commands" where
  "lost_env = \<lparr>pm_cli = lost_cli, pm_recovery = beside_recovery sample_recovery, puk_from_bytes = \<lambda>b. Ok (Puk b)\<rparr>"

definition lost_card :: "lost_world \<Rightarrow> piv_card" where
  "lost_card w = \<lparr>card_pin = [], card_key = fst w, card_objects = \<lambda>_. None, card_puk_blocked = False\<rparr>"

lemma lost_sel:
  "pm_cli lost_env = lost_cli" "pm_terminal lost_env = pcl_cli lost_cli" "pcl_piv lost_cli = lost_piv"
  "pcl_fs lost_cli = beside_fs (rv_fs sample_recovery)" "pcl_custom_random lost_cli = RandomError 0"
  "secrets lost_piv = lost_secrets" "host lost_piv = sim_host\<lparr>auth_mutual := \<lambda>k c. Ok (AuthMutual k c)\<rparr>"
  "keys lost_piv = sim_keys" "tlv lost_piv = short_tlv" "fill_random lost_piv n = ret (replicate n 7)"
  "lib_read_object (objects lost_piv) profile oid access = Err (new_error NotFound)"
  "lib_write_object (objects lost_piv) profile oid v access = refused" "piv_print lost_cli x w = w"
  by (simp_all add: lost_env_def pm_terminal_def lost_cli_def beside_recovery_def lost_piv_def)

lemma lost_at:
  "piv_at lost_cli t = lost_piv\<lparr>env_exchange := conn_exchange (pcl_cli lost_cli) (tg_connection t)\<rparr>"
  "conn_exchange (pcl_cli lost_cli) c x w = Some (Err (IoError IoOther ''failed''), (ManagementKey Tdes x, snd w))"
  by (simp_all add: piv_at_def lost_sel conn_exchange_def proc_map_err_def lost_cli_def sample_cli_def)

lemmas lost_run = run_single run_Err run_unit_run lost_at lost_sel refused_def lost_secrets_def sim_keys_def

lemma lost_card_laws: "card_laws (piv_at lost_cli t) profile lost_card"
  unfolding card_laws_def
  by (intro conjI allI)
    (auto simp: keeps_def updates_def wp_def ret_def read_object_def write_object_def verify_pin_def authenticate_def
      set_management_key_def change_pin_def lost_run lost_card_def put_key_def read_result_def new_error_def
      intro: management_key.expand)

lemma lost_recovery: "recovery_at lost_env = beside_recovery sample_recovery"
  by (simp add: recovery_at_def lost_env_def lost_cli_def pm_terminal_def beside_recovery_def sample_cli_def
      sample_recovery_def)

lemma lost_terminal:
  "stderr_print (pcl_cli lost_cli) x w = w" "rpassword (pcl_cli lost_cli) p = ret []"
  "pc_establish (pcl_cli lost_cli) = ret ()" "pc_list_readers (pcl_cli lost_cli) = ret [lit ''Canokey'']"
  "pc_connect (pcl_cli lost_cli) r = ret (length r)" "pc_atr (pcl_cli lost_cli) c = ret []"
  "probe_device (pcl_cli lost_cli) = Ok (done_operation (Ok (DeviceProfile 2)))"
  by (simp_all add: lost_cli_def sample_cli_def)

lemma lost_key_world: "key_world lost_env snd (\<lambda>_ _. sample_temporary) lost_card"
proof -
  have probed: "probe (Ok (done_operation r)) exchange w = Some (map_err Protocol r, w)"
    for r :: "lib_error + 'y" and exchange :: "(lost_world, io_error) exchange" and w
    by (simp add: probe_def execute_def drive_loop.simps)
  have key: "card_key (lost_card w) = fst w" for w by (simp add: lost_card_def)
  have frame: "command_frame lost_env (\<lambda>w. (snd w, card_key (lost_card w)))"
    unfolding command_frame_def terminal_frame_def lost_sel lost_terminal lost_at(1)
    by (auto intro!: preserves_intros simp: probed lost_sel lost_run piv_run_typed_def management_metadata_def
        read_metadata_def read_object_def preserves_def wp_def beside_fs_def sample_recovery_def sample_fs_def
        beside_def ret_def)
  show ?thesis
    unfolding key_world_def lost_recovery lost_sel
    using frame beside_laws [OF sample_recovery_laws] lost_card_laws
    by (auto simp: key preserves_def wp_def lost_at(2) lost_sel)
qed

section \<open>Properties\<close>

text \<open>C31. A changed management key is never lost: whatever happens while the change-management-key command
  runs (a failed exchange, a lost response, a full disk, a refused prompt), if the card's key is no
  longer the old one then it is the requested one, and either the command succeeded or the recovery
  file, new and complete, is on disk and named by the error.\<close>

theorem changed_key_is_recorded:
  assumes "key_world env files opened view"
    and "change_management_key_command env device reader args w = Some (r, w')"
  shows "key_accounted env files view args w r w'"
proof -
  let ?f = "\<lambda>w. (files w, card_key (view w))"
  have frame: "command_frame env ?f" using assms(1) by (simp add: key_world_def)
  have unchanged: "key_accounted env files view args w (Err e) w1" if "?f w1 = ?f w" for e w1
    using that by (simp add: key_accounted_def)
  note session = preserves_session [OF frame] preserves_resolve_pin [OF frame] preserves_new_key_bytes [OF frame]
    preserves_resolve_management [OF frame] preserves_intros
  have "wp (change_management_key_command env device reader args) (key_accounted env files view args w) w"
  proof (cases "ca_new_key args \<noteq> None \<and> ca_generate args")
    case True
    then show ?thesis by (simp add: change_management_key_command_def wp_throw unchanged)
  next
    case False
    show ?thesis
      unfolding change_management_key_command_def if_not_P [OF False]
      by (intro frame_bind [of ?f] session replacement_under_recovery [OF assms(1)])
        (auto intro: unchanged)
  qed
  from wpD [OF this assms(2)] show ?thesis .
qed


definition lost_args :: change_management_args where
  "lost_args = \<lparr>ca_touch = False, ca_new_key = Some (lit (replicate 48 CHR ''9'')), ca_algorithm = Some Tdes,
     ca_protect = False, ca_generate = False, ca_recovery_file = Some sample_temporary, ca_force = True,
     ca_management_key = Some (lit (replicate 48 CHR ''1'')), ca_pin = None\<rparr>"

definition lost_target :: target where
  "lost_target = \<lparr>tg_connection = \<lparr>conn_card = 7, conn_reader = lit ''Canokey'', conn_atr = []\<rparr>, tg_profile = DeviceProfile 2\<rparr>"

lemma lost_connect: "piv_connect lost_cli None None w = Some (Ok lost_target, w)"
proof -
  have texts: "is_canokey \<lparr>conn_card = 7, conn_reader = lit ''Canokey'', conn_atr = []\<rparr>"
    "reader_name (lit ''Canokey'') = lit ''Canokey''" "length (lit ''Canokey'') = 7"
    by code_simp+
  show ?thesis
    by (simp add: piv_connect_def pcsc_result_def single_target_def readers_def lost_terminal selection_candidate_def
        connect_reader_def texts proc_try_def proc_bind_def proc_map_err_def ret_def probe_def lift_res_def execute_def
        drive_loop.simps lost_target_def)
qed

lemma lost_new_key: "hex_decode (lit (replicate 48 CHR ''9'')) = Some (replicate 24 0x99)"
  "hex_decode (lit (replicate 48 CHR ''1'')) = Some (replicate 24 0x11)"
  by code_simp+

lemma lost_algorithm: "management_algorithm_of lost_cli t w = Some (Ok Tdes, w)"
  by (simp add: management_algorithm_of_def piv_run_typed_def management_metadata_def read_metadata_def lost_run proc_try_def
      is_capability_gate_def new_error_def ret_def)

lemma lost_resolve:
  "resolve_management_protection lost_cli t (Some (lit (replicate 48 CHR ''1''))) p b w
     = Some (Ok \<lparr>rm_key = ManagementKey Tdes (replicate 24 0x11), rm_pin = None\<rparr>, w)"
  by (simp add: resolve_management_protection_def management_key_of_text_def lost_new_key lost_algorithm proc_bind_def
      lift_res_def lost_sel sim_host_def ret_def)

lemma lost_create:
  assumes "rq_path rq = Some sample_temporary" "f sample_temporary = None"
  shows "recovery_create (recovery_at lost_env) rq (k, f)
    = Some (Ok sample_temporary, (k, f(sample_temporary \<mapsto> recovery_contents (recovery_at lost_env) rq)))"
proof -
  have "sample_temporary \<noteq> []" by code_simp
  with assms show ?thesis unfolding lost_recovery
    by (simp add: recovery_create_def eval_nat_numeral attempt_path_def resolve_path_def save_recovery_def
        sync_directory_def beside_sel beside_fs_def beside_def sample_recovery_sel sample_fs_def proc_bind_def
        proc_try_def proc_map_err_def ret_def lift_res_def fun_eq_iff)
qed

lemma lost_read_pivman: "read_pivman_data (piv_at lost_cli t) profile w = Some (Ok default_data, w)"
  by (simp add: read_pivman_data_def pivman_object_id_def fixed_object_id_def lost_at lost_sel sim_host_def
      read_tolerant_def read_object_def run_Err proc_try_def proc_bind_def new_error_def ret_def)

lemma lost_replace:
  "\<exists>e. replace_key lost_env t lost_args Tdes (replicate 24 0x99) \<lparr>rm_key = k, rm_pin = None\<rparr> p w
     = Some (Err e, (ManagementKey Tdes (replicate 24 0x99), snd w))"
proof -
  let ?penv = "piv_at lost_cli t"
  have flags: "\<not> has_stored_key default_data" by (simp add: has_stored_key_def default_data_def flag_bits_def)
  have access: "resolved_access ?penv (RandomError 0) \<lparr>rm_key = k, rm_pin = None\<rparr> w
      = Some (Ok (AccessManagement (AuthMutual k (replicate 8 7))), w)"
    by (simp add: resolved_access_def mutual_auth_def lost_at lost_sel sim_host_def proc_bind_def proc_map_err_def ret_def)
  have prepare: "prepare_update ?penv profile u w = Some (Ok (ManagementKey Tdes (replicate 24 0x99), None, default_data, None), w)"
    if "mu_key_bytes u = replicate 24 0x99" "mu_algorithm u = Tdes" "\<not> mu_protect u" for u profile
    using that flags by (simp add: prepare_update_def lost_at lost_sel sim_host_def lib_result_def proc_bind_def ret_def
        lost_read_pivman [unfolded lost_at(1)])
  have lost: "set_management_key ?penv profile (ManagementKey Tdes x) touch a w
      = Some (Err (PivDrive (Transport (IoError IoOther ''failed''))), (ManagementKey Tdes x, snd w))" for profile x touch a
    by (simp add: set_management_key_def lost_run)
  let ?u = "\<lparr>mu_key_bytes = replicate 24 0x99, mu_algorithm = Tdes, mu_touch = ManagementTouchNever, mu_protect = False,
     mu_pin = p, mu_access = AccessManagement (AuthMutual k (replicate 8 7))\<rparr>"
  have "\<exists>e. set_management_key_synced ?penv (tg_profile t) ?u w = Some (Err e, (ManagementKey Tdes (replicate 24 0x99), snd w))"
    using prepare [of ?u, unfolded lost_at(1)] lost [unfolded lost_at(1)]
    by (simp add: set_management_key_synced_def proc_bind_def lost_at lost_sel short_data ret_def at_stage_def proc_map_err_def)
  then obtain e where "set_management_key_synced ?penv (tg_profile t) ?u w
      = Some (Err e, (ManagementKey Tdes (replicate 24 0x99), snd w))" ..
  then show ?thesis
    by (simp add: replace_key_def with_access_def piv_session_run_def piv_run_typed_def lost_sel proc_map_err_def
        proc_bind_def access [unfolded lost_sel] lost_args_def)
qed

theorem changed_key_is_recorded_witness:
  "\<exists>e w'. key_accounted lost_env snd lost_card lost_args (ManagementKey Tdes DEFAULT_MANAGEMENT_KEY, \<lambda>_. None) (Err e) w'
     \<and> card_key (lost_card w') = ManagementKey Tdes (replicate 24 0x99) \<and> snd w' sample_temporary \<noteq> None"
proof -
  let ?w = "(ManagementKey Tdes DEFAULT_MANAGEMENT_KEY, \<lambda>_. None) :: lost_world"
  let ?m = "\<lparr>rm_key = ManagementKey Tdes (replicate 24 0x11), rm_pin = None\<rparr>"
  let ?rq = "change_request lost_env lost_target lost_args Tdes (replicate 24 0x99)"
  let ?w1 = "(ManagementKey Tdes DEFAULT_MANAGEMENT_KEY, [sample_temporary \<mapsto> recovery_contents (recovery_at lost_env) ?rq])"
  have create: "recovery_create (recovery_at lost_env) ?rq ?w = Some (Ok sample_temporary, ?w1)"
    by (subst lost_create) (simp_all add: change_request_def lost_args_def)
  have bytes: "new_key_bytes lost_env lost_args ?w = Some (Ok (replicate 24 0x99), ?w)"
    "management_key_from_bytes (pm_host lost_env) Tdes (replicate 24 0x99) = Ok (ManagementKey Tdes (replicate 24 0x99))"
    by (simp_all add: new_key_bytes_def lost_args_def key_bytes_of_hex_def lost_new_key lift_res_def pm_host_def lost_sel sim_host_def)
  obtain e where failed: "replace_key lost_env lost_target lost_args Tdes (replicate 24 0x99) ?m None ?w1
      = Some (Err e, (ManagementKey Tdes (replicate 24 0x99), snd ?w1))"
    using lost_replace by blast
  then have ran: "recovery_run (recovery_at lost_env) sample_temporary (replace_key lost_env lost_target lost_args Tdes (replicate 24 0x99) ?m None) ?w1
      = Some (Err (e @ lit ''; management key recovery file retained at '' @ sample_temporary), (ManagementKey Tdes (replicate 24 0x99), snd ?w1))"
    by (simp add: recovery_run_iff)
  let ?e = "e @ lit ''; management key recovery file retained at '' @ sample_temporary"
  have args: "ca_new_key lost_args = Some x \<Longrightarrow> \<not> ca_generate lost_args" "ca_algorithm lost_args = Some Tdes" "\<not> ca_protect lost_args"
    "ca_management_key lost_args = Some (lit (replicate 48 CHR ''1''))" for x
    by (simp_all add: lost_args_def)
  have run: "change_management_key_command lost_env None None lost_args ?w
      = Some (Err ?e, (ManagementKey Tdes (replicate 24 0x99), snd ?w1))"
    unfolding change_management_key_command_def
    using args bytes create ran
    by (auto simp: proc_bind_def lost_sel lost_connect lost_resolve lift_res_def ret_def piv_eprintln_def lost_terminal)
  from changed_key_is_recorded [OF lost_key_world run] show ?thesis
    by (intro exI [of _ ?e] exI [of _ "(ManagementKey Tdes (replicate 24 0x99), snd ?w1)"]) (simp add: lost_card_def)
qed

end
