(* ===== verification/PivConsent.thy ===== *)
theory PivConsent
  imports PivKeySafety "HOL-Library.Sublist"
begin

text \<open>
  What a user is told before a PIV key is replaced, \<^verbatim>\<open>crates/ckman/src/commands/piv/overwrite.rs\<close>: a
  specification of the question from what the card reported, apart from the code that words it, and
  the proof that replacing is let through only when the slot is vacant or such a question was agreed to.
\<close>

section \<open>What the card reported\<close>

definition says_missing :: "io_error piv_error \<Rightarrow> bool" where
  "says_missing e \<longleftrightarrow> (\<exists>x. e = PivDrive (Protocol x) \<and> err_kind x = NotFound \<and> err_phase x = Some PhaseCommand)"

definition says_unsupported :: "io_error piv_error \<Rightarrow> bool" where
  "says_unsupported e \<longleftrightarrow> (\<exists>x. e = PivDrive (Protocol x)
     \<and> (err_kind x = UnsupportedFeature \<or> err_kind x = CapabilityUnknown)
     \<and> (err_phase x = Some PhaseConstruction \<or> err_phase x = Some PhaseCommand))"

definition key_present :: "metadata_fields \<Rightarrow> bool" where
  "key_present mf \<longleftrightarrow> mf_origin mf \<noteq> Some (Known NotPresent) \<or> mf_public_key mf \<noteq> None"

text \<open>The two reads say that nothing is there; they say enough to go on.\<close>

definition slot_vacant :: "io_error piv_error + metadata_fields \<Rightarrow> io_error piv_error + byte list \<Rightarrow> bool" where
  "slot_vacant m c \<longleftrightarrow> (case m of Ok mf \<Rightarrow> \<not> key_present mf | Err e \<Rightarrow> says_missing e)
     \<and> (case c of Ok bytes \<Rightarrow> False | Err e \<Rightarrow> says_missing e)"

definition slot_readable :: "key_reference \<Rightarrow> io_error piv_error + metadata_fields \<Rightarrow> io_error piv_error + byte list \<Rightarrow> bool" where
  "slot_readable reference m c \<longleftrightarrow>
     (case m of Ok mf \<Rightarrow> True | Err e \<Rightarrow> says_missing e \<or> (reference \<noteq> AttestationRef \<and> says_unsupported e))
     \<and> (case c of Ok bytes \<Rightarrow> True | Err e \<Rightarrow> says_missing e)"

section \<open>What the question says\<close>

text \<open>Of the key: that there is one, with the fingerprint of its public key; that it cannot be told; or
  that the slot holds only a certificate.\<close>

definition tells_key :: "'w piv_cli \<Rightarrow> key_reference \<Rightarrow> io_error piv_error + metadata_fields \<Rightarrow> byte list \<Rightarrow> bool" where
  "tells_key env reference m question \<longleftrightarrow>
    (let only_certificate =
       sublist (lit ''Slot '' @ key_name env reference @ lit '' already contains a certificate.'') question
     in case m of
       Ok mf \<Rightarrow>
         if key_present mf
         then sublist (lit ''Slot '' @ key_name env reference @ lit '' already contains a private key.'') question
           \<and> (\<forall>public der. mf_public_key mf = Some public \<and> public_key_spki (pcl_attest env) public = Some der
               \<longrightarrow> sublist (lit ''Existing public key SHA-256: '' @ hex_text (host_sha256 env der)) question)
         else only_certificate
     | Err e \<Rightarrow>
         if says_missing e then only_certificate
         else sublist (lit ''Cannot determine whether slot '' @ key_name env reference
           @ lit '' contains a private key on this firmware.'') question)"

text \<open>Of the certificate that stays: its subject and fingerprint, or the fingerprint of the object.\<close>

definition tells_certificate :: "'w piv_cli \<Rightarrow> byte list \<Rightarrow> byte list \<Rightarrow> bool" where
  "tells_certificate env bytes question \<longleftrightarrow>
     sublist (lit ''Existing certificate (retained by this operation):'') question
     \<and> (\<forall>certificate subject fingerprint. certificate_from_object env bytes (16 * 1024) = Some certificate
          \<and> certificate_info env (piv_certificate_der certificate) = Some (subject, fingerprint)
          \<longrightarrow> sublist (lit ''Subject: '' @ subject) question \<and> sublist (lit ''SHA-256: '' @ hex_text fingerprint) question)
     \<and> ((\<forall>certificate. certificate_from_object env bytes (16 * 1024) = Some certificate
            \<longrightarrow> certificate_info env (piv_certificate_der certificate) = None)
          \<longrightarrow> sublist (lit ''object SHA-256: '' @ hex_text (host_sha256 env bytes)) question)"

definition tells_slot :: "'w piv_cli \<Rightarrow> key_reference \<Rightarrow> io_error piv_error + metadata_fields
    \<Rightarrow> io_error piv_error + byte list \<Rightarrow> byte list \<Rightarrow> bool" where
  "tells_slot env reference m c question \<longleftrightarrow>
     tells_key env reference m question
     \<and> (\<forall>bytes. c = Ok bytes \<longrightarrow> tells_certificate env bytes question)
     \<and> (reference = AttestationRef \<longrightarrow> sublist (lit ''Replacing the F9 signer changes attestation identity and trust.'') question)
     \<and> sublist (lit ''Replacing a private key is irreversible.'') question
     \<and> suffix (lit ''Replace this slot's private key?'') question"

section \<open>The code's question says it\<close>

lemma object_missing_says: "object_missing e \<longleftrightarrow> says_missing e"
  by (auto simp: object_missing_def says_missing_def split: piv_error.splits drive_error.splits)

lemma object_unavailable_says: "object_unavailable e \<longleftrightarrow> says_unsupported e"
  by (auto simp: object_unavailable_def says_unsupported_def split: piv_error.splits drive_error.splits)

lemma slot_vacant_code: "metadata_vacant m \<and> certificate_vacant c \<longleftrightarrow> slot_vacant m c"
  by (auto simp: metadata_vacant_def certificate_vacant_def slot_vacant_def key_present_def object_missing_says split: sum.splits)

lemma sublist_append_left: "sublist x q \<Longrightarrow> sublist x (a @ q)"
  by (metis sublist_append)

lemma sublist_append_right: "sublist x a \<Longrightarrow> sublist x (a @ q)"
  by (metis sublist_append)

text \<open>The literals that a longer sentence begins or contains\<close>

lemma prompt_sentences:
  "sublist (lit ''Existing certificate (retained by this operation):'') (lit ''Existing certificate (retained by this operation):'' @ q)"
  "sublist (lit ''Replacing the F9 signer changes attestation identity and trust.'')
     (lit ''Replacing the F9 signer changes attestation identity and trust. The existing certificate will be retained and may no longer match.'')"
  "sublist (lit ''Replacing a private key is irreversible.'')
     (lit ''Replacing a private key is irreversible. A retained certificate may no longer match. Replace this slot's private key?'')"
  "suffix (lit ''Replace this slot's private key?'')
     (lit ''Replacing a private key is irreversible. A retained certificate may no longer match. Replace this slot's private key?'')"
proof -
  have split: "suffix (lit t) (lit (s @ t))" "sublist (lit s) (lit (s @ t))" for s t
    by (simp_all add: lit_def suffix_appendI)
  show "sublist (lit ''Existing certificate (retained by this operation):'') (lit ''Existing certificate (retained by this operation):'' @ q)"
    by (rule sublist_append_rightI)
  show "sublist (lit ''Replacing the F9 signer changes attestation identity and trust.'')
     (lit ''Replacing the F9 signer changes attestation identity and trust. The existing certificate will be retained and may no longer match.'')"
    using split(2) [of "''Replacing the F9 signer changes attestation identity and trust.''"
        "'' The existing certificate will be retained and may no longer match.''"] by simp
  show "sublist (lit ''Replacing a private key is irreversible.'')
     (lit ''Replacing a private key is irreversible. A retained certificate may no longer match. Replace this slot's private key?'')"
    using split(2) [of "''Replacing a private key is irreversible.''"
        "'' A retained certificate may no longer match. Replace this slot's private key?''"] by simp
  show "suffix (lit ''Replace this slot's private key?'')
     (lit ''Replacing a private key is irreversible. A retained certificate may no longer match. Replace this slot's private key?'')"
    using split(1) [of "''Replace this slot's private key?''"
        "''Replacing a private key is irreversible. A retained certificate may no longer match. ''"] by simp
qed

lemma tells_key_longer: "tells_key env reference m a \<Longrightarrow> sublist a q \<Longrightarrow> tells_key env reference m q"
  by (fastforce simp: tells_key_def Let_def intro: sublist_order.order_trans split: sum.splits if_splits)

lemma tells_certificate_longer: "tells_certificate env bytes a \<Longrightarrow> sublist a q \<Longrightarrow> tells_certificate env bytes q"
  unfolding tells_certificate_def by (meson sublist_order.order_trans)

lemma key_status_tells:
  assumes "key_status env reference m = Ok st"
  shows "tells_key env reference m (case st of Some t \<Rightarrow> t
    | None \<Rightarrow> lit ''Slot '' @ key_name env reference @ lit '' already contains a certificate.'')"
proof (cases m)
  case (Inl e)
  with assms show ?thesis
    by (auto simp: key_status_def tells_key_def object_missing_says Let_def split: if_splits)
next
  case (Inr mf)
  have "sublist (lit ''Existing public key SHA-256: '' @ hex_text (host_sha256 env der)) (x @ key_fingerprint env mf)"
    if "mf_public_key mf = Some public" "public_key_spki (pcl_attest env) public = Some der" for public der x
    unfolding key_fingerprint_def using that by (simp del: append_Cons) (intro sublist_append_left sublist_order.order_refl)
  from this [of _ _ "lit ''Slot '' @ key_name env reference @ lit '' already contains a private key.''"] Inr assms show ?thesis
    by (auto simp: key_status_def tells_key_def key_present_def Let_def split: if_splits)
qed

lemma certificate_summary_tells:
  "tells_certificate env bytes (lit ''Existing certificate (retained by this operation):'' @ [0x0a] @ certificate_summary env bytes)"
  unfolding tells_certificate_def
proof (intro conjI allI impI)
  let ?q = "lit ''Existing certificate (retained by this operation):'' @ [0x0a] @ certificate_summary env bytes"
  show "sublist (lit ''Existing certificate (retained by this operation):'') ?q" by (rule sublist_append_rightI)
  fix certificate subject fingerprint
  assume "certificate_from_object env bytes (16 * 1024) = Some certificate
    \<and> certificate_info env (piv_certificate_der certificate) = Some (subject, fingerprint)"
  then have "certificate_summary env bytes
      = (lit ''Subject: '' @ subject) @ [0x0a] @ (lit ''SHA-256: '' @ hex_text fingerprint)"
    by (simp add: certificate_summary_def)
  then have "sublist (lit ''Subject: '' @ subject) (certificate_summary env bytes)"
    "sublist (lit ''SHA-256: '' @ hex_text fingerprint) (certificate_summary env bytes)"
    by (simp_all only: sublist_append_rightI sublist_append_left sublist_append_leftI)
  then show "sublist (lit ''Subject: '' @ subject) ?q" "sublist (lit ''SHA-256: '' @ hex_text fingerprint) ?q"
    by (simp_all only: sublist_append_left)
next
  let ?q = "lit ''Existing certificate (retained by this operation):'' @ [0x0a] @ certificate_summary env bytes"
  assume none: "\<forall>certificate. certificate_from_object env bytes (16 * 1024) = Some certificate
    \<longrightarrow> certificate_info env (piv_certificate_der certificate) = None"
  have "certificate_summary env bytes = lit (''Unparseable certificate object ('' @ show_nat (length bytes) @ '' bytes); '')
      @ (lit ''object SHA-256: '' @ hex_text (host_sha256 env bytes))"
    using none by (cases "certificate_from_object env bytes (16 * 1024)") (auto simp: certificate_summary_def lit_def)
  then show "sublist (lit ''object SHA-256: '' @ hex_text (host_sha256 env bytes)) ?q"
    by (simp only:) (intro sublist_append_left sublist_append_leftI)
qed

lemma key_prompt_tells:
  assumes "key_status env reference m = Ok st" "certificate_status env c = Ok certificate"
  shows "tells_slot env reference m c (key_prompt env reference st certificate)"
proof -
  let ?q = "key_prompt env reference st certificate"
  let ?key = "case st of Some t \<Rightarrow> t
    | None \<Rightarrow> lit ''Slot '' @ key_name env reference @ lit '' already contains a certificate.''"
  have "sublist ?key ?q" unfolding key_prompt_def by (rule sublist_append_rightI)
  with key_status_tells [OF assms(1)] have "tells_key env reference m ?q" by (rule tells_key_longer)
  moreover have "tells_certificate env bytes ?q" if "c = Ok bytes" for bytes
  proof (rule tells_certificate_longer [OF certificate_summary_tells])
    from assms(2) that have "certificate = Some (certificate_summary env bytes)" by (simp add: certificate_status_def)
    then show "sublist (lit ''Existing certificate (retained by this operation):'' @ [0x0a] @ certificate_summary env bytes) ?q"
      by (simp only: key_prompt_def option.case) (rule sublist_append_left, rule sublist_append_right, rule sublist_append_leftI)
  qed
  moreover have "sublist (lit ''Replacing the F9 signer changes attestation identity and trust.'') ?q" if "reference = AttestationRef"
    by (simp only: key_prompt_def that if_True simp_thms)
      (rule sublist_append_left, rule sublist_append_left, rule sublist_append_right, rule sublist_append_left, rule prompt_sentences(2))
  moreover have "sublist (lit ''Replacing a private key is irreversible.'') ?q"
    unfolding key_prompt_def by (rule sublist_append_left)+ (rule prompt_sentences(3))
  moreover have "suffix (lit ''Replace this slot's private key?'') ?q"
    unfolding key_prompt_def by (rule suffix_appendI)+ (rule prompt_sentences(4))
  ultimately show ?thesis unfolding tells_slot_def by blast
qed

lemma is_ok_iff: "is_ok r \<longleftrightarrow> (\<exists>x. r = Ok x)"
  by (cases r) simp_all

lemma statuses_readable:
  "is_ok (key_status env reference m) \<and> is_ok (certificate_status env c) \<longleftrightarrow> slot_readable reference m c"
  by (auto simp: key_status_def certificate_status_def slot_readable_def object_missing_says object_unavailable_says
      split: sum.splits)

lemma exists_Ok: "(\<exists>x. r = Ok x \<and> P x) \<longleftrightarrow> is_ok r \<and> P (projr r)"
  by (cases r) simp_all

lemma overwrite_key_gathered:
  "overwrite_key env penv profile reference ask w = Some (Ok (), w') \<longleftrightarrow>
    (\<exists>m w1 c w2. reference_metadata reference penv profile w = Some (m, w1)
     \<and> read_certificate_object penv profile (key_certificate reference) w1 = Some (c, w2)
     \<and> (\<exists>st. key_status env reference m = Ok st \<and> (\<exists>certificate. certificate_status env c = Ok certificate
       \<and> (if metadata_vacant m \<and> certificate_vacant c then w' = w2
          else ask (key_prompt env reference st certificate) w2 = Some (Ok True, w')))))"
  unfolding overwrite_key_Ok by blast

section \<open>Properties\<close>

text \<open>C30. Replacing a key is let through in exactly two ways, when the slot's metadata and certificate can
  be read: both say that nothing is there, or the user agreed to a question.  That question tells of the
  key or that it cannot be told, of the certificate that stays with its subject and fingerprint, for F9
  of the loss of attestation identity, and that replacing is irreversible.  A read that fails otherwise,
  or any other answer, is an error.\<close>

theorem overwrite_key_consent:
  "\<exists>question. (\<forall>m c. slot_readable reference m c \<and> \<not> slot_vacant m c \<longrightarrow> tells_slot env reference m c (question m c))
     \<and> (\<forall>ask penv profile w w'. overwrite_key env penv profile reference ask w = Some (Ok (), w') \<longleftrightarrow>
         (\<exists>m w1 c w2. reference_metadata reference penv profile w = Some (m, w1)
          \<and> read_certificate_object penv profile (key_certificate reference) w1 = Some (c, w2)
          \<and> slot_readable reference m c
          \<and> (if slot_vacant m c then w' = w2 else ask (question m c) w2 = Some (Ok True, w'))))"
proof (intro exI [of _ "\<lambda>m c. key_prompt env reference (projr (key_status env reference m)) (projr (certificate_status env c))"]
    conjI allI impI)
  fix m c assume "slot_readable reference m c \<and> \<not> slot_vacant m c"
  with statuses_readable [of env reference m c] have "is_ok (key_status env reference m)" "is_ok (certificate_status env c)"
    by simp_all
  then show "tells_slot env reference m c
      (key_prompt env reference (projr (key_status env reference m)) (projr (certificate_status env c)))"
    by (intro key_prompt_tells) (auto simp: is_ok_iff)
next
  fix ask penv profile w w'
  show "overwrite_key env penv profile reference ask w = Some (Ok (), w') \<longleftrightarrow>
      (\<exists>m w1 c w2. reference_metadata reference penv profile w = Some (m, w1)
       \<and> read_certificate_object penv profile (key_certificate reference) w1 = Some (c, w2)
       \<and> slot_readable reference m c
       \<and> (if slot_vacant m c then w' = w2
          else ask (key_prompt env reference (projr (key_status env reference m)) (projr (certificate_status env c))) w2
            = Some (Ok True, w')))"
    by (simp only: overwrite_key_gathered exists_Ok slot_vacant_code statuses_readable [symmetric, where env = env] conj_assoc)
qed

text \<open>A card whose F9 signer and certificate are there and whose other slots are empty, and a user who agrees
  only after reading of the certificate, of its fingerprint and of the loss of attestation identity.\<close>

definition consent_piv :: "(lost_world, io_error) piv_env" where
  "consent_piv = lost_piv\<lparr>
     keys := sim_keys\<lparr>
       lib_get_metadata := (\<lambda>_ _ _. Err (at_phase (new_error NotFound) PhaseCommand)),
       lib_attestation_metadata := (\<lambda>_. Ok (done_operation (Ok \<lparr>mf_algorithm_id = Some 0xe0, mf_is_default = None,
         mf_origin = Some (Known Imported), mf_public_key = Some (PkRaw Ed25519 [1, 2]), mf_pin_policy = None,
         mf_touch_policy = None, mf_retries = None, mf_unknown_fields = []\<rparr>)))\<rparr>,
     objects := sim_objects\<lparr>lib_read_object := (\<lambda>_ oid _. if oid = ObjectId [0x5f, 0xff, 1]
       then Ok (done_operation (Ok [0xaa])) else Err (at_phase (new_error NotFound) PhaseCommand))\<rparr>\<rparr>"

definition consent_cli :: "lost_world piv_cli" where
  "consent_cli = lost_cli\<lparr>pcl_piv := consent_piv,
     pcl_attest := (pcl_attest lost_cli)\<lparr>public_key_spki := (\<lambda>_. Some [0x30, 4])\<rparr>,
     certificate_from_object := (\<lambda>b _. Some (PivCertificate b)),
     certificate_info := (\<lambda>_. Some (lit ''CN=signer'', [0xab]))\<rparr>"

definition careful_user :: "lost_world ask" where
  "careful_user question = ret (sublist (lit ''Subject: '' @ lit ''CN=signer'') question
     \<and> sublist (lit ''SHA-256: '' @ hex_text [0xab]) question
     \<and> sublist (lit ''Existing public key SHA-256: '' @ hex_text (host_sha256 consent_cli [0x30, 4])) question
     \<and> sublist (lit ''Replacing the F9 signer changes attestation identity and trust.'') question)"

theorem overwrite_key_consent_witness:
  "overwrite_key consent_cli consent_piv (DeviceProfile 2) AttestationRef careful_user (ManagementKey Tdes [], Map.empty)
     = Some (Ok (), (ManagementKey Tdes [], Map.empty))
   \<and> (\<nexists>w'. overwrite_key consent_cli consent_piv (DeviceProfile 2) AttestationRef (\<lambda>_. ret False)
       (ManagementKey Tdes [], Map.empty) = Some (Ok (), w'))
   \<and> overwrite_key consent_cli consent_piv (DeviceProfile 2) (KeyRef Authentication) (\<lambda>_ _. None)
       (ManagementKey Tdes [], Map.empty) = Some (Ok (), (ManagementKey Tdes [], Map.empty))"
proof -
  let ?w = "(ManagementKey Tdes [], Map.empty) :: lost_world" and ?mf = "\<lparr>mf_algorithm_id = Some 0xe0, mf_is_default = None,
    mf_origin = Some (Known Imported), mf_public_key = Some (PkRaw Ed25519 [1, 2]), mf_pin_policy = None,
    mf_touch_policy = None, mf_retries = None, mf_unknown_fields = []\<rparr>"
  let ?none = "Err (PivDrive (Protocol (at_phase (new_error NotFound) PhaseCommand)))"
  have run_done: "run env (Ok (done_operation (Ok x))) w = Some (Ok x, w)"
    for env :: "(lost_world, io_error) piv_env" and x :: 'x and w
    by (simp add: run_def lib_result_def execute_def drive_loop.simps proc_map_err_def proc_bind_def ret_def)
  have metadata: "reference_metadata AttestationRef consent_piv p w = Some (Ok ?mf, w)"
    "reference_metadata (KeyRef s) consent_piv p w = Some (?none, w)" for p s w
    by (simp_all add: reference_metadata_def attestation_metadata_def read_metadata_def consent_piv_def run_done proc_bind_def run_Err)
  have certificates: "read_certificate_object consent_piv p (key_certificate AttestationRef) w = Some (Ok [0xaa], w)"
    "read_certificate_object consent_piv p (key_certificate (KeyRef s)) w = Some (?none, w)" for p s w
    by (simp_all add: read_certificate_object_def check_reference_def object_id_def key_certificate_def consent_piv_def
        lost_piv_def sim_host_def lib_result_def unwrap_def read_object_def run_done run_Err proc_bind_def ret_def)
  have missing: "says_missing (PivDrive (Protocol (at_phase (new_error NotFound) PhaseCommand)))"
    by (simp add: says_missing_def at_phase_def new_error_def)
  have occupied: "slot_readable AttestationRef (Ok ?mf) (Ok [0xaa])" "\<not> slot_vacant (Ok ?mf) (Ok [0xaa])"
    and empty: "slot_vacant ?none ?none" "slot_readable (KeyRef s) ?none ?none" for s
    using missing by (simp_all add: slot_readable_def slot_vacant_def)
  from overwrite_key_consent [of AttestationRef consent_cli] obtain question where
    tells: "\<forall>m c. slot_readable AttestationRef m c \<and> \<not> slot_vacant m c \<longrightarrow> tells_slot consent_cli AttestationRef m c (question m c)"
    and agreed: "\<forall>ask penv profile w w'. overwrite_key consent_cli penv profile AttestationRef ask w = Some (Ok (), w') \<longleftrightarrow>
      (\<exists>m w1 c w2. reference_metadata AttestationRef penv profile w = Some (m, w1)
        \<and> read_certificate_object penv profile (key_certificate AttestationRef) w1 = Some (c, w2)
        \<and> slot_readable AttestationRef m c
        \<and> (if slot_vacant m c then w' = w2 else ask (question m c) w2 = Some (Ok True, w')))"
    by (elim exE conjE)
  have told: "tells_slot consent_cli AttestationRef (Ok ?mf) (Ok [0xaa]) (question (Ok ?mf) (Ok [0xaa]))"
    by (intro tells [rule_format] conjI occupied)
  have step: "overwrite_key consent_cli consent_piv (DeviceProfile 2) AttestationRef ask ?w = Some (Ok (), w')
      \<longleftrightarrow> ask (question (Ok ?mf) (Ok [0xaa])) ?w = Some (Ok True, w')" for ask w'
    unfolding agreed [rule_format] using occupied by (simp add: metadata certificates)
  from told have "careful_user (question (Ok ?mf) (Ok [0xaa])) ?w = Some (Ok True, ?w)"
    by (auto simp: careful_user_def tells_slot_def tells_key_def tells_certificate_def key_present_def consent_cli_def ret_def)
  moreover from overwrite_key_consent [of "KeyRef Authentication" consent_cli] obtain other where
    other: "\<forall>ask penv profile w w'. overwrite_key consent_cli penv profile (KeyRef Authentication) ask w = Some (Ok (), w') \<longleftrightarrow>
      (\<exists>m w1 c w2. reference_metadata (KeyRef Authentication) penv profile w = Some (m, w1)
        \<and> read_certificate_object penv profile (key_certificate (KeyRef Authentication)) w1 = Some (c, w2)
        \<and> slot_readable (KeyRef Authentication) m c
        \<and> (if slot_vacant m c then w' = w2 else ask (other m c) w2 = Some (Ok True, w')))"
    by (elim exE conjE)
  have "overwrite_key consent_cli consent_piv (DeviceProfile 2) (KeyRef Authentication) (\<lambda>_ _. None) ?w = Some (Ok (), ?w)"
    unfolding other [rule_format] using empty by (simp add: metadata certificates)
  ultimately show ?thesis by (simp add: step ret_def)
qed

end
