(* ===== verification/PivKeyCommands.thy ===== *)
theory PivKeyCommands
  imports PivAccess BigEndian
begin

text \<open>
  The key commands of \<^verbatim>\<open>crates/ckman/src/commands/piv.rs\<close> (generate, batch generation, import, attest and
  its verification, export, move, delete) and the reading of a private key file of
  \<^verbatim>\<open>crates/ckman/src/commands/mod.rs\<close>.  An output file is prepared before the card is touched and dropped
  on every way out.
\<close>

section \<open>Environment\<close>

record verify_lib =
  rsa_key_accepted :: "nat \<Rightarrow> nat \<Rightarrow> bool"
  ec_verifying_key :: "algorithm \<Rightarrow> byte list \<Rightarrow> byte list option"
  ec_signature_der :: "algorithm \<Rightarrow> byte list \<Rightarrow> byte list option"
  ec_verify_prehash :: "algorithm \<Rightarrow> byte list \<Rightarrow> byte list \<Rightarrow> byte list \<Rightarrow> bool"

record 'w key_commands =
  kc_piv :: "'w piv_commands"
  kc_verify :: verify_lib
  show_spki_error :: "public_key \<Rightarrow> string"
  canokey_root :: "byte list"
  unix_clock :: "('w, message, nat) proc"
  open_input :: "path \<Rightarrow> ('w, io_error, nat) proc"
  open_stdin :: "('w, io_error, nat) proc"
  read_input_block :: "nat \<Rightarrow> ('w, io_error, byte list) proc"
  close_input :: "nat \<Rightarrow> 'w \<Rightarrow> 'w"
  read_prefix :: "path \<Rightarrow> nat \<Rightarrow> ('w, io_error, byte list) proc"

definition kc_cli :: "'w key_commands \<Rightarrow> 'w piv_cli" where
  "kc_cli env = pm_cli (kc_piv env)"

definition kc_fs :: "'w key_commands \<Rightarrow> 'w fs_env" where
  "kc_fs env = pcl_fs (pm_cli (kc_piv env))"

section \<open>Arguments\<close>

datatype pin_policy_arg = ArgPinNever | ArgPinOnce | ArgPinAlways
datatype touch_policy_arg = ArgTouchNever | ArgTouchAlways | ArgTouchCached
datatype encoding_arg = EncodingPem | EncodingDer

definition pin_policy_of :: "pin_policy_arg option \<Rightarrow> pin_policy" where
  "pin_policy_of arg = (case arg of None \<Rightarrow> PinDefault | Some ArgPinNever \<Rightarrow> PinNever | Some ArgPinOnce \<Rightarrow> PinOnce
     | Some ArgPinAlways \<Rightarrow> PinAlways)"

definition touch_policy_of :: "touch_policy_arg option \<Rightarrow> touch_policy" where
  "touch_policy_of arg = (case arg of None \<Rightarrow> TouchDefault | Some ArgTouchNever \<Rightarrow> TouchNever
     | Some ArgTouchAlways \<Rightarrow> TouchAlways | Some ArgTouchCached \<Rightarrow> TouchCached)"

definition key_parameters_of :: "slot \<Rightarrow> algorithm \<Rightarrow> pin_policy_arg option \<Rightarrow> touch_policy_arg option \<Rightarrow> key_parameters" where
  "key_parameters_of s a p t = \<lparr>kp_slot = s, kp_algorithm = a, kp_pin_policy = pin_policy_of p, kp_touch_policy = touch_policy_of t\<rparr>"

definition encode_as :: "'w key_commands \<Rightarrow> encoding_arg \<Rightarrow> string \<Rightarrow> byte list \<Rightarrow> byte list" where
  "encode_as env format label der = (case format of
     EncodingPem \<Rightarrow> pem_encode (x509 (pcl_piv (kc_cli env))) (lit label) der | EncodingDer \<Rightarrow> der)"

definition public_der :: "'w key_commands \<Rightarrow> public_key \<Rightarrow> message + byte list" where
  "public_der env public = ok_or (lit (''cannot encode the public key: '' @ show_spki_error env public))
     (public_key_spki (pcl_attest (kc_cli env)) public)"

section \<open>Files\<close>

text \<open>\<^verbatim>\<open>input::read_secret\<close>\<close>

definition read_secret :: "'w key_commands \<Rightarrow> path \<Rightarrow> ('w, message, byte list) proc" where
  "read_secret env path = io_result (proc_bind (if path = lit ''-'' then open_stdin env else open_input env path) (\<lambda>h.
     proc_try (read_secret_from (read_input_block env h) []) (\<lambda>r w. Some (r, close_input env h w))))"

definition parse_private_key_input :: "'w key_commands \<Rightarrow> byte list \<Rightarrow> byte list option \<Rightarrow> ('w, message, imported_key) proc" where
  "parse_private_key_input env bytes password =
    (let lib = pcl_keys (kc_cli env); parsed = parse_private_key lib bytes password;
         shown = map_err (\<lambda>e. lit (show_key_error (kc_cli env) e)) in
     if parsed = Err KeyPassword \<and> password = None
     then proc_bind (prompt_password (pcl_cli (kc_cli env)) (lit ''Enter the private key password: '')) (\<lambda>entered.
       lift_res (shown (parse_private_key lib bytes (Some entered))))
     else lift_res (shown parsed))"

text \<open>A prepared output that is written after \<open>produce\<close>, or standard output\<close>

definition produce_public :: "'w key_commands \<Rightarrow> path \<Rightarrow> ('w, message, byte list) proc \<Rightarrow> ('w, message, unit) proc
    \<Rightarrow> ('w, message, unit) proc" where
  "produce_public env path produce finish =
    (if path = lit ''-''
     then proc_bind produce (\<lambda>bytes. proc_bind (write_output (kc_cli env) path bytes) (\<lambda>_. finish))
     else proc_bind (prepared_new (kc_fs env) path) (\<lambda>out w. case produce w of
       None \<Rightarrow> None
     | Some (Err e, w) \<Rightarrow> map_option (\<lambda>w. (Err e, w)) (drop_prepared (kc_fs env) out w)
     | Some (Ok bytes, w) \<Rightarrow> (case prepared_write (kc_fs env) out bytes w of
         None \<Rightarrow> None
       | Some (r, out, w) \<Rightarrow> (case proc_bind (lift_res r) (\<lambda>_. finish) w of
           None \<Rightarrow> None
         | Some (r, w) \<Rightarrow> map_option (\<lambda>w. (r, w)) (drop_prepared (kc_fs env) out w)))))"

section \<open>Generation\<close>

definition generate_at :: "'w key_commands \<Rightarrow> target \<Rightarrow> resolved_management \<Rightarrow> key_reference \<Rightarrow> algorithm
    \<Rightarrow> pin_policy_arg option \<Rightarrow> touch_policy_arg option \<Rightarrow> ('w, message, public_key) proc" where
  "generate_at env t m reference a p tp = with_access (kc_piv env) t m (\<lambda>access penv profile. case reference of
     KeyRef s \<Rightarrow> generate_key penv profile (key_parameters_of s a p tp) access
   | AttestationRef \<Rightarrow> generate_attestation_key penv profile (AttestationParameters (pin_policy_of p) (touch_policy_of tp)) access)"

definition keys_generate :: "'w key_commands \<Rightarrow> u32 option \<Rightarrow> byte list option \<Rightarrow> key_reference \<Rightarrow> path \<Rightarrow> algorithm
    \<Rightarrow> pin_policy_arg option \<Rightarrow> touch_policy_arg option \<Rightarrow> encoding_arg \<Rightarrow> byte list option \<Rightarrow> ('w, message, unit) proc" where
  "keys_generate env device reader reference output a p tp format management_key =
     proc_bind (lift_res (validate_key_provisioning reference a)) (\<lambda>_.
     produce_public env output
       (proc_bind (piv_connect (kc_cli env) device reader) (\<lambda>t.
        proc_bind (confirm_key_replacement (kc_cli env) t reference) (\<lambda>_.
        proc_bind (resolve_management (kc_cli env) t management_key None) (\<lambda>m.
        proc_bind (generate_at env t m reference a p tp) (\<lambda>public.
        proc_bind (lift_res (public_der env public)) (\<lambda>der.
        ret (encode_as env format ''PUBLIC KEY'' der)))))))
       (piv_eprintln (kc_cli env) (lit ''Private key generated in slot '' @ key_name (kc_cli env) reference
         @ lit '', public key written to '' @ output @ lit ''.'')))"

section \<open>Batch generation\<close>

text \<open>The vector of outputs is dropped from its first element on.\<close>

fun drop_outputs :: "'w fs_env \<Rightarrow> prepared_file list \<Rightarrow> 'w \<Rightarrow> 'w option" where
  "drop_outputs env [] w = Some w"
| "drop_outputs env (p # ps) w = Option.bind (drop_prepared env p w) (drop_outputs env ps)"

definition batch_path :: "'w key_commands \<Rightarrow> path \<Rightarrow> encoding_arg \<Rightarrow> slot \<Rightarrow> path" where
  "batch_path env directory format s = path_join (kc_fs env) directory
     (slot_name (kc_cli env) s @ lit (case format of EncodingPem \<Rightarrow> ''.pem'' | EncodingDer \<Rightarrow> ''.der''))"

fun prepare_outputs :: "'w key_commands \<Rightarrow> path list \<Rightarrow> prepared_file list \<Rightarrow> ('w, message, prepared_file list) proc" where
  "prepare_outputs env [] outputs = ret outputs"
| "prepare_outputs env (path # paths) outputs = proc_try (prepared_new (kc_fs env) path) (\<lambda>r. case r of
     Err e \<Rightarrow> (\<lambda>w. map_option (\<lambda>w. (Err e, w)) (drop_outputs (kc_fs env) outputs w))
   | Ok out \<Rightarrow>
       if \<exists>previous \<in> set outputs. pf_destination previous = pf_destination out
       then (\<lambda>w. map_option (\<lambda>w. (Err (lit ''multiple public key outputs resolve to the same file''), w))
         (drop_outputs (kc_fs env) (out # outputs) w))
       else prepare_outputs env paths (outputs @ [out]))"

definition prepare_batch_outputs :: "'w key_commands \<Rightarrow> slot list \<Rightarrow> path \<Rightarrow> encoding_arg
    \<Rightarrow> ('w, message, prepared_file list) proc" where
  "prepare_batch_outputs env ss directory format =
     proc_bind (lift_res (map_err (\<lambda>_. lit ''batch generation requires at least one slot and no duplicate slots'')
       (validate_generation_slots ss))) (\<lambda>_.
     prepare_outputs env (map (batch_path env directory format) ss) [])"

text \<open>The callback changes the outputs: it runs over the world and the outputs.\<close>

definition over_outputs :: "('w, 'e, 'a) proc \<Rightarrow> ('w \<times> prepared_file list, 'e, 'a) proc" where
  "over_outputs m = (\<lambda>(w, outs). map_option (\<lambda>(r, w). (r, (w, outs))) (m w))"

definition env_over_outputs :: "('w, io_error) piv_env \<Rightarrow> ('w \<times> prepared_file list, io_error) piv_env" where
  "env_over_outputs penv = \<lparr>env_exchange = \<lambda>c. over_outputs (env_exchange penv c),
     fill_random = \<lambda>n. over_outputs (fill_random penv n), secrets = secrets penv, objects = objects penv,
     keys = keys penv, host = host penv, tlv = tlv penv, x509 = x509 penv\<rparr>"

definition batch_progress :: "'w key_commands \<Rightarrow> slot list \<Rightarrow> encoding_arg
    \<Rightarrow> ('w \<times> prepared_file list, message) progress" where
  "batch_progress env ss format n public =
     proc_bind (lift_res (public_der env public)) (\<lambda>der (w, outs).
       if n = 0 \<or> n > length outs then None
       else (case prepared_write (kc_fs env) (outs ! (n - 1)) (encode_as env format ''PUBLIC KEY'' der) w of
         None \<Rightarrow> None
       | Some (r, out, w) \<Rightarrow> over_outputs (proc_bind (lift_res (map_err (\<lambda>e. lit ''key generated in slot ''
             @ slot_name (kc_cli env) (ss ! (n - 1)) @ lit '', but its public key could not be saved: '' @ e
             @ lit ''; batch stopped'') r)) (\<lambda>_.
           piv_eprintln (kc_cli env) (lit ''Generated '' @ lit (show_nat n) @ lit ''/'' @ lit (show_nat (length ss))
             @ lit '' key(s); public key written to '' @ pf_destination out @ lit ''.'')))
           (w, outs[n - 1 := out])))"

definition batch_message :: "'w key_commands \<Rightarrow> (io_error, message) generate_error \<Rightarrow> message" where
  "batch_message env e = (case e of GenOperation e \<Rightarrow> describe_piv (kc_cli env) e | GenCallback e \<Rightarrow> e)"

definition generate_batch_keys :: "'w key_commands \<Rightarrow> target \<Rightarrow> slot list \<Rightarrow> algorithm \<Rightarrow> pin_policy_arg option
    \<Rightarrow> touch_policy_arg option \<Rightarrow> encoding_arg \<Rightarrow> management_auth
    \<Rightarrow> ('w \<times> prepared_file list, message, public_key list) proc" where
  "generate_batch_keys env t ss a p tp format auth =
     proc_map_err (batch_message env) (generate_keys_with_progress (env_over_outputs (piv_at (kc_cli env) t)) (tg_profile t)
       (map (\<lambda>s. key_parameters_of s a p tp) ss) auth (batch_progress env ss format))"

definition keys_generate_batch :: "'w key_commands \<Rightarrow> u32 option \<Rightarrow> byte list option \<Rightarrow> slot list \<Rightarrow> algorithm \<Rightarrow> path
    \<Rightarrow> pin_policy_arg option \<Rightarrow> touch_policy_arg option \<Rightarrow> encoding_arg \<Rightarrow> byte list option \<Rightarrow> ('w, message, unit) proc" where
  "keys_generate_batch env device reader ss a directory p tp format management_key =
     proc_bind (prepare_batch_outputs env ss directory format) (\<lambda>outputs w.
       case proc_bind (over_outputs (piv_connect (kc_cli env) device reader)) (\<lambda>t.
          proc_bind (over_outputs (confirm_key_replacements (kc_cli env) t ss)) (\<lambda>_.
          proc_bind (over_outputs (resolve_management (kc_cli env) t management_key None)) (\<lambda>m.
          proc_bind (over_outputs (proc_map_err (\<lambda>e. lit (show_random (kc_fs env) e))
            (mutual_auth (piv_at (kc_cli env) t) (pcl_custom_random (kc_cli env)) (rm_key m)))) (\<lambda>auth.
          proc_bind (generate_batch_keys env t ss a p tp format auth) (\<lambda>_. ret ()))))) (w, outputs) of
         None \<Rightarrow> None
       | Some (r, (w, outputs)) \<Rightarrow> map_option (\<lambda>w. (r, w)) (drop_outputs (kc_fs env) outputs w))"

section \<open>Import\<close>

definition import_at :: "'w key_commands \<Rightarrow> target \<Rightarrow> resolved_management \<Rightarrow> key_reference \<Rightarrow> algorithm
    \<Rightarrow> pin_policy_arg option \<Rightarrow> touch_policy_arg option \<Rightarrow> private_material \<Rightarrow> ('w, message, unit) proc" where
  "import_at env t m reference a p tp key_material = with_access (kc_piv env) t m (\<lambda>access penv profile. case reference of
     KeyRef s \<Rightarrow> import_key penv profile (key_parameters_of s a p tp) key_material access
   | AttestationRef \<Rightarrow> import_attestation_key penv profile (AttestationParameters (pin_policy_of p) (touch_policy_of tp))
       key_material access)"

definition keys_import :: "'w key_commands \<Rightarrow> u32 option \<Rightarrow> byte list option \<Rightarrow> key_reference \<Rightarrow> path
    \<Rightarrow> byte list option \<Rightarrow> pin_policy_arg option \<Rightarrow> touch_policy_arg option \<Rightarrow> byte list option \<Rightarrow> ('w, message, unit) proc" where
  "keys_import env device reader reference private_key password p tp management_key =
     proc_bind (read_secret env private_key) (\<lambda>bytes.
     proc_bind (parse_private_key_input env bytes password) (\<lambda>imported.
     proc_bind (lift_res (validate_key_provisioning reference (ik_algorithm imported))) (\<lambda>_.
     proc_bind (lift_res (map_err (\<lambda>e. lit (show_key_error (kc_cli env) e))
       (piv_material (pl_keys (pcl_keys (kc_cli env))) imported))) (\<lambda>key_material.
     proc_bind (piv_connect (kc_cli env) device reader) (\<lambda>t.
     proc_bind (confirm_key_replacement (kc_cli env) t reference) (\<lambda>_.
     proc_bind (resolve_management (kc_cli env) t management_key None) (\<lambda>m.
     proc_bind (import_at env t m reference (ik_algorithm imported) p tp key_material) (\<lambda>_.
     piv_println (kc_cli env) (lit ''Private key imported in slot '' @ key_name (kc_cli env) reference @ lit ''.'')))))))))"

section \<open>Attestation\<close>

definition keys_attest :: "'w key_commands \<Rightarrow> u32 option \<Rightarrow> byte list option \<Rightarrow> slot \<Rightarrow> path \<Rightarrow> encoding_arg
    \<Rightarrow> ('w, message, unit) proc" where
  "keys_attest env device reader s certificate format =
     proc_bind (piv_connect (kc_cli env) device reader) (\<lambda>t.
     proc_bind (piv_session_run (kc_cli env) t (\<lambda>penv profile. attest penv profile s)) (\<lambda>der.
     proc_bind (write_output (kc_cli env) certificate (encode_as env format ''CERTIFICATE'' der)) (\<lambda>_.
     piv_eprintln (kc_cli env) (lit ''Attestation certificate written to '' @ certificate @ lit ''.''))))"

definition attestation_root :: "'w key_commands \<Rightarrow> path option \<Rightarrow> ('w, message, byte list) proc" where
  "attestation_root env ca =
     proc_bind (case ca of
       Some path \<Rightarrow> io_result (read_prefix env path (MAX_CERTIFICATE_BYTES * 2 + 1))
     | None \<Rightarrow> ret (canokey_root env)) (\<lambda>bytes.
     lift_res (map_err (\<lambda>e. lit (show_attestation_error (kc_cli env) e)) (decode_root (pcl_attest (kc_cli env)) bytes)))"

definition keys_verify_attest :: "'w key_commands \<Rightarrow> u32 option \<Rightarrow> byte list option \<Rightarrow> slot \<Rightarrow> path option
    \<Rightarrow> ('w, message, unit) proc" where
  "keys_verify_attest env device reader s ca =
     proc_bind (attestation_root env ca) (\<lambda>root.
     proc_bind (unix_clock env) (\<lambda>now.
     proc_bind (piv_connect (kc_cli env) device reader) (\<lambda>t.
     proc_bind (piv_session_run (kc_cli env) t (\<lambda>penv profile.
       verify_attestation penv (pcl_attest (kc_cli env)) profile s root now)) (\<lambda>fingerprint.
     proc_bind (piv_println (kc_cli env) (lit ''Slot:         '' @ slot_name (kc_cli env) s)) (\<lambda>_.
     proc_bind (piv_println (kc_cli env) (lit ''Signature:    verified'')) (\<lambda>_.
     proc_bind (piv_println (kc_cli env) (lit ''Device/key:   matched'')) (\<lambda>_.
     proc_bind (piv_println (kc_cli env) (lit (''Trust:        '' @ (if ca \<noteq> None then ''custom root'' else ''CanoKey PIV Root CA No. 1'')))) (\<lambda>_.
     piv_println (kc_cli env) (lit ''Root SHA-256: '' @ hex_text fingerprint)))))))))"

section \<open>Verification of an exported key\<close>

definition require_export_verification :: "algorithm \<Rightarrow> message + unit" where
  "require_export_verification a =
    (if is_rsa a \<or> a = EccP256 \<or> a = EccP384 then Ok ()
     else Err (lit ''host-side --verify is supported only for RSA, ECCP256 and ECCP384; omit --verify to export this key''))"

text \<open>\<open>None\<close> is an error of the padding; numbers are \<^verbatim>\<open>BigUint\<close>.\<close>

definition rsa_pkcs1v15_verify :: "x509_lib \<Rightarrow> nat \<Rightarrow> nat \<Rightarrow> byte list \<Rightarrow> byte list \<Rightarrow> bool option" where
  "rsa_pkcs1v15_verify lib n e message signature =
    (let modulus_bytes = length (min_bytes n) in
     case rsa_pkcs1v15_encode lib HashSha256 message modulus_bytes of
       Err _ \<Rightarrow> None
     | Ok expected \<Rightarrow>
         if length signature \<noteq> modulus_bytes then Some False
         else if be_nat signature \<ge> n then Some False
         else let em = min_bytes (be_nat signature ^ e mod n)
           in Some (replicate (modulus_bytes - length em) 0 @ em = expected))"

definition verify_ec :: "'w key_commands \<Rightarrow> algorithm \<Rightarrow> byte list \<Rightarrow> byte list \<Rightarrow> byte list \<Rightarrow> bool" where
  "verify_ec env a point message signature =
    (case (ec_verifying_key (kc_verify env) a point, ec_signature_der (kc_verify env) a signature) of
       (Some key, Some sig) \<Rightarrow> ec_verify_prehash (kc_verify env) a key (host_sha256 (kc_cli env) message) sig
     | _ \<Rightarrow> False)"

definition verify_public_signature :: "'w key_commands \<Rightarrow> public_key \<Rightarrow> byte list \<Rightarrow> byte list \<Rightarrow> bool" where
  "verify_public_signature env public message signature = (case public of
     PkRsa _ modulus exponent \<Rightarrow>
       rsa_key_accepted (kc_verify env) (be_nat modulus) (be_nat exponent)
         \<and> rsa_pkcs1v15_verify (x509 (pcl_piv (kc_cli env))) (be_nat modulus) (be_nat exponent) message signature = Some True
   | PkEc a point \<Rightarrow> (a = EccP256 \<or> a = EccP384) \<and> verify_ec env a point message signature
   | PkRaw _ _ \<Rightarrow> False)"

definition public_algorithm :: "public_key \<Rightarrow> algorithm" where
  "public_algorithm public = (case public of PkRsa a _ _ \<Rightarrow> a | PkEc a _ \<Rightarrow> a | PkRaw a _ \<Rightarrow> a)"

definition check_export :: "'w key_commands \<Rightarrow> target \<Rightarrow> slot \<Rightarrow> public_key \<Rightarrow> byte list option \<Rightarrow> ('w, message, unit) proc" where
  "check_export env t s public pin_text =
     proc_bind (lift_res (require_export_verification (public_algorithm public))) (\<lambda>_.
     proc_bind (resolve_pin (kc_cli env) pin_text (lit ''Enter PIN'')) (\<lambda>p.
     proc_bind (piv_session_run (kc_cli env) t (\<lambda>penv profile.
       sign_message penv profile s (public_algorithm public) (Some HashSha256) (lit ''test'') (AccessPin p))) (\<lambda>signature.
     if \<not> verify_public_signature env public (lit ''test'') signature
     then throw (lit ''private key in slot does NOT match the exported public key'')
     else piv_eprintln (kc_cli env) (lit ''Private key verified against the public key.''))))"

definition keys_export :: "'w key_commands \<Rightarrow> u32 option \<Rightarrow> byte list option \<Rightarrow> key_reference \<Rightarrow> path \<Rightarrow> encoding_arg
    \<Rightarrow> bool \<Rightarrow> byte list option \<Rightarrow> ('w, message, unit) proc" where
  "keys_export env device reader reference output format verify_key pin_text =
    (if reference = AttestationRef \<and> verify_key then throw (lit ''--verify is only supported for ordinary PIV key slots'')
     else proc_bind (piv_connect (kc_cli env) device reader) (\<lambda>t.
     proc_bind (piv_session_run (kc_cli env) t (reference_metadata reference)) (\<lambda>found.
     proc_bind (lift_res (ok_or (lit ''no public key metadata for this slot'') (mf_public_key found))) (\<lambda>public.
     proc_bind (lift_res (public_der env public)) (\<lambda>der.
     proc_bind (case reference of
         KeyRef s \<Rightarrow> if verify_key then check_export env t s public pin_text else ret ()
       | AttestationRef \<Rightarrow> ret ()) (\<lambda>_.
     proc_bind (write_output (kc_cli env) output (encode_as env format ''PUBLIC KEY'' der)) (\<lambda>_.
     piv_eprintln (kc_cli env) (lit ''Public key written to '' @ output @ lit ''.''))))))))"

section \<open>Moving and deleting\<close>

definition keys_move :: "'w key_commands \<Rightarrow> u32 option \<Rightarrow> byte list option \<Rightarrow> slot \<Rightarrow> slot \<Rightarrow> byte list option
    \<Rightarrow> ('w, message, unit) proc" where
  "keys_move env device reader source dest management_key =
     proc_bind (piv_connect (kc_cli env) device reader) (\<lambda>t.
     proc_bind (resolve_management (kc_cli env) t management_key None) (\<lambda>m.
     proc_bind (with_access (kc_piv env) t m (\<lambda>access penv profile. move_key penv profile source dest access)) (\<lambda>_.
     piv_println (kc_cli env) (lit ''Key moved from '' @ slot_name (kc_cli env) source @ lit '' to ''
       @ slot_name (kc_cli env) dest @ lit ''.''))))"

definition keys_delete :: "'w key_commands \<Rightarrow> u32 option \<Rightarrow> byte list option \<Rightarrow> slot \<Rightarrow> byte list option
    \<Rightarrow> ('w, message, unit) proc" where
  "keys_delete env device reader s management_key =
     proc_bind (piv_connect (kc_cli env) device reader) (\<lambda>t.
     proc_bind (resolve_management (kc_cli env) t management_key None) (\<lambda>m.
     proc_bind (with_access (kc_piv env) t m (\<lambda>access penv profile. delete_key penv profile s access)) (\<lambda>_.
     piv_println (kc_cli env) (lit ''Key deleted from slot '' @ slot_name (kc_cli env) s @ lit ''.''))))"

end
