(* ===== verification/PivCertificates.thy ===== *)
theory PivCertificates
  imports PivKeyCommands
begin

text \<open>
  The certificate and object commands of \<^verbatim>\<open>crates/ckman/src/commands/piv.rs\<close> and the reading of a certificate
  file of \<^verbatim>\<open>crates/ckman/src/commands/mod.rs\<close>.  A certificate is compared with the key the slot reports
  before anything is written, and replacing one needs consent.
\<close>

section \<open>Environment\<close>

record certificate_info_entry =
  ci_der :: "byte list"
  ci_spki_der :: "byte list"

record 'w certificate_commands =
  ce_keys :: "'w key_commands"
  parse_x509 :: "byte list \<Rightarrow> string + certificate_info_entry"

definition ce_cli :: "'w certificate_commands \<Rightarrow> 'w piv_cli" where
  "ce_cli env = kc_cli (ce_keys env)"

definition ce_piv :: "'w certificate_commands \<Rightarrow> 'w piv_commands" where
  "ce_piv env = kc_piv (ce_keys env)"

definition ce_x509 :: "'w certificate_commands \<Rightarrow> x509_lib" where
  "ce_x509 env = x509 (pcl_piv (ce_cli env))"

text \<open>\<^verbatim>\<open>?\<close> on the error of a library, shown by its \<^verbatim>\<open>Display\<close>\<close>

definition x509_result :: "'w certificate_commands \<Rightarrow> x509_error + 'a \<Rightarrow> ('w, message, 'a) proc" where
  "x509_result env r = lift_res (map_err (\<lambda>e. lit (show_x509_error (ce_cli env) e)) r)"

definition key_result :: "'w certificate_commands \<Rightarrow> key_error + 'a \<Rightarrow> ('w, message, 'a) proc" where
  "key_result env r = lift_res (map_err (\<lambda>e. lit (show_key_error (ce_cli env) e)) r)"

section \<open>Reading certificates and public keys\<close>

definition invalid_certificate :: "string \<Rightarrow> message" where
  "invalid_certificate shown = lit ''invalid certificate: '' @ lit shown"

definition parse_certificate_input :: "'w certificate_commands \<Rightarrow> byte list \<Rightarrow> ('w, message, certificate_info_entry) proc" where
  "parse_certificate_input env bytes =
    (let lib = pcl_keys (ce_cli env); wrong = \<lambda>e. invalid_certificate (show_key_error (ce_cli env) e) in
     proc_bind (lift_res (map_err wrong (pem_decode (kl_base64_decode (pl_keys lib)) bytes [lit ''CERTIFICATE'']))) (\<lambda>(label, decoded).
     if label \<noteq> [] then lift_res (map_err invalid_certificate (parse_x509 env decoded))
     else (case parse_x509 env bytes of
         Ok cert \<Rightarrow> ret cert
       | Err _ \<Rightarrow>
           proc_bind (if certificates_from_pfx lib bytes None = Err KeyPassword
             then proc_bind (prompt_password (pcl_cli (ce_cli env)) (lit ''Enter the PKCS#12 password: '')) (\<lambda>entered.
               lift_res (map_err wrong (certificates_from_pfx lib bytes (Some entered))))
             else lift_res (map_err wrong (certificates_from_pfx lib bytes None))) (\<lambda>certs.
           proc_bind (lift_res (map_err wrong (leaf_certificate lib certs))) (\<lambda>leaf.
           proc_bind (unwrap (if leaf < length certs then Some (certs ! leaf) else None)) (\<lambda>der.
           lift_res (map_err invalid_certificate (parse_x509 env der))))))))"

definition certificate_hash :: "algorithm \<Rightarrow> hash_algorithm \<Rightarrow> hash_algorithm option" where
  "certificate_hash a hash = (if a = Ed25519 \<or> a = Sm2 \<or> a = MlDsa65 then None else Some hash)"

definition read_signing_public_key :: "'w certificate_commands \<Rightarrow> path \<Rightarrow> hash_algorithm \<Rightarrow> ('w, message, imported_public_key) proc" where
  "read_signing_public_key env path hash =
     proc_bind (read_input (ce_cli env) path) (\<lambda>bytes.
     proc_bind (key_result env (parse_public_key (pl_keys (pcl_keys (ce_cli env))) bytes)) (\<lambda>parsed.
     proc_bind (x509_result env (signature_algorithm (ce_x509 env) (ip_algorithm parsed)
       (certificate_hash (ip_algorithm parsed) hash))) (\<lambda>_.
     ret parsed)))"

definition slot_spki :: "'w certificate_commands \<Rightarrow> public_key \<Rightarrow> message + byte list" where
  "slot_spki env public = ok_or (lit (''cannot encode the slot public key: '' @ show_spki_error (ce_keys env) public))
     (public_key_spki (pcl_attest (ce_cli env)) public)"

definition same_public_key :: "'w certificate_commands \<Rightarrow> byte list \<Rightarrow> byte list \<Rightarrow> message + bool" where
  "same_public_key env a b = map_err (\<lambda>e. lit (show_key_error (ce_cli env) e)) (public_keys_equal (pl_keys (pcl_keys (ce_cli env))) a b)"

definition validate_slot_public_key :: "'w certificate_commands \<Rightarrow> metadata_fields \<Rightarrow> algorithm \<Rightarrow> byte list \<Rightarrow> message + unit" where
  "validate_slot_public_key env found a spki_der = (case mf_public_key found of
     None \<Rightarrow> Ok ()
   | Some public \<Rightarrow> res_bind (slot_spki env public) (\<lambda>actual.
       res_bind (if public_algorithm public \<noteq> a then Ok False else same_public_key env actual spki_der) (\<lambda>same.
       if same then Ok () else Err (lit ''the public key does not match the private key in the slot''))))"

text \<open>A record that may be missing or unsupported\<close>

definition optional_piv :: "'w piv_cli \<Rightarrow> ('w, io_error piv_error, 'a) proc \<Rightarrow> ('w, message, 'a option) proc" where
  "optional_piv env m = proc_try m (\<lambda>r. case r of
     Ok v \<Rightarrow> ret (Some v)
   | Err e \<Rightarrow> (case e of
       PivDrive (Protocol p) \<Rightarrow>
         if (err_phase p = Some PhaseConstruction \<or> err_phase p = Some PhaseCommand)
           \<and> (err_kind p = NotFound \<or> err_kind p = UnsupportedFeature) then ret None
         else throw (describe_piv env e)
     | _ \<Rightarrow> throw (describe_piv env e)))"

section \<open>Certificate commands\<close>

definition reference_of :: "certificate_reference \<Rightarrow> key_reference" where
  "reference_of r = (case r of CertKey s \<Rightarrow> KeyRef s | CertAttestation \<Rightarrow> AttestationRef)"

text \<open>The key the slot reports, if it reports one\<close>

definition reported_key :: "'w certificate_commands \<Rightarrow> target \<Rightarrow> certificate_reference \<Rightarrow> ('w, message, public_key option) proc" where
  "reported_key env t reference =
     proc_bind (optional_piv (ce_cli env) (piv_run_typed (ce_cli env) t (reference_metadata (reference_of reference)))) (\<lambda>found.
     ret (Option.bind found mf_public_key))"

definition matches_slot :: "'w certificate_commands \<Rightarrow> public_key option \<Rightarrow> byte list \<Rightarrow> message + unit" where
  "matches_slot env public spki_der = (case public of
     None \<Rightarrow> Ok ()
   | Some public \<Rightarrow> res_bind (slot_spki env public) (\<lambda>actual.
       res_bind (same_public_key env actual spki_der) (\<lambda>same.
       if same then Ok () else Err (lit ''the certificate does not match the private key in the slot''))))"

definition certificates_import :: "'w certificate_commands \<Rightarrow> u32 option \<Rightarrow> byte list option \<Rightarrow> certificate_reference
    \<Rightarrow> path \<Rightarrow> byte list option \<Rightarrow> ('w, message, unit) proc" where
  "certificates_import env device reader reference certificate management_key =
     proc_bind (read_secret (ce_keys env) certificate) (\<lambda>bytes.
     proc_bind (parse_certificate_input env bytes) (\<lambda>parsed.
     proc_bind (piv_connect (ce_cli env) device reader) (\<lambda>t.
     proc_bind (reported_key env t reference) (\<lambda>public.
     proc_bind (lift_res (matches_slot env public (ci_spki_der parsed))) (\<lambda>_.
     proc_bind (confirm_certificate_change (ce_cli env) t reference CertReplace) (\<lambda>_.
     proc_bind (resolve_management (ce_cli env) t management_key None) (\<lambda>m.
     proc_bind (with_access (ce_piv env) t m (\<lambda>access penv profile.
       write_certificate_at penv profile reference (ci_der parsed) access)) (\<lambda>_.
     piv_println (ce_cli env) (lit ''Certificate imported in slot '' @ certificate_slot_name (ce_cli env) reference @ lit ''.'')))))))))"

definition certificates_export :: "'w certificate_commands \<Rightarrow> u32 option \<Rightarrow> byte list option \<Rightarrow> certificate_reference
    \<Rightarrow> path \<Rightarrow> encoding_arg \<Rightarrow> ('w, message, unit) proc" where
  "certificates_export env device reader reference certificate format =
     proc_bind (piv_connect (ce_cli env) device reader) (\<lambda>t.
     proc_bind (piv_session_run (ce_cli env) t (\<lambda>penv profile. read_certificate_at penv profile reference)) (\<lambda>cert.
     proc_bind (write_output (ce_cli env) certificate (encode_as (ce_keys env) format ''CERTIFICATE'' (piv_certificate_der cert))) (\<lambda>_.
     piv_eprintln (ce_cli env) (lit ''Certificate written to '' @ certificate @ lit ''.''))))"

subsection \<open>Self-signed certificates\<close>

text \<open>The validity in seconds since the epoch: an \<^verbatim>\<open>i64\<close> from a \<^verbatim>\<open>u64\<close> clock, with checked addition.\<close>

definition validity_period :: "'w certificate_commands \<Rightarrow> nat \<Rightarrow> u32 \<Rightarrow> x509_error + int \<times> int" where
  "validity_period env seconds valid_days =
    (if seconds \<ge> 2 ^ 63 then Err TimeRange
     else let now = int seconds; after = now + int (unat valid_days) * 86400 in
       if after \<ge> 2 ^ 63 then Err TimeRange
       else res_bind (validity (ce_x509 env) now after) (\<lambda>_. Ok (now, after)))"

definition warn_touch :: "'w certificate_commands \<Rightarrow> metadata_fields \<Rightarrow> ('w, message, unit) proc" where
  "warn_touch env found =
    (if mf_touch_policy found = Some (Known TouchAlways) \<or> mf_touch_policy found = Some (Known TouchCached)
     then piv_eprintln (ce_cli env) (lit ''Touch your CanoKey...'') else ret ())"

definition signing_key :: "'w certificate_commands \<Rightarrow> metadata_fields \<Rightarrow> imported_public_key option
    \<Rightarrow> message + byte list \<times> algorithm" where
  "signing_key env found supplied = (case supplied of
     Some parsed \<Rightarrow> Ok (ip_spki_der parsed, ip_algorithm parsed)
   | None \<Rightarrow>
       res_bind (ok_or (lit ''no public key metadata for this slot; supply PUBLIC-KEY'') (mf_public_key found)) (\<lambda>public.
       res_bind (public_der (ce_keys env) public) (\<lambda>der. Ok (der, public_algorithm public))))"

definition slot_fields :: "'w certificate_commands \<Rightarrow> target \<Rightarrow> slot \<Rightarrow> ('w, message, metadata_fields) proc" where
  "slot_fields env t s = piv_session_run (ce_cli env) t (reference_metadata (KeyRef s))"

definition self_signed :: "'w certificate_commands \<Rightarrow> target \<Rightarrow> resolved_management \<Rightarrow> pin \<Rightarrow> slot \<Rightarrow> algorithm \<Rightarrow> byte list
    \<Rightarrow> byte list \<Rightarrow> hash_algorithm \<Rightarrow> int \<times> int \<Rightarrow> ('w, message, byte list) proc" where
  "self_signed env t m p s a spki_der subject hash period =
     with_pin_access (ce_piv env) t m p (\<lambda>access penv profile. generate_self_signed_certificate penv profile
       \<lparr>sr_slot = s, sr_algorithm = a, sr_spki_der = spki_der, sr_subject = subject, sr_hash = certificate_hash a hash,
        sr_access = access\<rparr> (fst period) (snd period))"

definition certificates_generate :: "'w certificate_commands \<Rightarrow> u32 option \<Rightarrow> byte list option \<Rightarrow> slot \<Rightarrow> path option
    \<Rightarrow> byte list \<Rightarrow> u32 \<Rightarrow> hash_algorithm \<Rightarrow> byte list option \<Rightarrow> byte list option \<Rightarrow> ('w, message, unit) proc" where
  "certificates_generate env device reader s public_key subject valid_days hash management_key pin_text =
     proc_bind (x509_result env (parse_rfc4514 (ce_x509 env) subject)) (\<lambda>_.
     proc_bind (proc_map_err (\<lambda>_. lit ''system clock is before the Unix epoch'') (unix_clock (ce_keys env))) (\<lambda>seconds.
     proc_bind (x509_result env (validity_period env seconds valid_days)) (\<lambda>period.
     proc_bind (case public_key of
         None \<Rightarrow> ret None
       | Some path \<Rightarrow> proc_bind (read_signing_public_key env path hash) (\<lambda>parsed. ret (Some parsed))) (\<lambda>supplied.
     proc_bind (piv_connect (ce_cli env) device reader) (\<lambda>t.
     proc_bind (slot_fields env t s) (\<lambda>found.
     proc_bind (warn_touch env found) (\<lambda>_.
     proc_bind (lift_res (signing_key env found supplied)) (\<lambda>(spki_der, a).
     proc_bind (lift_res (validate_slot_public_key env found a spki_der)) (\<lambda>_.
     proc_bind (x509_result env (signature_algorithm (ce_x509 env) a (certificate_hash a hash))) (\<lambda>_.
     proc_bind (confirm_certificate_change (ce_cli env) t (CertKey s) CertReplace) (\<lambda>_.
     proc_bind (resolve_management (ce_cli env) t management_key pin_text) (\<lambda>m.
     proc_bind (case rm_pin m of Some p \<Rightarrow> ret p | None \<Rightarrow> resolve_pin (ce_cli env) pin_text (lit ''Enter PIN'')) (\<lambda>p.
     proc_bind (self_signed env t m p s a spki_der subject hash period) (\<lambda>der.
     proc_bind (with_access (ce_piv env) t m (\<lambda>access penv profile. write_certificate penv profile s der access)) (\<lambda>_.
     piv_println (ce_cli env) (lit ''Certificate generated in slot '' @ slot_name (ce_cli env) s @ lit ''.''))))))))))))))))"

subsection \<open>Requests and deletion\<close>

definition certificates_request :: "'w certificate_commands \<Rightarrow> u32 option \<Rightarrow> byte list option \<Rightarrow> slot \<Rightarrow> path
    \<Rightarrow> path \<Rightarrow> byte list \<Rightarrow> hash_algorithm \<Rightarrow> byte list option \<Rightarrow> ('w, message, unit) proc" where
  "certificates_request env device reader s public_key csr_output subject hash pin_text =
     proc_bind (x509_result env (parse_rfc4514 (ce_x509 env) subject)) (\<lambda>_.
     proc_bind (read_signing_public_key env public_key hash) (\<lambda>parsed.
     produce_public (ce_keys env) csr_output
       (proc_bind (piv_connect (ce_cli env) device reader) (\<lambda>t.
        proc_bind (slot_fields env t s) (\<lambda>found.
        proc_bind (warn_touch env found) (\<lambda>_.
        proc_bind (lift_res (validate_slot_public_key env found (ip_algorithm parsed) (ip_spki_der parsed))) (\<lambda>_.
        proc_bind (resolve_pin (ce_cli env) pin_text (lit ''Enter PIN'')) (\<lambda>p.
        proc_bind (piv_session_run (ce_cli env) t (\<lambda>penv profile. generate_csr penv profile
          \<lparr>sr_slot = s, sr_algorithm = ip_algorithm parsed, sr_spki_der = ip_spki_der parsed, sr_subject = subject,
           sr_hash = certificate_hash (ip_algorithm parsed) hash, sr_access = AccessPin p\<rparr>)) (\<lambda>der.
        ret (pem_encode (ce_x509 env) (lit ''CERTIFICATE REQUEST'') der))))))))
       (piv_eprintln (ce_cli env) (lit ''CSR for slot '' @ slot_name (ce_cli env) s @ lit '' written to '' @ csr_output @ lit ''.''))))"

definition certificates_delete :: "'w certificate_commands \<Rightarrow> u32 option \<Rightarrow> byte list option \<Rightarrow> certificate_reference
    \<Rightarrow> byte list option \<Rightarrow> ('w, message, unit) proc" where
  "certificates_delete env device reader reference management_key =
     proc_bind (piv_connect (ce_cli env) device reader) (\<lambda>t.
     proc_bind (confirm_certificate_change (ce_cli env) t reference CertDelete) (\<lambda>_.
     proc_bind (resolve_management (ce_cli env) t management_key None) (\<lambda>m.
     proc_bind (with_access (ce_piv env) t m (\<lambda>access penv profile. delete_certificate_at penv profile reference access)) (\<lambda>_.
     piv_println (ce_cli env) (lit ''Certificate in slot '' @ certificate_slot_name (ce_cli env) reference @ lit '' deleted.'')))))"

section \<open>Objects\<close>

definition parse_name_slot :: "'w piv_cli \<Rightarrow> byte list \<Rightarrow> message + container_reference" where
  "parse_name_slot env t =
    (if is_attestation_name t then Ok ContainerAttestation
     else res_bind (parse_slot env t) (\<lambda>s. Ok (ContainerKey s)))"

definition objects_name :: "'w certificate_commands \<Rightarrow> u32 option \<Rightarrow> byte list option \<Rightarrow> container_reference
    \<Rightarrow> byte list option \<Rightarrow> byte list option \<Rightarrow> ('w, message, unit) proc" where
  "objects_name env device reader reference name management_key =
     proc_bind (piv_connect (ce_cli env) device reader) (\<lambda>t. case name of
       None \<Rightarrow> proc_bind (piv_session_run (ce_cli env) t (\<lambda>penv profile. read_container_name penv profile reference)) (\<lambda>text.
         piv_println (ce_cli env) (if text = [] then lit ''(no container name set)'' else text))
     | Some name \<Rightarrow>
         proc_bind (resolve_management (ce_cli env) t management_key None) (\<lambda>m.
         proc_bind (with_access (ce_piv env) t m (\<lambda>access penv profile. set_container_name_op penv profile reference name access)) (\<lambda>_.
         piv_println (ce_cli env) (lit ''Container name set.''))))"

definition objects_export :: "'w certificate_commands \<Rightarrow> u32 option \<Rightarrow> byte list option \<Rightarrow> piv_object_id \<Rightarrow> path
    \<Rightarrow> byte list option \<Rightarrow> ('w, message, unit) proc" where
  "objects_export env device reader oid output pin_text =
     proc_bind (piv_connect (ce_cli env) device reader) (\<lambda>t.
     proc_bind (case pin_text of
         Some text \<Rightarrow> proc_bind (lift_res (pin_of_text (ce_cli env) text)) (\<lambda>p. ret (AccessPin p))
       | None \<Rightarrow> ret AccessNone) (\<lambda>access.
     proc_bind (piv_session_run (ce_cli env) t (\<lambda>penv profile. read_object penv profile oid access)) (\<lambda>bytes.
     proc_bind (write_output (ce_cli env) output bytes) (\<lambda>_.
     piv_eprintln (ce_cli env) (lit ''Object written to '' @ output @ lit ''.'')))))"

definition objects_import :: "'w certificate_commands \<Rightarrow> u32 option \<Rightarrow> byte list option \<Rightarrow> piv_object_id \<Rightarrow> path
    \<Rightarrow> byte list option \<Rightarrow> ('w, message, unit) proc" where
  "objects_import env device reader oid path management_key =
     proc_bind (read_input (ce_cli env) path) (\<lambda>bytes.
     proc_bind (piv_connect (ce_cli env) device reader) (\<lambda>t.
     proc_bind (unwrap (from_object_id (piv_at (ce_cli env) t) oid)) (\<lambda>reference.
     proc_bind (case reference of
         Some reference \<Rightarrow> confirm_certificate_change (ce_cli env) t reference CertReplace | None \<Rightarrow> ret ()) (\<lambda>_.
     proc_bind (resolve_management (ce_cli env) t management_key None) (\<lambda>m.
     proc_bind (with_access (ce_piv env) t m (\<lambda>access penv profile. write_object penv profile oid bytes access)) (\<lambda>_.
     piv_println (ce_cli env) (lit ''Object written.'')))))))"

end
