(* ===== verification/Fido.thy ===== *)
theory Fido
  imports CtapChannel Strings Drive
begin

unbundle bit_operations_syntax

text \<open>
  The FIDO layer of \<^verbatim>\<open>crates/ckman-core/src/fido.rs\<close>: the adapter that carries the smart-card envelope
  of a CTAP message over a CTAPHID channel, the PIN rules, and the wrappers of libcanokey's CTAP
  requests.  The CTAP library, Unicode normalization and SHA-256 are parameters.
\<close>

section \<open>The envelope over CTAPHID\<close>

definition FIDO2_USB_SELECT :: "byte list" where
  "FIDO2_USB_SELECT = [0, 0xa4, 4, 0, 8, 0xf0, 0x43, 0x41, 0x4e, 0x4f, 0x46, 0x49, 0x44]"

definition FIDO2_STANDARD_SELECT :: "byte list" where
  "FIDO2_STANDARD_SELECT = [0, 0xa4, 4, 0, 8, 0xa0, 0, 0, 6, 0x47, 0x2f, 0, 1]"

text \<open>\<open>CtapHidAdapter\<close>: what is fixed; its pending bytes are carried beside the device.\<close>

record 'd hid_adapter =
  ha_io :: "'d report_io"
  ha_cid :: u32
  ha_timeout :: nat
  ha_keepalive :: "keepalive \<Rightarrow> 'd \<Rightarrow> 'd"

definition hid_err :: "ctaphid_error \<Rightarrow> io_error" where
  "hid_err e = IoError IoOther (show_ctaphid_error e)"

text \<open>The data of a command and the length it announces\<close>

definition apdu_data :: "byte list \<Rightarrow> io_error + byte list \<times> nat" where
  "apdu_data command =
    (if command ! 4 = 0
     then if length command < 7 then Err (IoError IoInvalidInput ''short Lc'')
       else Ok (drop 7 command, unat (from_be16 [command ! 5, command ! 6]))
     else Ok (drop 5 command, unat (command ! 4)))"

text \<open>The last command of a chain sends the message over the channel.\<close>

definition send_message :: "'d hid_adapter \<Rightarrow> byte list \<Rightarrow> 'd \<Rightarrow> ((io_error + byte list) \<times> 'd \<times> byte list) option" where
  "send_message ad message d = map_option
     (\<lambda>(r, d). (case r of Err e \<Rightarrow> Err (hid_err e) | Ok response \<Rightarrow> Ok (response @ [0x90, 0]), (d, [])))
     (request (ha_io ad) (ha_cid ad) CmdCbor message (ha_timeout ad) (ha_keepalive ad) d)"

definition exchange_inner :: "'d hid_adapter \<Rightarrow> byte list \<Rightarrow> ('d \<times> byte list, io_error, byte list) proc" where
  "exchange_inner ad command = (\<lambda>(d, pending).
     if command = FIDO2_USB_SELECT \<or> command = FIDO2_STANDARD_SELECT then Some (Ok [0x90, 0], (d, []))
     else if length command < 5 then Some (Err (IoError IoInvalidInput ''short APDU''), (d, pending))
     else if command ! 1 \<noteq> 0x10 \<or> command ! 0 AND NOT 0x10 \<noteq> 0x80
     then Some (Err (IoError IoInvalidInput ''not a CTAP message command''), (d, pending))
     else (case apdu_data command of
       Err e \<Rightarrow> Some (Err e, (d, pending))
     | Ok (bytes, announced) \<Rightarrow>
         if length bytes \<noteq> announced
         then Some (Err (IoError IoInvalidInput ''Lc does not match the APDU length''), (d, pending))
         else if length bytes > MAX_MESSAGE_LEN - length pending
         then Some (Err (IoError IoInvalidInput ''command chain exceeds the CTAPHID message limit''), (d, pending))
         else if command ! 0 AND 0x10 \<noteq> 0 then Some (Ok [0x90, 0], (d, pending @ bytes))
         else send_message ad (pending @ bytes) d))"

definition adapter_exchange :: "'d hid_adapter \<Rightarrow> byte list \<Rightarrow> ('d \<times> byte list, io_error, byte list) proc" where
  "adapter_exchange ad command = (\<lambda>s. map_option (\<lambda>(r, d, pending). (r, d, if is_ok r then pending else []))
     (exchange_inner ad command s))"

section \<open>Requests\<close>

datatype large_blob_error = LargeBlobLength | LargeBlobIntegrity

datatype 'e fido_error = FidoDrive "'e drive_error" | FidoRandom random_error | FidoLargeBlob large_blob_error

record ctap_options =
  max_response_bytes :: nat
  max_input :: "nat option"

definition ctap_default_options :: ctap_options where
  "ctap_default_options = \<lparr>max_response_bytes = 7609, max_input = None\<rparr>"

definition large_blob_options :: ctap_options where
  "large_blob_options = \<lparr>max_response_bytes = 960, max_input = Some 1024\<rparr>"

datatype pin_protocol = PinV1 | PinV2
datatype pin_session = PinSession (session_protocol: pin_protocol) nat
datatype pin_token = PinToken nat
datatype pin_retries = PinRetries (retries_left: nat) (power_cycle: "bool option")
datatype permissions = GetAssertion | AuthenticatorConfig | CredentialManagement | LargeBlobWrite | OtherPermissions nat
datatype creds_metadata = CredsMetadata (existing_credentials: nat) nat
datatype credential_id = CredentialId (credential_bytes: "byte list")

record user_entity =
  ue_id :: "byte list"
  ue_name :: "byte list option"
  ue_display_name :: "byte list option"

record rp_entry =
  rp_id :: "byte list"
  rp_name :: "byte list option"
  rp_id_hash :: "byte list"

record credential_entry =
  ce_id :: credential_id
  ce_user :: "user_entity option"
  ce_handle :: nat

record authenticator_info =
  ai_protocols :: "nat list option"
  ai_options :: "(byte list \<times> bool) list option"
  ai_min_pin_length :: "64 word option"
  ai_versions :: "byte list list"
  ai_aaguid :: "byte list"
  ai_extensions :: "byte list list option"
  ai_algorithms :: "int list option"
  ai_transports :: "byte list list option"
  ai_remaining_credentials :: "nat option"

record ctap_lib =
  ctap_get_info :: "ctap_options \<Rightarrow> lib_error + authenticator_info operation"
  ctap_selection :: "ctap_options \<Rightarrow> lib_error + unit operation"
  ctap_reset :: "ctap_options \<Rightarrow> lib_error + unit operation"
  ctap_pin_retries :: "pin_protocol \<Rightarrow> ctap_options \<Rightarrow> lib_error + pin_retries operation"
  ctap_key_agreement :: "pin_protocol \<Rightarrow> byte list \<Rightarrow> ctap_options \<Rightarrow> lib_error + pin_session operation"
  ctap_set_pin :: "pin_session \<Rightarrow> byte list \<Rightarrow> byte list option \<Rightarrow> ctap_options \<Rightarrow> lib_error + unit operation"
  ctap_change_pin :: "pin_session \<Rightarrow> byte list \<Rightarrow> byte list \<Rightarrow> byte list option \<Rightarrow> ctap_options \<Rightarrow> lib_error + unit operation"
  ctap_pin_token :: "pin_session \<Rightarrow> byte list \<Rightarrow> permissions \<Rightarrow> byte list option \<Rightarrow> byte list option \<Rightarrow> ctap_options
    \<Rightarrow> lib_error + pin_token operation"
  ctap_creds_metadata :: "pin_token \<Rightarrow> pin_protocol \<Rightarrow> ctap_options \<Rightarrow> lib_error + creds_metadata operation"
  ctap_enumerate_rps :: "pin_token \<Rightarrow> pin_protocol \<Rightarrow> ctap_options \<Rightarrow> lib_error + rp_entry list operation"
  ctap_enumerate_credentials :: "pin_token \<Rightarrow> pin_protocol \<Rightarrow> byte list \<Rightarrow> bool \<Rightarrow> ctap_options
    \<Rightarrow> lib_error + credential_entry list operation"
  ctap_delete_credential :: "pin_token \<Rightarrow> pin_protocol \<Rightarrow> credential_id \<Rightarrow> ctap_options \<Rightarrow> lib_error + unit operation"
  ctap_update_user :: "pin_token \<Rightarrow> pin_protocol \<Rightarrow> credential_id \<Rightarrow> user_entity \<Rightarrow> ctap_options \<Rightarrow> lib_error + unit operation"
  ctap_toggle_always_uv :: "pin_token \<Rightarrow> pin_protocol \<Rightarrow> ctap_options \<Rightarrow> lib_error + unit operation"
  ctap_long_touch :: "pin_token \<Rightarrow> pin_protocol \<Rightarrow> ctap_options \<Rightarrow> lib_error + unit operation"
  ctap_min_pin_length :: "pin_token \<Rightarrow> pin_protocol \<Rightarrow> u8 \<Rightarrow> bool option \<Rightarrow> byte list list \<Rightarrow> ctap_options
    \<Rightarrow> lib_error + unit operation"
  ctap_read_array :: "ctap_options \<Rightarrow> lib_error + byte list operation"
  ctap_write_array :: "byte list \<Rightarrow> (pin_token \<times> pin_protocol) option \<Rightarrow> ctap_options \<Rightarrow> lib_error + unit operation"
  nfc_chars :: "byte list \<Rightarrow> byte list list"
  blob_sha256 :: "byte list \<Rightarrow> byte list"

record ('w, 'e) fido_env =
  fido_exchange :: "('w, 'e) exchange"
  fido_random :: "nat \<Rightarrow> ('w, random_error, byte list) proc"
  ctap :: ctap_lib

definition fido_run :: "('w, 'e) fido_env \<Rightarrow> lib_error + 't operation \<Rightarrow> ('w, 'e fido_error, 't) proc" where
  "fido_run env operation = proc_bind (lift_res (map_err (\<lambda>e. FidoDrive (Protocol e)) operation)) (\<lambda>oper.
     proc_map_err FidoDrive (execute oper (fido_exchange env)))"

definition get_info where
  "get_info env = fido_run env (ctap_get_info (ctap env) ctap_default_options)"

definition fido_selection where
  "fido_selection env = fido_run env (ctap_selection (ctap env) ctap_default_options)"

definition fido_reset where
  "fido_reset env = fido_run env (ctap_reset (ctap env) ctap_default_options)"

definition preferred_protocol :: "authenticator_info \<Rightarrow> pin_protocol" where
  "preferred_protocol info = (case ai_protocols info of
     Some protocols \<Rightarrow> if 2 \<in> set protocols then PinV2 else PinV1 | None \<Rightarrow> PinV1)"

definition pin_retries_of where
  "pin_retries_of env protocol = fido_run env (ctap_pin_retries (ctap env) protocol ctap_default_options)"

definition pin_retries_if_supported ::
  "('w, 'e) fido_env \<Rightarrow> authenticator_info \<Rightarrow> ('w, 'e fido_error, pin_retries option) proc" where
  "pin_retries_if_supported env info =
    (if \<not> (case ai_options info of Some os \<Rightarrow> \<exists>(name, enabled) \<in> set os. name = lit ''clientPin'' \<and> enabled | None \<Rightarrow> False)
     then ret None
     else proc_bind (pin_retries_of env (preferred_protocol info)) (\<lambda>r. ret (Some r)))"

text \<open>The eight attempts to find a valid scalar\<close>

fun agreement_attempts :: "('w, 'e) fido_env \<Rightarrow> pin_protocol \<Rightarrow> nat \<Rightarrow> ('w, 'e fido_error, pin_session) proc" where
  "agreement_attempts env protocol 0 = throw (FidoDrive (Protocol (new_error InvalidArgument)))"
| "agreement_attempts env protocol (Suc n) =
     proc_bind (proc_map_err FidoRandom (fido_random env 32)) (\<lambda>scalar.
     case ctap_key_agreement (ctap env) protocol scalar ctap_default_options of
       Ok oper \<Rightarrow> fido_run env (Ok oper)
     | Err e \<Rightarrow>
         if err_kind e = InvalidArgument then agreement_attempts env protocol n
         else throw (FidoDrive (Protocol e)))"

definition key_agreement :: "('w, 'e) fido_env \<Rightarrow> pin_protocol \<Rightarrow> ('w, 'e fido_error, pin_session) proc" where
  "key_agreement env protocol = agreement_attempts env protocol 8"

definition fresh_iv :: "('w, 'e) fido_env \<Rightarrow> pin_protocol \<Rightarrow> ('w, random_error, byte list option) proc" where
  "fresh_iv env protocol =
    (if protocol = PinV2 then proc_bind (fido_random env 16) (\<lambda>iv. ret (Some iv)) else ret None)"

section \<open>PINs\<close>

text \<open>The loop over the normalized characters, each given as its bytes\<close>

fun push_chars :: "byte list \<Rightarrow> byte list list \<Rightarrow> lib_error + byte list" where
  "push_chars normalized [] = Ok normalized"
| "push_chars normalized (c # cs) =
    (if c = [0] \<or> length normalized + length c > 63 then Err (new_error InvalidPin)
     else push_chars (normalized @ c) cs)"

text \<open>\<^verbatim>\<open>chars().count()\<close>: the bytes that begin a character\<close>

definition pin_characters :: "byte list \<Rightarrow> nat" where
  "pin_characters bs = length (filter (\<lambda>b. \<not> utf8_cont b) bs)"

definition normalize_pin :: "ctap_lib \<Rightarrow> byte list \<Rightarrow> lib_error + byte list" where
  "normalize_pin lib pin =
    (if \<not> utf8_valid pin then Err (new_error InvalidPin)
     else res_bind (push_chars [] (nfc_chars lib pin)) (\<lambda>normalized.
       if pin_characters normalized < 4 then Err (new_error InvalidPin) else Ok normalized))"

definition validate_pin :: "ctap_lib \<Rightarrow> byte list \<Rightarrow> lib_error + unit" where
  "validate_pin lib pin = res_bind (normalize_pin lib pin) (\<lambda>_. Ok ())"

definition fido_lib_result :: "lib_error + 'a \<Rightarrow> ('w, 'e fido_error, 'a) proc" where
  "fido_lib_result r = lift_res (map_err (\<lambda>e. FidoDrive (Protocol e)) r)"

definition fido_set_pin :: "('w, 'e) fido_env \<Rightarrow> pin_session \<Rightarrow> byte list \<Rightarrow> ('w, 'e fido_error, unit) proc" where
  "fido_set_pin env session new_pin =
     proc_bind (fido_lib_result (normalize_pin (ctap env) new_pin)) (\<lambda>pin.
     proc_bind (proc_map_err FidoRandom (fresh_iv env (session_protocol session))) (\<lambda>iv.
     fido_run env (ctap_set_pin (ctap env) session pin iv ctap_default_options)))"

definition fido_change_pin :: "('w, 'e) fido_env \<Rightarrow> pin_session \<Rightarrow> byte list \<Rightarrow> byte list \<Rightarrow> ('w, 'e fido_error, unit) proc" where
  "fido_change_pin env session old_pin new_pin =
     proc_bind (fido_lib_result (normalize_pin (ctap env) old_pin)) (\<lambda>old.
     proc_bind (fido_lib_result (normalize_pin (ctap env) new_pin)) (\<lambda>new.
     proc_bind (proc_map_err FidoRandom (fresh_iv env (session_protocol session))) (\<lambda>iv.
     fido_run env (ctap_change_pin (ctap env) session old new iv ctap_default_options))))"

definition pin_token_of :: "('w, 'e) fido_env \<Rightarrow> pin_session \<Rightarrow> byte list \<Rightarrow> permissions \<Rightarrow> byte list option
    \<Rightarrow> ('w, 'e fido_error, pin_token) proc" where
  "pin_token_of env session pin granted rp =
     proc_bind (fido_lib_result (normalize_pin (ctap env) pin)) (\<lambda>pin.
     proc_bind (proc_map_err FidoRandom (fresh_iv env (session_protocol session))) (\<lambda>iv.
     fido_run env (ctap_pin_token (ctap env) session pin granted rp iv ctap_default_options)))"

section \<open>Credential management and configuration\<close>

definition creds_metadata_of where
  "creds_metadata_of env token protocol = fido_run env (ctap_creds_metadata (ctap env) token protocol ctap_default_options)"

definition enumerate_rps where
  "enumerate_rps env token protocol = fido_run env (ctap_enumerate_rps (ctap env) token protocol ctap_default_options)"

definition enumerate_credentials where
  "enumerate_credentials env token protocol rp_hash metadata_only =
     fido_run env (ctap_enumerate_credentials (ctap env) token protocol rp_hash metadata_only ctap_default_options)"

definition delete_credential where
  "delete_credential env token protocol credential =
     fido_run env (ctap_delete_credential (ctap env) token protocol credential ctap_default_options)"

definition update_user_information where
  "update_user_information env token protocol credential user =
     fido_run env (ctap_update_user (ctap env) token protocol credential user ctap_default_options)"

definition toggle_always_uv where
  "toggle_always_uv env token protocol = fido_run env (ctap_toggle_always_uv (ctap env) token protocol ctap_default_options)"

definition enable_long_touch_for_reset where
  "enable_long_touch_for_reset env token protocol =
     fido_run env (ctap_long_touch (ctap env) token protocol ctap_default_options)"

definition set_min_pin_length where
  "set_min_pin_length env token protocol n force_change rp_ids =
     fido_run env (ctap_min_pin_length (ctap env) token protocol n force_change rp_ids ctap_default_options)"

section \<open>Large blobs\<close>

definition large_blobs_read where
  "large_blobs_read env = fido_run env (ctap_read_array (ctap env) large_blob_options)"

definition validate_large_blob_array :: "ctap_lib \<Rightarrow> byte list \<Rightarrow> large_blob_error + unit" where
  "validate_large_blob_array lib blob =
    (if \<not> (17 \<le> length blob \<and> length blob \<le> 4096) then Err LargeBlobLength
     else if take 16 (blob_sha256 lib (take (length blob - 16) blob)) \<noteq> drop (length blob - 16) blob
     then Err LargeBlobIntegrity else Ok ())"

definition large_blobs_write :: "('w, 'e) fido_env \<Rightarrow> byte list \<Rightarrow> (pin_token \<times> pin_protocol) option
    \<Rightarrow> ('w, 'e fido_error, unit) proc" where
  "large_blobs_write env blob token =
     proc_bind (lift_res (map_err FidoLargeBlob (validate_large_blob_array (ctap env) blob))) (\<lambda>_.
     fido_run env (ctap_write_array (ctap env) blob token large_blob_options))"

section \<open>Fragments of a message\<close>

text \<open>
  The specification of the envelope: a fragment carries some bytes behind a header with a short or an
  extended length, and all but the last of a message are marked as chained.
\<close>

definition fragment :: "bool \<Rightarrow> byte list \<Rightarrow> byte list \<Rightarrow> bool" where
  "fragment chained bytes command \<longleftrightarrow> (\<exists>p1 p2.
     0 < length bytes \<and> length bytes < 256
       \<and> command = [if chained then 0x90 else 0x80, 0x10, p1, p2, word_of_nat (length bytes)] @ bytes
   \<or> length bytes < 65536
       \<and> command = [if chained then 0x90 else 0x80, 0x10, p1, p2, 0] @ be_bytes16 (word_of_nat (length bytes)) @ bytes)"

lemma fragment_data:
  assumes "fragment chained bytes command"
  shows "apdu_data command = Ok (bytes, length bytes)" "5 \<le> length command" "command ! 1 = 0x10"
    "command ! 0 = (if chained then 0x90 else 0x80)"
proof -
  have unat: "n < 65536 \<Longrightarrow> unat (word_of_nat n :: u16) = n" for n by (simp add: unat_of_nat)
  have "apdu_data command = Ok (bytes, length bytes) \<and> 5 \<le> length command \<and> command ! 1 = 0x10
    \<and> command ! 0 = (if chained then 0x90 else 0x80)"
  proof -
    from assms consider (short) p1 p2 where "0 < length bytes" "length bytes < 256"
        "command = [if chained then 0x90 else 0x80, 0x10, p1, p2, word_of_nat (length bytes)] @ bytes"
      | (ext) p1 p2 where "length bytes < 65536"
        "command = [if chained then 0x90 else 0x80, 0x10, p1, p2, 0] @ be_bytes16 (word_of_nat (length bytes)) @ bytes"
      unfolding fragment_def by blast
    then show ?thesis
    proof cases
      case short
      then have n: "unat (word_of_nat (length bytes) :: byte) = length bytes" by (simp add: unat_of_nat)
      with short(1) have "(word_of_nat (length bytes) :: byte) \<noteq> 0" by (metis less_irrefl unat_0)
      with short n show ?thesis by (simp add: apdu_data_def)
    next
      case ext
      have bs: "be_bytes16 w = [be_bytes16 w ! 0, be_bytes16 w ! 1]" for w by (simp add: be_bytes16_def)
      have "from_be16 [be_bytes16 w ! 0, be_bytes16 w ! 1] = w" for w
        using from_be16_be_bytes16 [of w] bs [of w] by simp
      with ext unat show ?thesis by (subst ext(2), subst bs) (simp add: apdu_data_def)
    qed
  qed
  then show "apdu_data command = Ok (bytes, length bytes)" "5 \<le> length command" "command ! 1 = 0x10"
    "command ! 0 = (if chained then 0x90 else 0x80)" by blast+
qed

lemma send_message_pending: "send_message ad message d = Some (r, d', pending') \<Longrightarrow> pending' = []"
  by (auto simp: send_message_def)

lemma exchange_fragment:
  assumes "fragment chained bytes command" "length pending + length bytes \<le> MAX_MESSAGE_LEN"
  shows "adapter_exchange ad command (d, pending) =
    (if chained then Some (Ok [0x90, 0], (d, pending @ bytes)) else send_message ad (pending @ bytes) d)"
proof -
  note cmd = fragment_data [OF assms(1)]
  have "command \<noteq> FIDO2_USB_SELECT" "command \<noteq> FIDO2_STANDARD_SELECT"
    using cmd(3) by (auto simp: FIDO2_USB_SELECT_def FIDO2_STANDARD_SELECT_def)
  moreover have "(0x90 :: byte) AND NOT 0x10 = 0x80" "(0x80 :: byte) AND NOT 0x10 = 0x80"
    "(0x90 :: byte) AND 0x10 \<noteq> 0" "(0x80 :: byte) AND 0x10 = 0" by simp_all
  ultimately show ?thesis
    using cmd assms(2)
    by (cases "send_message ad (pending @ bytes) d")
      (auto simp: adapter_exchange_def exchange_inner_def dest: send_message_pending)
qed

text \<open>Sending a list of commands; every answer but the last is dropped.\<close>

fun exchange_all :: "'d hid_adapter \<Rightarrow> byte list list \<Rightarrow> byte list \<Rightarrow> ('d \<times> byte list, io_error, byte list) proc" where
  "exchange_all ad [] final = adapter_exchange ad final"
| "exchange_all ad (c # cs) final = proc_bind (adapter_exchange ad c) (\<lambda>_. exchange_all ad cs final)"

lemma exchange_all_fragments:
  assumes "list_all2 (fragment True) chunks commands" "fragment False bytes final"
    and "length pending + length (concat chunks) + length bytes \<le> MAX_MESSAGE_LEN"
  shows "exchange_all ad commands final (d, pending) = send_message ad (pending @ concat chunks @ bytes) d"
  using assms(1,3)
proof (induction chunks commands arbitrary: pending rule: list_all2_induct)
  case Nil
  with exchange_fragment [OF assms(2), of pending ad d] show ?case by (simp add: send_message_def)
next
  case (Cons c cs x xs)
  with exchange_fragment [of True c x pending ad d] show ?case
    by (simp add: proc_bind_def)
qed

text \<open>The pending bytes of an adapter never exceed a message, so the subtraction in the code does not
  underflow.\<close>

lemma exchange_pending:
  assumes "length pending \<le> MAX_MESSAGE_LEN"
  shows "wp (adapter_exchange ad command) (\<lambda>r (d', pending'). length pending' \<le> MAX_MESSAGE_LEN
    \<and> (\<not> is_ok r \<longrightarrow> pending' = [])) (d, pending)"
  using assms
  by (auto simp: wp_def adapter_exchange_def exchange_inner_def dest: send_message_pending split: if_splits sum.splits prod.splits)

lemma push_chars_iff:
  "push_chars acc cs = Ok p \<longleftrightarrow> p = acc @ concat cs \<and> [0] \<notin> set cs \<and> (cs = [] \<or> length p \<le> 63)"
proof (induction cs arbitrary: acc)
  case (Cons c cs)
  have "length acc + length c \<le> 63" if "p = (acc @ c) @ concat cs" "length p \<le> 63" using that by simp
  with Cons.IH [of "acc @ c"] show ?case by (cases "cs = []") auto
qed auto


section \<open>Properties\<close>

text \<open>C32. A CTAP message survives the smart-card envelope over HID: whatever fragments it is cut into, with short
  or extended lengths, the adapter acknowledges every fragment but the last without touching the
  device, sends exactly the message as one CBOR request, and answers with its response; nothing of
  the message is left over.\<close>

theorem envelope_carries_message:
  assumes "list_all2 (fragment True) chunks commands" and "fragment False bytes final"
    and "length (concat chunks @ bytes) \<le> MAX_MESSAGE_LEN"
  shows "exchange_all ad commands final (d, []) = send_message ad (concat chunks @ bytes) d"
  using exchange_all_fragments [OF assms(1,2), of "[]" ad d] assms(3) by simp

definition sample_adapter :: "loop_world hid_adapter" where
  "sample_adapter = \<lparr>ha_io = loop_io, ha_cid = 1, ha_timeout = 5000, ha_keepalive = record_keepalive\<rparr>"

theorem envelope_carries_message_witness:
  "exchange_all sample_adapter [[0x90, 0x10, 0, 0, 2, 1, 2], [0x90, 0x10, 0, 0, 0, 0, 1, 3]] [0x80, 0x10, 0, 0, 1, 4]
     ((loopback_new (Respond [0, 7]), 0, []), [])
   = send_message sample_adapter [1, 2, 3, 4] (loopback_new (Respond [0, 7]), 0, [])"
proof -
  have long: "be_bytes16 1 = [0, 1]" by code_simp
  have "fragment True [1, 2] [0x90, 0x10, 0, 0, 2, 1, 2]" "fragment True [3] [0x90, 0x10, 0, 0, 0, 0, 1, 3]"
    "fragment False [4] [0x80, 0x10, 0, 0, 1, 4]"
    by (auto simp: fragment_def long)
  then show ?thesis
    using envelope_carries_message [of "[[1, 2], [3]]" "[[0x90, 0x10, 0, 0, 2, 1, 2], [0x90, 0x10, 0, 0, 0, 0, 1, 3]]"
        "[4]" "[0x80, 0x10, 0, 0, 1, 4]" sample_adapter "(loopback_new (Respond [0, 7]), 0, [])"]
    by (simp add: MAX_MESSAGE_LEN_def INIT_PAYLOAD_def CONT_PAYLOAD_def MAX_SEQ_def)
qed

text \<open>A FIDO PIN is accepted exactly when its normalized form has at least four characters, at most 63 bytes
  and no NUL, and the accepted bytes are that normalized form, whatever prefix the loop had reached
  when it gave up.\<close>

theorem normalize_pin_accepts:
  "normalize_pin lib pin = Ok p \<longleftrightarrow> utf8_valid pin \<and> p = concat (nfc_chars lib pin)
     \<and> [0] \<notin> set (nfc_chars lib pin) \<and> length p \<le> 63 \<and> 4 \<le> pin_characters p"
  by (auto simp: normalize_pin_def res_bind_Ok_iff push_chars_iff pin_characters_def)

end
