(* ===== verification/Hid.thy ===== *)
theory Hid
  imports CtapChannel Strings
begin

text \<open>
  The USB HID transport of \<^verbatim>\<open>crates/ckman-transport/src/hid.rs\<close>: which interfaces are a CanoKey's, and the
  reports of CtapChannel over one open device.  The \<^verbatim>\<open>hidapi\<close> crate and the clock are parameters; an open
  device is a number.
\<close>

section \<open>Environment\<close>

record hid_device_info =
  di_vendor_id :: u16
  di_product_id :: u16
  di_usage_page :: u16
  di_usage :: u16
  di_product :: "byte list option"
  di_path :: "byte list"
  di_serial :: "byte list option"

record fido_interface =
  fi_path :: "byte list"
  fi_product :: "byte list option"
  fi_serial :: "byte list option"

datatype hid_error = HidError nat

text \<open>
  \<open>hid_api\<close> creates the library's handle with the list of devices it found; \<open>hid_read\<close> gives the contents of
  the buffer and the number of bytes received.
\<close>

record 'w hid_lib =
  hid_api :: "('w, hid_error, hid_device_info list) proc"
  hid_open :: "byte list \<Rightarrow> ('w, hid_error, nat) proc"
  hid_write :: "nat \<Rightarrow> byte list \<Rightarrow> ('w, hid_error, nat) proc"
  hid_read :: "nat \<Rightarrow> int \<Rightarrow> ('w, hid_error, byte list \<times> nat) proc"
  hid_now :: "'w \<Rightarrow> nat \<times> 'w"
  show_hid :: "hid_error \<Rightarrow> string"

definition hid_io_error :: "'w hid_lib \<Rightarrow> hid_error \<Rightarrow> io_error" where
  "hid_io_error lib e = IoError IoOther (show_hid lib e)"

section \<open>Interfaces\<close>

definition CANOKEY_VID :: u16 where "CANOKEY_VID = 0x20a0"
definition CANOKEY_FIDO_CCID_PID :: u16 where "CANOKEY_FIDO_CCID_PID = 0x42d4"
definition FIDO_USAGE_PAGE :: u16 where "FIDO_USAGE_PAGE = 0xf1d0"
definition FIDO_USAGE :: u16 where "FIDO_USAGE = 1"

definition hid_matches :: "u16 \<Rightarrow> u16 \<Rightarrow> u16 \<Rightarrow> u16 \<Rightarrow> byte list option \<Rightarrow> bool" where
  "hid_matches vid pid usage_page usage product =
    (if usage_page \<noteq> FIDO_USAGE_PAGE \<or> usage \<noteq> FIDO_USAGE then False
     else vid = CANOKEY_VID \<and> pid = CANOKEY_FIDO_CCID_PID
       \<or> (case product of Some p \<Rightarrow> contains_sub (lit ''CanoKey'') p | None \<Rightarrow> False))"

definition interface_of :: "hid_device_info \<Rightarrow> fido_interface option" where
  "interface_of info =
    (if hid_matches (di_vendor_id info) (di_product_id info) (di_usage_page info) (di_usage info) (di_product info)
     then Some \<lparr>fi_path = di_path info, fi_product = di_product info, fi_serial = di_serial info\<rparr> else None)"

definition list_fido_interfaces :: "hid_device_info list \<Rightarrow> fido_interface list" where
  "list_fido_interfaces devices = List.map_filter interface_of devices"

section \<open>Reports\<close>

definition hid_write_report :: "'w hid_lib \<Rightarrow> nat \<Rightarrow> report \<Rightarrow> ('w, io_error, unit) proc" where
  "hid_write_report lib device report =
     proc_bind (proc_map_err (hid_io_error lib) (hid_write lib device (0 # report))) (\<lambda>written.
     if written \<noteq> REPORT_LEN + 1 then throw (IoError IoWriteZero ''short HID report write'') else ret ())"

definition complete_report :: "byte list \<Rightarrow> nat \<Rightarrow> io_error + report option" where
  "complete_report buf received =
    (if received = 0 then Ok None
     else if received = REPORT_LEN then Ok (Some buf)
     else Err (IoError IoInvalidData ''short HID report read''))"

text \<open>The timeout is a number of milliseconds, an \<^verbatim>\<open>i32\<close> for the library.\<close>

definition hid_read_report :: "'w hid_lib \<Rightarrow> nat \<Rightarrow> nat \<Rightarrow> ('w, io_error, report option) proc" where
  "hid_read_report lib device timeout =
     proc_bind (proc_map_err (hid_io_error lib) (hid_read lib device (min (int timeout) (2 ^ 31 - 1)))) (\<lambda>(buf, received).
     lift_res (complete_report buf received))"

definition hid_report_io :: "'w hid_lib \<Rightarrow> nat \<Rightarrow> 'w report_io" where
  "hid_report_io lib device = \<lparr>write_report = hid_write_report lib device, read_report = hid_read_report lib device,
     instant_now = hid_now lib\<rparr>"

section \<open>Connecting\<close>

definition hid_connect :: "'w hid_lib \<Rightarrow> fido_interface \<Rightarrow> byte list \<Rightarrow> nat
    \<Rightarrow> ('w, ctaphid_error, nat \<times> u32 \<times> capabilities) proc" where
  "hid_connect lib interface nonce timeout =
     proc_bind (proc_map_err (\<lambda>e. HidIo (hid_io_error lib e)) (hid_open lib (fi_path interface))) (\<lambda>device.
     proc_bind (allocate (hid_report_io lib device) nonce timeout) (\<lambda>(cid, caps).
     ret (device, cid, caps)))"

end
