(* ===== verification/HexText.thy ===== *)
theory HexText
  imports Strings
begin

unbundle bit_operations_syntax

text \<open>
  Hexadecimal text as the commands print and read it: the digits of a text, what a text that starts with
  another means for the bytes, and the texts that decode to given bytes.
\<close>

lemma hex_text_digits:
  assumes "c \<in> set (hex_text bs)"
  shows "\<exists>d. unat d < 16 \<and> c = hex_char d"
  using assms by (induction bs) (auto simp: hex_text_def intro: nibbles)

lemma hex_char_lower:
  assumes "unat d < 16"
  shows "ascii_lower (hex_char d) = hex_char d"
proof -
  have "d < 16" using assms by (simp add: word_less_nat_alt)
  show ?thesis
  proof (cases "d < 10")
    case True
    then have "\<not> 0x41 \<le> 0x30 + d" by unat_arith
    then show ?thesis using True by (simp add: hex_char_def ascii_lower_def)
  next
    case False
    then have "\<not> 0x57 + d \<le> 0x5a" using \<open>d < 16\<close> by (unat_arith; auto)
    then show ?thesis using False by (simp add: hex_char_def ascii_lower_def)
  qed
qed

lemma hex_text_lower: "map ascii_lower (hex_text bs) = hex_text bs"
  by (rule map_idI) (auto dest: hex_text_digits simp: hex_char_lower)

lemma hex_text_append: "hex_text (as @ bs) = hex_text as @ hex_text bs"
  by (simp add: hex_text_def)

lemma hex_text_eq: "hex_text as = hex_text bs \<longleftrightarrow> as = bs"
  by (metis hex_decode_text option.inject)

lemma hex_text_starts: "strip_prefix (hex_text as) (hex_text bs) \<noteq> None \<longleftrightarrow> take (length as) bs = as"
proof
  assume "strip_prefix (hex_text as) (hex_text bs) \<noteq> None"
  then obtain t where t: "hex_text bs = hex_text as @ t" by (auto simp: strip_prefix_Some)
  have "2 * length bs = 2 * length as + length t" using arg_cong [OF t, where f = length] by simp
  then have "length (take (length as) bs) = length as" by simp
  moreover have "hex_text (take (length as) bs) @ hex_text (drop (length as) bs) = hex_text as @ t"
    using t by (simp flip: hex_text_append)
  ultimately have "hex_text (take (length as) bs) = hex_text as" by (simp add: append_eq_append_conv)
  then show "take (length as) bs = as" by (simp add: hex_text_eq)
next
  assume "take (length as) bs = as"
  then have "hex_text bs = hex_text as @ hex_text (drop (length as) bs)"
    by (metis append_take_drop_id hex_text_append)
  then show "strip_prefix (hex_text as) (hex_text bs) \<noteq> None" by simp
qed

text \<open>A text of digits, whatever their case, decodes to the bytes whose text it is in lower case.\<close>

lemma hex_val_char:
  assumes "hex_val b = Some d"
  shows "unat d < 16 \<and> ascii_lower b = hex_char d"
proof -
  have "unat d < 16 \<and> ascii_lower b = hex_char d" if "0x30 \<le> b" "b \<le> 0x39"
  proof -
    have "d = b - 0x30" using assms that by (simp add: hex_val_def)
    moreover have "unat (b - 0x30) < 10" "\<not> 0x41 \<le> b" using that by (unat_arith; auto)+
    moreover from this have "b - 0x30 < 10" by (simp add: word_less_nat_alt)
    ultimately show ?thesis by (simp add: ascii_lower_def hex_char_def)
  qed
  moreover have "unat d < 16 \<and> ascii_lower b = hex_char d" if "0x61 \<le> b" "b \<le> 0x66"
  proof -
    have "\<not> b \<le> 0x39" "\<not> b \<le> 0x5a" using that by (unat_arith; auto)+
    moreover from this have "d = b - 0x57" using assms that by (simp add: hex_val_def)
    moreover have "unat (b - 0x57) < 16" "\<not> b - 0x57 < 10" using that by (unat_arith; auto)+
    ultimately show ?thesis by (simp add: ascii_lower_def hex_char_def)
  qed
  moreover have "unat d < 16 \<and> ascii_lower b = hex_char d" if "0x41 \<le> b" "b \<le> 0x46"
  proof -
    have "\<not> b \<le> 0x39" "\<not> 0x61 \<le> b" "b \<le> 0x5a" using that by (unat_arith; auto)+
    moreover from this have "d = b - 0x37" using assms that by (simp add: hex_val_def)
    moreover have "unat (b - 0x37) < 16" "\<not> b - 0x37 < 10" using that by (unat_arith; auto)+
    ultimately show ?thesis using that by (simp add: ascii_lower_def hex_char_def)
  qed
  ultimately show ?thesis using assms by (auto simp: hex_val_def split: if_splits)
qed

lemma hex_val_lower: "hex_val (ascii_lower b) = hex_val b"
proof (cases "0x41 \<le> b \<and> b \<le> 0x5a")
  case True
  then have "\<not> b \<le> 0x39" "\<not> 0x61 \<le> b" "\<not> b + 0x20 \<le> 0x39" "\<not> b + 0x20 \<le> 0x46" "0x61 \<le> b + 0x20"
    "(b + 0x20 \<le> 0x66) = (b \<le> 0x46)"
    by (unat_arith; auto)+
  with True show ?thesis by (simp add: ascii_lower_def hex_val_def)
qed (auto simp: ascii_lower_def)

lemma pair_nibbles:
  assumes "unat h < 16" "unat l < 16"
  shows "drop_bit 4 (push_bit 4 h OR l :: byte) = h" "(push_bit 4 h OR l) AND 15 = l"
proof -
  have low: "take_bit 4 h = h" "take_bit 4 l = l"
    using assms by (simp_all add: word_unat_eq_iff unsigned_take_bit_eq take_bit_nat_eq_self)
  have bits: "n < 4" if "bit h n \<or> bit l n" for n
    using that arg_cong [OF low(1), of "\<lambda>w. bit w n"] arg_cong [OF low(2), of "\<lambda>w. bit w n"] by (auto simp: bit_simps)
  have m: "x AND 15 = take_bit 4 x" for x :: byte by (simp add: take_bit_eq_mask mask_eq_exp_minus_1)
  show "drop_bit 4 (push_bit 4 h OR l) = h"
    by (rule bit_word_eqI) (auto simp: bit_simps dest: bits [OF disjI1] bits [OF disjI2])
  show "(push_bit 4 h OR l) AND 15 = l"
    unfolding m by (rule bit_word_eqI) (auto simp: bit_simps dest: bits [OF disjI2])
qed

lemma hex_decode_digits:
  "list_all (\<lambda>b. hex_val b \<noteq> None) t \<Longrightarrow> even (length t)
    \<Longrightarrow> \<exists>bs. hex_decode t = Some bs \<and> map ascii_lower t = hex_text bs"
proof (induction t rule: hex_decode.induct)
  case (3 a b rest)
  then obtain h l where hl: "hex_val a = Some h" "hex_val b = Some l" by auto
  then have "a \<noteq> 0x2b" by (auto simp: hex_val_def)
  with hl have pair: "hex_pair a b = Some (push_bit 4 h OR l)" by (simp add: hex_pair_def)
  then obtain bs where bs: "hex_decode rest = Some bs" "map ascii_lower rest = hex_text bs" using 3 by auto
  have "ascii_lower a = hex_char h" "ascii_lower b = hex_char l" "unat h < 16" "unat l < 16"
    using hl hex_val_char by blast+
  then show ?case
    using bs pair pair_nibbles [of h l]
    by (intro exI [of _ "(push_bit 4 h OR l) # bs"]) (simp add: hex_text_def del: drop_bit_or)
qed (auto simp: hex_text_def)

lemma hex_text_even_digits:
  assumes "map ascii_lower t = hex_text bs"
  shows "list_all (\<lambda>b. hex_val b \<noteq> None) t \<and> length t = 2 * length bs"
proof -
  have "hex_val c \<noteq> None" if "c \<in> set t" for c
  proof -
    have "ascii_lower c \<in> set (hex_text bs)" unfolding assms [symmetric] using that by simp
    then have "hex_val (ascii_lower c) \<noteq> None" by (auto dest!: hex_text_digits simp: hex_char_val)
    then show ?thesis by (simp add: hex_val_lower)
  qed
  moreover have "length t = length (hex_text bs)" using arg_cong [OF assms, of length] by simp
  ultimately show ?thesis by (simp add: list_all_iff)
qed

end
