(* ===== verification/FidoCli.thy ===== *)
theory FidoCli
  imports Fido Hid PivCli HexText
begin

text \<open>
  The FIDO commands of \<^verbatim>\<open>crates/ckman/src/commands/fido.rs\<close>: the link (USB HID, or FIDO over PC/SC), PIN entry, the
  access, configuration, credential and largeBlobs commands.  While a link is open the world carries
  what the link owns: whether a touch was asked for, and the envelope's buffered command chain.
\<close>

section \<open>Environment\<close>

record 'w fido_cli =
  fc_piv :: "'w piv_cli"
  fc_hid :: "'w hid_lib"
  fc_ctap :: ctap_lib
  firmware_of :: "device_profile \<Rightarrow> (nat \<times> nat \<times> nat) option"

definition fc_terminal :: "'w fido_cli \<Rightarrow> 'w cli_env" where
  "fc_terminal env = pcl_cli (fc_piv env)"

definition fc_random :: "'w fido_cli \<Rightarrow> nat \<Rightarrow> ('w, message, byte list) proc" where
  "fc_random env n = proc_map_err (\<lambda>e. lit (show_random (pcl_fs (fc_piv env)) e)) (fs_random (pcl_fs (fc_piv env)) n)"

type_synonym 'w link_world = "('w \<times> bool) \<times> byte list"

text \<open>A procedure of the program that does not concern the link\<close>

definition outside :: "('w, 'e, 'a) proc \<Rightarrow> ('w link_world, 'e, 'a) proc" where
  "outside m = (\<lambda>((w, prompted), pending). map_option (\<lambda>(r, w). (r, ((w, prompted), pending))) (m w))"

section \<open>Messages\<close>

definition status_message :: "8 word \<Rightarrow> message" where
  "status_message s =
    (if s = 0x31 then lit ''wrong PIN''
     else if s = 0x32 then lit ''the FIDO2 PIN is blocked''
     else if s = 0x34 then lit ''PIN authentication is currently blocked; remove and re-insert the CanoKey''
     else if s = 0x33 then lit ''PIN/UV authentication is invalid''
     else if s = 0x35 then lit ''no FIDO2 PIN is set''
     else if s = 0x36 then lit ''PIN/UV authorization is required''
     else if s = 0x37 then lit ''the new PIN does not meet the device's requirements''
     else if s = 0x30 then lit ''operation not allowed''
     else if s = 0x2f then lit ''timed out waiting for user presence''
     else if s = 0x2e then lit ''no credentials''
     else lit ''CTAP error 0x'' @ hex_text [s])"

definition show_large_blob_error :: "large_blob_error \<Rightarrow> string" where
  "show_large_blob_error e = (case e of
     LargeBlobLength \<Rightarrow> ''largeBlobs array must contain between 17 and 4096 bytes''
   | LargeBlobIntegrity \<Rightarrow> ''largeBlobs integrity trailer does not match its contents'')"

definition describe_fido :: "'w fido_cli \<Rightarrow> io_error fido_error \<Rightarrow> message" where
  "describe_fido env error = (case error of
     FidoRandom e \<Rightarrow> lit (''failed to generate randomness: '' @ show_random (pcl_fs (fc_piv env)) e)
   | FidoLargeBlob e \<Rightarrow> lit (show_large_blob_error e)
   | FidoDrive d \<Rightarrow> (case d of
       Transport e \<Rightarrow> lit (''transport exchange failed: '' @ io_message e)
     | Protocol e \<Rightarrow> (case err_application e of
         Some s \<Rightarrow> status_message s
       | None \<Rightarrow> if err_kind e = InvalidPin then lit ''invalid PIN''
           else lit (''protocol error: '' @ show_lib_error (fc_terminal env) e))))"

section \<open>The link\<close>

datatype fido_link = HidLink nat u32 | PcscLink target

text \<open>The HID device under the flag of the touch prompt\<close>

definition beside_flag :: "('w, 'e, 'a) proc \<Rightarrow> ('w \<times> bool, 'e, 'a) proc" where
  "beside_flag m = (\<lambda>(w, prompted). map_option (\<lambda>(r, w). (r, (w, prompted))) (m w))"

definition link_io :: "'w fido_cli \<Rightarrow> nat \<Rightarrow> ('w \<times> bool) report_io" where
  "link_io env device = (let io = hid_report_io (fc_hid env) device in
     \<lparr>write_report = \<lambda>r. beside_flag (write_report io r), read_report = \<lambda>n. beside_flag (read_report io n),
      instant_now = \<lambda>(w, prompted). let (t, w) = instant_now io w in (t, (w, prompted))\<rparr>)"

definition on_keepalive :: "'w fido_cli \<Rightarrow> keepalive \<Rightarrow> 'w \<times> bool \<Rightarrow> 'w \<times> bool" where
  "on_keepalive env k = (\<lambda>(w, prompted).
     let (w, prompted) = (if k = UserPresenceNeeded
       then (if prompted then w else stderr_print (fc_terminal env) (lit ''Touch your CanoKey...'' @ [0x0a]) w, True)
       else (w, prompted)) in
     if k = Processing then (w, False) else (w, prompted))"

definition link_adapter :: "'w fido_cli \<Rightarrow> nat \<Rightarrow> u32 \<Rightarrow> ('w \<times> bool) hid_adapter" where
  "link_adapter env device cid = \<lparr>ha_io = link_io env device, ha_cid = cid, ha_timeout = 60000, ha_keepalive = on_keepalive env\<rparr>"

definition link_exchange :: "'w fido_cli \<Rightarrow> fido_link \<Rightarrow> ('w link_world, io_error) exchange" where
  "link_exchange env link = (case link of
     HidLink device cid \<Rightarrow> adapter_exchange (link_adapter env device cid)
   | PcscLink t \<Rightarrow> (\<lambda>command. outside (conn_exchange (fc_terminal env) (tg_connection t) command)))"

definition link_env :: "'w fido_cli \<Rightarrow> fido_link \<Rightarrow> ('w link_world, io_error) fido_env" where
  "link_env env link = \<lparr>fido_exchange = link_exchange env link,
     fido_random = \<lambda>n. outside (fs_random (pcl_fs (fc_piv env)) n), ctap = fc_ctap env\<rparr>"

definition link_run :: "'w fido_cli \<Rightarrow> fido_link
    \<Rightarrow> (('w link_world, io_error) fido_env \<Rightarrow> ('w link_world, io_error fido_error, 'a) proc) \<Rightarrow> ('w link_world, message, 'a) proc" where
  "link_run env link operation = (\<lambda>((w, prompted), pending).
     proc_map_err (describe_fido env) (operation (link_env env link))
       ((w, case link of HidLink _ _ \<Rightarrow> False | PcscLink _ \<Rightarrow> prompted), pending))"

subsection \<open>Connecting\<close>

definition check_ccid_firmware :: "'w fido_cli \<Rightarrow> device_profile \<Rightarrow> message + unit" where
  "check_ccid_firmware env profile = (case firmware_of env profile of
     Some (major, minor, patch) \<Rightarrow>
       if major < 1 \<or> major = 1 \<and> (minor < 5 \<or> minor = 5 \<and> patch < 2)
       then Err (lit ''FIDO over CCID requires firmware 1.5.2 or newer'') else Ok ()
   | None \<Rightarrow> Ok ())"

definition pcsc_link :: "'w fido_cli \<Rightarrow> target \<Rightarrow> ('w, message, fido_link) proc" where
  "pcsc_link env t = proc_bind (lift_res (check_ccid_firmware env (tg_profile t))) (\<lambda>_. ret (PcscLink t))"

text \<open>\<^verbatim>\<open>u32::from_str_radix(s, 16)\<close>, which allows one leading plus sign\<close>

fun hex_digits_u32 :: "nat \<Rightarrow> byte list \<Rightarrow> u32 option" where
  "hex_digits_u32 acc [] = Some (word_of_nat acc)"
| "hex_digits_u32 acc (b # bs) = (case hex_val b of
     None \<Rightarrow> None
   | Some d \<Rightarrow> if acc * 16 + unat d < 2 ^ 32 then hex_digits_u32 (acc * 16 + unat d) bs else None)"

definition u32_from_hex :: "byte list \<Rightarrow> u32 option" where
  "u32_from_hex t =
    (let ds = (case t of b # bs \<Rightarrow> if b = 0x2b then bs else t | [] \<Rightarrow> t) in
     if ds = [] then None else hex_digits_u32 0 ds)"

definition interface_serial :: "fido_interface \<Rightarrow> u32 option" where
  "interface_serial interface = Option.bind (fi_serial interface) u32_from_hex"

text \<open>\<^verbatim>\<open>escape_ascii\<close>, by which \<^verbatim>\<open>CString\<close> is shown\<close>

definition escape_ascii :: "byte \<Rightarrow> byte list" where
  "escape_ascii b =
    (if b = 0x09 then lit [CHR 0x5C, CHR ''t''] else if b = 0x0d then lit [CHR 0x5C, CHR ''r'']
     else if b = 0x0a then lit [CHR 0x5C, CHR ''n'']
     else if b = 0x27 \<or> b = 0x22 \<or> b = 0x5c then [0x5c, b]
     else if 0x20 \<le> b \<and> b < 0x7f then [b]
     else lit [CHR 0x5C, CHR ''x''] @ hex_text [b])"

definition interface_line :: "fido_interface \<Rightarrow> byte list" where
  "interface_line interface = [0x0a, 0x20, 0x20] @ (case fi_product interface of None \<Rightarrow> lit ''CanoKey'' | Some p \<Rightarrow> p)
     @ lit '' (serial '' @ (case fi_serial interface of None \<Rightarrow> lit ''unknown'' | Some s \<Rightarrow> s)
     @ lit '', path '' @ [0x22] @ concat (map escape_ascii (fi_path interface)) @ [0x22] @ lit '')''"

definition hid_nonce_connect :: "'w fido_cli \<Rightarrow> fido_interface
    \<Rightarrow> ('w, message, ctaphid_error + nat \<times> u32 \<times> capabilities) proc" where
  "hid_nonce_connect env interface =
     proc_bind (fc_random env 8) (\<lambda>nonce.
     proc_try (hid_connect (fc_hid env) interface nonce 5000) ret)"

definition connect_serial :: "'w fido_cli \<Rightarrow> u32 \<Rightarrow> byte list option \<Rightarrow> ('w, message, fido_link) proc" where
  "connect_serial env serial reader =
     proc_bind (proc_try (hid_api (fc_hid env)) ret) (\<lambda>api.
     case filter (\<lambda>i. interface_serial i = Some serial)
         (case api of Ok devices \<Rightarrow> list_fido_interfaces devices | Err _ \<Rightarrow> []) of
       [interface] \<Rightarrow> proc_bind (hid_nonce_connect env interface) (\<lambda>r. case r of
           Err e \<Rightarrow> throw (lit (show_ctaphid_error e))
         | Ok (device, cid, caps) \<Rightarrow>
             if \<not> cbor_cap caps then throw (lit ''the HID interface does not speak CTAP2 (CBOR)'')
             else ret (HidLink device cid))
     | _ \<Rightarrow>
         proc_bind (pcsc_result (fc_terminal env) (pc_establish (fc_terminal env))) (\<lambda>_.
         proc_bind (proc_map_err (\<lambda>e. lit ''cannot resolve --device '' @ lit (show_nat (unat serial)) @ lit '': '' @ e
             @ lit ''; no unique matching HID interface'') (single_target (fc_terminal env) (Some serial) reader)) (\<lambda>t.
         pcsc_link env t)))"

definition fido_note :: "'w fido_cli \<Rightarrow> byte list \<Rightarrow> ('w, message, 'a option) proc" where
  "fido_note env t = proc_bind (piv_eprintln (fc_piv env) t) (\<lambda>_. ret None)"

text \<open>The HID interface, when no reader is named and exactly one was found that can be opened\<close>

definition connect_hid :: "'w fido_cli \<Rightarrow> ('w, message, fido_link option) proc" where
  "connect_hid env =
     proc_bind (proc_try (hid_api (fc_hid env)) ret) (\<lambda>api.
     case (case api of Ok devices \<Rightarrow> list_fido_interfaces devices | Err _ \<Rightarrow> []) of
       [] \<Rightarrow> ret None
     | [interface] \<Rightarrow> proc_bind (hid_nonce_connect env interface) (\<lambda>r. case r of
           Ok (device, cid, caps) \<Rightarrow>
             if cbor_cap caps then ret (Some (HidLink device cid))
             else fido_note env (lit ''note: the HID interface does not speak CTAP2 (CBOR); falling back to PC/SC'')
         | Err e \<Rightarrow> fido_note env (lit (''note: cannot open the HID interface ('' @ show_ctaphid_error e
             @ ''); falling back to PC/SC'')))
     | interfaces \<Rightarrow> throw (lit ''multiple CanoKey FIDO interfaces found; select one with --device or --reader:''
         @ concat (map interface_line interfaces)))"

definition fido_connect :: "'w fido_cli \<Rightarrow> u32 option \<Rightarrow> byte list option \<Rightarrow> ('w, message, fido_link) proc" where
  "fido_connect env device reader = (case device of
     Some serial \<Rightarrow> connect_serial env serial reader
   | None \<Rightarrow>
       proc_bind (if reader = None then connect_hid env else ret None) (\<lambda>found. case found of
         Some link \<Rightarrow> ret link
       | None \<Rightarrow> proc_bind (piv_connect (fc_piv env) None reader) (pcsc_link env)))"

text \<open>A new link: no touch was asked for, nothing is buffered.\<close>

definition on_link :: "('w link_world, message, 'a) proc \<Rightarrow> ('w, message, 'a) proc" where
  "on_link m = (\<lambda>w. map_option (\<lambda>(r, ((w, _), _)). (r, w)) (m ((w, False), [])))"

definition over_link :: "'w fido_cli \<Rightarrow> u32 option \<Rightarrow> byte list option
    \<Rightarrow> (fido_link \<Rightarrow> ('w link_world, message, 'a) proc) \<Rightarrow> ('w, message, 'a) proc" where
  "over_link env device reader body = proc_bind (fido_connect env device reader) (\<lambda>link. on_link (body link))"

definition fc_println :: "'w fido_cli \<Rightarrow> byte list \<Rightarrow> ('w link_world, message, unit) proc" where
  "fc_println env t = outside (piv_println (fc_piv env) t)"

section \<open>PIN entry\<close>

definition named_option :: "string \<Rightarrow> authenticator_info \<Rightarrow> bool option" where
  "named_option name info = Option.bind (ai_options info) (\<lambda>os. map_option snd (find (\<lambda>(n, _). n = lit name) os))"

definition client_pin_set :: "authenticator_info \<Rightarrow> bool" where
  "client_pin_set info = (case named_option ''clientPin'' info of Some v \<Rightarrow> v | None \<Rightarrow> False)"

definition minimum_pin :: "authenticator_info \<Rightarrow> 64 word" where
  "minimum_pin info = (case ai_min_pin_length info of Some n \<Rightarrow> n | None \<Rightarrow> 4)"

definition validate_new_pin :: "'w fido_cli \<Rightarrow> byte list \<Rightarrow> 64 word \<Rightarrow> message + unit" where
  "validate_new_pin env pin least =
    (if \<not> (case normalize_pin (fc_ctap env) pin of
         Ok normalized \<Rightarrow> least \<le> word_of_nat (pin_characters normalized) | Err _ \<Rightarrow> False)
     then Err (lit ''after Unicode NFC normalization, the PIN must contain at least '' @ lit (show_nat (unat (max least 4)))
       @ lit '' characters, at most 63 UTF-8 bytes, and no NUL bytes'')
     else Ok ())"

definition pins_match :: "'w fido_cli \<Rightarrow> byte list \<Rightarrow> byte list \<Rightarrow> bool" where
  "pins_match env a b = (case (normalize_pin (fc_ctap env) a, normalize_pin (fc_ctap env) b) of
     (Ok a, Ok b) \<Rightarrow> a = b | _ \<Rightarrow> False)"

definition fido_prompt :: "'w fido_cli \<Rightarrow> string \<Rightarrow> ('w link_world, message, byte list) proc" where
  "fido_prompt env text = outside (prompt_password (fc_terminal env) (lit text))"

definition prompt_new_pin :: "'w fido_cli \<Rightarrow> 64 word \<Rightarrow> ('w link_world, message, byte list) proc" where
  "prompt_new_pin env least =
     proc_bind (fido_prompt env ''Enter the new PIN: '') (\<lambda>pin.
     proc_bind (lift_res (validate_new_pin env pin least)) (\<lambda>_.
     proc_bind (fido_prompt env ''Repeat the new PIN: '') (\<lambda>repeated.
     if \<not> pins_match env pin repeated then throw (lit ''the PINs do not match'') else ret pin)))"

definition given_or_prompt :: "'w fido_cli \<Rightarrow> byte list option \<Rightarrow> string \<Rightarrow> ('w link_world, message, byte list) proc" where
  "given_or_prompt env pin text = (case pin of Some pin \<Rightarrow> ret pin | None \<Rightarrow> fido_prompt env text)"

definition token_for :: "'w fido_cli \<Rightarrow> permissions \<Rightarrow> byte list option \<Rightarrow> fido_link \<Rightarrow> pin_protocol \<Rightarrow> byte list option
    \<Rightarrow> ('w link_world, message, pin_token) proc" where
  "token_for env granted rp link protocol pin =
     proc_bind (given_or_prompt env pin ''Enter the FIDO2 PIN: '') (\<lambda>pin.
     proc_bind (link_run env link (\<lambda>f. key_agreement f protocol)) (\<lambda>session.
     link_run env link (\<lambda>f. pin_token_of f session pin granted rp)))"

definition config_token where "config_token env = token_for env AuthenticatorConfig None"
definition credman_token where "credman_token env = token_for env CredentialManagement None"
definition blob_token where "blob_token env = token_for env LargeBlobWrite None"

section \<open>Access commands\<close>

text \<open>Every access command reads getInfo first.\<close>

definition with_info :: "'w fido_cli \<Rightarrow> u32 option \<Rightarrow> byte list option
    \<Rightarrow> (fido_link \<Rightarrow> authenticator_info \<Rightarrow> ('w link_world, message, 'a) proc) \<Rightarrow> ('w, message, 'a) proc" where
  "with_info env device reader body = over_link env device reader (\<lambda>link.
     proc_bind (link_run env link get_info) (body link))"

definition new_pin_for :: "'w fido_cli \<Rightarrow> authenticator_info \<Rightarrow> byte list option \<Rightarrow> ('w link_world, message, byte list) proc" where
  "new_pin_for env info new_pin =
     proc_bind (case new_pin of Some pin \<Rightarrow> ret pin | None \<Rightarrow> prompt_new_pin env (minimum_pin info)) (\<lambda>new_pin.
     proc_bind (lift_res (validate_new_pin env new_pin (minimum_pin info))) (\<lambda>_. ret new_pin))"

definition fido_access_set_pin where
  "fido_access_set_pin env device reader new_pin = with_info env device reader (\<lambda>link info.
     if client_pin_set info then throw (lit ''a PIN is already set; use change-pin'')
     else proc_bind (new_pin_for env info new_pin) (\<lambda>new_pin.
       proc_bind (link_run env link (\<lambda>f. key_agreement f (preferred_protocol info))) (\<lambda>session.
       proc_bind (link_run env link (\<lambda>f. fido_set_pin f session new_pin)) (\<lambda>_.
       fc_println env (lit ''FIDO2 PIN set.'')))))"

definition fido_access_change_pin where
  "fido_access_change_pin env device reader pin new_pin = with_info env device reader (\<lambda>link info.
     if \<not> client_pin_set info then throw (lit ''there is no current PIN set; use set-pin'')
     else proc_bind (given_or_prompt env pin ''Enter the current PIN: '') (\<lambda>pin.
       proc_bind (new_pin_for env info new_pin) (\<lambda>new_pin.
       proc_bind (link_run env link (\<lambda>f. key_agreement f (preferred_protocol info))) (\<lambda>session.
       proc_bind (link_run env link (\<lambda>f. fido_change_pin f session pin new_pin)) (\<lambda>_.
       fc_println env (lit ''FIDO2 PIN changed.''))))))"

definition fido_access_set_min_length where
  "fido_access_set_min_length env device reader n rp_ids force_change pin = with_info env device reader (\<lambda>link info.
     if \<not> client_pin_set info then throw (lit ''a FIDO2 PIN must be set first'')
     else proc_bind (config_token env link (preferred_protocol info) pin) (\<lambda>token.
       proc_bind (link_run env link (\<lambda>f. set_min_pin_length f token (preferred_protocol info) n
         (if force_change then Some True else None) rp_ids)) (\<lambda>_.
       fc_println env (lit ''Minimum PIN length set to '' @ lit (show_nat (unat n)) @ lit ''.''))))"

definition fido_access_verify_pin where
  "fido_access_verify_pin env device reader pin = with_info env device reader (\<lambda>link info.
     if \<not> client_pin_set info then throw (lit ''this CanoKey does not have a FIDO2 PIN set'')
     else proc_bind (token_for env GetAssertion (Some (lit ''ckman.example.com'')) link (preferred_protocol info) pin) (\<lambda>_.
       fc_println env (lit ''PIN verified.'')))"

definition fido_access_force_change where
  "fido_access_force_change env device reader pin = with_info env device reader (\<lambda>link info.
     if \<not> client_pin_set info then throw (lit ''a FIDO2 PIN must be set first'')
     else proc_bind (config_token env link (preferred_protocol info) pin) (\<lambda>token.
       proc_bind (link_run env link (\<lambda>f. set_min_pin_length f token (preferred_protocol info)
         (ucast (minimum_pin info)) (Some True) [])) (\<lambda>_.
       fc_println env (lit ''The user will be required to change the PIN.''))))"

section \<open>Reset, touch test and configuration\<close>

definition fido_confirm :: "'w fido_cli \<Rightarrow> bool \<Rightarrow> byte list \<Rightarrow> message \<Rightarrow> ('w, message, unit) proc" where
  "fido_confirm env force prompt refused =
    (if force then ret ()
     else proc_bind (confirm (fc_terminal env) prompt) (\<lambda>yes. if yes then ret () else throw refused))"

definition fido_reset_command where
  "fido_reset_command env device reader force =
     proc_bind (if force then ret () else
       proc_bind (fido_confirm env False
         (lit ''This will delete all FIDO credentials, including FIDO U2F credentials, and the FIDO2 PIN. Proceed?'')
         (lit ''FIDO reset aborted'')) (\<lambda>_.
       proc_bind (piv_println (fc_piv env) (lit ''Remove and re-insert your CanoKey, then press Enter.'')) (\<lambda>_.
       proc_bind (piv_println (fc_piv env)
         (lit ''(The reset command is only accepted for a few seconds after insertion.)'')) (\<lambda>_.
       proc_bind (io_result (stdin_line (fc_terminal env))) (\<lambda>_. ret ()))))) (\<lambda>_.
     over_link env device reader (\<lambda>link.
       proc_bind (link_run env link fido_reset) (\<lambda>_. fc_println env (lit ''FIDO application data reset.''))))"

definition fido_touch_test where
  "fido_touch_test env device reader = over_link env device reader (\<lambda>link.
     proc_bind (case link of PcscLink _ \<Rightarrow> outside (piv_eprintln (fc_piv env) (lit ''Touch your CanoKey...'')) | HidLink _ _ \<Rightarrow> ret ()) (\<lambda>_.
     proc_bind (link_run env link fido_selection) (\<lambda>_. fc_println env (lit ''Touch detected.''))))"

definition require_authnr_cfg :: "authenticator_info \<Rightarrow> message + unit" where
  "require_authnr_cfg info = (if named_option ''authnrCfg'' info \<noteq> Some True
     then Err (lit ''authenticator configuration is not supported on this CanoKey'') else Ok ())"

definition fido_toggle_always_uv where
  "fido_toggle_always_uv env device reader pin = with_info env device reader (\<lambda>link info.
     proc_bind (lift_res (ok_or (lit ''Always Require UV is not supported on this CanoKey'') (named_option ''alwaysUv'' info))) (\<lambda>always_uv.
     proc_bind (lift_res (require_authnr_cfg info)) (\<lambda>_.
     proc_bind (config_token env link (preferred_protocol info) pin) (\<lambda>token.
     proc_bind (link_run env link (\<lambda>f. toggle_always_uv f token (preferred_protocol info))) (\<lambda>_.
     fc_println env (lit ''Always Require UV is '' @ lit (if always_uv then ''off'' else ''on'') @ lit ''.''))))))"

definition fido_long_touch where
  "fido_long_touch env device reader pin force =
     proc_bind (fido_confirm env force (lit (''This is permanent: a FIDO reset will then require holding the touch for up ''
       @ ''to 30 seconds (and always times out over NFC), until a full reset clears it. Proceed?'')) (lit ''aborted'')) (\<lambda>_.
     with_info env device reader (\<lambda>link info.
       proc_bind (lift_res (require_authnr_cfg info)) (\<lambda>_.
       proc_bind (config_token env link (preferred_protocol info) pin) (\<lambda>token.
       proc_bind (link_run env link (\<lambda>f. enable_long_touch_for_reset f token (preferred_protocol info))) (\<lambda>_.
       fc_println env (lit ''Long touch for reset is enabled.''))))))"

section \<open>largeBlobs commands\<close>

definition check_large_blobs :: "authenticator_info \<Rightarrow> message + unit" where
  "check_large_blobs info = (if named_option ''largeBlobs'' info \<noteq> Some True
     then Err (lit ''largeBlobs is not supported on this CanoKey'') else Ok ())"

definition bytes_text :: "byte list \<Rightarrow> byte list" where
  "bytes_text blob = lit ('' ('' @ show_nat (length blob) @ '' byte(s))'')"

definition fido_blobs_read where
  "fido_blobs_read env device reader output = with_info env device reader (\<lambda>link info.
     proc_bind (lift_res (check_large_blobs info)) (\<lambda>_.
     proc_bind (link_run env link large_blobs_read) (\<lambda>blob.
     proc_bind (outside (write_output (fc_piv env) output blob)) (\<lambda>_.
     outside (piv_eprintln (fc_piv env) (lit ''largeBlobs array written to '' @ output @ bytes_text blob @ lit ''.''))))))"

definition fido_blobs_write where
  "fido_blobs_write env device reader file_path pin force =
     proc_bind (read_input (fc_piv env) file_path) (\<lambda>blob.
     proc_bind (lift_res (map_err (\<lambda>e. lit (show_large_blob_error e)) (validate_large_blob_array (fc_ctap env) blob))) (\<lambda>_.
     with_info env device reader (\<lambda>link info.
       proc_bind (lift_res (check_large_blobs info)) (\<lambda>_.
       proc_bind (outside (fido_confirm env force (lit ''Replace the entire largeBlobs array'' @ bytes_text blob @ lit ''?'')
         (lit ''largeBlobs write aborted''))) (\<lambda>_.
       proc_bind (if client_pin_set info
         then proc_bind (blob_token env link (preferred_protocol info) pin) (\<lambda>token.
           link_run env link (\<lambda>f. large_blobs_write f blob (Some (token, preferred_protocol info))))
         else link_run env link (\<lambda>f. large_blobs_write f blob None)) (\<lambda>_.
       fc_println env (lit ''largeBlobs array written'' @ bytes_text blob @ lit ''.'')))))))"

section \<open>Credentials\<close>

record cred_row =
  cw_rp_id :: "byte list"
  cw_credential_id :: "byte list"
  cw_user_id :: "byte list"
  cw_user_name :: "byte list"
  cw_display_name :: "byte list"

definition or_empty :: "byte list option \<Rightarrow> byte list" where
  "or_empty v = (case v of Some v \<Rightarrow> v | None \<Rightarrow> [])"

definition credential_row :: "rp_entry \<Rightarrow> credential_entry \<Rightarrow> cred_row" where
  "credential_row rp credential = \<lparr>cw_rp_id = rp_id rp, cw_credential_id = credential_bytes (ce_id credential),
     cw_user_id = (case ce_user credential of Some u \<Rightarrow> ue_id u | None \<Rightarrow> []),
     cw_user_name = (case ce_user credential of Some u \<Rightarrow> or_empty (ue_name u) | None \<Rightarrow> []),
     cw_display_name = (case ce_user credential of Some u \<Rightarrow> or_empty (ue_display_name u) | None \<Rightarrow> [])\<rparr>"

fun rp_rows :: "'w fido_cli \<Rightarrow> fido_link \<Rightarrow> pin_protocol \<Rightarrow> pin_token \<Rightarrow> rp_entry list \<Rightarrow> cred_row list
    \<Rightarrow> ('w link_world, message, cred_row list) proc" where
  "rp_rows env link protocol token [] rows = ret rows"
| "rp_rows env link protocol token (rp # rps) rows =
     proc_bind (link_run env link (\<lambda>f. enumerate_credentials f token protocol (rp_id_hash rp) False)) (\<lambda>credentials.
     rp_rows env link protocol token rps (rows @ map (credential_row rp) credentials))"

definition enumerate_rows :: "'w fido_cli \<Rightarrow> fido_link \<Rightarrow> pin_protocol \<Rightarrow> pin_token
    \<Rightarrow> ('w link_world, message, cred_row list) proc" where
  "enumerate_rows env link protocol token =
     proc_bind (link_run env link (\<lambda>f. creds_metadata_of f token protocol)) (\<lambda>found.
     if existing_credentials found = 0 then ret []
     else proc_bind (link_run env link (\<lambda>f. enumerate_rps f token protocol)) (\<lambda>rps.
       rp_rows env link protocol token rps []))"

definition strip_suffix :: "byte list \<Rightarrow> byte list \<Rightarrow> byte list option" where
  "strip_suffix p s = map_option rev (strip_prefix (rev p) (rev s))"

definition credential_query :: "byte list \<Rightarrow> message + byte list" where
  "credential_query input =
    (let query = (case strip_suffix (lit ''...'') input of Some q \<Rightarrow> q | None \<Rightarrow> input) in
     if query = [] \<or> \<not> list_all (\<lambda>b. hex_val b \<noteq> None) query
     then Err (lit ''credential ID must be a nonempty hexadecimal prefix (optionally ending in ...)'')
     else Ok (map ascii_lower query))"

definition csv_field :: "byte list \<Rightarrow> byte list" where
  "csv_field v =
    (if list_ex (\<lambda>b. b \<in> {0x2c, 0x22, 0x0d, 0x0a}) v
     then [0x22] @ concat (map (\<lambda>b. if b = 0x22 then [0x22, 0x22] else [b]) v) @ [0x22]
     else v)"

definition csv_row :: "cred_row \<Rightarrow> byte list" where
  "csv_row row = hex_text (cw_credential_id row) @ [0x2c] @ csv_field (cw_rp_id row) @ [0x2c]
     @ csv_field (cw_user_name row) @ [0x2c] @ csv_field (cw_display_name row) @ [0x2c] @ hex_text (cw_user_id row)"

text \<open>The number of bytes of an ID that is shown: at least four, until the prefixes differ or 64.\<close>

function shown_length :: "byte list list \<Rightarrow> nat \<Rightarrow> nat" where
  "shown_length ids n =
    (if n < 64 \<and> card (set (map (take n) ids)) < length ids then shown_length ids (n + 1) else n)"
  by auto
termination by (relation "measure (\<lambda>(_, n). 64 - n)") auto

declare shown_length.simps [simp del]

definition padded :: "nat \<Rightarrow> byte list \<Rightarrow> byte list" where
  "padded width t = t @ replicate (width - pin_characters t) 0x20"

definition table_row :: "nat \<Rightarrow> nat \<Rightarrow> cred_row \<Rightarrow> byte list" where
  "table_row n width row = hex_text (take n (cw_credential_id row)) @ lit ''...  '' @ padded width (cw_rp_id row)
     @ lit ''  '' @ cw_user_name row @ lit ''  '' @ cw_display_name row"

definition credential_table :: "cred_row list \<Rightarrow> byte list list" where
  "credential_table rows =
    (let n = shown_length (map cw_credential_id rows) 4;
         width = max 5 (foldr max (map (length \<circ> cw_rp_id) rows) 0) in
     (padded (max 13 (n + 3)) (lit ''Credential ID'') @ lit ''  '' @ padded width (lit ''RP ID'') @ lit ''  Username  Display name'')
     # map (table_row n width) rows)"

definition CSV_HEADER :: "byte list" where
  "CSV_HEADER = lit ''credential_id,rp_id,user_name,user_display_name,user_id''"

fun fc_print_lines :: "'w fido_cli \<Rightarrow> byte list list \<Rightarrow> ('w link_world, message, unit) proc" where
  "fc_print_lines env [] = ret ()"
| "fc_print_lines env (l # ls) = proc_bind (fc_println env l) (\<lambda>_. fc_print_lines env ls)"

text \<open>The rows a credential command works on, behind one PIN entry\<close>

definition with_rows :: "'w fido_cli \<Rightarrow> u32 option \<Rightarrow> byte list option \<Rightarrow> byte list option
    \<Rightarrow> (fido_link \<Rightarrow> pin_protocol \<Rightarrow> pin_token \<Rightarrow> cred_row list \<Rightarrow> ('w link_world, message, 'a) proc) \<Rightarrow> ('w, message, 'a) proc" where
  "with_rows env device reader pin body = with_info env device reader (\<lambda>link info.
     proc_bind (credman_token env link (preferred_protocol info) pin) (\<lambda>token.
     proc_bind (enumerate_rows env link (preferred_protocol info) token) (body link (preferred_protocol info) token)))"

definition credentials_list :: "'w fido_cli \<Rightarrow> u32 option \<Rightarrow> byte list option \<Rightarrow> byte list option \<Rightarrow> bool \<Rightarrow> ('w, message, unit) proc" where
  "credentials_list env device reader pin csv = with_rows env device reader pin (\<lambda>link protocol token rows.
     fc_print_lines env (if csv then CSV_HEADER # map csv_row rows else credential_table rows))"

definition hits :: "cred_row list \<Rightarrow> byte list \<Rightarrow> cred_row list" where
  "hits rows query = filter (\<lambda>row. strip_prefix query (hex_text (cw_credential_id row)) \<noteq> None) rows"

definition only_hit :: "cred_row list \<Rightarrow> byte list \<Rightarrow> message + cred_row" where
  "only_hit rows query = (case hits rows query of
     [row] \<Rightarrow> Ok row
   | [] \<Rightarrow> Err (lit ''no matching credential'')
   | _ \<Rightarrow> Err (lit ''multiple matches; be more specific''))"

definition credentials_delete :: "'w fido_cli \<Rightarrow> u32 option \<Rightarrow> byte list option \<Rightarrow> byte list \<Rightarrow> byte list option \<Rightarrow> bool
    \<Rightarrow> ('w, message, unit) proc" where
  "credentials_delete env device reader credential pin force =
     proc_bind (lift_res (credential_query credential)) (\<lambda>query.
     with_rows env device reader pin (\<lambda>link protocol token rows.
       proc_bind (lift_res (only_hit rows query)) (\<lambda>row.
       proc_bind (outside (fido_confirm env force (lit ''Delete credential for '' @ cw_rp_id row @ lit '' ('' @ cw_user_name row @ lit '')?'')
         (lit ''deletion aborted''))) (\<lambda>_.
       proc_bind (link_run env link (\<lambda>f. delete_credential f token protocol (CredentialId (cw_credential_id row)))) (\<lambda>_.
       fc_println env (lit ''Credential deleted.''))))))"

definition kept_or :: "byte list option \<Rightarrow> byte list \<Rightarrow> byte list option" where
  "kept_or given current = (case given of Some v \<Rightarrow> Some v | None \<Rightarrow> if current \<noteq> [] then Some current else None)"

definition updated_user :: "cred_row \<Rightarrow> byte list option \<Rightarrow> byte list option \<Rightarrow> user_entity" where
  "updated_user row username display_name = \<lparr>ue_id = cw_user_id row, ue_name = kept_or username (cw_user_name row),
     ue_display_name = kept_or display_name (cw_display_name row)\<rparr>"

definition credentials_update_user :: "'w fido_cli \<Rightarrow> u32 option \<Rightarrow> byte list option \<Rightarrow> byte list \<Rightarrow> byte list option
    \<Rightarrow> byte list option \<Rightarrow> byte list option \<Rightarrow> bool \<Rightarrow> ('w, message, unit) proc" where
  "credentials_update_user env device reader credential username display_name pin force =
     proc_bind (lift_res (credential_query credential)) (\<lambda>query.
     with_rows env device reader pin (\<lambda>link protocol token rows.
       proc_bind (lift_res (only_hit rows query)) (\<lambda>row.
       let user = updated_user row username display_name in
       proc_bind (outside (fido_confirm env force (lit ''Rename credential for '' @ cw_rp_id row @ lit '' to ''
         @ or_empty (ue_name user) @ lit '' ('' @ or_empty (ue_display_name user) @ lit '')?'') (lit ''rename aborted''))) (\<lambda>_.
       proc_bind (link_run env link (\<lambda>f. update_user_information f token protocol (CredentialId (cw_credential_id row)) user)) (\<lambda>_.
       fc_println env (lit ''Credential user updated.''))))))"

section \<open>What the listing shows\<close>

subsection \<open>Comma-separated values\<close>

text \<open>The specification: a reader of one RFC 4180 record.\<close>

datatype csv_mode = FieldStart | Plain | Quoted

fun csv_read :: "csv_mode \<Rightarrow> byte list \<Rightarrow> byte list \<Rightarrow> byte list list option" where
  "csv_read Quoted field [] = None"
| "csv_read _ field [] = Some [field]"
| "csv_read FieldStart field (c # cs) =
    (if c = 0x22 then csv_read Quoted [] cs
     else if c = 0x2c then map_option ((#) []) (csv_read FieldStart [] cs)
     else if c = 0x0d \<or> c = 0x0a then None else csv_read Plain [c] cs)"
| "csv_read Plain field (c # cs) =
    (if c = 0x2c then map_option ((#) field) (csv_read FieldStart [] cs)
     else if c = 0x22 \<or> c = 0x0d \<or> c = 0x0a then None else csv_read Plain (field @ [c]) cs)"
| "csv_read Quoted field (c # cs) =
    (if c \<noteq> 0x22 then csv_read Quoted (field @ [c]) cs
     else (case cs of
       [] \<Rightarrow> Some [field]
     | d # ds \<Rightarrow> if d = 0x22 then csv_read Quoted (field @ [0x22]) ds
         else if d = 0x2c then map_option ((#) field) (csv_read FieldStart [] ds) else None))"

definition csv_plain :: "byte list \<Rightarrow> bool" where
  "csv_plain v \<longleftrightarrow> (\<forall>b \<in> set v. b \<notin> {0x2c, 0x22, 0x0d, 0x0a})"

lemma csv_read_plain:
  assumes "csv_plain v"
  shows "csv_read Plain field (v @ 0x2c # rest) = map_option ((#) (field @ v)) (csv_read FieldStart [] rest)"
    "csv_read Plain field v = Some [field @ v]"
  using assms by (induction v arbitrary: field) (auto simp: csv_plain_def)

lemma csv_read_quoted:
  "csv_read Quoted field (concat (map (\<lambda>b. if b = 0x22 then [0x22, 0x22] else [b]) v) @ 0x22 # 0x2c # rest)
     = map_option ((#) (field @ v)) (csv_read FieldStart [] rest)"
  by (induction v arbitrary: field) auto

lemma csv_read_start_plain:
  assumes "csv_plain v"
  shows "csv_read FieldStart [] (v @ 0x2c # rest) = map_option ((#) v) (csv_read FieldStart [] rest)"
    "csv_read FieldStart [] v = Some [v]"
proof -
  show "csv_read FieldStart [] (v @ 0x2c # rest) = map_option ((#) v) (csv_read FieldStart [] rest)"
    using assms csv_read_plain(1) [of "tl v" "[hd v]" rest] by (cases v) (auto simp: csv_plain_def)
  show "csv_read FieldStart [] v = Some [v]"
    using assms csv_read_plain(2) [of "tl v" "[hd v]"] by (cases v) (auto simp: csv_plain_def)
qed

lemma csv_read_field:
  "csv_read FieldStart [] (csv_field v @ 0x2c # rest) = map_option ((#) v) (csv_read FieldStart [] rest)"
  using csv_read_quoted [of "[]" v rest] csv_read_start_plain(1) [of v rest]
  by (auto simp: csv_field_def csv_plain_def list_ex_iff)

text \<open>Hexadecimal digits need no quotes and are lower case.\<close>

lemma hex_text_csv_plain: "csv_plain (hex_text bs)"
proof -
  have "c \<notin> {0x2c, 0x22, 0x0d, 0x0a}" if "c \<in> set (hex_text bs)" for c
  proof -
    obtain d where "unat d < 16" "c = hex_char d" using hex_text_digits [OF \<open>c \<in> set (hex_text bs)\<close>] by auto
    then have "hex_val c \<noteq> None" by (simp add: hex_char_val)
    then show ?thesis by (auto simp: hex_val_def)
  qed
  then show ?thesis by (auto simp: csv_plain_def)
qed

subsection \<open>The shown prefix of a credential ID\<close>

lemma shown_length_cases:
  obtains "n < 64" "shown_length ids n = shown_length ids (Suc n)" "card (set (map (take n) ids)) < length ids"
  | "shown_length ids n = n" "n < 64 \<Longrightarrow> distinct (map (take n) ids)"
proof (cases "n < 64 \<and> card (set (map (take n) ids)) < length ids")
  case True
  then show ?thesis using that(1) shown_length.simps [of ids n] by simp
next
  case False
  then have "shown_length ids n = n" using shown_length.simps [of ids n] by auto
  moreover have "distinct (map (take n) ids)" if "n < 64"
    using False that card_distinct [of "map (take n) ids"] card_length [of "map (take n) ids"] by simp
  ultimately show ?thesis by (rule that(2))
qed

lemma shown_length_distinct:
  "shown_length ids n < 64 \<Longrightarrow> distinct (map (take (shown_length ids n)) ids)"
proof (induction ids n rule: shown_length.induct)
  case (1 ids n)
  show ?case by (rule shown_length_cases [of n ids]) (use 1 in simp_all)
qed

lemma shown_length_bounds: "n \<le> 64 \<Longrightarrow> n \<le> shown_length ids n \<and> shown_length ids n \<le> 64"
proof (induction ids n rule: shown_length.induct)
  case (1 ids n)
  show ?case by (rule shown_length_cases [of n ids]) (use 1 in simp_all)
qed

lemma take_own_length: "take (length (take n a)) a = take n a"
  by (cases "length a \<le> n") simp_all

lemma filter_one:
  assumes "i < length xs" "P (xs ! i)" "\<And>j. j < length xs \<Longrightarrow> j \<noteq> i \<Longrightarrow> \<not> P (xs ! j)"
  shows "filter P xs = [xs ! i]"
proof -
  have "filter P (take i xs) = []" "filter P (drop (Suc i) xs) = []"
    using assms by (auto simp: filter_empty_conv in_set_conv_nth)
  then show ?thesis
    using assms(1,2) by (subst id_take_nth_drop [OF assms(1)]) simp
qed

lemma strip_suffix_append [simp]: "strip_suffix p (s @ p) = Some s"
  by (simp add: strip_suffix_def)

lemma query_of_prefix:
  assumes "bs \<noteq> []"
  shows "credential_query (hex_text bs @ lit ''...'') = Ok (hex_text bs)"
proof -
  have "hex_val c \<noteq> None" if "c \<in> set (hex_text bs)" for c
    using hex_text_digits [OF that] by (auto simp: hex_char_val)
  then have "list_all (\<lambda>b. hex_val b \<noteq> None) (hex_text bs)" by (simp add: list_all_iff)
  moreover have "hex_text bs \<noteq> []" using assms length_hex_text [of bs] by (cases "hex_text bs") auto
  ultimately show ?thesis by (simp add: credential_query_def hex_text_lower)
qed

text \<open>No other ID starts with what is shown of one.\<close>

lemma shown_prefix_unique:
  assumes other: "take (length (take 64 a)) b \<noteq> take 64 a"
    and different: "shown_length ids 4 < 64 \<Longrightarrow> take (shown_length ids 4) a \<noteq> take (shown_length ids 4) b"
  shows "take (length (take (shown_length ids 4) a)) b \<noteq> take (shown_length ids 4) a"
proof (cases "length a < shown_length ids 4")
  case True
  then show ?thesis using other shown_length_bounds [of 4 ids] by simp
next
  case False
  show ?thesis
  proof (cases "shown_length ids 4 < 64")
    case True
    then show ?thesis using different False by simp
  next
    assume "\<not> shown_length ids 4 < 64"
    then have "shown_length ids 4 = 64" using shown_length_bounds [of 4 ids] by simp
    then show ?thesis using other by simp
  qed
qed

section \<open>Properties\<close>

text \<open>A row of the credential listing, read as a comma-separated record with quoted fields, is the
  credential's ID in hexadecimal, relying party, user name, display name and user ID, whatever characters
  the names have.\<close>

theorem csv_row_roundtrip:
  "csv_read FieldStart [] (csv_row row) = Some [hex_text (cw_credential_id row), cw_rp_id row,
     cw_user_name row, cw_display_name row, hex_text (cw_user_id row)]"
  by (simp add: csv_row_def csv_read_start_plain csv_read_field hex_text_csv_plain)

text \<open>C35. What the listing shows of a credential's ID names that credential: a line of the table begins with a
  prefix which, given to the delete and update commands as it is printed, selects exactly the credential of the line, as
  long as the ID is not empty and no other credential's ID starts with its first 64 bytes.\<close>

theorem listed_prefix_selects:
  assumes "i < length rows" "cw_credential_id (rows ! i) \<noteq> []"
    and "\<forall>j < length rows. j \<noteq> i \<longrightarrow>
      take (length (take 64 (cw_credential_id (rows ! i)))) (cw_credential_id (rows ! j)) \<noteq> take 64 (cw_credential_id (rows ! i))"
  shows "\<exists>shown rest query. credential_table rows ! Suc i = shown @ lit ''  '' @ rest \<and>
    shown = hex_text (take (shown_length (map cw_credential_id rows) 4) (cw_credential_id (rows ! i))) @ lit ''...'' \<and>
    credential_query shown = Ok query \<and> only_hit rows query = Ok (rows ! i)"
proof -
  let ?ids = "map cw_credential_id rows"
  let ?n = "shown_length ?ids 4"
  let ?p = "take ?n (cw_credential_id (rows ! i))"
  let ?starts = "\<lambda>row. strip_prefix (hex_text ?p) (hex_text (cw_credential_id row)) \<noteq> None"
  have "?n \<noteq> 0" using shown_length_bounds [of 4 ?ids] by simp
  then have query: "credential_query (hex_text ?p @ lit ''...'') = Ok (hex_text ?p)"
    using assms(2) by (intro query_of_prefix) simp
  have "take ?n (cw_credential_id (rows ! i)) \<noteq> take ?n (cw_credential_id (rows ! j))"
    if "?n < 64" "j < length rows" "j \<noteq> i" for j
    using shown_length_distinct [OF that(1)] assms(1) that(2,3) by (auto simp: distinct_conv_nth)
  then have "\<not> ?starts (rows ! j)" if "j < length rows" "j \<noteq> i" for j
    unfolding hex_text_starts using assms(3) that by (intro shown_prefix_unique) auto
  then have "hits rows (hex_text ?p) = [rows ! i]"
    unfolding hits_def using assms(1) by (intro filter_one) (simp_all add: hex_text_starts take_own_length del: not_None_eq length_take)
  then have "only_hit rows (hex_text ?p) = Ok (rows ! i)" by (simp add: only_hit_def)
  moreover have "credential_table rows ! Suc i = (hex_text ?p @ lit ''...'') @ lit ''  ''
      @ padded (max 5 (foldr max (map (length \<circ> cw_rp_id) rows) 0)) (cw_rp_id (rows ! i)) @ lit ''  ''
      @ cw_user_name (rows ! i) @ lit ''  '' @ cw_display_name (rows ! i)"
    using assms(1) by (simp add: credential_table_def table_row_def Let_def lit_def)
  ultimately show ?thesis using query by blast
qed

definition listed_rows :: "cred_row list" where
  "listed_rows = [
     \<lparr>cw_rp_id = lit ''a.org'', cw_credential_id = [1, 2, 3, 4, 5], cw_user_id = [1], cw_user_name = lit ''x'', cw_display_name = lit ''X''\<rparr>,
     \<lparr>cw_rp_id = lit ''b.org'', cw_credential_id = [1, 2, 3, 4, 6], cw_user_id = [2], cw_user_name = lit ''y'', cw_display_name = lit ''Y''\<rparr>]"

theorem listed_prefix_selects_witness:
  "\<exists>shown rest query. credential_table listed_rows ! Suc 1 = shown @ lit ''  '' @ rest \<and>
    shown = hex_text (take (shown_length (map cw_credential_id listed_rows) 4) (cw_credential_id (listed_rows ! 1))) @ lit ''...'' \<and>
    credential_query shown = Ok query \<and> only_hit listed_rows query = Ok (listed_rows ! 1)"
  by (rule listed_prefix_selects) (auto simp: listed_rows_def less_Suc_eq)

end
