(* ===== verification/OpenPgp.thy ===== *)
theory OpenPgp
  imports Drive Keys
begin

text \<open>
  The OpenPGP wrappers of \<^verbatim>\<open>crates/ckman-core/src/openpgp.rs\<close>: one request per operation, the password
  reference it verifies, the outcome it accepts, and the reading of the key-information field.  The
  requests and outcomes of \<^verbatim>\<open>canokey::openpgp\<close> have the constructors the code names; the parsed data
  objects are opaque but for the discretionary fields, which the code reads itself.
\<close>

section \<open>Types\<close>

datatype pgp_slot = PgpSignature | PgpDecryption | PgpAuthentication
datatype password_reference = Pw1Sign | Pw3 | OtherPassword nat
datatype pgp_password = Password (password_bytes: "byte list")
datatype pgp_touch = TouchOff | TouchOn | TouchPermanent
datatype pgp_public_key = PgpPublicKey nat
datatype pgp_pin_status = PgpPinStatus nat
datatype cardholder_data = CardholderData nat

record pgp_access =
  pa_reference :: password_reference
  pa_password :: pgp_password

datatype data_write =
    WriteResetCode "pgp_password option" | WriteReuseSignaturePin bool
  | WriteTouchPolicy pgp_slot pgp_touch | WriteTouchCacheTime u8 | WriteAlgorithm pgp_slot algorithm
  | WriteName "byte list" | WriteLogin "byte list" | WriteLanguage "byte list" | WriteSex byte | WriteUrl "byte list"

datatype pgp_request =
    ReadData u16 | ReadPinStatus password_reference | VerifyPassword | LogoutPassword password_reference
  | ChangePassword password_reference pgp_password pgp_password
  | UnblockWithAdmin pgp_password | UnblockWithCode pgp_password pgp_password
  | ResetRetries "u8 list" | WriteData data_write
  | ReadPublicKey pgp_slot | GenerateKey pgp_slot | ImportKey pgp_slot algorithm openpgp_private_key
  | ReadCertificate pgp_slot | WriteCertificate pgp_slot "byte list"

datatype pgp_outcome = OutcomeBytes "byte list" | OutcomePinStatus pgp_pin_status
  | OutcomePublicKey pgp_public_key | OutcomeOther nat

record data_field =
  df_tag :: nat
  df_value :: "byte list"

record application_data =
  ad_discretionary :: "data_field list"
  ad_rest :: nat

record ('w, 'e) pgp_env =
  pgp_exchange :: "('w, 'e) exchange"
  pgp_operation :: "device_profile \<Rightarrow> pgp_request \<Rightarrow> pgp_access option \<Rightarrow> lib_error + pgp_outcome operation"
  parse_application_data :: "device_profile \<Rightarrow> byte list \<Rightarrow> nat \<Rightarrow> lib_error + application_data"
  parse_cardholder_data :: "device_profile \<Rightarrow> byte list \<Rightarrow> nat \<Rightarrow> lib_error + cardholder_data"
  slot_occurrence :: "pgp_slot \<Rightarrow> u8"

section \<open>Driving\<close>

definition pgp_run :: "('w, 'e) pgp_env \<Rightarrow> device_profile \<Rightarrow> pgp_request \<Rightarrow> pgp_access option
    \<Rightarrow> ('w, 'e drive_error, pgp_outcome) proc" where
  "pgp_run env profile request access =
     proc_bind (lift_res (map_err Protocol (pgp_operation env profile request access))) (\<lambda>oper.
     execute oper (pgp_exchange env))"

definition pgp_invalid :: lib_error where
  "pgp_invalid = at_phase (new_error InvalidResponse) PhaseParsing"

definition pgp_unexpected :: "'e drive_error" where
  "pgp_unexpected = Protocol pgp_invalid"

text \<open>A request verified with the Admin PIN whose outcome is ignored\<close>

definition pgp_with_admin :: "('w, 'e) pgp_env \<Rightarrow> device_profile \<Rightarrow> pgp_request \<Rightarrow> pgp_password
    \<Rightarrow> ('w, 'e drive_error, unit) proc" where
  "pgp_with_admin env profile request admin =
     proc_bind (pgp_run env profile request (Some \<lparr>pa_reference = Pw3, pa_password = admin\<rparr>)) (\<lambda>_. ret ())"

section \<open>Reading\<close>

definition read_data :: "('w, 'e) pgp_env \<Rightarrow> device_profile \<Rightarrow> u16 \<Rightarrow> ('w, 'e drive_error, byte list) proc" where
  "read_data env profile tag = proc_bind (pgp_run env profile (ReadData tag) None) (\<lambda>out. case out of
     OutcomeBytes bytes \<Rightarrow> ret bytes | _ \<Rightarrow> throw pgp_unexpected)"

definition read_application_data where
  "read_application_data env profile = proc_bind (read_data env profile 0x6e) (\<lambda>bytes.
     lift_res (map_err Protocol (parse_application_data env profile bytes 4096)))"

definition read_cardholder_data where
  "read_cardholder_data env profile = proc_bind (read_data env profile 0x65) (\<lambda>bytes.
     lift_res (map_err Protocol (parse_cardholder_data env profile bytes 4096)))"

definition read_touch_cache_time where
  "read_touch_cache_time env profile = proc_bind (read_data env profile 0x0102) (\<lambda>bytes. case bytes of
     [seconds] \<Rightarrow> ret seconds | _ \<Rightarrow> throw pgp_unexpected)"

definition password_status where
  "password_status env profile reference = proc_bind (pgp_run env profile (ReadPinStatus reference) None) (\<lambda>out. case out of
     OutcomePinStatus status \<Rightarrow> ret status | _ \<Rightarrow> throw pgp_unexpected)"

definition read_public_key where
  "read_public_key env profile s = proc_bind (pgp_run env profile (ReadPublicKey s) None) (\<lambda>out. case out of
     OutcomePublicKey key \<Rightarrow> ret key | _ \<Rightarrow> throw pgp_unexpected)"

definition pgp_read_certificate where
  "pgp_read_certificate env profile s = proc_bind (pgp_run env profile (ReadCertificate s) None) (\<lambda>out. case out of
     OutcomeBytes bytes \<Rightarrow> ret bytes | _ \<Rightarrow> throw pgp_unexpected)"

subsection \<open>Key information\<close>

text \<open>The loop over the pairs, with the references seen and the status found; a remainder is ignored.\<close>

fun scan_pairs :: "u8 \<Rightarrow> byte list \<Rightarrow> bool list \<Rightarrow> u8 option \<Rightarrow> lib_error + u8 option" where
  "scan_pairs wanted (reference # status # rest) seen found =
    (if seen ! unat reference then Err pgp_invalid
     else scan_pairs wanted rest (seen[unat reference := True]) (if reference = wanted then Some status else found))"
| "scan_pairs wanted _ seen found = Ok found"

definition key_information :: "('w, 'e) pgp_env \<Rightarrow> application_data \<Rightarrow> pgp_slot \<Rightarrow> lib_error + u8 option" where
  "key_information env ad s = (case filter (\<lambda>field. df_tag field = 0xde) (ad_discretionary ad) of
     [] \<Rightarrow> Ok None
   | [field] \<Rightarrow> if length (df_value field) mod 2 \<noteq> 0 then Err pgp_invalid
       else scan_pairs (slot_occurrence env s + 1) (df_value field) (replicate 256 False) None
   | _ \<Rightarrow> Err pgp_invalid)"

section \<open>Passwords\<close>

definition pgp_verify where
  "pgp_verify env profile reference password =
     proc_bind (pgp_run env profile VerifyPassword (Some \<lparr>pa_reference = reference, pa_password = password\<rparr>)) (\<lambda>_. ret ())"

definition pgp_logout where
  "pgp_logout env profile reference = proc_bind (pgp_run env profile (LogoutPassword reference) None) (\<lambda>_. ret ())"

definition change_password where
  "change_password env profile reference old new =
     proc_bind (pgp_run env profile (ChangePassword reference old new) None) (\<lambda>_. ret ())"

definition unblock_with_admin where
  "unblock_with_admin env profile new admin = pgp_with_admin env profile (UnblockWithAdmin new) admin"

definition unblock_with_code where
  "unblock_with_code env profile code new =
     proc_bind (pgp_run env profile (UnblockWithCode code new) None) (\<lambda>_. ret ())"

definition reset_retries where
  "reset_retries env profile retries admin = pgp_with_admin env profile (ResetRetries retries) admin"

section \<open>Writing\<close>

definition write_data where
  "write_data env profile v admin = pgp_with_admin env profile (WriteData v) admin"

definition set_reset_code where
  "set_reset_code env profile code admin = write_data env profile (WriteResetCode code) admin"

definition set_signature_policy where
  "set_signature_policy env profile reuse admin = write_data env profile (WriteReuseSignaturePin reuse) admin"

definition set_touch_policy where
  "set_touch_policy env profile s policy admin = write_data env profile (WriteTouchPolicy s policy) admin"

definition set_touch_cache_time where
  "set_touch_cache_time env profile seconds admin = write_data env profile (WriteTouchCacheTime seconds) admin"

definition set_algorithm where
  "set_algorithm env profile s a admin = write_data env profile (WriteAlgorithm s a) admin"

definition pgp_generate_key where
  "pgp_generate_key env profile s admin =
     proc_bind (pgp_run env profile (GenerateKey s) (Some \<lparr>pa_reference = Pw3, pa_password = admin\<rparr>)) (\<lambda>out. case out of
       OutcomePublicKey key \<Rightarrow> ret key | _ \<Rightarrow> throw pgp_unexpected)"

definition pgp_import_key where
  "pgp_import_key env profile s a key admin = pgp_with_admin env profile (ImportKey s a key) admin"

definition pgp_write_certificate where
  "pgp_write_certificate env profile s der admin = pgp_with_admin env profile (WriteCertificate s der) admin"

section \<open>What the key-information field says\<close>

definition flat_pairs :: "(u8 \<times> u8) list \<Rightarrow> byte list" where
  "flat_pairs ps = concat (map (\<lambda>(k, v). [k, v]) ps)"

lemma flat_pairs_simps [simp]: "flat_pairs [] = []" "flat_pairs (p # ps) = fst p # snd p # flat_pairs ps"
  by (simp_all add: flat_pairs_def split_beta)

lemma length_flat_pairs [simp]: "length (flat_pairs ps) = 2 * length ps"
  by (induction ps) simp_all

lemma even_flat_pairs: "even (length bs) \<Longrightarrow> \<exists>ps. bs = flat_pairs ps"
proof (induction bs rule: induct_list012)
  case (3 a b bs)
  then obtain ps where "bs = flat_pairs ps" by auto
  then show ?case by (intro exI [of _ "(a, b) # ps"]) simp
qed (auto intro: exI [of _ "[]"])

lemma scan_flat_pairs:
  assumes "length seen = 256"
  shows "scan_pairs wanted (flat_pairs ps) seen found =
    (if distinct (map fst ps) \<and> (\<forall>k \<in> fst ` set ps. \<not> seen ! unat k)
     then Ok (case map_of ps wanted of None \<Rightarrow> found | Some v \<Rightarrow> Some v) else Err pgp_invalid)"
  using assms
proof (induction ps arbitrary: seen found)
  case (Cons p ps)
  obtain k v where p: "p = (k, v)" by (cases p)
  have k: "unat k < length seen" using Cons.prems unsigned_less [of k] by simp
  have seen: "seen[unat k := True] ! unat j \<longleftrightarrow> j = k \<or> seen ! unat j" for j
    using k by (auto simp: nth_list_update word_unat_eq_iff)
  have absent: "wanted = k \<Longrightarrow> k \<notin> fst ` set ps \<Longrightarrow> map_of ps wanted = None"
    by (simp add: map_of_eq_None_iff)
  show ?case
    using Cons.IH [of "seen[unat k := True]"] Cons.prems absent
    by (auto simp: p seen split: option.splits)
qed simp

lemma scan_pairs_iff:
  "even (length bs) \<and> scan_pairs wanted bs (replicate 256 False) None = Ok r \<longleftrightarrow>
    (\<exists>ps. bs = flat_pairs ps \<and> distinct (map fst ps) \<and> r = map_of ps wanted)"
proof -
  have "scan_pairs wanted (flat_pairs ps) (replicate 256 False) None
      = (if distinct (map fst ps) then Ok (map_of ps wanted) else Err pgp_invalid)" for ps
  proof -
    have "unat k < 256" for k :: u8 using unsigned_less [of k] by simp
    then show ?thesis by (simp add: scan_flat_pairs split: option.split)
  qed
  then show ?thesis
    using even_flat_pairs [of bs] by (auto split: if_splits) blast
qed

text \<open>C33. The status of a key is read from the key-information field exactly when that field is absent, or occurs
  once as a sequence of pairs with distinct references; the status is then that of the slot's
  reference, the occurrence of the slot plus one, and absent when the field has none for it.\<close>

theorem key_information_iff:
  "key_information env ad s = Ok r \<longleftrightarrow>
    (let fields = filter (\<lambda>field. df_tag field = 0xde) (ad_discretionary ad) in
     fields = [] \<and> r = None \<or>
     (\<exists>field ps. fields = [field] \<and> df_value field = concat (map (\<lambda>(reference, status). [reference, status]) ps)
        \<and> distinct (map fst ps) \<and> r = map_of ps (slot_occurrence env s + 1)))"
proof -
  define fields where "fields = filter (\<lambda>field. df_tag field = 0xde) (ad_discretionary ad)"
  have one: "(\<exists>field ps. [f] = [field] \<and> Q field ps) \<longleftrightarrow> (\<exists>ps. Q f ps)" for f and Q :: "data_field \<Rightarrow> (u8 \<times> u8) list \<Rightarrow> bool"
    by auto
  consider "fields = []" | f where "fields = [f]" | f g more_fields where "fields = f # g # more_fields"
    by (cases fields rule: remdups_adj.cases) auto
  then show ?thesis
  proof cases
    case 2
    then show ?thesis
      using scan_pairs_iff [of "df_value f" "slot_occurrence env s + 1" r]
      by (cases "even (length (df_value f))")
        (auto simp: key_information_def fields_def [symmetric] flat_pairs_def [symmetric] one even_iff_mod_2_eq_zero)
  qed (auto simp: key_information_def fields_def [symmetric])
qed

end
