(* ===== verification/OpenPgpCli.thy ===== *)
theory OpenPgpCli
  imports OpenPgp PivKeyCommands
begin

text \<open>
  The OpenPGP commands of \<^verbatim>\<open>crates/ckman/src/commands/openpgp.rs\<close>: password prompts and their limits, the
  access, cardholder, keys and certificates commands, and the names the commands print.  Private key
  files are read as in the PIV commands.
\<close>

section \<open>Environment\<close>

record 'w pgp_cli =
  gc_keys :: "'w key_commands"
  gc_pgp :: "('w, io_error) pgp_env"
  password_of :: "byte list \<Rightarrow> lib_error + pgp_password"
  pgp_spki :: "pgp_public_key \<Rightarrow> byte list option"
  show_pgp_spki_error :: "pgp_public_key \<Rightarrow> string"
  parse_certificate_der :: "byte list \<Rightarrow> string + byte list"
  fingerprint_of :: "application_data \<Rightarrow> pgp_slot \<Rightarrow> lib_error + byte list option"
  algorithm_attributes_of :: "application_data \<Rightarrow> pgp_slot \<Rightarrow> lib_error + byte list option"
  generation_time_of :: "application_data \<Rightarrow> pgp_slot \<Rightarrow> lib_error + u32 option"
  uif_of :: "application_data \<Rightarrow> pgp_slot \<Rightarrow> lib_error + byte list option"
  uif_supported :: "device_profile \<Rightarrow> bool"
  generation_supported :: "device_profile \<Rightarrow> algorithm \<Rightarrow> lib_error + unit"

definition gc_cli :: "'w pgp_cli \<Rightarrow> 'w piv_cli" where
  "gc_cli env = kc_cli (gc_keys env)"

definition gc_terminal :: "'w pgp_cli \<Rightarrow> 'w cli_env" where
  "gc_terminal env = pcl_cli (gc_cli env)"

text \<open>\<^verbatim>\<open>?\<close> on an error of the library\<close>

definition pgp_shown :: "'w pgp_cli \<Rightarrow> lib_error + 'a \<Rightarrow> ('w, message, 'a) proc" where
  "pgp_shown env r = lift_res (map_err (\<lambda>e. lit (show_lib_error (gc_terminal env) e)) r)"

section \<open>Arguments and names\<close>

datatype key_slot_arg = ArgSig | ArgDec | ArgAut
datatype pgp_algorithm_arg = ArgRsa2048 | ArgRsa3072 | ArgRsa4096 | ArgEccP256 | ArgEccP384 | ArgEccP521
  | ArgSecp256k1 | ArgEd25519 | ArgX25519
datatype pgp_touch_arg = TouchArgOff | TouchArgOn | TouchArgFixed
datatype signature_policy_arg = PolicyAlways | PolicyOnce
datatype sex_arg = SexMale | SexFemale | SexUnspecified

definition slot_of :: "key_slot_arg \<Rightarrow> pgp_slot" where
  "slot_of a = (case a of ArgSig \<Rightarrow> PgpSignature | ArgDec \<Rightarrow> PgpDecryption | ArgAut \<Rightarrow> PgpAuthentication)"

definition pgp_slot_name :: "pgp_slot \<Rightarrow> byte list" where
  "pgp_slot_name s = lit (case s of PgpSignature \<Rightarrow> ''Signature'' | PgpDecryption \<Rightarrow> ''Decryption''
     | PgpAuthentication \<Rightarrow> ''Authentication'')"

definition pgp_algorithm_of :: "pgp_algorithm_arg \<Rightarrow> algorithm" where
  "pgp_algorithm_of a = (case a of ArgRsa2048 \<Rightarrow> Rsa2048 | ArgRsa3072 \<Rightarrow> Rsa3072 | ArgRsa4096 \<Rightarrow> Rsa4096
     | ArgEccP256 \<Rightarrow> EccP256 | ArgEccP384 \<Rightarrow> EccP384 | ArgEccP521 \<Rightarrow> EccP521 | ArgSecp256k1 \<Rightarrow> Secp256k1
     | ArgEd25519 \<Rightarrow> Ed25519 | ArgX25519 \<Rightarrow> X25519)"

definition describe_pgp :: "'w pgp_cli \<Rightarrow> io_error drive_error \<Rightarrow> message" where
  "describe_pgp env error = (case error of
     Transport e \<Rightarrow> lit (''transport exchange failed: '' @ io_message e)
   | Protocol e \<Rightarrow>
       if err_kind e = AuthenticationFailed then
         (if err_reference e = Some (RefPw 3) then lit ''incorrect Admin PIN''
          else if err_reference e = Some RefResetCode then lit ''incorrect Reset Code''
          else (case err_retries e of
            Some retries \<Rightarrow> lit (''incorrect PIN ('' @ show_nat retries @ '' attempts remaining)'')
          | None \<Rightarrow> lit ''incorrect PIN''))
       else if err_kind e = PinBlocked then
         (if err_reference e = Some (RefPw 3) then lit ''the Admin PIN is blocked''
          else if err_reference e = Some RefResetCode then lit ''the Reset Code is blocked''
          else lit ''the PIN is blocked'')
       else if err_kind e = NotFound then lit ''not found on the device''
       else if err_kind e = UnsupportedAlgorithm then lit (''algorithm does not match the slot's configured attributes (use --algorithm ''
         @ ''to change them, which discards the existing key)'')
       else if err_kind e = CapabilityUnknown then lit ''unrecognized firmware; refusing to attempt the operation''
       else if err_kind e = UnsupportedFeature then lit ''this firmware does not support the operation''
       else if err_kind e = SecurityStatusNotSatisfied then lit ''the operation requires authentication''
       else if err_kind e = ConditionsNotSatisfied then lit ''the card refused the operation (conditions not satisfied)''
       else lit (''protocol error: '' @ show_lib_error (gc_terminal env) e))"

definition fingerprint_hex :: "byte list option \<Rightarrow> byte list option" where
  "fingerprint_hex f = Option.bind f (\<lambda>bytes. if list_all (\<lambda>b. b = 0) bytes then None else Some (map ascii_upper (hex_text bytes)))"

definition touch_policy_name :: "byte list option \<Rightarrow> byte list" where
  "touch_policy_name uif = (case map_option hd uif of
     Some policy \<Rightarrow> if policy = 0 then lit ''off'' else if policy = 1 then lit ''on'' else if policy = 2 then lit ''fixed''
       else lit ''unknown''
   | None \<Rightarrow> lit ''unknown'')"

definition attributes_name :: "byte list option \<Rightarrow> byte list" where
  "attributes_name attributes = (case attributes of
     None \<Rightarrow> lit ''unknown''
   | Some [] \<Rightarrow> lit ''unknown ('' @ hex_text [] @ lit '')''
   | Some (a # other) \<Rightarrow>
       if a = 1 \<and> length (a # other) \<ge> 3 then lit ''RSA'' @ lit (show_nat (unat (from_be16 [other ! 0, other ! 1])))
       else if a = 0x12 \<or> a = 0x13 \<or> a = 0x16 then
         (if other = [0x2a, 0x86, 0x48, 0xce, 0x3d, 3, 1, 7] then lit ''ECCP256''
          else if other = [0x2b, 0x81, 4, 0, 0x22] then lit ''ECCP384''
          else if other = [0x2b, 0x81, 4, 0, 0x23] then lit ''ECCP521''
          else if other = [0x2b, 0x81, 4, 0, 10] then lit ''SECP256K1''
          else if other = [0x2b, 6, 1, 4, 1, 0xda, 0x47, 15, 1] then lit ''ED25519''
          else if other = [0x2b, 6, 1, 4, 1, 0x97, 0x55, 1, 5, 1] then lit ''X25519''
          else lit ''unknown ('' @ hex_text other @ lit '')'')
       else lit ''unknown ('' @ hex_text (a # other) @ lit '')'')"

section \<open>The session\<close>

definition pgp_connect :: "'w pgp_cli \<Rightarrow> u32 option \<Rightarrow> byte list option \<Rightarrow> ('w, message, target) proc" where
  "pgp_connect env device reader = piv_connect (gc_cli env) device reader"

definition pgp_session_run :: "'w pgp_cli \<Rightarrow> target
    \<Rightarrow> (('w, io_error) pgp_env \<Rightarrow> device_profile \<Rightarrow> ('w, io_error drive_error, 'a) proc) \<Rightarrow> ('w, message, 'a) proc" where
  "pgp_session_run env t operation = proc_map_err (describe_pgp env)
     (operation ((gc_pgp env)\<lparr>pgp_exchange := conn_exchange (gc_terminal env) (tg_connection t)\<rparr>) (tg_profile t))"

text \<open>The length of a string is counted in bytes.\<close>

definition password_text :: "'w pgp_cli \<Rightarrow> byte list option \<Rightarrow> byte list \<Rightarrow> nat \<Rightarrow> byte list \<Rightarrow> ('w, message, byte list) proc" where
  "password_text env v prompt least name =
     proc_bind (case v of Some v \<Rightarrow> ret v | None \<Rightarrow> prompt_password (gc_terminal env) (prompt @ lit '': '')) (\<lambda>v.
     if length v < least \<or> length v > 64
     then throw (name @ lit '' must be '' @ lit (show_nat least) @ lit ''-64 characters'') else ret v)"

text \<open>\<^verbatim>\<open>expect("length checked")\<close>\<close>

definition checked_password :: "'w pgp_cli \<Rightarrow> byte list \<Rightarrow> ('w, message, pgp_password) proc" where
  "checked_password env v = unwrap (case password_of env v of Ok p \<Rightarrow> Some p | Err _ \<Rightarrow> None)"

definition pgp_pin :: "'w pgp_cli \<Rightarrow> byte list option \<Rightarrow> byte list \<Rightarrow> ('w, message, pgp_password) proc" where
  "pgp_pin env v prompt = proc_bind (password_text env v prompt 6 (lit ''PIN'')) (checked_password env)"

definition admin_string :: "'w pgp_cli \<Rightarrow> byte list option \<Rightarrow> byte list \<Rightarrow> ('w, message, byte list) proc" where
  "admin_string env v prompt = password_text env v prompt 8 (lit ''Admin PIN'')"

definition pgp_admin :: "'w pgp_cli \<Rightarrow> byte list option \<Rightarrow> byte list \<Rightarrow> ('w, message, pgp_password) proc" where
  "pgp_admin env v prompt = proc_bind (admin_string env v prompt) (checked_password env)"

definition new_password :: "'w pgp_cli \<Rightarrow> byte list \<Rightarrow> nat \<Rightarrow> byte list \<Rightarrow> ('w, message, pgp_password) proc" where
  "new_password env prompt least name =
     proc_bind (password_text env None prompt least name) (\<lambda>entered.
     proc_bind (prompt_password (gc_terminal env) (lit ''Repeat the '' @ name @ lit '': '')) (\<lambda>repeated.
     if entered \<noteq> repeated then throw (lit ''the '' @ name @ lit ''s do not match'') else checked_password env entered))"

text \<open>A secret given as an argument, or asked for twice\<close>

definition given_or_new :: "'w pgp_cli \<Rightarrow> byte list option \<Rightarrow> (byte list option \<Rightarrow> byte list \<Rightarrow> ('w, message, pgp_password) proc)
    \<Rightarrow> byte list \<Rightarrow> byte list \<Rightarrow> nat \<Rightarrow> byte list \<Rightarrow> ('w, message, pgp_password) proc" where
  "given_or_new env v given prompt new_prompt least name = (case v of
     Some v \<Rightarrow> given (Some v) prompt | None \<Rightarrow> new_password env new_prompt least name)"

definition optional_record :: "('w, 'e drive_error, 'a) proc \<Rightarrow> ('w, 'e drive_error, 'a option) proc" where
  "optional_record m = proc_try m (\<lambda>r. case r of
     Ok v \<Rightarrow> ret (Some v)
   | Err (Protocol e) \<Rightarrow>
       if (err_phase e = Some PhaseConstruction \<or> err_phase e = Some PhaseCommand)
         \<and> (err_kind e = NotFound \<or> err_kind e = UnsupportedFeature) then ret None
       else throw (Protocol e)
   | Err e \<Rightarrow> throw e)"

definition touch_cache_time :: "'w pgp_cli \<Rightarrow> target \<Rightarrow> ('w, message, u8 option) proc" where
  "touch_cache_time env t =
    (if \<not> uif_supported env (tg_profile t) then ret None
     else proc_bind (pgp_session_run env t read_touch_cache_time) (\<lambda>seconds. ret (Some seconds)))"

definition key_is_present :: "'w pgp_cli \<Rightarrow> application_data \<Rightarrow> pgp_slot \<Rightarrow> lib_error + bool" where
  "key_is_present env ad s = res_bind (key_information (gc_pgp env) ad s) (\<lambda>status. case status of
     Some status \<Rightarrow> Ok (status \<noteq> 0)
   | None \<Rightarrow> res_bind (fingerprint_of env ad s) (\<lambda>f. Ok (fingerprint_hex f \<noteq> None)))"

definition pgp_key_origin :: "'w pgp_cli \<Rightarrow> application_data \<Rightarrow> pgp_slot \<Rightarrow> lib_error + byte list" where
  "pgp_key_origin env ad s = res_bind (key_information (gc_pgp env) ad s) (\<lambda>status.
     Ok (if status = Some 1 then lit ''generated on device'' else if status = Some 2 then lit ''imported'' else lit ''unknown''))"

definition pgp_println :: "'w pgp_cli \<Rightarrow> byte list \<Rightarrow> ('w, message, unit) proc" where
  "pgp_println env t = piv_println (gc_cli env) t"

fun pgp_print_lines :: "'w pgp_cli \<Rightarrow> byte list list \<Rightarrow> ('w, message, unit) proc" where
  "pgp_print_lines env [] = ret ()"
| "pgp_print_lines env (l # ls) = proc_bind (pgp_println env l) (\<lambda>_. pgp_print_lines env ls)"

definition agreed_or_aborted :: "'w pgp_cli \<Rightarrow> bool \<Rightarrow> byte list \<Rightarrow> message \<Rightarrow> ('w, message, unit) proc" where
  "agreed_or_aborted env force prompt refused = confirmed_or (kc_piv (gc_keys env)) force prompt refused"

section \<open>Reset\<close>

definition pgp_reset :: "'w pgp_cli \<Rightarrow> u32 option \<Rightarrow> byte list option \<Rightarrow> bool \<Rightarrow> byte list option \<Rightarrow> ('w, message, unit) proc" where
  "pgp_reset env device reader force admin_text =
     proc_bind (pgp_connect env device reader) (\<lambda>t.
     proc_bind (agreed_or_aborted env force
       (lit ''This will delete all stored OpenPGP keys and data and restore factory settings. Proceed?'')
       (lit ''OpenPGP reset aborted'')) (\<lambda>_.
     proc_bind (pgp_println env (lit ''Resetting OpenPGP data, don't remove the CanoKey...'')) (\<lambda>_.
     proc_bind (pgp_shown env (case admin_text of
         None \<Rightarrow> Ok None
       | Some text \<Rightarrow> res_bind (admin_pin_from_bytes (gc_terminal env) text) (\<lambda>p. Ok (Some p)))) (\<lambda>pin.
     proc_bind (with_admin_pin_retry (gc_terminal env) pin (\<lambda>p. reset_applet
       ((pcl_admin (gc_cli env))\<lparr>admin_exchange := conn_exchange (gc_terminal env) (tg_connection t)\<rparr>)
       (tg_profile t) AppletOpenPgp p)) (\<lambda>_.
     pgp_print_lines env
       [lit ''Reset complete. OpenPGP data has been cleared and default PINs are set.'',
        lit ''PIN:         123456'', lit ''Reset code:  not set'', lit ''Admin PIN:   12345678''])))))"

section \<open>Access commands\<close>

definition pgp_set_retries :: "'w pgp_cli \<Rightarrow> u32 option \<Rightarrow> byte list option \<Rightarrow> u8 \<Rightarrow> u8 \<Rightarrow> u8 \<Rightarrow> byte list option \<Rightarrow> bool
    \<Rightarrow> ('w, message, unit) proc" where
  "pgp_set_retries env device reader pin_retries code_retries admin_retries admin_pin force =
     proc_bind (pgp_connect env device reader) (\<lambda>t.
     proc_bind (pgp_admin env admin_pin (lit ''Enter Admin PIN'')) (\<lambda>admin.
     proc_bind (pgp_println env (lit ''WARNING: Setting PIN retries will reset the values for all 3 PINs!'')) (\<lambda>_.
     proc_bind (agreed_or_aborted env force (lit ''Set PIN retry counters to: '' @ lit (show_nat (unat pin_retries)) @ lit '' ''
       @ lit (show_nat (unat code_retries)) @ lit '' '' @ lit (show_nat (unat admin_retries)) @ lit ''?'') (lit ''aborted'')) (\<lambda>_.
     proc_bind (pgp_session_run env t (\<lambda>genv profile.
       reset_retries genv profile [pin_retries, code_retries, admin_retries] admin)) (\<lambda>_.
     pgp_print_lines env
       [lit ''Number of PIN/Reset Code/Admin PIN retries set.'', lit ''Default values have been restored:'',
        lit ''PIN:         123456'', lit ''Admin PIN:   12345678''])))))"

definition pgp_change_pin :: "'w pgp_cli \<Rightarrow> u32 option \<Rightarrow> byte list option \<Rightarrow> byte list option \<Rightarrow> byte list option
    \<Rightarrow> ('w, message, unit) proc" where
  "pgp_change_pin env device reader pin_text new_text =
     proc_bind (pgp_connect env device reader) (\<lambda>t.
     proc_bind (pgp_pin env pin_text (lit ''Enter PIN'')) (\<lambda>old.
     proc_bind (given_or_new env new_text (pgp_pin env) (lit ''Enter PIN'') (lit ''New PIN'') 6 (lit ''PIN'')) (\<lambda>new.
     proc_bind (pgp_session_run env t (\<lambda>genv profile. change_password genv profile Pw1Sign old new)) (\<lambda>_.
     pgp_println env (lit ''User PIN has been changed.'')))))"

definition pgp_change_admin_pin :: "'w pgp_cli \<Rightarrow> u32 option \<Rightarrow> byte list option \<Rightarrow> byte list option \<Rightarrow> byte list option
    \<Rightarrow> ('w, message, unit) proc" where
  "pgp_change_admin_pin env device reader admin_pin new_text =
     proc_bind (pgp_connect env device reader) (\<lambda>t.
     proc_bind (pgp_admin env admin_pin (lit ''Enter Admin PIN'')) (\<lambda>old.
     proc_bind (given_or_new env new_text (pgp_admin env) (lit ''Enter Admin PIN'') (lit ''New Admin PIN'') 8
       (lit ''Admin PIN'')) (\<lambda>new.
     proc_bind (pgp_session_run env t (\<lambda>genv profile. change_password genv profile Pw3 old new)) (\<lambda>_.
     pgp_println env (lit ''Admin PIN has been changed.'')))))"

definition pgp_change_reset_code :: "'w pgp_cli \<Rightarrow> u32 option \<Rightarrow> byte list option \<Rightarrow> byte list option \<Rightarrow> byte list option
    \<Rightarrow> bool \<Rightarrow> ('w, message, unit) proc" where
  "pgp_change_reset_code env device reader admin_pin reset_code clear =
    (if clear \<and> reset_code \<noteq> None then throw (lit ''--clear cannot be combined with --reset-code'')
     else proc_bind (pgp_connect env device reader) (\<lambda>t.
     proc_bind (pgp_admin env admin_pin (lit ''Enter Admin PIN'')) (\<lambda>admin.
     proc_bind (if clear then ret None
       else proc_bind (given_or_new env reset_code (pgp_admin env) (lit ''Enter Reset Code'') (lit ''New Reset Code'') 8
         (lit ''Reset Code'')) (\<lambda>code. ret (Some code))) (\<lambda>code.
     proc_bind (pgp_session_run env t (\<lambda>genv profile. set_reset_code genv profile code admin)) (\<lambda>_.
     pgp_println env (if clear then lit ''Reset Code has been removed.'' else lit ''Reset Code has been changed.''))))))"

text \<open>The credential that unblocks the PIN: the Admin PIN, prompted for when it is given as a dash, or the reset code.\<close>

definition unblock_with :: "'w pgp_cli \<Rightarrow> target \<Rightarrow> byte list option \<Rightarrow> byte list option \<Rightarrow> pgp_password \<Rightarrow> ('w, message, unit) proc" where
  "unblock_with env t admin_pin reset_code new = (case admin_pin of
     Some a \<Rightarrow> (case reset_code of
         None \<Rightarrow> proc_bind (pgp_admin env (if a = lit ''-'' then None else Some a) (lit ''Enter Admin PIN'')) (\<lambda>admin.
           pgp_session_run env t (\<lambda>genv profile. unblock_with_admin genv profile new admin))
       | Some _ \<Rightarrow> unwrap None)
   | None \<Rightarrow> proc_bind (pgp_admin env reset_code (lit ''Enter Reset Code'')) (\<lambda>code.
       pgp_session_run env t (\<lambda>genv profile. unblock_with_code genv profile code new)))"

definition pgp_unblock_pin :: "'w pgp_cli \<Rightarrow> u32 option \<Rightarrow> byte list option \<Rightarrow> byte list option \<Rightarrow> byte list option
    \<Rightarrow> byte list option \<Rightarrow> ('w, message, unit) proc" where
  "pgp_unblock_pin env device reader admin_pin reset_code new_text =
    (if reset_code \<noteq> None \<and> admin_pin \<noteq> None then throw (lit ''only one of --reset-code and --admin-pin may be used'')
     else proc_bind (pgp_connect env device reader) (\<lambda>t.
     proc_bind (given_or_new env new_text (pgp_pin env) (lit ''Enter PIN'') (lit ''New PIN'') 6 (lit ''PIN'')) (\<lambda>new.
     proc_bind (unblock_with env t admin_pin reset_code new) (\<lambda>_.
     pgp_println env (lit ''User PIN has been changed.'')))))"

definition pgp_set_signature_policy :: "'w pgp_cli \<Rightarrow> u32 option \<Rightarrow> byte list option \<Rightarrow> signature_policy_arg
    \<Rightarrow> byte list option \<Rightarrow> ('w, message, unit) proc" where
  "pgp_set_signature_policy env device reader policy admin_pin =
     proc_bind (pgp_connect env device reader) (\<lambda>t.
     proc_bind (pgp_admin env admin_pin (lit ''Enter Admin PIN'')) (\<lambda>admin.
     proc_bind (pgp_session_run env t (\<lambda>genv profile. set_signature_policy genv profile (policy = PolicyOnce) admin)) (\<lambda>_.
     pgp_println env (lit ''Signature PIN policy has been set.''))))"

definition pgp_set_touch_cache :: "'w pgp_cli \<Rightarrow> u32 option \<Rightarrow> byte list option \<Rightarrow> u8 \<Rightarrow> byte list option
    \<Rightarrow> ('w, message, unit) proc" where
  "pgp_set_touch_cache env device reader seconds admin_pin =
     proc_bind (pgp_connect env device reader) (\<lambda>t.
     proc_bind (pgp_admin env admin_pin (lit ''Enter Admin PIN'')) (\<lambda>admin.
     proc_bind (pgp_session_run env t (\<lambda>genv profile. set_touch_cache_time genv profile seconds admin)) (\<lambda>_.
     pgp_println env (lit ''Touch cache time set to '' @ lit (show_nat (unat seconds)) @ lit '' second(s).''))))"

section \<open>Cardholder commands\<close>

datatype cardholder_command = SetName "byte list" | SetLogin "byte list" | SetLanguage "byte list" | SetSex sex_arg
  | SetUrl "byte list"

definition cardholder_write :: "cardholder_command \<Rightarrow> message + byte list \<times> data_write" where
  "cardholder_write command = (case command of
     SetName name \<Rightarrow> if length name > 39 then Err (lit ''the cardholder name must be at most 39 bytes'')
       else Ok (lit ''Name'', WriteName name)
   | SetLogin login \<Rightarrow> if length login > 63 then Err (lit ''the login must be at most 63 bytes'')
       else Ok (lit ''Login'', WriteLogin login)
   | SetLanguage language \<Rightarrow> if length language > 8 then Err (lit ''the language preferences must be at most 8 bytes'')
       else Ok (lit ''Language preferences'', WriteLanguage language)
   | SetSex sex \<Rightarrow> Ok (lit ''Sex marker'', WriteSex (case sex of SexMale \<Rightarrow> 0x31 | SexFemale \<Rightarrow> 0x32 | SexUnspecified \<Rightarrow> 0x39))
   | SetUrl url \<Rightarrow> if length url > 255 then Err (lit ''the URL must be at most 255 bytes'') else Ok (lit ''URL'', WriteUrl url))"

definition pgp_cardholder :: "'w pgp_cli \<Rightarrow> u32 option \<Rightarrow> byte list option \<Rightarrow> cardholder_command \<Rightarrow> byte list option
    \<Rightarrow> ('w, message, unit) proc" where
  "pgp_cardholder env device reader command admin_pin =
     proc_bind (pgp_connect env device reader) (\<lambda>t.
     proc_bind (lift_res (cardholder_write command)) (\<lambda>(label, v).
     proc_bind (pgp_admin env admin_pin (lit ''Enter Admin PIN'')) (\<lambda>admin.
     proc_bind (pgp_session_run env t (\<lambda>genv profile. write_data genv profile v admin)) (\<lambda>_.
     pgp_println env (label @ lit '' has been set.'')))))"

section \<open>Key commands\<close>

definition validate_import_algorithm :: "algorithm \<Rightarrow> pgp_algorithm_arg option \<Rightarrow> pgp_slot \<Rightarrow> message + unit" where
  "validate_import_algorithm actual requested s =
    (if (case requested of Some r \<Rightarrow> pgp_algorithm_of r \<noteq> actual | None \<Rightarrow> False)
     then Err (lit ''--algorithm does not match the private key'')
     else if actual \<notin> {Rsa2048, Rsa3072, Rsa4096, EccP256, EccP384, EccP521, Secp256k1, Ed25519, X25519}
       \<or> (s = PgpDecryption \<and> actual = Ed25519) \<or> (s \<noteq> PgpDecryption \<and> actual = X25519)
     then Err (lit ''private key algorithm is not supported in this OpenPGP slot'')
     else Ok ())"

definition validate_generation_algorithm :: "'w pgp_cli \<Rightarrow> device_profile \<Rightarrow> pgp_slot \<Rightarrow> algorithm \<Rightarrow> message + unit" where
  "validate_generation_algorithm env profile s a =
     res_bind (validate_import_algorithm a None s) (\<lambda>_.
     map_err (\<lambda>e. lit (show_lib_error (gc_terminal env) e)) (generation_supported env profile a))"

definition pgp_keys_info :: "'w pgp_cli \<Rightarrow> u32 option \<Rightarrow> byte list option \<Rightarrow> key_slot_arg \<Rightarrow> ('w, message, unit) proc" where
  "pgp_keys_info env device reader key =
     proc_bind (pgp_connect env device reader) (\<lambda>t. let s = slot_of key in
     proc_bind (pgp_session_run env t read_application_data) (\<lambda>ad.
     proc_bind (pgp_shown env (key_information (gc_pgp env) ad s)) (\<lambda>status.
     if status = Some 0 then throw (lit ''no key stored in slot '' @ [0x22] @ pgp_slot_name s @ [0x22])
     else proc_bind (pgp_println env (lit ''Key slot:      '' @ pgp_slot_name s)) (\<lambda>_.
     proc_bind (pgp_shown env (fingerprint_of env ad s)) (\<lambda>f.
     proc_bind (pgp_println env (lit ''Fingerprint:   '' @ (case fingerprint_hex f of None \<Rightarrow> lit ''not set'' | Some h \<Rightarrow> h))) (\<lambda>_.
     proc_bind (pgp_shown env (algorithm_attributes_of env ad s)) (\<lambda>attributes.
     proc_bind (pgp_println env (lit ''Algorithm:     '' @ attributes_name attributes)) (\<lambda>_.
     proc_bind (pgp_shown env (pgp_key_origin env ad s)) (\<lambda>origin.
     proc_bind (pgp_println env (lit ''Origin:        '' @ origin)) (\<lambda>_.
     proc_bind (pgp_shown env (generation_time_of env ad s)) (\<lambda>generated.
     proc_bind (case generated of
         Some seconds \<Rightarrow> if seconds \<noteq> 0 then pgp_println env (lit ''Created:       '' @ lit (show_nat (unat seconds))) else ret ()
       | None \<Rightarrow> ret ()) (\<lambda>_.
     proc_bind (pgp_shown env (uif_of env ad s)) (\<lambda>uif.
     proc_bind (pgp_println env (lit ''Touch policy:  '' @ touch_policy_name uif)) (\<lambda>_.
     proc_bind (touch_cache_time env t) (\<lambda>cache. case cache of
         Some seconds \<Rightarrow> pgp_println env (lit ''Touch cache:   '' @ lit (show_nat (unat seconds)) @ lit '' second(s) (card-wide)'')
       | None \<Rightarrow> ret ())))))))))))))))"

text \<open>The attributes of the slot are replaced first when an algorithm is given, which discards its key.\<close>

definition replace_attributes :: "'w pgp_cli \<Rightarrow> target \<Rightarrow> pgp_slot \<Rightarrow> pgp_algorithm_arg option \<Rightarrow> byte list \<Rightarrow> byte list
    \<Rightarrow> ('w, message, unit) proc" where
  "replace_attributes env t s requested admin warning = (case requested of
     None \<Rightarrow> ret ()
   | Some a \<Rightarrow>
       proc_bind (pgp_println env (lit ''Setting the slot algorithm discards any existing key in the slot; '' @ warning)) (\<lambda>_.
       proc_bind (checked_password env admin) (\<lambda>pw3.
       pgp_session_run env t (\<lambda>genv profile. set_algorithm genv profile s (pgp_algorithm_of a) pw3))))"

definition pgp_keys_generate :: "'w pgp_cli \<Rightarrow> u32 option \<Rightarrow> byte list option \<Rightarrow> key_slot_arg \<Rightarrow> pgp_algorithm_arg option
    \<Rightarrow> byte list option \<Rightarrow> ('w, message, unit) proc" where
  "pgp_keys_generate env device reader key requested admin_pin =
     proc_bind (pgp_connect env device reader) (\<lambda>t. let s = slot_of key in
     proc_bind (case requested of
         Some a \<Rightarrow> lift_res (validate_generation_algorithm env (tg_profile t) s (pgp_algorithm_of a)) | None \<Rightarrow> ret ()) (\<lambda>_.
     proc_bind (admin_string env admin_pin (lit ''Enter Admin PIN'')) (\<lambda>admin.
     proc_bind (replace_attributes env t s requested admin (lit ''generating a new key.'')) (\<lambda>_.
     proc_bind (checked_password env admin) (\<lambda>pw3.
     proc_bind (pgp_session_run env t (\<lambda>genv profile. pgp_generate_key genv profile s pw3)) (\<lambda>_.
     pgp_println env (lit ''Key generated in slot '' @ pgp_slot_name s @ lit ''.'')))))))"

definition pgp_keys_import :: "'w pgp_cli \<Rightarrow> u32 option \<Rightarrow> byte list option \<Rightarrow> key_slot_arg \<Rightarrow> path
    \<Rightarrow> pgp_algorithm_arg option \<Rightarrow> byte list option \<Rightarrow> byte list option \<Rightarrow> ('w, message, unit) proc" where
  "pgp_keys_import env device reader key private_key requested password admin_pin =
     proc_bind (read_secret (gc_keys env) private_key) (\<lambda>bytes.
     proc_bind (parse_private_key_input (gc_keys env) bytes password) (\<lambda>imported.
     proc_bind (lift_res (validate_import_algorithm (ik_algorithm imported) requested (slot_of key))) (\<lambda>_.
     proc_bind (lift_res (map_err (\<lambda>e. lit (show_key_error (gc_cli env) e)) (openpgp_key imported))) (\<lambda>key_material.
     proc_bind (pgp_connect env device reader) (\<lambda>t. let s = slot_of key in
     proc_bind (admin_string env admin_pin (lit ''Enter Admin PIN'')) (\<lambda>admin.
     proc_bind (replace_attributes env t s requested admin (lit ''importing over it.'')) (\<lambda>_.
     proc_bind (checked_password env admin) (\<lambda>pw3.
     proc_bind (pgp_session_run env t (\<lambda>genv profile.
       pgp_import_key genv profile s (ik_algorithm imported) key_material pw3)) (\<lambda>_.
     pgp_println env (lit ''Private key imported for slot '' @ pgp_slot_name s @ lit ''.''))))))))))"

definition pgp_keys_export :: "'w pgp_cli \<Rightarrow> u32 option \<Rightarrow> byte list option \<Rightarrow> key_slot_arg \<Rightarrow> path \<Rightarrow> encoding_arg
    \<Rightarrow> ('w, message, unit) proc" where
  "pgp_keys_export env device reader key output format =
     proc_bind (pgp_connect env device reader) (\<lambda>t.
     proc_bind (pgp_session_run env t (\<lambda>genv profile. read_public_key genv profile (slot_of key))) (\<lambda>public.
     proc_bind (lift_res (ok_or (lit (''cannot encode the public key as SPKI: '' @ show_pgp_spki_error env public))
       (pgp_spki env public))) (\<lambda>der.
     proc_bind (write_output (gc_cli env) output (encode_as (gc_keys env) format ''PUBLIC KEY'' der)) (\<lambda>_.
     piv_eprintln (gc_cli env) (lit ''Public key written to '' @ output @ lit ''.'')))))"

definition touch_arg_name :: "pgp_touch_arg \<Rightarrow> byte list" where
  "touch_arg_name p = lit (case p of TouchArgOff \<Rightarrow> ''off'' | TouchArgOn \<Rightarrow> ''on'' | TouchArgFixed \<Rightarrow> ''fixed'')"

definition touch_of :: "pgp_touch_arg \<Rightarrow> pgp_touch" where
  "touch_of p = (case p of TouchArgOff \<Rightarrow> TouchOff | TouchArgOn \<Rightarrow> TouchOn | TouchArgFixed \<Rightarrow> TouchPermanent)"

definition pgp_keys_set_touch :: "'w pgp_cli \<Rightarrow> u32 option \<Rightarrow> byte list option \<Rightarrow> key_slot_arg \<Rightarrow> pgp_touch_arg
    \<Rightarrow> byte list option \<Rightarrow> bool \<Rightarrow> ('w, message, unit) proc" where
  "pgp_keys_set_touch env device reader key policy admin_pin force =
     proc_bind (pgp_connect env device reader) (\<lambda>t. let s = slot_of key in
     proc_bind (pgp_admin env admin_pin (lit ''Enter Admin PIN'')) (\<lambda>admin.
     proc_bind (if policy = TouchArgFixed
       then pgp_println env (lit ''WARNING: This touch policy cannot be changed without deleting the corresponding key slot!'')
       else ret ()) (\<lambda>_.
     proc_bind (agreed_or_aborted env force (lit ''Set touch policy of '' @ [0x22] @ pgp_slot_name s @ [0x22]
       @ lit '' key to '' @ touch_arg_name policy @ lit ''?'') (lit ''aborted'')) (\<lambda>_.
     proc_bind (pgp_session_run env t (\<lambda>genv profile. set_touch_policy genv profile s (touch_of policy) admin)) (\<lambda>_.
     pgp_println env (lit ''Touch policy for slot '' @ pgp_slot_name s @ lit '' set.''))))))"

section \<open>Certificate commands\<close>

definition certificate_der :: "'w pgp_cli \<Rightarrow> byte list \<Rightarrow> message + byte list" where
  "certificate_der env bytes =
     res_bind (map_err (\<lambda>e. lit (''invalid certificate: '' @ show_key_error (gc_cli env) e))
       (pem_decode (kl_base64_decode (pl_keys (pcl_keys (gc_cli env)))) bytes [lit ''CERTIFICATE''])) (\<lambda>(label, decoded).
     map_err (\<lambda>e. lit (''invalid certificate: '' @ e)) (parse_certificate_der env decoded))"

definition pgp_certificates_import :: "'w pgp_cli \<Rightarrow> u32 option \<Rightarrow> byte list option \<Rightarrow> key_slot_arg \<Rightarrow> path
    \<Rightarrow> byte list option \<Rightarrow> ('w, message, unit) proc" where
  "pgp_certificates_import env device reader key certificate admin_pin =
     proc_bind (read_secret (gc_keys env) certificate) (\<lambda>bytes.
     proc_bind (lift_res (certificate_der env bytes)) (\<lambda>der.
     proc_bind (pgp_connect env device reader) (\<lambda>t.
     proc_bind (pgp_admin env admin_pin (lit ''Enter Admin PIN'')) (\<lambda>admin.
     proc_bind (pgp_session_run env t (\<lambda>genv profile. pgp_write_certificate genv profile (slot_of key) der admin)) (\<lambda>_.
     pgp_println env (lit ''Certificate imported for slot '' @ pgp_slot_name (slot_of key) @ lit ''.''))))))"

definition pgp_certificates_export :: "'w pgp_cli \<Rightarrow> u32 option \<Rightarrow> byte list option \<Rightarrow> key_slot_arg \<Rightarrow> path
    \<Rightarrow> encoding_arg \<Rightarrow> ('w, message, unit) proc" where
  "pgp_certificates_export env device reader key certificate format =
     proc_bind (pgp_connect env device reader) (\<lambda>t.
     proc_bind (pgp_session_run env t (\<lambda>genv profile. pgp_read_certificate genv profile (slot_of key))) (\<lambda>der.
     if der = [] then throw (lit ''no certificate stored in slot '' @ pgp_slot_name (slot_of key))
     else proc_bind (write_output (gc_cli env) certificate (encode_as (gc_keys env) format ''CERTIFICATE'' der)) (\<lambda>_.
     piv_eprintln (gc_cli env) (lit ''Certificate written to '' @ certificate @ lit ''.''))))"

definition pgp_certificates_delete :: "'w pgp_cli \<Rightarrow> u32 option \<Rightarrow> byte list option \<Rightarrow> key_slot_arg
    \<Rightarrow> byte list option \<Rightarrow> ('w, message, unit) proc" where
  "pgp_certificates_delete env device reader key admin_pin =
     proc_bind (pgp_connect env device reader) (\<lambda>t.
     proc_bind (pgp_admin env admin_pin (lit ''Enter Admin PIN'')) (\<lambda>admin.
     proc_bind (pgp_session_run env t (\<lambda>genv profile. pgp_write_certificate genv profile (slot_of key) [] admin)) (\<lambda>_.
     pgp_println env (lit ''Certificate deleted for slot '' @ pgp_slot_name (slot_of key) @ lit ''.''))))"

end
