(* ===== verification/CommandFrames.thy ===== *)
theory CommandFrames
  imports PivKeyCommands PivKeySafety
begin

text \<open>
  What the input side of the key commands leaves alone: the terminal, the selection of a reader and the
  reading of a key file change nothing else of the world.
\<close>

text \<open>Reading a key file\<close>

lemma preserves_read_secret_from [preserves_intros]:
  assumes "preserves f read_block"
  shows "preserves f (read_secret_from read_block bytes)"
proof -
  have "preserves f read_block \<longrightarrow> f (snd res) = f w" if "read_secret_from read_block bytes w = Some res" for bytes w res
    apply (rule read_secret_from.raw_induct [OF _ that, where P = "\<lambda>rd bytes w res. preserves f rd \<longrightarrow> f (snd res) = f w"])
    subgoal premises prems for loop rd bytes w res
    proof
      assume rd: "preserves f rd"
      from prems(2) obtain r w' where read: "rd w = Some (r, w')" by (auto split: option.splits)
      have "f w' = f w" by (rule preservesD [OF rd read])
      moreover have "f (snd res) = f w'" if "loop rd b w' = Some res" for b using prems(1) [OF that] rd by blast
      ultimately show "f (snd res) = f w" using prems(2) read by (cases r) (auto split: if_splits)
    qed
    done
  then show ?thesis using assms by (auto simp: preserves_def wp_def)
qed

lemma preserves_closed:
  assumes "preserves f m" and "\<And>w. f (close w) = f w"
  shows "preserves f (proc_try m (\<lambda>r w. Some (r, close w)))"
  by (intro preserves_try [OF assms(1)] preserves_step assms(2))

definition input_frame :: "'w key_commands \<Rightarrow> ('w \<Rightarrow> 'b) \<Rightarrow> bool" where
  "input_frame env f \<longleftrightarrow> terminal_frame (pcl_cli (kc_cli env)) f
     \<and> (\<forall>c. preserves f (probe (probe_device (pcl_cli (kc_cli env))) (conn_exchange (pcl_cli (kc_cli env)) c)))
     \<and> (\<forall>t w. f (piv_print (kc_cli env) t w) = f w)
     \<and> (\<forall>p. preserves f (open_input env p)) \<and> preserves f (open_stdin env)
     \<and> (\<forall>h. preserves f (read_input_block env h)) \<and> (\<forall>h w. f (close_input env h w) = f w)"

lemma input_frameD:
  assumes "input_frame env f"
  shows "terminal_frame (pcl_cli (kc_cli env)) f"
    "preserves f (probe (probe_device (pcl_cli (kc_cli env))) (conn_exchange (pcl_cli (kc_cli env)) c))"
    "f (piv_print (kc_cli env) t w) = f w" "preserves f (open_input env p)" "preserves f (open_stdin env)"
    "preserves f (read_input_block env h)" "f (close_input env h w) = f w"
  using assms by (simp_all add: input_frame_def)

lemma input_frame_comp: "input_frame env f \<Longrightarrow> input_frame env (\<lambda>w. g (f w))"
  by (auto simp: input_frame_def intro: preserves_comp terminal_frame_comp)

lemma preserves_prompt:
  assumes "terminal_frame env f"
  shows "preserves f (prompt_password env p)"
  unfolding prompt_password_def by (intro preserves_intros terminal_frameD [OF assms])

lemma preserves_input:
  assumes "input_frame env f"
  shows "preserves f (read_secret env path)"
    "preserves f (parse_private_key_input env bytes password)"
    "preserves f (piv_connect (kc_cli env) device reader)" "preserves f (piv_println (kc_cli env) line)"
  unfolding read_secret_def io_result_def parse_private_key_input_def Let_def piv_connect_def
    pcsc_result_def piv_println_def
  using input_frameD [OF assms] preserves_single_target [OF input_frameD(1,2) [OF assms]]
    preserves_prompt [OF input_frameD(1) [OF assms]] terminal_frameD [OF input_frameD(1) [OF assms]]
  by (auto intro!: preserves_intros preserves_closed)

end
