(* ===== verification/OpenPgpSafety.thy ===== *)
theory OpenPgpSafety
  imports OpenPgpCli CommandFrames
begin

text \<open>
  Replacing the algorithm attributes of an OpenPGP slot discards its key.  The import and generate commands
  touch a slot only after everything that can be checked without the card was checked, and no other
  slot at all.
\<close>

section \<open>What the commands leave alone\<close>

lemma preserves_pgp_input:
  assumes "input_frame (gc_keys env) f"
  shows "preserves f (pgp_connect env device reader)" "preserves f (pgp_println env line)"
    "preserves f (admin_string env v prompt)" "preserves f (checked_password env x)"
  unfolding pgp_connect_def pgp_println_def admin_string_def password_text_def checked_password_def gc_terminal_def gc_cli_def
  using preserves_input [OF assms] preserves_prompt [OF input_frameD(1) [OF assms]]
  by (auto intro!: preserves_intros)

section \<open>Slots\<close>

text \<open>
  \<open>slot_world env slots\<close>: \<open>slots\<close> reads the contents of a slot, its attributes and its key; nothing but the
  card commands changes it, and writing the attributes of a slot or its key leaves every other slot as
  it is, whether the command succeeds, fails or its response is lost.
\<close>

definition other_slots :: "('w \<Rightarrow> pgp_slot \<Rightarrow> 'k) \<Rightarrow> pgp_slot \<Rightarrow> 'w \<Rightarrow> pgp_slot \<Rightarrow> 'k option" where
  "other_slots slots s w = (\<lambda>s'. if s' = s then None else Some (slots w s'))"

definition slot_world :: "'w pgp_cli \<Rightarrow> ('w \<Rightarrow> pgp_slot \<Rightarrow> 'k) \<Rightarrow> bool" where
  "slot_world env slots \<longleftrightarrow> input_frame (gc_keys env) slots
     \<and> (\<forall>t s a pw3. preserves (other_slots slots s) (pgp_session_run env t (\<lambda>genv profile. set_algorithm genv profile s a pw3)))
     \<and> (\<forall>t s a k pw3. preserves (other_slots slots s) (pgp_session_run env t (\<lambda>genv profile. pgp_import_key genv profile s a k pw3)))
     \<and> (\<forall>t s pw3. preserves (other_slots slots s) (pgp_session_run env t (\<lambda>genv profile. pgp_generate_key genv profile s pw3)))"

text \<open>The algorithms an OpenPGP slot can hold, and a key file that may replace the slot's key\<close>

definition slot_accepts :: "pgp_slot \<Rightarrow> algorithm \<Rightarrow> bool" where
  "slot_accepts s a \<longleftrightarrow> a \<in> {Rsa2048, Rsa3072, Rsa4096, EccP256, EccP384, EccP521, Secp256k1}
     \<or> a = (if s = PgpDecryption then X25519 else Ed25519)"

lemma validate_import_algorithm_iff:
  "validate_import_algorithm a requested s = Ok u \<longleftrightarrow>
     (case requested of None \<Rightarrow> True | Some r \<Rightarrow> pgp_algorithm_of r = a) \<and> slot_accepts s a"
  by (cases requested; cases s) (auto simp: validate_import_algorithm_def slot_accepts_def)

definition importable :: "'w pgp_cli \<Rightarrow> path \<Rightarrow> byte list option \<Rightarrow> pgp_algorithm_arg option \<Rightarrow> pgp_slot \<Rightarrow> 'w \<Rightarrow> bool" where
  "importable env path password requested s w \<longleftrightarrow> (\<exists>bytes w1 imported w2.
     read_secret (gc_keys env) path w = Some (Ok bytes, w1)
     \<and> parse_private_key_input (gc_keys env) bytes password w1 = Some (Ok imported, w2)
     \<and> slot_accepts s (ik_algorithm imported) \<and> is_ok (openpgp_key imported)
     \<and> (case requested of None \<Rightarrow> True | Some r \<Rightarrow> pgp_algorithm_of r = ik_algorithm imported))"

lemma preserves_replace_attributes:
  assumes "slot_world env slots"
  shows "preserves (other_slots slots s) (replace_attributes env t s requested admin warning)"
proof -
  have "input_frame (gc_keys env) (other_slots slots s)"
    using input_frame_comp [of "gc_keys env" slots "\<lambda>c s'. if s' = s then None else Some (c s')"] assms
    by (simp add: slot_world_def other_slots_def [abs_def])
  then show ?thesis
    using assms unfolding replace_attributes_def
    by (intro preserves_intros preserves_pgp_input) (simp_all add: slot_world_def)
qed

lemma slots_eq_others: "slots w' = slots w \<Longrightarrow> other_slots slots s w' = other_slots slots s w"
  by (simp add: other_slots_def fun_eq_iff)

lemma other_slots_eq_iff:
  "other_slots slots s w' = other_slots slots s w \<longleftrightarrow> (\<forall>s'. s' \<noteq> s \<longrightarrow> slots w' s' = slots w s')"
  by (auto simp: other_slots_def fun_eq_iff)

text \<open>Once the file is known to be importable, the rest of the command may change its slot only.\<close>

lemma import_rest:
  assumes "slot_world env slots"
  shows "preserves (other_slots slots s)
    (proc_bind (pgp_connect env device reader) (\<lambda>t.
     proc_bind (admin_string env admin_pin prompt) (\<lambda>admin.
     proc_bind (replace_attributes env t s requested admin warning) (\<lambda>_.
     proc_bind (checked_password env admin) (\<lambda>pw3.
     proc_bind (pgp_session_run env t (\<lambda>genv profile. pgp_import_key genv profile s a k pw3)) (\<lambda>_.
     pgp_println env line))))))"
proof -
  have frame: "input_frame (gc_keys env) (other_slots slots s)"
    using input_frame_comp [of "gc_keys env" slots "\<lambda>c s'. if s' = s then None else Some (c s')"] assms
    by (simp add: slot_world_def other_slots_def [abs_def])
  show ?thesis
    using assms
    by (intro preserves_intros preserves_pgp_input [OF frame] preserves_replace_attributes [OF assms])
      (simp add: slot_world_def)
qed

text \<open>C34. Importing an OpenPGP key changes no slot but its own, and that one (whose key is discarded when the
  attributes are replaced) only after the key file was read and parsed, its algorithm is the requested one and one
  the slot can hold, and it has an OpenPGP form; a bad file or a wrong algorithm never costs the old key.\<close>

theorem import_keeps_keys:
  assumes "slot_world env slots"
    and "pgp_keys_import env device reader key path requested password admin_pin w = Some (r, w')"
  shows "(\<forall>s. s \<noteq> slot_of key \<longrightarrow> slots w' s = slots w s)
    \<and> (slots w' \<noteq> slots w \<longrightarrow> importable env path password requested (slot_of key) w)"
proof -
  have frame: "input_frame (gc_keys env) slots" using assms(1) by (simp add: slot_world_def)
  let ?s = "slot_of key"
  let ?Q = "\<lambda>r w'. other_slots slots ?s w' = other_slots slots ?s w
    \<and> (slots w' \<noteq> slots w \<longrightarrow> importable env path password requested ?s w)"
  note unchanged = slots_eq_others [of slots _ w ?s]
  have allowed: "importable env path password requested ?s w"
    if "read_secret (gc_keys env) path w = Some (Ok bytes, w1)"
      and "parse_private_key_input (gc_keys env) bytes password w1 = Some (Ok imported, w2)"
      and "lift_res (validate_import_algorithm (ik_algorithm imported) requested ?s) w2 = Some (Ok u, w3)"
      and "lift_res (map_err shown (openpgp_key imported)) w3 = Some (Ok k, w4)"
    for bytes w1 imported w2 u w3 k w4 and shown :: "key_error \<Rightarrow> message"
    using that by (auto simp: importable_def lift_res_def validate_import_algorithm_iff map_err_Ok_iff)
  have "wp (pgp_keys_import env device reader key path requested password admin_pin) ?Q w"
    unfolding pgp_keys_import_def Let_def
    apply (rule frame_bind_run [OF preserves_input(1) [OF frame]])
     apply (rule frame_bind_run [OF preserves_input(2) [OF frame]])
      apply (rule frame_bind_run [where f = slots, OF preserves_ret(3)])
       apply (rule frame_bind_run [where f = slots, OF preserves_ret(3)])
        apply (rule preserves_wp [OF import_rest [OF assms(1)]])
    subgoal premises prems
      using allowed [OF prems(1,3,5,7)]
        trans [OF prems(9) unchanged [OF trans [OF prems(8) trans [OF prems(6) trans [OF prems(4) prems(2)]]]]] by blast
    by (intro conjI unchanged; simp)+
  from wpD [OF this assms(2)] show ?thesis by (simp add: other_slots_eq_iff)
qed

text \<open>Generation touches its slot only once the requested algorithm fits the slot and the firmware can generate it.\<close>

lemma generate_keeps_keys:
  assumes "slot_world env slots"
    and "pgp_keys_generate env device reader key requested admin_pin w = Some (r, w')"
  shows "(\<forall>s. s \<noteq> slot_of key \<longrightarrow> slots w' s = slots w s)
    \<and> (slots w' \<noteq> slots w \<longrightarrow> (\<exists>t w1. pgp_connect env device reader w = Some (Ok t, w1)
         \<and> (case requested of None \<Rightarrow> True | Some a \<Rightarrow> slot_accepts (slot_of key) (pgp_algorithm_of a)
              \<and> is_ok (generation_supported env (tg_profile t) (pgp_algorithm_of a)))))"
proof -
  have frame: "input_frame (gc_keys env) slots" using assms(1) by (simp add: slot_world_def)
  let ?s = "slot_of key"
  let ?valid = "\<lambda>t. case requested of None \<Rightarrow> True | Some a \<Rightarrow> slot_accepts ?s (pgp_algorithm_of a)
    \<and> is_ok (generation_supported env (tg_profile t) (pgp_algorithm_of a))"
  let ?Q = "\<lambda>r w'. other_slots slots ?s w' = other_slots slots ?s w
    \<and> (slots w' \<noteq> slots w \<longrightarrow> (\<exists>t w1. pgp_connect env device reader w = Some (Ok t, w1) \<and> ?valid t))"
  note unchanged = slots_eq_others [of slots _ w ?s]
  have frame': "input_frame (gc_keys env) (other_slots slots ?s)"
    using input_frame_comp [OF frame, of "\<lambda>c s'. if s' = ?s then None else Some (c s')"]
    by (simp add: other_slots_def [abs_def])
  have checked: "?valid t" if "(case requested of
         Some a \<Rightarrow> lift_res (validate_generation_algorithm env (tg_profile t) ?s (pgp_algorithm_of a)) | None \<Rightarrow> ret ()) w1
       = Some (Ok u, w2)" for t w1 u w2
    using that by (auto simp: lift_res_def validate_generation_algorithm_def res_bind_Ok_iff map_err_Ok_iff
        validate_import_algorithm_iff split: option.splits)
  have rest: "preserves (other_slots slots ?s)
    (proc_bind (admin_string env admin_pin prompt) (\<lambda>admin.
     proc_bind (replace_attributes env t ?s requested admin warning) (\<lambda>_.
     proc_bind (checked_password env admin) (\<lambda>pw3.
     proc_bind (pgp_session_run env t (\<lambda>genv profile. pgp_generate_key genv profile ?s pw3)) (\<lambda>_.
     pgp_println env line)))))" for t prompt warning line
    using assms(1)
    by (intro preserves_intros preserves_pgp_input [OF frame'] preserves_replace_attributes [OF assms(1)])
      (simp add: slot_world_def)
  have same: "?Q r w1" if "slots w1 = slots w" for w1 and r :: "message + unit"
    using unchanged [OF that] that by blast
  have "wp (pgp_keys_generate env device reader key requested admin_pin) ?Q w"
    unfolding pgp_keys_generate_def Let_def
    apply (rule frame_bind_run [OF preserves_pgp_input(1) [OF frame]])
     apply (rule frame_bind_run [where f = slots])
       apply (intro preserves_intros)
      apply (rule preserves_wp [OF rest])
    subgoal premises prems
      using trans [OF prems(5) unchanged [OF trans [OF prems(4) prems(2)]]] checked [OF prems(3)] prems(1) by blast
    subgoal premises prems by (rule same) (simp add: prems)
    subgoal premises prems by (rule same) (simp add: prems)
    done
  from wpD [OF this assms(2)] show ?thesis by (simp add: other_slots_eq_iff)
qed

section \<open>A run whose response is lost\<close>

definition slot_cli :: "lost_world pgp_cli" where
  "slot_cli = \<lparr>
     gc_keys = \<lparr>kc_piv = lost_env,
       kc_verify = \<lparr>rsa_key_accepted = \<lambda>_ _. False, ec_verifying_key = \<lambda>_ _. None, ec_signature_der = \<lambda>_ _. None,
         ec_verify_prehash = \<lambda>_ _ _ _. False\<rparr>,
       show_spki_error = \<lambda>_. ''spki'', canokey_root = [], unix_clock = ret 0, open_input = \<lambda>_. ret 0, open_stdin = ret 0,
       read_input_block = \<lambda>_ w. (case snd w sample_temporary of
         None \<Rightarrow> Some (Ok [], w) | Some bytes \<Rightarrow> Some (Ok bytes, (fst w, (snd w)(sample_temporary := None)))),
       close_input = \<lambda>_ w. w, read_prefix = \<lambda>_ _. ret []\<rparr>,
     gc_pgp = \<lparr>pgp_exchange = \<lambda>_. throw (IoError IoOther ''closed''),
       pgp_operation = \<lambda>_ request _. case request of
         WriteData (WriteAlgorithm s a) \<Rightarrow> if s = PgpSignature then Ok (single_operation [0xc1] (\<lambda>_. Ok (OutcomeOther 0))) else refused
       | _ \<Rightarrow> refused,
       parse_application_data = \<lambda>_ _ _. refused, parse_cardholder_data = \<lambda>_ _ _. refused, slot_occurrence = \<lambda>_. 0\<rparr>,
     password_of = \<lambda>b. Ok (Password b), pgp_spki = \<lambda>_. None, show_pgp_spki_error = \<lambda>_. ''spki'',
     parse_certificate_der = \<lambda>_. Err ''certificate'', fingerprint_of = \<lambda>_ _. Ok None,
     algorithm_attributes_of = \<lambda>_ _. Ok None, generation_time_of = \<lambda>_ _. Ok None, uif_of = \<lambda>_ _. Ok None,
     uif_supported = \<lambda>_. False, generation_supported = \<lambda>_ _. Ok ()\<rparr>"

definition slot_bytes :: "lost_world \<Rightarrow> pgp_slot \<Rightarrow> byte list" where
  "slot_bytes w s = (if s = PgpSignature then mk_bytes (fst w) else [])"

lemma slot_sel:
  "gc_cli slot_cli = lost_cli" "gc_terminal slot_cli = pcl_cli lost_cli" "kc_cli (gc_keys slot_cli) = lost_cli"
  "pgp_operation (gc_pgp slot_cli) profile (WriteData (WriteAlgorithm s a)) access
     = (if s = PgpSignature then Ok (single_operation [0xc1] (\<lambda>_. Ok (OutcomeOther 0))) else refused)"
  "pgp_operation (gc_pgp slot_cli) profile (ImportKey s a k) access = refused"
  "pgp_operation (gc_pgp slot_cli) profile (GenerateKey s) access = refused"
  "password_of slot_cli b = Ok (Password b)"
  by (simp_all add: gc_cli_def gc_terminal_def kc_cli_def slot_cli_def lost_sel)

lemma slot_command:
  "pgp_session_run slot_cli t (\<lambda>genv profile. set_algorithm genv profile s a pw3) w
     = Some (Err (describe_pgp slot_cli (if s = PgpSignature then Transport (IoError IoOther ''failed'')
         else Protocol (new_error UnsupportedFeature))),
       (if s = PgpSignature then (ManagementKey Tdes [0xc1], snd w) else w))"
  "pgp_session_run slot_cli t (\<lambda>genv profile. pgp_import_key genv profile s a k pw3) w
     = Some (Err (describe_pgp slot_cli (Protocol (new_error UnsupportedFeature))), w)"
  "pgp_session_run slot_cli t (\<lambda>genv profile. pgp_generate_key genv profile s pw3) w
     = Some (Err (describe_pgp slot_cli (Protocol (new_error UnsupportedFeature))), w)"
  by (cases w; simp add: pgp_session_run_def set_algorithm_def write_data_def pgp_with_admin_def pgp_run_def slot_sel
      pgp_import_key_def pgp_generate_key_def refused_def proc_bind_def proc_map_err_def lift_res_def execute_def
      drive_loop.simps lost_at)+

lemma slot_world_sample: "slot_world slot_cli slot_bytes"
proof -
  have probed: "probe (Ok (done_operation r)) exchange w = Some (map_err Protocol r, w)"
    for r :: "lib_error + 'y" and exchange :: "(lost_world, io_error) exchange" and w
    by (simp add: probe_def execute_def drive_loop.simps)
  have "input_frame (gc_keys slot_cli) slot_bytes"
    unfolding input_frame_def terminal_frame_def slot_sel lost_terminal lost_sel
    by (auto intro!: preserves_intros simp: probed slot_cli_def slot_bytes_def preserves_def wp_def ret_def fun_eq_iff
        split: option.split)
  then show ?thesis
    by (auto simp: slot_world_def slot_command preserves_def wp_def other_slots_def slot_bytes_def fun_eq_iff)
qed

definition slot_key_file :: "byte list" where
  "slot_key_file = 0x30 # replicate 32 7"

lemma slot_read:
  "read_secret (gc_keys slot_cli) (lit ''key'') (k, [sample_temporary \<mapsto> slot_key_file])
     = Some (Ok slot_key_file, (k, Map.empty))"
proof -
  have path: "lit ''key'' \<noteq> lit ''-''" by code_simp
  have long: "slot_key_file \<noteq> []" "length slot_key_file = 33" by (simp_all add: slot_key_file_def)
  show ?thesis
    by (simp add: read_secret_def path slot_cli_def io_result_def proc_bind_def proc_try_def proc_map_err_def ret_def
        read_secret_from.simps [of _ "[]"] read_secret_from.simps [of _ slot_key_file] long)
qed

lemma slot_parse:
  "parse_private_key_input (gc_keys slot_cli) slot_key_file None w
     = Some (Ok \<lparr>ik_algorithm = Ed25519, ik_material = MatEc (replicate 32 7)\<rparr>, w)"
  by (simp add: parse_private_key_input_def slot_sel slot_key_file_def lost_cli_def sample_private_key ret_def)

theorem import_keeps_keys_witness:
  "\<exists>r w'. pgp_keys_import slot_cli None None ArgSig (lit ''key'') (Some ArgEd25519) None (Some (lit ''12345678''))
      (ManagementKey Tdes [1], [sample_temporary \<mapsto> slot_key_file]) = Some (r, w')
    \<and> slot_bytes w' PgpSignature = [0xc1]
    \<and> importable slot_cli (lit ''key'') None (Some ArgEd25519) PgpSignature
        (ManagementKey Tdes [1], [sample_temporary \<mapsto> slot_key_file])"
proof -
  let ?w = "(ManagementKey Tdes [1], [sample_temporary \<mapsto> slot_key_file])"
  have pin: "length (lit ''12345678'') = 8" by code_simp
  have "\<exists>e. pgp_keys_import slot_cli None None ArgSig (lit ''key'') (Some ArgEd25519) None (Some (lit ''12345678'')) ?w
      = Some (Err e, (ManagementKey Tdes [0xc1], Map.empty))"
    by (simp add: pgp_keys_import_def proc_bind_def slot_read slot_parse lift_res_def validate_import_algorithm_def
        slot_of_def pgp_algorithm_of_def openpgp_key_def pgp_connect_def slot_sel lost_connect admin_string_def password_text_def
        pin ret_def replace_attributes_def pgp_println_def piv_println_def lost_sel checked_password_def slot_command)
  then obtain e where run: "pgp_keys_import slot_cli None None ArgSig (lit ''key'') (Some ArgEd25519) None
      (Some (lit ''12345678'')) ?w = Some (Err e, (ManagementKey Tdes [0xc1], Map.empty))" ..
  have "slot_bytes (ManagementKey Tdes [0xc1], Map.empty) PgpSignature \<noteq> slot_bytes ?w PgpSignature"
    by (simp add: slot_bytes_def)
  then have "slot_bytes (ManagementKey Tdes [0xc1], Map.empty) \<noteq> slot_bytes ?w" by metis
  with import_keeps_keys [OF slot_world_sample run, THEN conjunct2]
  have "importable slot_cli (lit ''key'') None (Some ArgEd25519) PgpSignature ?w" by (simp add: slot_of_def)
  with run show ?thesis by (auto simp: slot_bytes_def)
qed

end
