(* ===== verification/Config.thy ===== *)
theory Config
  imports PivCli HexText
begin

unbundle bit_operations_syntax

text \<open>
  The configuration commands of \<^verbatim>\<open>crates/ckman/src/commands/config.rs\<close> over the Admin wrappers, and the NDEF
  wrappers of \<^verbatim>\<open>crates/ckman-core/src/ndef.rs\<close>.  Each command selects its reader, asks for what it needs
  and performs one Admin operation, most of them with the shared retry that prompts for the Admin PIN.
\<close>

section \<open>NDEF messages\<close>

record ndef_capability =
  nc_max_message_length :: nat
  nc_read_only :: bool

record ndef_lib =
  lib_ndef_read :: "lib_error + byte list operation"
  lib_ndef_capability :: "lib_error + ndef_capability operation"
  lib_ndef_write :: "byte list \<Rightarrow> lib_error + unit operation"

definition ndef_execute :: "lib_error + 'a operation \<Rightarrow> ('w, 'e) exchange \<Rightarrow> ('w, 'e drive_error, 'a) proc" where
  "ndef_execute oper exchange = proc_bind (lift_res (map_err Protocol oper)) (\<lambda>oper. execute oper exchange)"

definition ndef_read_message :: "ndef_lib \<Rightarrow> ('w, 'e) exchange \<Rightarrow> ('w, 'e drive_error, byte list) proc" where
  "ndef_read_message lib exchange = ndef_execute (lib_ndef_read lib) exchange"

definition ndef_read_capability :: "ndef_lib \<Rightarrow> ('w, 'e) exchange \<Rightarrow> ('w, 'e drive_error, ndef_capability) proc" where
  "ndef_read_capability lib exchange = ndef_execute (lib_ndef_capability lib) exchange"

definition ndef_write_message :: "ndef_lib \<Rightarrow> byte list \<Rightarrow> ('w, 'e) exchange \<Rightarrow> ('w, 'e drive_error, unit) proc" where
  "ndef_write_message lib message exchange =
     proc_bind (ndef_execute (lib_ndef_write lib message) exchange) (\<lambda>_. ret ())"

section \<open>Commands\<close>

datatype nfc_state = NfcOn | NfcOff

datatype admin_pin_command = AdminPinChange | AdminPinStatusCommand

datatype sm2_command = Sm2Set "u32 option" "u32 option"

datatype pass_slot_arg = PassArgShort | PassArgLong

datatype pass_kind_arg = KindOff | KindStatic | KindHmac

datatype pass_command =
    PassInfo
  | PassSet (pass_slot: pass_slot_arg) (pass_kind: pass_kind_arg) (pass_key: "byte list option") (pass_enter: bool)
      (pass_admin_pin: "byte list option")

datatype ndef_command = NdefRead | NdefWrite path

datatype keyboard_command =
    KeyboardLayout
  | KeyboardReadKeymap path
  | KeyboardWriteKeymap u8 path
  | KeyboardClearKeymap
  | KeyboardReturn nfc_state

datatype config_command =
    ConfigNfc nfc_state
  | ConfigReset bool
  | ConfigInfo "byte list option"
  | ConfigLed nfc_state
  | ConfigNdefReadOnly nfc_state
  | ConfigWebusbLanding nfc_state
  | ConfigPass pass_command
  | ConfigNdef ndef_command
  | ConfigKeyboard keyboard_command
  | ConfigSm2 "sm2_command option"
  | ConfigAdminPin admin_pin_command

section \<open>Environment\<close>

record 'w config_cli =
  cf_piv :: "'w piv_cli"
  cf_ndef :: ndef_lib
  keymap_from_bytes :: "byte list \<Rightarrow> lib_error + keymap"
  capability_admin_extended :: "device_profile \<Rightarrow> support"

definition cf_terminal :: "'w config_cli \<Rightarrow> 'w cli_env" where
  "cf_terminal env = pcl_cli (cf_piv env)"

definition cf_exchange :: "'w config_cli \<Rightarrow> target \<Rightarrow> ('w, io_error) exchange" where
  "cf_exchange env t = conn_exchange (cf_terminal env) (tg_connection t)"

definition cf_admin :: "'w config_cli \<Rightarrow> target \<Rightarrow> ('w, io_error) admin_env" where
  "cf_admin env t = (pcl_admin (cf_piv env))\<lparr>admin_exchange := cf_exchange env t\<rparr>"

definition cf_println :: "'w config_cli \<Rightarrow> byte list \<Rightarrow> ('w, message, unit) proc" where
  "cf_println env t = piv_println (cf_piv env) t"

text \<open>\<^verbatim>\<open>print!\<close> panics, and so does not return, when it cannot write.\<close>

definition cf_print :: "'w config_cli \<Rightarrow> byte list \<Rightarrow> ('w, message, unit) proc" where
  "cf_print env t = proc_bind (proc_try (stdout_write (cf_terminal env) t) ret) (\<lambda>r.
     unwrap (case r of Ok _ \<Rightarrow> Some () | Err _ \<Rightarrow> None))"

fun cf_print_lines :: "'w config_cli \<Rightarrow> byte list list \<Rightarrow> ('w, message, unit) proc" where
  "cf_print_lines env [] = ret ()"
| "cf_print_lines env (l # ls) = proc_bind (cf_println env l) (\<lambda>_. cf_print_lines env ls)"

definition cf_described :: "'w config_cli \<Rightarrow> ('w, io_error drive_error, 'a) proc \<Rightarrow> ('w, message, 'a) proc" where
  "cf_described env m = proc_map_err (describe_drive_error (cf_terminal env)) m"

text \<open>\<^verbatim>\<open>admin::Pin::from_bytes\<close> on a PIN argument; the message is the error's text.\<close>

definition parsed_admin_pin :: "'w config_cli \<Rightarrow> byte list \<Rightarrow> message + admin_pin" where
  "parsed_admin_pin env t = map_err (\<lambda>e. lit (show_lib_error (cf_terminal env) e)) (admin_pin_from_bytes (cf_terminal env) t)"

definition optional_admin_pin :: "'w config_cli \<Rightarrow> byte list option \<Rightarrow> message + admin_pin option" where
  "optional_admin_pin env t = (case t of
     None \<Rightarrow> Ok None | Some t \<Rightarrow> res_bind (parsed_admin_pin env t) (\<lambda>p. Ok (Some p)))"

definition on_target :: "'w config_cli \<Rightarrow> u32 option \<Rightarrow> byte list option \<Rightarrow> (target \<Rightarrow> ('w, message, 'a) proc) \<Rightarrow> ('w, message, 'a) proc" where
  "on_target env device reader body = proc_bind (piv_connect (cf_piv env) device reader) body"

definition with_pin_prompt :: "'w config_cli \<Rightarrow> target
    \<Rightarrow> (('w, io_error) admin_env \<Rightarrow> device_profile \<Rightarrow> admin_pin option \<Rightarrow> ('w, io_error drive_error, 'a) proc) \<Rightarrow> ('w, message, 'a) proc" where
  "with_pin_prompt env t operation = with_admin_pin_retry (cf_terminal env) None (operation (cf_admin env t) (tg_profile t))"

section \<open>Words for flags\<close>

definition on_off :: "bool \<Rightarrow> byte list" where
  "on_off b = lit (if b then ''on'' else ''off'')"

definition enabled_text :: "bool \<Rightarrow> byte list" where
  "enabled_text b = lit (if b then ''enabled'' else ''disabled'')"

definition yes_no :: "bool \<Rightarrow> byte list" where
  "yes_no b = lit (if b then ''yes'' else ''no'')"

definition to_bool :: "nfc_state \<Rightarrow> bool" where
  "to_bool s \<longleftrightarrow> s = NfcOn"

section \<open>The Admin PIN\<close>

definition config_admin_pin_change where
  "config_admin_pin_change env t =
     proc_bind (prompt_admin_pin (cf_terminal env)) (\<lambda>current.
     proc_bind (prompt_password (cf_terminal env) (lit ''New Admin PIN: '')) (\<lambda>new.
     proc_bind (prompt_password (cf_terminal env) (lit ''Repeat the new Admin PIN: '')) (\<lambda>repeated.
     if new \<noteq> repeated then throw (lit ''the Admin PINs do not match'')
     else proc_bind (lift_res (parsed_admin_pin env new)) (\<lambda>new.
       proc_bind (cf_described env (admin_change_pin (cf_admin env t) (tg_profile t) current new)) (\<lambda>_.
       cf_println env (lit ''Admin PIN has been changed.''))))))"

definition config_admin_pin_status where
  "config_admin_pin_status env t =
     proc_bind (cf_described env (admin_pin_status_of (cf_admin env t) (tg_profile t))) (\<lambda>status.
     cf_print_lines env (
       [lit ''Admin PIN verified: '' @ yes_no (aps_verified status)]
       @ (case aps_retries_remaining status of Some n \<Rightarrow> [lit (''Retries remaining:  '' @ show_nat n)] | None \<Rightarrow> [])
       @ [lit ''Admin PIN blocked:  '' @ yes_no (aps_blocked status)]))"

definition config_admin_pin where
  "config_admin_pin env device reader command = on_target env device reader (\<lambda>t. case command of
     AdminPinChange \<Rightarrow> config_admin_pin_change env t
   | AdminPinStatusCommand \<Rightarrow> config_admin_pin_status env t)"

section \<open>NFC and factory reset\<close>

definition config_nfc where
  "config_nfc env device reader on = on_target env device reader (\<lambda>t.
     proc_bind (with_pin_prompt env t (\<lambda>a profile pin. set_nfc a profile on pin)) (\<lambda>new_state.
     cf_println env (lit ''NFC is now '' @ on_off new_state @ lit ''.'')))"

definition describe_factory_reset_error :: "'w config_cli \<Rightarrow> io_error drive_error \<Rightarrow> message" where
  "describe_factory_reset_error env error = (case error of
     Protocol e \<Rightarrow>
       if err_phase e = Some PhaseCommand \<and> err_kind e = SecurityStatusNotSatisfied
       then lit (''Factory reset physical-presence confirmation failed or timed out. Retry config reset over USB and ''
         @ ''follow the LED prompts, touching the key repeatedly. No PIN authentication is required for factory reset; ''
         @ ''--force only skips CLI confirmation, not touch confirmation.'')
       else if err_phase e = Some PhaseCommand \<and> err_kind e = ConditionsNotSatisfied
       then lit (''Full device reset refused: resetting all applets and PINs requires a blocked Admin PIN and a USB ''
         @ ''connection (NFC is not supported). Ensure the Admin PIN is blocked, connect via USB, then retry config ''
         @ ''reset. --force only skips confirmation; it does not bypass this requirement.'')
       else describe_drive_error (cf_terminal env) error
   | Transport _ \<Rightarrow> describe_drive_error (cf_terminal env) error)"

definition reset_confirmation :: "'w config_cli \<Rightarrow> ('w, message, unit) proc" where
  "reset_confirmation env =
     proc_bind (piv_eprintln (cf_piv env) (lit ''This erases ALL data and credentials on the device and cannot be undone.'')) (\<lambda>_.
     proc_bind (piv_eprintln (cf_piv env) (lit ''Factory reset only succeeds while the Admin PIN is blocked.'')) (\<lambda>_.
     proc_bind (cf_print env (lit ''Type 'yes' to confirm: '')) (\<lambda>_.
     proc_bind (io_result (stdout_flush (cf_terminal env))) (\<lambda>_.
     proc_bind (io_result (stdin_line (cf_terminal env))) (\<lambda>answer.
     if trim answer \<noteq> lit ''yes'' then throw (lit ''factory reset aborted'') else ret ())))))"

definition config_reset where
  "config_reset env device reader force = on_target env device reader (\<lambda>t.
     proc_bind (if force then ret () else reset_confirmation env) (\<lambda>_.
     proc_bind (piv_eprintln (cf_piv env)
       (lit ''Follow the LED prompts and touch the key repeatedly to confirm factory reset.'')) (\<lambda>_.
     proc_bind (proc_map_err (describe_factory_reset_error env) (factory_reset (cf_admin env t) (tg_profile t))) (\<lambda>_.
     cf_println env (lit ''Factory reset complete.'')))))"

section \<open>Reading the configuration\<close>

definition feature_line :: "u8 \<Rightarrow> nat \<times> string \<Rightarrow> byte list" where
  "feature_line features = (\<lambda>(b, name).
     lit ''  '' @ lit (name @ replicate (18 - length name) (CHR 0x20)) @ on_off (features AND push_bit b 1 \<noteq> 0))"

definition modern_lines :: "modern_configuration \<Rightarrow> byte list list" where
  "modern_lines c =
    [lit ''LED:                  '' @ on_off (mc_led_on c),
     lit ''NDEF:                 '' @ enabled_text (mc_ndef_enabled c),
     lit ''NDEF read-only:       '' @ yes_no (mc_ndef_read_only c),
     lit ''WebUSB landing page:  '' @ on_off (mc_webusb_landing c),
     lit ''Applet features (raw 0x'' @ hex_text [mc_features c] @ lit ''):'']
    @ map (feature_line (mc_features c)) [(0, ''PASS''), (1, ''OpenPGP over CCID''), (2, ''OpenPGP over NFC''),
        (3, ''PIV over CCID''), (4, ''PIV over NFC''), (5, ''WebAuthn'')]
    @ (if mc_features c AND NOT 0x3f \<noteq> 0
       then [lit ''  (unknown feature bits set: 0x'' @ hex_text [mc_features c AND NOT 0x3f] @ lit '')''] else [])"

definition optional_line :: "string \<Rightarrow> ('a \<Rightarrow> byte list) \<Rightarrow> 'a option \<Rightarrow> byte list list" where
  "optional_line label show v = (case v of Some v \<Rightarrow> [lit label @ show v] | None \<Rightarrow> [])"

definition touch_text :: "byte list \<Rightarrow> byte list" where
  "touch_text touch = lit ''sig='' @ on_off (touch ! 0 \<noteq> 0) @ lit '' dec='' @ on_off (touch ! 1 \<noteq> 0)
     @ lit '' aut='' @ on_off (touch ! 2 \<noteq> 0) @ lit (('' cache='' @ show_nat (unat (touch ! 3))) @ ''s'')"

definition legacy_lines :: "legacy_configuration \<Rightarrow> byte list list" where
  "legacy_lines c =
    [lit ''LED:                  '' @ on_off (lc_led_on c),
     lit ''NDEF read-only:       '' @ yes_no (lc_ndef_read_only c)]
    @ optional_line ''NDEF:                 '' enabled_text (lc_ndef_enabled c)
    @ optional_line ''WebUSB landing page:  '' on_off (lc_webusb_landing c)
    @ optional_line ''Keyboard interface:   '' on_off (lc_keyboard_interface c)
    @ optional_line ''Keyboard return:      '' on_off (lc_keyboard_return c)
    @ optional_line ''OpenPGP touch:        '' touch_text (lc_openpgp_touch c)"

definition configuration_lines :: "admin_configuration \<Rightarrow> byte list list" where
  "configuration_lines c = (case c of AdminModern c \<Rightarrow> modern_lines c | AdminLegacy c \<Rightarrow> legacy_lines c)"

definition APPLETS :: "string list" where
  "APPLETS = [''System'', ''Admin'', ''OpenPGP'', ''PIV'', ''OTP'', ''WebAuthn'', ''NFC Tag'', ''Pass'']"

definition applet_line :: "applet_usage \<Rightarrow> byte list" where
  "applet_line u = (let name = (if au_applet_id u < length APPLETS then APPLETS ! au_applet_id u else ''unknown'') in
     lit (''  '' @ name @ replicate (10 - length name) (CHR 0x20) @ show_nat (au_logical_bytes u) @ '' B''))"

definition storage_lines :: "applet_usage list \<Rightarrow> byte list list" where
  "storage_lines us = lit ''Applet storage (logical payload):'' # map applet_line (filter (\<lambda>u. au_applet_id u \<noteq> 0) us)
     @ (case find (\<lambda>u. au_applet_id u = 0) us of
          Some u \<Rightarrow> [lit (''Filesystem overhead/other: '' @ show_nat (au_logical_bytes u) @ '' B'')] | None \<Rightarrow> [])"

definition config_extended :: "'w config_cli \<Rightarrow> target \<Rightarrow> ('w, message, unit) proc" where
  "config_extended env t =
    (if capability_admin_extended env (tg_profile t) = Supported
     then proc_bind (cf_described env (core_commit (cf_admin env t) (tg_profile t))) (\<lambda>commit.
       proc_bind (cf_println env (lit ''Core commit:          '' @ utf8_lossy commit)) (\<lambda>_.
       proc_bind (cf_described env (applet_usage_of (cf_admin env t) (tg_profile t))) (\<lambda>us.
       cf_print_lines env (storage_lines us))))
     else ret ())"

definition config_read :: "'w config_cli \<Rightarrow> target \<Rightarrow> byte list option \<Rightarrow> admin_pin option \<Rightarrow> ('w, message, unit) proc" where
  "config_read env t admin_text pin =
     proc_bind (cf_described env (read_configuration (cf_admin env t) (tg_profile t) pin)) (\<lambda>configuration.
     proc_bind (cf_print_lines env (configuration_lines configuration)) (\<lambda>_.
     proc_bind (lift_res (optional_admin_pin env admin_text)) (\<lambda>pin.
     proc_bind (cf_described env (flash_usage_of (cf_admin env t) (tg_profile t) pin)) (\<lambda>usage.
     proc_bind (cf_println env (lit (''Flash usage:          '' @ show_nat (fu_used_kib usage) @ '' / ''
       @ show_nat (fu_total_kib usage) @ '' KiB''))) (\<lambda>_.
     config_extended env t)))))"

definition config_info where
  "config_info env device reader admin_text =
     proc_bind (lift_res (optional_admin_pin env admin_text)) (\<lambda>pin.
     on_target env device reader (\<lambda>t.
       case public_configuration_supported (pcl_admin (cf_piv env)) (tg_profile t) of
         SupportUnknown \<Rightarrow> cf_println env (lit ''Unrecognized firmware; configuration not read.'')
       | Supported \<Rightarrow> config_read env t admin_text pin
       | Unsupported \<Rightarrow>
           if pin = None then cf_println env (lit (''Reading configuration on this firmware requires the Admin PIN; ''
             @ ''use config info --admin-pin PIN.''))
           else config_read env t admin_text pin))"

section \<open>Patches\<close>

definition empty_patch :: configuration_patch where
  "empty_patch = \<lparr>cp_led_on = None, cp_ndef_read_only = None, cp_webusb_landing = None\<rparr>"

definition config_patch where
  "config_patch env device reader name edit = on_target env device reader (\<lambda>t.
     proc_bind (with_pin_prompt env t (\<lambda>a profile pin. configure a profile (edit empty_patch) pin)) (\<lambda>_.
     cf_println env (lit (name @ '' updated.''))))"

section \<open>PASS slots\<close>

definition pass_slot_text :: "pass_slot_state \<Rightarrow> byte list" where
  "pass_slot_text s = (case s of
     PassOff \<Rightarrow> lit ''off''
   | PassStatic append_enter \<Rightarrow> lit ''static password (append Return: '' @ yes_no append_enter @ lit '')''
   | PassHmacSha1 \<Rightarrow> lit ''HMAC-SHA1 challenge-response''
   | PassOath name append_enter \<Rightarrow> lit ''OATH credential '' @ [0x27] @ utf8_lossy name @ [0x27]
       @ lit '' (append Return: '' @ yes_no append_enter @ lit '')''
   | PassUnknown kind \<Rightarrow> lit ''unknown slot type 0x'' @ hex_text [kind])"

definition pass_hmac_key :: "byte list \<Rightarrow> message + byte list" where
  "pass_hmac_key t =
    (if length t \<noteq> 40 \<or> \<not> list_all (\<lambda>b. hex_val b \<noteq> None) t
     then Err (lit ''the HMAC-SHA1 key must be 20 bytes (40 hex characters)'')
     else ok_or (lit ''the HMAC-SHA1 key must be hex-encoded'') (hex_decode t))"

definition supplied_hmac_key :: "pass_command \<Rightarrow> message + byte list option" where
  "supplied_hmac_key command = (case command of
     PassSet _ KindHmac (Some t) _ _ \<Rightarrow> res_bind (pass_hmac_key t) (\<lambda>k. Ok (Some k))
   | _ \<Rightarrow> Ok None)"

definition pass_secret :: "'w config_cli \<Rightarrow> pass_kind_arg \<Rightarrow> byte list option \<Rightarrow> ('w, message, byte list option) proc" where
  "pass_secret env kind supplied = (case kind of
     KindOff \<Rightarrow> ret None
   | KindStatic \<Rightarrow> proc_bind (prompt_password (cf_terminal env) (lit ''Enter the static password: '')) (\<lambda>p. ret (Some p))
   | KindHmac \<Rightarrow> (case supplied of
       Some k \<Rightarrow> ret (Some k)
     | None \<Rightarrow> proc_bind (prompt_password (cf_terminal env) (lit ''Enter the HMAC-SHA1 key (hex): '')) (\<lambda>t.
         proc_bind (lift_res (pass_hmac_key t)) (\<lambda>k. ret (Some k)))))"

definition pass_config :: "pass_kind_arg \<Rightarrow> bool \<Rightarrow> byte list option \<Rightarrow> pass_slot_config option" where
  "pass_config kind append_enter secret = (case kind of
     KindOff \<Rightarrow> Some PassConfigOff
   | KindStatic \<Rightarrow> map_option (\<lambda>p. PassConfigStatic p append_enter) secret
   | KindHmac \<Rightarrow> map_option PassConfigHmacSha1 secret)"

definition pass_slot_of :: "pass_slot_arg \<Rightarrow> pass_slot_id" where
  "pass_slot_of s = (case s of PassArgShort \<Rightarrow> PassShort | PassArgLong \<Rightarrow> PassLong)"

definition config_pass_set where
  "config_pass_set env t which kind append_enter admin_text supplied =
     proc_bind (pass_secret env kind supplied) (\<lambda>secret.
     proc_bind (lift_res (optional_admin_pin env admin_text)) (\<lambda>pin.
     proc_bind (with_admin_pin_retry (cf_terminal env) pin (\<lambda>pin.
       proc_bind (unwrap (pass_config kind append_enter secret)) (\<lambda>config.
       set_pass_slot (cf_admin env t) (tg_profile t) (pass_slot_of which) config pin))) (\<lambda>_.
     cf_println env (lit ''PASS slot updated.''))))"

definition config_pass where
  "config_pass env device reader command =
     proc_bind (lift_res (supplied_hmac_key command)) (\<lambda>supplied.
     on_target env device reader (\<lambda>t. case command of
       PassInfo \<Rightarrow>
         proc_bind (with_pin_prompt env t pass_slots_of) (\<lambda>slots.
         cf_print_lines env [lit ''Short touch: '' @ pass_slot_text (ps_short slots),
           lit ''Long touch:  '' @ pass_slot_text (ps_long slots)])
     | PassSet which kind _ append_enter admin_text \<Rightarrow>
         config_pass_set env t which kind append_enter admin_text supplied))"

section \<open>NDEF, keyboard and SM2\<close>

definition ndef_lines :: "ndef_capability \<Rightarrow> byte list \<Rightarrow> byte list list" where
  "ndef_lines capability message =
    [lit (''NDEF message: '' @ show_nat (length message) @ '' byte(s)''),
     lit (''  max message length: '' @ show_nat (nc_max_message_length capability)),
     lit ''  read-only:          '' @ yes_no (nc_read_only capability)]
    @ (if message = [] then []
       else if utf8_valid message then [lit ''  content (text):     '' @ message]
       else [lit ''  content (hex):      '' @ hex_text message])"

definition config_ndef where
  "config_ndef env device reader command = on_target env device reader (\<lambda>t. case command of
     NdefRead \<Rightarrow>
       proc_bind (cf_described env (ndef_read_capability (cf_ndef env) (cf_exchange env t))) (\<lambda>capability.
       proc_bind (cf_described env (ndef_read_message (cf_ndef env) (cf_exchange env t))) (\<lambda>message.
       cf_print_lines env (ndef_lines capability message)))
   | NdefWrite file_path \<Rightarrow>
       proc_bind (read_input (cf_piv env) file_path) (\<lambda>message.
       proc_bind (cf_described env (ndef_write_message (cf_ndef env) message (cf_exchange env t))) (\<lambda>_.
       cf_println env (lit (''NDEF message written ('' @ show_nat (length message) @ '' byte(s)).'')))))"

definition config_keyboard where
  "config_keyboard env device reader command = on_target env device reader (\<lambda>t. case command of
     KeyboardLayout \<Rightarrow>
       proc_bind (with_pin_prompt env t keyboard_layout) (\<lambda>layout.
       cf_println env (lit (''Keyboard layout: '' @ show_nat (unat layout))))
   | KeyboardReadKeymap output \<Rightarrow>
       proc_bind (with_pin_prompt env t read_keymap) (\<lambda>keymap.
       proc_bind (write_output (cf_piv env) output (keymap_bytes keymap)) (\<lambda>_.
       piv_eprintln (cf_piv env) (lit ''Keymap written to '' @ output @ lit ''.'')))
   | KeyboardWriteKeymap layout file_path \<Rightarrow>
       proc_bind (read_input (cf_piv env) file_path) (\<lambda>bytes.
       proc_bind (lift_res (map_err (\<lambda>_. lit ''the keymap file must contain exactly 256 bytes'') (keymap_from_bytes env bytes))) (\<lambda>keymap.
       proc_bind (with_pin_prompt env t (\<lambda>a profile pin. set_keymap a profile layout keymap pin)) (\<lambda>_.
       cf_println env (lit (''Keymap written for layout '' @ show_nat (unat layout) @ ''.'')))))
   | KeyboardClearKeymap \<Rightarrow>
       proc_bind (with_pin_prompt env t clear_keymap) (\<lambda>_. cf_println env (lit ''Keymap cleared.''))
   | KeyboardReturn state \<Rightarrow>
       proc_bind (with_pin_prompt env t (\<lambda>a profile pin. set_keyboard_return a profile (to_bool state) pin)) (\<lambda>_.
       cf_println env (lit ''Keyboard append-return is now '' @ on_off (to_bool state) @ lit ''.'')))"

text \<open>An identifier is an \<^verbatim>\<open>i32\<close>.\<close>

definition show_int :: "int \<Rightarrow> string" where
  "show_int i = (if i < 0 then CHR ''-'' # show_nat (nat (- i)) else show_nat (nat i))"

definition show_i32 :: "u32 \<Rightarrow> string" where
  "show_i32 w = show_int (sint w)"

definition sm2_lines :: "('w, 'e) admin_env \<Rightarrow> sm2_readout \<Rightarrow> byte list list" where
  "sm2_lines a readout = (case readout of
     Sm2Typed c \<Rightarrow> [lit (''SM2 curve:      '' @ show_i32 (sm2_curve_id c)), lit (''SM2 algorithm:  '' @ show_i32 (sm2_algorithm_id c))]
   | Sm2Legacy c \<Rightarrow> [lit ''SM2 enabled:    '' @ yes_no (legacy_sm2_enabled a c),
       lit ''SM2 identifiers (legacy layout, raw): '' @ hex_text (drop 1 (legacy_raw c))])"

definition config_sm2 where
  "config_sm2 env device reader command = on_target env device reader (\<lambda>t. case command of
     Some (Sm2Set curve_id algorithm_id) \<Rightarrow>
       proc_bind (with_pin_prompt env t (\<lambda>a profile pin.
         configure_sm2 a profile \<lparr>sp_curve_id = curve_id, sp_algorithm_id = algorithm_id\<rparr> pin)) (\<lambda>_.
       cf_println env (lit ''SM2 configuration updated.''))
   | None \<Rightarrow>
       proc_bind (with_pin_prompt env t read_sm2) (\<lambda>readout.
       cf_print_lines env (sm2_lines (pcl_admin (cf_piv env)) readout)))"

section \<open>Dispatch\<close>

definition config_run :: "'w config_cli \<Rightarrow> u32 option \<Rightarrow> byte list option \<Rightarrow> config_command \<Rightarrow> ('w, message, unit) proc" where
  "config_run env device reader command = (case command of
     ConfigNfc state \<Rightarrow> config_nfc env device reader (to_bool state)
   | ConfigReset force \<Rightarrow> config_reset env device reader force
   | ConfigInfo admin_text \<Rightarrow> config_info env device reader admin_text
   | ConfigLed state \<Rightarrow> config_patch env device reader ''LED'' (cp_led_on_update (\<lambda>_. Some (to_bool state)))
   | ConfigNdefReadOnly state \<Rightarrow>
       config_patch env device reader ''NDEF read-only'' (cp_ndef_read_only_update (\<lambda>_. Some (to_bool state)))
   | ConfigWebusbLanding state \<Rightarrow>
       config_patch env device reader ''WebUSB landing page'' (cp_webusb_landing_update (\<lambda>_. Some (to_bool state)))
   | ConfigPass command \<Rightarrow> config_pass env device reader command
   | ConfigNdef command \<Rightarrow> config_ndef env device reader command
   | ConfigKeyboard command \<Rightarrow> config_keyboard env device reader command
   | ConfigSm2 command \<Rightarrow> config_sm2 env device reader command
   | ConfigAdminPin command \<Rightarrow> config_admin_pin env device reader command)"

section \<open>HMAC keys\<close>

text \<open>A PASS HMAC key is accepted exactly when it is the hexadecimal text of twenty bytes, in either case of
  letters, and is those bytes.\<close>

lemma pass_hmac_key_iff:
  "pass_hmac_key t = Ok k \<longleftrightarrow> length k = 20 \<and> map ascii_lower t = hex_text k"
proof
  assume ok: "pass_hmac_key t = Ok k"
  then have digits: "list_all (\<lambda>b. hex_val b \<noteq> None) t" "length t = 40" and k: "hex_decode t = Some k"
    by (auto simp: pass_hmac_key_def ok_or_Ok_iff simp del: not_None_eq split: if_splits)
  then obtain bs where "hex_decode t = Some bs" "map ascii_lower t = hex_text bs" using hex_decode_digits by force
  with k digits(2) show "length k = 20 \<and> map ascii_lower t = hex_text k"
    using hex_text_even_digits [of t k] by simp
next
  assume k: "length k = 20 \<and> map ascii_lower t = hex_text k"
  then have digits: "list_all (\<lambda>b. hex_val b \<noteq> None) t" "length t = 40" using hex_text_even_digits [of t k] by auto
  then obtain bs where bs: "hex_decode t = Some bs" "map ascii_lower t = hex_text bs" using hex_decode_digits [of t] by auto
  with k have "bs = k" by (simp add: hex_text_eq)
  with bs digits show "pass_hmac_key t = Ok k" by (simp add: pass_hmac_key_def)
qed

end
