(* ===== verification/ConfigSafety.thy ===== *)
theory ConfigSafety
  imports Config PivKeySafety
begin

text \<open>
  What the configuration commands may do to the device: each is confined to the Admin requests that its
  arguments name, and a factory reset waits for the typed confirmation.
\<close>

section \<open>What a command may do\<close>

text \<open>
  The specification: the Admin requests a command may make, with the values it was given.  A command is
  confined to them when it leaves alone whatever they, the terminal and the selection of a reader leave
  alone.
\<close>

fun permitted :: "config_command \<Rightarrow> admin_request \<Rightarrow> bool" where
  "permitted (ConfigNfc s) r \<longleftrightarrow> r = AReqSetNfc (s = NfcOn)"
| "permitted (ConfigReset _) r \<longleftrightarrow> r = AReqFactoryReset"
| "permitted (ConfigInfo _) r \<longleftrightarrow> r \<in> {AReqConfiguration, AReqFlashUsage, AReqCoreCommit, AReqAppletUsage}"
| "permitted (ConfigLed s) r \<longleftrightarrow>
     r = AReqConfigure \<lparr>cp_led_on = Some (s = NfcOn), cp_ndef_read_only = None, cp_webusb_landing = None\<rparr>"
| "permitted (ConfigNdefReadOnly s) r \<longleftrightarrow>
     r = AReqConfigure \<lparr>cp_led_on = None, cp_ndef_read_only = Some (s = NfcOn), cp_webusb_landing = None\<rparr>"
| "permitted (ConfigWebusbLanding s) r \<longleftrightarrow>
     r = AReqConfigure \<lparr>cp_led_on = None, cp_ndef_read_only = None, cp_webusb_landing = Some (s = NfcOn)\<rparr>"
| "permitted (ConfigPass PassInfo) r \<longleftrightarrow> r = AReqPassSlots"
| "permitted (ConfigPass (PassSet slot kind key append_enter _)) r \<longleftrightarrow>
     (\<exists>c. r = AReqSetPassSlot (if slot = PassArgShort then PassShort else PassLong) c \<and> (case c of
        PassConfigOff \<Rightarrow> kind = KindOff
      | PassConfigStatic _ b \<Rightarrow> kind = KindStatic \<and> b = append_enter
      | PassConfigHmacSha1 k \<Rightarrow> kind = KindHmac \<and> length k = 20 \<and>
          (case key of Some t \<Rightarrow> map ascii_lower t = hex_text k | None \<Rightarrow> True)))"
| "permitted (ConfigNdef _) r \<longleftrightarrow> False"
| "permitted (ConfigKeyboard KeyboardLayout) r \<longleftrightarrow> r = AReqKeyboardLayout"
| "permitted (ConfigKeyboard (KeyboardReadKeymap _)) r \<longleftrightarrow> r = AReqKeyboardKeymap"
| "permitted (ConfigKeyboard (KeyboardWriteKeymap layout _)) r \<longleftrightarrow> (\<exists>k. r = AReqSetKeyboardKeymap layout k)"
| "permitted (ConfigKeyboard KeyboardClearKeymap) r \<longleftrightarrow> r = AReqClearKeyboardKeymap"
| "permitted (ConfigKeyboard (KeyboardReturn s)) r \<longleftrightarrow> r = AReqSetKeyboardReturn (s = NfcOn)"
| "permitted (ConfigSm2 None) r \<longleftrightarrow> r = AReqSm2Configuration"
| "permitted (ConfigSm2 (Some (Sm2Set c a))) r \<longleftrightarrow> r = AReqSm2Configuration
     \<or> r = AReqConfigureSm2 \<lparr>sp_curve_id = c, sp_algorithm_id = a\<rparr> \<or> (\<exists>l. r = AReqWriteLegacySm2 l)"
| "permitted (ConfigAdminPin AdminPinChange) r \<longleftrightarrow> (\<exists>p. r = AReqChangePin p)"
| "permitted (ConfigAdminPin AdminPinStatusCommand) r \<longleftrightarrow> r = AReqPinStatus"

text \<open>The calls that are no request\<close>

definition config_frame :: "'w config_cli \<Rightarrow> ('w \<Rightarrow> 'b) \<Rightarrow> bool" where
  "config_frame env f \<longleftrightarrow> terminal_frame (cf_terminal env) f
     \<and> (\<forall>c. preserves f (probe (probe_device (cf_terminal env)) (conn_exchange (cf_terminal env) c)))
     \<and> (\<forall>t. preserves f (stdout_write (cf_terminal env) t)) \<and> preserves f (stdout_flush (cf_terminal env))
     \<and> preserves f (stdin_line (cf_terminal env)) \<and> (\<forall>t w. f (piv_print (cf_piv env) t w) = f w)
     \<and> (\<forall>p. preserves f (read_input (cf_piv env) p)) \<and> (\<forall>p b. preserves f (write_output (cf_piv env) p b))"

definition request_frame :: "'w config_cli \<Rightarrow> (admin_request \<Rightarrow> bool) \<Rightarrow> ('w \<Rightarrow> 'b) \<Rightarrow> bool" where
  "request_frame env allowed f \<longleftrightarrow> (\<forall>t r pin. allowed r \<longrightarrow>
     preserves f (admin_run (cf_admin env t) (tg_profile t) r pin)
     \<and> (\<forall>oper. admin_operation_existing (cf_admin env t) (tg_profile t) r = Ok oper
         \<longrightarrow> preserves f (execute oper (cf_exchange env t))))"

definition ndef_frame :: "'w config_cli \<Rightarrow> config_command \<Rightarrow> ('w \<Rightarrow> 'b) \<Rightarrow> bool" where
  "ndef_frame env command f \<longleftrightarrow> (\<forall>t.
     (command = ConfigNdef NdefRead \<longrightarrow> preserves f (ndef_read_capability (cf_ndef env) (cf_exchange env t))
        \<and> preserves f (ndef_read_message (cf_ndef env) (cf_exchange env t)))
     \<and> (\<forall>p m. command = ConfigNdef (NdefWrite p) \<longrightarrow> preserves f (ndef_write_message (cf_ndef env) m (cf_exchange env t))))"

lemma config_frameD:
  assumes "config_frame env f"
  shows "terminal_frame (cf_terminal env) f"
    "preserves f (probe (probe_device (cf_terminal env)) (conn_exchange (cf_terminal env) c))"
    "preserves f (stdout_write (cf_terminal env) t)" "preserves f (stdout_flush (cf_terminal env))"
    "preserves f (stdin_line (cf_terminal env))" "f (piv_print (cf_piv env) t w) = f w"
    "preserves f (read_input (cf_piv env) p)" "preserves f (write_output (cf_piv env) p b)"
  using assms by (simp_all add: config_frame_def)

lemma preserves_config_terminal:
  assumes "config_frame env f"
  shows "preserves f (prompt_password (cf_terminal env) p)" "preserves f (prompt_admin_pin (cf_terminal env))"
    "preserves f (cf_println env t)" "preserves f (piv_eprintln (cf_piv env) t)" "preserves f (cf_print env t)"
    "preserves f (cf_print_lines env ls)"
proof -
  note frame = config_frameD [OF assms]
  show prompt: "preserves f (prompt_password (cf_terminal env) p)" for p
    unfolding prompt_password_def by (intro preserves_intros terminal_frameD [OF frame(1)])
  then show "preserves f (prompt_admin_pin (cf_terminal env))"
    unfolding prompt_admin_pin_def by (intro preserves_intros)
  show line: "preserves f (cf_println env t)" for t
    unfolding cf_println_def piv_println_def by (intro preserves_intros frame)
  show "preserves f (piv_eprintln (cf_piv env) t)"
    using terminal_frameD(6) [OF frame(1)] unfolding piv_eprintln_def cf_terminal_def by (intro preserves_intros)
  show "preserves f (cf_print env t)"
    unfolding cf_print_def by (intro preserves_intros frame)
  show "preserves f (cf_print_lines env ls)"
    by (induction ls) (auto intro!: preserves_intros line)
qed

lemma preserves_on_target:
  assumes "config_frame env f" and "\<And>t. preserves f (body t)"
  shows "preserves f (on_target env device reader body)"
proof -
  note frame = config_frameD [OF assms(1)]
  have "preserves f (piv_connect (cf_piv env) device reader)"
    using terminal_frameD(1) [OF frame(1)] preserves_single_target [OF frame(1) frame(2)]
    unfolding piv_connect_def pcsc_result_def cf_terminal_def by (intro preserves_intros)
  then show ?thesis unfolding on_target_def by (intro preserves_intros assms(2))
qed

lemma preserves_pin_retry:
  assumes "config_frame env f" and "\<And>pin. preserves f (operation pin)"
  shows "preserves f (with_admin_pin_retry (cf_terminal env) pin operation)"
  unfolding with_admin_pin_retry_def
  by (intro preserves_intros preserves_config_terminal [OF assms(1)] assms(2))

lemma request_frameD:
  assumes "request_frame env allowed f" and "allowed r"
  shows "preserves f (admin_run (cf_admin env t) (tg_profile t) r pin)"
  using assms by (simp add: request_frame_def)

lemma preserves_wrappers:
  assumes "request_frame env allowed f"
  shows "allowed (AReqSetNfc on) \<Longrightarrow> preserves f (set_nfc (cf_admin env t) (tg_profile t) on pin)"
    "allowed AReqFactoryReset \<Longrightarrow> preserves f (factory_reset (cf_admin env t) (tg_profile t))"
    "allowed AReqConfiguration \<Longrightarrow> preserves f (read_configuration (cf_admin env t) (tg_profile t) pin)"
    "allowed AReqFlashUsage \<Longrightarrow> preserves f (flash_usage_of (cf_admin env t) (tg_profile t) pin)"
    "allowed AReqCoreCommit \<Longrightarrow> preserves f (core_commit (cf_admin env t) (tg_profile t))"
    "allowed AReqAppletUsage \<Longrightarrow> preserves f (applet_usage_of (cf_admin env t) (tg_profile t))"
    "allowed (AReqConfigure patch) \<Longrightarrow> preserves f (configure (cf_admin env t) (tg_profile t) patch pin)"
    "allowed AReqPassSlots \<Longrightarrow> preserves f (pass_slots_of (cf_admin env t) (tg_profile t) pin)"
    "allowed (AReqSetPassSlot s c) \<Longrightarrow> preserves f (set_pass_slot (cf_admin env t) (tg_profile t) s c pin)"
    "allowed AReqKeyboardLayout \<Longrightarrow> preserves f (keyboard_layout (cf_admin env t) (tg_profile t) pin)"
    "allowed AReqKeyboardKeymap \<Longrightarrow> preserves f (read_keymap (cf_admin env t) (tg_profile t) pin)"
    "allowed (AReqSetKeyboardKeymap l k) \<Longrightarrow> preserves f (set_keymap (cf_admin env t) (tg_profile t) l k pin)"
    "allowed AReqClearKeyboardKeymap \<Longrightarrow> preserves f (clear_keymap (cf_admin env t) (tg_profile t) pin)"
    "allowed (AReqSetKeyboardReturn on) \<Longrightarrow> preserves f (set_keyboard_return (cf_admin env t) (tg_profile t) on pin)"
    "allowed AReqSm2Configuration \<Longrightarrow> preserves f (read_sm2 (cf_admin env t) (tg_profile t) pin)"
    "allowed (AReqChangePin p) \<Longrightarrow> preserves f (admin_change_pin (cf_admin env t) (tg_profile t) q p)"
    "allowed AReqPinStatus \<Longrightarrow> preserves f (admin_pin_status_of (cf_admin env t) (tg_profile t))"
  unfolding set_nfc_def factory_reset_def read_configuration_def flash_usage_of_def core_commit_def applet_usage_of_def
    configure_def pass_slots_of_def set_pass_slot_def keyboard_layout_def read_keymap_def set_keymap_def clear_keymap_def
    set_keyboard_return_def read_sm2_def admin_change_pin_def admin_pin_status_of_def admin_unit_def
  by (auto intro!: preserves_intros request_frameD [OF assms] split: admin_value.split)

lemma preserves_configure_sm2:
  assumes "request_frame env allowed f" and "allowed AReqSm2Configuration" "allowed (AReqConfigureSm2 patch)"
    and "\<And>l. allowed (AReqWriteLegacySm2 l)"
  shows "preserves f (configure_sm2 (cf_admin env t) (tg_profile t) patch pin)"
proof -
  have legacy: "preserves f (proc_bind (lift_res (map_err Protocol (admin_operation_existing (cf_admin env t) (tg_profile t)
      (AReqWriteLegacySm2 c)))) (\<lambda>oper. proc_bind (execute oper (admin_exchange (cf_admin env t))) (\<lambda>_. ret ())))" for c
  proof (cases "admin_operation_existing (cf_admin env t) (tg_profile t) (AReqWriteLegacySm2 c)")
    case (Inl e)
    then show ?thesis by (simp add: preserves_def wp_def lift_res_def proc_bind_def)
  next
    case (Inr oper)
    with assms(1,4) have "preserves f (execute oper (cf_exchange env t))" by (auto simp: request_frame_def)
    then have "preserves f (proc_bind (execute oper (cf_exchange env t)) (\<lambda>_. ret ()))"
      by (rule preserves_bind) (rule preserves_ret)
    with Inr show ?thesis by (simp add: preserves_def wp_def lift_res_def proc_bind_def cf_admin_def)
  qed
  show ?thesis
    unfolding configure_sm2_def admin_unit_def
    by (auto intro!: preserves_intros legacy request_frameD [OF assms(1)] preserves_wrappers [OF assms(1)] assms(2,3)
        split: sm2_readout.split simp: Let_def)
qed

text \<open>One command at a time\<close>

lemma preserves_pin_prompt:
  assumes "config_frame env f" and "\<And>pin. preserves f (operation (cf_admin env t) (tg_profile t) pin)"
  shows "preserves f (with_pin_prompt env t operation)"
  unfolding with_pin_prompt_def by (rule preserves_pin_retry [OF assms])

lemma preserves_described: "preserves f m \<Longrightarrow> preserves f (cf_described env m)"
  by (simp add: cf_described_def preserves_map_err)

lemma sm2_cases: obtains "c = None" | x y where "c = Some (Sm2Set x y)"
  by (cases c) (auto intro: sm2_command.exhaust)

lemma preserves_values:
  shows "(\<And>x. r = Ok x \<Longrightarrow> preserves f (k x)) \<Longrightarrow> preserves f (proc_bind (lift_res r) k)"
    "(\<And>x. v = Some x \<Longrightarrow> preserves f (k x)) \<Longrightarrow> preserves f (proc_bind (unwrap v) k)"
  by (auto simp: preserves_def wp_bind wp_lift_res wp_unwrap split: sum.split)

text \<open>The secret is asked for, or was given, and is written as the slot's kind says.\<close>

lemma preserves_pass_set:
  assumes frame: "config_frame env f" and request: "request_frame env allowed f"
    and secrets: "\<And>s c. kind = KindHmac \<Longrightarrow> supplied = Some s \<or> supplied = None \<and> length s = 20
        \<Longrightarrow> allowed (AReqSetPassSlot (pass_slot_of which) (PassConfigHmacSha1 s))"
      "\<And>s. kind = KindStatic \<Longrightarrow> allowed (AReqSetPassSlot (pass_slot_of which) (PassConfigStatic s append_enter))"
      "kind = KindOff \<Longrightarrow> allowed (AReqSetPassSlot (pass_slot_of which) PassConfigOff)"
  shows "preserves f (config_pass_set env t which kind append_enter admin_text supplied)"
proof -
  have ask: "preserves f (prompt_password (cf_terminal env) p)" for p by (rule preserves_config_terminal [OF frame])
  have secret: "preserves f (pass_secret env kind supplied)"
    unfolding pass_secret_def by (auto intro!: preserves_intros ask split: pass_kind_arg.split)
  have step: "preserves f (proc_bind (lift_res (optional_admin_pin env admin_text)) (\<lambda>pin.
      proc_bind (with_admin_pin_retry (cf_terminal env) pin (\<lambda>pin. proc_bind (unwrap (pass_config kind append_enter s)) (\<lambda>config.
        set_pass_slot (cf_admin env t) (tg_profile t) (pass_slot_of which) config pin))) (\<lambda>_. cf_println env line)))"
    if "\<And>c. pass_config kind append_enter s = Some c \<Longrightarrow> allowed (AReqSetPassSlot (pass_slot_of which) c)" for s line
    using that by (auto intro!: preserves_intros preserves_values(2) preserves_pin_retry [OF frame]
      preserves_wrappers [OF request] preserves_config_terminal [OF frame])
  show ?thesis
    unfolding config_pass_set_def preserves_def
  proof (intro allI frame_bind_run [OF secret] preserves_wp [OF step] conjI)
    fix w s w' c
    assume "pass_secret env kind supplied w = Some (Ok s, w')" "pass_config kind append_enter s = Some c"
    then show "allowed (AReqSetPassSlot (pass_slot_of which) c)"
      using secrets
      by (cases kind) (auto simp: pass_secret_def pass_config_def proc_bind_def ret_def lift_res_def pass_hmac_key_iff
        split: option.splits sum.splits)
  qed auto
qed

lemma preserves_pass_config:
  assumes frame: "config_frame env f" and request: "request_frame env (permitted (ConfigPass command)) f"
  shows "preserves f (config_pass env device reader command)"
proof (cases command)
  case PassInfo
  have "preserves f (with_pin_prompt env t pass_slots_of)" for t
    by (intro preserves_pin_prompt [OF frame] preserves_wrappers [OF request]) (simp add: PassInfo)
  then show ?thesis
    by (auto simp: config_pass_def PassInfo
      intro!: preserves_intros preserves_on_target [OF frame] preserves_config_terminal [OF frame])
next
  case (PassSet which kind key append_enter admin_text)
  have "preserves f (config_pass_set env t which kind append_enter admin_text supplied)"
    if "supplied_hmac_key command = Ok supplied" for t supplied
    using that PassSet
    by (intro preserves_pass_set [OF frame request])
      (auto simp: supplied_hmac_key_def pass_slot_of_def pass_hmac_key_iff res_bind_Ok_iff split: pass_slot_arg.split option.splits)
  then show ?thesis
    by (auto simp: config_pass_def PassSet intro!: preserves_values(1) preserves_on_target [OF frame])
qed

text \<open>C36. A configuration command does to the device only what it was asked for: it makes no Admin request but those
  of its kind, with the values of its arguments, so that whatever those requests (and selecting a reader
  and using the terminal) leave alone, the command leaves alone, however it ends.\<close>

theorem config_run_confined:
  assumes frame: "config_frame env f" and request: "request_frame env (permitted command) f"
    and ndef: "ndef_frame env command f"
  shows "preserves f (config_run env device reader command)"
proof -
  note w = preserves_wrappers [OF request]
  note intros = preserves_intros preserves_described preserves_pin_prompt [OF frame] preserves_on_target [OF frame]
    preserves_config_terminal [OF frame] config_frameD(7,8) [OF frame] w
  show ?thesis
  proof (cases command)
    case (ConfigNfc s)
    then show ?thesis by (auto simp: config_run_def config_nfc_def to_bool_def intro!: intros)
  next
    case (ConfigReset force)
    then show ?thesis by (auto simp: config_run_def config_reset_def reset_confirmation_def io_result_def
      intro!: intros config_frameD [OF frame])
  next
    case (ConfigInfo p)
    then show ?thesis
      by (auto simp: config_run_def config_info_def config_read_def config_extended_def intro!: intros split: support.split)
  next
    case (ConfigLed s)
    then show ?thesis by (auto simp: config_run_def config_patch_def to_bool_def empty_patch_def intro!: intros)
  next
    case (ConfigNdefReadOnly s)
    then show ?thesis by (auto simp: config_run_def config_patch_def to_bool_def empty_patch_def intro!: intros)
  next
    case (ConfigWebusbLanding s)
    then show ?thesis by (auto simp: config_run_def config_patch_def to_bool_def empty_patch_def intro!: intros)
  next
    case (ConfigPass c)
    then show ?thesis using preserves_pass_config [OF frame] request by (simp add: config_run_def)
  next
    case (ConfigNdef c)
    then show ?thesis using ndef
      by (auto simp: config_run_def config_ndef_def ndef_frame_def intro!: intros split: ndef_command.split)
  next
    case (ConfigKeyboard c)
    then show ?thesis
      by (cases c) (auto simp: config_run_def config_keyboard_def to_bool_def intro!: intros)
  next
    case (ConfigSm2 c)
    then have "preserves f (configure_sm2 (cf_admin env t) (tg_profile t) patch pin)"
      if "permitted command (AReqConfigureSm2 patch)" for t patch pin
      using that by (cases c rule: sm2_cases) (auto intro!: preserves_configure_sm2 [OF request])
    then show ?thesis using ConfigSm2
      by (cases c rule: sm2_cases) (auto simp: config_run_def config_sm2_def intro!: intros)
  next
    case (ConfigAdminPin c)
    then show ?thesis
      by (cases c) (auto simp: config_run_def config_admin_pin_def config_admin_pin_change_def config_admin_pin_status_def
        intro!: intros)
  qed
qed

text \<open>A device whose Admin applet knows the factory reset only, over a transport that transmits and loses the answer\<close>

definition reset_config :: "lost_world config_cli" where
  "reset_config = \<lparr>cf_piv = lost_cli\<lparr>pcl_admin := (pcl_admin lost_cli)\<lparr>admin_operation :=
       \<lambda>_ r _. if r = AReqFactoryReset then Ok (single_operation [1] (\<lambda>_. Ok AValUnit)) else refused\<rparr>\<rparr>,
     cf_ndef = \<lparr>lib_ndef_read = refused, lib_ndef_capability = refused, lib_ndef_write = \<lambda>_. refused\<rparr>,
     keymap_from_bytes = \<lambda>b. Ok (Keymap b), capability_admin_extended = \<lambda>_. Unsupported\<rparr>"

lemma reset_sel:
  "cf_terminal reset_config = pcl_cli lost_cli" "pcl_cli (cf_piv reset_config) = pcl_cli lost_cli"
  "piv_print (cf_piv reset_config) t w = w" "stdout_write (pcl_cli lost_cli) t = ret ()"
  "stdout_flush (pcl_cli lost_cli) = ret ()" "stdin_line (pcl_cli lost_cli) = ret []"
  "pcl_read_stdin (cf_piv reset_config) = ret []" "pcl_read_file (cf_piv reset_config) p = ret []"
  "pcl_write_file (cf_piv reset_config) p b = ret ()" "pcl_fs (cf_piv reset_config) = beside_fs (rv_fs sample_recovery)"
  by (simp_all add: reset_config_def cf_terminal_def lost_sel) (simp_all add: lost_cli_def sample_cli_def)

lemma reset_frame: "config_frame reset_config fst"
proof -
  have probed: "preserves fst (probe (probe_device (pcl_cli lost_cli)) (conn_exchange (pcl_cli lost_cli) c))" for c
    by (simp add: lost_terminal probe_def execute_def drive_loop.simps preserves_def wp_def proc_bind_def lift_res_def)
  have files: "preserves fst (write_stdout (pcl_fs (cf_piv reset_config)) b)" for b
    unfolding reset_sel write_stdout_def write_and_flush_def by (auto simp: beside_fs_def intro!: preserves_intros beside_fst)
  show ?thesis
    unfolding config_frame_def terminal_frame_def reset_sel lost_terminal read_input_def write_output_def io_result_def
    by (intro conjI allI; (rule probed [unfolded lost_terminal] | auto intro!: preserves_intros files [unfolded reset_sel]))
qed

lemma reset_requests:
  assumes "\<not> allowed AReqFactoryReset"
  shows "request_frame reset_config allowed fst"
proof -
  have "preserves fst (admin_run (cf_admin reset_config t) p r pin)" if "r \<noteq> AReqFactoryReset" for t p r pin
    using that by (auto simp: admin_run_def cf_admin_def reset_config_def refused_def intro!: preserves_values preserves_ret)
  moreover have "admin_operation_existing (cf_admin reset_config t) p r \<noteq> Ok oper" for t p r oper
    by (simp add: cf_admin_def reset_config_def lost_cli_def refused_def)
  ultimately show ?thesis using assms unfolding request_frame_def by metis
qed

theorem config_run_confined_witness:
  "preserves fst (config_run reset_config None None (ConfigNfc NfcOn))
   \<and> permitted (ConfigReset True) AReqFactoryReset"
proof -
  have "preserves fst (config_run reset_config None None (ConfigNfc NfcOn))"
    by (rule config_run_confined [OF reset_frame])
      (auto intro: reset_requests simp: ndef_frame_def)
  then show ?thesis by simp
qed

section \<open>The confirmation of a factory reset\<close>

text \<open>The line read in a world that \<open>f\<close> does not tell from \<open>w\<close> is the confirmation.\<close>

definition answered_yes :: "'w config_cli \<Rightarrow> ('w \<Rightarrow> 'b) \<Rightarrow> 'w \<Rightarrow> bool" where
  "answered_yes env f w \<longleftrightarrow> (\<exists>w1 answer w2. stdin_line (cf_terminal env) w1 = Some (Ok answer, w2)
     \<and> f w1 = f w \<and> f w2 = f w \<and> trim answer = lit ''yes'')"

lemma reset_confirmation_asks:
  assumes "config_frame env f"
  shows "wp (reset_confirmation env) (\<lambda>r w'. f w' = f w \<and> (is_ok r \<longrightarrow> answered_yes env f w)) w"
proof -
  note intros = preserves_config_terminal [OF assms] config_frameD(3-6) [OF assms]
  have flush: "preserves f (io_result (stdout_flush (cf_terminal env)))" "preserves f (io_result (stdin_line (cf_terminal env)))"
    unfolding io_result_def by (intro preserves_intros intros)+
  have read: "stdin_line (cf_terminal env) w1 = Some (Ok a, w2)"
    if "io_result (stdin_line (cf_terminal env)) w1 = Some (Ok a, w2)" for w1 a w2
    using that by (auto simp: io_result_def proc_map_err_def map_err_Ok_iff split: option.splits)
  show ?thesis
    unfolding reset_confirmation_def
    apply (rule frame_bind [OF intros(4)])
     apply (rule frame_bind [OF intros(4)])
      apply (rule frame_bind [OF intros(5)])
       apply (rule frame_bind [OF flush(1)])
        apply (rule frame_bind_run [OF flush(2)])
         apply (auto simp: wp_ret wp_throw answered_yes_def dest!: read)
    done
qed

text \<open>Without \<^verbatim>\<open>--force\<close> a factory reset fails and changes nothing on the device unless the line read after
  the warning is exactly \<^verbatim>\<open>yes\<close>, spaces aside.\<close>

lemma factory_reset_stops:
  assumes "config_frame env f"
  shows "wp (config_reset env device reader False) (\<lambda>r w'. f w' = f w \<and> \<not> is_ok r \<or> answered_yes env f w) w"
proof (cases "answered_yes env f w")
  case False
  note frame = preserves_config_terminal [OF assms]
  have select: "preserves f (piv_connect (cf_piv env) device reader)"
    using preserves_on_target [OF assms, of ret] by (simp add: on_target_def preserves_ret)
  have stop: "wp (proc_bind (reset_confirmation env) k) (\<lambda>r w'. f w' = f w \<and> \<not> is_ok r) s" if "f s = f w" for s k
  proof -
    have "\<not> answered_yes env f s" using False that by (simp add: answered_yes_def)
    with that show ?thesis
      unfolding wp_bind by (intro wp_mono [OF reset_confirmation_asks [OF assms]]) (auto split: sum.split)
  qed
  show ?thesis
    unfolding config_reset_def on_target_def
    by (rule frame_bind [OF select]) (auto intro: wp_mono [OF stop])
qed (simp add: wp_def split: option.split)

end
