(* ===== verification/Information.thy ===== *)
theory Information
  imports FidoCli OathCli OpenPgpCli PivCertificates Config
begin

unbundle bit_operations_syntax

text \<open>
  The commands that report: \<^verbatim>\<open>crates/ckman/src/commands/info.rs\<close> and \<^verbatim>\<open>list.rs\<close>, \<^verbatim>\<open>crates/ckman/src/diagnose.rs\<close>,
  and the \<^verbatim>\<open>info\<close> command of every applet.  They read, and print what they read line by line.  What
  libcanokey knows of a device and of a parsed object is a function of the environment.
\<close>

section \<open>Environment\<close>

datatype compatibility_warning =
    UnrecognizedFirmware | LatestKnownFallback | DeclaredBaseVersion
  | OptionalCommandUnsupported "byte list" | OptionalCommandNeedsAuthentication "byte list"

record profile_info =
  pi_model :: "byte list option"
  pi_firmware_text :: "byte list"
  pi_firmware_recognized :: bool
  pi_piv_version :: "(nat \<times> nat \<times> nat) option"
  pi_warnings :: "compatibility_warning list"
  pi_attestation :: support
  pi_metadata :: support

record x509_summary =
  xs_subject :: "byte list"
  xs_issuer :: "byte list"
  xs_serial :: "byte list"
  xs_fingerprint :: "byte list"
  xs_not_before :: int
  xs_not_after :: int

record piv_debug =
  debug_origin :: "key_origin known \<Rightarrow> string"
  debug_pin_policy :: "pin_policy \<Rightarrow> string"
  debug_touch_policy :: "touch_policy \<Rightarrow> string"
  debug_known_pin_policy :: "pin_policy known \<Rightarrow> string"
  debug_known_touch_policy :: "touch_policy known \<Rightarrow> string"

record password_counters =
  pc_retries :: "nat list"
  pc_signature_policy :: nat

record pgp_accessors =
  aid_of :: "application_data \<Rightarrow> lib_error + byte list option"
  password_counters_of :: "application_data \<Rightarrow> lib_error + password_counters option"
  name_of :: "cardholder_data \<Rightarrow> lib_error + byte list option"
  language_of :: "cardholder_data \<Rightarrow> lib_error + byte list option"
  sex_of :: "cardholder_data \<Rightarrow> lib_error + byte list option"

record 'w information =
  in_piv :: "'w certificate_commands"
  in_oath :: "'w oath_cli"
  in_pgp :: "'w pgp_cli"
  in_fido :: "'w fido_cli"
  profile_info_of :: "device_profile \<Rightarrow> profile_info"
  summary_of :: "byte list \<Rightarrow> x509_summary option"
  calendar :: "int \<Rightarrow> (byte list \<times> nat \<times> nat \<times> nat) option"
  in_debug :: piv_debug
  in_accessors :: pgp_accessors
  cose_debug :: "int \<Rightarrow> byte list"
  build_version :: "byte list"
  platform_text :: "byte list"

definition in_cli :: "'w information \<Rightarrow> 'w piv_cli" where
  "in_cli env = ce_cli (in_piv env)"

definition in_terminal :: "'w information \<Rightarrow> 'w cli_env" where
  "in_terminal env = pcl_cli (in_cli env)"

definition say :: "'w information \<Rightarrow> byte list \<Rightarrow> ('w, message, unit) proc" where
  "say env t = piv_println (in_cli env) t"

fun say_all :: "'w information \<Rightarrow> byte list list \<Rightarrow> ('w, message, unit) proc" where
  "say_all env [] = ret ()"
| "say_all env (l # ls) = proc_bind (say env l) (\<lambda>_. say_all env ls)"

definition line_if :: "'a option \<Rightarrow> ('a \<Rightarrow> byte list) \<Rightarrow> byte list list" where
  "line_if v f = (case v of Some v \<Rightarrow> [f v] | None \<Rightarrow> [])"

section \<open>The device\<close>

definition describe_warning :: "compatibility_warning \<Rightarrow> byte list option" where
  "describe_warning warning =
    (let optional_field = (\<lambda>name. if name = lit ''algorithm_config'' then lit ''algorithm configuration''
       else if name = lit ''model'' then lit ''device model'' else if name = lit ''serial'' then lit ''serial number'' else name) in
     case warning of
       UnrecognizedFirmware \<Rightarrow> Some (lit ''Firmware version could not be recognized; mutating operations are disabled.'')
     | LatestKnownFallback \<Rightarrow> Some (lit (''Firmware version is outside the known compatibility range; conservative ''
         @ ''compatibility settings are being used.''))
     | DeclaredBaseVersion \<Rightarrow> None
     | OptionalCommandUnsupported name \<Rightarrow> Some (lit ''Could not read '' @ optional_field name
         @ lit '': this optional query is not supported by the device.'')
     | OptionalCommandNeedsAuthentication name \<Rightarrow> Some (lit ''Could not read '' @ optional_field name
         @ lit '': authentication is required. No credentials were tried during device discovery.''))"

definition read_chip_id :: "'w information \<Rightarrow> target \<Rightarrow> ('w, message, byte list option) proc" where
  "read_chip_id env t = proc_try (chip_id ((pcl_admin (in_cli env))\<lparr>admin_exchange :=
       conn_exchange (in_terminal env) (tg_connection t)\<rparr>) (tg_profile t)) (\<lambda>r. case r of
     Ok bytes \<Rightarrow> ret (if bytes \<noteq> [] then Some bytes else None)
   | Err (Protocol e) \<Rightarrow>
       if err_phase e = Some PhaseCommand \<and> (err_kind e = NotFound \<or> err_kind e = UnsupportedFeature
         \<or> err_status_word e = Some 0x6a86)
       then ret None else throw (describe_drive_error (in_terminal env) (Protocol e))
   | Err e \<Rightarrow> throw (describe_drive_error (in_terminal env) e))"

definition model_text :: "profile_info \<Rightarrow> byte list" where
  "model_text info = (case pi_model info of Some m \<Rightarrow> m | None \<Rightarrow> lit ''CanoKey'')"

definition version_text :: "nat \<times> nat \<times> nat \<Rightarrow> byte list" where
  "version_text = (\<lambda>(a, b, c). lit (show_nat a @ ''.'' @ show_nat b @ ''.'' @ show_nat c))"

definition device_info :: "'w information \<Rightarrow> u32 option \<Rightarrow> byte list option \<Rightarrow> ('w, message, unit) proc" where
  "device_info env device reader =
     proc_bind (piv_connect (in_cli env) device reader) (\<lambda>t.
     let info = profile_info_of env (tg_profile t) in
     proc_bind (say_all env [lit ''Device type:        '' @ model_text info,
       (case target_serial (in_terminal env) t of
          Some serial \<Rightarrow> lit (''Serial number:      '' @ show_nat (unat serial))
        | None \<Rightarrow> lit ''Serial number:      <unavailable>'')]) (\<lambda>_.
     proc_bind (read_chip_id env t) (\<lambda>chip.
     say_all env (
       [case chip of Some bytes \<Rightarrow> lit ''Chip ID:            '' @ hex_text bytes | None \<Rightarrow> lit ''Chip ID:            <unavailable>'',
        lit ''Firmware version:   '' @ utf8_lossy (pi_firmware_text info)]
       @ (if pi_firmware_recognized info then []
          else [lit ''                    (unrecognized firmware; mutating operations are disabled)''])
       @ line_if (pi_piv_version info) (\<lambda>v. lit ''PIV version:        '' @ version_text v)
       @ map (\<lambda>m. lit ''Warning:            '' @ m) (List.map_filter describe_warning (pi_warnings info))))))"

definition device_line :: "'w information \<Rightarrow> target \<Rightarrow> byte list" where
  "device_line env t = (let info = profile_info_of env (tg_profile t) in
     model_text info @ lit '' (firmware '' @ utf8_lossy (pi_firmware_text info)
     @ (case target_serial (in_terminal env) t of
          Some serial \<Rightarrow> lit ('') Serial: '' @ show_nat (unat serial)) | None \<Rightarrow> lit '')''))"

definition list_lines :: "'w information \<Rightarrow> bool \<Rightarrow> u32 option \<Rightarrow> target list \<Rightarrow> byte list list" where
  "list_lines env serials_only device ts =
    (let chosen = filter (\<lambda>t. case device of Some serial \<Rightarrow> target_serial (in_terminal env) t = Some serial | None \<Rightarrow> True) ts in
     if serials_only
     then map (\<lambda>serial. lit (show_nat (unat serial))) (List.map_filter (target_serial (in_terminal env)) chosen)
     else map (device_line env) chosen)"

definition list_command :: "'w information \<Rightarrow> bool \<Rightarrow> u32 option \<Rightarrow> byte list option \<Rightarrow> ('w, message, unit) proc" where
  "list_command env serials_only device reader =
     proc_bind (pcsc_result (in_terminal env) (pc_establish (in_terminal env))) (\<lambda>_.
     proc_bind (targets_matching_reader (in_terminal env) reader) (\<lambda>ts.
     say_all env (list_lines env serials_only device ts)))"

subsection \<open>The diagnostic report\<close>

text \<open>\<open>show_pcsc_error\<close> is the \<^verbatim>\<open>Display\<close> of the transport's error, which names PC/SC.\<close>

definition show_pcsc_error :: "'w information \<Rightarrow> pcsc_error \<Rightarrow> byte list" where
  "show_pcsc_error env e = lit (''PC/SC error: '' @ show_pcsc (in_terminal env) e)"

definition diagnose_readers :: "'w information \<Rightarrow> byte list list \<Rightarrow> ('w, message, unit) proc" where
  "diagnose_readers env rs =
     proc_bind (say_all env (if rs = [] then [lit ''  (no readers)''] else map (\<lambda>r. lit ''  reader: '' @ reader_name r) rs)) (\<lambda>_.
     proc_bind (all_targets (in_terminal env)) (\<lambda>ts.
     say_all env (if ts = [] then [lit ''  (no CanoKey found)''] else map (\<lambda>t. lit ''  '' @ device_line env t) ts)))"

definition diagnose_pcsc :: "'w information \<Rightarrow> ('w, message, unit) proc" where
  "diagnose_pcsc env = proc_try (pc_establish (in_terminal env)) (\<lambda>r. case r of
     Err e \<Rightarrow> say env (lit ''  PC/SC unavailable: '' @ show_pcsc_error env e)
   | Ok _ \<Rightarrow> proc_try (readers (in_terminal env)) (\<lambda>r. case r of
       Err e \<Rightarrow> say env (lit ''  cannot list readers: '' @ show_pcsc_error env e)
     | Ok rs \<Rightarrow> diagnose_readers env rs))"

definition diagnose_interface :: "fido_interface \<Rightarrow> byte list" where
  "diagnose_interface interface = drop 1 (interface_line interface)"

definition diagnose_hid :: "'w information \<Rightarrow> ('w, message, unit) proc" where
  "diagnose_hid env = proc_try (hid_api (fc_hid (in_fido env))) (\<lambda>r. case r of
     Err e \<Rightarrow> say env (lit (''  HID unavailable: '' @ show_hid (fc_hid (in_fido env)) e))
   | Ok devices \<Rightarrow> (case list_fido_interfaces devices of
       [] \<Rightarrow> say env (lit ''  (no CanoKey FIDO interface found)'')
     | interfaces \<Rightarrow> say_all env (map diagnose_interface interfaces)))"

definition diagnose :: "'w information \<Rightarrow> ('w, message, unit) proc" where
  "diagnose env =
     proc_bind (say_all env [lit ''ckman '' @ build_version env, lit ''Platform: '' @ platform_text env, [0x0a] @ lit ''PC/SC:'']) (\<lambda>_.
     proc_bind (diagnose_pcsc env) (\<lambda>_.
     proc_bind (say env ([0x0a] @ lit ''USB HID (FIDO):'')) (\<lambda>_.
     diagnose_hid env)))"

section \<open>OATH\<close>

definition oath_remembered :: "'w oath_cli \<Rightarrow> target \<Rightarrow> ('w, message, unit) proc" where
  "oath_remembered env t = (case target_serial (ocl_cli env) t of
     None \<Rightarrow> ret ()
   | Some serial \<Rightarrow> proc_try (keyring_new env KEYRING_SERVICE (keyring_user serial)) (\<lambda>r. case r of
       Err _ \<Rightarrow> ret ()
     | Ok h \<Rightarrow> proc_try (keyring_get env h) (\<lambda>r. case r of
         Ok _ \<Rightarrow> println env (lit ''The password for this CanoKey is remembered by ckman.'')
       | Err _ \<Rightarrow> ret ())))"

definition oath_info :: "'w oath_cli \<Rightarrow> u32 option \<Rightarrow> byte list option \<Rightarrow> ('w, message, unit) proc" where
  "oath_info env device reader =
     proc_bind (open_target env device reader) (\<lambda>t.
     proc_bind (proc_map_err (describe_oath env) (oath_select (lib_at env t) (tg_profile t))) (\<lambda>selected. case selected of
       Modern selection \<Rightarrow>
         proc_bind (print_all env [lit ''OATH version:         '' @ version_text
             (unat (sel_version selection ! 0), unat (sel_version selection ! 1), unat (sel_version selection ! 2)),
           lit ''Password protection:  '' @ enabled_text (sel_challenge selection \<noteq> None)]) (\<lambda>_.
         if sel_challenge selection \<noteq> None then oath_remembered env t else ret ())
     | Legacy _ \<Rightarrow> print_all env [lit ''OATH version:         unknown (legacy firmware)'',
         lit ''Password protection:  disabled (not supported by this firmware)'']))"

section \<open>FIDO\<close>

text \<open>The configured SM2 identifier: not read, read as disabled, or read\<close>

definition cose_algorithm_name :: "'w information \<Rightarrow> int \<Rightarrow> int option option \<Rightarrow> byte list" where
  "cose_algorithm_name env i sm2 =
    (if sm2 = Some (Some i) then lit (''SM2 (COSE '' @ show_int i @ '', configured)'')
     else if i = -48 \<and> sm2 = None then lit ''SM2 (COSE -48, legacy CanoKey ID)''
     else if i = -54 \<and> sm2 = None then lit ''SM2 (COSE -54, CanoKey ID)''
     else cose_debug env i)"

fun join_with :: "byte list \<Rightarrow> byte list list \<Rightarrow> byte list" where
  "join_with separator [] = []"
| "join_with separator [x] = x"
| "join_with separator (x # xs) = x @ separator @ join_with separator xs"

definition option_text :: "byte list \<times> bool \<Rightarrow> byte list" where
  "option_text = (\<lambda>(name, value). if value then name else lit ''not '' @ name)"

definition fido_info_lines :: "'w information \<Rightarrow> int option option \<Rightarrow> authenticator_info \<Rightarrow> byte list list" where
  "fido_info_lines env sm2 info =
    (let joined = join_with (lit '', '') in
     [lit ''FIDO2 version:          '' @ joined (ai_versions info),
      lit ''AAGUID:                 '' @ hex_text (ai_aaguid info)]
     @ line_if (ai_extensions info) (\<lambda>es. lit ''Extensions:             '' @ joined es)
     @ line_if (ai_options info) (\<lambda>os. lit ''Options:                '' @ joined (map option_text os))
     @ (case ai_algorithms info of
          Some as \<Rightarrow> (lit ''Algorithms:             '' @ joined (map (\<lambda>a. cose_algorithm_name env a sm2) as))
            # (if sm2 = None then [lit (''Note: SM2 names are inferred from historical CanoKey IDs; custom IDs may be ''
                @ ''misidentified. Use fido info --admin-pin PIN to read the actual SM2 configuration (requires PC/SC).'')] else [])
        | None \<Rightarrow> [])
     @ line_if (ai_transports info) (\<lambda>ts. lit ''Transports:             '' @ joined ts)
     @ line_if (ai_min_pin_length info) (\<lambda>n. lit (''Min PIN length:         '' @ show_nat (unat n)))
     @ line_if (ai_remaining_credentials info) (\<lambda>n. lit (''Remaining discoverable credentials: '' @ show_nat n)))"

text \<open>With an Admin PIN both reads go over the one PC/SC connection.\<close>

definition fido_info_link :: "'w information \<Rightarrow> u32 option \<Rightarrow> byte list option \<Rightarrow> byte list option
    \<Rightarrow> ('w, message, fido_link \<times> int option option) proc" where
  "fido_info_link env device reader admin_text = (case admin_text of
     None \<Rightarrow> proc_bind (fido_connect (in_fido env) device reader) (\<lambda>link. ret (link, None))
   | Some text \<Rightarrow>
       proc_bind (lift_res (map_err (\<lambda>e. lit (show_lib_error (fc_terminal (in_fido env)) e))
         (admin_pin_from_bytes (fc_terminal (in_fido env)) text))) (\<lambda>p.
       proc_bind (piv_connect (fc_piv (in_fido env)) device reader) (\<lambda>t.
       proc_bind (pcsc_link (in_fido env) t) (\<lambda>link.
       let admin = (pcl_admin (fc_piv (in_fido env)))\<lparr>admin_exchange := conn_exchange (fc_terminal (in_fido env)) (tg_connection t)\<rparr> in
       proc_bind (proc_map_err (describe_drive_error (fc_terminal (in_fido env))) (read_sm2 admin (tg_profile t) (Some p))) (\<lambda>readout.
       ret (link, Some (map_option sint (readout_algorithm_id admin readout))))))))"

definition fido_info :: "'w information \<Rightarrow> u32 option \<Rightarrow> byte list option \<Rightarrow> byte list option \<Rightarrow> ('w, message, unit) proc" where
  "fido_info env device reader admin_text =
     proc_bind (fido_info_link env device reader admin_text) (\<lambda>(link, sm2).
     on_link (proc_bind (link_run (in_fido env) link get_info) (\<lambda>info.
       proc_bind (fc_print_lines (in_fido env) (fido_info_lines env sm2 info)) (\<lambda>_.
       proc_bind (link_run (in_fido env) link (\<lambda>f. pin_retries_if_supported f info)) (\<lambda>r. case r of
         Some r \<Rightarrow> fc_println (in_fido env) (lit (''PIN retries:            '' @ show_nat (retries_left r)))
       | None \<Rightarrow> ret ())))))"

section \<open>OpenPGP\<close>

text \<open>\<^verbatim>\<open>{:x}\<close> of a byte\<close>

definition short_hex :: "byte \<Rightarrow> byte list" where
  "short_hex b = (if b < 16 then [hex_char b] else hex_text [b])"

definition pgp_counter_lines :: "password_counters \<Rightarrow> byte list list" where
  "pgp_counter_lines status =
    [lit (''PIN tries remaining:      '' @ show_nat (pc_retries status ! 0)),
     lit (''Reset code tries remaining: '' @ show_nat (pc_retries status ! 1)),
     lit (''Admin PIN tries remaining: '' @ show_nat (pc_retries status ! 2)),
     lit (''Require PIN for signature: '' @ (if pc_signature_policy status = 0 then ''always'' else ''once''))]"

definition pgp_text_line :: "'w information \<Rightarrow> string \<Rightarrow> lib_error + byte list option \<Rightarrow> ('w, message, unit) proc" where
  "pgp_text_line env label v = proc_bind (pgp_shown (in_pgp env) v) (\<lambda>v. case v of
     Some t \<Rightarrow> say env (lit label @ utf8_lossy t) | None \<Rightarrow> ret ())"

definition pgp_cardholder_info :: "'w information \<Rightarrow> target \<Rightarrow> ('w, message, unit) proc" where
  "pgp_cardholder_info env t =
     proc_bind (pgp_session_run (in_pgp env) t (\<lambda>genv profile. optional_record (read_cardholder_data genv profile))) (\<lambda>found.
     case found of None \<Rightarrow> ret () | Some cardholder \<Rightarrow>
       proc_bind (pgp_text_line env ''Cardholder name:          '' (name_of (in_accessors env) cardholder)) (\<lambda>_.
       proc_bind (pgp_text_line env ''Language preferences:     '' (language_of (in_accessors env) cardholder)) (\<lambda>_.
       pgp_text_line env ''Sex:                      '' (sex_of (in_accessors env) cardholder))))"

definition pgp_data_info :: "'w information \<Rightarrow> target \<Rightarrow> u16 \<Rightarrow> string \<Rightarrow> ('w, message, unit) proc" where
  "pgp_data_info env t tag label =
     proc_bind (pgp_session_run (in_pgp env) t (\<lambda>genv profile. optional_record (read_data genv profile tag))) (\<lambda>found.
     case found of None \<Rightarrow> ret () | Some bytes \<Rightarrow>
       if bytes = [] then ret () else say env (lit label @ lit (replicate (26 - length label) CHR '' '') @ utf8_lossy bytes))"

definition pgp_slot_info :: "'w information \<Rightarrow> application_data \<Rightarrow> pgp_slot \<Rightarrow> ('w, message, unit) proc" where
  "pgp_slot_info env ad s =
     proc_bind (pgp_shown (in_pgp env) (key_is_present (in_pgp env) ad s)) (\<lambda>present.
     if \<not> present then ret () else
     proc_bind (pgp_shown (in_pgp env) (fingerprint_of (in_pgp env) ad s)) (\<lambda>f.
     proc_bind (say_all env [pgp_slot_name s @ lit '' key:'',
       lit ''  Fingerprint:   '' @ (case fingerprint_hex f of Some h \<Rightarrow> h | None \<Rightarrow> lit ''not set'')]) (\<lambda>_.
     proc_bind (pgp_shown (in_pgp env) (pgp_key_origin (in_pgp env) ad s)) (\<lambda>origin.
     proc_bind (say env (lit ''  Origin:        '' @ origin)) (\<lambda>_.
     proc_bind (pgp_shown (in_pgp env) (uif_of (in_pgp env) ad s)) (\<lambda>uif.
     say env (lit ''  Touch policy:  '' @ touch_policy_name uif)))))))"

fun pgp_slots_info :: "'w information \<Rightarrow> application_data \<Rightarrow> pgp_slot list \<Rightarrow> ('w, message, unit) proc" where
  "pgp_slots_info env ad [] = ret ()"
| "pgp_slots_info env ad (s # ss) = proc_bind (pgp_slot_info env ad s) (\<lambda>_. pgp_slots_info env ad ss)"

definition pgp_info :: "'w information \<Rightarrow> u32 option \<Rightarrow> byte list option \<Rightarrow> ('w, message, unit) proc" where
  "pgp_info env device reader =
     proc_bind (pgp_connect (in_pgp env) device reader) (\<lambda>t.
     proc_bind (pgp_session_run (in_pgp env) t read_application_data) (\<lambda>ad.
     proc_bind (pgp_shown (in_pgp env) (aid_of (in_accessors env) ad)) (\<lambda>aid.
     proc_bind (say_all env (line_if aid (\<lambda>aid. lit ''OpenPGP version:          '' @ short_hex (aid ! 6) @ lit ''.'' @ short_hex (aid ! 7))
       @ [lit ''Application version:      '' @ utf8_lossy (pi_firmware_text (profile_info_of env (tg_profile t)))])) (\<lambda>_.
     proc_bind (pgp_shown (in_pgp env) (password_counters_of (in_accessors env) ad)) (\<lambda>counters.
     proc_bind (say_all env ((case counters of Some c \<Rightarrow> pgp_counter_lines c | None \<Rightarrow> []) @ [lit ''KDF enabled:              no''])) (\<lambda>_.
     proc_bind (pgp_cardholder_info env t) (\<lambda>_.
     proc_bind (pgp_data_info env t 0x5e ''Login:'') (\<lambda>_.
     proc_bind (pgp_data_info env t 0x5f50 ''URL:'') (\<lambda>_.
     proc_bind (touch_cache_time (in_pgp env) t) (\<lambda>seconds.
     proc_bind (say_all env (line_if seconds (\<lambda>n. lit (''Touch cache time:         '' @ show_nat (unat n) @ '' second(s)'')))) (\<lambda>_.
     pgp_slots_info env ad [PgpSignature, PgpDecryption, PgpAuthentication])))))))))))"

section \<open>PIV\<close>

definition piv_algorithm_name :: "algorithm \<Rightarrow> string" where
  "piv_algorithm_name a = (case a of
     Rsa1024 \<Rightarrow> ''RSA1024'' | Rsa2048 \<Rightarrow> ''RSA2048'' | Rsa3072 \<Rightarrow> ''RSA3072'' | Rsa4096 \<Rightarrow> ''RSA4096''
   | EccP256 \<Rightarrow> ''ECCP256'' | EccP384 \<Rightarrow> ''ECCP384'' | EccP521 \<Rightarrow> ''ECCP521'' | Secp256k1 \<Rightarrow> ''SECP256K1''
   | Sm2 \<Rightarrow> ''SM2'' | Ed25519 \<Rightarrow> ''ED25519'' | X25519 \<Rightarrow> ''X25519''
   | MlDsa65 \<Rightarrow> ''ML-DSA-65'' | MlKem768 \<Rightarrow> ''ML-KEM-768'')"

definition session_algorithm_name :: "'w information \<Rightarrow> device_profile \<Rightarrow> u8 \<Rightarrow> byte list option" where
  "session_algorithm_name env profile i = map_option (\<lambda>a. lit (piv_algorithm_name a)) (algorithm_from_wire_id (in_cli env) profile i)"

definition named_algorithm :: "'w information \<Rightarrow> device_profile \<Rightarrow> metadata_fields \<Rightarrow> byte list" where
  "named_algorithm env profile md =
    (case Option.bind (mf_algorithm_id md) (session_algorithm_name env profile) of Some n \<Rightarrow> n | None \<Rightarrow> lit ''unknown'')"

definition slot_key_type :: "'w information \<Rightarrow> device_profile \<Rightarrow> metadata option \<Rightarrow> byte list" where
  "slot_key_type env profile m = (case m of
     Some (KeyMetadata md) \<Rightarrow> named_algorithm env profile md
   | None \<Rightarrow> if pi_metadata (profile_info_of env profile) = Supported then lit ''EMPTY''
       else lit ''unknown (key metadata unavailable)''
   | _ \<Rightarrow> lit ''unknown (key metadata unavailable)'')"

definition two_digits :: "nat \<Rightarrow> string" where
  "two_digits n = (if n < 10 then CHR ''0'' # show_nat n else show_nat n)"

definition certificate_time :: "'w information \<Rightarrow> int \<Rightarrow> byte list" where
  "certificate_time env timestamp = (case calendar env timestamp of
     Some (date, hour, minute, second) \<Rightarrow> date @ lit ('' '' @ two_digits hour @ '':'' @ two_digits minute @ '':''
       @ two_digits second @ '' UTC'')
   | None \<Rightarrow> lit (''invalid timestamp ('' @ show_int timestamp @ '')''))"

definition certificate_lines :: "'w information \<Rightarrow> piv_certificate \<Rightarrow> byte list list" where
  "certificate_lines env c = (case summary_of env (piv_certificate_der c) of
     Some s \<Rightarrow> [lit ''  Subject DN:         '' @ xs_subject s, lit ''  Issuer DN:          '' @ xs_issuer s,
       lit ''  Serial:             '' @ hex_text (xs_serial s), lit ''  Fingerprint (SHA-256): '' @ hex_text (xs_fingerprint s),
       lit ''  Not before:         '' @ certificate_time env (xs_not_before s),
       lit ''  Not after:          '' @ certificate_time env (xs_not_after s)]
   | None \<Rightarrow> [lit ''  Error: failed to parse certificate''])"

definition optional_metadata :: "'w information \<Rightarrow> target \<Rightarrow> metadata_reference \<Rightarrow> ('w, message, metadata option) proc" where
  "optional_metadata env t reference = optional_piv (in_cli env) (piv_run_typed (in_cli env) t (\<lambda>penv profile.
     read_metadata penv profile reference AccessNone))"

definition is_default :: "metadata_fields \<Rightarrow> bool" where
  "is_default md \<longleftrightarrow> mf_is_default md = Some (Known True)"

definition tries_text :: "nat \<times> nat \<Rightarrow> byte list" where
  "tries_text = (\<lambda>(tries, remaining). lit (show_nat remaining @ ''/'' @ show_nat tries))"

definition pin_info :: "'w information \<Rightarrow> target \<Rightarrow> ('w, message, unit) proc" where
  "pin_info env t = proc_bind (optional_metadata env t MetadataPin) (\<lambda>m. case m of
     Some m \<Rightarrow> (let md = metadata_fields_of m in
       say_all env ((if is_default md then [lit ''WARNING: Using default PIN!''] else [])
         @ line_if (mf_retries md) (\<lambda>r. lit ''PIN tries remaining:    '' @ tries_text r)))
   | None \<Rightarrow> proc_bind (piv_session_run (in_cli env) t pin_status) (\<lambda>status.
       say_all env (line_if (pin_retries_left status) (\<lambda>n. lit (''PIN tries remaining:    ''
         @ (if n = 15 then ''15 or more'' else show_nat n))))))"

definition puk_lines :: "metadata_fields \<Rightarrow> byte list list" where
  "puk_lines md = (case mf_retries md of
     None \<Rightarrow> []
   | Some (tries, remaining) \<Rightarrow>
       (if remaining = 0 then [lit ''PUK is blocked''] else if is_default md then [lit ''WARNING: Using default PUK!''] else [])
       @ [lit ''PUK tries remaining:    '' @ tries_text (tries, remaining)])"

definition management_info :: "'w information \<Rightarrow> target \<Rightarrow> ('w, message, unit) proc" where
  "management_info env t = proc_bind (optional_metadata env t MetadataManagement) (\<lambda>m.
     proc_bind (case m of
       Some m \<Rightarrow> (let md = metadata_fields_of m in
         proc_bind (say_all env (if is_default md then [lit ''WARNING: Using default Management key!''] else [])) (\<lambda>_.
         case mf_algorithm_id md of
           Some i \<Rightarrow> if i = 3 then ret (lit ''TDES'') else if i = 10 then ret (lit ''AES192'')
             else throw (lit (''unknown management key algorithm Some('' @ show_nat (unat i) @ '')''))
         | None \<Rightarrow> throw (lit ''unknown management key algorithm None'')))
     | None \<Rightarrow> ret (lit ''TDES'')) (\<lambda>a. say env (lit ''Management key algorithm: '' @ a)))"

definition pivman_lines :: "bool \<Rightarrow> pivman_data \<Rightarrow> byte list list" where
  "pivman_lines puk_reported pivman =
     (if \<not> puk_reported \<and> puk_blocked pivman then [lit ''PUK is blocked''] else [])
     @ (if has_derived_key pivman then [lit ''Management key is derived from PIN.''] else [])
     @ (if has_stored_key pivman then [lit ''Management key is stored on the CanoKey, protected by PIN.''] else [])"

definition object_info :: "'w information \<Rightarrow> target \<Rightarrow> string \<Rightarrow> byte list \<Rightarrow> ('w, message, unit) proc" where
  "object_info env t name i =
     proc_bind (lift_res (map_err (\<lambda>e. lit (show_lib_error (in_terminal env) e)) (object_id_from_bytes (host (pcl_piv (in_cli env))) i))) (\<lambda>oid.
     proc_bind (optional_piv (in_cli env) (piv_run_typed (in_cli env) t (\<lambda>penv profile. read_object penv profile oid AccessNone))) (\<lambda>found.
     say env (lit (name @ '':                   '') @ (case found of
       Some bytes \<Rightarrow> lit (show_nat (length bytes) @ '' bytes'') | None \<Rightarrow> lit ''No data available.''))))"

definition origin_text :: "key_origin known \<Rightarrow> byte list" where
  "origin_text origin = (case origin of
     Known Generated \<Rightarrow> lit ''generated on device'' | Known Imported \<Rightarrow> lit ''imported'' | Known NotPresent \<Rightarrow> lit ''none''
   | Unknown n \<Rightarrow> lit (''unknown ('' @ show_nat n @ '')''))"

definition policy_lines :: "'w information \<Rightarrow> metadata option \<Rightarrow> byte list list" where
  "policy_lines env m = (case m of
     Some (KeyMetadata md) \<Rightarrow>
       line_if (mf_origin md) (\<lambda>origin. lit ''  Origin:             '' @ origin_text origin)
       @ (case mf_pin_policy md of
            Some (Known p) \<Rightarrow> [lit (''  PIN policy:         '' @ debug_pin_policy (in_debug env) p)] | _ \<Rightarrow> [])
       @ (case mf_touch_policy md of
            Some (Known p) \<Rightarrow> [lit (''  Touch policy:       '' @ debug_touch_policy (in_debug env) p)] | _ \<Rightarrow> [])
   | _ \<Rightarrow> [])"

definition slot_info :: "'w information \<Rightarrow> target \<Rightarrow> slot \<Rightarrow> ('w, message, unit) proc" where
  "slot_info env t s =
     proc_bind (optional_metadata env t (MetadataKey s)) (\<lambda>m.
     proc_bind (optional_piv (in_cli env) (piv_run_typed (in_cli env) t (\<lambda>penv profile. read_certificate penv profile s AccessNone))) (\<lambda>certificate.
     if m = None \<and> certificate = None then ret ()
     else say_all env (
       [lit ''Slot '' @ lit (replicate (4 - length (slot_name (in_cli env) s)) CHR '' '') @ slot_name (in_cli env) s @ lit '':'',
        lit ''  Private key type: '' @ slot_key_type env (tg_profile t) m]
       @ policy_lines env m
       @ (case certificate of Some c \<Rightarrow> certificate_lines env c | None \<Rightarrow> []))))"

fun slots_info :: "'w information \<Rightarrow> target \<Rightarrow> slot list \<Rightarrow> ('w, message, unit) proc" where
  "slots_info env t [] = ret ()"
| "slots_info env t (s # ss) = proc_bind (slot_info env t s) (\<lambda>_. slots_info env t ss)"

definition all_slots :: "'w information \<Rightarrow> slot list option" where
  "all_slots env = map_option (\<lambda>retired. [Authentication, Signature, KeyManagement, CardAuthentication] @ retired)
     (those (map (\<lambda>i. retired_slot (in_cli env) (word_of_nat i)) [1..<21]))"

definition attestation_state :: "bool \<Rightarrow> bool \<Rightarrow> byte list" where
  "attestation_state key certificate = lit (case (key, certificate) of
     (True, True) \<Rightarrow> ''key and certificate present (trust not checked)''
   | (True, False) \<Rightarrow> ''key only; certificate not configured''
   | (False, True) \<Rightarrow> ''certificate only; key not configured''
   | (False, False) \<Rightarrow> ''not configured'')"

definition attestation_info :: "'w information \<Rightarrow> target \<Rightarrow> ('w, message, unit) proc" where
  "attestation_info env t =
     proc_bind (optional_piv (in_cli env) (piv_run_typed (in_cli env) t attestation_metadata)) (\<lambda>key.
     proc_bind (optional_piv (in_cli env) (piv_run_typed (in_cli env) t attestation_certificate)) (\<lambda>certificate.
     say_all env (
       [lit ''Slot   f9 (Attestation):'', lit ''  State:              '' @ attestation_state (key \<noteq> None) (certificate \<noteq> None)]
       @ (case key of
            Some md \<Rightarrow> (lit ''  Private key type: '' @ named_algorithm env (tg_profile t) md)
              # line_if (mf_origin md) (\<lambda>origin. lit (''  Origin:             '' @ debug_origin (in_debug env) origin))
          | None \<Rightarrow> [])
       @ (case certificate of Some c \<Rightarrow> certificate_lines env c | None \<Rightarrow> []))))"

definition piv_info :: "'w information \<Rightarrow> u32 option \<Rightarrow> byte list option \<Rightarrow> ('w, message, unit) proc" where
  "piv_info env device reader =
     proc_bind (piv_connect (in_cli env) device reader) (\<lambda>t.
     proc_bind (say env (lit ''PIV version:            '' @ (case pi_piv_version (profile_info_of env (tg_profile t)) of
       Some v \<Rightarrow> version_text v | None \<Rightarrow> lit ''unknown''))) (\<lambda>_.
     proc_bind (pin_info env t) (\<lambda>_.
     proc_bind (optional_metadata env t MetadataPuk) (\<lambda>puk.
     proc_bind (say_all env (case puk of Some m \<Rightarrow> puk_lines (metadata_fields_of m) | None \<Rightarrow> [])) (\<lambda>_.
     proc_bind (management_info env t) (\<lambda>_.
     proc_bind (piv_session_run (in_cli env) t read_pivman_data) (\<lambda>pivman.
     proc_bind (say_all env (pivman_lines (puk \<noteq> None) pivman)) (\<lambda>_.
     proc_bind (object_info env t ''CHUID'' [0x5f, 0xc1, 2]) (\<lambda>_.
     proc_bind (object_info env t ''CCC'' [0x5f, 0xc1, 7]) (\<lambda>_.
     proc_bind (unwrap (all_slots env)) (\<lambda>ss.
     proc_bind (slots_info env t ss) (\<lambda>_.
     if pi_attestation (profile_info_of env (tg_profile t)) = Supported then attestation_info env t else ret ()))))))))))))"

text \<open>\<^verbatim>\<open>{:x}\<close> of a number\<close>

fun hex_number :: "nat \<Rightarrow> byte list" where
  "hex_number n = (if n < 16 then [hex_char (word_of_nat n)] else hex_number (n div 16) @ [hex_char (word_of_nat (n mod 16))])"

declare hex_number.simps [simp del]

definition keys_info :: "'w information \<Rightarrow> u32 option \<Rightarrow> byte list option \<Rightarrow> key_reference \<Rightarrow> ('w, message, unit) proc" where
  "keys_info env device reader reference =
     proc_bind (piv_connect (in_cli env) device reader) (\<lambda>t.
     proc_bind (case reference of
       KeyRef s \<Rightarrow> proc_bind (piv_session_run (in_cli env) t (\<lambda>penv profile. read_metadata penv profile (MetadataKey s) AccessNone))
         (\<lambda>m. ret (metadata_fields_of m))
     | AttestationRef \<Rightarrow> piv_session_run (in_cli env) t attestation_metadata) (\<lambda>md.
     say_all env (
       line_if (mf_algorithm_id md) (\<lambda>i. lit ''Algorithm:    '' @ (case session_algorithm_name env (tg_profile t) i of
           Some n \<Rightarrow> n | None \<Rightarrow> lit ''unknown'') @ lit '' (wire id 0x'' @ hex_text [i] @ lit '')'')
       @ line_if (mf_origin md) (\<lambda>origin. lit (''Origin:       '' @ debug_origin (in_debug env) origin))
       @ line_if (mf_pin_policy md) (\<lambda>p. lit (''PIN policy:   '' @ debug_known_pin_policy (in_debug env) p))
       @ line_if (mf_touch_policy md) (\<lambda>p. lit (''Touch policy: '' @ debug_known_touch_policy (in_debug env) p))
       @ map (\<lambda>(tag, v). lit ''Unknown field 0x'' @ hex_number tag @ lit '': '' @ hex_text v) (mf_unknown_fields md))))"

end
