(* ===== verification/PivTables.thy ===== *)
theory PivTables
  imports PivCertificates
begin

text \<open>
  The argument tables of \<^verbatim>\<open>crates/ckman/src/commands/piv.rs\<close> as datatypes, one constructor per variant with its
  fields in order.
\<close>

datatype key_algorithm_arg = KeyRsa1024 | KeyRsa2048 | KeyRsa3072 | KeyRsa4096 | KeyEccP256 | KeyEccP384
  | KeyEccP521 | KeySecp256k1 | KeySm2 | KeyEd25519 | KeyX25519 | KeyMlDsa65 | KeyMlKem768

datatype hash_arg = ArgHash256 | ArgHash384 | ArgHash512

datatype mgmt_algorithm_arg = MgmtTdes | MgmtAes192

datatype sm2_role_arg = RoleInitiator | RoleResponder

definition key_algorithm :: "key_algorithm_arg \<Rightarrow> algorithm" where
  "key_algorithm a = (case a of KeyRsa1024 \<Rightarrow> Rsa1024 | KeyRsa2048 \<Rightarrow> Rsa2048 | KeyRsa3072 \<Rightarrow> Rsa3072
     | KeyRsa4096 \<Rightarrow> Rsa4096 | KeyEccP256 \<Rightarrow> EccP256 | KeyEccP384 \<Rightarrow> EccP384 | KeyEccP521 \<Rightarrow> EccP521
     | KeySecp256k1 \<Rightarrow> Secp256k1 | KeySm2 \<Rightarrow> Sm2 | KeyEd25519 \<Rightarrow> Ed25519 | KeyX25519 \<Rightarrow> X25519
     | KeyMlDsa65 \<Rightarrow> MlDsa65 | KeyMlKem768 \<Rightarrow> MlKem768)"

definition hash_of_arg :: "hash_arg \<Rightarrow> hash_algorithm" where
  "hash_of_arg a = (case a of ArgHash256 \<Rightarrow> HashSha256 | ArgHash384 \<Rightarrow> HashSha384 | ArgHash512 \<Rightarrow> HashSha512)"

definition mgmt_algorithm_of :: "mgmt_algorithm_arg \<Rightarrow> management_algorithm" where
  "mgmt_algorithm_of a = (case a of MgmtTdes \<Rightarrow> Tdes | MgmtAes192 \<Rightarrow> Aes192)"

definition sm2_role_of :: "sm2_role_arg \<Rightarrow> sm2_role" where
  "sm2_role_of a = (case a of RoleInitiator \<Rightarrow> Sm2Initiator | RoleResponder \<Rightarrow> Sm2Responder)"

record mgmt_args =
  ma_management_key :: "byte list option"

record pin_args =
  pa_pin :: "byte list option"

record change_key_args =
  ck_touch :: bool
  ck_new_key :: "byte list option"
  ck_algorithm :: "mgmt_algorithm_arg option"
  ck_protect :: bool
  ck_generate :: bool
  ck_recovery_file :: "path option"
  ck_force :: bool
  ck_mgmt :: mgmt_args
  ck_pin :: pin_args

datatype piv_access_command =
    PivSetRetries u8 u8 mgmt_args pin_args bool
  | PivChangePin "byte list option" "byte list option"
  | PivChangePuk "byte list option" "byte list option"
  | PivChangeManagementKey change_key_args
  | PivUnblockPin "byte list option" "byte list option"

datatype piv_keys_command =
    KeysGenerate key_reference path key_algorithm_arg "pin_policy_arg option" "touch_policy_arg option" encoding_arg mgmt_args
  | KeysImport key_reference path "byte list option" "pin_policy_arg option" "touch_policy_arg option" mgmt_args
  | KeysAttest slot path encoding_arg
  | KeysVerifyAttest slot "path option"
  | KeysInfo key_reference
  | KeysExport key_reference path encoding_arg bool pin_args
  | KeysGenerateBatch "slot list" key_algorithm_arg path "pin_policy_arg option" "touch_policy_arg option" encoding_arg mgmt_args
  | KeysMove slot slot mgmt_args
  | KeysDelete slot mgmt_args

datatype piv_certificates_command =
    CertificatesImport certificate_reference path mgmt_args
  | CertificatesExport certificate_reference path encoding_arg
  | CertificatesGenerate slot "path option" "byte list" u32 hash_arg mgmt_args pin_args
  | CertificatesRequest slot path path "byte list" hash_arg pin_args
  | CertificatesDelete certificate_reference mgmt_args

datatype piv_objects_command =
    ObjectsExport piv_object_id path pin_args
  | ObjectsName container_reference "byte list option" mgmt_args
  | ObjectsImport piv_object_id path mgmt_args

datatype piv_command =
    PivInfo
  | PivSetChuid "byte list option" mgmt_args
  | PivSetCcc "byte list option" mgmt_args
  | PivReset bool "byte list option"
  | PivAccess piv_access_command
  | PivKeys piv_keys_command
  | PivCertificates piv_certificates_command
  | PivObjects piv_objects_command
  | PivSign slot path path "hash_arg option" bool pin_args
  | PivDecrypt slot path path pin_args
  | PivDerive slot path path pin_args
  | PivDecapsulate slot path path pin_args
  | PivAgreeSm2 slot path path path sm2_role_arg u16 "byte list option" "byte list option" pin_args
  | PivRandom nat "path option"
  | PivLogout

definition change_management_args_of :: "change_key_args \<Rightarrow> change_management_args" where
  "change_management_args_of a =
     \<lparr>ca_touch = ck_touch a, ca_new_key = ck_new_key a, ca_algorithm = map_option mgmt_algorithm_of (ck_algorithm a),
      ca_protect = ck_protect a, ca_generate = ck_generate a, ca_recovery_file = ck_recovery_file a,
      ca_force = ck_force a, ca_management_key = ma_management_key (ck_mgmt a), ca_pin = pa_pin (ck_pin a)\<rparr>"

end
