(* ===== verification/Tables.thy ===== *)
theory Tables
  imports OathCli OpenPgpCli PivTables Config
begin

text \<open>
  The other argument tables of \<^verbatim>\<open>crates/ckman/src/cli.rs\<close> and \<^verbatim>\<open>crates/ckman/src/commands/*.rs\<close> as datatypes, one
  constructor per variant with its fields in order.  Parsing the arguments is clap's: what follows holds for every
  value of the tables' types, whether or not a table restricts it further.
\<close>

section \<open>OATH\<close>

datatype kind_arg = KindTotp | KindHotp

datatype algorithm_arg = ArgSha1 | ArgSha256 | ArgSha512

record add_args =
  ad_name :: "byte list"
  ad_secret :: "byte list option"
  ad_type :: kind_arg
  ad_digits :: u8
  ad_algorithm :: algorithm_arg
  ad_counter :: u32
  ad_issuer :: "byte list option"
  ad_period :: u32
  ad_generate :: bool
  ad_touch :: bool
  ad_force :: bool
  ad_access :: access_args

datatype accounts_command =
    AccountsAdd add_args
  | AccountsUri "byte list option" bool bool access_args
  | AccountsList bool bool bool access_args
  | AccountsCode "byte list option" bool bool access_args
  | AccountsRename "byte list" "byte list" bool access_args
  | AccountsSetDefault "byte list" default_slot bool access_args
  | AccountsDelete "byte list" bool access_args

datatype oath_access_command =
    OathChange "byte list option" bool "byte list option" bool
  | OathRemember "byte list option"
  | OathForget

datatype oath_command =
    OathInfo
  | OathReset bool "byte list option"
  | OathSerial
  | OathChallengeResponse default_slot "byte list" bool
  | OathAccess oath_access_command
  | OathAccounts accounts_command

definition add_input_of :: "add_args \<Rightarrow> add_input" where
  "add_input_of a =
     \<lparr>ai_name = ad_name a, ai_secret = ad_secret a,
      ai_kind = (case ad_type a of KindTotp \<Rightarrow> Totp | KindHotp \<Rightarrow> Hotp),
      ai_digits = unat (ad_digits a),
      ai_algorithm = (case ad_algorithm a of ArgSha1 \<Rightarrow> Sha1 | ArgSha256 \<Rightarrow> Sha256 | ArgSha512 \<Rightarrow> Sha512),
      ai_counter = unat (ad_counter a), ai_issuer = ad_issuer a, ai_period = unat (ad_period a),
      ai_generate = ad_generate a\<rparr>"

section \<open>OpenPGP\<close>

datatype pgp_access_command =
    PgpSetRetries u8 u8 u8 "byte list option" bool
  | PgpChangePin "byte list option" "byte list option"
  | PgpChangeAdminPin "byte list option" "byte list option"
  | PgpChangeResetCode "byte list option" "byte list option" bool
  | PgpUnblockPin "byte list option" "byte list option" "byte list option"
  | PgpSetSignaturePolicy signature_policy_arg "byte list option"
  | PgpSetTouchCache u8 "byte list option"

datatype pgp_keys_command =
    PgpKeysInfo key_slot_arg
  | PgpKeysGenerate key_slot_arg "pgp_algorithm_arg option" "byte list option"
  | PgpKeysImport key_slot_arg path "pgp_algorithm_arg option" "byte list option" "byte list option"
  | PgpKeysExport key_slot_arg path encoding_arg
  | PgpKeysSetTouch key_slot_arg pgp_touch_arg "byte list option" bool

datatype pgp_certificates_command =
    PgpCertificatesImport key_slot_arg path "byte list option"
  | PgpCertificatesExport key_slot_arg path encoding_arg
  | PgpCertificatesDelete key_slot_arg "byte list option"

datatype pgp_command =
    PgpInfo
  | PgpReset bool "byte list option"
  | PgpAccess pgp_access_command
  | PgpCardholder cardholder_command "byte list option"
  | PgpKeys pgp_keys_command
  | PgpCertificates pgp_certificates_command

section \<open>FIDO\<close>

datatype fido_access_command =
    FidoSetPin "byte list option"
  | FidoChangePin "byte list option" "byte list option"
  | FidoSetMinLength u8 "byte list list" bool "byte list option"
  | FidoForceChange "byte list option"
  | FidoVerifyPin "byte list option"

datatype fido_config_command =
    FidoToggleAlwaysUv "byte list option"
  | FidoEnableLongTouch "byte list option" bool

datatype fido_blobs_command =
    FidoBlobsRead path
  | FidoBlobsWrite path "byte list option" bool

datatype fido_credentials_command =
    CredentialsList "byte list option" bool
  | CredentialsDelete "byte list" "byte list option" bool
  | CredentialsUpdateUser "byte list" "byte list option" "byte list option" "byte list option" bool

datatype fido_command =
    FidoInfo "byte list option"
  | FidoReset bool
  | FidoAccess fido_access_command
  | FidoConfig fido_config_command
  | FidoCredentials fido_credentials_command
  | FidoTouchTest
  | FidoBlobs fido_blobs_command

section \<open>The entry point\<close>

datatype log_level = LogError | LogWarn | LogInfo | LogDebug | LogTrace

datatype shell = Bash | Elvish | Fish | PowerShell | Zsh

datatype commands =
    DeviceInfo
  | ListDevices bool
  | ConfigCommands config_command
  | OathCommands oath_command
  | PivCommands piv_command
  | OpenPgpCommands pgp_command
  | Completions shell
  | FidoCommands fido_command

record cli =
  cl_device :: "u32 option"
  cl_reader :: "byte list option"
  cl_log_level :: "log_level option"
  cl_log_file :: "path option"
  cl_diagnose :: bool
  cl_command :: "commands option"

end
