(* ===== verification/Program.thy ===== *)
theory Program
  imports Information Tables
begin

text \<open>
  The program from its parsed arguments to its exit code: the functions of
  \<^verbatim>\<open>crates/ckman/src/commands/*.rs\<close> that choose a command by its table, and the entry point
  \<^verbatim>\<open>crates/ckman/src/lib.rs\<close>.
\<close>

section \<open>OATH\<close>

definition accounts_run :: "'w oath_cli \<Rightarrow> u32 option \<Rightarrow> byte list option \<Rightarrow> accounts_command \<Rightarrow> ('w, message, unit) proc" where
  "accounts_run env device reader command = (case command of
     AccountsAdd a \<Rightarrow> accounts_add env device reader (add_input_of a) (ad_touch a) (ad_force a) (ad_access a)
   | AccountsUri uri touch force acc \<Rightarrow> accounts_uri env device reader uri touch force acc
   | AccountsList show_hidden oath_type period acc \<Rightarrow> accounts_list env device reader show_hidden oath_type period acc
   | AccountsCode query single show_hidden acc \<Rightarrow>
       accounts_code env device reader (case query of Some q \<Rightarrow> q | None \<Rightarrow> []) single show_hidden acc
   | AccountsRename query name force acc \<Rightarrow> accounts_rename env device reader query name force acc
   | AccountsSetDefault query s enter acc \<Rightarrow> accounts_set_default env device reader query s enter acc
   | AccountsDelete query force acc \<Rightarrow> accounts_delete env device reader query force acc)"

definition oath_command_run :: "'w information \<Rightarrow> u32 option \<Rightarrow> byte list option \<Rightarrow> oath_command \<Rightarrow> ('w, message, unit) proc" where
  "oath_command_run env device reader command = (let oath = in_oath env in case command of
     OathInfo \<Rightarrow> oath_info oath device reader
   | OathSerial \<Rightarrow> oath_serial oath device reader
   | OathChallengeResponse s challenge is_text \<Rightarrow> challenge_response oath device reader s challenge is_text
   | OathReset force admin_pin \<Rightarrow> oath_reset oath device reader force admin_pin
   | OathAccess (OathChange password clear new_pw remember) \<Rightarrow>
       access_change oath device reader password clear new_pw remember
   | OathAccess (OathRemember password) \<Rightarrow> access_remember oath device reader password
   | OathAccess OathForget \<Rightarrow> access_forget oath device reader
   | OathAccounts accounts \<Rightarrow> accounts_run oath device reader accounts)"

section \<open>PIV\<close>

definition piv_access_run :: "'w piv_commands \<Rightarrow> u32 option \<Rightarrow> byte list option \<Rightarrow> piv_access_command
    \<Rightarrow> ('w, message, unit) proc" where
  "piv_access_run env device reader command = (case command of
     PivSetRetries pin_retries puk_retries mgmt pin force \<Rightarrow>
       set_retries_command env device reader pin_retries puk_retries (ma_management_key mgmt) (pa_pin pin) force
   | PivChangePin pin fresh_pin \<Rightarrow> change_pin_command env device reader pin fresh_pin
   | PivChangePuk puk fresh_puk \<Rightarrow> change_puk_command env device reader puk fresh_puk
   | PivChangeManagementKey a \<Rightarrow> change_management_key_command env device reader (change_management_args_of a)
   | PivUnblockPin puk fresh_pin \<Rightarrow> unblock_pin_command env device reader puk fresh_pin)"

definition piv_keys_run :: "'w information \<Rightarrow> u32 option \<Rightarrow> byte list option \<Rightarrow> piv_keys_command
    \<Rightarrow> ('w, message, unit) proc" where
  "piv_keys_run env device reader command = (let kenv = ce_keys (in_piv env) in case command of
     KeysGenerate reference output a pp tp format mgmt \<Rightarrow>
       keys_generate kenv device reader reference output (key_algorithm a) pp tp format (ma_management_key mgmt)
   | KeysImport reference private_key password pp tp mgmt \<Rightarrow>
       keys_import kenv device reader reference private_key password pp tp (ma_management_key mgmt)
   | KeysAttest s certificate format \<Rightarrow> keys_attest kenv device reader s certificate format
   | KeysVerifyAttest s ca \<Rightarrow> keys_verify_attest kenv device reader s ca
   | KeysInfo reference \<Rightarrow> keys_info env device reader reference
   | KeysExport reference output format verified pin \<Rightarrow> keys_export kenv device reader reference output format verified (pa_pin pin)
   | KeysGenerateBatch ss a dir pp tp format mgmt \<Rightarrow>
       keys_generate_batch kenv device reader ss (key_algorithm a) dir pp tp format (ma_management_key mgmt)
   | KeysMove source dest mgmt \<Rightarrow> keys_move kenv device reader source dest (ma_management_key mgmt)
   | KeysDelete s mgmt \<Rightarrow> keys_delete kenv device reader s (ma_management_key mgmt))"

definition piv_certificates_run :: "'w certificate_commands \<Rightarrow> u32 option \<Rightarrow> byte list option \<Rightarrow> piv_certificates_command
    \<Rightarrow> ('w, message, unit) proc" where
  "piv_certificates_run env device reader command = (case command of
     CertificatesImport s certificate mgmt \<Rightarrow> certificates_import env device reader s certificate (ma_management_key mgmt)
   | CertificatesExport s certificate format \<Rightarrow> certificates_export env device reader s certificate format
   | CertificatesGenerate s public_key subject valid_days hash mgmt pin \<Rightarrow>
       certificates_generate env device reader s public_key subject valid_days (hash_of_arg hash)
         (ma_management_key mgmt) (pa_pin pin)
   | CertificatesRequest s public_key csr_output subject hash pin \<Rightarrow>
       certificates_request env device reader s public_key csr_output subject (hash_of_arg hash) (pa_pin pin)
   | CertificatesDelete s mgmt \<Rightarrow> certificates_delete env device reader s (ma_management_key mgmt))"

definition piv_objects_run :: "'w certificate_commands \<Rightarrow> u32 option \<Rightarrow> byte list option \<Rightarrow> piv_objects_command
    \<Rightarrow> ('w, message, unit) proc" where
  "piv_objects_run env device reader command = (case command of
     ObjectsExport i output pin \<Rightarrow> objects_export env device reader i output (pa_pin pin)
   | ObjectsName reference name mgmt \<Rightarrow> objects_name env device reader reference name (ma_management_key mgmt)
   | ObjectsImport i data mgmt \<Rightarrow> objects_import env device reader i data (ma_management_key mgmt))"

definition piv_commands_of :: "'w information \<Rightarrow> 'w piv_commands" where
  "piv_commands_of env = kc_piv (ce_keys (in_piv env))"

definition piv_command_run :: "'w information \<Rightarrow> u32 option \<Rightarrow> byte list option \<Rightarrow> piv_command \<Rightarrow> ('w, message, unit) proc" where
  "piv_command_run env device reader command = (let penv = piv_commands_of env; cli = in_cli env in case command of
     PivInfo \<Rightarrow> piv_info env device reader
   | PivSetChuid guid mgmt \<Rightarrow> set_chuid_command penv device reader guid (ma_management_key mgmt)
   | PivSetCcc card_id mgmt \<Rightarrow> set_ccc_command penv device reader card_id (ma_management_key mgmt)
   | PivReset force admin_pin \<Rightarrow> piv_reset penv device reader force admin_pin
   | PivAccess acc \<Rightarrow> piv_access_run penv device reader acc
   | PivKeys keys_command \<Rightarrow> piv_keys_run env device reader keys_command
   | PivCertificates certificates_command \<Rightarrow> piv_certificates_run (in_piv env) device reader certificates_command
   | PivObjects objects_command \<Rightarrow> piv_objects_run (in_piv env) device reader objects_command
   | PivSign s input output hash raw pin \<Rightarrow>
       sign_command cli device reader s input output (map_option hash_of_arg hash) raw (pa_pin pin)
   | PivDecrypt s input output pin \<Rightarrow> decrypt_command cli device reader s input output (pa_pin pin)
   | PivDerive s peer output pin \<Rightarrow> derive_command cli device reader s peer output (pa_pin pin)
   | PivDecapsulate s ciphertext output pin \<Rightarrow> decapsulate_command cli device reader s ciphertext output (pa_pin pin)
   | PivAgreeSm2 s peer_static peer_ephemeral key_output role key_len user_id peer_id pin \<Rightarrow>
       agree_sm2_command cli device reader s peer_static peer_ephemeral key_output (sm2_role_of role) (unat key_len)
         user_id peer_id (pa_pin pin)
   | PivRandom n output \<Rightarrow> random_command cli device reader n output
   | PivLogout \<Rightarrow> logout_command cli device reader)"

section \<open>OpenPGP\<close>

definition pgp_access_run :: "'w pgp_cli \<Rightarrow> u32 option \<Rightarrow> byte list option \<Rightarrow> pgp_access_command \<Rightarrow> ('w, message, unit) proc" where
  "pgp_access_run env device reader command = (case command of
     PgpSetRetries pin_retries code_retries admin_retries admin_pin force \<Rightarrow>
       pgp_set_retries env device reader pin_retries code_retries admin_retries admin_pin force
   | PgpChangePin pin fresh_pin \<Rightarrow> pgp_change_pin env device reader pin fresh_pin
   | PgpChangeAdminPin admin_pin new_admin_pin \<Rightarrow> pgp_change_admin_pin env device reader admin_pin new_admin_pin
   | PgpChangeResetCode admin_pin reset_code clear \<Rightarrow> pgp_change_reset_code env device reader admin_pin reset_code clear
   | PgpUnblockPin admin_pin reset_code fresh_pin \<Rightarrow> pgp_unblock_pin env device reader admin_pin reset_code fresh_pin
   | PgpSetSignaturePolicy policy admin_pin \<Rightarrow> pgp_set_signature_policy env device reader policy admin_pin
   | PgpSetTouchCache seconds admin_pin \<Rightarrow> pgp_set_touch_cache env device reader seconds admin_pin)"

definition pgp_keys_run :: "'w pgp_cli \<Rightarrow> u32 option \<Rightarrow> byte list option \<Rightarrow> pgp_keys_command \<Rightarrow> ('w, message, unit) proc" where
  "pgp_keys_run env device reader command = (case command of
     PgpKeysInfo k \<Rightarrow> pgp_keys_info env device reader k
   | PgpKeysGenerate k a admin_pin \<Rightarrow> pgp_keys_generate env device reader k a admin_pin
   | PgpKeysImport k private_key a password admin_pin \<Rightarrow> pgp_keys_import env device reader k private_key a password admin_pin
   | PgpKeysExport k output format \<Rightarrow> pgp_keys_export env device reader k output format
   | PgpKeysSetTouch k policy admin_pin force \<Rightarrow> pgp_keys_set_touch env device reader k policy admin_pin force)"

definition pgp_certificates_run :: "'w pgp_cli \<Rightarrow> u32 option \<Rightarrow> byte list option \<Rightarrow> pgp_certificates_command
    \<Rightarrow> ('w, message, unit) proc" where
  "pgp_certificates_run env device reader command = (case command of
     PgpCertificatesImport k certificate admin_pin \<Rightarrow> pgp_certificates_import env device reader k certificate admin_pin
   | PgpCertificatesExport k certificate format \<Rightarrow> pgp_certificates_export env device reader k certificate format
   | PgpCertificatesDelete k admin_pin \<Rightarrow> pgp_certificates_delete env device reader k admin_pin)"

definition pgp_command_run :: "'w information \<Rightarrow> u32 option \<Rightarrow> byte list option \<Rightarrow> pgp_command \<Rightarrow> ('w, message, unit) proc" where
  "pgp_command_run env device reader command = (let pgp = in_pgp env in case command of
     PgpInfo \<Rightarrow> pgp_info env device reader
   | PgpReset force admin_pin \<Rightarrow> pgp_reset pgp device reader force admin_pin
   | PgpAccess acc \<Rightarrow> pgp_access_run pgp device reader acc
   | PgpCardholder cardholder_command admin_pin \<Rightarrow> pgp_cardholder pgp device reader cardholder_command admin_pin
   | PgpKeys keys_command \<Rightarrow> pgp_keys_run pgp device reader keys_command
   | PgpCertificates certificates_command \<Rightarrow> pgp_certificates_run pgp device reader certificates_command)"

section \<open>FIDO\<close>

definition fido_access_run :: "'w fido_cli \<Rightarrow> u32 option \<Rightarrow> byte list option \<Rightarrow> fido_access_command \<Rightarrow> ('w, message, unit) proc" where
  "fido_access_run env device reader command = (case command of
     FidoSetPin fresh_pin \<Rightarrow> fido_access_set_pin env device reader fresh_pin
   | FidoChangePin pin fresh_pin \<Rightarrow> fido_access_change_pin env device reader pin fresh_pin
   | FidoSetMinLength n rp_ids force_change pin \<Rightarrow> fido_access_set_min_length env device reader n rp_ids force_change pin
   | FidoForceChange pin \<Rightarrow> fido_access_force_change env device reader pin
   | FidoVerifyPin pin \<Rightarrow> fido_access_verify_pin env device reader pin)"

definition fido_config_run :: "'w fido_cli \<Rightarrow> u32 option \<Rightarrow> byte list option \<Rightarrow> fido_config_command \<Rightarrow> ('w, message, unit) proc" where
  "fido_config_run env device reader command = (case command of
     FidoToggleAlwaysUv pin \<Rightarrow> fido_toggle_always_uv env device reader pin
   | FidoEnableLongTouch pin force \<Rightarrow> fido_long_touch env device reader pin force)"

definition fido_blobs_run :: "'w fido_cli \<Rightarrow> u32 option \<Rightarrow> byte list option \<Rightarrow> fido_blobs_command \<Rightarrow> ('w, message, unit) proc" where
  "fido_blobs_run env device reader command = (case command of
     FidoBlobsRead output \<Rightarrow> fido_blobs_read env device reader output
   | FidoBlobsWrite input pin force \<Rightarrow> fido_blobs_write env device reader input pin force)"

definition credentials_run :: "'w fido_cli \<Rightarrow> u32 option \<Rightarrow> byte list option \<Rightarrow> fido_credentials_command
    \<Rightarrow> ('w, message, unit) proc" where
  "credentials_run env device reader command = (case command of
     CredentialsList pin csv \<Rightarrow> credentials_list env device reader pin csv
   | CredentialsDelete credential_id pin force \<Rightarrow> credentials_delete env device reader credential_id pin force
   | CredentialsUpdateUser credential_id username shown_name pin force \<Rightarrow>
       credentials_update_user env device reader credential_id username shown_name pin force)"

definition fido_command_run :: "'w information \<Rightarrow> u32 option \<Rightarrow> byte list option \<Rightarrow> fido_command \<Rightarrow> ('w, message, unit) proc" where
  "fido_command_run env device reader command = (let fido = in_fido env in case command of
     FidoInfo admin_pin \<Rightarrow> fido_info env device reader admin_pin
   | FidoReset force \<Rightarrow> fido_reset_command fido device reader force
   | FidoAccess acc \<Rightarrow> fido_access_run fido device reader acc
   | FidoConfig c \<Rightarrow> fido_config_run fido device reader c
   | FidoCredentials c \<Rightarrow> credentials_run fido device reader c
   | FidoTouchTest \<Rightarrow> fido_touch_test fido device reader
   | FidoBlobs c \<Rightarrow> fido_blobs_run fido device reader c)"

section \<open>The entry point\<close>

record 'w program =
  pr_info :: "'w information"
  pr_config :: "'w config_cli"
  create_log :: "path \<Rightarrow> ('w, io_error, unit) proc"
  print_help :: "'w \<Rightarrow> 'w"
  completion_script :: "shell \<Rightarrow> byte list"

datatype exit_code = ExitSuccess | ExitFailure

definition completions :: "'w program \<Rightarrow> shell \<Rightarrow> ('w, message, unit) proc" where
  "completions env sh = proc_try (stdout_write (in_terminal (pr_info env)) (completion_script env sh)) (\<lambda>r. case r of
     Ok _ \<Rightarrow> ret ()
   | Err e \<Rightarrow> if io_kind_of e = IoBrokenPipe then ret () else throw (lit (io_message e)))"

definition dispatch :: "'w program \<Rightarrow> cli \<Rightarrow> commands \<Rightarrow> ('w, message, unit) proc" where
  "dispatch env args command = (case command of
     DeviceInfo \<Rightarrow> device_info (pr_info env) (cl_device args) (cl_reader args)
   | ListDevices serials \<Rightarrow> list_command (pr_info env) serials (cl_device args) (cl_reader args)
   | ConfigCommands c \<Rightarrow> config_run (pr_config env) (cl_device args) (cl_reader args) c
   | OathCommands c \<Rightarrow> oath_command_run (pr_info env) (cl_device args) (cl_reader args) c
   | PivCommands c \<Rightarrow> piv_command_run (pr_info env) (cl_device args) (cl_reader args) c
   | OpenPgpCommands c \<Rightarrow> pgp_command_run (pr_info env) (cl_device args) (cl_reader args) c
   | FidoCommands c \<Rightarrow> fido_command_run (pr_info env) (cl_device args) (cl_reader args) c
   | Completions sh \<Rightarrow> completions env sh)"

definition report :: "'w program \<Rightarrow> byte list \<Rightarrow> 'w \<Rightarrow> 'w" where
  "report env t = stderr_print (in_terminal (pr_info env)) (t @ [0x0a])"

text \<open>The last step of the entry point: what a result becomes\<close>

definition finish :: "'w program \<Rightarrow> (message + unit) \<times> 'w \<Rightarrow> exit_code \<times> 'w" where
  "finish env = (\<lambda>(r, w). case r of
     Ok _ \<Rightarrow> (ExitSuccess, w)
   | Err e \<Rightarrow> (ExitFailure, report env (lit ''ERROR: '' @ e) w))"

definition run_command :: "'w program \<Rightarrow> cli \<Rightarrow> 'w \<Rightarrow> (exit_code \<times> 'w) option" where
  "run_command env args w =
    (if cl_diagnose args then map_option (finish env) (diagnose (pr_info env) w)
     else case cl_command args of
       None \<Rightarrow> Some (ExitFailure, report env [] (print_help env w))
     | Some command \<Rightarrow> map_option (finish env) (dispatch env args command w))"

definition main_run :: "'w program \<Rightarrow> cli \<Rightarrow> 'w \<Rightarrow> (exit_code \<times> 'w) option" where
  "main_run env args w = (case (cl_log_level args, cl_log_file args) of
     (Some _, Some path) \<Rightarrow> (case create_log env path w of
         None \<Rightarrow> None
       | Some (Err e, w) \<Rightarrow> Some (ExitFailure, report env (lit ''ERROR: cannot open log file '' @ path @ lit '': ''
           @ lit (io_message e)) w)
       | Some (Ok _, w) \<Rightarrow> run_command env args w)
   | _ \<Rightarrow> run_command env args w)"

end
