(* ===== verification/ProgramSafety.thy ===== *)
theory ProgramSafety
  imports Program ConfigSafety OpenPgpSafety
begin

text \<open>
  What the whole program does with a refused question: the five commands that erase an applet or the device
  ask first, and a run in which the answer is not given ends with the failure code and an untouched device.
\<close>

section \<open>Asking\<close>

definition consent_frame :: "'w cli_env \<Rightarrow> ('w \<Rightarrow> 'b) \<Rightarrow> bool" where
  "consent_frame env f \<longleftrightarrow> terminal_frame env f \<and> preserves f (stderr_flush env) \<and> preserves f (stdin_line env)
     \<and> (\<forall>c. preserves f (probe (probe_device env) (conn_exchange env c)))"

lemma consent_frameD:
  assumes "consent_frame env f"
  shows "terminal_frame env f" "preserves f (stderr_flush env)" "preserves f (stdin_line env)"
    "preserves f (probe (probe_device env) (conn_exchange env c))"
  using assms by (simp_all add: consent_frame_def)

text \<open>Some line read while the device was as at the start is a yes.\<close>

definition agreed :: "'w cli_env \<Rightarrow> ('w \<Rightarrow> 'b) \<Rightarrow> 'w \<Rightarrow> bool" where
  "agreed env f w \<longleftrightarrow> (\<exists>w1 answer w2. stdin_line env w1 = Some (Ok answer, w2) \<and> f w1 = f w \<and> f w2 = f w
     \<and> map ascii_lower (trim answer) \<in> {lit ''y'', lit ''yes''})"

lemma agreed_cong: "f s = f w \<Longrightarrow> agreed env f s \<longleftrightarrow> agreed env f w"
  by (simp add: agreed_def)

lemma confirm_asks:
  assumes "consent_frame env f"
  shows "wp (confirm env q) (\<lambda>r w'. f w' = f w \<and> (r = Ok True \<longrightarrow> agreed env f w)) w"
proof -
  note frame = consent_frameD [OF assms]
  have print: "preserves f (\<lambda>w. Some (Ok (), stderr_print env t w))" for t
    by (intro preserves_intros terminal_frameD [OF frame(1)])
  have io: "preserves f (io_result (stderr_flush env))" "preserves f (io_result (stdin_line env))"
    unfolding io_result_def by (intro preserves_intros frame)+
  have read: "stdin_line env w1 = Some (Ok a, w2)" if "io_result (stdin_line env) w1 = Some (Ok a, w2)" for w1 a w2
    using that by (auto simp: io_result_def proc_map_err_def map_err_Ok_iff split: option.splits)
  show ?thesis
    unfolding confirm_def
    apply (rule frame_bind [OF print])
     apply (rule frame_bind [OF io(1)])
      apply (rule frame_bind_run [OF io(2)])
       apply (auto simp: wp_ret agreed_def dest!: read)
    done
qed

text \<open>A step that is let through only by agreement stops whatever follows it.\<close>

lemma question_stops:
  assumes "consent_frame env f" and "\<not> agreed env f w" and "f s = f w"
  shows "wp (proc_bind (confirm env q) (\<lambda>yes. if yes then k else throw denied)) (\<lambda>r w'. f w' = f w \<and> \<not> is_ok r) s"
  unfolding wp_bind
  by (rule wp_mono [OF confirm_asks [OF assms(1)]])
    (use assms(2,3) agreed_cong [of f s w env] in \<open>auto simp: wp_throw split: sum.split\<close>)

lemma stopped_bind:
  assumes "wp m (\<lambda>r w'. f w' = v \<and> \<not> is_ok r) s"
  shows "wp (proc_bind m k) (\<lambda>r w'. f w' = v \<and> \<not> is_ok r) s"
  unfolding wp_bind by (rule wp_mono [OF assms]) (auto split: sum.split)

lemma preserves_connected:
  assumes "consent_frame (pcl_cli env) f"
  shows "preserves f (piv_connect env device reader)"
  unfolding piv_connect_def pcsc_result_def
  by (intro preserves_intros preserves_single_target terminal_frameD(1) consent_frameD [OF assms])

lemma preserves_opened:
  assumes "consent_frame (ocl_cli env) f"
  shows "preserves f (open_target env device reader)"
  unfolding open_target_def pcsc_result_def
  by (intro preserves_intros preserves_single_target terminal_frameD(1) consent_frameD [OF assms])

section \<open>The resets of the applets\<close>

lemma piv_reset_stops:
  assumes "consent_frame (pm_terminal env) f" and "\<not> agreed (pm_terminal env) f w"
  shows "wp (piv_reset env device reader False admin) (\<lambda>r w'. f w' = f w \<and> \<not> is_ok r) w"
  unfolding piv_reset_def confirmed_or_def if_False
  by (rule frame_bind [OF preserves_connected])
    (use assms in \<open>auto simp: pm_terminal_def intro!: stopped_bind [OF question_stops]\<close>)

lemma pgp_reset_stops:
  assumes "consent_frame (gc_terminal env) f" and "\<not> agreed (gc_terminal env) f w"
  shows "wp (pgp_reset env device reader False admin) (\<lambda>r w'. f w' = f w \<and> \<not> is_ok r) w"
  unfolding pgp_reset_def agreed_or_aborted_def confirmed_or_def if_False pgp_connect_def
  by (rule frame_bind [OF preserves_connected])
    (use assms in \<open>auto simp: gc_terminal_def gc_cli_def kc_cli_def pm_terminal_def intro!: stopped_bind [OF question_stops]\<close>)

lemma oath_reset_stops:
  assumes "consent_frame (ocl_cli env) f" and "\<not> agreed (ocl_cli env) f w"
  shows "wp (oath_reset env device reader False admin) (\<lambda>r w'. f w' = f w \<and> \<not> is_ok r) w"
  unfolding oath_reset_def confirmed_def if_False
  by (rule frame_bind [OF preserves_opened]) (use assms in \<open>auto intro!: stopped_bind [OF question_stops]\<close>)

lemma fido_reset_stops:
  assumes "consent_frame (fc_terminal env) f" and "\<not> agreed (fc_terminal env) f w"
  shows "wp (fido_reset_command env device reader False) (\<lambda>r w'. f w' = f w \<and> \<not> is_ok r) w"
  unfolding fido_reset_command_def fido_confirm_def if_False
  by (rule stopped_bind [OF stopped_bind [OF question_stops]]) (use assms in auto)

section \<open>The program\<close>

text \<open>The commands that erase, without \<^verbatim>\<open>--force\<close>, and what their question is asked on\<close>

fun asks_before_erasing :: "commands \<Rightarrow> bool" where
  "asks_before_erasing (ConfigCommands (ConfigReset force)) = (\<not> force)"
| "asks_before_erasing (OathCommands (OathReset force _)) = (\<not> force)"
| "asks_before_erasing (PivCommands (PivReset force _)) = (\<not> force)"
| "asks_before_erasing (OpenPgpCommands (PgpReset force _)) = (\<not> force)"
| "asks_before_erasing (FidoCommands (FidoReset force)) = (\<not> force)"
| "asks_before_erasing _ = False"

definition command_terminal :: "'w program \<Rightarrow> commands \<Rightarrow> 'w cli_env" where
  "command_terminal env c = (case c of
     ConfigCommands _ \<Rightarrow> cf_terminal (pr_config env) | OathCommands _ \<Rightarrow> ocl_cli (in_oath (pr_info env))
   | OpenPgpCommands _ \<Rightarrow> gc_terminal (in_pgp (pr_info env)) | FidoCommands _ \<Rightarrow> fc_terminal (in_fido (pr_info env))
   | _ \<Rightarrow> in_terminal (pr_info env))"

definition erasing_frame :: "'w program \<Rightarrow> commands \<Rightarrow> ('w \<Rightarrow> 'b) \<Rightarrow> bool" where
  "erasing_frame env c f \<longleftrightarrow> (\<forall>t w. f (report env t w) = f w) \<and> (\<forall>p. preserves f (create_log env p))
     \<and> (case c of ConfigCommands _ \<Rightarrow> config_frame (pr_config env) f | _ \<Rightarrow> consent_frame (command_terminal env c) f)"

definition allowed_to_erase :: "'w program \<Rightarrow> commands \<Rightarrow> ('w \<Rightarrow> 'b) \<Rightarrow> 'w \<Rightarrow> bool" where
  "allowed_to_erase env c f w \<longleftrightarrow> (case c of
     ConfigCommands _ \<Rightarrow> answered_yes (pr_config env) f w | _ \<Rightarrow> agreed (command_terminal env c) f w)"

lemma dispatch_stops:
  assumes "asks_before_erasing c" and "erasing_frame env c f" and "\<not> allowed_to_erase env c f w"
  shows "wp (dispatch env args c) (\<lambda>r w'. f w' = f w \<and> \<not> is_ok r) w"
proof (cases c rule: asks_before_erasing.cases)
  case (1 force)
  then have "wp (dispatch env args c) (\<lambda>r w'. f w' = f w \<and> \<not> is_ok r \<or> answered_yes (pr_config env) f w) w"
    using assms by (auto simp: dispatch_def config_run_def erasing_frame_def intro: factory_reset_stops)
  with 1 assms(3) show ?thesis by (auto simp: allowed_to_erase_def)
qed (use assms in \<open>auto simp: dispatch_def oath_command_run_def piv_command_run_def pgp_command_run_def fido_command_run_def erasing_frame_def
    allowed_to_erase_def command_terminal_def in_terminal_def in_cli_def ce_cli_def kc_cli_def pm_terminal_def
    piv_commands_of_def Let_def
    intro!: oath_reset_stops piv_reset_stops pgp_reset_stops fido_reset_stops\<close>)

lemma run_command_stops:
  assumes "asks_before_erasing c" and "erasing_frame env c f" and "\<not> allowed_to_erase env c f w"
    and "cl_command args = Some c" and "\<not> cl_diagnose args"
    and "run_command env args w = Some (code, w')"
  shows "code = ExitFailure \<and> f w' = f w"
proof -
  obtain r w1 where run: "dispatch env args c w = Some (r, w1)" and code: "(code, w') = finish env (r, w1)"
    using assms(4-6) by (auto simp: run_command_def)
  from wpD [OF dispatch_stops [OF assms(1-3)] run] have "f w1 = f w" "\<not> is_ok r" by auto
  with code assms(2) show ?thesis by (cases r) (auto simp: finish_def erasing_frame_def)
qed

text \<open>C37. A command that erases an applet or the whole device, run without \<^verbatim>\<open>--force\<close>, ends with the failure code and
  leaves the device as it was, unless the line read from the user agrees: \<^verbatim>\<open>y\<close> or \<^verbatim>\<open>yes\<close> in any case for an
  applet, exactly \<^verbatim>\<open>yes\<close> for the factory reset.  No error of the log file, the reader or the terminal changes that.\<close>

theorem erasing_needs_consent:
  assumes "asks_before_erasing c" and "erasing_frame env c f"
    and "cl_command args = Some c" and "\<not> cl_diagnose args"
    and "main_run env args w = Some (code, w')"
  shows "code = ExitFailure \<and> f w' = f w \<or> allowed_to_erase env c f w"
proof (rule ccontr)
  assume no: "\<not> ?thesis"
  have cong: "allowed_to_erase env c f s \<longleftrightarrow> allowed_to_erase env c f w" if "f s = f w" for s
    using that by (auto simp: allowed_to_erase_def agreed_def answered_yes_def split: commands.split)
  have stops: "code = ExitFailure \<and> f w' = f w" if "run_command env args s = Some (code, w')" "f s = f w" for s
    using run_command_stops [OF assms(1,2) _ assms(3,4) that(1)] cong [OF that(2)] no that(2) by auto
  have logged: "f s = f w" if "create_log env p w = Some (r, s)" for p r s
    using assms(2) that preservesD [of f "create_log env p" w r s] by (auto simp: erasing_frame_def)
  have printed: "f (report env t s) = f s" for t s using assms(2) by (simp add: erasing_frame_def)
  from assms(5) consider "run_command env args w = Some (code, w')"
    | p s where "create_log env p w = Some (Ok (), s)" "run_command env args s = Some (code, w')"
    | p e t s where "create_log env p w = Some (Err e, s)" "code = ExitFailure" "w' = report env t s"
    by (auto simp: main_run_def split: option.splits sum.splits)
  then show False
    using no stops logged printed by cases metis+
qed

text \<open>A device that any request would change, and a terminal at the end of its input\<close>

definition lost_information :: "lost_world oath_cli \<Rightarrow> lost_world fido_cli \<Rightarrow> lost_world information" where
  "lost_information oath fido =
     \<lparr>in_piv = \<lparr>ce_keys = gc_keys slot_cli, parse_x509 = \<lambda>_. Err ''x509''\<rparr>, in_oath = oath, in_pgp = slot_cli, in_fido = fido,
      profile_info_of = \<lambda>_. \<lparr>pi_model = None, pi_firmware_text = lit ''3.1.0'', pi_firmware_recognized = True,
        pi_piv_version = None, pi_warnings = [], pi_attestation = Unsupported, pi_metadata = Unsupported\<rparr>,
      summary_of = \<lambda>_. None, calendar = \<lambda>_. None,
      in_debug = \<lparr>debug_origin = \<lambda>_. ''Known'', debug_pin_policy = \<lambda>_. ''Once'', debug_touch_policy = \<lambda>_. ''Never'',
        debug_known_pin_policy = \<lambda>_. ''Known'', debug_known_touch_policy = \<lambda>_. ''Known''\<rparr>,
      in_accessors = \<lparr>aid_of = \<lambda>_. Ok None, password_counters_of = \<lambda>_. Ok None, name_of = \<lambda>_. Ok None,
        language_of = \<lambda>_. Ok None, sex_of = \<lambda>_. Ok None\<rparr>,
      cose_debug = \<lambda>_. lit ''Unknown'', build_version = lit ''0.1.0'', platform_text = lit ''linux''\<rparr>"

definition lost_program :: "lost_world oath_cli \<Rightarrow> lost_world fido_cli \<Rightarrow> lost_world program" where
  "lost_program oath fido = \<lparr>pr_info = lost_information oath fido, pr_config = reset_config, create_log = \<lambda>_. ret (),
     print_help = \<lambda>w. w, completion_script = \<lambda>_. []\<rparr>"

definition reset_arguments :: cli where
  "reset_arguments = \<lparr>cl_device = None, cl_reader = None, cl_log_level = None, cl_log_file = None, cl_diagnose = False,
     cl_command = Some (OpenPgpCommands (PgpReset False None))\<rparr>"

lemma lost_terminals:
  "in_terminal (lost_information oath fido) = pcl_cli lost_cli" "stderr_flush (pcl_cli lost_cli) = ret ()"
  by (simp_all add: lost_information_def in_terminal_def in_cli_def ce_cli_def slot_sel lost_sel)
    (simp add: lost_cli_def sample_cli_def)

lemma lost_erasing_frame: "erasing_frame (lost_program oath fido) (OpenPgpCommands (PgpReset False None)) fst"
  using reset_frame
  by (auto simp: erasing_frame_def consent_frame_def command_terminal_def lost_program_def lost_information_def slot_sel
      config_frame_def reset_sel lost_terminals report_def lost_terminals[unfolded lost_information_def]
      lost_terminal intro: preserves_ret)

theorem erasing_needs_consent_witness:
  "\<forall>oath fido. case main_run (lost_program oath fido) reset_arguments (ManagementKey Tdes [], \<lambda>_. None) of
     Some (code, w') \<Rightarrow> code = ExitFailure \<and> fst w' = ManagementKey Tdes [] | None \<Rightarrow> True"
proof (intro allI)
  fix oath fido
  let ?c = "OpenPgpCommands (PgpReset False None)"
  have "map ascii_lower (trim []) \<notin> {lit ''y'', lit ''yes''}" by code_simp
  then have no: "\<not> allowed_to_erase (lost_program oath fido) ?c fst w" for w
    by (auto simp: allowed_to_erase_def command_terminal_def lost_program_def lost_information_def slot_sel agreed_def
        reset_sel ret_def)
  have "code = ExitFailure \<and> fst w' = ManagementKey Tdes []"
    if "main_run (lost_program oath fido) reset_arguments (ManagementKey Tdes [], \<lambda>_. None) = Some (code, w')" for code w'
    using erasing_needs_consent [OF _ lost_erasing_frame _ _ that] no by (auto simp: reset_arguments_def)
  then show "case main_run (lost_program oath fido) reset_arguments (ManagementKey Tdes [], \<lambda>_. None) of
     Some (code, w') \<Rightarrow> code = ExitFailure \<and> fst w' = ManagementKey Tdes [] | None \<Rightarrow> True"
    by (auto split: option.split)
qed

end
