(* ===== verification/Listing.thy ===== *)
theory Listing
  imports ProgramSafety
begin

text \<open>
  That the listing and the selection agree: a serial number that \<^verbatim>\<open>ckman list --serials\<close> prints names the device a
  command with \<^verbatim>\<open>--device\<close> goes to.
\<close>

section \<open>Readers at rest\<close>

text \<open>While the readers are asked, nothing changes: \<open>con\<close> is what connecting to a reader gives, \<open>prb\<close> what probing a
  connection gives.\<close>

definition at_rest :: "'w cli_env \<Rightarrow> 'w \<Rightarrow> byte list list \<Rightarrow> (byte list \<Rightarrow> pcsc_error + connection)
    \<Rightarrow> (connection \<Rightarrow> io_error drive_error + device_profile) \<Rightarrow> bool" where
  "at_rest env w rs con prb \<longleftrightarrow> readers env w = Some (Ok rs, w) \<and> (\<forall>r. connect_reader env r w = Some (con r, w))
     \<and> (\<forall>c. probe (probe_device env) (conn_exchange env c) w = Some (prb c, w))"

definition found_in :: "(byte list \<Rightarrow> pcsc_error + connection) \<Rightarrow> (connection \<Rightarrow> io_error drive_error + device_profile)
    \<Rightarrow> byte list \<Rightarrow> target option" where
  "found_in con prb r = (case con r of Err _ \<Rightarrow> None | Ok c \<Rightarrow> if \<not> is_canokey c then None
     else (case prb c of Err _ \<Rightarrow> None | Ok p \<Rightarrow> Some \<lparr>tg_connection = c, tg_profile = p\<rparr>))"

text \<open>A reader is accounted for when it is empty, holds another card, or its CanoKey answers.\<close>

definition accounted :: "(byte list \<Rightarrow> pcsc_error + connection) \<Rightarrow> (connection \<Rightarrow> io_error drive_error + device_profile)
    \<Rightarrow> byte list \<Rightarrow> bool" where
  "accounted con prb r = (case con r of Err e \<Rightarrow> is_no_smartcard e | Ok c \<Rightarrow> is_canokey c \<longrightarrow> is_ok (prb c))"

lemma candidate_at_rest:
  assumes "at_rest env w rs con prb"
  obtains e where "selection_candidate env r w = Some (if accounted con prb r then Ok (found_in con prb r) else Err e, w)"
proof -
  have con: "connect_reader env r w = Some (con r, w)" and prb: "probe (probe_device env) (conn_exchange env c) w = Some (prb c, w)" for c
    using assms by (simp_all add: at_rest_def)
  show thesis
  proof (cases "con r")
    case (Inl e)
    with con show thesis
      by (intro that) (auto simp: selection_candidate_def proc_try_def accounted_def found_in_def ret_def throw_def)
  next
    case (Inr c)
    with con prb [of c] show thesis
      by (cases "prb c") (intro that; auto simp: selection_candidate_def proc_try_def accounted_def found_in_def ret_def
          throw_def proc_bind_def proc_map_err_def)+
  qed
qed

lemma probe_reader_at_rest:
  assumes "at_rest env w rs con prb"
  obtains e where "probe_reader env r w = Some (case found_in con prb r of Some t \<Rightarrow> Ok t | None \<Rightarrow> Err e, w)"
proof -
  have con: "connect_reader env r w = Some (con r, w)" and prb: "probe (probe_device env) (conn_exchange env c) w = Some (prb c, w)" for c
    using assms by (simp_all add: at_rest_def)
  show thesis
  proof (cases "con r")
    case (Inl e)
    with con show thesis
      by (intro that) (auto simp: probe_reader_def found_in_def proc_bind_def proc_map_err_def)
  next
    case (Inr c)
    with con prb [of c] show thesis
      by (cases "prb c"; cases "is_canokey c"; intro that;
        auto simp: probe_reader_def found_in_def ret_def throw_def proc_bind_def proc_map_err_def)
  qed
qed

lemma listed_at_rest:
  assumes "at_rest env w all con prb"
  shows "probe_matching env None rs w = Some (Ok (List.map_filter (found_in con prb) rs), w)"
proof (induction rs)
  case (Cons r rs)
  obtain e where "probe_reader env r w = Some (case found_in con prb r of Some t \<Rightarrow> Ok t | None \<Rightarrow> Err e, w)"
    by (rule probe_reader_at_rest [OF assms])
  with Cons show ?case
    by (auto simp: proc_try_def proc_bind_def ret_def List.map_filter_simps split: option.split)
qed (simp add: ret_def List.map_filter_simps)

lemma selected_at_rest:
  assumes "at_rest env w all con prb"
  obtains e where "selection_targets rs (selection_candidate env) w
    = Some (if list_all (accounted con prb) rs then Ok (List.map_filter (found_in con prb) rs) else Err e, w)"
proof (induction rs arbitrary: thesis)
  case Nil
  show ?case by (rule Nil) (simp add: ret_def List.map_filter_simps)
next
  case (Cons r rs)
  obtain e where one: "selection_candidate env r w = Some (if accounted con prb r then Ok (found_in con prb r) else Err e, w)"
    by (rule candidate_at_rest [OF assms])
  obtain e' where "selection_targets rs (selection_candidate env) w
      = Some (if list_all (accounted con prb) rs then Ok (List.map_filter (found_in con prb) rs) else Err e', w)"
    by (rule Cons.IH)
  with one show ?case
    by (intro Cons.prems [of "if accounted con prb r then e' else e"])
      (auto simp: proc_bind_def ret_def List.map_filter_simps split: option.split)
qed

section \<open>Serial numbers as text\<close>

lemma serial_text_inj: "lit (show_nat (unat (a :: u32))) = lit (show_nat (unat b)) \<longleftrightarrow> a = b"
proof
  assume "lit (show_nat (unat a)) = lit (show_nat (unat b))"
  moreover have "unat x < 2 ^ LENGTH(32)" for x :: u32 by (rule unsigned_less)
  then have "unat x \<le> 2 ^ 32 - 1" for x :: u32 using less_Suc_eq_le [of "unat x" "2 ^ 32 - 1"] by simp
  ultimately have "unat a = unat b" by (metis option.inject parse_unsigned_show)
  then show "a = b" by (rule unsigned_word_eqI)
qed simp

lemma count_serials:
  "count_list (map (\<lambda>serial :: u32. lit (show_nat (unat serial))) (List.map_filter g ts)) (lit (show_nat (unat s)))
     = length (filter (\<lambda>t. g t = Some s) ts)"
  by (induction ts) (auto simp: List.map_filter_simps serial_text_inj split: option.split)

lemma only_one: "xs = [t] \<longleftrightarrow> length xs = 1 \<and> t \<in> set xs"
  by (cases xs) auto

section \<open>Property\<close>

text \<open>C38. What \<^verbatim>\<open>list --serials\<close> prints is what \<^verbatim>\<open>--device\<close> takes: with readers at rest, the listing succeeds, and
  a command given a serial number goes to the device \<open>t\<close> exactly when the number is on one line of the listing, \<open>t\<close> is
  the listed device that has it, and every reader could be accounted for.\<close>

theorem listed_serial_selects:
  assumes "at_rest (in_terminal env) w rs con prb"
  shows "\<exists>ts. all_targets (in_terminal env) w = Some (Ok ts, w)
    \<and> (single_target (in_terminal env) (Some serial) None w = Some (Ok t, w)
      \<longleftrightarrow> list_all (accounted con prb) rs \<and> t \<in> set ts \<and> target_serial (in_terminal env) t = Some serial
        \<and> count_list (list_lines env True None ts) (lit (show_nat (unat serial))) = 1)"
proof (intro exI conjI)
  let ?env = "in_terminal env" and ?ts = "List.map_filter (found_in con prb) rs"
  let ?P = "\<lambda>t. target_serial ?env t = Some serial"
  have rs: "readers ?env w = Some (Ok rs, w)" using assms by (simp add: at_rest_def)
  then show "all_targets ?env w = Some (Ok ?ts, w)"
    by (simp add: all_targets_def targets_matching_reader_def pcsc_result_def proc_bind_def proc_map_err_def
        listed_at_rest [OF assms])
  obtain e where "selection_targets rs (selection_candidate ?env) w
      = Some (if list_all (accounted con prb) rs then Ok ?ts else Err e, w)"
    by (rule selected_at_rest [OF assms])
  with rs have "single_target ?env (Some serial) None w = Some (Ok t, w)
      \<longleftrightarrow> list_all (accounted con prb) rs \<and> filter ?P ?ts = [t]"
    by (auto simp: single_target_def pcsc_result_def proc_bind_def proc_map_err_def lift_res_def only_match_def ret_def
        throw_def split: list.splits)
  also have "filter ?P ?ts = [t] \<longleftrightarrow> t \<in> set ?ts \<and> ?P t
      \<and> count_list (list_lines env True None ?ts) (lit (show_nat (unat serial))) = 1"
    unfolding only_one [of "filter ?P ?ts"] by (auto simp: list_lines_def count_serials)
  finally show "single_target ?env (Some serial) None w = Some (Ok t, w)
      \<longleftrightarrow> list_all (accounted con prb) rs \<and> t \<in> set ?ts \<and> ?P t
        \<and> count_list (list_lines env True None ?ts) (lit (show_nat (unat serial))) = 1" .
qed

text \<open>One reader, whose device has serial number 7\<close>

definition serial_cli :: "lost_world cli_env" where
  "serial_cli = (sample_cli [lit ''Canokey''])\<lparr>serial_bytes := \<lambda>_. Some [0, 0, 0, 7]\<rparr>"

definition serial_information :: "lost_world oath_cli \<Rightarrow> lost_world fido_cli \<Rightarrow> lost_world information" where
  "serial_information oath fido = (lost_information oath fido)\<lparr>in_piv :=
     \<lparr>ce_keys = (gc_keys slot_cli)\<lparr>kc_piv := lost_env\<lparr>pm_cli := lost_cli\<lparr>pcl_cli := serial_cli\<rparr>\<rparr>\<rparr>,
      parse_x509 = \<lambda>_. Err ''x509''\<rparr>\<rparr>"

definition serial_target :: target where
  "serial_target = \<lparr>tg_connection = \<lparr>conn_card = 7, conn_reader = lit ''Canokey'', conn_atr = []\<rparr>, tg_profile = DeviceProfile 2\<rparr>"

lemma serial_terminal: "in_terminal (serial_information oath fido) = serial_cli"
  by (simp add: in_terminal_def in_cli_def ce_cli_def kc_cli_def serial_information_def)

lemma serial_rest:
  "at_rest serial_cli w [lit ''Canokey''] (\<lambda>r. Ok \<lparr>conn_card = length r, conn_reader = reader_name r, conn_atr = []\<rparr>)
     (\<lambda>_. Ok (DeviceProfile 2))"
  by (simp add: at_rest_def serial_cli_def sample_cli_def readers_def connect_reader_def proc_try_def proc_bind_def ret_def
      probe_def lift_res_def execute_def drive_loop.simps)

theorem listed_serial_selects_witness:
  "\<forall>oath fido. single_target (in_terminal (serial_information oath fido)) (Some 7) None (ManagementKey Tdes [], \<lambda>_. None)
     = Some (Ok serial_target, ManagementKey Tdes [], \<lambda>_. None)"
proof (intro allI)
  fix oath fido
  let ?env = "serial_information oath fido" and ?w = "(ManagementKey Tdes [], \<lambda>_. None) :: lost_world"
  let ?con = "\<lambda>r. Ok \<lparr>conn_card = length r, conn_reader = reader_name r, conn_atr = []\<rparr> :: pcsc_error + connection"
  let ?prb = "\<lambda>_. Ok (DeviceProfile 2) :: io_error drive_error + device_profile"
  have rest: "at_rest (in_terminal ?env) ?w [lit ''Canokey''] ?con ?prb" by (simp add: serial_terminal serial_rest)
  have found: "accounted ?con ?prb (lit ''Canokey'')" "found_in ?con ?prb (lit ''Canokey'') = Some serial_target"
    by code_simp+
  have serial: "target_serial (in_terminal ?env) serial_target = Some 7"
    unfolding serial_terminal by (simp add: target_serial_def serial_cli_def)
  have ts: "all_targets (in_terminal ?env) ?w = Some (Ok [serial_target], ?w)"
    using rest listed_at_rest [OF rest, of "[lit ''Canokey'']"] found
    by (simp add: at_rest_def all_targets_def targets_matching_reader_def pcsc_result_def proc_bind_def proc_map_err_def
        List.map_filter_simps)
  have "count_list (list_lines ?env True None [serial_target]) (lit (show_nat (unat (7 :: u32)))) = 1"
    by (simp add: list_lines_def serial List.map_filter_simps)
  with ts serial found listed_serial_selects [OF rest, of 7 serial_target]
  show "single_target (in_terminal ?env) (Some 7) None ?w = Some (Ok serial_target, ?w)" by auto
qed

end
