(* ===== verification/Spellings.thy ===== *)
theory Spellings
  imports ProgramSafety
begin

text \<open>
  Corner cases of the command line's notation, worked out on concrete arguments: what the parsers take that
  their help does not mention, and what they do not take although it does.
\<close>

text \<open>\<^verbatim>\<open>from_str_radix\<close> takes a plus sign, so a slot and hexadecimal data may contain one.\<close>

lemma plus_sign_in_slot: "parse_slot env (lit ''+82'') = ok_or (lit ''invalid slot'') (retired_slot env 1)"
proof -
  have "map ascii_lower (lit ''+82'') = lit ''+82''" "u8_from_hex (lit ''+82'') = Some 0x82" by code_simp+
  moreover have "lit ''+82'' \<notin> {lit ''9a'', lit ''9c'', lit ''9d'', lit ''9e''}" by code_simp
  ultimately show ?thesis by (simp add: parse_slot_def ok_or_def res_bind_def)
qed

lemma plus_sign_in_hex: "hex_decode (lit ''+a+b'') = Some [0x0a, 0x0b]"
  by code_simp

text \<open>A credential is found by a prefix of its ID, not by any substring.\<close>

definition beef_row :: cred_row where
  "beef_row = \<lparr>cw_rp_id = lit ''example.com'', cw_credential_id = [0xde, 0xad, 0xbe, 0xef], cw_user_id = [1],
     cw_user_name = lit ''alice'', cw_display_name = lit ''Alice''\<rparr>"

lemma substring_of_credential_misses:
  "only_hit [beef_row] (lit ''dead'') = Ok beef_row" "only_hit [beef_row] (lit ''beef'') = Err (lit ''no matching credential'')"
  by code_simp+

text \<open>The ID column of the table is as wide as its header says only by accident: the width counts bytes, the cell
  digits.  Here the header puts the second column at 15, the row at 13.\<close>

lemma credential_columns_differ:
  "take 17 (credential_table [beef_row] ! 0) = lit ''Credential ID  RP''"
  "take 15 (credential_table [beef_row] ! 1) = lit ''deadbeef...  ex''"
  by code_simp+

text \<open>With \<^verbatim>\<open>--force\<close> a new management key need not be given or asked for: \<^verbatim>\<open>--protect\<close> generates one.\<close>

lemma forced_protection_generates:
  "\<not> ca_generate args \<Longrightarrow> ca_new_key args = None \<Longrightarrow> ca_protect args \<Longrightarrow> new_key_bytes env args = random_message env 24"
  by (auto simp: new_key_bytes_def proc_bind_def ret_def fun_eq_iff split: option.split sum.split)

section \<open>Slots\<close>

text \<open>The slots of a card, and what libcanokey says of them: a retired slot is made from 1 to 20 and its reference byte
  follows 0x81.\<close>

fun card_slot :: "slot \<Rightarrow> bool" where
  "card_slot (Retired n) \<longleftrightarrow> 1 \<le> n \<and> n \<le> 20"
| "card_slot _ \<longleftrightarrow> True"

fun slot_byte :: "slot \<Rightarrow> u8" where
  "slot_byte Authentication = 0x9a"
| "slot_byte Signature = 0x9c"
| "slot_byte KeyManagement = 0x9d"
| "slot_byte CardAuthentication = 0x9e"
| "slot_byte (Retired n) = 0x81 + word_of_nat n"

definition slot_laws :: "'w piv_cli \<Rightarrow> bool" where
  "slot_laws env \<longleftrightarrow> (\<forall>n. retired_slot env n = (if 1 \<le> n \<and> n \<le> 20 then Some (Retired (unat n)) else None))
     \<and> (\<forall>s. card_slot s \<longrightarrow> slot_reference (pcl_attest env) s = slot_byte s)"

lemma parsed_is_card_slot:
  assumes "slot_laws env" and "parse_slot env t = Ok s"
  shows "card_slot s"
  using assms
  by (auto simp: parse_slot_def slot_laws_def Let_def res_bind_Ok_iff ok_or_Ok_iff unat_arith_simps
      split: if_splits; arith)

definition retired_spelling :: "nat \<Rightarrow> bool" where
  "retired_spelling n \<longleftrightarrow> (let b = 0x81 + word_of_nat n :: u8; t = hex_text [b] in
     map ascii_lower t = t \<and> u8_from_hex t = Some b \<and> 0x82 \<le> b \<and> b \<le> 0x95 \<and> unat (b - 0x81) = n
     \<and> t \<notin> {lit ''9a'', lit ''9c'', lit ''9d'', lit ''9e''} \<and> 1 \<le> b - 0x81 \<and> b - 0x81 \<le> 20)"

lemma retired_spellings: "list_all retired_spelling [1..<21]"
  by code_simp

lemma card_slot_spelling:
  assumes "slot_laws env" and "card_slot s"
  shows "parse_slot env (slot_name env s) = Ok s"
proof (cases s)
  case (Retired n)
  with assms(2) retired_spellings have "retired_spelling n" by (auto simp: list_all_iff)
  with Retired assms show ?thesis
    by (auto simp: retired_spelling_def Let_def slot_laws_def slot_name_def parse_slot_def res_bind_def ok_or_def)
next
  case Authentication
  have "map ascii_lower (hex_text [0x9a]) = lit ''9a''" by code_simp
  with Authentication assms show ?thesis by (simp add: slot_laws_def slot_name_def parse_slot_def)
next
  case Signature
  have "map ascii_lower (hex_text [0x9c]) = lit ''9c''" "lit ''9c'' \<noteq> lit ''9a''" by code_simp+
  with Signature assms show ?thesis by (simp add: slot_laws_def slot_name_def parse_slot_def)
next
  case KeyManagement
  have "map ascii_lower (hex_text [0x9d]) = lit ''9d''" "lit ''9d'' \<notin> {lit ''9a'', lit ''9c''}" by code_simp+
  with KeyManagement assms show ?thesis by (simp add: slot_laws_def slot_name_def parse_slot_def)
next
  case CardAuthentication
  have "map ascii_lower (hex_text [0x9e]) = lit ''9e''" "lit ''9e'' \<notin> {lit ''9a'', lit ''9c'', lit ''9d''}" by code_simp+
  with CardAuthentication assms show ?thesis by (simp add: slot_laws_def slot_name_def parse_slot_def)
qed

lemma slot_is_no_attestation:
  assumes "slot_laws env" and "card_slot s"
  shows "\<not> is_attestation_name (slot_name env s)"
proof -
  have "length (slot_name env s) = 2" by (simp add: slot_name_def)
  moreover have "length (lit ''att'') = 3" "length (lit ''attestation'') = 11" by code_simp+
  moreover have "parse_slot env t \<noteq> Ok s" if "map ascii_lower t = lit ''f9''" for t
  proof -
    have "u8_from_hex (lit ''f9'') = Some 0xf9" "lit ''f9'' \<notin> {lit ''9a'', lit ''9c'', lit ''9d'', lit ''9e''}"
      by code_simp+
    with that show ?thesis by (simp add: parse_slot_def ok_or_def)
  qed
  ultimately show ?thesis
    using card_slot_spelling [OF assms]
    by (auto simp: is_attestation_name_def dest: arg_cong [where f = length])
qed

text \<open>C39. The key references that an argument can name are exactly the 24 slots of a card and the attestation key, and what
  the program prints for one of them names it again.\<close>

theorem key_references_typed:
  assumes "slot_laws env"
  shows "((\<exists>t. parse_key_reference env t = Ok r) \<longleftrightarrow> (case r of KeyRef s \<Rightarrow> card_slot s | AttestationRef \<Rightarrow> True))
    \<and> (case r of KeyRef s \<Rightarrow> card_slot s \<longrightarrow> parse_key_reference env (key_name env r) = Ok r
        | AttestationRef \<Rightarrow> parse_key_reference env (key_name env r) = Ok r)"
proof (cases r)
  case (KeyRef s)
  have "parse_key_reference env (slot_name env s) = Ok (KeyRef s)" if "card_slot s"
    using slot_is_no_attestation [OF assms that] card_slot_spelling [OF assms that]
    by (simp add: parse_key_reference_def)
  moreover have "card_slot s" if "parse_key_reference env t = Ok (KeyRef s)" for t
    using that parsed_is_card_slot [OF assms] by (auto simp: parse_key_reference_def res_bind_Ok_iff split: if_splits)
  ultimately show ?thesis
    using KeyRef by (auto simp: key_name_def key_certificate_def certificate_slot_name_def)
next
  case AttestationRef
  have "is_attestation_name (lit ''f9'')" by code_simp
  with AttestationRef show ?thesis
    by (auto simp: parse_key_reference_def key_name_def key_certificate_def certificate_slot_name_def intro: exI [of _ "lit ''f9''"])
qed

text \<open>A library that obeys the laws\<close>

definition slot_sample :: "lost_world piv_cli" where
  "slot_sample = lost_cli\<lparr>retired_slot := \<lambda>n. if 1 \<le> n \<and> n \<le> 20 then Some (Retired (unat n)) else None,
     pcl_attest := (pcl_attest lost_cli)\<lparr>slot_reference := slot_byte\<rparr>\<rparr>"

theorem key_references_typed_witness:
  "parse_key_reference slot_sample (key_name slot_sample (KeyRef (Retired 20))) = Ok (KeyRef (Retired 20))
    \<and> \<not> (\<exists>t. parse_key_reference slot_sample t = Ok (KeyRef (Retired 21)))"
proof -
  have "slot_laws slot_sample" by (simp add: slot_laws_def slot_sample_def)
  from key_references_typed [OF this, of "KeyRef (Retired 20)"] key_references_typed [OF this, of "KeyRef (Retired 21)"]
  show ?thesis by simp
qed

end
