(* ===== verification/Spec2Isabelle.thy ===== *)
theory Spec2Isabelle
  imports Trace CtapChannel PivBatch PivProps OathCli Output KeyFile PivKeySafety PivConsent PivCertificates FidoCli OpenPgpSafety ConfigSafety Information ProgramSafety Listing Spellings
begin

text \<open>
  A verification development of ckman, the command-line manager for CanoKey devices.

  \<^bold>\<open>The program.\<close>  Three crates: \<^verbatim>\<open>ckman-transport\<close> carries bytes to a device (CTAPHID over reports,
  PC/SC), \<^verbatim>\<open>ckman-core\<close> drives libcanokey's protocol operations and does the host-side work (keys,
  certificates, URIs, attestation), and \<^verbatim>\<open>ckman\<close> is the command line: it selects a reader, resolves
  secrets, asks for consent and writes files.  A command connects (Cli), drives operations over the
  connection (Drive, then the applet's theory) and reports an error as a message.

  \<^bold>\<open>How it is modelled.\<close>  A procedure maps a world to a result and a world, or does not return
  (Prelude); \<^verbatim>\<open>?\<close> is \<open>proc_bind\<close>, an enum is a datatype, a struct a record, machine integers are
  words, strings are their UTF-8 bytes.  Code that is not in the repository (libcanokey, the DER,
  cryptography and PC/SC crates, the operating system, the terminal) is a record of functions that a
  definition takes as an argument; what is relied on is a named predicate (\<open>card_laws\<close>, \<open>fs_laws\<close>, \<open>recovery_laws\<close>,
  \<open>base64_laws\<close>, \<open>digest_laws\<close>, \<open>big_laws\<close>, \<open>spki_laws\<close>, \<open>import_laws\<close>), and each property that
  assumes one has a witness with a concrete instance.

  \<^bold>\<open>Theories.\<close>
  \<^item> Prelude, Strings, HexText, BigEndian: results, procedures and their weakest preconditions, bytes, the
    string functions of the Rust standard library, numbers as bytes; the codec locales.
  \<^item> CtapHid, CtapChannel (\<^verbatim>\<open>ckman-transport/src/ctaphid.rs\<close>): fragmentation and reassembly, channel
    allocation and requests with keepalives and deadlines, and the loopback device.
  \<^item> Base32, OathTypes, OtpUri (\<^verbatim>\<open>ckman-core/src/uri.rs\<close>): secrets and \<^verbatim>\<open>otpauth://\<close> URIs.
  \<^item> X509 (\<^verbatim>\<open>x509.rs\<close>), Pem, Keys, Pfx, KeyFile (\<^verbatim>\<open>keys/mod.rs\<close>, \<^verbatim>\<open>keys/pq.rs\<close>, \<^verbatim>\<open>keys/pfx.rs\<close>):
    subjects, padding, certificates and requests; key files, PKCS\#12 bundles, public keys.
  \<^item> Drive (\<^verbatim>\<open>lib.rs\<close>): driving one library operation over an exchange.
  \<^item> PivTypes, Attestation, Piv, PivSigning, Pivman, PivCard, PivProps, PivBatch (\<^verbatim>\<open>piv.rs\<close>,
    \<^verbatim>\<open>piv/attestation.rs\<close>): the PIV wrappers, the attestation policy, management keys and their
    synchronized replacement over a card that obeys \<open>card_laws\<close>.
  \<^item> Oath, Admin (\<^verbatim>\<open>oath.rs\<close>, \<^verbatim>\<open>admin.rs\<close>): the other wrappers, credential names, Steam codes.
  \<^item> Fido (\<^verbatim>\<open>fido.rs\<close>): the CTAP wrappers, the smart-card envelope over CTAPHID, PIN normalization.
  \<^item> Hid (\<^verbatim>\<open>ckman-transport/src/hid.rs\<close>), FidoCli (\<^verbatim>\<open>commands/fido.rs\<close>): the USB interfaces, the link a
    FIDO command runs over, PIN entry, the commands and the credential listing.
  \<^item> OpenPgp (\<^verbatim>\<open>openpgp.rs\<close>), OpenPgpCli, OpenPgpSafety (\<^verbatim>\<open>commands/openpgp.rs\<close>): the OpenPGP wrappers and
    commands, and that no key is discarded for a key file that cannot be imported.
  \<^item> Config, ConfigSafety (\<^verbatim>\<open>commands/config.rs\<close>, \<^verbatim>\<open>ndef.rs\<close>): the configuration commands, that each is confined to
    the requests its arguments name, and the confirmation of a factory reset.
  \<^item> Cli, Trace, Frames, CommandFrames, Output (\<^verbatim>\<open>ckman/src/commands/mod.rs\<close>, \<^verbatim>\<open>input.rs\<close>, \<^verbatim>\<open>output.rs\<close>,
    \<^verbatim>\<open>ckman-transport/src/pcsc.rs\<close>): reader selection, prompts, the Admin PIN retry, atomic output.
  \<^item> OathCli (\<^verbatim>\<open>commands/oath.rs\<close>), PivCli, PivOverwrite, PivConsent, PivRecovery, PivAccess, PivKeySafety, PivKeyCommands,
    PivCertificates (\<^verbatim>\<open>commands/piv.rs\<close>,
    \<^verbatim>\<open>commands/piv/overwrite.rs\<close>, \<^verbatim>\<open>commands/piv_recovery.rs\<close>): the sessions, key resolution and consent of the commands.
  \<^item> Information (\<^verbatim>\<open>commands/info.rs\<close>, \<^verbatim>\<open>commands/list.rs\<close>, \<^verbatim>\<open>diagnose.rs\<close>): the reports, and the \<^verbatim>\<open>info\<close>
    command of every applet.
  \<^item> PivTables, Tables, Program, ProgramSafety (\<^verbatim>\<open>cli.rs\<close>, \<^verbatim>\<open>lib.rs\<close> and the tables of \<^verbatim>\<open>commands/*.rs\<close>): the parsed arguments,
    the choice of the command, the exit code; nothing is erased without consent.
  \<^item> Listing, Spellings: that the listing and the selection of a device agree; what arguments can name, and corner
    cases of their notation.

  \<^bold>\<open>What is shown.\<close>  Round trips of every codec (framing, Base32, URIs, subjects, PEM, pivman objects,
  credential names, remembered keys); the state invariants of the decoder and of accepted keys;
  equivalence of the parsers and of the attestation policy with what they should accept; refinement
  of the PKCS\#12 key derivation to RFC 7292 and of the drive loop to its protocol; the order of the
  card updates when a management key or a PIN is replaced, whatever fails in between; atomic output;
  that consent, validation and refusals come before any change.

  \<^bold>\<open>Loops.\<close>  A loop that may not end is a \<open>partial_function\<close> whose \<open>None\<close> is not returning
  (\<open>request_loop\<close>, \<open>drive_loop\<close>, \<open>read_secret_from\<close>), with a lemma that it returns; the rounds of the
  PKCS\#12 derivation are bounded by the length of the output, which \<open>kdf_rounds_enough\<close> shows to
  be enough; the attempts to allocate a temporary file are eight, as in the code.

  \<^bold>\<open>Not modelled.\<close>  The parsing of the command line (clap) and the restrictions that a table puts on
  a value; the help text and the completion scripts, which clap renders; the log records other than the transport's; the redacting \<^verbatim>\<open>Debug\<close>
  instances, which no result depends on; the zeroing of secrets in memory, which has no place in a model of values; the
  manual-page generator, which only writes what clap renders.  The tests are not modelled.
\<close>

end
